(* ===== verification/Prelude.thy ===== *)
theory Prelude
  imports Main "HOL-Library.Word" "HOL-Library.Char_ord"
begin

text \<open>
  Shared vocabulary of the development.  A stateful C++ function is a \<open>prog\<close>: it takes the
  state and gives a result, or an exception, together with the state it leaves behind (an
  exception does not undo the writes made before it).  The sequencing operators are ordinary
  prefix functions, so a model reads \<open>bnd (call) (\<lambda>x. rest)\<close> where the source has
  \<open>x = call(); rest\<close>.  \<open>wp\<close> is the weakest precondition of a \<open>prog\<close> with one
  postcondition for results and one for exceptions; the rules collected in \<open>vcg\<close> walk a
  program from its first statement.  The theory also holds the C-string operations and the list
  and map lemmas the components share.
\<close>

named_theorems vcg \<open>introduction rules that step through a program\<close>
named_theorems exec \<open>equations that run a program on a state\<close>

section \<open>Programs with state and exceptions\<close>

type_synonym ('s, 'e, 'a) prog = "'s \<Rightarrow> ('e + 'a) \<times> 's"

definition ret :: "'a \<Rightarrow> ('s, 'e, 'a) prog" where
  "ret x s = (Inr x, s)"

definition raise :: "'e \<Rightarrow> ('s, 'e, 'a) prog" where
  "raise e s = (Inl e, s)"

definition bnd :: "('s, 'e, 'a) prog \<Rightarrow> ('a \<Rightarrow> ('s, 'e, 'b) prog) \<Rightarrow> ('s, 'e, 'b) prog" where
  "bnd m f s = (case m s of (Inl e, t) \<Rightarrow> (Inl e, t) | (Inr x, t) \<Rightarrow> f x t)"

definition sq :: "('s, 'e, 'a) prog \<Rightarrow> ('s, 'e, 'b) prog \<Rightarrow> ('s, 'e, 'b) prog" where
  "sq m k = bnd m (\<lambda>_. k)"

text \<open>The result of a call whose status the source does not look at.\<close>

definition attempt :: "('s, 'e, 'a) prog \<Rightarrow> ('s, 'f, 'e + 'a) prog" where
  "attempt m s = (case m s of (r, t) \<Rightarrow> (Inr r, t))"

definition check :: "bool \<Rightarrow> 'e \<Rightarrow> ('s, 'e, unit) prog" where
  "check b e = (if b then ret () else raise e)"

definition rd :: "('s \<Rightarrow> 'a) \<Rightarrow> ('s, 'e, 'a) prog" where
  "rd f s = (Inr (f s), s)"

definition upd :: "('s \<Rightarrow> 's) \<Rightarrow> ('s, 'e, unit) prog" where
  "upd f s = (Inr (), f s)"

lemmas prog_defs = ret_def raise_def bnd_def sq_def attempt_def check_def rd_def upd_def

lemma bnd_ret [simp]: "bnd (ret x) f = f x"
  by (simp add: bnd_def ret_def fun_eq_iff)

lemma bnd_raise [simp]: "bnd (raise e) f = raise e"
  by (simp add: bnd_def raise_def fun_eq_iff)

lemma bnd_assoc: "bnd (bnd m f) g = bnd m (\<lambda>x. bnd (f x) g)"
  by (auto simp: bnd_def fun_eq_iff split: prod.splits sum.splits)

section \<open>Weakest preconditions\<close>

definition wp :: "('s, 'e, 'a) prog \<Rightarrow> ('a \<Rightarrow> 's \<Rightarrow> bool) \<Rightarrow> ('e \<Rightarrow> 's \<Rightarrow> bool) \<Rightarrow> 's \<Rightarrow> bool" where
  "wp m Q R s = (case m s of (Inl e, t) \<Rightarrow> R e t | (Inr x, t) \<Rightarrow> Q x t)"

lemma wpI:
  assumes "\<And>x t. m s = (Inr x, t) \<Longrightarrow> Q x t" and "\<And>e t. m s = (Inl e, t) \<Longrightarrow> R e t"
  shows "wp m Q R s"
  using assms by (auto simp: wp_def split: prod.splits sum.splits)

lemma wp_okD: "wp m Q R s \<Longrightarrow> m s = (Inr x, t) \<Longrightarrow> Q x t"
  by (simp add: wp_def)

lemma wp_excD: "wp m Q R s \<Longrightarrow> m s = (Inl e, t) \<Longrightarrow> R e t"
  by (simp add: wp_def)

lemma wp_mono:
  assumes "wp m Q R s" and "\<And>x t. Q x t \<Longrightarrow> Q' x t" and "\<And>e t. R e t \<Longrightarrow> R' e t"
  shows "wp m Q' R' s"
  using assms by (auto simp: wp_def split: prod.splits sum.splits)

lemma wp_ret [vcg]: "Q x s \<Longrightarrow> wp (ret x) Q R s"
  by (simp add: wp_def ret_def)

lemma wp_raise [vcg]: "R e s \<Longrightarrow> wp (raise e) Q R s"
  by (simp add: wp_def raise_def)

lemma wp_bnd [vcg]: "wp m (\<lambda>x. wp (f x) Q R) R s \<Longrightarrow> wp (bnd m f) Q R s"
  by (auto simp: wp_def bnd_def split: prod.splits sum.splits)

lemma wp_sq [vcg]: "wp m (\<lambda>_. wp k Q R) R s \<Longrightarrow> wp (sq m k) Q R s"
  unfolding sq_def by (rule wp_bnd)

lemma wp_attempt [vcg]:
  "wp m (\<lambda>x. Q (Inr x)) (\<lambda>e. Q (Inl e)) s \<Longrightarrow> wp (attempt m) Q R s"
  by (auto simp: wp_def attempt_def split: prod.splits sum.splits)

lemma wp_check [vcg]: "(b \<Longrightarrow> Q () s) \<Longrightarrow> (\<not> b \<Longrightarrow> R e s) \<Longrightarrow> wp (check b e) Q R s"
  by (simp add: wp_def check_def ret_def raise_def)

lemma wp_rd [vcg]: "Q (f s) s \<Longrightarrow> wp (rd f) Q R s"
  by (simp add: wp_def rd_def)

lemma wp_upd [vcg]: "Q () (f s) \<Longrightarrow> wp (upd f) Q R s"
  by (simp add: wp_def upd_def)

lemma wp_if [vcg]:
  "(b \<Longrightarrow> wp m Q R s) \<Longrightarrow> (\<not> b \<Longrightarrow> wp k Q R s) \<Longrightarrow> wp (if b then m else k) Q R s"
  by simp

lemma wp_case_option [vcg]:
  assumes "v = None \<Longrightarrow> wp m Q R s" and "\<And>x. v = Some x \<Longrightarrow> wp (f x) Q R s"
  shows "wp (case v of None \<Rightarrow> m | Some x \<Rightarrow> f x) Q R s"
  using assms by (cases v) auto

lemma wp_case_sum [vcg]:
  assumes "\<And>x. v = Inl x \<Longrightarrow> wp (f x) Q R s" and "\<And>x. v = Inr x \<Longrightarrow> wp (g x) Q R s"
  shows "wp (case v of Inl x \<Rightarrow> f x | Inr x \<Rightarrow> g x) Q R s"
  using assms by (cases v) auto

section \<open>Faults: what ends the process\<close>

text \<open>
  The ways in which the source can leave a handler for good: a failed \<open>assert\<close> (the build
  files do not define \<open>NDEBUG\<close>, so assertions are live), a null pointer that is followed, the
  exception that \<open>std::string(0)\<close> throws and nothing catches, the end of the process, and the use of a
  pointer that was never set or was freed.
\<close>

datatype fault = AssertFailed | NullDeref | LogicError | Terminated | BadPointer

section \<open>C strings\<close>

text \<open>
  A byte string is a list of characters.  Passing \<open>s.c_str()\<close> or a \<open>char*\<close> keeps the bytes
  up to the first NUL; \<open>strncpy(dst, s, n); dst[n] = 0\<close> keeps at most \<open>n\<close> of those.
\<close>

definition NUL :: char where
  "NUL = CHR 0x00"

definition c_str :: "string \<Rightarrow> string" where
  "c_str s = takeWhile (\<lambda>c. c \<noteq> NUL) s"

definition strncpy :: "nat \<Rightarrow> string \<Rightarrow> string" where
  "strncpy n s = take n (c_str s)"

lemma c_str_id: "NUL \<notin> set s \<Longrightarrow> c_str s = s"
  by (auto simp: c_str_def takeWhile_eq_all_conv)

lemma NUL_not_in_c_str [simp]: "NUL \<notin> set (c_str s)"
  by (auto simp: c_str_def dest: set_takeWhileD)

lemma c_str_idem [simp]: "c_str (c_str s) = c_str s"
  by (rule c_str_id) simp

lemma c_str_Nil [simp]: "c_str [] = []"
  by (simp add: c_str_def)

lemma length_c_str_le: "length (c_str s) \<le> length s"
  unfolding c_str_def by (rule length_takeWhile_le)

lemma length_strncpy: "length (strncpy n s) \<le> n"
  by (simp add: strncpy_def)

lemma strncpy_id: "NUL \<notin> set s \<Longrightarrow> length s \<le> n \<Longrightarrow> strncpy n s = s"
  by (simp add: strncpy_def c_str_id)

lemma NUL_not_in_strncpy [simp]: "NUL \<notin> set (strncpy n s)"
  unfolding strncpy_def by (meson NUL_not_in_c_str in_set_takeD)

lemma c_str_strncpy [simp]: "c_str (strncpy n s) = strncpy n s"
  by (rule c_str_id) simp

lemma strncpy_idem [simp]: "strncpy n (strncpy n s) = strncpy n s"
  by (rule strncpy_id) (simp_all add: length_strncpy)

text \<open>\<open>s.find(p) != npos\<close>\<close>

fun contains_sub :: "string \<Rightarrow> string \<Rightarrow> bool" where
  "contains_sub p [] = (p = [])"
| "contains_sub p (c # s) = (take (length p) (c # s) = p \<or> contains_sub p s)"

lemma contains_sub_append: "contains_sub p (a @ p @ b)"
proof (induction a)
  case Nil
  show ?case
  proof (cases "p @ b")
    case (Cons c t)
    then have "take (length p) (c # t) = p" by (metis append_eq_conv_conj)
    with Cons show ?thesis by simp
  qed simp
next
  case (Cons c a)
  then show ?case by simp
qed

lemma contains_sub_iff: "contains_sub p s \<longleftrightarrow> (\<exists>a b. s = a @ p @ b)"
proof
  show "contains_sub p s \<Longrightarrow> \<exists>a b. s = a @ p @ b"
  proof (induction s)
    case Nil
    then show ?case by simp
  next
    case (Cons c s)
    then consider "take (length p) (c # s) = p" | "contains_sub p s" by auto
    then show ?case
    proof cases
      case 1
      then have "c # s = [] @ p @ drop (length p) (c # s)"
        by (metis append_Nil append_take_drop_id)
      then show ?thesis by blast
    next
      case 2
      then obtain a b where "s = a @ p @ b" using Cons.IH by blast
      then have "c # s = (c # a) @ p @ b" by simp
      then show ?thesis by blast
    qed
  qed
qed (auto simp: contains_sub_append)

text \<open>\<open>atoi\<close> of the C library; numbers that do not fit are not wrapped, where C leaves them undefined.\<close>

definition is_digit :: "char \<Rightarrow> bool" where
  "is_digit c \<longleftrightarrow> CHR ''0'' \<le> c \<and> c \<le> CHR ''9''"

definition digit_of :: "char \<Rightarrow> int" where
  "digit_of c = of_char c - 48"

definition atoi :: "string \<Rightarrow> int" where
  "atoi s =
     (let t = dropWhile (\<lambda>c. c = CHR '' '' \<or> (CHR 0x09 \<le> c \<and> c \<le> CHR 0x0D)) s;
          value_of = (\<lambda>u. foldl (\<lambda>n c. 10 * n + digit_of c) 0 (takeWhile is_digit u))
      in case t of
           [] \<Rightarrow> 0
         | c # u \<Rightarrow> if c = CHR ''-'' then - value_of u else if c = CHR ''+'' then value_of u else value_of t)"

section \<open>Lists and maps\<close>

lemma map_of_eq_None_notin: "map_of xs k = None \<longleftrightarrow> k \<notin> fst ` set xs"
  by (rule map_of_eq_None_iff)

lemma nth_append_length_eq [simp]: "n = length xs \<Longrightarrow> (xs @ y # ys) ! n = y"
  by simp

end
