(* ===== verification/Zmsg.thy ===== *)
theory Zmsg
  imports Prelude "HOL-Library.Char_ord"
begin

unbundle bit_operations_syntax

text \<open>
  The multipart message class \<open>zmsg\<close> (mdp/mdp_zmsg.cpp): its frames
  (\<open>m_part_data\<close>), the stack operations on them, the printable form of a 5-byte ZeroMQ
  identity, reading from and writing to a socket, and the log dump with its fixed buffer.
  ZeroMQ itself is outside the model: what \<open>socket.recv\<close> answers is the argument \<open>rx list\<close>,
  and what \<open>socket.send\<close> is handed is the result.
\<close>

section \<open>Frames\<close>

type_synonym frames = "string list"

definition IDENTITY_MAXLEN :: nat where
  "IDENTITY_MAXLEN = 11"

definition EMPTY_FRAME :: string where
  "EMPTY_FRAME = ''''"

definition set_part :: "nat \<Rightarrow> string \<Rightarrow> frames \<Rightarrow> frames" where
  "set_part n data fs = (if n < length fs then fs[n := c_str data] else fs)"

definition get_part :: "nat \<Rightarrow> frames \<Rightarrow> string option" where
  "get_part n fs = (if n < length fs then Some (fs ! n) else None)"

definition parts :: "frames \<Rightarrow> nat" where
  "parts fs = length fs"

text \<open>\<open>push_front(char*)\<close> and \<open>push_back(char*)\<close> build the frame from a C string, the
  \<open>std::string\<close> overloads keep every byte.\<close>

definition push_front_c :: "string \<Rightarrow> frames \<Rightarrow> frames" where
  "push_front_c part fs = c_str part # fs"

definition push_front :: "string \<Rightarrow> frames \<Rightarrow> frames" where
  "push_front part fs = part # fs"

definition push_back_c :: "string \<Rightarrow> frames \<Rightarrow> frames" where
  "push_back_c part fs = fs @ [c_str part]"

definition push_back :: "string \<Rightarrow> frames \<Rightarrow> frames" where
  "push_back part fs = fs @ [part]"

definition zmsg_append :: "string option \<Rightarrow> frames \<Rightarrow> fault + frames" where
  "zmsg_append part fs = (case part of None \<Rightarrow> Inl AssertFailed | Some p \<Rightarrow> Inr (push_back_c p fs))"

definition body_set :: "string \<Rightarrow> frames \<Rightarrow> frames" where
  "body_set b fs = push_back_c b (if length fs > 0 then butlast fs else fs)"

definition body :: "frames \<Rightarrow> string option" where
  "body fs = (if length fs > 0 then Some (c_str (last fs)) else None)"

text \<open>\<open>m_part_data.front()\<close> of an empty vector is undefined behaviour: a fault here.  The
  \<open>return 0\<close> of \<open>pop_front\<close> builds a \<open>std::string\<close> from a null pointer, which throws.\<close>

fun front :: "frames \<Rightarrow> fault + string" where
  "front [] = Inl NullDeref"
| "front (p # ps) = Inr p"

fun pop_front :: "frames \<Rightarrow> fault + string \<times> frames" where
  "pop_front [] = Inl LogicError"
| "pop_front (p # ps) = Inr (p, ps)"

definition address :: "frames \<Rightarrow> string option" where
  "address fs = (if length fs > 0 then Some (c_str (hd fs)) else None)"

definition wrap :: "string \<Rightarrow> string option \<Rightarrow> frames \<Rightarrow> frames" where
  "wrap addr delim fs =
     push_front_c addr (case delim of None \<Rightarrow> fs | Some d \<Rightarrow> push_front_c d fs)"

text \<open>\<open>*address() == 0\<close> holds when the C string is empty.\<close>

definition unwrap :: "frames \<Rightarrow> string option \<times> frames" where
  "unwrap fs =
     (case fs of
        [] \<Rightarrow> (None, [])
      | a # rest \<Rightarrow>
          (Some (c_str a), if address rest = Some '''' then tl rest else rest))"

lemma parts_simps [simp]:
  "parts [] = 0" "parts (f # fs) = Suc (parts fs)" "parts (fs @ gs) = parts fs + parts gs"
  by (simp_all add: parts_def)

lemma parts_push [simp]:
  "parts (push_front p fs) = Suc (parts fs)" "parts (push_front_c p fs) = Suc (parts fs)"
  "parts (push_back p fs) = Suc (parts fs)" "parts (push_back_c p fs) = Suc (parts fs)"
  by (simp_all add: push_front_def push_front_c_def push_back_def push_back_c_def)

lemma parts_body_set: "parts (body_set b fs) = max 1 (parts fs)"
  by (cases fs) (auto simp: body_set_def parts_def push_back_c_def)

lemma body_body_set: "body (body_set b fs) = Some (c_str b)"
  by (simp add: body_def body_set_def push_back_c_def)

lemma pop_front_push_front [simp]: "pop_front (push_front p fs) = Inr (p, fs)"
  by (simp add: push_front_def)

lemma wrap_empty: "wrap a (Some '''') fs = c_str a # [] # fs"
  by (simp add: wrap_def push_front_c_def)

lemma unwrap_wrap_empty: "unwrap (wrap a (Some '''') fs) = (Some (c_str a), fs)"
  by (simp add: wrap_empty unwrap_def address_def)

lemma unwrap_wrap_nodelim:
  assumes "address fs \<noteq> Some ''''"
  shows "unwrap (wrap a None fs) = (Some (c_str a), fs)"
  using assms by (simp add: wrap_def push_front_c_def unwrap_def)

section \<open>The printable form of an identity\<close>

definition hex_char :: string where
  "hex_char = ''0123456789ABCDEF''"

definition byte_of :: "char \<Rightarrow> 8 word" where
  "byte_of c = of_char c"

definition hex_hi :: "char \<Rightarrow> char" where
  "hex_hi c = hex_char ! unat (drop_bit 4 (byte_of c))"

definition hex_lo :: "char \<Rightarrow> char" where
  "hex_lo c = hex_char ! unat (byte_of c AND 15)"

text \<open>Five bytes, the first of them zero (asserted), become \<open>@\<close> and ten hexadecimal digits.\<close>

definition encode_uuid :: "string \<Rightarrow> fault + string" where
  "encode_uuid data =
     (if data = [] \<or> data ! 0 \<noteq> NUL then Inl AssertFailed
      else Inr (CHR ''@'' # concat (map (\<lambda>i. [hex_hi (data ! i), hex_lo (data ! i)]) [0..<5])))"

definition hex_to_bin :: "int list" where
  "hex_to_bin =
     replicate 48 (- 1)
     @ [0, 1, 2, 3, 4, 5, 6, 7, 8, 9, - 1, - 1, - 1, - 1, - 1, - 1]
     @ [- 1, 10, 11, 12, 13, 14, 15, - 1, - 1, - 1, - 1, - 1, - 1, - 1, - 1, - 1]
     @ replicate 16 (- 1)
     @ [- 1, 10, 11, 12, 13, 14, 15, - 1, - 1, - 1, - 1, - 1, - 1, - 1, - 1, - 1]
     @ replicate 16 (- 1)"

definition hex_val :: "char \<Rightarrow> int" where
  "hex_val c = hex_to_bin ! unat (byte_of c AND 127)"

text \<open>The sum is stored in an \<open>unsigned char\<close>: the value modulo 256.\<close>

definition decode_pair :: "char \<Rightarrow> char \<Rightarrow> char" where
  "decode_pair hi lo = char_of (unat (word_of_int (push_bit 4 (hex_val hi) + hex_val lo) :: 8 word))"

definition decode_uuid :: "string \<Rightarrow> fault + string" where
  "decode_uuid s =
     (if length s \<noteq> IDENTITY_MAXLEN \<or> s ! 0 \<noteq> CHR ''@'' then Inl AssertFailed
      else Inr (map (\<lambda>i. decode_pair (s ! (i * 2 + 1)) (s ! (i * 2 + 2))) [0..<5]))"

lemma unat_byte_of: "unat (byte_of c) = of_char c"
proof -
  have "byte_of c = word_of_nat (of_char c)"
    by (simp only: byte_of_def of_nat_of_char)
  also have "unat \<dots> = of_char c"
    by (simp add: unat_of_nat del: of_nat_of_char)
  finally show ?thesis .
qed

lemma unat_hi: "unat (drop_bit 4 (byte_of c)) = of_char c div 16"
  by (simp add: drop_bit_eq_div unat_div unat_byte_of)

lemma unat_lo: "unat (byte_of c AND 15) = of_char c mod 16"
proof -
  have "byte_of c AND 15 = take_bit 4 (byte_of c)"
    by (simp add: take_bit_eq_mask mask_eq_exp_minus_1)
  then have "unat (byte_of c AND 15) = take_bit 4 (unat (byte_of c))"
    by (simp only: unsigned_take_bit_eq)
  then show ?thesis
    by (simp add: take_bit_eq_mod unat_byte_of)
qed

lemma hex_val_digits: "list_all (\<lambda>n. hex_val (hex_char ! n) = int n) [0..<16]"
  by code_simp

lemma hex_val_digit: "n < 16 \<Longrightarrow> hex_val (hex_char ! n) = int n"
  using hex_val_digits by (simp add: list_all_iff)

lemma decode_pair_encode [simp]: "decode_pair (hex_hi c) (hex_lo c) = c"
proof -
  let ?n = "of_char c :: nat"
  have n: "?n < 256" by simp
  have "hex_val (hex_hi c) = int (?n div 16)"
    unfolding hex_hi_def unat_hi by (rule hex_val_digit) (use n in linarith)
  moreover have "hex_val (hex_lo c) = int (?n mod 16)"
    unfolding hex_lo_def unat_lo by (rule hex_val_digit) simp
  ultimately have "push_bit 4 (hex_val (hex_hi c)) + hex_val (hex_lo c) = int ?n"
    by (simp add: push_bit_eq_mult zdiv_int zmod_int)
  then show ?thesis
    by (simp add: decode_pair_def unat_of_nat)
qed

lemma encode_uuid_Inr:
  assumes "length d = 5" and "d ! 0 = NUL"
  shows "\<exists>s. encode_uuid d = Inr s \<and> length s = IDENTITY_MAXLEN \<and> s ! 0 = CHR ''@'' \<and> decode_uuid s = Inr d"
proof -
  obtain a b c x y where d: "d = [a, b, c, x, y]"
    using assms(1) by (auto simp: length_Suc_conv eval_nat_numeral)
  with assms(2) show ?thesis
    by (simp add: encode_uuid_def decode_uuid_def IDENTITY_MAXLEN_def upt_conv_Cons)
qed

section \<open>Sockets\<close>

text \<open>
  What \<open>socket.recv\<close> can answer: a frame with the \<open>ZMQ_RCVMORE\<close> flag read after it,
  \<open>false\<close> (nothing before the timeout), or an exception.  A 5-byte first frame that starts
  with a zero byte is an identity made up by ZeroMQ and becomes printable; every other
  frame is kept as it came.
\<close>

datatype rx = RxFrame string bool | RxFalse | RxError

definition first_is_identity :: "nat \<Rightarrow> string \<Rightarrow> bool" where
  "first_is_identity iteration data \<longleftrightarrow> iteration = 1 \<and> length data = 5 \<and> data ! 0 = NUL"

text \<open>The loop of \<open>zmsg::recv\<close>; \<open>None\<close> is a socket on which nothing has arrived yet.\<close>

fun recv_loop :: "nat \<Rightarrow> frames \<Rightarrow> rx list \<Rightarrow> (fault + bool \<times> frames \<times> rx list) option" where
  "recv_loop iteration fs [] = None"
| "recv_loop iteration fs (RxFalse # rest) = Some (Inr (False, fs, rest))"
| "recv_loop iteration fs (RxError # rest) = Some (Inr (False, fs, rest))"
| "recv_loop iteration fs (RxFrame data more # rest) =
     (case (if first_is_identity (Suc iteration) data
            then map_sum id (\<lambda>u. push_back_c u fs) (encode_uuid data)
            else Inr (push_back data fs)) of
        Inl e \<Rightarrow> Some (Inl e)
      | Inr fs' \<Rightarrow>
          if more then recv_loop (Suc iteration) fs' rest else Some (Inr (True, fs', rest)))"

definition recv :: "rx list \<Rightarrow> (fault + bool \<times> frames \<times> rx list) option" where
  "recv inp = recv_loop 0 [] inp"

text \<open>
  \<open>zmsg::send\<close> hands each frame to the socket with \<open>ZMQ_SNDMORE\<close> on all but the last, and
  turns a printable identity in the first frame back into its five bytes.  The object is
  empty afterwards.
\<close>

definition send_frame :: "nat \<Rightarrow> string \<Rightarrow> fault + string" where
  "send_frame part_nbr data =
     (if part_nbr = 0 \<and> length data = IDENTITY_MAXLEN \<and> data ! 0 = CHR ''@''
      then decode_uuid data else Inr data)"

fun send_from :: "nat \<Rightarrow> frames \<Rightarrow> fault + (string \<times> bool) list" where
  "send_from part_nbr [] = Inr []"
| "send_from part_nbr (data # rest) =
     (case send_frame part_nbr data of
        Inl e \<Rightarrow> Inl e
      | Inr m \<Rightarrow> map_sum id (\<lambda>ms. (m, rest \<noteq> []) # ms) (send_from (Suc part_nbr) rest))"

definition send :: "frames \<Rightarrow> (fault + (string \<times> bool) list) \<times> frames" where
  "send fs = (send_from 0 fs, [])"

text \<open>The frames of a message with their \<open>ZMQ_SNDMORE\<close> flags: set on all but the last.\<close>

fun flagged :: "frames \<Rightarrow> (string \<times> bool) list" where
  "flagged [] = []"
| "flagged (f # fs) = (f, fs \<noteq> []) # flagged fs"

definition arrives :: "frames \<Rightarrow> rx list" where
  "arrives fs = map (\<lambda>(f, more). RxFrame f more) (flagged fs)"

lemma arrives_simps [simp]:
  "arrives [] = []" "arrives (f # fs) = RxFrame f (fs \<noteq> []) # arrives fs"
  by (simp_all add: arrives_def)

lemma send_frame_later [simp]: "0 < n \<Longrightarrow> send_frame n f = Inr f"
  by (simp add: send_frame_def)

lemma send_from_later: "0 < n \<Longrightarrow> send_from n fs = Inr (flagged fs)"
  by (induction fs arbitrary: n) simp_all

lemma recv_loop_later:
  "0 < n \<Longrightarrow> fs \<noteq> [] \<Longrightarrow> recv_loop n acc (arrives fs @ rest) = Some (Inr (True, acc @ fs, rest))"
proof (induction fs arbitrary: n acc)
  case (Cons f fs)
  show ?case
  proof (cases "fs = []")
    case True
    with Cons.prems show ?thesis by (simp add: first_is_identity_def push_back_def)
  next
    case False
    with Cons.IH [of "Suc n" "acc @ [f]"] Cons.prems show ?thesis
      by (simp add: first_is_identity_def push_back_def)
  qed
qed simp

lemma hex_no_NUL: "n < 16 \<Longrightarrow> hex_char ! n \<noteq> NUL"
proof -
  have "list_all (\<lambda>n. hex_char ! n \<noteq> NUL) [0..<16]"
    by code_simp
  then show "n < 16 \<Longrightarrow> hex_char ! n \<noteq> NUL"
    by (simp add: list_all_iff)
qed

lemma encode_uuid_no_NUL:
  assumes "encode_uuid d = Inr s"
  shows "NUL \<notin> set s"
proof -
  have "hex_hi c \<noteq> NUL" "hex_lo c \<noteq> NUL" for c
  proof -
    have "of_char c < (256 :: nat)" by simp
    then show "hex_hi c \<noteq> NUL"
      unfolding hex_hi_def unat_hi by (intro hex_no_NUL) linarith
    show "hex_lo c \<noteq> NUL"
      unfolding hex_lo_def unat_lo by (intro hex_no_NUL) simp
  qed
  note digits = this this [symmetric]
  have "CHR ''@'' \<noteq> NUL"
    by (simp add: NUL_def)
  with assms digits show ?thesis
    by (auto simp: encode_uuid_def split: if_splits)
qed

text \<open>What \<open>recv\<close> makes of the first frame.\<close>

definition printable_first :: "string \<Rightarrow> string" where
  "printable_first f =
     (if first_is_identity 1 f
      then (case encode_uuid f of Inl _ \<Rightarrow> f | Inr u \<Rightarrow> u) else f)"

lemma printable_first_identity:
  assumes "first_is_identity 1 f"
  shows "encode_uuid f = Inr (printable_first f) \<and> NUL \<notin> set (printable_first f)
    \<and> length (printable_first f) = IDENTITY_MAXLEN \<and> printable_first f ! 0 = CHR ''@''
    \<and> decode_uuid (printable_first f) = Inr f"
  using assms encode_uuid_Inr [of f] encode_uuid_no_NUL [of f "printable_first f"]
  by (auto simp: printable_first_def first_is_identity_def)

lemma printable_first_other: "\<not> first_is_identity 1 f \<Longrightarrow> printable_first f = f"
  by (simp add: printable_first_def)

lemma recv_first:
  "(if first_is_identity 1 f then map_sum id (\<lambda>u. push_back_c u []) (encode_uuid f)
    else Inr (push_back f [])) = Inr [printable_first f]"
  using printable_first_identity [of f] printable_first_other [of f]
  by (simp add: push_back_def push_back_c_def c_str_id)

lemma recv_arrives:
  "recv (arrives (f # fs) @ rest) = Some (Inr (True, printable_first f # fs, rest))"
  using recv_loop_later [of 1 fs "[printable_first f]" rest]
  by (cases "fs = []") (simp_all add: recv_def recv_first flip: One_nat_def)

lemma send_printable_first:
  assumes "\<not> (length f = IDENTITY_MAXLEN \<and> f ! 0 = CHR ''@'')"
  shows "send (printable_first f # fs) = (Inr (flagged (f # fs)), [])"
proof (cases "first_is_identity 1 f")
  case True
  with printable_first_identity [OF True] show ?thesis
    by (simp add: send_def send_frame_def send_from_later)
next
  case False
  with assms show ?thesis
    by (auto simp: send_def send_frame_def send_from_later printable_first_def)
qed

end
