(* ===== verification/Timer.thy ===== *)
theory Timer
  imports Prelude
begin

text \<open>
  Time marks (tools/timer.hpp, tools/timer.cpp) and the option table (tools/helper.cpp).  A
  \<open>struct timespec\<close> is a pair of integers; the clock is the operating system's and is an
  argument (\<open>None\<close> when \<open>clock_gettime\<close> fails).  \<open>timeCmp\<close> is the order of the type, so marks
  are an instance of \<open>linorder\<close>.
\<close>

section \<open>Marks\<close>

datatype timer_mark = Mark (tv_sec: int) (tv_nsec: int)

definition BILLION :: int where
  "BILLION = 1000000000"

definition GetTimerValueByClockId :: "timer_mark option \<Rightarrow> timer_mark \<Rightarrow> bool \<times> timer_mark" where
  "GetTimerValueByClockId res timer =
     (case res of Some r \<Rightarrow> (True, Mark (tv_sec r) (tv_nsec r)) | None \<Rightarrow> (False, timer))"

definition timeAdd :: "timer_mark \<Rightarrow> timer_mark \<Rightarrow> timer_mark" where
  "timeAdd oldTime time =
     (if tv_nsec time + tv_nsec oldTime \<ge> BILLION
      then Mark (tv_sec time + tv_sec oldTime + 1) (tv_nsec time + tv_nsec oldTime - BILLION)
      else Mark (tv_sec time + tv_sec oldTime) (tv_nsec time + tv_nsec oldTime))"

definition timeDiff :: "timer_mark \<Rightarrow> timer_mark \<Rightarrow> timer_mark" where
  "timeDiff oldTime time =
     (if tv_nsec time < tv_nsec oldTime
      then Mark (tv_sec time - 1 - tv_sec oldTime) (BILLION + tv_nsec time - tv_nsec oldTime)
      else Mark (tv_sec time - tv_sec oldTime) (tv_nsec time - tv_nsec oldTime))"

definition timeCmp :: "timer_mark \<Rightarrow> timer_mark \<Rightarrow> int" where
  "timeCmp a b =
     (if tv_sec a \<noteq> tv_sec b then (if tv_sec a > tv_sec b then 1 else - 1)
      else if tv_nsec a > tv_nsec b then 1
      else if tv_nsec a < tv_nsec b then - 1
      else 0)"

instantiation timer_mark :: linorder
begin

definition less_eq_timer_mark :: "timer_mark \<Rightarrow> timer_mark \<Rightarrow> bool" where
  "less_eq_timer_mark a b \<longleftrightarrow> timeCmp a b \<le> 0"

definition less_timer_mark :: "timer_mark \<Rightarrow> timer_mark \<Rightarrow> bool" where
  "less_timer_mark a b \<longleftrightarrow> timeCmp a b < 0"

instance
  by standard
    (auto simp: less_eq_timer_mark_def less_timer_mark_def timeCmp_def timer_mark.expand split: if_splits)

end

text \<open>A mark the clock can give, and the number of nanoseconds it stands for.\<close>

definition normalised :: "timer_mark \<Rightarrow> bool" where
  "normalised m \<longleftrightarrow> 0 \<le> tv_nsec m \<and> tv_nsec m < BILLION"

definition nanos :: "timer_mark \<Rightarrow> int" where
  "nanos m = tv_sec m * BILLION + tv_nsec m"

lemma nanos_timeAdd: "nanos (timeAdd a b) = nanos a + nanos b"
  by (simp add: nanos_def timeAdd_def BILLION_def)

lemma nanos_timeDiff: "nanos (timeDiff a b) = nanos b - nanos a"
  by (simp add: nanos_def timeDiff_def BILLION_def)

lemma normalised_timeAdd: "normalised a \<Longrightarrow> normalised b \<Longrightarrow> normalised (timeAdd a b)"
  by (auto simp: normalised_def timeAdd_def BILLION_def)

lemma normalised_timeDiff: "normalised a \<Longrightarrow> normalised b \<Longrightarrow> normalised (timeDiff a b)"
  by (auto simp: normalised_def timeDiff_def BILLION_def)

lemma nanos_less_iff: "normalised a \<Longrightarrow> normalised b \<Longrightarrow> nanos a < nanos b \<longleftrightarrow> a < b"
  by (cases a; cases b) (auto simp: normalised_def nanos_def BILLION_def less_timer_mark_def timeCmp_def)

lemma nanos_inject: "normalised a \<Longrightarrow> normalised b \<Longrightarrow> nanos a = nanos b \<longleftrightarrow> a = b"
  using nanos_less_iff [of a b] nanos_less_iff [of b a] by (cases a b rule: linorder_cases) auto

lemma timeCmp_order: "timeCmp a b = (if a < b then - 1 else if a = b then 0 else 1)"
  by (cases a; cases b) (auto simp: less_timer_mark_def timeCmp_def)

lemma timeAdd_timeDiff: "normalised a \<Longrightarrow> normalised b \<Longrightarrow> timeAdd a (timeDiff a b) = b"
  by (subst nanos_inject [symmetric])
    (simp_all add: nanos_timeAdd nanos_timeDiff normalised_timeAdd normalised_timeDiff)

section \<open>The option table\<close>

text \<open>
  \<open>Options\<close> is a \<open>std::map<std::string, int>\<close>.  \<open>getOption\<close> writes its out-parameter only
  when the key is found; \<open>setOption\<close> inserts a key that is absent and otherwise copies the
  stored value into its own by-value parameter, so the table keeps the first value.
\<close>

type_synonym Options = "string \<rightharpoonup> int"

definition getOption :: "Options \<Rightarrow> string \<Rightarrow> int \<Rightarrow> bool \<times> int" where
  "getOption opts key val = (case opts key of Some v \<Rightarrow> (True, v) | None \<Rightarrow> (False, val))"

definition setOption :: "string \<Rightarrow> int \<Rightarrow> Options \<Rightarrow> bool \<times> Options" where
  "setOption key val opts =
     (case opts key of Some v \<Rightarrow> (False, opts) | None \<Rightarrow> (True, opts(key \<mapsto> val)))"

text \<open>A sequence of \<open>setOption\<close> calls whose results are not looked at.\<close>

definition setOptions :: "(string \<times> int) list \<Rightarrow> Options \<Rightarrow> Options" where
  "setOptions kvs opts = fold (\<lambda>(k, v) o'. snd (setOption k v o')) kvs opts"

lemma setOption_keeps: "opts key = Some v \<Longrightarrow> setOption key val opts = (False, opts)"
  by (simp add: setOption_def)

lemma setOptions_lookup:
  "setOptions kvs opts k = (case opts k of Some v \<Rightarrow> Some v | None \<Rightarrow> map_of kvs k)"
proof (induction kvs arbitrary: opts)
  case Nil
  then show ?case by (simp add: setOptions_def split: option.splits)
next
  case (Cons kv kvs)
  obtain a b where kv: "kv = (a, b)" by force
  have "setOptions (kv # kvs) opts = setOptions kvs (snd (setOption a b opts))"
    by (simp add: setOptions_def kv)
  with Cons.IH show ?case
    by (auto simp: kv setOption_def split: option.splits)
qed

end
