(* ===== verification/BrokerObjects.thy ===== *)
theory BrokerObjects
  imports Zmsg Timer
begin

text \<open>
  The objects that carry database rows to and from the broker: \<open>xdb::Service\<close>,
  \<open>xdb::Worker\<close> and \<open>xdb::Letter\<close> (xdb/broker/).  Each class is a record of its private
  fields with a prefix (\<open>srv_\<close>, \<open>wrk_\<close>, \<open>let_\<close>); a setter is a function on the record.  An
  unset \<open>char*\<close> is \<open>None\<close>, a null argument is \<open>None\<close> too and hits the setter's assertion.
\<close>

section \<open>Service\<close>

definition SERVICE_NAME_MAXLEN :: nat where
  "SERVICE_NAME_MAXLEN = 32"

definition ENDPOINT_MAXLEN :: nat where
  "ENDPOINT_MAXLEN = 100"

datatype Service_State = UNKNOWN | REGISTERED | ACTIVATED | DISABLED

record Service =
  srv_id :: int
  srv_name :: "string option"
  srv_endpoint :: "string option"
  srv_state :: Service_State
  srv_modified :: bool

definition Service_new :: Service where
  "Service_new = \<lparr>srv_id = 0, srv_name = None, srv_endpoint = None, srv_state = DISABLED, srv_modified = False\<rparr>"

definition Service_SetNAME :: "string option \<Rightarrow> Service \<Rightarrow> fault + Service" where
  "Service_SetNAME n s =
     (case n of None \<Rightarrow> Inl AssertFailed
      | Some n \<Rightarrow> Inr (s\<lparr>srv_name := Some (c_str n), srv_modified := True\<rparr>))"

definition Service_SetENDPOINT :: "string option \<Rightarrow> Service \<Rightarrow> fault + Service" where
  "Service_SetENDPOINT e s =
     (case e of None \<Rightarrow> Inl AssertFailed
      | Some e \<Rightarrow> Inr (s\<lparr>srv_endpoint := Some (c_str e), srv_modified := True\<rparr>))"

definition Service_make :: "int \<Rightarrow> string option \<Rightarrow> fault + Service" where
  "Service_make i n = Service_SetNAME n (Service_new\<lparr>srv_id := i, srv_modified := True\<rparr>)"

definition Service_SetSTATE :: "Service_State \<Rightarrow> Service \<Rightarrow> Service" where
  "Service_SetSTATE st s = s\<lparr>srv_state := st, srv_modified := True\<rparr>"

definition Service_SetID :: "int \<Rightarrow> Service \<Rightarrow> Service" where
  "Service_SetID i s = s\<lparr>srv_id := i, srv_modified := True\<rparr>"

definition Service_SetVALID :: "Service \<Rightarrow> Service" where
  "Service_SetVALID s = s\<lparr>srv_modified := False\<rparr>"

definition Service_GetVALID :: "Service \<Rightarrow> bool" where
  "Service_GetVALID s \<longleftrightarrow> srv_modified s = False"

definition Service_GetENDPOINT :: "Service \<Rightarrow> fault + string" where
  "Service_GetENDPOINT s = (case srv_endpoint s of None \<Rightarrow> Inl AssertFailed | Some e \<Rightarrow> Inr e)"

section \<open>Worker\<close>

definition HEARTBEAT_PERIOD_MSEC :: int where
  "HEARTBEAT_PERIOD_MSEC = 2500"

definition MESSAGE_EXPIRATION_PERIOD_MSEC :: int where
  "MESSAGE_EXPIRATION_PERIOD_MSEC = 500"

text \<open>
  \<open>Worker::State\<close> and the database's \<open>WorkerState\<close> list the same constants in the same order
  and are converted by a cast, so one type stands for both.  The same holds of letters.
\<close>

datatype Worker_State = DISARMED | ARMED | INIT | SHUTDOWN | OCCUPIED | EXPIRED

record Worker =
  wrk_id :: int
  wrk_service_id :: int
  wrk_letter_id :: int
  wrk_identity :: string
  wrk_state :: Worker_State
  wrk_expiration :: timer_mark
  wrk_modified :: bool

definition Worker_SetIDENTITY :: "string option \<Rightarrow> Worker \<Rightarrow> fault + Worker" where
  "Worker_SetIDENTITY i w =
     (case i of None \<Rightarrow> Inl AssertFailed
      | Some i \<Rightarrow> Inr (w\<lparr>wrk_identity := strncpy IDENTITY_MAXLEN i, wrk_modified := True\<rparr>))"

definition Worker_SetEXPIRATION :: "timer_mark \<Rightarrow> Worker \<Rightarrow> Worker" where
  "Worker_SetEXPIRATION m w = w\<lparr>wrk_expiration := Mark (tv_sec m) (tv_nsec m), wrk_modified := True\<rparr>"

definition Worker_new :: Worker where
  "Worker_new = Worker_SetEXPIRATION (Mark 0 0)
     \<lparr>wrk_id = 0, wrk_service_id = 0, wrk_letter_id = 0, wrk_identity = '''', wrk_state = DISARMED,
      wrk_expiration = Mark 0 0, wrk_modified = False\<rparr>"

text \<open>The constructor for a worker with an identity; \<open>self_id\<close> is 0 while it is not stored.\<close>

definition Worker_make :: "int \<Rightarrow> string option \<Rightarrow> int \<Rightarrow> int \<Rightarrow> fault + Worker" where
  "Worker_make service_id self_identity self_id letter_id =
     map_sum id (Worker_SetEXPIRATION (Mark 0 0))
       (Worker_SetIDENTITY self_identity
          \<lparr>wrk_id = self_id, wrk_service_id = service_id, wrk_letter_id = letter_id, wrk_identity = '''',
           wrk_state = INIT, wrk_expiration = Mark 0 0, wrk_modified = True\<rparr>)"

definition Worker_SetID :: "int \<Rightarrow> Worker \<Rightarrow> Worker" where
  "Worker_SetID i w = w\<lparr>wrk_id := i, wrk_modified := True\<rparr>"

definition Worker_SetSERVICE_ID :: "int \<Rightarrow> Worker \<Rightarrow> Worker" where
  "Worker_SetSERVICE_ID i w = w\<lparr>wrk_service_id := i, wrk_modified := True\<rparr>"

definition Worker_SetLETTER_ID :: "int \<Rightarrow> Worker \<Rightarrow> Worker" where
  "Worker_SetLETTER_ID i w = w\<lparr>wrk_letter_id := i, wrk_modified := True\<rparr>"

definition Worker_SetVALID :: "Worker \<Rightarrow> Worker" where
  "Worker_SetVALID w = w\<lparr>wrk_modified := False\<rparr>"

definition Worker_GetVALID :: "Worker \<Rightarrow> bool" where
  "Worker_GetVALID w \<longleftrightarrow> wrk_modified w = False"

definition Worker_SetSTATE :: "Worker_State \<Rightarrow> Worker \<Rightarrow> Worker" where
  "Worker_SetSTATE st w = w\<lparr>wrk_state := st\<rparr>"

text \<open>
  The comparison of nanoseconds is compiled only under \<open>USE_MSEC_IN_EXPIRATION\<close>, which the
  build does not define.  Without a clock the \<open>throw\<close> outside a handler terminates.
\<close>

definition Worker_Expired :: "timer_mark option \<Rightarrow> Worker \<Rightarrow> fault + bool" where
  "Worker_Expired clock w =
     (case clock of Some now \<Rightarrow> Inr (tv_sec (wrk_expiration w) < tv_sec now)
      | None \<Rightarrow> Inl Terminated)"

definition Worker_CalculateEXPIRATION_TIME :: "timer_mark option \<Rightarrow> timer_mark \<Rightarrow> bool \<times> timer_mark" where
  "Worker_CalculateEXPIRATION_TIME clock next_expiration_time =
     (case clock of
        Some now \<Rightarrow> (True, Mark (tv_sec now + HEARTBEAT_PERIOD_MSEC div 1000 * 2) (tv_nsec now))
      | None \<Rightarrow> (False, next_expiration_time))"

section \<open>Letter\<close>

datatype Letter_State = EMPTY | UNASSIGNED | ASSIGNED | PROCESSING | DONE_OK | DONE_FAIL

record Letter =
  let_id :: int
  let_service_id :: int
  let_worker_id :: int
  let_state :: Letter_State
  let_header :: string
  let_data :: string
  let_expiration :: timer_mark
  let_reply_to :: string
  let_modified :: bool

text \<open>
  \<open>Letter(void* data)\<close>: the return address is the first frame of the message, header and body
  are its last two.  \<open>get_part(0)\<close> is followed before \<open>parts() >= 2\<close> is asserted.
\<close>

definition Letter_of_zmsg :: "frames \<Rightarrow> fault + Letter" where
  "Letter_of_zmsg msg =
     (case get_part 0 msg of None \<Rightarrow> Inl NullDeref
      | Some addr \<Rightarrow>
          if parts msg < 2 then Inl AssertFailed
          else (case (get_part (parts msg - 2) msg, get_part (parts msg - 1) msg) of
                  (Some hd1, Some bd1) \<Rightarrow>
                    Inr \<lparr>let_id = 0, let_service_id = 0, let_worker_id = 0, let_state = UNASSIGNED,
                         let_header = hd1, let_data = bd1, let_expiration = Mark 0 0,
                         let_reply_to = strncpy IDENTITY_MAXLEN addr, let_modified = True\<rparr>
                | _ \<Rightarrow> Inl AssertFailed))"

definition Letter_make :: "string \<Rightarrow> string \<Rightarrow> string \<Rightarrow> Letter" where
  "Letter_make reply_to head data =
     \<lparr>let_id = 0, let_service_id = 0, let_worker_id = 0, let_state = UNASSIGNED, let_header = head,
      let_data = data, let_expiration = Mark 0 0, let_reply_to = strncpy IDENTITY_MAXLEN reply_to,
      let_modified = True\<rparr>"

definition Letter_SetID :: "int \<Rightarrow> Letter \<Rightarrow> Letter" where
  "Letter_SetID i l = l\<lparr>let_id := i, let_modified := True\<rparr>"

definition Letter_SetSERVICE_ID :: "int \<Rightarrow> Letter \<Rightarrow> Letter" where
  "Letter_SetSERVICE_ID i l = l\<lparr>let_service_id := i, let_modified := True\<rparr>"

definition Letter_SetSERVICE :: "Service option \<Rightarrow> Letter \<Rightarrow> Letter" where
  "Letter_SetSERVICE srv l =
     l\<lparr>let_service_id := (case srv of None \<Rightarrow> 0 | Some s \<Rightarrow> srv_id s), let_modified := True\<rparr>"

definition Letter_SetWORKER_ID :: "int \<Rightarrow> Letter \<Rightarrow> Letter" where
  "Letter_SetWORKER_ID i l = l\<lparr>let_worker_id := i, let_modified := True\<rparr>"

text \<open>A service id that is already set is kept: a different one is only reported.\<close>

definition Letter_SetWORKER :: "Worker option \<Rightarrow> Letter \<Rightarrow> Letter" where
  "Letter_SetWORKER wrk l =
     (case wrk of None \<Rightarrow> l
      | Some w \<Rightarrow>
          (let l' = l\<lparr>let_worker_id := wrk_id w\<rparr> in
           if let_service_id l' = 0 then l'\<lparr>let_service_id := wrk_service_id w\<rparr> else l'))"

definition Letter_SetEXPIRATION :: "timer_mark \<Rightarrow> Letter \<Rightarrow> Letter" where
  "Letter_SetEXPIRATION m l = l\<lparr>let_expiration := Mark (tv_sec m) (tv_nsec m)\<rparr>"

definition Letter_SetSTATE :: "Letter_State \<Rightarrow> Letter \<Rightarrow> Letter" where
  "Letter_SetSTATE st l = l\<lparr>let_state := st\<rparr>"

definition Letter_SetHEADER :: "string \<Rightarrow> Letter \<Rightarrow> Letter" where
  "Letter_SetHEADER h l = l\<lparr>let_header := h\<rparr>"

definition Letter_SetDATA :: "string \<Rightarrow> Letter \<Rightarrow> Letter" where
  "Letter_SetDATA b l = l\<lparr>let_data := b\<rparr>"

definition Letter_SetREPLY_TO :: "string \<Rightarrow> Letter \<Rightarrow> Letter" where
  "Letter_SetREPLY_TO a l = l\<lparr>let_reply_to := strncpy IDENTITY_MAXLEN a\<rparr>"

definition Letter_SetVALID :: "Letter \<Rightarrow> Letter" where
  "Letter_SetVALID l = l\<lparr>let_modified := False\<rparr>"

definition Letter_GetVALID :: "Letter \<Rightarrow> bool" where
  "Letter_GetVALID l \<longleftrightarrow> let_modified l = False"

section \<open>Facts about the objects\<close>

text \<open>What every worker and letter object keeps: its strings fit their fixed fields.\<close>

definition worker_ok :: "Worker \<Rightarrow> bool" where
  "worker_ok w \<longleftrightarrow> NUL \<notin> set (wrk_identity w) \<and> length (wrk_identity w) \<le> IDENTITY_MAXLEN"

definition letter_ok :: "Letter \<Rightarrow> bool" where
  "letter_ok l \<longleftrightarrow> NUL \<notin> set (let_reply_to l) \<and> length (let_reply_to l) \<le> IDENTITY_MAXLEN"

lemma Worker_make_Inr:
  "Worker_make sid (Some i) self lid =
     Inr \<lparr>wrk_id = self, wrk_service_id = sid, wrk_letter_id = lid, wrk_identity = strncpy IDENTITY_MAXLEN i,
          wrk_state = INIT, wrk_expiration = Mark 0 0, wrk_modified = True\<rparr>"
  by (simp add: Worker_make_def Worker_SetIDENTITY_def Worker_SetEXPIRATION_def)

lemma worker_ok_make: "Worker_make sid i self lid = Inr w \<Longrightarrow> worker_ok w"
  by (cases i)
    (auto simp: Worker_make_Inr worker_ok_def length_strncpy Worker_make_def Worker_SetIDENTITY_def
        Worker_SetEXPIRATION_def)

lemma letter_ok_of_zmsg: "Letter_of_zmsg fs = Inr l \<Longrightarrow> letter_ok l"
  by (auto simp: Letter_of_zmsg_def letter_ok_def length_strncpy split: option.splits if_splits)

lemma letter_ok_make: "letter_ok (Letter_make a h b)"
  by (simp add: letter_ok_def Letter_make_def length_strncpy)

lemma Letter_of_zmsg_frames: "Letter_of_zmsg (addr # fs @ [h, b]) = Inr (Letter_make addr h b)"
  by (simp add: Letter_of_zmsg_def Letter_make_def get_part_def parts_def nth_append nth_Cons')

end
