(* ===== verification/BrokerStore.thy ===== *)
theory BrokerStore
  imports BrokerObjects
begin

text \<open>
  The broker's database: the rows of broker_db.mco, and the interface of the eXtremeDB runtime
  as far as xdb_impl_db_broker.cpp uses it.  The runtime is not part of the repository, so its
  operations are the fields of a record \<open>env\<close> that every definition takes as an argument, and
  what the code relies on is the locale \<open>engine_laws\<close>.  A call gives a return code or a result;
  a row handle is the row's autoid; a cursor is the list of handles it has not passed.
\<close>

section \<open>Schema\<close>

datatype ServiceState = XUNKNOWN | XREGISTERED | XACTIVATED | XDISABLED

record xdb_service =
  x_name :: string
  x_state :: ServiceState
  x_endpoint :: string

record xdb_worker =
  w_identity :: string
  w_state :: Worker_State
  w_sec :: "32 word"
  w_nsec :: "32 word"
  w_service_ref :: int
  w_letter_ref :: int

record xdb_letter =
  l_service_ref :: int
  l_worker_ref :: int
  l_state :: Letter_State
  l_origin :: string
  l_sec :: "32 word"
  l_nsec :: "32 word"
  l_header :: string
  l_body :: string

definition new_service_row :: xdb_service where
  "new_service_row = \<lparr>x_name = '''', x_state = XUNKNOWN, x_endpoint = ''''\<rparr>"

definition new_worker_row :: xdb_worker where
  "new_worker_row =
     \<lparr>w_identity = '''', w_state = ARMED, w_sec = 0, w_nsec = 0, w_service_ref = 0, w_letter_ref = 0\<rparr>"

definition new_letter_row :: xdb_letter where
  "new_letter_row =
     \<lparr>l_service_ref = 0, l_worker_ref = 0, l_state = EMPTY, l_origin = '''', l_sec = 0, l_nsec = 0,
      l_header = '''', l_body = ''''\<rparr>"

text \<open>The generated field writers, one constructor for each.\<close>

datatype service_put = PutName string | PutEndpoint string | PutServiceState ServiceState

datatype worker_put = PutIdentity string | PutState Worker_State | PutSec "32 word" | PutNsec "32 word"
  | PutServiceRef int | PutLetterRef int

datatype letter_put = PutLService int | PutLWorker int | PutLState Letter_State | PutOrigin string
  | PutLSec "32 word" | PutLNsec "32 word" | PutHeader string | PutBody string

fun apply_service_put :: "service_put \<Rightarrow> xdb_service \<Rightarrow> xdb_service" where
  "apply_service_put (PutName s) r = r\<lparr>x_name := s\<rparr>"
| "apply_service_put (PutEndpoint s) r = r\<lparr>x_endpoint := s\<rparr>"
| "apply_service_put (PutServiceState s) r = r\<lparr>x_state := s\<rparr>"

fun apply_worker_put :: "worker_put \<Rightarrow> xdb_worker \<Rightarrow> xdb_worker" where
  "apply_worker_put (PutIdentity s) r = r\<lparr>w_identity := s\<rparr>"
| "apply_worker_put (PutState s) r = r\<lparr>w_state := s\<rparr>"
| "apply_worker_put (PutSec s) r = r\<lparr>w_sec := s\<rparr>"
| "apply_worker_put (PutNsec s) r = r\<lparr>w_nsec := s\<rparr>"
| "apply_worker_put (PutServiceRef s) r = r\<lparr>w_service_ref := s\<rparr>"
| "apply_worker_put (PutLetterRef s) r = r\<lparr>w_letter_ref := s\<rparr>"

fun apply_letter_put :: "letter_put \<Rightarrow> xdb_letter \<Rightarrow> xdb_letter" where
  "apply_letter_put (PutLService s) r = r\<lparr>l_service_ref := s\<rparr>"
| "apply_letter_put (PutLWorker s) r = r\<lparr>l_worker_ref := s\<rparr>"
| "apply_letter_put (PutLState s) r = r\<lparr>l_state := s\<rparr>"
| "apply_letter_put (PutOrigin s) r = r\<lparr>l_origin := s\<rparr>"
| "apply_letter_put (PutLSec s) r = r\<lparr>l_sec := s\<rparr>"
| "apply_letter_put (PutLNsec s) r = r\<lparr>l_nsec := s\<rparr>"
| "apply_letter_put (PutHeader s) r = r\<lparr>l_header := s\<rparr>"
| "apply_letter_put (PutBody s) r = r\<lparr>l_body := s\<rparr>"

text \<open>Values that fit the declared \<open>char<n>\<close> and \<open>string\<close> fields.\<close>

fun service_fits :: "service_put \<Rightarrow> bool" where
  "service_fits (PutName s) \<longleftrightarrow> length s \<le> SERVICE_NAME_MAXLEN \<and> NUL \<notin> set s"
| "service_fits (PutEndpoint s) \<longleftrightarrow> length s \<le> ENDPOINT_MAXLEN \<and> NUL \<notin> set s"
| "service_fits (PutServiceState s) \<longleftrightarrow> True"

fun worker_fits :: "worker_put \<Rightarrow> bool" where
  "worker_fits (PutIdentity s) \<longleftrightarrow> length s \<le> IDENTITY_MAXLEN \<and> NUL \<notin> set s"
| "worker_fits _ \<longleftrightarrow> True"

fun letter_fits :: "letter_put \<Rightarrow> bool" where
  "letter_fits (PutOrigin s) \<longleftrightarrow> length s \<le> IDENTITY_MAXLEN \<and> NUL \<notin> set s"
| "letter_fits (PutHeader s) \<longleftrightarrow> length s < 65536"
| "letter_fits (PutBody s) \<longleftrightarrow> length s < 65536"
| "letter_fits _ \<longleftrightarrow> True"

record tables =
  services :: "int \<rightharpoonup> xdb_service"
  workers :: "int \<rightharpoonup> xdb_worker"
  letters :: "int \<rightharpoonup> xdb_letter"

text \<open>\<open>unique tree <identity>\<close> of the workers and \<open>unique tree <worker_ref>\<close> of the letters.\<close>

definition unique_on :: "('r \<Rightarrow> 'k) \<Rightarrow> (int \<rightharpoonup> 'r) \<Rightarrow> bool" where
  "unique_on f m \<longleftrightarrow> (\<forall>i j r s. m i = Some r \<longrightarrow> m j = Some s \<longrightarrow> f r = f s \<longrightarrow> i = j)"

definition keys_ok :: "tables \<Rightarrow> bool" where
  "keys_ok t \<longleftrightarrow> unique_on w_identity (workers t) \<and> unique_on l_worker_ref (letters t)"

lemma unique_onD: "unique_on f m \<Longrightarrow> m i = Some r \<Longrightarrow> m j = Some s \<Longrightarrow> f r = f s \<Longrightarrow> i = j"
  unfolding unique_on_def by blast

lemma unique_on_upd:
  assumes "unique_on f m" and "\<And>j s. j \<noteq> i \<Longrightarrow> m j = Some s \<Longrightarrow> f s \<noteq> f r"
  shows "unique_on f (m(i \<mapsto> r))"
  using assms unfolding unique_on_def by (metis map_upd_Some_unfold)

lemma unique_on_del: "unique_on f m \<Longrightarrow> unique_on f (m(i := None))"
  unfolding unique_on_def by (auto split: if_splits)

section \<open>The interface\<close>

datatype mco_ret = MCO_S_OK | MCO_S_NOTFOUND | MCO_S_CURSOR_EMPTY | MCO_S_CURSOR_END
  | MCO_S_DUPLICATE | MCO_E nat

datatype trans_mode = MCO_READ_ONLY | MCO_READ_WRITE

type_synonym ('d, 'a) call = "('d, mco_ret, 'a) prog"

text \<open>The generated functions of one class, over its rows \<open>'r\<close> and writers \<open>'p\<close>.  All getters
  of a row are \<open>c_get\<close> and the caller reads the field; \<open>expiration_read\<close> and
  \<open>expiration_write\<close>, which open the nested time mark, are \<open>c_access\<close>.\<close>

record ('d, 'r, 'p) mco_class =
  c_create :: "('d, int) call"
  c_remove :: "int \<Rightarrow> ('d, unit) call"
  c_delete_all :: "('d, unit) call"
  c_find :: "int \<Rightarrow> ('d, int) call"
  c_autoid_get :: "int \<Rightarrow> ('d, int) call"
  c_get :: "int \<Rightarrow> ('d, 'r) call"
  c_access :: "int \<Rightarrow> ('d, unit) call"
  c_put :: "'p \<Rightarrow> int \<Rightarrow> ('d, unit) call"
  c_list_cursor :: "('d, int list) call"

text \<open>\<open>trans_rollback\<close> is told whether its handle was set by a \<open>trans_start\<close> that succeeded: the
  code also rolls back the handle of one that failed.\<close>

record 'd env =
  trans_start :: "trans_mode \<Rightarrow> ('d, unit) call"
  trans_commit :: "('d, unit) call"
  trans_rollback :: "bool \<Rightarrow> ('d, unit) call"
  get_last_error :: "('d, unit) call"
  clock_gettime :: "('d, timer_mark) call"
  XDBService :: "('d, xdb_service, service_put) mco_class"
  XDBWorker :: "('d, xdb_worker, worker_put) mco_class"
  XDBLetter :: "('d, xdb_letter, letter_put) mco_class"
  PK_name_find :: "string \<Rightarrow> ('d, int) call"
  SK_by_ident_find :: "string \<Rightarrow> ('d, int) call"
  SK_by_worker_id_find :: "int \<Rightarrow> ('d, int) call"
  SK_by_serv_id_cursor :: "('d, unit) call"
  SK_by_serv_id_search :: "int \<Rightarrow> ('d, int list) call"
  SK_by_serv_id_compare :: "int \<Rightarrow> int \<Rightarrow> ('d, int) call"
  SK_by_state_for_serv_cursor :: "('d, unit) call"
  SK_by_state_for_serv_search :: "int \<Rightarrow> Letter_State \<Rightarrow> ('d, int list) call"
  SK_by_state_for_serv_compare :: "int \<Rightarrow> int \<Rightarrow> Letter_State \<Rightarrow> ('d, int) call"
  from_cursor :: "int \<Rightarrow> ('d, int) call"
  cursor_first :: "('d, unit) call"
  cursor_next :: "('d, unit) call"
  junk :: "32 word"

section \<open>What the code relies on\<close>

text \<open>
  \<open>tabs\<close> is the contents as the running transaction sees it, \<open>saved\<close> what rolling back gives,
  \<open>depth\<close> the number of open transactions.  The contract of a call says what it answers and
  does to the contents when it succeeds (\<open>P\<close>), and when it may fail (\<open>F\<close>); a call that fails
  changes nothing and its code is not \<open>MCO_S_OK\<close>.  With \<open>reliable\<close> a call fails only for the
  reason its contract names.
\<close>

definition view ::
  "('d \<Rightarrow> 't) \<Rightarrow> ('d \<Rightarrow> 't) \<Rightarrow> ('d \<Rightarrow> nat) \<Rightarrow> 't \<Rightarrow> 't \<Rightarrow> nat \<Rightarrow> 'd \<Rightarrow> bool" where
  "view tabs saved depth T S n d \<longleftrightarrow> tabs d = T \<and> saved d = S \<and> depth d = n"

definition obeys ::
  "('d \<Rightarrow> 't) \<Rightarrow> ('d \<Rightarrow> 't) \<Rightarrow> ('d \<Rightarrow> nat) \<Rightarrow> ('d, 'a) call
   \<Rightarrow> ('t \<Rightarrow> 'a \<Rightarrow> 't \<Rightarrow> bool) \<Rightarrow> ('t \<Rightarrow> mco_ret \<Rightarrow> bool) \<Rightarrow> bool" where
  "obeys tabs saved depth c P F \<longleftrightarrow>
     (\<forall>d. wp c (\<lambda>x d'. P (tabs d) x (tabs d') \<and> saved d' = saved d \<and> depth d' = depth d)
            (\<lambda>rc d'. rc \<noteq> MCO_S_OK \<and> F (tabs d) rc \<and> tabs d' = tabs d \<and> saved d' = saved d \<and> depth d' = depth d) d)"

lemma wp_obeys:
  assumes "obeys tabs saved depth c P F" and "view tabs saved depth T S n d"
    and "\<And>x T' d'. P T x T' \<Longrightarrow> view tabs saved depth T' S n d' \<Longrightarrow> Q x d'"
    and "\<And>rc d'. rc \<noteq> MCO_S_OK \<Longrightarrow> F T rc \<Longrightarrow> view tabs saved depth T S n d' \<Longrightarrow> R rc d'"
  shows "wp c Q R d"
proof (rule wp_mono)
  show "wp c (\<lambda>x d'. P (tabs d) x (tabs d') \<and> saved d' = saved d \<and> depth d' = depth d)
     (\<lambda>rc d'. rc \<noteq> MCO_S_OK \<and> F (tabs d) rc \<and> tabs d' = tabs d \<and> saved d' = saved d \<and> depth d' = depth d) d"
    using assms(1) by (simp add: obeys_def)
qed (use assms(2-4) in \<open>auto simp: view_def\<close>)

text \<open>Contracts of calls that only look.\<close>

abbreviation (input) reads :: "('t \<Rightarrow> 'a \<Rightarrow> bool) \<Rightarrow> 't \<Rightarrow> 'a \<Rightarrow> 't \<Rightarrow> bool" where
  "reads A \<equiv> (\<lambda>T x T'. T' = T \<and> A T x)"

text \<open>The keys of the two cursor indexes.\<close>

definition serves :: "tables \<Rightarrow> int \<Rightarrow> int \<Rightarrow> bool" where
  "serves T h i \<longleftrightarrow> (\<exists>r. workers T h = Some r \<and> w_service_ref r = i)"

definition queued :: "tables \<Rightarrow> int \<Rightarrow> int \<Rightarrow> Letter_State \<Rightarrow> bool" where
  "queued T h i st \<longleftrightarrow> (\<exists>r. letters T h = Some r \<and> l_service_ref r = i \<and> l_state r = st)"

locale class_laws =
  fixes tabs :: "'d \<Rightarrow> 't" and saved :: "'d \<Rightarrow> 't" and depth :: "'d \<Rightarrow> nat"
    and reliable :: bool
    and C :: "('d, 'r, 'p) mco_class"
    and row :: "'t \<Rightarrow> int \<rightharpoonup> 'r"
    and set_row :: "(int \<rightharpoonup> 'r) \<Rightarrow> 't \<Rightarrow> 't"
    and fresh_row :: 'r
    and put_row :: "'p \<Rightarrow> 'r \<Rightarrow> 'r"
    and fits :: "'p \<Rightarrow> bool"
  assumes create: "obeys tabs saved depth (c_create C)
        (\<lambda>T h T'. T' = set_row ((row T)(h \<mapsto> fresh_row)) T \<and> 0 < h \<and> row T h = None)
        (\<lambda>T rc. \<not> reliable)"
    and remove: "obeys tabs saved depth (c_remove C h)
        (\<lambda>T _ T'. T' = set_row ((row T)(h := None)) T \<and> row T h \<noteq> None)
        (\<lambda>T rc. reliable \<longrightarrow> row T h = None)"
    and delete_all: "obeys tabs saved depth (c_delete_all C)
        (\<lambda>T _ T'. T' = set_row Map.empty T) (\<lambda>T rc. \<not> reliable)"
    and find: "obeys tabs saved depth (c_find C i) (reads (\<lambda>T h. h = i \<and> row T i \<noteq> None))
        (\<lambda>T rc. (rc = MCO_S_NOTFOUND \<longrightarrow> row T i = None) \<and> (reliable \<longrightarrow> rc = MCO_S_NOTFOUND))"
    and autoid_get: "obeys tabs saved depth (c_autoid_get C h) (reads (\<lambda>T i. i = h))
        (\<lambda>T rc. reliable \<longrightarrow> row T h = None)"
    and get: "obeys tabs saved depth (c_get C h) (reads (\<lambda>T r. row T h = Some r))
        (\<lambda>T rc. reliable \<longrightarrow> row T h = None)"
    and access: "obeys tabs saved depth (c_access C h) (reads (\<lambda>T _. True))
        (\<lambda>T rc. reliable \<longrightarrow> row T h = None)"
    and put: "obeys tabs saved depth (c_put C p h)
        (\<lambda>T _ T'. \<exists>r r'. T' = set_row ((row T)(h \<mapsto> r')) T \<and> row T h = Some r
            \<and> (fits p \<longrightarrow> r' = put_row p r))
        (\<lambda>T rc. reliable \<longrightarrow> row T h = None)"
    and list_cursor: "obeys tabs saved depth (c_list_cursor C)
        (reads (\<lambda>T hs. hs \<noteq> [] \<and> distinct hs \<and> set hs = dom (row T)))
        (\<lambda>T rc. (rc = MCO_S_CURSOR_EMPTY \<longrightarrow> row T = Map.empty) \<and> (reliable \<longrightarrow> rc = MCO_S_CURSOR_EMPTY))"
begin

lemma put_fits:
  assumes "fits p"
  shows "obeys tabs saved depth (c_put C p h)
        (\<lambda>T _ T'. \<exists>r. T' = set_row ((row T)(h \<mapsto> put_row p r)) T \<and> row T h = Some r)
        (\<lambda>T rc. reliable \<longrightarrow> row T h = None)"
  using put [of p h] assms unfolding obeys_def by (fast elim: wp_mono)

end

locale engine_laws =
  svc: class_laws tabs saved depth reliable "XDBService E" services "\<lambda>m T. T\<lparr>services := m\<rparr>"
    new_service_row apply_service_put service_fits +
  wkr: class_laws tabs saved depth reliable "XDBWorker E" workers "\<lambda>m T. T\<lparr>workers := m\<rparr>"
    new_worker_row apply_worker_put worker_fits +
  ltr: class_laws tabs saved depth reliable "XDBLetter E" letters "\<lambda>m T. T\<lparr>letters := m\<rparr>"
    new_letter_row apply_letter_put letter_fits
  for E :: "'d env" and tabs :: "'d \<Rightarrow> tables" and saved :: "'d \<Rightarrow> tables" and depth :: "'d \<Rightarrow> nat"
    and reliable :: bool +
  assumes start: "wp (trans_start E m)
        (\<lambda>_. view tabs saved depth (tabs d) (saved d) (Suc (depth d)))
        (\<lambda>rc d'. rc \<noteq> MCO_S_OK \<and> view tabs saved depth (tabs d) (saved d) (depth d) d' \<and> \<not> reliable) d"
    and commit: "wp (trans_commit E)
        (\<lambda>_ d'. view tabs saved depth (tabs d) (if depth d = 1 then tabs d else saved d) (depth d - 1) d'
           \<and> (depth d = 1 \<longrightarrow> keys_ok (tabs d)))
        (\<lambda>rc d'. rc \<noteq> MCO_S_OK \<and> view tabs saved depth (tabs d) (saved d) (depth d) d'
           \<and> (reliable \<longrightarrow> depth d = 1 \<and> \<not> keys_ok (tabs d))) d"
    and rollback: "saved (snd (trans_rollback E True d)) = saved d
        \<and> depth (snd (trans_rollback E True d)) = depth d - 1
        \<and> (depth d \<le> 1 \<longrightarrow> tabs (snd (trans_rollback E True d)) = saved d)"
    and rollback_unopened: "view tabs saved depth (tabs d) (saved d) (depth d) (snd (trans_rollback E False d))"
    and last_error: "obeys tabs saved depth (get_last_error E) (reads (\<lambda>T _. True)) (\<lambda>T rc. \<not> reliable)"
    and clock: "obeys tabs saved depth (clock_gettime E) (reads (\<lambda>T m. normalised m)) (\<lambda>T rc. \<not> reliable)"
    and find_name: "obeys tabs saved depth (PK_name_find E s)
        (reads (\<lambda>T h. \<exists>r. services T h = Some r \<and> x_name r = s))
        (\<lambda>T rc. (rc = MCO_S_NOTFOUND \<longrightarrow> (\<forall>h r. services T h = Some r \<longrightarrow> x_name r \<noteq> s))
           \<and> (reliable \<longrightarrow> rc = MCO_S_NOTFOUND))"
    and find_ident: "obeys tabs saved depth (SK_by_ident_find E s)
        (reads (\<lambda>T h. \<exists>r. workers T h = Some r \<and> w_identity r = s))
        (\<lambda>T rc. (rc = MCO_S_NOTFOUND \<longrightarrow> (\<forall>h r. workers T h = Some r \<longrightarrow> w_identity r \<noteq> s))
           \<and> (reliable \<longrightarrow> rc = MCO_S_NOTFOUND))"
    and find_worker_id: "obeys tabs saved depth (SK_by_worker_id_find E i)
        (reads (\<lambda>T h. \<exists>r. letters T h = Some r \<and> l_worker_ref r = i))
        (\<lambda>T rc. (rc = MCO_S_NOTFOUND \<longrightarrow> (\<forall>h r. letters T h = Some r \<longrightarrow> l_worker_ref r \<noteq> i))
           \<and> (reliable \<longrightarrow> rc = MCO_S_NOTFOUND))"
    and serv_id_cursor: "obeys tabs saved depth (SK_by_serv_id_cursor E) (reads (\<lambda>T _. True))
        (\<lambda>T rc. (rc = MCO_S_CURSOR_EMPTY \<longrightarrow> workers T = Map.empty)
           \<and> (reliable \<longrightarrow> rc = MCO_S_CURSOR_EMPTY))"
    and serv_id_search: "obeys tabs saved depth (SK_by_serv_id_search E i)
        (reads (\<lambda>T hs. hs \<noteq> [] \<and> set hs \<subseteq> dom (workers T)
           \<and> (\<forall>h. serves T h i \<longrightarrow> h \<in> set hs)))
        (\<lambda>T rc. reliable \<longrightarrow> (\<forall>h. \<not> serves T h i))"
    and serv_id_compare: "obeys tabs saved depth (SK_by_serv_id_compare E h i)
        (reads (\<lambda>T c. workers T h \<noteq> None \<and> (c = 0 \<longleftrightarrow> serves T h i)))
        (\<lambda>T rc. reliable \<longrightarrow> workers T h = None)"
    and state_for_serv_cursor: "obeys tabs saved depth (SK_by_state_for_serv_cursor E) (reads (\<lambda>T _. True))
        (\<lambda>T rc. (rc = MCO_S_CURSOR_EMPTY \<longrightarrow> letters T = Map.empty)
           \<and> (reliable \<longrightarrow> rc = MCO_S_CURSOR_EMPTY))"
    and state_for_serv_search: "obeys tabs saved depth (SK_by_state_for_serv_search E i st)
        (reads (\<lambda>T hs. hs \<noteq> [] \<and> set hs \<subseteq> dom (letters T)
           \<and> (\<forall>h. queued T h i st \<longrightarrow> h \<in> set hs)))
        (\<lambda>T rc. reliable \<longrightarrow> (\<forall>h. \<not> queued T h i st))"
    and state_for_serv_compare: "obeys tabs saved depth (SK_by_state_for_serv_compare E h i st)
        (reads (\<lambda>T c. letters T h \<noteq> None \<and> (c = 0 \<longleftrightarrow> queued T h i st)))
        (\<lambda>T rc. reliable \<longrightarrow> letters T h = None)"
    and from_cursor: "obeys tabs saved depth (from_cursor E h) (reads (\<lambda>T h'. h' = h)) (\<lambda>T rc. \<not> reliable)"
    and cursor_first: "obeys tabs saved depth (cursor_first E) (reads (\<lambda>T _. True)) (\<lambda>T rc. \<not> reliable)"
    and cursor_next: "obeys tabs saved depth (cursor_next E) (reads (\<lambda>T _. True))
        (\<lambda>T rc. rc \<noteq> MCO_S_CURSOR_END \<and> \<not> reliable)"

end
