(* ===== verification/Txn.thy ===== *)
theory Txn
  imports BrokerStore
begin

text \<open>
  The shape of every method of \<open>DatabaseBrokerImpl\<close>: a transaction is started, the steps run
  inside \<open>do { ... } while (false)\<close> where an error is a \<open>break\<close>, and the tail commits or rolls
  back.  The state of a method is the C++ object it was given together with the database, since
  changes of the object survive a rollback.  The theory also turns the laws of the engine into
  rules for \<open>wp\<close>.
\<close>

section \<open>Steps of a transaction\<close>

datatype exc = Brk mco_ret | Crash fault

type_synonym ('o, 'd, 'a) step = "('o \<times> 'd, exc, 'a) prog"

text \<open>\<open>rc = call; if (rc) break;\<close>\<close>

definition db :: "('d, 'a) call \<Rightarrow> ('o, 'd, 'a) step" where
  "db c s = (case c (snd s) of
     (Inl rc, d) \<Rightarrow> (Inl (Brk rc), (fst s, d)) | (Inr x, d) \<Rightarrow> (Inr x, (fst s, d)))"

text \<open>\<open>rc = call;\<close> with the code still to be looked at, or ignored.\<close>

definition db_try :: "('d, 'a) call \<Rightarrow> ('o, 'd, mco_ret + 'a) step" where
  "db_try c s = (case c (snd s) of (r, d) \<Rightarrow> (Inr r, (fst s, d)))"

definition assert_c :: "bool \<Rightarrow> ('o, 'd, unit) step" where
  "assert_c b = check b (Crash AssertFailed)"

definition obj :: "('o, 'd, 'o) step" where
  "obj = rd fst"

definition set_obj :: "('o \<Rightarrow> 'o) \<Rightarrow> ('o, 'd, unit) step" where
  "set_obj f = upd (\<lambda>(x, d). (f x, d))"

definition lift_fault :: "fault + 'a \<Rightarrow> ('o, 'd, 'a) step" where
  "lift_fault r = (case r of Inl f \<Rightarrow> raise (Crash f) | Inr x \<Rightarrow> ret x)"

text \<open>\<open>clock_gettime\<close>; \<open>None\<close> when it fails.\<close>

definition clock_now :: "'d env \<Rightarrow> ('o, 'd, timer_mark option) step" where
  "clock_now E = bnd (db_try (clock_gettime E)) (\<lambda>r. ret (case r of Inl _ \<Rightarrow> None | Inr m \<Rightarrow> Some m))"

section \<open>Whole transactions\<close>

text \<open>
  \<open>if (rc) mco_trans_rollback(t); return (MCO_S_OK == rc);\<close> after a body that ends with
  \<open>rc = mco_trans_commit(t)\<close>.  A \<open>break\<close> with \<open>rc\<close> still \<open>MCO_S_OK\<close> returns true and neither
  commits nor rolls back.
\<close>

definition run_txn :: "'d env \<Rightarrow> ('o, 'd, unit) step \<Rightarrow> ('o \<times> 'd, fault, bool) prog" where
  "run_txn E steps s =
     (case db (trans_start E MCO_READ_WRITE) s of
        (Inl _, s') \<Rightarrow> (Inr False, (fst s', snd (trans_rollback E False (snd s'))))
      | (Inr _, s') \<Rightarrow>
          (case sq steps (db (trans_commit E)) s' of
             (Inr _, s'') \<Rightarrow> (Inr True, s'')
           | (Inl (Crash f), s'') \<Rightarrow> (Inl f, s'')
           | (Inl (Brk rc), s'') \<Rightarrow>
               if rc = MCO_S_OK then (Inr True, s'')
               else (Inr False, (fst s'', snd (trans_rollback E True (snd s''))))))"

text \<open>A read-only transaction always ends with a rollback; its value is the code or the result.\<close>

definition run_ro :: "'d env \<Rightarrow> ('o, 'd, 'a) step \<Rightarrow> ('o \<times> 'd, fault, mco_ret + 'a) prog" where
  "run_ro E steps s =
     (case db_try (trans_start E MCO_READ_ONLY) s of
        (Inr (Inl rc), s') \<Rightarrow> (Inr (Inl rc), (fst s', snd (trans_rollback E False (snd s'))))
      | (_, s') \<Rightarrow>
          (case steps s' of
             (Inl (Crash f), s'') \<Rightarrow> (Inl f, s'')
           | (Inl (Brk rc), s'') \<Rightarrow> (Inr (Inl rc), (fst s'', snd (trans_rollback E True (snd s''))))
           | (Inr x, s'') \<Rightarrow> (Inr (Inr x), (fst s'', snd (trans_rollback E True (snd s''))))))"

text \<open>A method that is called on an object of its own.\<close>

definition on_obj :: "'o \<Rightarrow> ('o \<times> 'd, 'e, 'a) prog \<Rightarrow> ('d, 'e, 'a \<times> 'o) prog" where
  "on_obj x m d = (case m (x, d) of
     (Inl e, (x', d')) \<Rightarrow> (Inl e, d') | (Inr a, (x', d')) \<Rightarrow> (Inr (a, x'), d'))"

text \<open>A method without an object, inside one that has one.\<close>

definition under :: "('d, 'e, 'a) prog \<Rightarrow> ('o \<times> 'd, 'e, 'a) prog" where
  "under m s = (case m (snd s) of (r, d) \<Rightarrow> (r, (fst s, d)))"

text \<open>An inner \<open>do { ... } while (false)\<close>: its \<open>break\<close> gives the code to the code after it.\<close>

definition rc_of :: "('o, 'd, 'a) step \<Rightarrow> ('o, 'd, mco_ret + 'a) step" where
  "rc_of m s = (case m s of
     (Inl (Brk rc), t) \<Rightarrow> (Inr (Inl rc), t) | (Inl (Crash f), t) \<Rightarrow> (Inl (Crash f), t)
   | (Inr x, t) \<Rightarrow> (Inr (Inr x), t))"

text \<open>A call of a whole method inside a transaction.\<close>

definition nested :: "('o \<times> 'd, fault, 'a) prog \<Rightarrow> ('o, 'd, 'a) step" where
  "nested m s = (case m s of (Inl f, t) \<Rightarrow> (Inl (Crash f), t) | (Inr x, t) \<Rightarrow> (Inr x, t))"

lemmas txn_defs = rc_of_def nested_def db_def db_try_def assert_c_def obj_def set_obj_def lift_fault_def clock_now_def
  run_txn_def run_ro_def on_obj_def under_def

section \<open>Weakest preconditions of steps\<close>

lemma wp_db_any:
  "wp c (\<lambda>x d'. Q x (fst s, d')) (\<lambda>rc d'. R (Brk rc) (fst s, d')) (snd s) \<Longrightarrow> wp (db c) Q R s"
  by (auto simp: wp_def db_def split: prod.splits sum.splits)

lemma wp_db [vcg]:
  "wp c (\<lambda>x d'. Q x (o', d')) (\<lambda>rc d'. R (Brk rc) (o', d')) d \<Longrightarrow> wp (db c) Q R (o', d)"
  by (auto simp: wp_def db_def split: prod.splits sum.splits)

lemma wp_db_try [vcg]:
  "wp c (\<lambda>x d'. Q (Inr x) (o', d')) (\<lambda>rc d'. Q (Inl rc) (o', d')) d \<Longrightarrow> wp (db_try c) Q R (o', d)"
  by (auto simp: wp_def db_try_def split: prod.splits sum.splits)

lemma wp_assert_c [vcg]:
  "(b \<Longrightarrow> Q () s) \<Longrightarrow> (\<not> b \<Longrightarrow> R (Crash AssertFailed) s) \<Longrightarrow> wp (assert_c b) Q R s"
  unfolding assert_c_def by (rule wp_check)

lemma wp_obj [vcg]: "Q o' (o', d) \<Longrightarrow> wp obj Q R (o', d)"
  by (simp add: obj_def wp_rd)

lemma wp_set_obj [vcg]: "Q () (f o', d) \<Longrightarrow> wp (set_obj f) Q R (o', d)"
  by (simp add: set_obj_def wp_upd)

lemma wp_lift_Inr [vcg]: "Q x s \<Longrightarrow> wp (lift_fault (Inr x)) Q R s"
  by (simp add: lift_fault_def wp_ret)

lemma wp_lift_fault [vcg]:
  assumes "\<And>f. r = Inl f \<Longrightarrow> R (Crash f) s" and "\<And>x. r = Inr x \<Longrightarrow> Q x s"
  shows "wp (lift_fault r) Q R s"
  using assms by (cases r) (auto simp: lift_fault_def intro: vcg)

lemma wp_under [vcg]:
  "wp m (\<lambda>x d'. Q x (o', d')) (\<lambda>e d'. R e (o', d')) d \<Longrightarrow> wp (under m) Q R (o', d)"
  by (auto simp: wp_def under_def split: prod.splits sum.splits)

lemma wp_on_obj [vcg]:
  "wp m (\<lambda>a s. Q (a, fst s) (snd s)) (\<lambda>e s. R e (snd s)) (x, d) \<Longrightarrow> wp (on_obj x m) Q R d"
  by (auto simp: wp_def on_obj_def split: prod.splits sum.splits)

text \<open>Case distinctions that are already decided, to be tried before the general rules.\<close>

lemma decided:
  "wp (f a) Q R s \<Longrightarrow> wp (case Inl a of Inl x \<Rightarrow> f x | Inr y \<Rightarrow> g y) Q R s"
  "wp (g b) Q R s \<Longrightarrow> wp (case Inr b of Inl x \<Rightarrow> f x | Inr y \<Rightarrow> g y) Q R s"
  "wp m Q R s \<Longrightarrow> wp (case None of None \<Rightarrow> m | Some x \<Rightarrow> h x) Q R s"
  "wp (h c) Q R s \<Longrightarrow> wp (case Some c of None \<Rightarrow> m | Some x \<Rightarrow> h x) Q R s"
  "wp (k u v) Q R s \<Longrightarrow> wp (case (u, v) of (x, y) \<Rightarrow> k x y) Q R s"
  "A rc \<Longrightarrow> case Brk rc of Brk r \<Rightarrow> A r | Crash e \<Rightarrow> B e"
  "B e \<Longrightarrow> case Crash e of Brk r \<Rightarrow> A r | Crash e \<Rightarrow> B e"
  "Q x s \<Longrightarrow> wp (lift_fault (Inr x)) Q R s"
  by (simp_all add: lift_fault_def wp_ret)

lemma wp_case_prod [vcg]:
  "(\<And>x y. v = (x, y) \<Longrightarrow> wp (k x y) Q R s) \<Longrightarrow> wp (case v of (x, y) \<Rightarrow> k x y) Q R s"
  by (cases v) simp

lemma wp_rc_of [vcg]:
  "wp m (\<lambda>x. Q (Inr x)) (\<lambda>e s. case e of Brk rc \<Rightarrow> Q (Inl rc) s | Crash f \<Rightarrow> R (Crash f) s) s
   \<Longrightarrow> wp (rc_of m) Q R s"
  by (auto simp: wp_def rc_of_def split: prod.splits sum.splits exc.splits)

lemma wp_nested [vcg]: "wp m Q (\<lambda>f. R (Crash f)) s \<Longrightarrow> wp (nested m) Q R s"
  by (auto simp: wp_def nested_def split: prod.splits sum.splits)

lemma wp_run_txn:
  assumes "wp (trans_start E MCO_READ_WRITE)
     (\<lambda>_ d. wp (sq steps (db (trans_commit E))) (\<lambda>_ s'. Q True s')
        (\<lambda>e s'. case e of Crash f \<Rightarrow> R f s'
            | Brk rc \<Rightarrow> if rc = MCO_S_OK then Q True s'
                else Q False (fst s', snd (trans_rollback E True (snd s')))) (fst s, d))
     (\<lambda>rc d. Q False (fst s, snd (trans_rollback E False d))) (snd s)"
  shows "wp (run_txn E steps) Q R s"
  using assms
  by (auto simp: wp_def run_txn_def db_def [of "trans_start _ _"]
      split: prod.splits sum.splits exc.splits if_splits)

lemma wp_run_ro:
  assumes "wp (trans_start E MCO_READ_ONLY)
     (\<lambda>_ d. wp steps (\<lambda>x s'. Q (Inr x) (fst s', snd (trans_rollback E True (snd s'))))
        (\<lambda>e s'. case e of Crash f \<Rightarrow> R f s'
            | Brk rc \<Rightarrow> Q (Inl rc) (fst s', snd (trans_rollback E True (snd s')))) (fst s, d))
     (\<lambda>rc d. Q (Inl rc) (fst s, snd (trans_rollback E False d))) (snd s)"
  shows "wp (run_ro E steps) Q R s"
  using assms
  by (auto simp: wp_def run_ro_def db_try_def [of "trans_start _ _"]
      split: prod.splits sum.splits exc.splits)

section \<open>Contents\<close>

text \<open>Equations that keep the symbolic contents in a normal form: at most one update of each
  table, services before workers before letters.\<close>

lemma tab_simps:
  "services (T\<lparr>services := a\<rparr>) = a" "services (T\<lparr>workers := b\<rparr>) = services T"
  "services (T\<lparr>letters := c\<rparr>) = services T" "workers (T\<lparr>services := a\<rparr>) = workers T"
  "workers (T\<lparr>workers := b\<rparr>) = b" "workers (T\<lparr>letters := c\<rparr>) = workers T"
  "letters (T\<lparr>services := a\<rparr>) = letters T" "letters (T\<lparr>workers := b\<rparr>) = letters T"
  "letters (T\<lparr>letters := c\<rparr>) = c"
  "T\<lparr>services := a, services := a'\<rparr> = T\<lparr>services := a'\<rparr>"
  "T\<lparr>workers := b, workers := b'\<rparr> = T\<lparr>workers := b'\<rparr>"
  "T\<lparr>letters := c, letters := c'\<rparr> = T\<lparr>letters := c'\<rparr>"
  "T\<lparr>workers := b, services := a\<rparr> = T\<lparr>services := a, workers := b\<rparr>"
  "T\<lparr>letters := c, services := a\<rparr> = T\<lparr>services := a, letters := c\<rparr>"
  "T\<lparr>letters := c, workers := b\<rparr> = T\<lparr>workers := b, letters := c\<rparr>"
  "f(x := y, x := z) = f(x := z)" "(f(x := y)) x = y" "(Some u = Some v) = (u = v)"
  by simp_all

section \<open>Transactions on a lawful engine\<close>

context engine_laws
begin

text \<open>\<open>at T S n d\<close>: the contents are \<open>T\<close>, over \<open>S\<close>, with \<open>n\<close> transactions open.\<close>

abbreviation at :: "tables \<Rightarrow> tables \<Rightarrow> nat \<Rightarrow> 'd \<Rightarrow> bool" where
  "at \<equiv> view tabs saved depth"

lemma at_self: "at (tabs d) (saved d) (depth d) d"
  by (simp add: view_def)

lemmas wp_call = wp_obeys [of tabs saved depth]

lemmas call_rules =
  wp_call [OF svc.create] wp_call [OF svc.remove] wp_call [OF svc.delete_all] wp_call [OF svc.find]
  wp_call [OF svc.autoid_get] wp_call [OF svc.get] wp_call [OF svc.access] wp_call [OF svc.list_cursor]
  wp_call [OF wkr.create] wp_call [OF wkr.remove] wp_call [OF wkr.delete_all] wp_call [OF wkr.find]
  wp_call [OF wkr.autoid_get] wp_call [OF wkr.get] wp_call [OF wkr.access] wp_call [OF wkr.list_cursor]
  wp_call [OF ltr.create] wp_call [OF ltr.remove] wp_call [OF ltr.delete_all] wp_call [OF ltr.find]
  wp_call [OF ltr.autoid_get] wp_call [OF ltr.get] wp_call [OF ltr.access] wp_call [OF ltr.list_cursor]
  wp_call [OF last_error] wp_call [OF clock] wp_call [OF find_name] wp_call [OF find_ident]
  wp_call [OF find_worker_id] wp_call [OF serv_id_cursor] wp_call [OF serv_id_search]
  wp_call [OF serv_id_compare] wp_call [OF state_for_serv_cursor] wp_call [OF state_for_serv_search]
  wp_call [OF state_for_serv_compare] wp_call [OF from_cursor] wp_call [OF cursor_first]
  wp_call [OF cursor_next]

text \<open>A writer's value has to fit its field, which is proved first.\<close>

lemmas put_rules = wp_call [OF svc.put_fits] wp_call [OF wkr.put_fits] wp_call [OF ltr.put_fits]

text \<open>The goals at the end of a step: its postcondition holds, or it broke with a code.\<close>

lemma fin: "at T' S n d \<Longrightarrow> X T' \<Longrightarrow> \<exists>T'. at T' S n (snd (p, d)) \<and> X T'"
  by auto

lemma brk:
  "rc \<noteq> MCO_S_OK \<Longrightarrow> at T' S n d \<Longrightarrow> (Z \<longrightarrow> X)
   \<Longrightarrow> \<exists>rca T'. Brk rc = Brk rca \<and> rca \<noteq> MCO_S_OK \<and> at T' S n (snd (p, d)) \<and> (Z \<longrightarrow> X)"
  by auto

lemma brk_leak:
  "rc \<noteq> MCO_S_OK \<Longrightarrow> at T' S n d \<Longrightarrow> (Z \<longrightarrow> X)
   \<Longrightarrow> \<exists>rca T'. Brk rc = Brk rca \<and> (rca = MCO_S_OK \<longrightarrow> leak) \<and> at T' S n (snd (p, d)) \<and> (Z \<longrightarrow> X)"
  by auto

lemma ro_fin: "at T S n d \<Longrightarrow> X \<Longrightarrow> at T S n (snd (p, d)) \<and> X"
  by simp

lemma ro_brk: "at T S n d \<Longrightarrow> X rc \<Longrightarrow> (\<exists>rca. Brk rc = Brk rca \<and> X rca) \<and> at T S n (snd (p, d))"
  by auto

lemma rollback_at: "at T S (Suc n) d \<Longrightarrow> \<exists>T'. (n = 0 \<longrightarrow> T' = S) \<and> at T' S n (snd (trans_rollback E True d))"
  using rollback [of d] by (auto simp: view_def)

text \<open>With \<open>leak\<close> a step may also break while its code is \<open>MCO_S_OK\<close>: the method then reports
  success and leaves the transaction open.  \<open>C\<close> are the faults it may end in.\<close>

lemma txn_gen:
  assumes at: "at T S n d" and TS: "n = 0 \<Longrightarrow> S = T"
    and body: "\<And>d1. at T S (Suc n) d1 \<Longrightarrow>
      wp steps (\<lambda>_ s. \<exists>T'. at T' S (Suc n) (snd s) \<and> Q (fst s) T')
        (\<lambda>e s. (\<exists>rc T'. e = Brk rc \<and> (rc = MCO_S_OK \<longrightarrow> leak) \<and> at T' S (Suc n) (snd s) \<and> (reliable \<longrightarrow> R (fst s)))
           \<or> (\<exists>f. e = Crash f \<and> C f))
        (x, d1)"
  shows "wp (run_txn E steps)
     (\<lambda>b s. if b then (\<exists>T'. at T' (if n = 0 then T' else S) n (snd s) \<and> Q (fst s) T' \<and> (n = 0 \<longrightarrow> keys_ok T'))
            \<or> leak \<and> (\<exists>T'. at T' S (Suc n) (snd s)) \<and> (reliable \<longrightarrow> R (fst s))
        else \<exists>T'. at T' S n (snd s) \<and> (n = 0 \<longrightarrow> T' = T)
           \<and> (reliable \<longrightarrow> R (fst s) \<or> n = 0 \<and> (\<exists>t. Q (fst s) t \<and> \<not> keys_ok t)))
     (\<lambda>f _. C f) (x, d)" (is "wp _ ?P _ _")
proof (rule wp_run_txn, rule wp_mono [OF start], goal_cases)
  case (1 u d1)
  from 1 at have "at T S (Suc n) d1" by (simp add: view_def)
  then show ?case
  proof (simp, intro wp_sq wp_mono [OF body] wp_db_any wp_mono [OF commit], goal_cases)
    case (2 _ s _ d')
    then show ?case by (auto simp: view_def split: if_splits)
  next
    case (3 _ s rc d')
    then obtain T' where "at T' S (Suc n) d'" "Q (fst s) T'" "rc \<noteq> MCO_S_OK"
      "reliable \<longrightarrow> n = 0 \<and> \<not> keys_ok T'" by (auto simp: view_def)
    with rollback_at [of T' S n d'] TS show ?case by auto
  next
    case (4 e s)
    show ?case
    proof (cases e)
      case (Brk rc)
      with 4 obtain T' where "rc = MCO_S_OK \<longrightarrow> leak" "at T' S (Suc n) (snd s)" "reliable \<longrightarrow> R (fst s)"
        by auto
      with Brk rollback_at [of T' S n "snd s"] TS show ?thesis by auto
    qed (use 4 in auto)
  qed
next
  case (2 rc d1)
  then show ?case using rollback_unopened [of d1] at by (auto simp: view_def)
qed

lemma txn_leak:
  assumes at: "at T S n d" and TS: "n = 0 \<Longrightarrow> S = T"
    and body: "\<And>d1. at T S (Suc n) d1 \<Longrightarrow>
      wp steps (\<lambda>_ s. \<exists>T'. at T' S (Suc n) (snd s) \<and> Q (fst s) T')
        (\<lambda>e s. \<exists>rc T'. e = Brk rc \<and> (rc = MCO_S_OK \<longrightarrow> leak) \<and> at T' S (Suc n) (snd s) \<and> (reliable \<longrightarrow> R (fst s)))
        (x, d1)"
  shows "wp (run_txn E steps)
     (\<lambda>b s. if b then (\<exists>T'. at T' (if n = 0 then T' else S) n (snd s) \<and> Q (fst s) T' \<and> (n = 0 \<longrightarrow> keys_ok T'))
            \<or> leak \<and> (\<exists>T'. at T' S (Suc n) (snd s)) \<and> (reliable \<longrightarrow> R (fst s))
        else \<exists>T'. at T' S n (snd s) \<and> (n = 0 \<longrightarrow> T' = T)
           \<and> (reliable \<longrightarrow> R (fst s) \<or> n = 0 \<and> (\<exists>t. Q (fst s) t \<and> \<not> keys_ok t)))
     (\<lambda>_ _. False) (x, d)"
proof (rule wp_mono [OF txn_gen [OF at TS, where leak = leak and Q = Q and R = R and C = "\<lambda>_. False"]], goal_cases)
  case (2 d1)
  then show ?case by (rule wp_mono [OF body]) auto
qed (auto split: if_splits)

lemma txn:
  assumes at: "at T S n d" and TS: "n = 0 \<Longrightarrow> S = T"
    and body: "\<And>d1. at T S (Suc n) d1 \<Longrightarrow>
      wp steps (\<lambda>_ s. \<exists>T'. at T' S (Suc n) (snd s) \<and> Q (fst s) T')
        (\<lambda>e s. \<exists>rc T'. e = Brk rc \<and> rc \<noteq> MCO_S_OK \<and> at T' S (Suc n) (snd s) \<and> (reliable \<longrightarrow> R (fst s)))
        (x, d1)"
  shows "wp (run_txn E steps)
     (\<lambda>b s. if b then \<exists>T'. at T' (if n = 0 then T' else S) n (snd s) \<and> Q (fst s) T' \<and> (n = 0 \<longrightarrow> keys_ok T')
        else \<exists>T'. at T' S n (snd s) \<and> (n = 0 \<longrightarrow> T' = T)
           \<and> (reliable \<longrightarrow> R (fst s) \<or> n = 0 \<and> (\<exists>t. Q (fst s) t \<and> \<not> keys_ok t)))
     (\<lambda>_ _. False) (x, d)"
proof (rule wp_mono [OF txn_leak [OF at TS, where leak = False and Q = Q and R = R]], goal_cases)
  case (2 d1)
  then show ?case by (rule wp_mono [OF body]) auto
qed (auto split: if_splits)

text \<open>An outermost transaction whose effect keeps the unique keys.\<close>

lemma txn0_leak:
  assumes at: "at T T 0 d"
    and body: "\<And>d1. at T T 1 d1 \<Longrightarrow>
      wp steps (\<lambda>_ s. \<exists>T'. at T' T 1 (snd s) \<and> Q (fst s) T')
        (\<lambda>e s. \<exists>rc T'. e = Brk rc \<and> (rc = MCO_S_OK \<longrightarrow> leak) \<and> at T' T 1 (snd s) \<and> (reliable \<longrightarrow> R (fst s)))
        (x, d1)"
    and keys: "\<And>x' T'. Q x' T' \<Longrightarrow> \<not> keys_ok T' \<Longrightarrow> R x'"
  shows "wp (run_txn E steps)
     (\<lambda>b (x', d'). if b then (\<exists>T'. at T' T' 0 d' \<and> Q x' T' \<and> keys_ok T')
            \<or> leak \<and> (\<exists>T'. at T' T 1 d') \<and> (reliable \<longrightarrow> R x')
        else at T T 0 d' \<and> (reliable \<longrightarrow> R x'))
     (\<lambda>_ _. False) (x, d)"
proof (rule wp_mono [OF txn_leak [OF at refl, where leak = leak and Q = Q and R = R]], goal_cases)
  case (1 d1)
  then show ?case using body [of d1] by simp
qed (use keys in \<open>auto split: if_splits\<close>)

lemma txn0:
  assumes at: "at T T 0 d"
    and body: "\<And>d1. at T T 1 d1 \<Longrightarrow>
      wp steps (\<lambda>_ s. \<exists>T'. at T' T 1 (snd s) \<and> Q (fst s) T')
        (\<lambda>e s. \<exists>rc T'. e = Brk rc \<and> rc \<noteq> MCO_S_OK \<and> at T' T 1 (snd s) \<and> (reliable \<longrightarrow> R (fst s)))
        (x, d1)"
    and keys: "\<And>x' T'. Q x' T' \<Longrightarrow> \<not> keys_ok T' \<Longrightarrow> R x'"
  shows "wp (run_txn E steps)
     (\<lambda>b (x', d'). if b then \<exists>T'. at T' T' 0 d' \<and> Q x' T' \<and> keys_ok T'
        else at T T 0 d' \<and> (reliable \<longrightarrow> R x'))
     (\<lambda>_ _. False) (x, d)"
proof (rule wp_mono [OF txn0_leak [OF at, where leak = False and Q = Q and R = R]], goal_cases)
  case (1 d1)
  then show ?case by (rule wp_mono [OF body]) auto
qed (use keys in \<open>auto split: if_splits\<close>)

lemma txn0_crash:
  assumes at: "at T T 0 d"
    and body: "\<And>d1. at T T 1 d1 \<Longrightarrow>
      wp steps (\<lambda>_ s. \<exists>T'. at T' T 1 (snd s) \<and> Q (fst s) T')
        (\<lambda>e s. (\<exists>rc T'. e = Brk rc \<and> rc \<noteq> MCO_S_OK \<and> at T' T 1 (snd s) \<and> (reliable \<longrightarrow> R (fst s)))
           \<or> (\<exists>f. e = Crash f \<and> C f))
        (x, d1)"
    and keys: "\<And>x' T'. Q x' T' \<Longrightarrow> \<not> keys_ok T' \<Longrightarrow> R x'"
  shows "wp (run_txn E steps)
     (\<lambda>b (x', d'). if b then \<exists>T'. at T' T' 0 d' \<and> Q x' T' \<and> keys_ok T'
        else at T T 0 d' \<and> (reliable \<longrightarrow> R x'))
     (\<lambda>f _. C f) (x, d)"
proof (rule wp_mono [OF txn_gen [OF at refl, where leak = False and Q = Q and R = R and C = C]], goal_cases)
  case (1 d1)
  then have "at T T 1 d1" by simp
  then show ?case by (rule wp_mono [OF body]) auto
qed (use keys in \<open>auto split: if_splits\<close>)

lemma ro:
  assumes at: "at T T 0 d"
    and body: "\<And>d1. at T T 1 d1 \<Longrightarrow>
      wp steps (\<lambda>r s. at T T 1 (snd s) \<and> Q r (fst s))
        (\<lambda>e s. (\<exists>rc. e = Brk rc \<and> R rc (fst s)) \<and> at T T 1 (snd s)) (x, d1)"
    and start_fails: "\<And>rc. \<not> reliable \<Longrightarrow> rc \<noteq> MCO_S_OK \<Longrightarrow> R rc x"
  shows "wp (run_ro E steps)
     (\<lambda>r s. at T T 0 (snd s) \<and> (case r of Inr v \<Rightarrow> Q v (fst s) | Inl rc \<Rightarrow> R rc (fst s)))
     (\<lambda>_ _. False) (x, d)"
proof (rule wp_run_ro, rule wp_mono [OF start], goal_cases)
  case (1 u d1)
  from 1 at have "at T T 1 d1" by (simp add: view_def)
  then show ?case
    using rollback_at [of T T 0] by simp (rule wp_mono [OF body], simp, auto)
next
  case (2 rc d1)
  then show ?case
    using rollback_unopened [of d1] at start_fails by (auto simp: view_def)
qed

end

end
