(* ===== verification/LogDump.thy ===== *)
theory LogDump
  imports Zmsg
begin

text \<open>
  The two routines that print a frame for the log: \<open>zmsg::dump\<close> (mdp/mdp_zmsg.cpp) and
  \<open>hex_dump\<close> (tools/helper.cpp).  Both write into a fixed character buffer with
  \<open>sprintf\<close>, \<open>strcpy\<close> and \<open>snprintf\<close>; the buffer is modelled byte by byte and a write past
  its end is an error value.
\<close>

section \<open>A fixed buffer and writes into it\<close>

datatype buffer_error = Overflow nat

definition poke :: "nat \<Rightarrow> string \<Rightarrow> string \<Rightarrow> buffer_error + string" where
  "poke off bytes buf =
     (if off + length bytes \<le> length buf
      then Inr (take off buf @ bytes @ drop (off + length bytes) buf)
      else Inl (Overflow (off + length bytes)))"

fun run_pokes :: "(nat \<times> string) list \<Rightarrow> string \<Rightarrow> buffer_error + string" where
  "run_pokes [] buf = Inr buf"
| "run_pokes ((off, bytes) # ps) buf =
     (case poke off bytes buf of Inl e \<Rightarrow> Inl e | Inr buf' \<Rightarrow> run_pokes ps buf')"

lemma run_pokes_append:
  "run_pokes (ps @ qs) buf =
     (case run_pokes ps buf of Inl e \<Rightarrow> Inl e | Inr buf' \<Rightarrow> run_pokes qs buf')"
  by (induction ps buf rule: run_pokes.induct) (auto split: sum.splits)

lemma poke_fits:
  assumes "off + length bytes \<le> length buf"
  shows "\<exists>b. poke off bytes buf = Inr b \<and> length b = length buf
    \<and> take (off + length bytes) b = take off buf @ bytes"
  using assms by (simp add: poke_def)

text \<open>\<open>strcpy(buf + off, s)\<close> and the formatted prints all store a C string and its NUL.\<close>

definition cz :: "string \<Rightarrow> string" where
  "cz s = c_str s @ [NUL]"

lemma run_chunks:
  assumes fits: "\<And>k. k < n \<Longrightarrow> h + w * k + length (chunk k @ tail k) \<le> length buf"
    and width: "\<And>k. k < n \<Longrightarrow> length (chunk k) = w"
    and hdr: "take h buf = hdr" and h: "length hdr = h"
  shows "\<exists>b. run_pokes (map (\<lambda>k. (h + w * k, chunk k @ tail k)) [0..<n]) buf = Inr b
    \<and> length b = length buf \<and> take (h + w * n) b = hdr @ concat (map chunk [0..<n])"
  using fits width
proof (induction n)
  case 0
  then show ?case using hdr by simp
next
  case (Suc n)
  then obtain b where b: "run_pokes (map (\<lambda>k. (h + w * k, chunk k @ tail k)) [0..<n]) buf = Inr b"
    and len: "length b = length buf" and pre: "take (h + w * n) b = hdr @ concat (map chunk [0..<n])"
    by (meson less_Suc_eq)
  from Suc.prems(1) [of n] len have "h + w * n + length (chunk n @ tail n) \<le> length b" by simp
  then obtain c where c: "poke (h + w * n) (chunk n @ tail n) b = Inr c" "length c = length b"
    "take (h + w * n + length (chunk n @ tail n)) c = take (h + w * n) b @ chunk n @ tail n"
    using poke_fits by blast
  have w: "length (chunk n) = w" using Suc.prems(2) by simp
  have lenp: "length (take (h + w * n) b) = h + w * n"
    using \<open>h + w * n + length (chunk n @ tail n) \<le> length b\<close> by simp
  have "take (h + w * Suc n) c = take (h + w * Suc n) (take (h + w * n + length (chunk n @ tail n)) c)"
    using w by (simp add: algebra_simps min_def)
  also have "\<dots> = take (h + w * n) b @ chunk n"
    unfolding c(3) using w lenp by (simp add: algebra_simps)
  finally show ?case
    using b c len pre by (simp add: run_pokes_append)
qed

section \<open>Printing\<close>

fun dec :: "nat \<Rightarrow> string" where
  "dec n = (if n < 10 then [char_of (48 + n)] else dec (n div 10) @ [char_of (48 + n mod 10)])"

declare dec.simps [simp del]

text \<open>\<open>sprintf(buf, "[%03d] ", n)\<close>\<close>

definition size_prefix :: "nat \<Rightarrow> string" where
  "size_prefix n = ''['' @ replicate (3 - length (dec n)) (CHR ''0'') @ dec n @ ''] ''"

definition printable :: "char \<Rightarrow> bool" where
  "printable c \<longleftrightarrow> 32 \<le> unat (byte_of c) \<and> unat (byte_of c) \<le> 127"

definition hex2 :: "char \<Rightarrow> string" where
  "hex2 c = [hex_hi c, hex_lo c]"

text \<open>
  The writes of both loops.  For text, step \<open>k\<close> copies everything from byte \<open>k\<close> to the next
  NUL to \<open>buf + offset\<close> and moves on by one; for binary data it prints two digits.
\<close>

definition text_pokes :: "nat \<Rightarrow> nat \<Rightarrow> string \<Rightarrow> (nat \<times> string) list" where
  "text_pokes off n data = map (\<lambda>k. (off + 1 * k, cz (drop k data))) [0..<n]"

definition hex_pokes :: "nat \<Rightarrow> nat \<Rightarrow> string \<Rightarrow> (nat \<times> string) list" where
  "hex_pokes off n data = map (\<lambda>k. (off + 2 * k, hex2 (data ! k) @ [NUL])) [0..<n]"

definition dump_pokes :: "nat \<Rightarrow> string \<Rightarrow> (nat \<times> string) list" where
  "dump_pokes n data =
     (let p = size_prefix n; off = length p in
      if list_all printable (take n data)
      then (0, p @ [NUL]) # text_pokes off n data @ [(off + n, [NUL])]
      else (0, p @ [NUL]) # hex_pokes off n data @ [(off + 2 * n, [NUL])])"

section \<open>zmsg::dump\<close>

definition BUF_SZ_MAX :: nat where
  "BUF_SZ_MAX = 4000"

definition resize :: "nat \<Rightarrow> string \<Rightarrow> string" where
  "resize n s = take n (s @ replicate (n - length s) NUL)"

text \<open>
  One line of \<open>zmsg::dump\<close>.  \<open>buf\<close> is the uninitialised local array of \<open>BUF_SZ_MAX + 10\<close>
  bytes; a frame longer than half of it is cut to \<open>BUF_SZ_MAX / 2\<close> printed bytes.
\<close>

definition dump_frame :: "string \<Rightarrow> string \<Rightarrow> buffer_error + string" where
  "dump_frame buf data0 =
     (let cut = length data0 > BUF_SZ_MAX div 2;
          buffer_size = (if cut then BUF_SZ_MAX div 2 else length data0);
          data = (if cut then resize BUF_SZ_MAX data0 else data0) in
      map_sum id c_str (run_pokes (dump_pokes buffer_size data) buf))"

text \<open>The lines of a whole message, until the first overflow.\<close>

fun dump :: "string \<Rightarrow> frames \<Rightarrow> buffer_error + string list" where
  "dump buf [] = Inr []"
| "dump buf (f # fs) =
     (case dump_frame buf f of
        Inl e \<Rightarrow> Inl e | Inr l \<Rightarrow> map_sum id (\<lambda>ls. l # ls) (dump buf fs))"

section \<open>hex_dump\<close>

text \<open>
  \<open>hex_dump(const char*, unsigned)\<close> uses the global \<open>char buf[4000]\<close> and cuts nothing.  The
  bytes after the first \<open>size\<close> of \<open>data\<close> are the caller's memory up to a NUL; the model takes
  them as absent, that is \<open>data[size]\<close> is the NUL of a \<open>std::string\<close>, as at every call.
\<close>

definition HEX_DUMP_BUF :: nat where
  "HEX_DUMP_BUF = 4000"

definition hex_dump :: "string \<Rightarrow> string \<Rightarrow> buffer_error + string" where
  "hex_dump buf data = run_pokes (dump_pokes (length data) data) buf"

section \<open>The dump stays inside its buffer\<close>

lemma length_dec: "n < 10 ^ Suc k \<Longrightarrow> length (dec n) \<le> Suc k"
proof (induction k arbitrary: n)
  case 0
  then show ?case by (simp add: dec.simps)
next
  case (Suc k)
  then have "n div 10 < 10 ^ Suc k" by (simp add: less_mult_imp_div_less mult.commute)
  then have "length (dec (n div 10)) \<le> Suc k" by (rule Suc.IH)
  then show ?case by (simp add: dec.simps [of n])
qed

lemma digit_not_NUL: "d < 10 \<Longrightarrow> char_of (48 + d :: nat) \<noteq> NUL"
proof
  assume d: "d < 10" and "char_of (48 + d :: nat) = NUL"
  then have "of_char (char_of (48 + d :: nat)) = (of_char NUL :: nat)" by simp
  with d show False by (simp add: NUL_def)
qed

lemma dec_no_NUL: "NUL \<notin> set (dec n)"
proof (induction n rule: dec.induct)
  case (1 n)
  then show ?case
    using digit_not_NUL [of n] digit_not_NUL [of "n mod 10"]
    by (subst dec.simps) (auto simp: eq_commute [of NUL])
qed

lemma size_prefix_no_NUL: "NUL \<notin> set (size_prefix n)"
  using dec_no_NUL [of n] by (auto simp: size_prefix_def) (simp_all add: NUL_def)

lemma length_size_prefix: "n < 10000 \<Longrightarrow> length (size_prefix n) \<le> 7"
  using length_dec [of n 3] by (simp add: size_prefix_def)

lemma printable_not_NUL: "printable c \<Longrightarrow> c \<noteq> NUL"
  by (auto simp: printable_def NUL_def byte_of_def)

lemma hex2_no_NUL: "NUL \<notin> set (hex2 c)"
  using hex_no_NUL [of "of_char c div 16"] hex_no_NUL [of "of_char c mod 16"]
  by (auto simp: hex2_def hex_hi_def hex_lo_def unat_hi unat_lo less_mult_imp_div_less)

lemma cz_drop:
  assumes "k < length d" and "d ! k \<noteq> NUL"
  shows "cz (drop k d) = [d ! k] @ cz (drop (Suc k) d)"
  using assms by (simp add: cz_def c_str_def Cons_nth_drop_Suc [symmetric])

lemma length_cz_drop: "k \<le> length d \<Longrightarrow> k + length (cz (drop k d)) \<le> Suc (length d)"
  using length_c_str_le [of "drop k d"] by (simp add: cz_def)

text \<open>What is printed for the first \<open>n\<close> bytes.\<close>

definition dump_text :: "nat \<Rightarrow> string \<Rightarrow> string" where
  "dump_text n data =
     size_prefix n @ (if list_all printable (take n data) then take n data
                      else concat (map hex2 (take n data)))"

lemma dump_text_no_NUL: "NUL \<notin> set (dump_text n data)"
  using size_prefix_no_NUL hex2_no_NUL printable_not_NUL
  by (auto simp: dump_text_def list_all_iff)

lemma pokes_end:
  assumes b: "run_pokes ps buf = Inr b" "length b = length buf"
    and pre: "take off b = l" "length l = off" and fits: "off < length buf" and nul: "NUL \<notin> set l"
  shows "\<exists>c. run_pokes (ps @ [(off, [NUL])]) buf = Inr c \<and> length c = length buf \<and> c_str c = l"
proof -
  have "c_str (l @ NUL # r) = l" for r
    using nul by (simp add: c_str_def takeWhile_append2 cong: takeWhile_cong)
      (metis (mono_tags, lifting) takeWhile_eq_all_conv takeWhile_tail append_self_conv)
  then show ?thesis
    using assms by (simp add: run_pokes_append poke_def)
qed

lemma map_nth_upt_take: "n \<le> length d \<Longrightarrow> map (\<lambda>k. f (d ! k)) [0..<n] = map f (take n d)"
  by (rule nth_equalityI) simp_all

lemma dump_pokes_ok:
  assumes n: "n \<le> length data" and p: "length (size_prefix n) \<le> p" and fit1: "p + length data < length buf"
    and fit2: "p + 2 * n < length buf"
  shows "\<exists>c. run_pokes (dump_pokes n data) buf = Inr c \<and> length c = length buf
    \<and> c_str c = dump_text n data"
proof -
  let ?p = "size_prefix n" let ?off = "length ?p"
  obtain b0 where b0: "poke 0 (?p @ [NUL]) buf = Inr b0" "length b0 = length buf"
    "take ?off b0 = ?p"
    using poke_fits [of 0 "?p @ [NUL]" buf] p fit1 by (fastforce simp: poke_def)
  show ?thesis
  proof (cases "list_all printable (take n data)")
    case True
    then have nz: "data ! k \<noteq> NUL" if "k < n" for k
      using that n printable_not_NUL by (auto simp: list_all_length)
    have "text_pokes ?off n data = map (\<lambda>k. (?off + 1 * k, [data ! k] @ cz (drop (Suc k) data))) [0..<n]"
      using n nz by (auto simp: text_pokes_def cz_drop)
    moreover have "?off + 1 * k + length ([data ! k] @ cz (drop (Suc k) data)) \<le> length b0" if "k < n" for k
      using length_cz_drop [of "Suc k" data] that n p fit1 b0(2) by simp
    ultimately obtain b where b: "run_pokes (text_pokes ?off n data) b0 = Inr b" "length b = length b0"
      "take (?off + n) b = ?p @ concat (map (\<lambda>k. [data ! k]) [0..<n])"
      using run_chunks [where w = 1 and h = ?off and buf = b0 and hdr = ?p and n = n
          and chunk = "\<lambda>k. [data ! k]" and tail = "\<lambda>k. cz (drop (Suc k) data)"] b0(3) by auto
    have l: "?p @ concat (map (\<lambda>k. [data ! k]) [0..<n]) = dump_text n data"
      using n True map_nth_upt_take [of n data "\<lambda>c. [c]"] by (simp add: dump_text_def concat_map_singleton)
    show ?thesis
      using pokes_end [OF b(1,2) b(3) [unfolded l]] True n b0 p fit2 dump_text_no_NUL [of n data]
      by (simp add: dump_pokes_def Let_def dump_text_def)
  next
    case False
    have "?off + 2 * k + length (hex2 (data ! k) @ [NUL]) \<le> length b0" if "k < n" for k
      using that p fit2 b0(2) by (simp add: hex2_def)
    then obtain b where b: "run_pokes (hex_pokes ?off n data) b0 = Inr b" "length b = length b0"
      "take (?off + 2 * n) b = ?p @ concat (map (\<lambda>k. hex2 (data ! k)) [0..<n])"
      using run_chunks [where w = 2 and h = ?off and buf = b0 and hdr = ?p and n = n
          and chunk = "\<lambda>k. hex2 (data ! k)" and tail = "\<lambda>k. [NUL]"] b0(3)
      by (auto simp: hex_pokes_def hex2_def)
    have l: "?p @ concat (map (\<lambda>k. hex2 (data ! k)) [0..<n]) = dump_text n data"
      using n False map_nth_upt_take [of n data hex2] by (simp add: dump_text_def)
    have "length (concat (map hex2 (take n data))) = 2 * n"
      using n by (simp add: length_concat o_def hex2_def sum_list_triv)
    then show ?thesis
      using pokes_end [OF b(1,2) b(3) [unfolded l]] False n b0 p fit2 dump_text_no_NUL [of n data]
      by (simp add: dump_pokes_def Let_def dump_text_def)
  qed
qed

lemma dump_frame_ok:
  assumes "length buf = BUF_SZ_MAX + 10"
  shows "dump_frame buf f = Inr (dump_text (min (length f) 2000) f)"
proof (cases "2000 < length f")
  case True
  have d: "take 2000 (resize 4000 f) = take 2000 f" and len: "length (resize 4000 f) = 4000"
    using True by (auto simp: resize_def)
  have "length (size_prefix 2000) \<le> 7"
    by (rule length_size_prefix) simp
  then obtain c where "run_pokes (dump_pokes 2000 (resize 4000 f)) buf = Inr c"
    "c_str c = dump_text 2000 (resize 4000 f)"
    using dump_pokes_ok [of 2000 "resize 4000 f" 7 buf] len assms by (auto simp: BUF_SZ_MAX_def)
  with True d show ?thesis
    by (simp add: dump_frame_def BUF_SZ_MAX_def Let_def dump_text_def min_def)
next
  case False
  have "length (size_prefix (length f)) \<le> 7"
    by (rule length_size_prefix) (use False in simp)
  then obtain c where "run_pokes (dump_pokes (length f) f) buf = Inr c" "c_str c = dump_text (length f) f"
    using dump_pokes_ok [of "length f" f 7 buf] False assms by (auto simp: BUF_SZ_MAX_def)
  with False show ?thesis
    by (simp add: dump_frame_def BUF_SZ_MAX_def Let_def min_def)
qed

lemma length_poke: "poke off bytes buf = Inr b \<Longrightarrow> length b = length buf"
  by (auto simp: poke_def split: if_splits)

lemma run_pokes_overflow:
  "(off, bytes) \<in> set ps \<Longrightarrow> length buf < off + length bytes \<Longrightarrow> \<exists>n. run_pokes ps buf = Inl (Overflow n)"
proof (induction ps buf rule: run_pokes.induct)
  case (2 off' bytes' ps buf)
  show ?case
  proof (cases "poke off' bytes' buf")
    case (Inl e)
    then show ?thesis by (cases e) simp
  next
    case (Inr b)
    with "2.prems" have "(off, bytes) \<in> set ps" by (auto simp: poke_def split: if_splits)
    with "2.IH" [OF Inr] "2.prems" length_poke [OF Inr] Inr show ?thesis by simp
  qed
qed simp

lemma dump_in_bounds:
  assumes "length buf = BUF_SZ_MAX + 10"
  shows "dump buf fs = Inr (map (\<lambda>f. dump_text (min (length f) 2000) f) fs)"
  by (induction fs) (simp_all add: dump_frame_ok [OF assms])

lemma length_dec_ge: "10 ^ k \<le> n \<Longrightarrow> Suc k \<le> length (dec n)"
proof (induction k arbitrary: n)
  case 0
  then show ?case by (simp add: dec.simps [of n])
next
  case (Suc k)
  then have "10 ^ k \<le> n div 10" by (simp add: less_eq_div_iff_mult_less_eq mult.commute)
  then have "Suc k \<le> length (dec (n div 10))" by (rule Suc.IH)
  moreover have "\<not> n < 10"
  proof
    assume "n < 10"
    moreover have "1 \<le> (10::nat) ^ k" by simp
    ultimately show False using Suc.prems unfolding power_Suc by linarith
  qed
  ultimately show ?case by (simp add: dec.simps [of n])
qed

lemma hex_dump_overflows:
  assumes "length buf = HEX_DUMP_BUF" and "1997 \<le> length data" and "\<not> list_all printable data"
  shows "\<exists>n. hex_dump buf data = Inl (Overflow n)"
proof -
  let ?n = "length data" let ?off = "length (size_prefix (length data))"
  have "Suc 3 \<le> length (dec ?n)"
    by (rule length_dec_ge) (use assms(2) in simp)
  then have off: "7 \<le> ?off" by (simp add: size_prefix_def)
  have "(?off + 2 * ?n, [NUL]) \<in> set (dump_pokes ?n data)"
    using assms(3) by (simp add: dump_pokes_def Let_def)
  moreover have "length buf < ?off + 2 * ?n + length [NUL]"
    using assms(1,2) off by (simp add: HEX_DUMP_BUF_def)
  ultimately show ?thesis
    unfolding hex_dump_def by (rule run_pokes_overflow)
qed

lemma hex_dump_fits:
  assumes "length buf = HEX_DUMP_BUF" and "length data \<le> 1996"
  shows "\<exists>c. hex_dump buf data = Inr c \<and> c_str c = dump_text (length data) data"
proof -
  have "length (size_prefix (length data)) \<le> 7"
    by (rule length_size_prefix) (use assms(2) in simp)
  then show ?thesis
    using dump_pokes_ok [of "length data" data 7 buf] assms
    by (auto simp: hex_dump_def HEX_DUMP_BUF_def)
qed

end
