(* ===== verification/DbLife.thy ===== *)
theory DbLife
  imports Timer LogDump
begin

text \<open>
  The life cycle of a database instance: class \<open>DatabaseImpl\<close> (xdb/impl/xdb_impl_database.cpp) and
  the error codes of xdb/impl/xdb_impl_error.cpp.  The eXtremeDB runtime and the file system are
  the fields of a record \<open>runtime\<close>; every call of them gets and leaves a state of its own.  The
  model is of version 4 or later of the runtime, without its HTTP server and without
  \<open>DISK_DATABASE\<close>, as the build files configure it.  Log output is left out.
\<close>

section \<open>Error codes\<close>

datatype ErrorCode_t = rtE_NONE | rtE_UNKNOWN | rtE_NOT_IMPLEMENTED | rtE_STRING_TOO_LONG | rtE_STRING_IS_EMPTY
  | rtE_DB_NOT_FOUND | rtE_DB_NOT_OPENED | rtE_DB_NOT_DISCONNECTED | rtE_XML_OPEN | rtE_XML_IMPORT | rtE_XML_EXPORT
  | rtE_INCORRECT_DB_STATE | rtE_SNAPSHOT_WRITE | rtE_SNAPSHOT_READ | rtE_SNAPSHOT_NOT_EXIST | rtE_RUNTIME_FATAL
  | rtE_RUNTIME_ERROR | rtE_RUNTIME_WARNING | rtE_TABLE_CREATE | rtE_TABLE_READ | rtE_TABLE_WRITE | rtE_TABLE_DELETE
  | rtE_POINT_CREATE | rtE_POINT_READ | rtE_POINT_WRITE | rtE_POINT_DELETE | rtE_ILLEGAL_PARAMETER_VALUE
  | rtE_POINT_NOT_FOUND | rtE_ATTR_NOT_FOUND | rtE_ILLEGAL_TAG_NAME | rtE_ALREADY_EXIST | rtE_CONNECTION_INVALID | rtE_LAST

definition Ok :: "ErrorCode_t \<Rightarrow> bool" where
  "Ok e \<longleftrightarrow> e = rtE_NONE"

text \<open>The table that is filled before \<open>main\<close>; its other entries stay null.\<close>

fun Error_what :: "ErrorCode_t \<Rightarrow> string option" where
  "Error_what rtE_NONE = Some ''OK''"
| "Error_what rtE_UNKNOWN = Some ''Unknown error''"
| "Error_what rtE_NOT_IMPLEMENTED = Some ''Not yet implemented''"
| "Error_what rtE_STRING_TOO_LONG = Some ''Given string is too long''"
| "Error_what rtE_STRING_IS_EMPTY = Some ''Given string is empty''"
| "Error_what rtE_DB_NOT_FOUND = Some ''Database is not found''"
| "Error_what rtE_DB_NOT_OPENED = Some ''Database is not opened''"
| "Error_what rtE_DB_NOT_DISCONNECTED = Some ''Database is not disconnected''"
| "Error_what rtE_XML_OPEN = Some ''Error opening XML snap''"
| "Error_what rtE_INCORRECT_DB_STATE = Some ''New DB state is incorrect''"
| "Error_what rtE_SNAPSHOT_WRITE = Some ''Snapshot writing failure''"
| "Error_what rtE_SNAPSHOT_READ = Some ''Snapshot reading failure''"
| "Error_what rtE_SNAPSHOT_NOT_EXIST = Some ''Snapshot not exist''"
| "Error_what rtE_RUNTIME_FATAL = Some ''Fatal runtime failure''"
| "Error_what rtE_RUNTIME_ERROR = Some ''Runtime error''"
| "Error_what rtE_RUNTIME_WARNING = Some ''Recoverable runtime failure''"
| "Error_what rtE_TABLE_CREATE = Some ''Creating table''"
| "Error_what rtE_TABLE_READ = Some ''Reading from table''"
| "Error_what rtE_TABLE_WRITE = Some ''Writing into table''"
| "Error_what rtE_TABLE_DELETE = Some ''Deleting table''"
| "Error_what rtE_POINT_CREATE = Some ''Creating point''"
| "Error_what rtE_POINT_READ = Some ''Reading point''"
| "Error_what rtE_POINT_WRITE = Some ''Writing point''"
| "Error_what rtE_POINT_DELETE = Some ''Deleting point''"
| "Error_what rtE_ILLEGAL_PARAMETER_VALUE = Some ''Illegal parameter value''"
| "Error_what rtE_POINT_NOT_FOUND = Some ''Specific point is not found''"
| "Error_what rtE_ATTR_NOT_FOUND = Some ''Specific attribute is not found''"
| "Error_what rtE_ILLEGAL_TAG_NAME = Some ''Illegal point's tag''"
| "Error_what rtE_ALREADY_EXIST = Some ''Object already exist''"
| "Error_what rtE_CONNECTION_INVALID = Some ''Connection not valid''"
| "Error_what rtE_XML_IMPORT = None"
| "Error_what rtE_XML_EXPORT = None"
| "Error_what rtE_LAST = None"

section \<open>The runtime\<close>

text \<open>Return codes the code tells apart.\<close>

datatype rt_ret = RT_OK | RT_INSTANCE_DUPLICATE | RT_NOINSTANCE | RT_EVENT_RELEASED | RT_ERROR int

record rt_info =
  mco_save_load_supported :: bool
  mco_disk_supported :: bool
  mco_shm_supported :: bool

datatype device =
    NamedDatabase string "32 word"
  | NamedCache string "32 word"
  | ConvCache "32 word"
  | PersistentFile string
  | LogFile string

record db_params =
  db_max_connections :: int
  mem_page_size :: "16 word"
  disk_page_size :: "32 word"

record 'd runtime =
  rt_start :: "'d \<Rightarrow> rt_ret \<times> 'd"
  rt_stop :: "'d \<Rightarrow> rt_ret \<times> 'd"
  rt_stop_asked :: "'d \<Rightarrow> bool"
  rt_get_info :: "'d \<Rightarrow> rt_info"
  rt_kill :: "string \<Rightarrow> 'd \<Rightarrow> rt_ret \<times> 'd"
  rt_open_dev :: "string \<Rightarrow> device list \<Rightarrow> db_params \<Rightarrow> 'd \<Rightarrow> rt_ret \<times> 'd"
  rt_connect :: "string \<Rightarrow> 'd \<Rightarrow> (rt_ret \<times> bool) \<times> 'd"
  rt_disconnect :: "'d \<Rightarrow> rt_ret \<times> 'd"
  rt_close :: "string \<Rightarrow> 'd \<Rightarrow> rt_ret \<times> 'd"
  rt_clean :: "'d \<Rightarrow> rt_ret \<times> 'd"
  rt_release_events :: "'d \<Rightarrow> rt_ret \<times> 'd"
  rt_save :: "string \<Rightarrow> 'd \<Rightarrow> rt_ret \<times> 'd"
  rt_load :: "string \<Rightarrow> string \<Rightarrow> device list \<Rightarrow> db_params \<Rightarrow> 'd \<Rightarrow> rt_ret \<times> 'd"
  rt_trans_start :: "'d \<Rightarrow> rt_ret \<times> 'd"
  rt_commit :: "'d \<Rightarrow> rt_ret \<times> 'd"
  rt_rollback :: "'d \<Rightarrow> rt_ret \<times> 'd"
  rt_xml_export :: "string \<Rightarrow> 'd \<Rightarrow> rt_ret \<times> 'd"
  rt_xml_import :: "string \<Rightarrow> 'd \<Rightarrow> rt_ret \<times> 'd"
  rt_fopen :: "string \<Rightarrow> bool \<Rightarrow> 'd \<Rightarrow> bool \<times> 'd"

section \<open>The instance\<close>

datatype DBState_t = DB_STATE_UNINITIALIZED | DB_STATE_INITIALIZED | DB_STATE_ATTACHED | DB_STATE_CONNECTED
  | DB_STATE_DISCONNECTED | DB_STATE_CLOSED

datatype OF_POS = OF_POS_CREATE | OF_POS_READONLY | OF_POS_RDWR | OF_POS_TRUNCATE | OF_POS_LOAD_SNAP | OF_POS_SAVE_SNAP

definition DBNAME_MAXLEN :: nat where
  "DBNAME_MAXLEN = 10"

definition DEFAULT_MAX_DB_CONNECTIONS_ALLOWED :: int where
  "DEFAULT_MAX_DB_CONNECTIONS_ALLOWED = 4"

text \<open>\<open>m_db_set\<close>: whether the connection handle \<open>m_db\<close> is non-null.  \<open>m_count\<close> is the static
  counter of all instances, \<open>m_rt\<close> the state of the runtime and the file system.\<close>

record 'd DatabaseImpl =
  m_snapshot_counter :: "32 word"
  m_DatabaseSize :: "32 word"
  m_MemoryPageSize :: "16 word"
  m_MapAddress :: "32 word"
  m_DbDiskCache :: "32 word"
  m_DbDiskPageSize :: "32 word"
  m_state :: DBState_t
  m_last_error :: ErrorCode_t
  m_name :: string
  m_db_set :: bool
  m_db_access_flags :: Options
  m_save_to_xml_feature :: bool
  m_flags :: "OF_POS set"
  m_max_connections :: int
  m_snapshot_loaded :: bool
  m_db_params :: db_params
  m_dev :: "device list"
  m_dev_num :: nat
  m_count :: int
  m_rt :: 'd

type_synonym ('d, 'a) db_op = "('d DatabaseImpl, fault, 'a) prog"

definition rtcall :: "('d \<Rightarrow> 'a \<times> 'd) \<Rightarrow> ('d, 'a) db_op" where
  "rtcall f s = (case f (m_rt s) of (r, d) \<Rightarrow> (Inr r, s\<lparr>m_rt := d\<rparr>))"

definition assert_d :: "bool \<Rightarrow> ('d, unit) db_op" where
  "assert_d b = check b AssertFailed"

section \<open>Construction\<close>

text \<open>\<open>getOption(...) && val\<close>\<close>

definition option_on :: "Options \<Rightarrow> string \<Rightarrow> bool" where
  "option_on opts key = (case getOption opts key 0 of (found, val) \<Rightarrow> found \<and> val \<noteq> 0)"

definition option_or :: "Options \<Rightarrow> string \<Rightarrow> 'a \<Rightarrow> (int \<Rightarrow> 'a) \<Rightarrow> 'a" where
  "option_or opts key dflt f =
     (case getOption opts key 0 of (found, val) \<Rightarrow> if found \<and> val \<noteq> 0 then f val else dflt)"

definition given_flags :: "Options \<Rightarrow> OF_POS set" where
  "given_flags opts =
     (if option_on opts ''OF_CREATE'' then {OF_POS_CREATE} else {})
   \<union> (if option_on opts ''OF_TRUNCATE'' then {OF_POS_TRUNCATE} else {})
   \<union> (if option_on opts ''OF_RDWR'' then {OF_POS_RDWR} else {})
   \<union> (if option_on opts ''OF_READONLY'' then {OF_POS_READONLY} else {})
   \<union> (if option_on opts ''OF_LOAD_SNAP'' then {OF_POS_LOAD_SNAP} else {})
   \<union> (if option_on opts ''OF_SAVE_SNAP'' then {OF_POS_SAVE_SNAP} else {})"

text \<open>A database is not both emptied and loaded, nor both writable and read-only.\<close>

definition checked_flags :: "OF_POS set \<Rightarrow> OF_POS set" where
  "checked_flags fl =
     (let fl1 = (if OF_POS_TRUNCATE \<in> fl \<and> OF_POS_LOAD_SNAP \<in> fl then fl - {OF_POS_LOAD_SNAP} else fl)
      in if OF_POS_RDWR \<in> fl1 \<and> OF_POS_READONLY \<in> fl1 then fl1 - {OF_POS_RDWR} else fl1)"

definition DatabaseImpl_new :: "string \<Rightarrow> Options \<Rightarrow> int \<Rightarrow> 'd \<Rightarrow> 'd DatabaseImpl" where
  "DatabaseImpl_new name opts count d =
     \<lparr>m_snapshot_counter = 0,
      m_DatabaseSize = option_or opts ''OF_DATABASE_SIZE'' (1024 * 1024 * 10) word_of_int,
      m_MemoryPageSize = option_or opts ''OF_MEMORYPAGE_SIZE'' 256 (\<lambda>v. if 0 < v \<and> v < 65535 then word_of_int v else 256),
      m_MapAddress = option_or opts ''OF_MAP_ADDRESS'' 0x20000000 word_of_int,
      m_DbDiskCache = option_or opts ''OF_DISK_CACHE_SIZE'' 0 word_of_int,
      m_DbDiskPageSize = option_or opts ''OF_DISK_CACHE_SIZE'' 0 (\<lambda>_. 1024),
      m_state = DB_STATE_UNINITIALIZED, m_last_error = rtE_NONE, m_name = strncpy DBNAME_MAXLEN name, m_db_set = False,
      m_db_access_flags = opts, m_save_to_xml_feature = False, m_flags = checked_flags (given_flags opts),
      m_max_connections = (case opts ''OF_MAX_CONNECTIONS'' of Some v \<Rightarrow> v | None \<Rightarrow> DEFAULT_MAX_DB_CONNECTIONS_ALLOWED),
      m_snapshot_loaded = False, m_db_params = \<lparr>db_max_connections = 0, mem_page_size = 0, disk_page_size = 0\<rparr>, m_dev = [], m_dev_num = 0,
      m_count = count, m_rt = d\<rparr>"

section \<open>Errors and states\<close>

definition setError :: "ErrorCode_t \<Rightarrow> ('d, unit) db_op" where
  "setError e = upd (\<lambda>s. s\<lparr>m_last_error := e\<rparr>)"

definition clearError :: "('d, unit) db_op" where
  "clearError = setError rtE_NONE"

definition getLastError :: "('d, ErrorCode_t) db_op" where
  "getLastError = rd m_last_error"

definition ifErrorOccured :: "'d DatabaseImpl \<Rightarrow> bool" where
  "ifErrorOccured s \<longleftrightarrow> m_last_error s \<noteq> rtE_NONE"

fun transition_correct :: "DBState_t \<Rightarrow> DBState_t \<Rightarrow> bool" where
  "transition_correct DB_STATE_DISCONNECTED new \<longleftrightarrow> new \<in> {DB_STATE_CONNECTED, DB_STATE_CLOSED, DB_STATE_INITIALIZED}"
| "transition_correct DB_STATE_CONNECTED new \<longleftrightarrow> new = DB_STATE_DISCONNECTED"
| "transition_correct DB_STATE_ATTACHED new \<longleftrightarrow> new \<in> {DB_STATE_CONNECTED, DB_STATE_DISCONNECTED}"
| "transition_correct DB_STATE_CLOSED new \<longleftrightarrow> False"
| "transition_correct DB_STATE_INITIALIZED new \<longleftrightarrow> new \<in> {DB_STATE_ATTACHED, DB_STATE_CONNECTED, DB_STATE_DISCONNECTED}"
| "transition_correct DB_STATE_UNINITIALIZED new \<longleftrightarrow> new \<in> {DB_STATE_DISCONNECTED, DB_STATE_INITIALIZED, DB_STATE_CLOSED}"

definition TransitionToState :: "DBState_t \<Rightarrow> ('d, ErrorCode_t) db_op" where
  "TransitionToState new_state =
     sq clearError
    (bnd (rd m_state) (\<lambda>st.
     sq (if transition_correct st new_state then upd (\<lambda>s. s\<lparr>m_state := new_state\<rparr>)
         else setError rtE_INCORRECT_DB_STATE)
        getLastError))"

definition getSnapshotCounter :: "('d, 32 word) db_op" where
  "getSnapshotCounter = sq (upd (\<lambda>s. s\<lparr>m_snapshot_counter := m_snapshot_counter s + 1\<rparr>)) (rd m_snapshot_counter)"

definition getDbHandler :: "('d, unit) db_op" where
  "getDbHandler = bnd (rd m_db_set) assert_d"

text \<open>\<open>Control\<close>, \<open>Query\<close> and \<open>Config\<close> of the base class.\<close>

definition not_implemented :: "('d, ErrorCode_t) db_op" where
  "not_implemented = sq (setError rtE_NOT_IMPLEMENTED) getLastError"

section \<open>Starting the runtime\<close>

definition devices :: "string \<Rightarrow> 32 word \<Rightarrow> rt_info \<Rightarrow> device list" where
  "devices name n info =
     NamedDatabase (name @ ''-db'') n
     # (if mco_disk_supported info
        then [if mco_shm_supported info then NamedCache (name @ ''-cache'') (n div 2) else ConvCache (n div 2),
              PersistentFile (name @ ''.dbs''), LogFile (name @ ''.log'')]
        else [])"

definition prepare_devices :: "rt_info \<Rightarrow> ('d, unit) db_op" where
  "prepare_devices info =
     upd (\<lambda>s. s\<lparr>m_save_to_xml_feature := mco_save_load_supported info,
       m_dev := devices (m_name s) (m_DatabaseSize s) info, m_dev_num := (if mco_disk_supported info then 4 else 1),
       m_db_params := \<lparr>db_max_connections = m_max_connections s, mem_page_size = m_MemoryPageSize s,
         disk_page_size = m_DbDiskPageSize s\<rparr>\<rparr>)"

definition Init :: "'d runtime \<Rightarrow> ('d, ErrorCode_t) db_op" where
  "Init R =
     sq clearError
    (sq (upd (\<lambda>s. s\<lparr>m_dev_num := 1\<rparr>))
    (bnd (rd m_state) (\<lambda>st.
     if st \<noteq> DB_STATE_UNINITIALIZED then getLastError
     else
       bnd (rd m_count) (\<lambda>n.
       bnd (if n = 0 then rtcall (rt_start R) else ret RT_OK) (\<lambda>rc.
       sq (upd (\<lambda>s. s\<lparr>m_count := m_count s + 1\<rparr>))
      (bnd (rd (\<lambda>s. rt_get_info R (m_rt s))) (\<lambda>info.
       sq (prepare_devices info)
         (if rc \<noteq> RT_OK
          then sq (TransitionToState DB_STATE_UNINITIALIZED)
              (bnd (rd (\<lambda>s. (m_flags s, m_name s))) (\<lambda>(fl, name).
               sq (if OF_POS_CREATE \<in> fl \<or> OF_POS_TRUNCATE \<in> fl then bnd (rtcall (rt_kill R name)) (\<lambda>_. ret ()) else ret ())
                  getLastError))
          else if \<not> mco_shm_supported info then sq (setError rtE_RUNTIME_FATAL) getLastError
          else sq (TransitionToState DB_STATE_INITIALIZED) getLastError))))))))"

section \<open>Snapshots\<close>

text \<open>\<open>%09d\<close> of the counter, which is unsigned.\<close>

definition padded :: "nat \<Rightarrow> nat \<Rightarrow> string" where
  "padded w n = replicate (w - length (dec n)) (CHR ''0'') @ dec n"

definition counter_text :: "32 word \<Rightarrow> string" where
  "counter_text c = (if sint c < 0 then CHR ''-'' # padded 8 (nat (- sint c)) else padded 9 (nat (sint c)))"

text \<open>A given name must be shorter than the buffer of 150 bytes.\<close>

definition SaveAsXML_name :: "string option \<Rightarrow> string option \<Rightarrow> string \<Rightarrow> 32 word \<Rightarrow> string" where
  "SaveAsXML_name given_file_name msg name counter =
     (case given_file_name of
        None \<Rightarrow> take 148 (counter_text counter @ ''.'' @ name @ ''.'' @ (case msg of None \<Rightarrow> ''xdb'' | Some m \<Rightarrow> c_str m) @ ''.snap.xml'')
      | Some g \<Rightarrow> (case msg of None \<Rightarrow> c_str g
          | Some m \<Rightarrow> take 149 (c_str g @ ''.'' @ c_str m)))"

definition SaveAsXML_write :: "'d runtime \<Rightarrow> string \<Rightarrow> ('d, unit) db_op" where
  "SaveAsXML_write R fname =
     bnd (rtcall (rt_trans_start R)) (\<lambda>rc.
     if rc = RT_OK
     then bnd (rtcall (rt_xml_export R fname)) (\<lambda>rc.
          bnd (rtcall (if rc \<noteq> RT_OK then rt_rollback R else rt_commit R)) (\<lambda>_. ret ()))
     else setError rtE_SNAPSHOT_WRITE)"

definition SaveAsXML :: "'d runtime \<Rightarrow> string option \<Rightarrow> string option \<Rightarrow> ('d, ErrorCode_t) db_op" where
  "SaveAsXML R given_file_name msg =
     sq clearError
    (bnd (rd m_save_to_xml_feature) (\<lambda>feature.
     if \<not> feature then sq (setError rtE_NOT_IMPLEMENTED) getLastError
     else
       bnd (case given_file_name of None \<Rightarrow> getSnapshotCounter | Some _ \<Rightarrow> ret 0) (\<lambda>counter.
       bnd (rd m_name) (\<lambda>name.
       let fname = SaveAsXML_name given_file_name msg name counter in
       bnd (rtcall (rt_fopen R fname True)) (\<lambda>opened.
       if \<not> opened then sq (setError rtE_XML_EXPORT) getLastError
       else sq (SaveAsXML_write R fname) getLastError)))))"

text \<open>\<open>fname\<close> holds 40 bytes, of which \<open>snprintf\<close> may use 38 and its NUL.\<close>

definition StoreSnapshot :: "'d runtime \<Rightarrow> string option \<Rightarrow> ('d, ErrorCode_t) db_op" where
  "StoreSnapshot R given_file_name =
     sq clearError
    (bnd (rd m_name) (\<lambda>name.
     let fname = take 38 ((case given_file_name of Some g \<Rightarrow> c_str g | None \<Rightarrow> name) @ ''.snap.bin'') in
     bnd (rtcall (rt_fopen R fname True)) (\<lambda>opened.
     sq (if opened then bnd (rtcall (rt_save R fname)) (\<lambda>_. ret ()) else setError rtE_SNAPSHOT_WRITE)
    (bnd (rd m_flags) (\<lambda>fl.
     sq (if OF_POS_SAVE_SNAP \<in> fl
         then bnd (SaveAsXML R (Some (take 38 (name @ ''.snap.xml''))) None) (\<lambda>_. ret ()) else ret ())
        getLastError)))))"

text \<open>The return code of a rollback replaces that of the failed import.\<close>

definition LoadFromXML_read :: "'d runtime \<Rightarrow> string \<Rightarrow> ('d, rt_ret) db_op" where
  "LoadFromXML_read R fname =
     bnd (rtcall (rt_trans_start R)) (\<lambda>rc.
     if rc \<noteq> RT_OK then sq (setError rtE_RUNTIME_FATAL) (ret rc)
     else
       bnd (rtcall (rt_xml_import R fname)) (\<lambda>rc.
       bnd (rtcall (if rc = RT_OK then rt_commit R else rt_rollback R)) (\<lambda>rc.
       sq (upd (\<lambda>s. s\<lparr>m_snapshot_loaded := True\<rparr>)) (ret rc))))"

definition LoadFromXML :: "'d runtime \<Rightarrow> string \<Rightarrow> ('d, ErrorCode_t) db_op" where
  "LoadFromXML R given_file_name =
     sq clearError
    (bnd (rd m_db_set) (\<lambda>h.
     sq (assert_d h)
    (bnd (rd m_save_to_xml_feature) (\<lambda>feature.
     if \<not> feature then sq (setError rtE_NOT_IMPLEMENTED) getLastError
     else
       bnd (rd m_snapshot_loaded) (\<lambda>loaded.
       if loaded then getLastError
       else
         bnd (rtcall (rt_fopen R given_file_name False)) (\<lambda>opened.
         bnd (if \<not> opened then sq (setError rtE_XML_IMPORT) (ret RT_OK) else LoadFromXML_read R given_file_name) (\<lambda>rc.
         sq (if rc \<noteq> RT_OK then setError rtE_XML_IMPORT else ret ()) getLastError)))))))"

definition connect_handle :: "'d runtime \<Rightarrow> ('d, rt_ret) db_op" where
  "connect_handle R =
     bnd (rd m_name) (\<lambda>name.
     bnd (rtcall (rt_connect R name)) (\<lambda>(rc, h).
     sq (upd (\<lambda>s. s\<lparr>m_db_set := h\<rparr>)) (ret rc)))"

definition open_device :: "'d runtime \<Rightarrow> ('d, rt_ret) db_op" where
  "open_device R = bnd (rd (\<lambda>s. rt_open_dev R (m_name s) (take (m_dev_num s) (m_dev s)) (m_db_params s))) rtcall"

text \<open>The part of \<open>LoadSnapshot\<close> that runs when there is no binary snapshot.\<close>

definition restore_from_xml :: "'d runtime \<Rightarrow> ('d, ErrorCode_t) db_op" where
  "restore_from_xml R =
     bnd (open_device R) (\<lambda>rc.
     if rc \<noteq> RT_OK then ret rtE_SNAPSHOT_READ
     else
       sq (TransitionToState DB_STATE_ATTACHED)
      (sq (upd (\<lambda>s. s\<lparr>m_snapshot_loaded := False\<rparr>))
      (bnd (connect_handle R) (\<lambda>rc.
       if rc = RT_OK
       then sq (TransitionToState DB_STATE_CONNECTED)
           (bnd (rd m_name) (\<lambda>name.
            bnd (LoadFromXML R (name @ ''.snap.xml'')) (\<lambda>restoring_state.
            sq (upd (\<lambda>s. s\<lparr>m_snapshot_loaded := Ok restoring_state\<rparr>)) (ret restoring_state))))
       else ret rtE_SNAPSHOT_READ))))"

definition load_without_binary :: "'d runtime \<Rightarrow> ('d, unit) db_op" where
  "load_without_binary R =
     sq (setError rtE_SNAPSHOT_READ)
    (bnd (restore_from_xml R) (\<lambda>restoring_state.
     bnd (rd m_snapshot_loaded) (\<lambda>loaded.
     if loaded then ret ()
     else
       bnd (rd m_state) (\<lambda>st.
       sq (if st = DB_STATE_CONNECTED
           then bnd (rtcall (rt_disconnect R)) (\<lambda>_. bnd (TransitionToState DB_STATE_DISCONNECTED) (\<lambda>_. ret ())) else ret ())
          (setError restoring_state)))))"

definition LoadSnapshot :: "'d runtime \<Rightarrow> string option \<Rightarrow> ('d, ErrorCode_t) db_op" where
  "LoadSnapshot R given_file_name =
     sq clearError
    (bnd (rd m_db_set) (\<lambda>h.
     sq (assert_d (\<not> h))
    (bnd (rd m_state) (\<lambda>st.
     sq (if st = DB_STATE_UNINITIALIZED then bnd (Init R) (\<lambda>_. ret ()) else ret ())
    (bnd (rd (\<lambda>s. (m_name s, m_snapshot_loaded s, take (m_dev_num s) (m_dev s), m_db_params s))) (\<lambda>(name, loaded, dev, params).
     let fname = (case given_file_name of Some g \<Rightarrow> strncpy 149 g | None \<Rightarrow> name @ ''.snap.bin'') in
     sq (if loaded then setError rtE_SNAPSHOT_READ
         else
           bnd (rtcall (rt_fopen R fname False)) (\<lambda>opened.
           if opened
           then bnd (rtcall (rt_load R fname name dev params)) (\<lambda>rc.
                if rc \<noteq> RT_OK
                then sq (upd (\<lambda>s. s\<lparr>m_snapshot_loaded := False\<rparr>)) (setError rtE_SNAPSHOT_READ)
                else upd (\<lambda>s. s\<lparr>m_snapshot_loaded := True\<rparr>))
           else load_without_binary R))
        getLastError))))))"

section \<open>Opening, connecting and closing\<close>

definition Open :: "'d runtime \<Rightarrow> ('d, ErrorCode_t) db_op" where
  "Open R =
     sq clearError
    (bnd (rd (\<lambda>s. OF_POS_LOAD_SNAP \<in> m_flags s \<and> \<not> m_snapshot_loaded s)) (\<lambda>load.
     sq (if load
         then bnd (LoadSnapshot R None) (\<lambda>e. if Ok e then bnd (TransitionToState DB_STATE_ATTACHED) (\<lambda>_. ret ()) else ret ())
         else ret ())
    (bnd (rd m_snapshot_loaded) (\<lambda>loaded.
     bnd (if loaded then ret RT_OK
          else bnd (open_device R) (\<lambda>rc. bnd (TransitionToState DB_STATE_ATTACHED) (\<lambda>_. ret rc))) (\<lambda>rc.
     sq (if rc \<noteq> RT_OK \<and> rc \<noteq> RT_INSTANCE_DUPLICATE then setError rtE_RUNTIME_FATAL else ret ())
        getLastError)))))"

definition RegisterEvents :: "('d, ErrorCode_t) db_op" where
  "RegisterEvents = sq clearError getLastError"

definition after_connect :: "'d runtime \<Rightarrow> ('d, unit) db_op" where
  "after_connect R =
     sq (TransitionToState DB_STATE_CONNECTED)
    (bnd (rd m_db_access_flags) (\<lambda>opts.
     bnd (if option_on opts ''OF_TRUNCATE'' then rtcall (rt_clean R) else ret RT_OK) (\<lambda>rc.
     if rc = RT_OK then bnd RegisterEvents (\<lambda>_. ret ()) else ret ())))"

definition connect_failed :: "'d runtime \<Rightarrow> rt_ret \<Rightarrow> ('d, unit) db_op" where
  "connect_failed R rc =
     bnd (rd (\<lambda>s. (m_db_access_flags s, m_name s))) (\<lambda>(opts, name).
     if rc = RT_NOINSTANCE \<and> option_on opts ''OF_CREATE''
     then bnd (Open R) (\<lambda>e. if \<not> Ok e then bnd (rtcall (rt_kill R name)) (\<lambda>_. ret ()) else ret ())
     else bnd (TransitionToState DB_STATE_DISCONNECTED) (\<lambda>_. ret ()))"

definition restore_if_asked :: "'d runtime \<Rightarrow> ('d, unit) db_op" where
  "restore_if_asked R =
     bnd (rd (\<lambda>s. (OF_POS_LOAD_SNAP \<in> m_flags s \<and> \<not> m_snapshot_loaded s \<and> m_last_error s = rtE_SNAPSHOT_READ, m_name s))) (\<lambda>(b, name).
     if b
     then bnd (LoadFromXML R (name @ ''.xml'')) (\<lambda>e. if Ok e then upd (\<lambda>s. s\<lparr>m_snapshot_loaded := True\<rparr>) else ret ())
     else ret ())"

definition ConnectToInstance :: "'d runtime \<Rightarrow> ('d, ErrorCode_t) db_op" where
  "ConnectToInstance R =
     sq clearError
    (bnd (Open R) (\<lambda>e.
     if \<not> Ok e then getLastError
     else
       bnd (connect_handle R) (\<lambda>rc.
       sq (restore_if_asked R)
      (sq (if rc \<noteq> RT_OK then connect_failed R rc else after_connect R)
          getLastError))))"

definition Connect :: "'d runtime \<Rightarrow> ('d, ErrorCode_t) db_op" where
  "Connect R =
     sq clearError
    (bnd (rd m_state) (\<lambda>st.
     sq (if st \<noteq> DB_STATE_INITIALIZED then bnd (Init R) (\<lambda>_. ret ()) else ret ())
    (bnd (rd m_state) (\<lambda>st.
     sq (if st = DB_STATE_INITIALIZED \<or> st = DB_STATE_ATTACHED
         then bnd (ConnectToInstance R) (\<lambda>_. ret ()) else ret ())
        getLastError))))"

text \<open>\<open>DB_STATE_CONNECTED\<close> falls through to \<open>DB_STATE_ATTACHED\<close>; the result is the last code.\<close>

definition close_instance :: "'d runtime \<Rightarrow> ('d, rt_ret) db_op" where
  "close_instance R =
     bnd (rd m_name) (\<lambda>name.
     bnd (rtcall (rt_close R name)) (\<lambda>rc.
     sq (if rc = RT_OK then bnd (TransitionToState DB_STATE_CLOSED) (\<lambda>_. ret ()) else ret ()) (ret rc)))"

definition Disconnect :: "'d runtime \<Rightarrow> ('d, ErrorCode_t) db_op" where
  "Disconnect R =
     sq clearError
    (bnd (rd m_state) (\<lambda>st.
     bnd (if st = DB_STATE_CONNECTED
          then bnd (rtcall (rt_release_events R)) (\<lambda>_.
               bnd (rtcall (rt_disconnect R)) (\<lambda>rc.
               sq (if rc = RT_OK then bnd (TransitionToState DB_STATE_DISCONNECTED) (\<lambda>_. ret ()) else ret ())
                  (close_instance R)))
          else if st = DB_STATE_ATTACHED then close_instance R
          else ret RT_OK) (\<lambda>rc.
     sq (if rc \<noteq> RT_OK then setError rtE_DB_NOT_DISCONNECTED else ret ())
        getLastError)))"

definition DatabaseImpl_delete :: "'d runtime \<Rightarrow> ('d, unit) db_op" where
  "DatabaseImpl_delete R =
     bnd (rd m_state) (\<lambda>st.
     if st = DB_STATE_CLOSED \<or> st = DB_STATE_UNINITIALIZED then ret ()
     else
       sq (if st = DB_STATE_CONNECTED then bnd (StoreSnapshot R None) (\<lambda>_. ret ()) else ret ())
      (sq (if st = DB_STATE_CONNECTED \<or> st = DB_STATE_ATTACHED then bnd (Disconnect R) (\<lambda>_. ret ()) else ret ())
      (sq (upd (\<lambda>s. s\<lparr>m_count := m_count s - 1\<rparr>))
      (bnd (rd (\<lambda>s. m_count s = 0 \<and> rt_stop_asked R (m_rt s))) (\<lambda>stop.
       sq (if stop then bnd (rtcall (rt_stop R)) (\<lambda>_. ret ()) else ret ())
          (bnd (TransitionToState DB_STATE_CLOSED) (\<lambda>_. ret ())))))))"

section \<open>What every operation keeps\<close>

definition evolves :: "'d DatabaseImpl \<Rightarrow> 'd DatabaseImpl \<Rightarrow> bool" where
  "evolves s s' \<longleftrightarrow> transition_correct\<^sup>*\<^sup>* (m_state s) (m_state s')
     \<and> m_name s' = m_name s \<and> m_flags s' = m_flags s \<and> m_db_access_flags s' = m_db_access_flags s"

lemma evolves_refl [simp]: "evolves s s"
  by (simp add: evolves_def)

lemma evolves_trans: "evolves s t \<Longrightarrow> evolves t u \<Longrightarrow> evolves s u"
  by (auto simp: evolves_def)

definition orderly :: "('d, 'a) db_op \<Rightarrow> bool" where
  "orderly m \<longleftrightarrow> (\<forall>s. wp m (\<lambda>_. evolves s) (\<lambda>_. evolves s) s)"

named_theorems orderly \<open>operations that keep to the life cycle\<close>

lemma orderly_ret [orderly]: "orderly (ret x)"
  by (simp add: orderly_def wp_ret)

lemma orderly_rd [orderly]: "orderly (rd f)"
  by (simp add: orderly_def wp_rd)

lemma orderly_bnd [orderly]:
  assumes "orderly m" and "\<And>x. orderly (f x)"
  shows "orderly (bnd m f)"
  unfolding orderly_def
proof
  fix s
  have "wp m (\<lambda>x t. wp (f x) (\<lambda>_. evolves s) (\<lambda>_. evolves s) t) (\<lambda>_. evolves s) s"
    by (rule wp_mono [OF assms(1) [unfolded orderly_def, rule_format]])
      (auto intro: wp_mono [OF assms(2) [unfolded orderly_def, rule_format]] evolves_trans)
  then show "wp (bnd m f) (\<lambda>_. evolves s) (\<lambda>_. evolves s) s" by (rule wp_bnd)
qed

lemma orderly_sq [orderly]: "orderly m \<Longrightarrow> orderly k \<Longrightarrow> orderly (sq m k)"
  unfolding sq_def by (rule orderly_bnd)

lemma orderly_if [orderly]: "orderly m \<Longrightarrow> orderly k \<Longrightarrow> orderly (if b then m else k)"
  by simp

lemma orderly_case_option [orderly]: "orderly m \<Longrightarrow> (\<And>x. orderly (f x)) \<Longrightarrow> orderly (case v of None \<Rightarrow> m | Some x \<Rightarrow> f x)"
  by (simp split: option.split)

lemma orderly_case_prod [orderly]: "(\<And>x y. orderly (f x y)) \<Longrightarrow> orderly (case p of (x, y) \<Rightarrow> f x y)"
  by (simp split: prod.split)

lemma orderly_Let [orderly]: "(\<And>x. orderly (f x)) \<Longrightarrow> orderly (let x = v in f x)"
  by simp

lemma orderly_upd: "(\<And>s. evolves s (f s)) \<Longrightarrow> orderly (upd f)"
  by (simp add: orderly_def wp_upd)

lemma orderly_fields [orderly]:
  "orderly (setError e)" "orderly (upd (\<lambda>s. s\<lparr>m_snapshot_loaded := b\<rparr>))" "orderly (upd (\<lambda>s. s\<lparr>m_db_set := b\<rparr>))"
  "orderly (upd (\<lambda>s. s\<lparr>m_count := g s\<rparr>))" "orderly (upd (\<lambda>s. s\<lparr>m_snapshot_counter := h s\<rparr>))"
  "orderly (upd (\<lambda>s. s\<lparr>m_dev_num := n\<rparr>))" "orderly (prepare_devices info)"
  unfolding setError_def prepare_devices_def by (rule orderly_upd, simp add: evolves_def)+

lemma orderly_rtcall [orderly]: "orderly (rtcall f)"
  by (auto simp: orderly_def wp_def rtcall_def evolves_def split: prod.splits)

lemma orderly_assert [orderly]: "orderly (assert_d b)"
  by (auto simp: orderly_def assert_d_def intro!: wp_check)

lemma orderly_TransitionToState [orderly]: "orderly (TransitionToState st)"
  by (auto simp: orderly_def wp_def TransitionToState_def clearError_def setError_def getLastError_def prog_defs evolves_def)

lemma orderly_simple [orderly]: "orderly clearError" "orderly getLastError" "orderly RegisterEvents" "orderly getSnapshotCounter"
  unfolding clearError_def getLastError_def RegisterEvents_def getSnapshotCounter_def by (intro orderly)+

lemma orderly_Init [orderly]: "orderly (Init R)"
  unfolding Init_def by (intro orderly)

lemma orderly_snapshots [orderly]: "orderly (SaveAsXML_write R f)" "orderly (LoadFromXML_read R f)"
  "orderly (connect_handle R)" "orderly (open_device R)"
  unfolding SaveAsXML_write_def LoadFromXML_read_def connect_handle_def open_device_def by (intro orderly)+

lemma orderly_xml [orderly]: "orderly (SaveAsXML R g msg)" "orderly (LoadFromXML R f)"
  unfolding SaveAsXML_def LoadFromXML_def by (intro orderly)+

lemma orderly_StoreSnapshot [orderly]: "orderly (StoreSnapshot R g)"
  unfolding StoreSnapshot_def by (intro orderly)

lemma orderly_restore [orderly]: "orderly (restore_from_xml R)"
  unfolding restore_from_xml_def by (intro orderly)

lemma orderly_load_without [orderly]: "orderly (load_without_binary R)"
  unfolding load_without_binary_def by (intro orderly)

lemma orderly_LoadSnapshot [orderly]: "orderly (LoadSnapshot R g)"
  unfolding LoadSnapshot_def by (intro orderly)

lemma orderly_Open [orderly]: "orderly (Open R)"
  unfolding Open_def by (intro orderly)

lemma orderly_connect_parts [orderly]: "orderly (after_connect R)" "orderly (connect_failed R rc)" "orderly (restore_if_asked R)"
  "orderly (close_instance R)"
  unfolding after_connect_def connect_failed_def restore_if_asked_def close_instance_def by (intro orderly)+

lemma orderly_ConnectToInstance [orderly]: "orderly (ConnectToInstance R)"
  unfolding ConnectToInstance_def by (intro orderly)

lemma orderly_Connect [orderly]: "orderly (Connect R)" "orderly (Disconnect R)"
  unfolding Connect_def Disconnect_def by (intro orderly)+

lemma orderly_delete [orderly]: "orderly (DatabaseImpl_delete R)"
  unfolding DatabaseImpl_delete_def by (intro orderly)

text \<open>A program that uses an instance: any calls of its public operations, in any order.\<close>

datatype db_call = CallInit | CallOpen | CallConnect | CallDisconnect | CallLoadSnapshot "string option"
  | CallStoreSnapshot "string option" | CallSaveAsXML "string option" "string option" | CallLoadFromXML string
  | CallTransition DBState_t | CallDelete

fun run_call :: "'d runtime \<Rightarrow> db_call \<Rightarrow> ('d, ErrorCode_t) db_op" where
  "run_call R CallInit = Init R"
| "run_call R CallOpen = Open R"
| "run_call R CallConnect = Connect R"
| "run_call R CallDisconnect = Disconnect R"
| "run_call R (CallLoadSnapshot g) = LoadSnapshot R g"
| "run_call R (CallStoreSnapshot g) = StoreSnapshot R g"
| "run_call R (CallSaveAsXML g m) = SaveAsXML R g m"
| "run_call R (CallLoadFromXML f) = LoadFromXML R f"
| "run_call R (CallTransition st) = TransitionToState st"
| "run_call R CallDelete = bnd (DatabaseImpl_delete R) (\<lambda>_. getLastError)"

fun run_calls :: "'d runtime \<Rightarrow> db_call list \<Rightarrow> ('d, unit) db_op" where
  "run_calls R [] = ret ()"
| "run_calls R (c # cs) = bnd (run_call R c) (\<lambda>_. run_calls R cs)"

lemma orderly_run_call [orderly]: "orderly (run_call R c)"
  by (cases c) (simp_all only: run_call.simps, (intro orderly)+)

lemma orderly_run_calls: "orderly (run_calls R cs)"
  by (induction cs) (simp_all only: run_calls.simps, (intro orderly | assumption)+)

text \<open>Where the life cycle can lead from each state.\<close>

fun later :: "DBState_t \<Rightarrow> DBState_t set" where
  "later DB_STATE_UNINITIALIZED = UNIV"
| "later DB_STATE_CLOSED = {DB_STATE_CLOSED}"
| "later _ = {DB_STATE_INITIALIZED, DB_STATE_ATTACHED, DB_STATE_CONNECTED, DB_STATE_DISCONNECTED, DB_STATE_CLOSED}"

lemma closed_is_final: "transition_correct\<^sup>*\<^sup>* DB_STATE_CLOSED st \<longleftrightarrow> st = DB_STATE_CLOSED"
  by (auto elim: converse_rtranclpE)

lemma never_uninitialized: "transition_correct\<^sup>*\<^sup>* a DB_STATE_UNINITIALIZED \<longleftrightarrow> a = DB_STATE_UNINITIALIZED"
proof
  have "transition_correct a DB_STATE_UNINITIALIZED \<Longrightarrow> False" for a by (cases a) auto
  then show "transition_correct\<^sup>*\<^sup>* a DB_STATE_UNINITIALIZED \<Longrightarrow> a = DB_STATE_UNINITIALIZED"
    by (auto elim: rtranclp.cases)
qed simp

lemma later_iff: "transition_correct\<^sup>*\<^sup>* a b \<longleftrightarrow> b \<in> later a"
proof
  show "transition_correct\<^sup>*\<^sup>* a b \<Longrightarrow> b \<in> later a"
    by (cases a; cases b) (simp_all add: closed_is_final never_uninitialized)
  have init: "transition_correct\<^sup>*\<^sup>* DB_STATE_INITIALIZED c" if "c \<noteq> DB_STATE_UNINITIALIZED" for c
  proof -
    have d: "transition_correct\<^sup>*\<^sup>* DB_STATE_INITIALIZED DB_STATE_DISCONNECTED" by (rule r_into_rtranclp) simp
    show ?thesis
      using that d by (cases c) (auto intro: r_into_rtranclp rtranclp.rtrancl_into_rtrancl [OF d])
  qed
  have disc: "transition_correct\<^sup>*\<^sup>* DB_STATE_DISCONNECTED c" if "c \<noteq> DB_STATE_UNINITIALIZED" for c
    by (rule converse_rtranclp_into_rtranclp [OF _ init [OF that]]) simp
  assume b: "b \<in> later a"
  show "transition_correct\<^sup>*\<^sup>* a b"
  proof (cases "b = DB_STATE_UNINITIALIZED")
    case True
    with b show ?thesis by (cases a) auto
  next
    case False
    show ?thesis
    proof (cases a)
      case DB_STATE_UNINITIALIZED
      show ?thesis unfolding DB_STATE_UNINITIALIZED
        by (rule converse_rtranclp_into_rtranclp [OF _ init [OF False]]) simp
    next
      case DB_STATE_ATTACHED
      show ?thesis unfolding DB_STATE_ATTACHED
        by (rule converse_rtranclp_into_rtranclp [OF _ disc [OF False]]) simp
    next
      case DB_STATE_CONNECTED
      show ?thesis unfolding DB_STATE_CONNECTED
        by (rule converse_rtranclp_into_rtranclp [OF _ disc [OF False]]) simp
    next
      case DB_STATE_INITIALIZED
      show ?thesis unfolding DB_STATE_INITIALIZED by (rule init [OF False])
    next
      case DB_STATE_DISCONNECTED
      show ?thesis unfolding DB_STATE_DISCONNECTED by (rule disc [OF False])
    next
      case DB_STATE_CLOSED
      with b show ?thesis by simp
    qed
  qed
qed

section \<open>Runs through the life of an instance\<close>

lemmas db_exec = Let_def prog_defs rtcall_def setError_def clearError_def getLastError_def TransitionToState_def assert_d_def

text \<open>A runtime on which nothing fails.\<close>

definition willing :: "'d runtime \<Rightarrow> bool" where
  "willing R \<longleftrightarrow> (\<forall>d. fst (rt_start R d) = RT_OK \<and> fst (rt_disconnect R d) = RT_OK \<and> fst (rt_clean R d) = RT_OK
     \<and> mco_shm_supported (rt_get_info R d))
   \<and> (\<forall>n d. fst (rt_connect R n d) = (RT_OK, True) \<and> fst (rt_close R n d) = RT_OK)
   \<and> (\<forall>n ds p d. fst (rt_open_dev R n ds p d) = RT_OK)"

lemma willing_calls:
  assumes "willing R"
  shows "\<exists>d'. rt_start R d = (RT_OK, d')" "\<exists>d'. rt_disconnect R d = (RT_OK, d')" "\<exists>d'. rt_clean R d = (RT_OK, d')"
    "mco_shm_supported (rt_get_info R d)" "\<exists>d'. rt_connect R n d = ((RT_OK, True), d')"
    "\<exists>d'. rt_close R n d = (RT_OK, d')" "\<exists>d'. rt_open_dev R n ds p d = (RT_OK, d')"
  using assms unfolding willing_def by (metis prod.collapse)+

lemma willing_Init:
  assumes "willing R" and "m_state s = DB_STATE_UNINITIALIZED"
  shows "\<exists>s'. Init R s = (Inr rtE_NONE, s') \<and> m_state s' = DB_STATE_INITIALIZED \<and> m_flags s' = m_flags s
    \<and> m_db_access_flags s' = m_db_access_flags s \<and> m_snapshot_loaded s' = m_snapshot_loaded s \<and> m_count s' = m_count s + 1"
proof -
  obtain d' where "rt_start R (m_rt s) = (RT_OK, d')" using willing_calls(1) [OF assms(1)] by blast
  then show ?thesis
    using assms(2) willing_calls(4) [OF assms(1)] by (simp add: Init_def db_exec prepare_devices_def)
qed

lemma willing_Open:
  assumes "willing R" and "m_state s = DB_STATE_INITIALIZED" and "OF_POS_LOAD_SNAP \<notin> m_flags s" and "\<not> m_snapshot_loaded s"
  shows "\<exists>s'. Open R s = (Inr rtE_NONE, s') \<and> m_state s' = DB_STATE_ATTACHED \<and> m_flags s' = m_flags s
    \<and> m_db_access_flags s' = m_db_access_flags s \<and> m_snapshot_loaded s' = m_snapshot_loaded s \<and> m_count s' = m_count s"
proof -
  obtain d' where "rt_open_dev R (m_name s) (take (m_dev_num s) (m_dev s)) (m_db_params s) (m_rt s) = (RT_OK, d')"
    using willing_calls(7) [OF assms(1)] by blast
  then show ?thesis
    using assms(2-) by (simp add: Open_def db_exec open_device_def)
qed

lemma willing_Connect:
  assumes "willing R" and "m_state s = DB_STATE_UNINITIALIZED" and "OF_POS_LOAD_SNAP \<notin> m_flags s" and "\<not> m_snapshot_loaded s"
  shows "\<exists>s'. Connect R s = (Inr rtE_NONE, s') \<and> m_state s' = DB_STATE_CONNECTED \<and> m_db_set s' \<and> m_count s' = m_count s + 1"
proof -
  let ?s0 = "s\<lparr>m_last_error := rtE_NONE\<rparr>"
  obtain s1 where s1: "Init R ?s0 = (Inr rtE_NONE, s1)" "m_state s1 = DB_STATE_INITIALIZED" "OF_POS_LOAD_SNAP \<notin> m_flags s1"
    "\<not> m_snapshot_loaded s1" "m_count s1 = m_count s + 1"
    using willing_Init [OF assms(1), of ?s0] assms by auto
  obtain s2 where s2: "Open R (s1\<lparr>m_last_error := rtE_NONE\<rparr>) = (Inr rtE_NONE, s2)" "m_state s2 = DB_STATE_ATTACHED"
    "OF_POS_LOAD_SNAP \<notin> m_flags s2" "m_count s2 = m_count s + 1"
    using willing_Open [OF assms(1), of "s1\<lparr>m_last_error := rtE_NONE\<rparr>"] s1 by auto
  obtain d3 where d3: "rt_connect R (m_name s2) (m_rt s2) = ((RT_OK, True), d3)" using willing_calls(5) [OF assms(1)] by blast
  obtain d4 where d4: "rt_clean R d3 = (RT_OK, d4)" using willing_calls(3) [OF assms(1)] by blast
  have inst: "\<exists>s'. ConnectToInstance R s1 = (Inr rtE_NONE, s') \<and> m_state s' = DB_STATE_CONNECTED \<and> m_db_set s'
      \<and> m_count s' = m_count s + 1 \<and> m_last_error s' = rtE_NONE"
    using s2 d3 d4
    by (simp add: ConnectToInstance_def db_exec connect_handle_def restore_if_asked_def after_connect_def RegisterEvents_def Ok_def)
  then show ?thesis
    using assms(2) s1 by (auto simp: Connect_def db_exec)
qed

lemma willing_Disconnect:
  assumes "willing R" and "m_state s = DB_STATE_CONNECTED"
  shows "\<exists>s'. Disconnect R s = (Inr rtE_NONE, s') \<and> m_state s' = DB_STATE_CLOSED"
proof -
  obtain r d1 where d1: "rt_release_events R (m_rt s) = (r, d1)" by force
  obtain d2 where d2: "rt_disconnect R d1 = (RT_OK, d2)" using willing_calls(2) [OF assms(1)] by blast
  obtain d3 where d3: "rt_close R (m_name s) d2 = (RT_OK, d3)" using willing_calls(6) [OF assms(1)] by blast
  show ?thesis
    using assms(2) d1 d2 d3 by (simp add: Disconnect_def close_instance_def db_exec)
qed

text \<open>\<open>TransitionToState\<close> clears the error, so a failed connection leaves none.\<close>

lemma connect_failed_disconnects:
  assumes "m_state s = DB_STATE_ATTACHED" and "rc \<noteq> RT_NOINSTANCE \<or> \<not> option_on (m_db_access_flags s) ''OF_CREATE''"
  shows "connect_failed R rc s = (Inr (), s\<lparr>m_state := DB_STATE_DISCONNECTED, m_last_error := rtE_NONE\<rparr>)"
  using assms(2)
proof
  assume "rc \<noteq> RT_NOINSTANCE"
  with assms(1) show ?thesis by (simp add: connect_failed_def db_exec)
next
  assume "\<not> option_on (m_db_access_flags s) ''OF_CREATE''"
  with assms(1) show ?thesis by (simp add: connect_failed_def db_exec)
qed

lemma Connect_fails:
  assumes "m_state s = DB_STATE_INITIALIZED" and "OF_POS_LOAD_SNAP \<notin> m_flags s" and "\<not> m_snapshot_loaded s"
    and "rt_open_dev R (m_name s) (take (m_dev_num s) (m_dev s)) (m_db_params s) (m_rt s) = (RT_OK, d1)"
    and "rt_connect R (m_name s) d1 = ((rc, h), d2)" and "rc \<noteq> RT_OK"
    and "rc \<noteq> RT_NOINSTANCE \<or> \<not> option_on (m_db_access_flags s) ''OF_CREATE''"
  shows "\<exists>s'. Connect R s = (Inr rtE_NONE, s') \<and> m_state s' = DB_STATE_DISCONNECTED"
  using assms
  by (simp add: Connect_def ConnectToInstance_def Open_def open_device_def connect_handle_def restore_if_asked_def
      connect_failed_disconnects db_exec Ok_def)

text \<open>From \<open>ATTACHED\<close> no transition leads to \<open>CLOSED\<close>.\<close>

lemma Disconnect_attached:
  assumes "m_state s = DB_STATE_ATTACHED"
  shows "\<exists>e s'. Disconnect R s = (Inr e, s') \<and> m_state s' = DB_STATE_ATTACHED \<and> e \<in> {rtE_INCORRECT_DB_STATE, rtE_DB_NOT_DISCONNECTED}"
proof -
  obtain rc d1 where "rt_close R (m_name s) (m_rt s) = (rc, d1)" by force
  then show ?thesis
    using assms by (cases "rc = RT_OK") (simp_all add: Disconnect_def close_instance_def db_exec)
qed

lemma LoadFromXML_rolled_back:
  assumes "m_db_set s" and "m_save_to_xml_feature s" and "\<not> m_snapshot_loaded s"
    and "rt_fopen R f False (m_rt s) = (True, d1)" and "rt_trans_start R d1 = (RT_OK, d2)"
    and "rt_xml_import R f d2 = (rc, d3)" and "rc \<noteq> RT_OK" and "rt_rollback R d3 = (RT_OK, d4)"
  shows "\<exists>s'. LoadFromXML R f s = (Inr rtE_NONE, s') \<and> m_snapshot_loaded s'"
  using assms by (simp add: LoadFromXML_def LoadFromXML_read_def db_exec)

lemma Init_twice:
  assumes "m_state s = DB_STATE_UNINITIALIZED" and "m_count s = 0" and "rt_start R (m_rt s) = (rc, d1)" and "rc \<noteq> RT_OK"
    and "m_flags s \<inter> {OF_POS_CREATE, OF_POS_TRUNCATE} = {}" and "mco_shm_supported (rt_get_info R d1)"
  shows "\<exists>s'. sq (Init R) (Init R) s = (Inr rtE_NONE, s') \<and> m_state s' = DB_STATE_INITIALIZED \<and> m_rt s' = d1"
  using assms by (simp add: Init_def db_exec prepare_devices_def)

text \<open>Without a binary and an XML snapshot the instance is opened a second time, and the state
  it is in by then cannot become \<open>ATTACHED\<close>.\<close>

lemma load_without_snapshots:
  assumes s: "m_state s = DB_STATE_INITIALIZED" "\<not> m_snapshot_loaded s" "\<not> m_db_set s" "m_save_to_xml_feature s"
    and d: "rt_fopen R (m_name s @ ''.snap.bin'') False (m_rt s) = (False, d1)"
      "rt_open_dev R (m_name s) (take (m_dev_num s) (m_dev s)) (m_db_params s) d1 = (RT_OK, d2)"
      "rt_connect R (m_name s) d2 = ((RT_OK, True), d3)"
      "rt_fopen R (m_name s @ ''.snap.xml'') False d3 = (False, d4)" "rt_disconnect R d4 = (rc, d5)"
  shows "LoadSnapshot R None s = (Inr rtE_XML_IMPORT, s\<lparr>m_state := DB_STATE_DISCONNECTED, m_last_error := rtE_XML_IMPORT,
     m_db_set := True, m_rt := d5\<rparr>)"
  using assms
  by (simp add: LoadSnapshot_def load_without_binary_def restore_from_xml_def open_device_def connect_handle_def
      LoadFromXML_def db_exec Ok_def)

lemma Connect_without_snapshots:
  assumes s: "m_state s = DB_STATE_INITIALIZED" "\<not> m_snapshot_loaded s" "\<not> m_db_set s" "m_save_to_xml_feature s"
      "OF_POS_LOAD_SNAP \<in> m_flags s"
    and d: "rt_fopen R (m_name s @ ''.snap.bin'') False (m_rt s) = (False, d1)"
      "rt_open_dev R (m_name s) (take (m_dev_num s) (m_dev s)) (m_db_params s) d1 = (RT_OK, d2)"
      "rt_connect R (m_name s) d2 = ((RT_OK, True), d3)"
      "rt_fopen R (m_name s @ ''.snap.xml'') False d3 = (False, d4)" "rt_disconnect R d4 = (rc, d5)"
      "rt_open_dev R (m_name s) (take (m_dev_num s) (m_dev s)) (m_db_params s) d5 = (RT_INSTANCE_DUPLICATE, d6)"
  shows "\<exists>s'. Connect R s = (Inr rtE_INCORRECT_DB_STATE, s') \<and> m_state s' = DB_STATE_DISCONNECTED"
proof -
  have "LoadSnapshot R None (s\<lparr>m_last_error := rtE_NONE\<rparr>)
      = (Inr rtE_XML_IMPORT, s\<lparr>m_last_error := rtE_NONE, m_state := DB_STATE_DISCONNECTED, m_last_error := rtE_XML_IMPORT,
     m_db_set := True, m_rt := d5\<rparr>)"
    by (rule load_without_snapshots [where ?d1.0 = d1 and ?d2.0 = d2 and ?d3.0 = d3 and ?d4.0 = d4 and rc = rc])
      (use s d in simp_all)
  then show ?thesis
    using s d(6) by (simp add: Connect_def ConnectToInstance_def Open_def open_device_def db_exec Ok_def)
qed

section \<open>The flags\<close>

lemma checked_flags_exclusive:
  "\<not> (OF_POS_TRUNCATE \<in> checked_flags fl \<and> OF_POS_LOAD_SNAP \<in> checked_flags fl)
   \<and> \<not> (OF_POS_RDWR \<in> checked_flags fl \<and> OF_POS_READONLY \<in> checked_flags fl)"
  by (auto simp: checked_flags_def Let_def)

section \<open>A runtime for examples\<close>

text \<open>One instance that can be open and connected, and the files that exist.\<close>

record mem_rt =
  r_open :: bool
  r_linked :: bool
  r_files :: "string list"

definition mem_runtime :: "mem_rt runtime" where
  "mem_runtime = \<lparr>rt_start = \<lambda>d. (RT_OK, d), rt_stop = \<lambda>d. (RT_OK, d), rt_stop_asked = \<lambda>_. False,
     rt_get_info = \<lambda>_. \<lparr>mco_save_load_supported = True, mco_disk_supported = True, mco_shm_supported = True\<rparr>,
     rt_kill = \<lambda>_ d. (RT_OK, d\<lparr>r_open := False, r_linked := False\<rparr>),
     rt_open_dev = \<lambda>_ _ _ d. if r_open d then (RT_INSTANCE_DUPLICATE, d) else (RT_OK, d\<lparr>r_open := True\<rparr>),
     rt_connect = \<lambda>_ d. if r_open d then ((RT_OK, True), d\<lparr>r_linked := True\<rparr>) else ((RT_NOINSTANCE, False), d),
     rt_disconnect = \<lambda>d. (RT_OK, d\<lparr>r_linked := False\<rparr>),
     rt_close = \<lambda>_ d. if r_open d then (RT_OK, d\<lparr>r_open := False\<rparr>) else (RT_NOINSTANCE, d),
     rt_clean = \<lambda>d. (RT_OK, d), rt_release_events = \<lambda>d. (RT_EVENT_RELEASED, d),
     rt_save = \<lambda>f d. (RT_OK, d\<lparr>r_files := f # r_files d\<rparr>), rt_load = \<lambda>_ _ _ _ d. (RT_OK, d\<lparr>r_open := True\<rparr>),
     rt_trans_start = \<lambda>d. (RT_OK, d), rt_commit = \<lambda>d. (RT_OK, d), rt_rollback = \<lambda>d. (RT_OK, d),
     rt_xml_export = \<lambda>f d. (RT_OK, d\<lparr>r_files := f # r_files d\<rparr>), rt_xml_import = \<lambda>_ d. (RT_ERROR 1, d),
     rt_fopen = \<lambda>f w d. (w \<or> f \<in> set (r_files d), d)\<rparr>"

definition fresh_rt :: mem_rt where
  "fresh_rt = \<lparr>r_open = False, r_linked = False, r_files = []\<rparr>"

definition obliging_runtime :: "mem_rt runtime" where
  "obliging_runtime = mem_runtime\<lparr>rt_open_dev := \<lambda>_ _ _ d. (RT_OK, d), rt_connect := \<lambda>_ d. ((RT_OK, True), d),
     rt_close := \<lambda>_ d. (RT_OK, d)\<rparr>"

definition refusing_runtime :: "mem_rt runtime" where
  "refusing_runtime = mem_runtime\<lparr>rt_connect := \<lambda>_ d. ((RT_ERROR 62, False), d)\<rparr>"

section \<open>Properties of the life cycle\<close>

text \<open>C38. Whatever sequence of its public operations is called, and whatever the runtime and the
  file system answer, an instance only moves along the transitions of the life cycle: once it has
  left its first state it never returns to it, and once closed it stays closed.\<close>

theorem instance_keeps_life_cycle:
  "wp (run_calls R calls)
    (\<lambda>_ s'. m_state s' \<in> later (m_state s) \<and> m_name s' = m_name s \<and> m_flags s' = m_flags s)
    (\<lambda>_ s'. m_state s' \<in> later (m_state s) \<and> m_name s' = m_name s \<and> m_flags s' = m_flags s) s"
  by (rule wp_mono [OF orderly_run_calls [unfolded orderly_def, rule_format]]) (simp_all add: evolves_def later_iff)

text \<open>C39. On a runtime where nothing fails, the first instance of a process that is not told to load a
  snapshot connects without an error and is counted, and disconnecting closes it without an error.\<close>

theorem instance_connects_and_closes:
  assumes "willing R" and "option_on opts ''OF_LOAD_SNAP'' = False"
  shows "\<exists>s1 s2. Connect R (DatabaseImpl_new name opts n d) = (Inr rtE_NONE, s1)
     \<and> m_state s1 = DB_STATE_CONNECTED \<and> m_db_set s1 \<and> m_count s1 = n + 1
     \<and> Disconnect R s1 = (Inr rtE_NONE, s2) \<and> m_state s2 = DB_STATE_CLOSED"
proof -
  let ?s = "DatabaseImpl_new name opts n d"
  have "OF_POS_LOAD_SNAP \<notin> m_flags ?s"
    using assms(2) by (simp add: DatabaseImpl_new_def checked_flags_def given_flags_def Let_def)
  then obtain s1 where "Connect R ?s = (Inr rtE_NONE, s1)" "m_state s1 = DB_STATE_CONNECTED" "m_db_set s1" "m_count s1 = n + 1"
    using willing_Connect [OF assms(1), of ?s] by (auto simp: DatabaseImpl_new_def)
  with willing_Disconnect [OF assms(1), of s1] show ?thesis by blast
qed

theorem instance_connects_and_closes_witness:
  "\<exists>s1 s2. Connect obliging_runtime (DatabaseImpl_new ''RTAP'' [''OF_CREATE'' \<mapsto> 1] 0 fresh_rt) = (Inr rtE_NONE, s1)
     \<and> m_state s1 = DB_STATE_CONNECTED \<and> m_db_set s1 \<and> m_count s1 = 0 + 1
     \<and> Disconnect obliging_runtime s1 = (Inr rtE_NONE, s2) \<and> m_state s2 = DB_STATE_CLOSED"
  by (rule instance_connects_and_closes)
    (simp_all add: willing_def obliging_runtime_def mem_runtime_def option_on_def getOption_def)

text \<open>C40. When the device of an initialised instance opens but the runtime refuses the connection, \<open>Connect\<close>
  reports success and the instance is \<open>DISCONNECTED\<close>: no error code is set for the refusal, which the code
  only writes to its log.  Not included is the one refusal that it treats in another way: the instance is not
  found and the options allow to create it, when it opens the instance a second time and reports the outcome
  of that.\<close>

theorem refused_connection_is_no_error:
  assumes "m_state s = DB_STATE_INITIALIZED" and "OF_POS_LOAD_SNAP \<notin> m_flags s" and "\<not> m_snapshot_loaded s"
    and "rt_open_dev R (m_name s) (take (m_dev_num s) (m_dev s)) (m_db_params s) (m_rt s) = (RT_OK, d1)"
    and "rt_connect R (m_name s) d1 = ((rc, h), d2)" and "rc \<noteq> RT_OK"
    and "rc \<noteq> RT_NOINSTANCE \<or> \<not> option_on (m_db_access_flags s) ''OF_CREATE''"
  shows "\<exists>s'. Connect R s = (Inr rtE_NONE, s') \<and> m_state s' = DB_STATE_DISCONNECTED"
  by (rule Connect_fails [OF assms])

theorem refused_connection_is_no_error_witness:
  "\<exists>s'. Connect refusing_runtime
       (DatabaseImpl_new ''RTAP'' Map.empty 1 fresh_rt\<lparr>m_state := DB_STATE_INITIALIZED\<rparr>) = (Inr rtE_NONE, s')
     \<and> m_state s' = DB_STATE_DISCONNECTED"
  by (rule refused_connection_is_no_error [where rc = "RT_ERROR 62" and h = False and ?d2.0 = "fresh_rt\<lparr>r_open := True\<rparr>"])
    (simp_all add: DatabaseImpl_new_def checked_flags_def given_flags_def option_on_def getOption_def refusing_runtime_def mem_runtime_def fresh_rt_def)

text \<open>Loading an XML snapshot that the runtime rejects is reported as a success, and the snapshot
  counts as loaded: the code of the rollback replaces that of the import.\<close>

theorem rejected_import_is_no_error:
  assumes "m_db_set s" and "m_save_to_xml_feature s" and "\<not> m_snapshot_loaded s"
    and "rt_fopen R f False (m_rt s) = (True, d1)" and "rt_trans_start R d1 = (RT_OK, d2)"
    and "rt_xml_import R f d2 = (rc, d3)" and "rc \<noteq> RT_OK" and "rt_rollback R d3 = (RT_OK, d4)"
  shows "\<exists>s'. LoadFromXML R f s = (Inr rtE_NONE, s') \<and> m_snapshot_loaded s'"
  by (rule LoadFromXML_rolled_back [OF assms])

theorem rejected_import_is_no_error_witness:
  "\<exists>s'. LoadFromXML mem_runtime ''RTAP.xml'' (DatabaseImpl_new ''RTAP'' Map.empty 1 (fresh_rt\<lparr>r_files := [''RTAP.xml'']\<rparr>)
        \<lparr>m_db_set := True, m_save_to_xml_feature := True\<rparr>) = (Inr rtE_NONE, s') \<and> m_snapshot_loaded s'"
  by (rule rejected_import_is_no_error [where rc = "RT_ERROR 1"]) (simp_all add: DatabaseImpl_new_def mem_runtime_def)

text \<open>An instance that is told to load a snapshot where there is none cannot be connected: the
  attempt to restore it from XML leaves the life cycle in \<open>DISCONNECTED\<close>, from where it cannot be
  opened.\<close>

theorem missing_snapshot_blocks_connection:
  assumes "m_state s = DB_STATE_INITIALIZED" and "\<not> m_snapshot_loaded s" and "\<not> m_db_set s" and "m_save_to_xml_feature s"
    and "OF_POS_LOAD_SNAP \<in> m_flags s"
    and "rt_fopen R (m_name s @ ''.snap.bin'') False (m_rt s) = (False, d1)"
    and "rt_open_dev R (m_name s) (take (m_dev_num s) (m_dev s)) (m_db_params s) d1 = (RT_OK, d2)"
    and "rt_connect R (m_name s) d2 = ((RT_OK, True), d3)"
    and "rt_fopen R (m_name s @ ''.snap.xml'') False d3 = (False, d4)" and "rt_disconnect R d4 = (rc, d5)"
    and "rt_open_dev R (m_name s) (take (m_dev_num s) (m_dev s)) (m_db_params s) d5 = (RT_INSTANCE_DUPLICATE, d6)"
  shows "\<exists>s'. Connect R s = (Inr rtE_INCORRECT_DB_STATE, s') \<and> m_state s' = DB_STATE_DISCONNECTED"
  by (rule Connect_without_snapshots [OF assms])

theorem missing_snapshot_blocks_connection_witness:
  "\<exists>s'. Connect mem_runtime (DatabaseImpl_new ''RTAP'' [''OF_LOAD_SNAP'' \<mapsto> 1] 1 fresh_rt
        \<lparr>m_state := DB_STATE_INITIALIZED, m_save_to_xml_feature := True\<rparr>) = (Inr rtE_INCORRECT_DB_STATE, s')
     \<and> m_state s' = DB_STATE_DISCONNECTED"
  by (rule missing_snapshot_blocks_connection [where ?d2.0 = "fresh_rt\<lparr>r_open := True\<rparr>"
        and ?d3.0 = "fresh_rt\<lparr>r_open := True, r_linked := True\<rparr>" and ?d4.0 = "fresh_rt\<lparr>r_open := True, r_linked := True\<rparr>" and ?d6.0 = "fresh_rt\<lparr>r_open := True\<rparr>"])
    (simp_all add: DatabaseImpl_new_def mem_runtime_def fresh_rt_def checked_flags_def given_flags_def option_on_def getOption_def,
     simp_all)

end
