(* ===== verification/RtapStore.thy ===== *)
theory RtapStore
  imports Txn DbLife
begin

text \<open>
  The real-time database: the rows of src/xdb/impl/dat/rtap_db.mco that xdb_impl_db_rtap.cpp works
  on, and the generated interface of the eXtremeDB runtime to them, a record \<open>rtap_env\<close> with the
  laws \<open>rtap_laws\<close>.  The classes are used through the same \<open>mco_class\<close> as the broker's, with the
  same laws.  Values of 64 bits are words; a \<open>double\<close> is only copied by this code, so it is its
  64 bits.
\<close>

section \<open>Enumerations of the schema\<close>

datatype PointStatus = PLANNED | WORKED | DISABLED

datatype InternalState = SUSPEND | ENABLE

datatype Validity = VALIDITY_FAULT | VALIDITY_VALID | VALIDITY_MANUAL | VALIDITY_INHIBITION | VALIDITY_FAULT_INHIB
  | VALIDITY_FAULT_FORCED | VALIDITY_INQUIRED | VALIDITY_NO_INSTRUM | VALIDITY_GLOBAL_FAULT

datatype SystemState = SS_FAULT | SS_INHIB | SS_WORK

datatype Responsability = LOCAL | DISTANT

datatype AlarmState = NO_ALARM | ALARM_NOTACK | ALARM_ACK

datatype SynthState = SS_UNREACH | SS_OPER | SS_PRE_OPER

datatype Action = TC_NONE | TC_ON | TC_OFF | TC_SC_START_MAIN_LINE | TC_SC_STOP_MAIN_LINE | TC_ATC_STOP_NORMAL
  | TC_ATC_START_LOOPING | TC_ATC_START_MAIN_LINE | TC_ATC_STOP_MAIN_LINE | TC_ATC_SWITCH_COLD_REGUL1
  | TC_ATC_SWITCH_COLD_REGUL2 | TC_GRC_STOP_URG_NO_EVAC_GAZ | TC_ATC_STOP_URG_WITH_EVAC_GAZ | TC_GRC_START_LOOPING
  | TC_GRC_START_MAIN_LINE | TC_AUX_FLOW_REGUL | TC_AUX_PRESSURE_REGUL | TC_AUX_START_PUMP | TC_AUX_STOP_PUMP
  | TC_AUX_START_COMPRESSOR | TC_AUX_STOP_COMPRESSOR | TC_AUX_STOP_URG_AIRCOOLING | TC_AUX_START_VENTILATOR
  | TC_AUX_STOP_VENTILATOR

datatype ValidChange = VALIDCHANGE_FAULT | VALIDCHANGE_VALID | VALIDCHANGE_FORCED | VALIDCHANGE_INHIB
  | VALIDCHANGE_MANUAL | VALIDCHANGE_END_INHIB | VALIDCHANGE_END_FORCED | VALIDCHANGE_INHIB_GBL
  | VALIDCHANGE_END_INHIB_GBL | VALIDCHANGE_NULL | VALIDCHANGE_FAULT_GBL | VALIDCHANGE_INHIB_SA
  | VALIDCHANGE_END_INHIB_SA

datatype objclass_t = TS | TM | TR | TSA | TSC | TC | AL | ICS | ICM | PIPE | PIPELINE | TL | VA | SC | ATC | GRC | SV
  | SDG | RGA | SSDG | BRG | SCP | STG | DIR | DIPL | METLINE | ESDG | SVLINE | SCPLINE | TLLINE | INVT | AUX1 | AUX2
  | SITE | SA | FIXEDPOINT | HIST

fun objclass_code :: "objclass_t \<Rightarrow> nat" where
  "objclass_code TS = 0" | "objclass_code TM = 1" | "objclass_code TR = 2" | "objclass_code TSA = 3"
| "objclass_code TSC = 4" | "objclass_code TC = 5" | "objclass_code AL = 6" | "objclass_code ICS = 7"
| "objclass_code ICM = 8" | "objclass_code PIPE = 11" | "objclass_code PIPELINE = 15" | "objclass_code TL = 16"
| "objclass_code VA = 19" | "objclass_code SC = 20" | "objclass_code ATC = 21" | "objclass_code GRC = 22"
| "objclass_code SV = 23" | "objclass_code SDG = 24" | "objclass_code RGA = 25" | "objclass_code SSDG = 26"
| "objclass_code BRG = 27" | "objclass_code SCP = 28" | "objclass_code STG = 29" | "objclass_code DIR = 30"
| "objclass_code DIPL = 31" | "objclass_code METLINE = 32" | "objclass_code ESDG = 33" | "objclass_code SVLINE = 34"
| "objclass_code SCPLINE = 35" | "objclass_code TLLINE = 36" | "objclass_code INVT = 37" | "objclass_code AUX1 = 38"
| "objclass_code AUX2 = 39" | "objclass_code SITE = 45" | "objclass_code SA = 50" | "objclass_code FIXEDPOINT = 79"
| "objclass_code HIST = 80"

section \<open>Rows\<close>

record timestamp =
  ts_sec :: "32 word"
  ts_nsec :: "32 word"

record info_type =
  i_VAL :: "64 word"
  i_VALACQ :: "64 word"
  i_VALMANUAL :: "64 word"

record alarm_item =
  al_BEGIN :: "32 word"
  al_BEGINACK :: "32 word"
  al_ENDACK :: "32 word"
  al_SYNTH :: AlarmState

record xdb_point =
  p_TAG :: string
  p_OBJCLASS :: objclass_t
  p_STATUS :: PointStatus
  p_SHORTLABEL :: string
  p_INHIBLOCAL :: bool
  p_INHIB :: bool
  p_UNITY_ID :: "16 word"
  p_CE_ref :: int
  p_SA_ref :: int
  p_passport_ref :: int
  p_hist_ref :: int
  p_is_modified :: bool
  p_VALIDCHANGE :: ValidChange
  p_DATEHOURM :: timestamp
  p_DATERTU :: timestamp
  p_VALIDITY :: Validity
  p_VALIDITY_ACQ :: Validity
  p_ai :: "info_type option"
  p_di :: "info_type option"
  p_alarm :: "alarm_item option"

definition no_time :: timestamp where
  "no_time = \<lparr>ts_sec = 0, ts_nsec = 0\<rparr>"

definition new_point_row :: xdb_point where
  "new_point_row = \<lparr>p_TAG = '''', p_OBJCLASS = TS, p_STATUS = DISABLED, p_SHORTLABEL = '''', p_INHIBLOCAL = False,
     p_INHIB = False, p_UNITY_ID = 0, p_CE_ref = 0, p_SA_ref = 0, p_passport_ref = 0, p_hist_ref = 0,
     p_is_modified = False, p_VALIDCHANGE = VALIDCHANGE_NULL, p_DATEHOURM = no_time, p_DATERTU = no_time,
     p_VALIDITY = VALIDITY_FAULT, p_VALIDITY_ACQ = VALIDITY_FAULT, p_ai = None, p_di = None, p_alarm = None\<rparr>"

definition new_info :: info_type where
  "new_info = \<lparr>i_VAL = 0, i_VALACQ = 0, i_VALMANUAL = 0\<rparr>"

definition new_alarm :: alarm_item where
  "new_alarm = \<lparr>al_BEGIN = 0, al_BEGINACK = 0, al_ENDACK = 0, al_SYNTH = NO_ALARM\<rparr>"

text \<open>
  The generated writers.  \<open>WriteAI\<close>, \<open>WriteDI\<close> and \<open>WriteAlarm\<close> create an optional part; the writers
  of its fields write into a part that was created or read before.
\<close>

datatype point_put = PutTAG string | PutOBJCLASS objclass_t | PutSTATUS PointStatus | PutSHORTLABEL string
  | PutINHIBLOCAL bool | PutINHIB bool | PutUNITY_ID "16 word" | PutSA_ref int | Put_is_modified bool
  | PutVALIDCHANGE ValidChange | PutDATEHOURM timestamp | PutVALIDITY Validity | PutVALIDITY_ACQ Validity
  | PutAI_VAL "64 word" | PutAI_VALACQ "64 word" | PutAI_VALMANUAL "64 word"
  | PutDI_VAL "64 word" | PutDI_VALACQ "64 word" | PutDI_VALMANUAL "64 word"
  | Put_passport_ref int | PutCE_ref int | Put_hist_ref int | PutDATERTU timestamp | WriteAI | WriteDI | WriteAlarm
  | PutALARMBEGIN "32 word" | PutALARMBEGINACK "32 word" | PutALARMENDACK "32 word" | PutALARMSYNTH AlarmState

fun apply_point_put :: "point_put \<Rightarrow> xdb_point \<Rightarrow> xdb_point" where
  "apply_point_put (PutTAG s) r = r\<lparr>p_TAG := s\<rparr>"
| "apply_point_put (PutOBJCLASS c) r = r\<lparr>p_OBJCLASS := c\<rparr>"
| "apply_point_put (PutSTATUS s) r = r\<lparr>p_STATUS := s\<rparr>"
| "apply_point_put (PutSHORTLABEL s) r = r\<lparr>p_SHORTLABEL := s\<rparr>"
| "apply_point_put (PutINHIBLOCAL b) r = r\<lparr>p_INHIBLOCAL := b\<rparr>"
| "apply_point_put (PutINHIB b) r = r\<lparr>p_INHIB := b\<rparr>"
| "apply_point_put (PutUNITY_ID i) r = r\<lparr>p_UNITY_ID := i\<rparr>"
| "apply_point_put (PutSA_ref i) r = r\<lparr>p_SA_ref := i\<rparr>"
| "apply_point_put (Put_is_modified b) r = r\<lparr>p_is_modified := b\<rparr>"
| "apply_point_put (PutVALIDCHANGE v) r = r\<lparr>p_VALIDCHANGE := v\<rparr>"
| "apply_point_put (PutDATEHOURM t) r = r\<lparr>p_DATEHOURM := t\<rparr>"
| "apply_point_put (PutVALIDITY v) r = r\<lparr>p_VALIDITY := v\<rparr>"
| "apply_point_put (PutVALIDITY_ACQ v) r = r\<lparr>p_VALIDITY_ACQ := v\<rparr>"
| "apply_point_put (PutAI_VAL x) r = r\<lparr>p_ai := map_option (i_VAL_update (\<lambda>_. x)) (p_ai r)\<rparr>"
| "apply_point_put (PutAI_VALACQ x) r = r\<lparr>p_ai := map_option (i_VALACQ_update (\<lambda>_. x)) (p_ai r)\<rparr>"
| "apply_point_put (PutAI_VALMANUAL x) r = r\<lparr>p_ai := map_option (i_VALMANUAL_update (\<lambda>_. x)) (p_ai r)\<rparr>"
| "apply_point_put (PutDI_VAL x) r = r\<lparr>p_di := map_option (i_VAL_update (\<lambda>_. x)) (p_di r)\<rparr>"
| "apply_point_put (PutDI_VALACQ x) r = r\<lparr>p_di := map_option (i_VALACQ_update (\<lambda>_. x)) (p_di r)\<rparr>"
| "apply_point_put (PutDI_VALMANUAL x) r = r\<lparr>p_di := map_option (i_VALMANUAL_update (\<lambda>_. x)) (p_di r)\<rparr>"
| "apply_point_put (Put_passport_ref i) r = r\<lparr>p_passport_ref := i\<rparr>"
| "apply_point_put (PutCE_ref i) r = r\<lparr>p_CE_ref := i\<rparr>"
| "apply_point_put (Put_hist_ref i) r = r\<lparr>p_hist_ref := i\<rparr>"
| "apply_point_put (PutDATERTU t) r = r\<lparr>p_DATERTU := t\<rparr>"
| "apply_point_put WriteAI r = r\<lparr>p_ai := Some new_info\<rparr>"
| "apply_point_put WriteDI r = r\<lparr>p_di := Some new_info\<rparr>"
| "apply_point_put WriteAlarm r = r\<lparr>p_alarm := Some new_alarm\<rparr>"
| "apply_point_put (PutALARMBEGIN x) r = r\<lparr>p_alarm := map_option (al_BEGIN_update (\<lambda>_. x)) (p_alarm r)\<rparr>"
| "apply_point_put (PutALARMBEGINACK x) r = r\<lparr>p_alarm := map_option (al_BEGINACK_update (\<lambda>_. x)) (p_alarm r)\<rparr>"
| "apply_point_put (PutALARMENDACK x) r = r\<lparr>p_alarm := map_option (al_ENDACK_update (\<lambda>_. x)) (p_alarm r)\<rparr>"
| "apply_point_put (PutALARMSYNTH s) r = r\<lparr>p_alarm := map_option (al_SYNTH_update (\<lambda>_. s)) (p_alarm r)\<rparr>"

fun point_fits :: "point_put \<Rightarrow> bool" where
  "point_fits (PutTAG s) \<longleftrightarrow> length s \<le> 32 \<and> NUL \<notin> set s"
| "point_fits (PutSHORTLABEL s) \<longleftrightarrow> length s \<le> 80 \<and> NUL \<notin> set s"
| "point_fits _ \<longleftrightarrow> True"

record sbs_stat =
  sbs_name :: string
  sbs_state :: InternalState

datatype stat_put = PutSbsName string | PutSbsState InternalState

fun apply_stat_put :: "stat_put \<Rightarrow> sbs_stat \<Rightarrow> sbs_stat" where
  "apply_stat_put (PutSbsName s) r = r\<lparr>sbs_name := s\<rparr>"
| "apply_stat_put (PutSbsState s) r = r\<lparr>sbs_state := s\<rparr>"

fun stat_fits :: "stat_put \<Rightarrow> bool" where
  "stat_fits (PutSbsName s) \<longleftrightarrow> length s \<le> 100 \<and> NUL \<notin> set s"
| "stat_fits (PutSbsState s) \<longleftrightarrow> True"

definition new_stat_row :: sbs_stat where
  "new_stat_row = \<lparr>sbs_name = '''', sbs_state = ENABLE\<rparr>"

record sbs_item =
  it_group_id :: int
  it_tag_id :: int

datatype item_put = PutGroupId int | PutTagId int

fun apply_item_put :: "item_put \<Rightarrow> sbs_item \<Rightarrow> sbs_item" where
  "apply_item_put (PutGroupId i) r = r\<lparr>it_group_id := i\<rparr>"
| "apply_item_put (PutTagId i) r = r\<lparr>it_tag_id := i\<rparr>"

definition new_item_row :: sbs_item where
  "new_item_row = \<lparr>it_group_id = 0, it_tag_id = 0\<rparr>"

record sa_passport =
  sa_state :: SystemState
  old_sa_state :: SystemState

text \<open>
  A passport holds the attributes that only points of one class have: a map from the names of the
  fields of its class to typed values.  The fields are those of the classes \<open>*_passport\<close>, without
  references and vectors, which this code does not set.
\<close>

datatype pass_type = TBoolean | TResponsability | TAlarmState | TSynthState | TSystemState | TAction | TDouble | TUint1
  | TTime | TText nat

datatype pass_val = PBoolean bool | PResponsability Responsability | PAlarmState AlarmState | PSynthState SynthState
  | PSystemState SystemState | PAction Action | PDouble "64 word" | PUint1 "8 word"
  | PTime timestamp | PText string

type_synonym passport = "string \<rightharpoonup> pass_val"

fun pass_fields :: "objclass_t \<Rightarrow> (string \<times> pass_type) list" where
  "pass_fields TS = [(''ALDEST'', TBoolean), (''L_EQT'', TText 32), (''L_DIPL'', TText 32),
     (''L_TYPINFO'', TText 32)]"
| "pass_fields TM = [(''CONVERTCOEFF'', TDouble), (''MNVALPHY'', TDouble), (''MXVALPHY'', TDouble),
     (''GRADLEVEL'', TDouble), (''ALDEST'', TBoolean), (''L_EQT'', TText 32), (''L_DIPL'', TText 32),
     (''L_TYPINFO'', TText 32)]"
| "pass_fields TR = [(''MINVAL'', TDouble), (''MAXVAL'', TDouble), (''VALEX'', TDouble),
     (''CONFREMOTECMD'', TBoolean), (''FLGREMOTECMD'', TBoolean), (''REMOTECONTROL'', TResponsability),
     (''L_EQT'', TText 32), (''L_TYPINFO'', TText 32), (''L_TM'', TText 32)]"
| "pass_fields TSA = [(''L_EQT'', TText 32), (''L_DIPL'', TText 32), (''L_TYPINFO'', TText 32)]"
| "pass_fields TSC = [(''ALDEST'', TBoolean), (''THRESHOLD_VHL'', TDouble), (''THRESHOLD_HL'', TDouble),
     (''THRESHOLD_LL'', TDouble), (''THRESHOLD_VLL'', TDouble), (''GRADIENT'', TDouble),
     (''ALARMLEVEL_THRESHOLD_VHL'', TUint1), (''ALARMLEVEL_THRESHOLD_HL'', TUint1),
     (''ALARMLEVEL_THRESHOLD_LL'', TUint1), (''ALARMLEVEL_THRESHOLD_VLL'', TUint1),
     (''ALARMLEVEL_GRADIENT'', TUint1), (''INHIBLOCAL'', TBoolean), (''L_TYPINFO'', TText 32), (''L_EQT'', TText 32),
     (''L_DIPL'', TText 32)]"
| "pass_fields TC = [(''DISP'', TText 60), (''ACTIONTYP'', TAction), (''REMOTECONTROL'', TResponsability),
     (''L_EQT'', TText 32), (''L_TYPINFO'', TText 32)]"
| "pass_fields AL = [(''ALDEST'', TBoolean), (''L_EQT'', TText 32), (''L_DIPL'', TText 32),
     (''L_TYPINFO'', TText 32)]"
| "pass_fields ICS = [(''L_EQT'', TText 32), (''L_DIPL'', TText 32), (''L_TYPINFO'', TText 32)]"
| "pass_fields ICM = [(''ALDEST'', TBoolean), (''GRADLEVEL'', TDouble), (''L_EQT'', TText 32),
     (''L_DIPL'', TText 32), (''L_TYPINFO'', TText 32)]"
| "pass_fields PIPE = [(''LOCALFLAG'', TResponsability), (''ALINHIB'', TBoolean), (''L_NETTYPE'', TText 32),
     (''L_NET'', TText 32), (''L_TL'', TText 32), (''L_EQTORBORUPS'', TText 32), (''L_EQTORBORDWN'', TText 32),
     (''NMPRESSURE'', TDouble), (''KMREFUPS'', TDouble), (''KMREFDWN'', TDouble)]"
| "pass_fields PIPELINE = [(''LOCALFLAG'', TResponsability), (''ALINHIB'', TBoolean), (''MXPRESSURE'', TDouble),
     (''NMFLOW'', TDouble), (''L_CORRIDOR'', TText 32), (''FUNCTION'', TText 80)]"
| "pass_fields TL = [(''LOCALFLAG'', TResponsability), (''ALINHIB'', TBoolean), (''CONFREMOTECMD'', TBoolean),
     (''FLGREMOTECMD'', TBoolean), (''L_EQTTYP'', TText 32)]"
| "pass_fields SC = [(''LOCALFLAG'', TResponsability), (''ALINHIB'', TBoolean), (''CONFREMOTECMD'', TBoolean),
     (''FLGREMOTECMD'', TBoolean), (''REMOTECONTROL'', TResponsability), (''L_PIPE'', TText 32),
     (''L_EQTTYP'', TText 32)]"
| "pass_fields ATC = [(''LOCALFLAG'', TResponsability), (''TSSYNTHETICAL'', TAlarmState), (''ALDEST'', TBoolean),
     (''ALINHIB'', TBoolean), (''CONFREMOTECMD'', TBoolean), (''FLGREMOTECMD'', TBoolean),
     (''REMOTECONTROL'', TResponsability), (''L_EQTTYP'', TText 32), (''L_DIPL'', TText 32),
     (''L_TYPINFO'', TText 32)]"
| "pass_fields GRC = [(''LOCALFLAG'', TResponsability), (''TSSYNTHETICAL'', TAlarmState), (''ALINHIB'', TBoolean),
     (''CONFREMOTECMD'', TBoolean), (''FLGREMOTECMD'', TBoolean), (''REMOTECONTROL'', TResponsability),
     (''DATEAINS'', TTime), (''L_EQTTYP'', TText 32)]"
| "pass_fields SV = [(''LOCALFLAG'', TResponsability), (''ALINHIB'', TBoolean), (''CONFREMOTECMD'', TBoolean),
     (''FLGREMOTECMD'', TBoolean), (''REMOTECONTROL'', TResponsability), (''L_EQTTYP'', TText 32)]"
| "pass_fields SDG = [(''LOCALFLAG'', TResponsability), (''TSSYNTHETICAL'', TAlarmState), (''ALINHIB'', TBoolean),
     (''CONFREMOTECMD'', TBoolean), (''FLGREMOTECMD'', TBoolean), (''REMOTECONTROL'', TResponsability),
     (''MXFLOW'', TDouble), (''L_EQTTYP'', TText 32)]"
| "pass_fields RGA = [(''LOCALFLAG'', TResponsability), (''TSSYNTHETICAL'', TAlarmState), (''ALINHIB'', TBoolean),
     (''CONFREMOTECMD'', TBoolean), (''FLGREMOTECMD'', TBoolean), (''REMOTECONTROL'', TResponsability),
     (''L_EQTTYP'', TText 32), (''L_EQT'', TText 32)]"
| "pass_fields SSDG = [(''LOCALFLAG'', TResponsability), (''ALINHIB'', TBoolean), (''CONFREMOTECMD'', TBoolean),
     (''FLGREMOTECMD'', TBoolean), (''REMOTECONTROL'', TResponsability), (''MXPRESSURE'', TDouble),
     (''PLANPRESSURE'', TDouble), (''PLANFLOW'', TDouble), (''L_DIPL'', TText 32), (''L_CONSUMER'', TText 32),
     (''L_EQTTYP'', TText 32)]"
| "pass_fields BRG = [(''LOCALFLAG'', TResponsability), (''ALINHIB'', TBoolean), (''CONFREMOTECMD'', TBoolean),
     (''FLGREMOTECMD'', TBoolean), (''REMOTECONTROL'', TResponsability), (''L_EQTTYP'', TText 32)]"
| "pass_fields SCP = [(''LOCALFLAG'', TResponsability), (''TSSYNTHETICAL'', TAlarmState), (''ALINHIB'', TBoolean),
     (''CONFREMOTECMD'', TBoolean), (''FLGREMOTECMD'', TBoolean), (''REMOTECONTROL'', TResponsability),
     (''L_EQTTYP'', TText 32)]"
| "pass_fields STG = [(''LOCALFLAG'', TResponsability), (''ALINHIB'', TBoolean), (''CONFREMOTECMD'', TBoolean),
     (''FLGREMOTECMD'', TBoolean), (''REMOTECONTROL'', TResponsability), (''L_EQTTYP'', TText 32)]"
| "pass_fields METLINE = [(''LOCALFLAG'', TResponsability), (''ALINHIB'', TBoolean), (''L_EQTTYP'', TText 32),
     (''L_EQT'', TText 32)]"
| "pass_fields ESDG = [(''LOCALFLAG'', TResponsability), (''ALINHIB'', TBoolean), (''CONFREMOTECMD'', TBoolean),
     (''FLGREMOTECMD'', TBoolean), (''REMOTECONTROL'', TResponsability), (''MXPRESSURE'', TDouble),
     (''L_EQTTYP'', TText 32)]"
| "pass_fields SVLINE = [(''LOCALFLAG'', TResponsability), (''ALINHIB'', TBoolean), (''L_EQTTYP'', TText 32),
     (''L_EQT'', TText 32)]"
| "pass_fields SCPLINE = [(''LOCALFLAG'', TResponsability), (''ALINHIB'', TBoolean), (''L_EQTTYP'', TText 32),
     (''L_EQT'', TText 32)]"
| "pass_fields TLLINE = [(''LOCALFLAG'', TResponsability), (''ALINHIB'', TBoolean), (''L_EQTTYP'', TText 32),
     (''L_EQT'', TText 32), (''L_PIPELINE'', TText 32)]"
| "pass_fields DIR = [(''LOCALFLAG'', TResponsability)]"
| "pass_fields DIPL = [(''LOCALFLAG'', TResponsability), (''ALINHIB'', TBoolean), (''CONFREMOTECMD'', TBoolean),
     (''FLGREMOTECMD'', TBoolean), (''DISPP'', TText 60), (''L_EQTTYP'', TText 32)]"
| "pass_fields INVT = [(''LOCALFLAG'', TResponsability), (''TSSYNTHETICAL'', TAlarmState), (''ALINHIB'', TBoolean),
     (''L_EQTTYP'', TText 32), (''L_EQT'', TText 32)]"
| "pass_fields AUX1 = [(''LOCALFLAG'', TResponsability), (''TSSYNTHETICAL'', TAlarmState), (''ALDEST'', TBoolean),
     (''ALINHIB'', TBoolean), (''CONFREMOTECMD'', TBoolean), (''FLGREMOTECMD'', TBoolean),
     (''REMOTECONTROL'', TResponsability), (''DATEAINS'', TTime), (''SUPPLIER'', TText 80), (''L_EQTTYP'', TText 32),
     (''L_DIPL'', TText 32), (''L_TYPINFO'', TText 32)]"
| "pass_fields AUX2 = [(''LOCALFLAG'', TResponsability), (''TSSYNTHETICAL'', TAlarmState), (''ALDEST'', TBoolean),
     (''ALINHIB'', TBoolean), (''CONFREMOTECMD'', TBoolean), (''FLGREMOTECMD'', TBoolean),
     (''REMOTECONTROL'', TResponsability), (''DATEAINS'', TTime), (''SUPPLIER'', TText 80), (''L_EQTTYP'', TText 32),
     (''L_DIPL'', TText 32), (''L_TYPINFO'', TText 32)]"
| "pass_fields SA = [(''LOCALFLAG'', TResponsability), (''SYNTHSTATE'', TSynthState), (''sa_state'', TSystemState),
     (''old_sa_state'', TSystemState), (''DATE_ALO'', TTime), (''ALDEST'', TBoolean), (''ALINHIB'', TBoolean),
     (''TYPE'', TUint1), (''DELEGABLE'', TBoolean), (''SUPPLIERMODE'', TText 80), (''SUPPLIERSTATE'', TText 80)]"
| "pass_fields SITE = [(''DISPP'', TText 60), (''PREV_DISPATCHER'', TText 60), (''PREV_SHIFT_TIME'', TTime),
     (''CURRENT_SHIFT_TIME'', TTime)]"
| "pass_fields FIXEDPOINT = [(''TYPE'', TUint1)]"
| "pass_fields VA = [(''LOCALFLAG'', TResponsability), (''TSSYNTHETICAL'', TAlarmState), (''DATEAINS'', TTime),
     (''ALDEST'', TBoolean), (''ALINHIB'', TBoolean), (''CONFREMOTECMD'', TBoolean), (''FLGREMOTECMD'', TBoolean),
     (''REMOTECONTROL'', TResponsability), (''FLGMAINTENANCE'', TBoolean), (''NAMEMAINTENANCE'', TText 60),
     (''FUNCTION'', TText 80), (''L_EQTTYP'', TText 32), (''L_PIPELINE'', TText 32), (''L_DIPL'', TText 32),
     (''L_TYPINFO'', TText 32)]"
| "pass_fields HIST = []"

fun has_type :: "pass_val \<Rightarrow> pass_type \<Rightarrow> bool" where
  "has_type (PBoolean _) TBoolean \<longleftrightarrow> True"
| "has_type (PResponsability _) TResponsability \<longleftrightarrow> True"
| "has_type (PAlarmState _) TAlarmState \<longleftrightarrow> True"
| "has_type (PSynthState _) TSynthState \<longleftrightarrow> True"
| "has_type (PSystemState _) TSystemState \<longleftrightarrow> True"
| "has_type (PAction _) TAction \<longleftrightarrow> True"
| "has_type (PDouble _) TDouble \<longleftrightarrow> True"
| "has_type (PUint1 _) TUint1 \<longleftrightarrow> True"
| "has_type (PTime _) TTime \<longleftrightarrow> True"
| "has_type (PText s) (TText n) \<longleftrightarrow> length s \<le> n \<and> NUL \<notin> set s"
| "has_type _ _ \<longleftrightarrow> False"

fun default_of :: "pass_type \<Rightarrow> pass_val" where
  "default_of TBoolean = PBoolean False"
| "default_of TResponsability = PResponsability LOCAL"
| "default_of TAlarmState = PAlarmState NO_ALARM"
| "default_of TSynthState = PSynthState SS_UNREACH"
| "default_of TSystemState = PSystemState SS_FAULT"
| "default_of TAction = PAction TC_NONE"
| "default_of TDouble = PDouble 0"
| "default_of TUint1 = PUint1 0"
| "default_of TTime = PTime no_time"
| "default_of (TText _) = PText ''''"

text \<open>The only number with another default than 0 is \<open>CONVERTCOEFF\<close>, which is 1.0.\<close>

definition new_passport :: "objclass_t \<Rightarrow> passport" where
  "new_passport c = map_of (map (\<lambda>(n, t). (n, if n = ''CONVERTCOEFF'' then PDouble 0x3FF0000000000000 else default_of t))
     (pass_fields c))"

datatype pass_put = PassPut string pass_val

fun apply_pass_put :: "pass_put \<Rightarrow> passport \<Rightarrow> passport" where
  "apply_pass_put (PassPut n v) r = r(n \<mapsto> v)"

fun pass_fits :: "objclass_t \<Rightarrow> pass_put \<Rightarrow> bool" where
  "pass_fits c (PassPut n v) \<longleftrightarrow> (case map_of (pass_fields c) n of None \<Rightarrow> False | Some t \<Rightarrow> has_type v t)"

text \<open>The dictionaries.\<close>

record unity_row =
  un_DimensionID :: "16 word"
  un_unityID :: "16 word"
  un_dimension_entry :: string
  un_UNITY :: string
  un_designation_entry :: string

datatype unity_put = PutDimensionID "16 word" | PutUnityID "16 word" | PutDimensionEntry string | PutUNITY string
  | PutDesignationEntry string

fun apply_unity_put :: "unity_put \<Rightarrow> unity_row \<Rightarrow> unity_row" where
  "apply_unity_put (PutDimensionID i) r = r\<lparr>un_DimensionID := i\<rparr>"
| "apply_unity_put (PutUnityID i) r = r\<lparr>un_unityID := i\<rparr>"
| "apply_unity_put (PutDimensionEntry s) r = r\<lparr>un_dimension_entry := s\<rparr>"
| "apply_unity_put (PutUNITY s) r = r\<lparr>un_UNITY := s\<rparr>"
| "apply_unity_put (PutDesignationEntry s) r = r\<lparr>un_designation_entry := s\<rparr>"

fun unity_fits :: "unity_put \<Rightarrow> bool" where
  "unity_fits (PutDimensionEntry s) \<longleftrightarrow> length s \<le> 16 \<and> NUL \<notin> set s"
| "unity_fits (PutUNITY s) \<longleftrightarrow> length s \<le> 100 \<and> NUL \<notin> set s"
| "unity_fits (PutDesignationEntry s) \<longleftrightarrow> length s \<le> 100 \<and> NUL \<notin> set s"
| "unity_fits _ \<longleftrightarrow> True"

definition new_unity_row :: unity_row where
  "new_unity_row = \<lparr>un_DimensionID = 0, un_unityID = 0, un_dimension_entry = '''', un_UNITY = '''', un_designation_entry = ''''\<rparr>"

record label_row =
  vl_classID :: int
  vl_valueID :: "8 word"
  vl_label :: string

datatype label_put = PutClassID int | PutValueID "8 word" | PutLabel string

fun apply_label_put :: "label_put \<Rightarrow> label_row \<Rightarrow> label_row" where
  "apply_label_put (PutClassID c) r = r\<lparr>vl_classID := c\<rparr>"
| "apply_label_put (PutValueID v) r = r\<lparr>vl_valueID := v\<rparr>"
| "apply_label_put (PutLabel s) r = r\<lparr>vl_label := s\<rparr>"

fun label_fits :: "label_put \<Rightarrow> bool" where
  "label_fits (PutLabel s) \<longleftrightarrow> length s \<le> 80 \<and> NUL \<notin> set s"
| "label_fits _ \<longleftrightarrow> True"

definition new_label_row :: label_row where
  "new_label_row = \<lparr>vl_classID = 0, vl_valueID = 0, vl_label = ''''\<rparr>"

record macro_row =
  ce_macrosId :: "16 word"
  ce_CE :: string

datatype macro_put = PutMacrosId "16 word" | PutCE string

fun apply_macro_put :: "macro_put \<Rightarrow> macro_row \<Rightarrow> macro_row" where
  "apply_macro_put (PutMacrosId i) r = r\<lparr>ce_macrosId := i\<rparr>"
| "apply_macro_put (PutCE s) r = r\<lparr>ce_CE := s\<rparr>"

fun macro_fits :: "macro_put \<Rightarrow> bool" where
  "macro_fits (PutMacrosId _) \<longleftrightarrow> True"
| "macro_fits (PutCE s) \<longleftrightarrow> length s \<le> 40 \<and> NUL \<notin> set s"

definition new_macro_row :: macro_row where
  "new_macro_row = \<lparr>ce_macrosId = 0, ce_CE = ''''\<rparr>"

record rt_tables =
  points :: "int \<rightharpoonup> xdb_point"
  sbs_stats :: "int \<rightharpoonup> sbs_stat"
  sbs_items :: "int \<rightharpoonup> sbs_item"
  passports :: "objclass_t \<Rightarrow> int \<rightharpoonup> passport"
  unities :: "int \<rightharpoonup> unity_row"
  val_labels :: "int \<rightharpoonup> label_row"
  macros :: "int \<rightharpoonup> macro_row"

text \<open>What the handler of events reads of the passport of an acquisition system.\<close>

fun system_state :: "pass_val option \<Rightarrow> SystemState" where
  "system_state (Some (PSystemState s)) = s"
| "system_state _ = SS_FAULT"

definition sa_part :: "passport \<Rightarrow> sa_passport" where
  "sa_part r = \<lparr>sa_state = system_state (r ''sa_state''), old_sa_state = system_state (r ''old_sa_state'')\<rparr>"

definition sa_passports :: "rt_tables \<Rightarrow> int \<rightharpoonup> sa_passport" where
  "sa_passports T i = map_option sa_part (passports T SA i)"

lemma sa_passports_simps [simp]:
  "sa_passports (T\<lparr>points := a\<rparr>) = sa_passports T" "sa_passports (T\<lparr>sbs_stats := b\<rparr>) = sa_passports T"
  "sa_passports (T\<lparr>sbs_items := c\<rparr>) = sa_passports T" "sa_passports (T\<lparr>unities := e\<rparr>) = sa_passports T"
  "sa_passports (T\<lparr>val_labels := f\<rparr>) = sa_passports T" "sa_passports (T\<lparr>macros := g\<rparr>) = sa_passports T"
  by (simp_all add: sa_passports_def fun_eq_iff)

text \<open>The unique indexes.\<close>

definition rt_keys_ok :: "rt_tables \<Rightarrow> bool" where
  "rt_keys_ok T \<longleftrightarrow> unique_on p_TAG (points T) \<and> unique_on p_passport_ref (points T) \<and> unique_on sbs_name (sbs_stats T)
     \<and> unique_on un_UNITY (unities T) \<and> unique_on un_unityID (unities T)
     \<and> unique_on (\<lambda>r. (vl_classID r, vl_valueID r)) (val_labels T) \<and> unique_on ce_macrosId (macros T)"

section \<open>The interface\<close>

text \<open>\<open>unopened\<close> is a writer called on the handle of a structure that was not read or written before.\<close>

record 'd rtap_env =
  rtap_start :: "trans_mode \<Rightarrow> ('d, unit) call"
  rtap_commit :: "('d, unit) call"
  rtap_rollback :: "bool \<Rightarrow> ('d, unit) call"
  XDBPoint :: "('d, xdb_point, point_put) mco_class"
  SBS_STAT :: "('d, sbs_stat, stat_put) mco_class"
  SBS_ITEM :: "('d, sbs_item, item_put) mco_class"
  PASSPORT :: "objclass_t \<Rightarrow> ('d, passport, pass_put) mco_class"
  UNITY :: "('d, unity_row, unity_put) mco_class"
  VAL_LABEL :: "('d, label_row, label_put) mco_class"
  XDB_CE :: "('d, macro_row, macro_put) mco_class"
  checkpoint :: "('d, unit) call"
  SK_by_tag_find :: "string \<Rightarrow> ('d, int) call"
  ai_read :: "int \<Rightarrow> ('d, unit) call"
  di_read :: "int \<Rightarrow> ('d, unit) call"
  SA_passport_find :: "int \<Rightarrow> ('d, int) call"
  SA_passport_get :: "int \<Rightarrow> ('d, sa_passport) call"
  unityHash_find :: "string \<Rightarrow> ('d, int) call"
  unity_by_id_find :: "16 word \<Rightarrow> ('d, int) call"
  unity_get :: "int \<Rightarrow> ('d, unity_row) call"
  PK_by_name_find :: "string \<Rightarrow> ('d, int) call"
  by_group_cursor :: "('d, unit) call"
  by_group_search :: "int \<Rightarrow> ('d, int list) call"
  by_group_compare :: "int \<Rightarrow> int \<Rightarrow> ('d, int) call"
  by_tag_id_cursor :: "('d, unit) call"
  by_tag_id_search :: "int \<Rightarrow> ('d, int list) call"
  by_tag_id_compare :: "int \<Rightarrow> int \<Rightarrow> ('d, int) call"
  by_modified_cursor :: "('d, unit) call"
  by_modified_search :: "bool \<Rightarrow> ('d, int list) call"
  by_modified_compare :: "int \<Rightarrow> bool \<Rightarrow> ('d, int) call"
  csr_from :: "int \<Rightarrow> ('d, int) call"
  csr_first :: "('d, unit) call"
  csr_next :: "('d, unit) call"
  csr_close :: "('d, unit) call"
  unopened :: "('d, unit) call"

definition in_group :: "rt_tables \<Rightarrow> int \<Rightarrow> int \<Rightarrow> bool" where
  "in_group T g h \<longleftrightarrow> (\<exists>r. sbs_items T h = Some r \<and> it_group_id r = g)"

definition links_point :: "rt_tables \<Rightarrow> int \<Rightarrow> int \<Rightarrow> bool" where
  "links_point T p h \<longleftrightarrow> (\<exists>r. sbs_items T h = Some r \<and> it_tag_id r = p)"

definition marked :: "rt_tables \<Rightarrow> bool \<Rightarrow> int \<Rightarrow> bool" where
  "marked T b h \<longleftrightarrow> (\<exists>r. points T h = Some r \<and> p_is_modified r = b)"

text \<open>What the code relies on; \<open>obeys\<close>, \<open>view\<close> and \<open>class_laws\<close> are those of the broker's engine.\<close>

locale rtap_laws =
  pts: class_laws tabs saved depth reliable "XDBPoint E" points "\<lambda>m T. T\<lparr>points := m\<rparr>"
    new_point_row apply_point_put point_fits +
  sts: class_laws tabs saved depth reliable "SBS_STAT E" sbs_stats "\<lambda>m T. T\<lparr>sbs_stats := m\<rparr>"
    new_stat_row apply_stat_put stat_fits +
  itm: class_laws tabs saved depth reliable "SBS_ITEM E" sbs_items "\<lambda>m T. T\<lparr>sbs_items := m\<rparr>"
    new_item_row apply_item_put "\<lambda>_. True" +
  uni: class_laws tabs saved depth reliable "UNITY E" unities "\<lambda>m T. T\<lparr>unities := m\<rparr>"
    new_unity_row apply_unity_put unity_fits +
  lab: class_laws tabs saved depth reliable "VAL_LABEL E" val_labels "\<lambda>m T. T\<lparr>val_labels := m\<rparr>"
    new_label_row apply_label_put label_fits +
  mac: class_laws tabs saved depth reliable "XDB_CE E" macros "\<lambda>m T. T\<lparr>macros := m\<rparr>"
    new_macro_row apply_macro_put macro_fits
  for E :: "'d rtap_env" and tabs :: "'d \<Rightarrow> rt_tables" and saved :: "'d \<Rightarrow> rt_tables" and depth :: "'d \<Rightarrow> nat"
    and reliable :: bool +
  assumes passport: "class_laws tabs saved depth reliable (PASSPORT E c) (\<lambda>T. passports T c)
        (\<lambda>m T. T\<lparr>passports := (passports T)(c := m)\<rparr>) (new_passport c) apply_pass_put (pass_fits c)"
    and start: "wp (rtap_start E m)
        (\<lambda>_. view tabs saved depth (tabs d) (saved d) (Suc (depth d)))
        (\<lambda>rc d'. rc \<noteq> MCO_S_OK \<and> view tabs saved depth (tabs d) (saved d) (depth d) d' \<and> \<not> reliable) d"
    and commit: "wp (rtap_commit E)
        (\<lambda>_ d'. view tabs saved depth (tabs d) (if depth d = 1 then tabs d else saved d) (depth d - 1) d'
           \<and> (depth d = 1 \<longrightarrow> rt_keys_ok (tabs d)))
        (\<lambda>rc d'. rc \<noteq> MCO_S_OK \<and> view tabs saved depth (tabs d) (saved d) (depth d) d'
           \<and> (reliable \<longrightarrow> depth d = 1 \<and> \<not> rt_keys_ok (tabs d))) d"
    and rollback: "saved (snd (rtap_rollback E True d)) = saved d
        \<and> depth (snd (rtap_rollback E True d)) = depth d - 1
        \<and> (depth d \<le> 1 \<longrightarrow> tabs (snd (rtap_rollback E True d)) = saved d)"
    and rollback_unopened: "view tabs saved depth (tabs d) (saved d) (depth d) (snd (rtap_rollback E False d))"
    and checkpoint: "obeys tabs saved depth (checkpoint E) (reads (\<lambda>T _. True)) (\<lambda>T rc. reliable \<longrightarrow> \<not> rt_keys_ok T)"
    and find_tag: "obeys tabs saved depth (SK_by_tag_find E s)
        (reads (\<lambda>T h. \<exists>r. points T h = Some r \<and> p_TAG r = s))
        (\<lambda>T rc. (rc = MCO_S_NOTFOUND \<longrightarrow> (\<forall>h r. points T h = Some r \<longrightarrow> p_TAG r \<noteq> s)) \<and> (reliable \<longrightarrow> rc = MCO_S_NOTFOUND))"
    and ai_part: "obeys tabs saved depth (ai_read E h) (reads (\<lambda>T _. \<exists>r a. points T h = Some r \<and> p_ai r = Some a))
        (\<lambda>T rc. reliable \<longrightarrow> (\<forall>r. points T h = Some r \<longrightarrow> p_ai r = None))"
    and di_part: "obeys tabs saved depth (di_read E h) (reads (\<lambda>T _. \<exists>r a. points T h = Some r \<and> p_di r = Some a))
        (\<lambda>T rc. reliable \<longrightarrow> (\<forall>r. points T h = Some r \<longrightarrow> p_di r = None))"
    and sa_find: "obeys tabs saved depth (SA_passport_find E i) (reads (\<lambda>T h. h = i \<and> sa_passports T i \<noteq> None))
        (\<lambda>T rc. (rc = MCO_S_NOTFOUND \<longrightarrow> sa_passports T i = None) \<and> (reliable \<longrightarrow> rc = MCO_S_NOTFOUND))"
    and sa_get: "obeys tabs saved depth (SA_passport_get E h) (reads (\<lambda>T r. sa_passports T h = Some r))
        (\<lambda>T rc. reliable \<longrightarrow> sa_passports T h = None)"
    and unity_label: "obeys tabs saved depth (unityHash_find E s)
        (reads (\<lambda>T h. \<exists>r. unities T h = Some r \<and> un_UNITY r = s))
        (\<lambda>T rc. reliable \<longrightarrow> (\<forall>h r. unities T h = Some r \<longrightarrow> un_UNITY r \<noteq> s))"
    and unity_id: "obeys tabs saved depth (unity_by_id_find E u)
        (reads (\<lambda>T h. \<exists>r. unities T h = Some r \<and> un_unityID r = u))
        (\<lambda>T rc. reliable \<longrightarrow> (\<forall>h r. unities T h = Some r \<longrightarrow> un_unityID r \<noteq> u))"
    and unity_row: "obeys tabs saved depth (unity_get E h) (reads (\<lambda>T r. unities T h = Some r))
        (\<lambda>T rc. reliable \<longrightarrow> unities T h = None)"
    and find_group: "obeys tabs saved depth (PK_by_name_find E s)
        (reads (\<lambda>T h. \<exists>r. sbs_stats T h = Some r \<and> sbs_name r = s))
        (\<lambda>T rc. (rc = MCO_S_NOTFOUND \<longrightarrow> (\<forall>h r. sbs_stats T h = Some r \<longrightarrow> sbs_name r \<noteq> s)) \<and> (reliable \<longrightarrow> rc = MCO_S_NOTFOUND))"
    and group_cursor: "obeys tabs saved depth (by_group_cursor E) (reads (\<lambda>T _. True))
        (\<lambda>T rc. (rc = MCO_S_CURSOR_EMPTY \<longrightarrow> sbs_items T = Map.empty) \<and> (reliable \<longrightarrow> rc = MCO_S_CURSOR_EMPTY))"
    and group_search: "obeys tabs saved depth (by_group_search E g)
        (reads (\<lambda>T hs. hs \<noteq> [] \<and> distinct hs \<and> set hs \<subseteq> dom (sbs_items T) \<and> Collect (in_group T g) \<subseteq> set hs))
        (\<lambda>T rc. (rc = MCO_S_NOTFOUND \<longrightarrow> Collect (in_group T g) = {}) \<and> (reliable \<longrightarrow> rc = MCO_S_NOTFOUND))"
    and group_compare: "obeys tabs saved depth (by_group_compare E h g)
        (reads (\<lambda>T c. sbs_items T h \<noteq> None \<and> (c = 0 \<longleftrightarrow> in_group T g h))) (\<lambda>T rc. reliable \<longrightarrow> sbs_items T h = None)"
    and tag_id_cursor: "obeys tabs saved depth (by_tag_id_cursor E) (reads (\<lambda>T _. True))
        (\<lambda>T rc. (rc = MCO_S_CURSOR_EMPTY \<longrightarrow> sbs_items T = Map.empty) \<and> (reliable \<longrightarrow> rc = MCO_S_CURSOR_EMPTY))"
    and tag_id_search: "obeys tabs saved depth (by_tag_id_search E p)
        (reads (\<lambda>T hs. hs \<noteq> [] \<and> distinct hs \<and> set hs \<subseteq> dom (sbs_items T) \<and> Collect (links_point T p) \<subseteq> set hs))
        (\<lambda>T rc. (rc = MCO_S_NOTFOUND \<longrightarrow> Collect (links_point T p) = {}) \<and> (reliable \<longrightarrow> rc = MCO_S_NOTFOUND))"
    and tag_id_compare: "obeys tabs saved depth (by_tag_id_compare E h p)
        (reads (\<lambda>T c. sbs_items T h \<noteq> None \<and> (c = 0 \<longleftrightarrow> links_point T p h))) (\<lambda>T rc. reliable \<longrightarrow> sbs_items T h = None)"
    and modified_cursor: "obeys tabs saved depth (by_modified_cursor E) (reads (\<lambda>T _. True))
        (\<lambda>T rc. (rc = MCO_S_CURSOR_EMPTY \<longrightarrow> points T = Map.empty) \<and> (reliable \<longrightarrow> rc = MCO_S_CURSOR_EMPTY))"
    and modified_search: "obeys tabs saved depth (by_modified_search E b)
        (reads (\<lambda>T hs. hs \<noteq> [] \<and> distinct hs \<and> set hs \<subseteq> dom (points T) \<and> Collect (marked T b) \<subseteq> set hs))
        (\<lambda>T rc. (rc = MCO_S_NOTFOUND \<longrightarrow> Collect (marked T b) = {}) \<and> (reliable \<longrightarrow> rc = MCO_S_NOTFOUND))"
    and modified_compare: "obeys tabs saved depth (by_modified_compare E h b)
        (reads (\<lambda>T c. points T h \<noteq> None \<and> (c = 0 \<longleftrightarrow> marked T b h))) (\<lambda>T rc. reliable \<longrightarrow> points T h = None)"
    and csr_from: "obeys tabs saved depth (csr_from E h) (reads (\<lambda>T h'. h' = h)) (\<lambda>T rc. \<not> reliable)"
    and csr_first: "obeys tabs saved depth (csr_first E) (reads (\<lambda>T _. True)) (\<lambda>T rc. \<not> reliable)"
    and csr_next: "obeys tabs saved depth (csr_next E) (reads (\<lambda>T _. True)) (\<lambda>T rc. rc \<noteq> MCO_S_CURSOR_END \<and> \<not> reliable)"
    and csr_close: "obeys tabs saved depth (csr_close E) (reads (\<lambda>T _. True)) (\<lambda>T rc. \<not> reliable)"
    and unopened: "obeys tabs saved depth (unopened E) (reads (\<lambda>T _. True)) (\<lambda>T rc. True)"
begin

abbreviation at :: "rt_tables \<Rightarrow> rt_tables \<Rightarrow> nat \<Rightarrow> 'd \<Rightarrow> bool" where
  "at \<equiv> view tabs saved depth"

lemma at_self: "at (tabs d) (saved d) (depth d) d"
  by (simp add: view_def)

lemmas wp_call = wp_obeys [of tabs saved depth]

lemmas call_rules =
  wp_call [OF pts.create] wp_call [OF pts.find] wp_call [OF pts.autoid_get] wp_call [OF pts.get] wp_call [OF pts.access]
  wp_call [OF sts.create] wp_call [OF sts.remove] wp_call [OF sts.find] wp_call [OF sts.autoid_get] wp_call [OF sts.get]
  wp_call [OF class_laws.create [OF passport]] wp_call [OF class_laws.find [OF passport]]
  wp_call [OF class_laws.autoid_get [OF passport]] wp_call [OF class_laws.get [OF passport]]
  wp_call [OF uni.create] wp_call [OF uni.delete_all] wp_call [OF lab.create] wp_call [OF lab.delete_all]
  wp_call [OF mac.create] wp_call [OF mac.delete_all]
  wp_call [OF itm.create] wp_call [OF itm.remove] wp_call [OF itm.get]
  wp_call [OF checkpoint] wp_call [OF find_tag] wp_call [OF ai_part] wp_call [OF di_part] wp_call [OF sa_find]
  wp_call [OF sa_get] wp_call [OF unity_label] wp_call [OF unity_id] wp_call [OF unity_row] wp_call [OF find_group]
  wp_call [OF group_cursor] wp_call [OF group_search] wp_call [OF group_compare] wp_call [OF tag_id_cursor]
  wp_call [OF tag_id_search] wp_call [OF tag_id_compare] wp_call [OF modified_cursor] wp_call [OF modified_search]
  wp_call [OF modified_compare] wp_call [OF csr_from] wp_call [OF csr_first] wp_call [OF csr_next] wp_call [OF csr_close]
  wp_call [OF unopened]

lemmas put_rules = wp_call [OF pts.put_fits] wp_call [OF sts.put_fits] wp_call [OF itm.put_fits]
  wp_call [OF class_laws.put_fits [OF passport]] wp_call [OF uni.put_fits] wp_call [OF lab.put_fits]
  wp_call [OF mac.put_fits]

end

end
