(* ===== verification/RtapGroups.thy ===== *)
theory RtapGroups
  imports RtapStore
begin

text \<open>
  Subscription groups of the real-time database (xdb_impl_db_rtap.cpp): a group has a name and a
  list of points; a client polls which groups contain points whose attributes changed, reads these
  points and resets their flags.  Each operation is one transaction; its state is the object
  \<open>DatabaseRtapImpl\<close> together with the caller's buffer, and the database.
\<close>

section \<open>Requests\<close>

datatype TypeOfQuery = rtQUERY_CONN_INFO | rtQUERY_SPACE | rtQUERY_CFI | rtQUERY_ALIAS | rtQUERY_ATTR_CNT
  | rtQUERY_ATTR_NAMES | rtQUERY_ATTR_ORDER | rtQUERY_CATEGORIES | rtQUERY_CE_OPER | rtQUERY_EXPR_ORDER
  | rtQUERY_FIRST_CHILD | rtQUERY_LRL | rtQUERY_NEXT_SIBLING | rtQUERY_PARENT | rtQUERY_PT_NAME | rtQUERY_RESIDENCE
  | rtQUERY_USAGE | rtQUERY_ATTR_IDS | rtQUERY_PT_CLASS | rtQUERY_PTS_IN_CLASS | rtQUERY_PTS_IN_CATEG
  | rtQUERY_CE_DEP_REF | rtQUERY_CE_DEP_UPD | rtQUERY_ATTRIBUTE | rtQUERY_ATTR_ACCESS | rtQUERY_ATTR_NAME
  | rtQUERY_DE_TYPE | rtQUERY_EVENT | rtQUERY_FIELD_NAMES | rtQUERY_GROUPS | rtQUERY_DEFINITION | rtQUERY_DIRECT
  | rtQUERY_SYM_ABS | rtQUERY_SYM_ALIAS | rtQUERY_SYM_REL | rtQUERY_DIRECT_ATTR | rtQUERY_SBS_LIST_ARMED
  | rtQUERY_SBS_POINTS_ARMED | rtQUERY_SBS_POINTS_DISARM | rtQUERY_SBS_POINTS_DISARM_BY_LIST
  | rtQUERY_SBS_READ_POINTS_ARMED

datatype TypeOfConfig = rtCONFIG_DEFINITION | rtCONFIG_PT_NAME | rtCONFIG_MOVE_POINT | rtCONFIG_DEL_BRANCH
  | rtCONFIG_COPY_BRANCH | rtCONFIG_COPY_POINT | rtCONFIG_DEL_ATTR | rtCONFIG_COPY_ATTR | rtCONFIG_ATTR_NAME
  | rtCONFIG_ADD_SCALAR | rtCONFIG_ADD_VECTOR | rtCONFIG_ADD_TABLE | rtCONFIG_DEL_BR_CHK | rtCONFIG_RECEL_CNT
  | rtCONFIG_DE_TYPE | rtCONFIG_FIELD_NAME | rtCONFIG_ADD_FIELD | rtCONFIG_DEL_FIELD | rtCONFIG_ATTR_AIN
  | rtCONFIG_ADD_GROUP_SBS | rtCONFIG_DEL_GROUP_SBS | rtCONFIG_ENABLE_GROUP_SBS | rtCONFIG_SUSPEND_GROUP_SBS

text \<open>The object and the buffer of a request: a map from ids to names, and the points that were read.
  \<open>o_behind\<close> is what the memory holds from the last byte of the function's name buffer on, which nothing
  writes.\<close>

record 'i request =
  o_error :: ErrorCode_t
  o_map :: "int \<rightharpoonup> string"
  o_points :: "'i list"
  o_behind :: string

type_synonym ('i, 'd, 'a) req_step = "('i request, 'd, 'a) step"

definition set_error :: "ErrorCode_t \<Rightarrow> ('i, 'd, unit) req_step" where
  "set_error e = set_obj (\<lambda>q. q\<lparr>o_error := e\<rparr>)"

text \<open>\<open>map.insert\<close> keeps an entry that is there.\<close>

definition map_insert :: "int \<Rightarrow> string \<Rightarrow> ('i, 'd, unit) req_step" where
  "map_insert k v = set_obj (\<lambda>q. q\<lparr>o_map := (if o_map q k = None then (o_map q)(k \<mapsto> v) else o_map q)\<rparr>)"

section \<open>Transactions\<close>

text \<open>
  \<open>do { ... } while (false); if (rc) mco_trans_rollback(t); return rc;\<close> with the commit in the
  body.  A \<open>break\<close> while \<open>rc\<close> is \<open>MCO_S_OK\<close> leaves the transaction open.
\<close>

definition rt_txn :: "'d rtap_env \<Rightarrow> trans_mode \<Rightarrow> ('o, 'd, unit) step \<Rightarrow> ('o \<times> 'd, fault, mco_ret) prog" where
  "rt_txn E mode steps s =
     (case db_try (rtap_start E mode) s of
        (Inr (Inl rc), s') \<Rightarrow> (Inr rc, (fst s', snd (rtap_rollback E False (snd s'))))
      | (_, s') \<Rightarrow>
          (case steps s' of
             (Inl (Crash f), s'') \<Rightarrow> (Inl f, s'')
           | (Inr _, s'') \<Rightarrow> (Inr MCO_S_OK, s'')
           | (Inl (Brk rc), s'') \<Rightarrow>
               if rc = MCO_S_OK then (Inr MCO_S_OK, s'')
               else (Inr rc, (fst s'', snd (rtap_rollback E True (snd s''))))))"

text \<open>A loop whose \<open>break\<close> leaves it with a code that the code after it overwrites.\<close>

definition loop_c :: "('o, 'd, unit) step \<Rightarrow> ('o, 'd, unit) step" where
  "loop_c m = bnd (rc_of m) (\<lambda>_. ret ())"

text \<open>\<open>rc = mco_cursor_next(t, &csr)\<close> at the end of a round: no further round at the end of the cursor.\<close>

definition csr_round :: "'d rtap_env \<Rightarrow> int list \<Rightarrow> ('o, 'd, unit) step \<Rightarrow> ('o, 'd, unit) step" where
  "csr_round E rest again = (if rest = [] then ret () else sq (db (csr_next E)) again)"

section \<open>Creating a group\<close>

fun link_points :: "'d rtap_env \<Rightarrow> int \<Rightarrow> string list \<Rightarrow> ('i, 'd, unit) req_step" where
  "link_points E g [] = ret ()"
| "link_points E g (tag # tags) =
     bnd (db (c_create (SBS_ITEM E))) (\<lambda>item.
     sq (db (c_put (SBS_ITEM E) (PutGroupId g) item))
    (bnd (db_try (SK_by_tag_find E tag)) (\<lambda>r.
     case r of
       Inl rc \<Rightarrow> sq (set_error rtE_POINT_NOT_FOUND) (raise (Brk rc))
     | Inr point \<Rightarrow>
         bnd (db (c_autoid_get (XDBPoint E) point)) (\<lambda>aid.
         sq (db (c_put (SBS_ITEM E) (PutTagId aid) item))
        (sq (db (checkpoint E))
            (link_points E g tags))))))"

definition createGroup_steps :: "'d rtap_env \<Rightarrow> string \<Rightarrow> string list \<Rightarrow> ('i, 'd, unit) req_step" where
  "createGroup_steps E name tags =
     bnd (db_try (PK_by_name_find E name)) (\<lambda>r.
     case r of
       Inl rc \<Rightarrow>
         if rc \<noteq> MCO_S_NOTFOUND then raise (Brk rc)
         else
           bnd (db (c_create (SBS_STAT E))) (\<lambda>stat.
           sq (db (c_put (SBS_STAT E) (PutSbsName name) stat))
          (sq (db (c_put (SBS_STAT E) (PutSbsState ENABLE) stat))
          (sq (db (checkpoint E))
          (bnd (db (c_autoid_get (SBS_STAT E) stat)) (\<lambda>g.
           sq (loop_c (link_points E g tags))
          (sq (db (rtap_commit E))
              (set_error rtE_NONE)))))))
     | Inr stat \<Rightarrow> bnd (db (c_autoid_get (SBS_STAT E) stat)) (\<lambda>_. raise (Brk MCO_S_OK)))"

definition createGroup :: "'d rtap_env \<Rightarrow> string \<Rightarrow> string list \<Rightarrow> ('i request \<times> 'd, fault, mco_ret) prog" where
  "createGroup E name tags =
     sq (upd (\<lambda>(q, d). (q\<lparr>o_error := rtE_RUNTIME_ERROR\<rparr>, d)))
        (rt_txn E MCO_READ_WRITE (createGroup_steps E name tags))"

section \<open>Deleting a group\<close>

fun delete_items :: "'d rtap_env \<Rightarrow> int \<Rightarrow> int list \<Rightarrow> ('o, 'd, unit) step" where
  "delete_items E g [] = ret ()"
| "delete_items E g (h # hs) =
     bnd (db (by_group_compare E h g)) (\<lambda>c.
     sq (if c = 0 then
           bnd (db (csr_from E h)) (\<lambda>item.
           sq (bnd (db (c_get (SBS_ITEM E) item)) (\<lambda>_. ret ()))
              (db (c_remove (SBS_ITEM E) item)))
         else ret ())
        (csr_round E hs (delete_items E g hs)))"

definition delete_group_items :: "'d rtap_env \<Rightarrow> int \<Rightarrow> ('o, 'd, unit) step" where
  "delete_group_items E g =
     bnd (db_try (by_group_cursor E)) (\<lambda>c.
     case c of
       Inl _ \<Rightarrow> ret ()
     | Inr _ \<Rightarrow>
         bnd (db_try (by_group_search E g)) (\<lambda>s.
         sq (case s of
               Inl rc \<Rightarrow> if rc \<noteq> MCO_S_NOTFOUND then raise (Brk rc) else ret ()
             | Inr hs \<Rightarrow> sq (db (csr_first E)) (loop_c (delete_items E g hs)))
            (db (csr_close E))))"

definition deleteGroup_steps :: "'d rtap_env \<Rightarrow> string \<Rightarrow> ('i, 'd, unit) req_step" where
  "deleteGroup_steps E name =
     bnd (db (PK_by_name_find E name)) (\<lambda>stat.
     bnd (db (c_autoid_get (SBS_STAT E) stat)) (\<lambda>g.
     sq (delete_group_items E g)
    (bnd (db (c_find (SBS_STAT E) g)) (\<lambda>stat'.
     sq (db (c_remove (SBS_STAT E) stat'))
    (sq (db (rtap_commit E))
        (set_error rtE_NONE))))))"

definition deleteGroup :: "'d rtap_env \<Rightarrow> string \<Rightarrow> ('i request \<times> 'd, fault, mco_ret) prog" where
  "deleteGroup E name =
     sq (upd (\<lambda>(q, d). (q\<lparr>o_error := rtE_RUNTIME_ERROR\<rparr>, d)))
        (rt_txn E MCO_READ_WRITE (deleteGroup_steps E name))"

definition enableGroup :: "('s, fault, mco_ret) prog" where
  "enableGroup = ret MCO_S_OK"

definition suspendGroup :: "('s, fault, mco_ret) prog" where
  "suspendGroup = ret MCO_S_NOTFOUND"

section \<open>Walking the changed points\<close>

text \<open>
  The two queries share their frame: through the index of changed points, for each of them
  through the index of the groups it belongs to.  \<open>visit point item\<close> is what is done for a
  membership.
\<close>

fun walk_items :: "'d rtap_env \<Rightarrow> (int \<Rightarrow> int \<Rightarrow> ('o, 'd, unit) step) \<Rightarrow> int \<Rightarrow> int list \<Rightarrow> ('o, 'd, unit) step" where
  "walk_items E visit point [] = ret ()"
| "walk_items E visit point (h # hs) =
     bnd (db (by_tag_id_compare E h point)) (\<lambda>c.
     sq (if c = 0 then bnd (db (csr_from E h)) (\<lambda>item. visit point item) else ret ())
        (csr_round E hs (walk_items E visit point hs)))"

text \<open>A search that fails for another reason than \<open>MCO_S_NOTFOUND\<close> leaves a cursor without entries.\<close>

definition walk_groups :: "'d rtap_env \<Rightarrow> (int \<Rightarrow> int \<Rightarrow> ('o, 'd, unit) step) \<Rightarrow> int \<Rightarrow> ('o, 'd, unit) step" where
  "walk_groups E visit point =
     sq (db (by_tag_id_cursor E))
    (bnd (db_try (by_tag_id_search E point)) (\<lambda>s.
     sq (if s = Inl MCO_S_NOTFOUND then ret ()
         else sq (db (csr_first E)) (loop_c (walk_items E visit point (case s of Inl _ \<Rightarrow> [] | Inr hs \<Rightarrow> hs))))
        (db (csr_close E))))"

fun walk_points :: "'d rtap_env \<Rightarrow> (int \<Rightarrow> int \<Rightarrow> ('o, 'd, unit) step) \<Rightarrow> int list \<Rightarrow> ('o, 'd, unit) step" where
  "walk_points E visit [] = ret ()"
| "walk_points E visit (h # hs) =
     bnd (db (by_modified_compare E h True)) (\<lambda>c.
     sq (if c = 0 then
           bnd (db (csr_from E h)) (\<lambda>point.
           bnd (db (c_autoid_get (XDBPoint E) point)) (\<lambda>aid.
           walk_groups E visit aid))
         else ret ())
        (csr_round E hs (walk_points E visit hs)))"

definition walk_modified :: "'d rtap_env \<Rightarrow> (int \<Rightarrow> int \<Rightarrow> ('o, 'd, unit) step) \<Rightarrow> ('o, 'd, unit) step" where
  "walk_modified E visit =
     bnd (db_try (by_modified_cursor E)) (\<lambda>c.
     case c of
       Inl _ \<Rightarrow> ret ()
     | Inr _ \<Rightarrow>
         bnd (db_try (by_modified_search E True)) (\<lambda>s.
         sq (case s of
               Inl rc \<Rightarrow> if rc \<noteq> MCO_S_NOTFOUND then raise (Brk rc) else ret ()
             | Inr hs \<Rightarrow> sq (db (csr_first E)) (loop_c (walk_points E visit hs)))
            (db (csr_close E))))"

definition rt_query :: "'d rtap_env \<Rightarrow> trans_mode \<Rightarrow> ('i, 'd, unit) req_step \<Rightarrow> ('i request \<times> 'd, fault, mco_ret) prog" where
  "rt_query E mode steps =
     bnd (rt_txn E mode (sq steps (db (rtap_commit E)))) (\<lambda>rc.
     sq (if rc \<noteq> MCO_S_OK then upd (\<lambda>(q, d). (q\<lparr>o_error := rtE_RUNTIME_ERROR\<rparr>, d)) else ret ())
        (ret rc))"

section \<open>Which groups have changed points\<close>

definition LABEL_MAXLEN :: nat where
  "LABEL_MAXLEN = 100"

definition TAG_NAME_MAXLEN :: nat where
  "TAG_NAME_MAXLEN = 32"

text \<open>
  A text of at most \<open>n\<close> characters is read into a buffer of \<open>n + 1\<close> bytes of which the first \<open>n\<close> were
  cleared: a text that fills them is not terminated, and what lies behind it is taken for the rest.
\<close>

definition from_buffer :: "nat \<Rightarrow> string \<Rightarrow> string \<Rightarrow> string" where
  "from_buffer n behind s =
     (let t = strncpy n s in if length t = n then t @ c_str behind else t)"

definition note_group :: "'d rtap_env \<Rightarrow> int \<Rightarrow> int \<Rightarrow> ('i, 'd, unit) req_step" where
  "note_group E point item =
     bnd (db (c_get (SBS_ITEM E) item)) (\<lambda>it.
     bnd obj (\<lambda>q.
     if o_map q (it_group_id it) \<noteq> None then ret ()
     else
       bnd (db (c_find (SBS_STAT E) (it_group_id it))) (\<lambda>stat.
       bnd (db (c_get (SBS_STAT E) stat)) (\<lambda>st.
       if sbs_state st = ENABLE then
         bnd (db (c_get (SBS_STAT E) stat)) (\<lambda>nm.
         map_insert (it_group_id it) (from_buffer LABEL_MAXLEN (o_behind q) (sbs_name nm)))
       else ret ()))))"

definition querySbsArmedGroup :: "'d rtap_env \<Rightarrow> ('i request \<times> 'd, fault, mco_ret) prog" where
  "querySbsArmedGroup E =
     sq (upd (\<lambda>(q, d). (q\<lparr>o_map := Map.empty\<rparr>, d)))
        (rt_query E MCO_READ_ONLY (walk_modified E (note_group E)))"

section \<open>The changed points of a group\<close>

text \<open>\<open>switch (action)\<close>; the \<open>break\<close> of a failed call only leaves it.\<close>

definition do_action ::
  "'d rtap_env \<Rightarrow> (int \<Rightarrow> ('i, 'd, 'i) req_step) \<Rightarrow> TypeOfQuery \<Rightarrow> int \<Rightarrow> ('i, 'd, unit) req_step" where
  "do_action E load action point =
     (if action = rtQUERY_SBS_POINTS_ARMED then
        bnd (db (c_get (XDBPoint E) point)) (\<lambda>r.
        bnd obj (\<lambda>q. map_insert point (from_buffer TAG_NAME_MAXLEN (o_behind q) (p_TAG r))))
      else if action = rtQUERY_SBS_POINTS_DISARM then db (c_put (XDBPoint E) (Put_is_modified False) point)
      else if action = rtQUERY_SBS_READ_POINTS_ARMED then
        bnd (rc_of (load point)) (\<lambda>r.
        case r of Inl _ \<Rightarrow> ret () | Inr i \<Rightarrow> set_obj (\<lambda>q. q\<lparr>o_points := o_points q @ [i]\<rparr>))
      else ret ())"

definition visit_group ::
  "'d rtap_env \<Rightarrow> (int \<Rightarrow> ('i, 'd, 'i) req_step) \<Rightarrow> TypeOfQuery \<Rightarrow> int \<Rightarrow> int \<Rightarrow> int \<Rightarrow> ('i, 'd, unit) req_step" where
  "visit_group E load action g point item =
     bnd (db (c_get (SBS_ITEM E) item)) (\<lambda>it.
     if it_group_id it = g then loop_c (do_action E load action point) else ret ())"

definition querySbsPoints ::
  "'d rtap_env \<Rightarrow> (int \<Rightarrow> ('i, 'd, 'i) req_step) \<Rightarrow> TypeOfQuery \<Rightarrow> string \<Rightarrow> ('i request \<times> 'd, fault, mco_ret) prog" where
  "querySbsPoints E load action name =
     sq (upd (\<lambda>(q, d). (if action = rtQUERY_SBS_POINTS_ARMED then q\<lparr>o_map := Map.empty\<rparr> else q, d)))
        (rt_query E (if action = rtQUERY_SBS_POINTS_DISARM then MCO_READ_WRITE else MCO_READ_ONLY)
           (bnd (db (PK_by_name_find E name)) (\<lambda>stat.
            bnd (db (c_autoid_get (SBS_STAT E) stat)) (\<lambda>g.
            walk_modified E (visit_group E load action g)))))"

section \<open>Resetting points by name\<close>

fun disarm_points :: "'d rtap_env \<Rightarrow> string list \<Rightarrow> ('o, 'd, unit) step" where
  "disarm_points E [] = ret ()"
| "disarm_points E (tag # tags) =
     bnd (db (SK_by_tag_find E tag)) (\<lambda>point.
     sq (db (c_put (XDBPoint E) (Put_is_modified False) point))
        (disarm_points E tags))"

definition querySbsDisarmSelectedPoints :: "'d rtap_env \<Rightarrow> string list \<Rightarrow> ('i request \<times> 'd, fault, mco_ret) prog" where
  "querySbsDisarmSelectedPoints E tags =
     rt_txn E MCO_READ_WRITE (sq (loop_c (disarm_points E tags)) (db (rtap_commit E)))"

section \<open>Dispatch\<close>

text \<open>\<open>tags\<close> is \<open>info.tags\<close> for the queries of one group, and the set of names in the buffer, in
  the order it is iterated, for a list of points.\<close>

definition rt_query_call ::
  "'d rtap_env \<Rightarrow> (int \<Rightarrow> ('i, 'd, 'i) req_step) \<Rightarrow> TypeOfQuery \<Rightarrow> string list \<Rightarrow> ('i request \<times> 'd, fault, mco_ret) prog" where
  "rt_query_call E load action tags =
     (if action = rtQUERY_SBS_LIST_ARMED then querySbsArmedGroup E
      else if action \<in> {rtQUERY_SBS_POINTS_ARMED, rtQUERY_SBS_POINTS_DISARM, rtQUERY_SBS_READ_POINTS_ARMED} then
        sq (check (length tags = 1) AssertFailed) (querySbsPoints E load action (hd tags))
      else if action = rtQUERY_SBS_POINTS_DISARM_BY_LIST then querySbsDisarmSelectedPoints E tags
      else sq (upd (\<lambda>(q, d). (q\<lparr>o_error := rtE_NOT_IMPLEMENTED\<rparr>, d))) (ret MCO_S_OK))"

definition Query ::
  "'d rtap_env \<Rightarrow> (int \<Rightarrow> ('i, 'd, 'i) req_step) \<Rightarrow> TypeOfQuery \<Rightarrow> string list \<Rightarrow> ('i request \<times> 'd, fault, ErrorCode_t) prog" where
  "Query E load action tags =
     sq (upd (\<lambda>(q, d). (q\<lparr>o_error := rtE_NONE\<rparr>, d)))
    (sq (rt_query_call E load action tags)
        (rd (\<lambda>(q, d). o_error q)))"

text \<open>\<open>create_table\<close> stands for the dictionaries, which this theory does not hold.\<close>

definition rt_config_call ::
  "'d rtap_env \<Rightarrow> ('i request \<times> 'd, fault, mco_ret) prog \<Rightarrow> TypeOfConfig \<Rightarrow> string \<Rightarrow> string list
   \<Rightarrow> ('i request \<times> 'd, fault, mco_ret) prog" where
  "rt_config_call E create_table action name tags =
     (if action = rtCONFIG_ADD_TABLE then create_table
      else if action = rtCONFIG_ADD_GROUP_SBS then createGroup E name tags
      else if action = rtCONFIG_ENABLE_GROUP_SBS then enableGroup
      else if action = rtCONFIG_SUSPEND_GROUP_SBS then
        sq suspendGroup (sq (upd (\<lambda>(q, d). (q\<lparr>o_error := rtE_RUNTIME_WARNING\<rparr>, d))) (ret MCO_S_NOTFOUND))
      else if action = rtCONFIG_DEL_GROUP_SBS then deleteGroup E name
      else sq (upd (\<lambda>(q, d). (q\<lparr>o_error := rtE_NOT_IMPLEMENTED\<rparr>, d))) (ret MCO_S_OK))"

definition Config ::
  "'d rtap_env \<Rightarrow> ('i request \<times> 'd, fault, mco_ret) prog \<Rightarrow> TypeOfConfig \<Rightarrow> string \<Rightarrow> string list
   \<Rightarrow> ('i request \<times> 'd, fault, ErrorCode_t) prog" where
  "Config E create_table action name tags =
     sq (upd (\<lambda>(q, d). (q\<lparr>o_error := rtE_NONE\<rparr>, d)))
    (sq (rt_config_call E create_table action name tags)
        (rd (\<lambda>(q, d). o_error q)))"

end
