(* ===== verification/RtapEvents.thy ===== *)
theory RtapEvents
  imports RtapStore
begin

text \<open>
  What the database does when the attribute VALIDCHANGE of a point is written:
  \<open>on_update_VALIDCHANGE\<close> and \<open>GOFVALTI\<close> of xdb_impl_db_rtap.cpp.  An event code says what
  happened to a measurement (acquired, forced by hand, inhibited, ...); the handler derives from
  it the point's value, its validity and its inhibitions.
\<close>

section \<open>The analog handler\<close>

text \<open>The arguments of \<open>GOFVALTI\<close> that its code looks at.\<close>

record gof_args =
  g_Valacq :: "64 word"
  g_ValManual :: "64 word"
  b_Validacq :: Validity
  h_Valid :: Validity
  o_SaState :: SystemState
  b_InhibLocal :: bool
  b_Inhib :: bool

record gof_vars =
  g_rc :: mco_ret
  point_was_modified :: bool

type_synonym 'd gof_op = "(gof_vars \<times> 'd, mco_ret, unit) prog"

text \<open>\<open>rc = ..._put(...); if (rc) { LOG(ERROR) ...; break; }\<close>\<close>

definition gput :: "'d rtap_env \<Rightarrow> int \<Rightarrow> point_put \<Rightarrow> 'd gof_op" where
  "gput E h p =
     bnd (under (attempt (c_put (XDBPoint E) p h))) (\<lambda>r.
     case r of
       Inl rc \<Rightarrow> sq (upd (\<lambda>(v, d). (v\<lparr>g_rc := rc\<rparr>, d))) (raise rc)
     | Inr _ \<Rightarrow> upd (\<lambda>(v, d). (v\<lparr>g_rc := MCO_S_OK\<rparr>, d)))"

text \<open>A \<open>switch\<close>: a \<open>break\<close> in it only leaves it.\<close>

definition switch_c :: "'d gof_op \<Rightarrow> 'd gof_op" where
  "switch_c m s = (case m s of (_, t) \<Rightarrow> (Inr (), t))"

definition modified_now :: "'d gof_op" where
  "modified_now = upd (\<lambda>(v, d). (v\<lparr>point_was_modified := True\<rparr>, d))"

definition gof_fault :: "'d rtap_env \<Rightarrow> int \<Rightarrow> gof_args \<Rightarrow> 'd gof_op" where
  "gof_fault E h a =
     (if o_SaState a = SS_WORK then
        sq (switch_c (case h_Valid a of
              VALIDITY_VALID \<Rightarrow> gput E h (PutVALIDITY VALIDITY_FAULT)
            | VALIDITY_NO_INSTRUM \<Rightarrow> gput E h (PutVALIDITY VALIDITY_FAULT)
            | VALIDITY_FAULT \<Rightarrow>
                if b_Validacq a = VALIDITY_VALID then gput E h (PutVALIDITY_ACQ VALIDITY_FAULT) else ret ()
            | VALIDITY_INQUIRED \<Rightarrow>
                if b_Validacq a = VALIDITY_VALID then gput E h (PutVALIDITY_ACQ VALIDITY_FAULT) else ret ()
            | _ \<Rightarrow> gput E h (PutVALIDITY_ACQ VALIDITY_FAULT)))
           modified_now
      else ret ())"

text \<open>The value is taken over and the point is valid again.\<close>

definition gof_take_over :: "'d rtap_env \<Rightarrow> int \<Rightarrow> gof_args \<Rightarrow> 'd gof_op" where
  "gof_take_over E h a =
     sq (gput E h (PutAI_VAL (g_Valacq a)))
    (sq (gput E h (PutVALIDITY VALIDITY_VALID))
    (sq (if b_Validacq a = VALIDITY_FAULT then gput E h (PutVALIDITY_ACQ VALIDITY_VALID) else ret ())
        modified_now))"

definition gof_valid :: "'d rtap_env \<Rightarrow> int \<Rightarrow> gof_args \<Rightarrow> 'd gof_op" where
  "gof_valid E h a =
     (if o_SaState a = SS_WORK then
        switch_c (case h_Valid a of
            VALIDITY_INQUIRED \<Rightarrow> gof_take_over E h a
          | VALIDITY_NO_INSTRUM \<Rightarrow> gof_take_over E h a
          | VALIDITY_FAULT \<Rightarrow> gof_take_over E h a
          | VALIDITY_VALID \<Rightarrow> sq (gput E h (PutAI_VAL (g_Valacq a))) modified_now
          | VALIDITY_GLOBAL_FAULT \<Rightarrow> ret ()
          | _ \<Rightarrow> sq (gput E h (PutVALIDITY_ACQ VALIDITY_VALID)) modified_now)
      else ret ())"

text \<open>This branch also computes the validity of a forced point, and drops it.\<close>

definition gof_forced :: "'d rtap_env \<Rightarrow> int \<Rightarrow> gof_args \<Rightarrow> 'd gof_op" where
  "gof_forced E h a =
     sq (gput E h (PutAI_VAL (g_ValManual a)))
    (sq (switch_c (case h_Valid a of
            VALIDITY_VALID \<Rightarrow> gput E h (PutINHIBLOCAL True)
          | VALIDITY_INHIBITION \<Rightarrow> if b_InhibLocal a then ret () else gput E h (PutINHIBLOCAL True)
          | VALIDITY_FAULT \<Rightarrow> gput E h (PutINHIBLOCAL True)
          | VALIDITY_INQUIRED \<Rightarrow> gput E h (PutINHIBLOCAL True)
          | VALIDITY_FAULT_INHIB \<Rightarrow> if b_InhibLocal a then ret () else gput E h (PutINHIBLOCAL True)
          | _ \<Rightarrow> ret ()))
        modified_now)"

text \<open>Only the branch of an inquired point writes.\<close>

definition gof_inhib :: "'d rtap_env \<Rightarrow> int \<Rightarrow> gof_args \<Rightarrow> 'd gof_op" where
  "gof_inhib E h a =
     sq (switch_c (if h_Valid a = VALIDITY_INQUIRED then
            sq (gput E h (PutVALIDITY (if b_Validacq a = VALIDITY_VALID then VALIDITY_MANUAL else VALIDITY_FAULT_FORCED)))
           (sq modified_now (gput E h (PutINHIBLOCAL True)))
          else ret ()))
        (upd (\<lambda>(v, d). (v\<lparr>g_rc := MCO_S_OK\<rparr>, d)))"

definition gof_manual :: "'d rtap_env \<Rightarrow> int \<Rightarrow> gof_args \<Rightarrow> 'd gof_op" where
  "gof_manual E h a =
     switch_c (if h_Valid a \<in> {VALIDITY_VALID, VALIDITY_GLOBAL_FAULT} then ret ()
       else
         sq (gput E h (PutAI_VAL (g_ValManual a)))
        (sq (case h_Valid a of
               VALIDITY_FAULT \<Rightarrow> gput E h (PutVALIDITY VALIDITY_INQUIRED)
             | VALIDITY_INHIBITION \<Rightarrow> gput E h (PutVALIDITY VALIDITY_MANUAL)
             | VALIDITY_FAULT_INHIB \<Rightarrow> gput E h (PutVALIDITY VALIDITY_FAULT_FORCED)
             | _ \<Rightarrow> ret ())
            modified_now))"

text \<open>Validities under which the value does not follow the acquisition.\<close>

definition held :: "Validity \<Rightarrow> bool" where
  "held v \<longleftrightarrow> v \<in> {VALIDITY_FAULT_INHIB, VALIDITY_FAULT_FORCED, VALIDITY_MANUAL, VALIDITY_INHIBITION}"

definition gof_end :: "'d rtap_env \<Rightarrow> int \<Rightarrow> gof_args \<Rightarrow> 'd gof_op" where
  "gof_end E h a =
     switch_c (if held (h_Valid a) then
         sq (if o_SaState a \<noteq> SS_INHIB \<and> \<not> b_Inhib a then
               if b_Validacq a = VALIDITY_VALID then
                 gput E h (PutVALIDITY (if o_SaState a = SS_WORK then VALIDITY_VALID else VALIDITY_FAULT))
               else gput E h (PutVALIDITY VALIDITY_FAULT)
             else ret ())
        (sq (gput E h (PutAI_VAL (g_Valacq a)))
        (sq (if b_InhibLocal a then gput E h (PutINHIBLOCAL False) else ret ())
            modified_now))
       else ret ())"

definition gof_inhib_gbl :: "'d rtap_env \<Rightarrow> int \<Rightarrow> gof_args \<Rightarrow> 'd gof_op" where
  "gof_inhib_gbl E h a =
     switch_c (if held (h_Valid a) then
         sq (if o_SaState a \<noteq> SS_INHIB \<and> \<not> b_Inhib a \<and> \<not> b_InhibLocal a then
               if b_Validacq a = VALIDITY_VALID then gput E h (PutVALIDITY VALIDITY_VALID)
               else if b_Validacq a = VALIDITY_FAULT then gput E h (PutVALIDITY VALIDITY_FAULT)
               else ret ()
             else ret ())
        (sq (gput E h (PutAI_VAL (g_Valacq a)))
            modified_now)
       else ret ())"

definition gof_end_inhib_gbl :: "'d rtap_env \<Rightarrow> int \<Rightarrow> gof_args \<Rightarrow> 'd gof_op" where
  "gof_end_inhib_gbl E h a =
     sq (gput E h (PutVALIDITY (case h_Valid a of
           VALIDITY_VALID \<Rightarrow> VALIDITY_INHIBITION
         | VALIDITY_FAULT \<Rightarrow> VALIDITY_FAULT_INHIB
         | VALIDITY_INQUIRED \<Rightarrow> VALIDITY_FAULT_FORCED
         | v \<Rightarrow> v)))
        modified_now"

definition gof_null :: "'d gof_op" where
  "gof_null = upd (\<lambda>(v, d). (v\<lparr>g_rc := MCO_S_OK, point_was_modified := False\<rparr>, d))"

definition gof_fault_gbl :: "'d rtap_env \<Rightarrow> int \<Rightarrow> gof_args \<Rightarrow> 'd gof_op" where
  "gof_fault_gbl E h a =
     (if h_Valid a = VALIDITY_VALID then sq (gput E h (PutVALIDITY VALIDITY_FAULT)) modified_now else ret ())"

definition gof_inhib_sa :: "'d rtap_env \<Rightarrow> int \<Rightarrow> gof_args \<Rightarrow> 'd gof_op" where
  "gof_inhib_sa E h a =
     sq (gput E h (PutVALIDITY (case h_Valid a of
           VALIDITY_VALID \<Rightarrow> VALIDITY_INHIBITION
         | VALIDITY_FAULT \<Rightarrow> if b_Validacq a = VALIDITY_VALID then VALIDITY_INHIBITION else VALIDITY_FAULT_INHIB
         | VALIDITY_INQUIRED \<Rightarrow> if b_Validacq a = VALIDITY_VALID then VALIDITY_MANUAL else VALIDITY_FAULT_FORCED
         | v \<Rightarrow> v)))
        modified_now"

definition gof_end_inhib_sa :: "'d rtap_env \<Rightarrow> int \<Rightarrow> gof_args \<Rightarrow> 'd gof_op" where
  "gof_end_inhib_sa E h a =
     switch_c (if held (h_Valid a) \<and> \<not> b_Inhib a \<and> \<not> b_InhibLocal a then
         if b_Validacq a = VALIDITY_VALID \<and> o_SaState a = SS_WORK then
           sq (gput E h (PutVALIDITY VALIDITY_VALID))
          (sq (gput E h (PutAI_VAL (g_Valacq a)))
              modified_now)
         else sq (gput E h (PutVALIDITY VALIDITY_FAULT)) modified_now
       else ret ())"

fun gof_case :: "'d rtap_env \<Rightarrow> int \<Rightarrow> gof_args \<Rightarrow> ValidChange \<Rightarrow> 'd gof_op" where
  "gof_case E h a VALIDCHANGE_FAULT = gof_fault E h a"
| "gof_case E h a VALIDCHANGE_VALID = gof_valid E h a"
| "gof_case E h a VALIDCHANGE_FORCED = gof_forced E h a"
| "gof_case E h a VALIDCHANGE_INHIB = gof_inhib E h a"
| "gof_case E h a VALIDCHANGE_MANUAL = gof_manual E h a"
| "gof_case E h a VALIDCHANGE_END_INHIB = gof_end E h a"
| "gof_case E h a VALIDCHANGE_END_FORCED = gof_end E h a"
| "gof_case E h a VALIDCHANGE_INHIB_GBL = gof_inhib_gbl E h a"
| "gof_case E h a VALIDCHANGE_END_INHIB_GBL = gof_end_inhib_gbl E h a"
| "gof_case E h a VALIDCHANGE_NULL = gof_null"
| "gof_case E h a VALIDCHANGE_FAULT_GBL = gof_fault_gbl E h a"
| "gof_case E h a VALIDCHANGE_INHIB_SA = gof_inhib_sa E h a"
| "gof_case E h a VALIDCHANGE_END_INHIB_SA = gof_end_inhib_sa E h a"

text \<open>
  The tail: a code other than \<open>MCO_S_OK\<close> of an unmodified point becomes \<open>MCO_S_OK\<close>, in every
  other case the point is marked as modified and the code is that of this write.
\<close>

definition gof_finish :: "'d rtap_env \<Rightarrow> int \<Rightarrow> 'd gof_op" where
  "gof_finish E h =
     bnd (rd fst) (\<lambda>v.
     if g_rc v \<noteq> MCO_S_OK \<and> \<not> point_was_modified v then ret ()
     else under (c_put (XDBPoint E) (Put_is_modified True) h))"

definition GOFVALTI :: "'d rtap_env \<Rightarrow> int \<Rightarrow> ValidChange \<Rightarrow> gof_args \<Rightarrow> ('d, unit) call" where
  "GOFVALTI E h vc a =
     bnd (on_obj \<lparr>g_rc = MCO_S_NOTFOUND, point_was_modified = False\<rparr>
            (sq (switch_c (gof_case E h a vc)) (gof_finish E h))) (\<lambda>_. ret ())"

section \<open>The event handler\<close>

text \<open>The handlers of discrete points and of alarms are stubs.\<close>

definition GOFVALTSC :: "('d, unit) call" where
  "GOFVALTSC = raise MCO_S_NOTFOUND"

definition GOFVALAL :: "('d, unit) call" where
  "GOFVALAL = raise MCO_S_NOTFOUND"

definition part_of :: "info_type option \<Rightarrow> info_type" where
  "part_of o' = (case o' of Some p \<Rightarrow> p | None \<Rightarrow> \<lparr>i_VAL = 0, i_VALACQ = 0, i_VALMANUAL = 0\<rparr>)"

text \<open>The state of the acquisition system the point belongs to.\<close>

definition read_sa_state :: "'d rtap_env \<Rightarrow> int \<Rightarrow> ('d, SystemState) call" where
  "read_sa_state E aid =
     bnd (c_find (XDBPoint E) aid) (\<lambda>sa.
     bnd (c_get (XDBPoint E) sa) (\<lambda>sa_row.
     bnd (attempt (SA_passport_find E (p_passport_ref sa_row))) (\<lambda>r.
     case r of
       Inl rc \<Rightarrow> if rc = MCO_S_NOTFOUND then ret SS_WORK else raise rc
     | Inr p \<Rightarrow>
         bnd (SA_passport_get E p) (\<lambda>state_row.
         bnd (SA_passport_get E p) (\<lambda>_.
         ret (sa_state state_row))))))"

definition on_analog :: "'d rtap_env \<Rightarrow> int \<Rightarrow> ValidChange \<Rightarrow> Validity \<Rightarrow> Validity \<Rightarrow> SystemState \<Rightarrow> bool \<Rightarrow> bool \<Rightarrow> ('d, unit) call" where
  "on_analog E h vc validacq valid sa inhiblocal inhib =
     sq (ai_read E h)
    (bnd (c_get (XDBPoint E) h) (\<lambda>r1.
     bnd (c_get (XDBPoint E) h) (\<lambda>r2.
     bnd (c_get (XDBPoint E) h) (\<lambda>r3.
     GOFVALTI E h vc \<lparr>g_Valacq = i_VALACQ (part_of (p_ai r1)), g_ValManual = i_VALMANUAL (part_of (p_ai r2)),
       b_Validacq = validacq, h_Valid = valid, o_SaState = sa, b_InhibLocal = inhiblocal, b_Inhib = inhib\<rparr>))))"

definition on_discrete :: "'d rtap_env \<Rightarrow> int \<Rightarrow> ('d, unit) call" where
  "on_discrete E h =
     sq (di_read E h)
    (bnd (c_get (XDBPoint E) h) (\<lambda>r1.
     bnd (c_get (XDBPoint E) h) (\<lambda>r2.
     GOFVALTSC)))"

definition on_update_VALIDCHANGE :: "'d rtap_env \<Rightarrow> int \<Rightarrow> ('d, unit) call" where
  "on_update_VALIDCHANGE E h =
     bnd (c_get (XDBPoint E) h) (\<lambda>r_class.
     bnd (c_get (XDBPoint E) h) (\<lambda>r_change.
     bnd (c_get (XDBPoint E) h) (\<lambda>r_tag.
     bnd (c_get (XDBPoint E) h) (\<lambda>r_valid.
     bnd (c_get (XDBPoint E) h) (\<lambda>r_validacq.
     bnd (c_access (XDBPoint E) h) (\<lambda>_.
     bnd (c_get (XDBPoint E) h) (\<lambda>r_inhiblocal.
     bnd (c_get (XDBPoint E) h) (\<lambda>r_inhib.
     bnd (c_get (XDBPoint E) h) (\<lambda>r_sa.
     bnd (read_sa_state E (p_SA_ref r_sa)) (\<lambda>sa.
     if p_OBJCLASS r_class \<in> {TM, TR, ICM} then
       on_analog E h (p_VALIDCHANGE r_change) (p_VALIDITY_ACQ r_validacq) (p_VALIDITY r_valid) sa
         (p_INHIBLOCAL r_inhiblocal) (p_INHIB r_inhib)
     else if p_OBJCLASS r_class \<in> {TS, TSA, VA, ATC, AUX1, AUX2, ICS} then on_discrete E h
     else if p_OBJCLASS r_class = AL then GOFVALAL
     else raise MCO_S_NOTFOUND))))))))))"

text \<open>
  \<open>RegisterEvents\<close> makes the handler that of the schema's event \<open>VALIDCHANGE update\<close>: a put of the
  attribute of a stored point is followed by the handler, whose code is that of the put.
\<close>

definition fire :: "'d rtap_env \<Rightarrow> int \<Rightarrow> ValidChange \<Rightarrow> ('d, unit) call" where
  "fire E h vc = sq (c_put (XDBPoint E) (PutVALIDCHANGE vc) h) (on_update_VALIDCHANGE E h)"

section \<open>What an event means\<close>

text \<open>
  The effect of an event as five tables over the state of the point: where the value comes from,
  the validity, the validity of the acquisition, the local inhibition, and whether subscribers
  are told.
\<close>

datatype source = Keep | Acquired | Manual

fun value_source :: "ValidChange \<Rightarrow> gof_args \<Rightarrow> source" where
  "value_source VALIDCHANGE_VALID a =
     (if o_SaState a = SS_WORK \<and> h_Valid a \<in> {VALIDITY_INQUIRED, VALIDITY_NO_INSTRUM, VALIDITY_FAULT, VALIDITY_VALID}
      then Acquired else Keep)"
| "value_source VALIDCHANGE_FORCED a = Manual"
| "value_source VALIDCHANGE_MANUAL a = (if h_Valid a \<in> {VALIDITY_VALID, VALIDITY_GLOBAL_FAULT} then Keep else Manual)"
| "value_source VALIDCHANGE_END_INHIB a = (if held (h_Valid a) then Acquired else Keep)"
| "value_source VALIDCHANGE_END_FORCED a = (if held (h_Valid a) then Acquired else Keep)"
| "value_source VALIDCHANGE_INHIB_GBL a = (if held (h_Valid a) then Acquired else Keep)"
| "value_source VALIDCHANGE_END_INHIB_SA a =
     (if held (h_Valid a) \<and> \<not> b_Inhib a \<and> \<not> b_InhibLocal a \<and> b_Validacq a = VALIDITY_VALID \<and> o_SaState a = SS_WORK
      then Acquired else Keep)"
| "value_source _ a = Keep"

definition validity_after_end :: "gof_args \<Rightarrow> Validity" where
  "validity_after_end a =
     (if held (h_Valid a) \<and> o_SaState a \<noteq> SS_INHIB \<and> \<not> b_Inhib a
      then if b_Validacq a = VALIDITY_VALID \<and> o_SaState a = SS_WORK then VALIDITY_VALID else VALIDITY_FAULT else h_Valid a)"

fun new_validity :: "ValidChange \<Rightarrow> gof_args \<Rightarrow> Validity" where
  "new_validity VALIDCHANGE_FAULT a =
     (if o_SaState a = SS_WORK \<and> h_Valid a \<in> {VALIDITY_VALID, VALIDITY_NO_INSTRUM} then VALIDITY_FAULT else h_Valid a)"
| "new_validity VALIDCHANGE_VALID a =
     (if o_SaState a = SS_WORK \<and> h_Valid a \<in> {VALIDITY_INQUIRED, VALIDITY_NO_INSTRUM, VALIDITY_FAULT} then VALIDITY_VALID
      else h_Valid a)"
| "new_validity VALIDCHANGE_INHIB a =
     (if h_Valid a = VALIDITY_INQUIRED
      then if b_Validacq a = VALIDITY_VALID then VALIDITY_MANUAL else VALIDITY_FAULT_FORCED else h_Valid a)"
| "new_validity VALIDCHANGE_MANUAL a =
     (case h_Valid a of VALIDITY_FAULT \<Rightarrow> VALIDITY_INQUIRED | VALIDITY_INHIBITION \<Rightarrow> VALIDITY_MANUAL
      | VALIDITY_FAULT_INHIB \<Rightarrow> VALIDITY_FAULT_FORCED | v \<Rightarrow> v)"
| "new_validity VALIDCHANGE_END_INHIB a = validity_after_end a"
| "new_validity VALIDCHANGE_END_FORCED a = validity_after_end a"
| "new_validity VALIDCHANGE_INHIB_GBL a =
     (if held (h_Valid a) \<and> o_SaState a \<noteq> SS_INHIB \<and> \<not> b_Inhib a \<and> \<not> b_InhibLocal a
          \<and> b_Validacq a \<in> {VALIDITY_VALID, VALIDITY_FAULT}
      then b_Validacq a else h_Valid a)"
| "new_validity VALIDCHANGE_END_INHIB_GBL a =
     (case h_Valid a of VALIDITY_VALID \<Rightarrow> VALIDITY_INHIBITION | VALIDITY_FAULT \<Rightarrow> VALIDITY_FAULT_INHIB
      | VALIDITY_INQUIRED \<Rightarrow> VALIDITY_FAULT_FORCED | v \<Rightarrow> v)"
| "new_validity VALIDCHANGE_FAULT_GBL a = (if h_Valid a = VALIDITY_VALID then VALIDITY_FAULT else h_Valid a)"
| "new_validity VALIDCHANGE_INHIB_SA a =
     (case h_Valid a of VALIDITY_VALID \<Rightarrow> VALIDITY_INHIBITION
      | VALIDITY_FAULT \<Rightarrow> if b_Validacq a = VALIDITY_VALID then VALIDITY_INHIBITION else VALIDITY_FAULT_INHIB
      | VALIDITY_INQUIRED \<Rightarrow> if b_Validacq a = VALIDITY_VALID then VALIDITY_MANUAL else VALIDITY_FAULT_FORCED | v \<Rightarrow> v)"
| "new_validity VALIDCHANGE_END_INHIB_SA a =
     (if held (h_Valid a) \<and> \<not> b_Inhib a \<and> \<not> b_InhibLocal a
      then if b_Validacq a = VALIDITY_VALID \<and> o_SaState a = SS_WORK then VALIDITY_VALID else VALIDITY_FAULT else h_Valid a)"
| "new_validity VALIDCHANGE_FORCED a = h_Valid a"
| "new_validity VALIDCHANGE_NULL a = h_Valid a"

fun new_acquired :: "ValidChange \<Rightarrow> gof_args \<Rightarrow> Validity" where
  "new_acquired VALIDCHANGE_FAULT a =
     (if o_SaState a \<noteq> SS_WORK \<or> h_Valid a \<in> {VALIDITY_VALID, VALIDITY_NO_INSTRUM}
          \<or> h_Valid a \<in> {VALIDITY_FAULT, VALIDITY_INQUIRED} \<and> b_Validacq a \<noteq> VALIDITY_VALID
      then b_Validacq a else VALIDITY_FAULT)"
| "new_acquired VALIDCHANGE_VALID a =
     (if o_SaState a = SS_WORK \<and> (held (h_Valid a)
          \<or> h_Valid a \<in> {VALIDITY_INQUIRED, VALIDITY_NO_INSTRUM, VALIDITY_FAULT} \<and> b_Validacq a = VALIDITY_FAULT)
      then VALIDITY_VALID else b_Validacq a)"
| "new_acquired _ a = b_Validacq a"

fun new_inhiblocal :: "ValidChange \<Rightarrow> gof_args \<Rightarrow> bool" where
  "new_inhiblocal VALIDCHANGE_FORCED a \<longleftrightarrow> b_InhibLocal a
     \<or> h_Valid a \<in> {VALIDITY_VALID, VALIDITY_INHIBITION, VALIDITY_FAULT, VALIDITY_INQUIRED, VALIDITY_FAULT_INHIB}"
| "new_inhiblocal VALIDCHANGE_INHIB a \<longleftrightarrow> b_InhibLocal a \<or> h_Valid a = VALIDITY_INQUIRED"
| "new_inhiblocal VALIDCHANGE_END_INHIB a \<longleftrightarrow> b_InhibLocal a \<and> \<not> held (h_Valid a)"
| "new_inhiblocal VALIDCHANGE_END_FORCED a \<longleftrightarrow> b_InhibLocal a \<and> \<not> held (h_Valid a)"
| "new_inhiblocal _ a \<longleftrightarrow> b_InhibLocal a"

fun tells_subscribers :: "ValidChange \<Rightarrow> gof_args \<Rightarrow> bool" where
  "tells_subscribers VALIDCHANGE_FAULT a \<longleftrightarrow> o_SaState a = SS_WORK"
| "tells_subscribers VALIDCHANGE_VALID a \<longleftrightarrow> o_SaState a = SS_WORK \<and> h_Valid a \<noteq> VALIDITY_GLOBAL_FAULT"
| "tells_subscribers VALIDCHANGE_MANUAL a \<longleftrightarrow> h_Valid a \<notin> {VALIDITY_VALID, VALIDITY_GLOBAL_FAULT}"
| "tells_subscribers VALIDCHANGE_END_INHIB a \<longleftrightarrow> held (h_Valid a)"
| "tells_subscribers VALIDCHANGE_END_FORCED a \<longleftrightarrow> held (h_Valid a)"
| "tells_subscribers VALIDCHANGE_INHIB_GBL a \<longleftrightarrow> held (h_Valid a)"
| "tells_subscribers VALIDCHANGE_FAULT_GBL a \<longleftrightarrow> h_Valid a = VALIDITY_VALID"
| "tells_subscribers VALIDCHANGE_END_INHIB_SA a \<longleftrightarrow> held (h_Valid a) \<and> \<not> b_Inhib a \<and> \<not> b_InhibLocal a"
| "tells_subscribers _ a \<longleftrightarrow> True"

text \<open>The arguments are those of the row.\<close>

definition args_of :: "SystemState \<Rightarrow> xdb_point \<Rightarrow> gof_args" where
  "args_of sa r = \<lparr>g_Valacq = i_VALACQ (part_of (p_ai r)), g_ValManual = i_VALMANUAL (part_of (p_ai r)),
     b_Validacq = p_VALIDITY_ACQ r, h_Valid = p_VALIDITY r, o_SaState = sa, b_InhibLocal = p_INHIBLOCAL r,
     b_Inhib = p_INHIB r\<rparr>"

fun take_value :: "source \<Rightarrow> info_type \<Rightarrow> info_type" where
  "take_value Keep p = p"
| "take_value Acquired p = p\<lparr>i_VAL := i_VALACQ p\<rparr>"
| "take_value Manual p = p\<lparr>i_VAL := i_VALMANUAL p\<rparr>"

text \<open>The row before subscribers are told, and after.\<close>

definition point_with :: "xdb_point \<Rightarrow> info_type option \<Rightarrow> Validity \<Rightarrow> Validity \<Rightarrow> bool \<Rightarrow> xdb_point" where
  "point_with r p v va il = r\<lparr>p_ai := p, p_VALIDITY := v, p_VALIDITY_ACQ := va, p_INHIBLOCAL := il\<rparr>"

definition event_body :: "ValidChange \<Rightarrow> SystemState \<Rightarrow> xdb_point \<Rightarrow> xdb_point" where
  "event_body vc sa r = (let a = args_of sa r in
     point_with r (map_option (take_value (value_source vc a)) (p_ai r)) (new_validity vc a) (new_acquired vc a)
       (new_inhiblocal vc a))"

definition event_row :: "ValidChange \<Rightarrow> SystemState \<Rightarrow> xdb_point \<Rightarrow> xdb_point" where
  "event_row vc sa r = (event_body vc sa r)\<lparr>p_is_modified := p_is_modified r \<or> tells_subscribers vc (args_of sa r)\<rparr>"

text \<open>A row between two others: each of the attributes an event sets is that of one of them.\<close>

definition between :: "xdb_point \<Rightarrow> xdb_point \<Rightarrow> xdb_point \<Rightarrow> bool" where
  "between r r1 r' \<longleftrightarrow> (\<exists>p v va il m. r' = (point_with r p v va il)\<lparr>p_is_modified := m\<rparr>
     \<and> p \<in> {p_ai r, p_ai r1} \<and> v \<in> {p_VALIDITY r, p_VALIDITY r1} \<and> va \<in> {p_VALIDITY_ACQ r, p_VALIDITY_ACQ r1}
     \<and> il \<in> {p_INHIBLOCAL r, p_INHIBLOCAL r1} \<and> m \<in> {p_is_modified r, True})"

section \<open>The handler does what the event means\<close>

lemma wp_switch_c: "wp m (\<lambda>_. Q ()) (\<lambda>_. Q ()) s \<Longrightarrow> wp (switch_c m) Q R s"
  by (auto simp: wp_def switch_c_def split: prod.splits sum.splits)

definition with_point :: "rt_tables \<Rightarrow> int \<Rightarrow> xdb_point \<Rightarrow> rt_tables" where
  "with_point T h r = T\<lparr>points := (points T)(h \<mapsto> r)\<rparr>"

lemma with_point_same: "points T h = Some r \<Longrightarrow> with_point T h r = T"
  by (simp add: with_point_def map_upd_triv)

lemma points_with_point [simp]: "points (with_point T h r) = (points T)(h \<mapsto> r)"
  by (simp add: with_point_def)

text \<open>Each attribute is as before or as the tables say, and as they say when nothing failed.\<close>

definition settled :: "bool \<Rightarrow> info_type \<Rightarrow> gof_args \<Rightarrow> ValidChange \<Rightarrow> info_type \<Rightarrow> Validity \<Rightarrow> Validity \<Rightarrow> bool \<Rightarrow> bool" where
  "settled rel p g vc q v va il \<longleftrightarrow>
     (q = p \<or> q = take_value (value_source vc g) p) \<and> (v = h_Valid g \<or> v = new_validity vc g)
   \<and> (va = b_Validacq g \<or> va = new_acquired vc g) \<and> (il = b_InhibLocal g \<or> il = new_inhiblocal vc g)
   \<and> (rel \<longrightarrow> q = take_value (value_source vc g) p \<and> v = new_validity vc g \<and> va = new_acquired vc g
        \<and> il = new_inhiblocal vc g)"

text \<open>The state of the acquisition system with the id \<open>i\<close>, working when it has no passport.\<close>

definition sa_of :: "rt_tables \<Rightarrow> int \<Rightarrow> SystemState option" where
  "sa_of T i = (case points T i of None \<Rightarrow> None
     | Some s \<Rightarrow> Some (case sa_passports T (p_passport_ref s) of None \<Rightarrow> SS_WORK | Some q \<Rightarrow> sa_state q))"

context rtap_laws
begin

lemma wp_point_put:
  assumes "at (with_point T h r) S n d" and "point_fits p"
    and "\<And>d'. at (with_point T h (apply_point_put p r)) S n d' \<Longrightarrow> Q () d'"
    and "\<And>rc d'. \<not> reliable \<Longrightarrow> rc \<noteq> MCO_S_OK \<Longrightarrow> at (with_point T h r) S n d' \<Longrightarrow> R rc d'"
  shows "wp (c_put (XDBPoint E) p h) Q R d"
  by (rule wp_call [OF pts.put_fits [OF assms(2)] assms(1)]) (use assms(3,4) in \<open>auto simp: with_point_def\<close>)

lemma wp_gput:
  assumes "at (with_point T h r) S n d" and "point_fits p"
    and "\<And>d'. at (with_point T h (apply_point_put p r)) S n d' \<Longrightarrow> Q () (v\<lparr>g_rc := MCO_S_OK\<rparr>, d')"
    and "\<And>rc d'. \<not> reliable \<Longrightarrow> rc \<noteq> MCO_S_OK \<Longrightarrow> at (with_point T h r) S n d' \<Longrightarrow> R rc (v\<lparr>g_rc := rc\<rparr>, d')"
  shows "wp (gput E h p) Q R (v, d)"
  unfolding gput_def
  by (intro vcg wp_point_put [OF assms(1,2)]) (auto simp: assms(3,4))

text \<open>After the switch, on a point with the analog part \<open>p\<close> and the arguments \<open>g\<close>.\<close>

definition body_post :: "rt_tables \<Rightarrow> int \<Rightarrow> rt_tables \<Rightarrow> nat \<Rightarrow> xdb_point \<Rightarrow> info_type \<Rightarrow> gof_args \<Rightarrow> ValidChange \<Rightarrow> gof_vars \<times> 'd \<Rightarrow> bool" where
  "body_post T h S n r p g vc s \<longleftrightarrow>
     (\<exists>q v va il. at (with_point T h (point_with r (Some q) v va il)) S n (snd s) \<and> settled reliable p g vc q v va il)
   \<and> (reliable \<longrightarrow> (g_rc (fst s) \<noteq> MCO_S_OK \<and> \<not> point_was_modified (fst s) \<longleftrightarrow> \<not> tells_subscribers vc g))"

lemma body_postI:
  assumes "at (with_point T h (point_with r (Some q) v va il)) S n d" and "settled reliable p g vc q v va il"
    and "reliable \<Longrightarrow> g_rc x \<noteq> MCO_S_OK \<and> \<not> point_was_modified x \<longleftrightarrow> \<not> tells_subscribers vc g"
  shows "body_post T h S n r p g vc (x, d)"
  using assms unfolding body_post_def by auto

lemma put_point_with:
  "apply_point_put (PutVALIDITY x) (point_with r q v va il) = point_with r q x va il"
  "apply_point_put (PutVALIDITY_ACQ x) (point_with r q v va il) = point_with r q v x il"
  "apply_point_put (PutINHIBLOCAL b) (point_with r q v va il) = point_with r q v va b"
  "apply_point_put (PutAI_VAL y) (point_with r (Some p) v va il) = point_with r (Some (p\<lparr>i_VAL := y\<rparr>)) v va il"
  by (simp_all add: point_with_def)

text \<open>The four writes an event makes.\<close>

lemmas gput_rules = wp_gput [where r = "point_with r q v va il" and p = "PutVALIDITY x" for r q v va il x, unfolded put_point_with]
  wp_gput [where r = "point_with r q v va il" and p = "PutVALIDITY_ACQ x" for r q v va il x, unfolded put_point_with]
  wp_gput [where r = "point_with r q v va il" and p = "PutINHIBLOCAL x" for r q v va il x, unfolded put_point_with]
  wp_gput [where r = "point_with r (Some p) v va il" and p = "PutAI_VAL x" for r p v va il x, unfolded put_point_with]

lemma wp_upd_gof: "Q () (f v, d) \<Longrightarrow> wp (upd (\<lambda>(v, d). (f v, d))) Q R (v, d)"
  by (simp add: wp_upd)

lemmas gof_defs = gof_fault_def gof_take_over_def gof_valid_def gof_forced_def gof_inhib_def gof_manual_def gof_end_def
  gof_inhib_gbl_def gof_end_inhib_gbl_def gof_null_def gof_fault_gbl_def gof_inhib_sa_def gof_end_inhib_sa_def modified_now_def

lemmas gof_steps = wp_switch_c wp_upd_gof wp_if wp_sq wp_ret

definition local_event :: "ValidChange \<Rightarrow> bool" where
  "local_event vc \<longleftrightarrow> vc \<in> {VALIDCHANGE_FAULT, VALIDCHANGE_VALID, VALIDCHANGE_FORCED, VALIDCHANGE_INHIB, VALIDCHANGE_MANUAL,
     VALIDCHANGE_NULL, VALIDCHANGE_FAULT_GBL}"

lemma wp_gof_local:
  assumes "local_event vc"
    and "at (with_point T h (point_with r (Some p) (h_Valid g) (b_Validacq g) (b_InhibLocal g))) S n d"
    and "i_VALACQ p = g_Valacq g" and "i_VALMANUAL p = g_ValManual g"
  shows "wp (gof_case E h g vc) (\<lambda>_. body_post T h S n r p g vc) (\<lambda>_. body_post T h S n r p g vc)
     (\<lparr>g_rc = MCO_S_NOTFOUND, point_was_modified = False\<rparr>, d)"
  by (insert assms, cases vc; (simp add: local_event_def; fail)?; cases "h_Valid g";
     simp add: gof_defs held_def cong: if_cong split del: if_split;
     (rule gof_steps | (rule gput_rules, assumption, simp) | (rule body_postI, assumption, (simp add: held_def settled_def; fail)+))+)

lemma wp_gof_global:
  assumes "\<not> local_event vc"
    and "at (with_point T h (point_with r (Some p) (h_Valid g) (b_Validacq g) (b_InhibLocal g))) S n d"
    and "i_VALACQ p = g_Valacq g" and "i_VALMANUAL p = g_ValManual g"
  shows "wp (gof_case E h g vc) (\<lambda>_. body_post T h S n r p g vc) (\<lambda>_. body_post T h S n r p g vc)
     (\<lparr>g_rc = MCO_S_NOTFOUND, point_was_modified = False\<rparr>, d)"
  by (insert assms, cases vc; (simp add: local_event_def; fail)?; cases "h_Valid g";
     simp add: gof_defs held_def cong: if_cong split del: if_split;
     (rule gof_steps | (rule gput_rules, assumption, simp)
      | (rule body_postI, assumption,
         (simp add: held_def validity_after_end_def settled_def; fail | auto simp: held_def validity_after_end_def settled_def; fail)+))+)

lemma wp_gof_case:
  assumes "at (with_point T h (point_with r (Some p) (h_Valid g) (b_Validacq g) (b_InhibLocal g))) S n d"
    and "i_VALACQ p = g_Valacq g" and "i_VALMANUAL p = g_ValManual g"
  shows "wp (gof_case E h g vc) (\<lambda>_. body_post T h S n r p g vc) (\<lambda>_. body_post T h S n r p g vc)
     (\<lparr>g_rc = MCO_S_NOTFOUND, point_was_modified = False\<rparr>, d)"
  using wp_gof_local wp_gof_global assms by blast

lemma wp_gof_finish:
  assumes "body_post T h S n r p g vc (x, d)"
    and Q: "\<And>q v va il m x' d'. at (with_point T h ((point_with r (Some q) v va il)\<lparr>p_is_modified := m\<rparr>)) S n d'
      \<Longrightarrow> settled reliable p g vc q v va il \<Longrightarrow> m = p_is_modified r \<or> m
      \<Longrightarrow> (reliable \<Longrightarrow> m = (p_is_modified r \<or> tells_subscribers vc g)) \<Longrightarrow> Q () (x', d')"
    and R: "\<And>rc q v va il x' d'. \<not> reliable \<Longrightarrow> rc \<noteq> MCO_S_OK
      \<Longrightarrow> at (with_point T h ((point_with r (Some q) v va il)\<lparr>p_is_modified := p_is_modified r\<rparr>)) S n d' \<Longrightarrow> settled reliable p g vc q v va il
      \<Longrightarrow> R rc (x', d')"
  shows "wp (gof_finish E h) Q R (x, d)"
proof -
  from assms(1) obtain q v va il where at: "at (with_point T h (point_with r (Some q) v va il)) S n d"
    and vals: "settled reliable p g vc q v va il"
    and rel: "reliable \<longrightarrow> (g_rc x \<noteq> MCO_S_OK \<and> \<not> point_was_modified x \<longleftrightarrow> \<not> tells_subscribers vc g)"
    unfolding body_post_def by auto
  have at': "at (with_point T h ((point_with r (Some q) v va il)\<lparr>p_is_modified := p_is_modified r\<rparr>)) S n d'"
    if "at (with_point T h (point_with r (Some q) v va il)) S n d'" for d'
    using that by (simp add: point_with_def)
  show ?thesis
    unfolding gof_finish_def
  proof (intro vcg, goal_cases)
    case 1
    then show ?case using Q [OF at' [OF at] vals] rel by simp
  next
    case 2
    show ?case
    proof (rule wp_point_put [OF at], simp, goal_cases)
      case (1 d')
      show ?case by (rule Q [OF 1 [simplified] vals]) (use 2 rel in auto)
    next
      case (2 rc d')
      then show ?case using R [OF _ _ at' vals] by simp
    qed
  qed
qed

text \<open>The whole analog handler on a point whose row gives its arguments.\<close>

lemma wp_GOFVALTI:
  assumes "at T S n d" and "points T h = Some r" and "p_ai r = Some p" and Q: "\<And>r' d'. at (with_point T h r') S n d'
      \<Longrightarrow> between r (event_row vc sa r) r' \<Longrightarrow> (reliable \<Longrightarrow> r' = event_row vc sa r) \<Longrightarrow> Q () d'"
    and R: "\<And>rc r' d'. \<not> reliable \<Longrightarrow> rc \<noteq> MCO_S_OK \<Longrightarrow> at (with_point T h r') S n d' \<Longrightarrow> between r (event_row vc sa r) r' \<Longrightarrow> R rc d'"
  shows "wp (GOFVALTI E h vc (args_of sa r)) Q R d"
proof -
  let ?g = "args_of sa r"
  have "at (with_point T h (point_with r (Some p) (h_Valid ?g) (b_Validacq ?g) (b_InhibLocal ?g))) S n d"
    using assms(1-3) by (simp add: with_point_def point_with_def args_of_def map_upd_triv)
  note meets = wp_gof_case [OF this, of vc]
  have arg: "i_VALACQ p = g_Valacq ?g" "i_VALMANUAL p = g_ValManual ?g"
    using assms(3) by (simp_all add: args_of_def part_of_def)
  have row: "event_row vc sa r = (point_with r (Some (take_value (value_source vc ?g) p)) (new_validity vc ?g)
      (new_acquired vc ?g) (new_inhiblocal vc ?g))\<lparr>p_is_modified := p_is_modified r \<or> tells_subscribers vc ?g\<rparr>"
    using assms(3) by (simp add: event_row_def event_body_def Let_def)
  have btw: "between r (event_row vc sa r) ((point_with r (Some q) v va il)\<lparr>p_is_modified := m\<rparr>)"
    if "settled reliable p ?g vc q v va il" "m = p_is_modified r \<or> m" for q v va il m
    unfolding row between_def
    by (intro exI conjI, rule refl) (use that assms(3) in \<open>auto simp: point_with_def args_of_def settled_def\<close>)
  have eq: "(point_with r (Some q) v va il)\<lparr>p_is_modified := m\<rparr> = event_row vc sa r"
    if "settled reliable p ?g vc q v va il" "m = (p_is_modified r \<or> tells_subscribers vc ?g)" reliable for q v va il m
    using that unfolding row settled_def by simp
  show ?thesis
    unfolding GOFVALTI_def
  proof (intro vcg wp_switch_c wp_mono [OF meets [OF arg]], goal_cases)
    case (1 u s)
    then show ?case
      by (cases s) (auto intro!: wp_gof_finish Q R vcg btw eq)
  next
    case (2 u s)
    then show ?case
      by (cases s) (auto intro!: wp_gof_finish Q R vcg btw eq)
  qed
qed

lemma wp_read_sa_state:
  assumes "at T S n d" and "sa_of T i = Some sa" and Q: "\<And>d'. at T S n d' \<Longrightarrow> Q sa d'"
    and R: "\<And>rc d'. \<not> reliable \<Longrightarrow> rc \<noteq> MCO_S_OK \<Longrightarrow> at T S n d' \<Longrightarrow> R rc d'"
  shows "wp (read_sa_state E i) Q R d"
proof -
  from assms(2) obtain s where s: "points T i = Some s"
    and sa: "sa = (case sa_passports T (p_passport_ref s) of None \<Rightarrow> SS_WORK | Some q \<Rightarrow> sa_state q)"
    by (auto simp: sa_of_def split: option.splits)
  show ?thesis
    unfolding read_sa_state_def
    by (insert assms(1), (rule vcg | (rule call_rules, assumption)
        | (use R Q in \<open>auto simp: s sa dest: option.inject [THEN iffD1]\<close>; fail))+)
qed

text \<open>A point without a row for its acquisition system.\<close>

lemma wp_read_sa_state_none:
  assumes "at T S n d" and "sa_of T i = None" and R: "\<And>rc d'. rc \<noteq> MCO_S_OK \<Longrightarrow> (reliable \<Longrightarrow> rc = MCO_S_NOTFOUND)
      \<Longrightarrow> at T S n d' \<Longrightarrow> R rc d'"
  shows "wp (read_sa_state E i) Q R d"
proof -
  from assms(2) have "points T i = None" by (simp add: sa_of_def split: option.splits)
  then show ?thesis
    unfolding read_sa_state_def
    by (intro wp_bnd wp_call [OF pts.find assms(1)]) (auto intro: R)
qed

lemma wp_get_point:
  assumes "at T S n d" and "points T h = Some r" and "\<And>d'. at T S n d' \<Longrightarrow> Q r d'"
    and "\<And>rc d'. \<not> reliable \<Longrightarrow> rc \<noteq> MCO_S_OK \<Longrightarrow> at T S n d' \<Longrightarrow> R rc d'"
  shows "wp (c_get (XDBPoint E) h) Q R d"
  by (rule wp_call [OF pts.get assms(1)]) (use assms(2-4) in auto)

lemma wp_access_point:
  assumes "at T S n d" and "points T h = Some r" and "\<And>d'. at T S n d' \<Longrightarrow> Q () d'"
    and "\<And>rc d'. \<not> reliable \<Longrightarrow> rc \<noteq> MCO_S_OK \<Longrightarrow> at T S n d' \<Longrightarrow> R rc d'"
  shows "wp (c_access (XDBPoint E) h) Q R d"
  by (rule wp_call [OF pts.access assms(1)]) (use assms(2-4) in auto)

lemma wp_on_update_analog:
  assumes "at T S n d" and "points T h = Some r" and "p_OBJCLASS r \<in> {TM, TR, ICM}" and "p_ai r = Some p"
    and "sa_of T (p_SA_ref r) = Some sa"
    and Q: "\<And>r' d'. at (with_point T h r') S n d' \<Longrightarrow> between r (event_row (p_VALIDCHANGE r) sa r) r'
      \<Longrightarrow> (reliable \<Longrightarrow> r' = event_row (p_VALIDCHANGE r) sa r) \<Longrightarrow> Q () d'"
    and R: "\<And>rc r' d'. \<not> reliable \<Longrightarrow> rc \<noteq> MCO_S_OK \<Longrightarrow> at (with_point T h r') S n d'
      \<Longrightarrow> between r (event_row (p_VALIDCHANGE r) sa r) r' \<Longrightarrow> R rc d'"
  shows "wp (on_update_VALIDCHANGE E h) Q R d"
proof -
  have R': "R rc d'" if "\<not> reliable" "rc \<noteq> MCO_S_OK" "at T S n d'" for rc d'
  proof (rule R [OF that(1,2)])
    show "at (with_point T h r) S n d'" using that(3) assms(2) by (simp add: with_point_same)
    show "between r (event_row (p_VALIDCHANGE r) sa r) r"
      unfolding between_def
      by (intro exI [of _ "p_ai r"] exI [of _ "p_VALIDITY r"] exI [of _ "p_VALIDITY_ACQ r"] exI [of _ "p_INHIBLOCAL r"]
          exI [of _ "p_is_modified r"]) (simp add: point_with_def)
  qed
  have args: "\<lparr>g_Valacq = i_VALACQ (part_of (p_ai r)), g_ValManual = i_VALMANUAL (part_of (p_ai r)),
      b_Validacq = p_VALIDITY_ACQ r, h_Valid = p_VALIDITY r, o_SaState = sa, b_InhibLocal = p_INHIBLOCAL r,
      b_Inhib = p_INHIB r\<rparr> = args_of sa r"
    by (simp add: args_of_def)
  note get = wp_get_point [OF _ assms(2) _ R'] wp_access_point [OF _ assms(2) _ R']
  show ?thesis
    unfolding on_update_VALIDCHANGE_def on_analog_def
    using assms(1)
    by (intro wp_bnd wp_sq get wp_read_sa_state [OF _ assms(5) _ R'] wp_if)
      ((assumption | (erule notE, rule assms(3)) | (rule wp_call [OF ai_part], assumption) | intro wp_bnd get
        | (simp only: args, rule wp_GOFVALTI [OF _ assms(2,4)], assumption, rule Q, assumption+, simp, rule R, assumption+)
        | (use R' assms(2,4) in auto; fail))+)
qed

text \<open>What the handler does not process: it only reads.\<close>

lemma wp_on_update_refused:
  assumes "at T S n d" and "points T h = Some r" and "p_OBJCLASS r \<notin> {TM, TR, ICM} \<or> sa_of T (p_SA_ref r) = None"
  shows "wp (on_update_VALIDCHANGE E h) (\<lambda>_ _. False) (\<lambda>rc d'. rc \<noteq> MCO_S_OK \<and> at T S n d') d"
proof -
  note get = wp_get_point [OF _ assms(2)] wp_access_point [OF _ assms(2)]
  show ?thesis
  proof (cases "sa_of T (p_SA_ref r)")
    case None
    show ?thesis
      unfolding on_update_VALIDCHANGE_def
      using assms(1)
      by (intro wp_bnd get wp_read_sa_state_none [OF _ None]) ((assumption | simp)+)
  next
    case (Some sa)
    then have cls: "p_OBJCLASS r \<notin> {TM, TR, ICM}" using assms(3) by simp
    show ?thesis
      unfolding on_update_VALIDCHANGE_def on_discrete_def GOFVALTSC_def GOFVALAL_def
      using assms(1)
      by (intro wp_bnd wp_sq get wp_read_sa_state [OF _ Some] wp_if)
        ((assumption | (erule notE [OF cls]) | (rule wp_call [OF di_part], assumption) | intro wp_bnd get wp_raise | simp)+)
  qed
qed

end

end
