(* ===== verification/RtapGroupLaws.thy ===== *)
theory RtapGroupLaws
  imports RtapGroups RtapEvents
begin

text \<open>
  What the operations on subscription groups do to the tables, on an engine on which nothing fails:
  rules for walking cursors, the memberships a query visits, and the contract of each operation.
\<close>

section \<open>Calls that succeed\<close>

lemma wp_loop_c:
  "wp m Q (\<lambda>e s. case e of Brk _ \<Rightarrow> Q () s | Crash f \<Rightarrow> R (Crash f) s) s \<Longrightarrow> wp (loop_c m) Q R s"
  by (auto simp: loop_c_def wp_def rc_of_def bnd_def ret_def split: prod.splits sum.splits exc.splits)

text \<open>All memberships of changed points.\<close>

definition memberships :: "rt_tables \<Rightarrow> (int \<times> int) set" where
  "memberships T = {(p, i). marked T True p \<and> links_point T p i}"

lemma memberships_none: "sbs_items T = Map.empty \<Longrightarrow> memberships T = {}"
  by (auto simp: memberships_def links_point_def)

context rtap_laws
begin

lemma wp_sure:
  assumes "obeys tabs saved depth c P F" and "at T S n d" and "\<And>rc. \<not> F T rc"
    and "\<And>x T' d'. P T x T' \<Longrightarrow> at T' S n d' \<Longrightarrow> Q x (y, d')"
  shows "wp (db c) Q R (y, d)"
  by (rule wp_db, rule wp_call [OF assms(1,2)]) (use assms(3,4) in auto)

lemma wp_try:
  assumes "obeys tabs saved depth c P F" and "at T S n d"
    and "\<And>x T' d'. P T x T' \<Longrightarrow> at T' S n d' \<Longrightarrow> Q (Inr x) (y, d')"
    and "\<And>rc d'. rc \<noteq> MCO_S_OK \<Longrightarrow> F T rc \<Longrightarrow> at T S n d' \<Longrightarrow> Q (Inl rc) (y, d')"
  shows "wp (db_try c) Q R (y, d)"
  by (rule wp_db_try, rule wp_call [OF assms(1,2)]) (use assms(3,4) in auto)

lemma wp_csr_round:
  assumes "at T S n d" and reliable and "rest = [] \<Longrightarrow> Q () (y, d)"
    and "\<And>d'. rest \<noteq> [] \<Longrightarrow> at T S n d' \<Longrightarrow> wp again Q R (y, d')"
  shows "wp (csr_round E rest again) Q R (y, d)"
  unfolding csr_round_def
  by (intro wp_if wp_sq wp_ret wp_sure [OF csr_next assms(1)]) (use assms(2-4) in auto)

section \<open>Walking memberships\<close>

text \<open>
  \<open>X V\<close> and \<open>D V\<close> are the object and the tables after the memberships \<open>V\<close> were visited, in a walk
  over the tables \<open>T0\<close>.
\<close>

definition reached :: "((int \<times> int) set \<Rightarrow> 'o) \<Rightarrow> ((int \<times> int) set \<Rightarrow> rt_tables) \<Rightarrow> rt_tables \<Rightarrow> nat \<Rightarrow> (int \<times> int) set \<Rightarrow> 'o \<times> 'd \<Rightarrow> bool" where
  "reached X D S n V s \<longleftrightarrow> fst s = X V \<and> at (D V) S n (snd s)"

definition visits ::
  "rt_tables \<Rightarrow> ((int \<times> int) set \<Rightarrow> 'o) \<Rightarrow> ((int \<times> int) set \<Rightarrow> rt_tables) \<Rightarrow> rt_tables \<Rightarrow> nat
   \<Rightarrow> (int \<Rightarrow> int \<Rightarrow> ('o, 'd, unit) step) \<Rightarrow> bool" where
  "visits T0 X D S n visit \<longleftrightarrow>
     (\<forall>V. sbs_items (D V) = sbs_items T0 \<and> dom (points (D V)) = dom (points T0)
        \<and> (\<forall>p. p \<notin> fst ` V \<longrightarrow> marked (D V) True p = marked T0 True p))
   \<and> (\<forall>V p i d. marked T0 True p \<longrightarrow> links_point T0 p i \<longrightarrow> (p, i) \<notin> V \<longrightarrow> at (D V) S n d
        \<longrightarrow> wp (visit p i) (\<lambda>_. reached X D S n (insert (p, i) V)) (\<lambda>_ _. False) (X V, d))"

lemma visits_same:
  assumes "visits T0 X D S n visit"
  shows "sbs_items (D V) = sbs_items T0" and "links_point (D V) = links_point T0" and "dom (points (D V)) = dom (points T0)"
proof -
  have all: "\<forall>V. sbs_items (D V) = sbs_items T0 \<and> dom (points (D V)) = dom (points T0)"
    using assms unfolding visits_def by blast
  then show "sbs_items (D V) = sbs_items T0" by blast
  then show "links_point (D V) = links_point T0" by (intro ext) (simp add: links_point_def)
  show "dom (points (D V)) = dom (points T0)" using all by blast
qed

lemma visits_flag:
  "visits T0 X D S n visit \<Longrightarrow> p \<notin> fst ` V \<Longrightarrow> marked (D V) True p = marked T0 True p"
  unfolding visits_def by blast

lemma visits_step:
  "visits T0 X D S n visit \<Longrightarrow> marked T0 True p \<Longrightarrow> links_point T0 p i \<Longrightarrow> (p, i) \<notin> V \<Longrightarrow> at (D V) S n d
   \<Longrightarrow> wp (visit p i) (\<lambda>_. reached X D S n (insert (p, i) V)) (\<lambda>_ _. False) (X V, d)"
  by (drule iffD1 [OF visits_def], drule conjunct2) blast

lemma wp_walk_items:
  assumes v: "visits T0 X D S n visit" and "reliable" and fl: "marked T0 True p"
    and "at (D V) S n d" and "set hs \<subseteq> dom (sbs_items T0)" and "distinct hs" and "V \<inter> {p} \<times> set hs = {}"
  shows "wp (walk_items E visit p hs) (\<lambda>_. reached X D S n (V \<union> {p} \<times> {h \<in> set hs. links_point T0 p h})) (\<lambda>_ _. False) (X V, d)"
  using assms(4-7)
proof (induction hs arbitrary: V d)
  case Nil
  then show ?case by (simp add: wp_ret reached_def)
next
  case (Cons h hs)
  let ?V = "if links_point T0 p h then insert (p, h) V else V"
  let ?post = "\<lambda>_. reached X D S n (V \<union> {p} \<times> {h' \<in> set (h # hs). links_point T0 p h'})"
  have V: "V \<union> {p} \<times> {h' \<in> set (h # hs). links_point T0 p h'} = ?V \<union> {p} \<times> {h' \<in> set hs. links_point T0 p h'}"
    by (cases "links_point T0 p h") auto
  have rest: "wp (csr_round E hs (walk_items E visit p hs)) ?post (\<lambda>_ _. False) (X ?V, d')" if "at (D ?V) S n d'" for d'
    unfolding V
  proof (rule wp_csr_round [OF that assms(2)], goal_cases)
    case (2 d'')
    show ?case by (rule Cons.IH [OF 2(2)]) (use Cons.prems(2-4) in auto)
  qed (use that in \<open>simp add: reached_def\<close>)
  have visit: "wp (bnd (db (csr_from E h)) (\<lambda>item. visit p item)) (\<lambda>_. reached X D S n ?V) (\<lambda>_ _. False) (X V, d')"
    if "at (D V) S n d'" and "links_point T0 p h" for d'
    by (intro wp_bnd, rule wp_sure [OF csr_from that(1)])
      (use visits_step [OF v fl that(2)] Cons.prems(4) assms(2) that(2) in auto)
  show ?case
    unfolding walk_items.simps
  proof (intro wp_bnd wp_sq, rule wp_sure [OF tag_id_compare Cons.prems(1)], goal_cases)
    case (2 c T' d')
    note out = 2
    show ?case
    proof (intro wp_sq wp_if, goal_cases)
      case 1
      then have l: "links_point T0 p h" using out by (simp add: visits_same [OF v])
      show ?case
      proof (rule wp_mono [OF visit [OF _ l]])
        show "at (D V) S n d'" using out by simp
        show "wp (csr_round E hs (walk_items E visit p hs)) ?post (\<lambda>_ _. False) s'" if "reached X D S n ?V s'" for x s'
          using rest [of "snd s'"] that by (cases s') (simp add: reached_def)
      qed simp
    next
      case 2
      then have "\<not> links_point T0 p h" using out by (simp add: visits_same [OF v])
      then show ?case using out rest by (auto intro!: wp_ret)
    qed
  qed (use Cons.prems(2) assms(2) visits_same [OF v] in auto)
qed

text \<open>All memberships of one changed point.\<close>

lemma wp_walk_groups:
  assumes v: "visits T0 X D S n visit" and "reliable" and fl: "marked T0 True p"
    and "at (D V) S n d" and "V \<inter> {p} \<times> UNIV = {}"
  shows "wp (walk_groups E visit p) (\<lambda>_. reached X D S n (V \<union> {p} \<times> Collect (links_point T0 p)))
     (\<lambda>e s. (\<exists>rc. e = Brk rc) \<and> sbs_items T0 = Map.empty \<and> reached X D S n V s) (X V, d)"
  unfolding walk_groups_def
proof (intro wp_sq wp_bnd wp_db wp_call [OF tag_id_cursor assms(4)], goal_cases)
  case (1 u T1 d1)
  then have at: "at (D V) S n d1" by simp
  show ?case
  proof (intro wp_bnd wp_sq wp_try [OF tag_id_search at], goal_cases)
    case (1 hs T2 d2)
    then have hs: "at (D V) S n d2" "set hs \<subseteq> dom (sbs_items T0)" "distinct hs" "Collect (links_point T0 p) \<subseteq> set hs"
      by (simp_all add: visits_same [OF v])
    then have all: "{h \<in> set hs. links_point T0 p h} = Collect (links_point T0 p)" by auto
    show ?case
      by (simp, intro wp_sq wp_sure [OF csr_first hs(1)] wp_loop_c wp_mono [OF wp_walk_items [OF v assms(2) fl _ hs(2,3)]])
        (use assms(2,5) all in \<open>auto simp: reached_def intro!: wp_sure [OF csr_close]\<close>)
  next
    case (2 rc d2)
    then have "Collect (links_point T0 p) = {}" "at (D V) S n d2" "rc = MCO_S_NOTFOUND"
      using assms(2) by (simp_all add: visits_same [OF v])
    then show ?case
      using assms(2) unfolding reached_def
      by (simp, intro wp_ret wp_sure [OF csr_close]) (auto simp: \<open>Collect (links_point T0 p) = {}\<close>)
  qed
next
  case (2 rc d1)
  then show ?case using assms(2) by (auto simp: visits_same [OF v] reached_def)
qed

lemma wp_walk_points:
  assumes v: "visits T0 X D S n visit" and "reliable"
    and "at (D V) S n d" and "set hs \<subseteq> dom (points T0)" and "distinct hs" and "V \<inter> set hs \<times> UNIV = {}"
  shows "wp (walk_points E visit hs) (\<lambda>_. reached X D S n (V \<union> {(p, i) \<in> memberships T0. p \<in> set hs}))
     (\<lambda>e s. (\<exists>rc. e = Brk rc) \<and> sbs_items T0 = Map.empty \<and> reached X D S n V s) (X V, d)"
  using assms(3-6)
proof (induction hs arbitrary: V d)
  case Nil
  then show ?case by (simp add: wp_ret reached_def)
next
  case (Cons h hs)
  let ?V = "V \<union> (if marked T0 True h then {h} \<times> Collect (links_point T0 h) else {})"
  let ?post = "\<lambda>_. reached X D S n (V \<union> {(p, i) \<in> memberships T0. p \<in> set (h # hs)})"
  let ?exc = "\<lambda>e s. (\<exists>rc. e = Brk rc) \<and> sbs_items T0 = Map.empty \<and> reached X D S n V s"
  have V: "V \<union> {(p, i) \<in> memberships T0. p \<in> set (h # hs)} = ?V \<union> {(p, i) \<in> memberships T0. p \<in> set hs}"
    by (auto simp: memberships_def)
  have same: "?V = V" if "sbs_items T0 = Map.empty"
    using that by (auto simp: links_point_def)
  have rest: "wp (csr_round E hs (walk_points E visit hs)) ?post ?exc (X ?V, d')" if "at (D ?V) S n d'" for d'
    unfolding V
  proof (rule wp_csr_round [OF that assms(2)], goal_cases)
    case (2 d'')
    show ?case
      by (rule wp_mono [OF Cons.IH [OF 2(2)]]) (use Cons.prems(2-4) same in \<open>auto split: if_splits\<close>)
  qed (use that in \<open>simp add: reached_def\<close>)
  have h: "h \<in> dom (points T0)" "h \<notin> fst ` V" using Cons.prems(2,4) by force+
  have visit: "wp (bnd (db (csr_from E h)) (\<lambda>point. bnd (db (c_autoid_get (XDBPoint E) point)) (\<lambda>aid. walk_groups E visit aid)))
      (\<lambda>_. reached X D S n ?V) ?exc (X V, d')" if at: "at (D V) S n d'" and fl: "marked T0 True h" for d'
  proof (intro wp_bnd wp_sure [OF csr_from at], goal_cases)
    case (2 x T1 d1)
    then have x: "x = h" "at (D V) S n d1" by simp_all
    show ?case
      unfolding x(1)
    proof (rule wp_sure [OF pts.autoid_get x(2)], goal_cases)
      case (2 y T2 d2)
      show ?case
        by (insert 2, simp add: fl, rule wp_mono [OF wp_walk_groups [OF v assms(2) fl]]) (use Cons.prems(4) in auto)
    qed (use h(1) assms(2) visits_same(3) [OF v, of V] in auto)
  qed (use assms(2) in simp)
  show ?case
    unfolding walk_points.simps
  proof (intro wp_bnd wp_sq, rule wp_sure [OF modified_compare Cons.prems(1)], goal_cases)
    case (2 c T' d')
    note out = 2
    have c: "c = 0 \<longleftrightarrow> marked T0 True h" "at (D V) S n d'"
      using out visits_flag [OF v h(2)] by auto
    show ?case
    proof (intro wp_sq wp_if, goal_cases)
      case 1
      then have fl: "marked T0 True h" using c by simp
      show ?case
      proof (rule wp_mono [OF visit [OF c(2) fl]])
        show "wp (csr_round E hs (walk_points E visit hs)) ?post ?exc s'" if "reached X D S n ?V s'" for x s'
          using rest [of "snd s'"] that by (cases s') (simp add: reached_def)
      qed simp
    next
      case 2
      then have "\<not> marked T0 True h" using c by simp
      then show ?case using c rest by (auto intro!: wp_ret)
    qed
  qed (use h assms(2) visits_same(3) [OF v, of V] in auto)
qed

lemma wp_walk_modified:
  assumes v: "visits T0 X D S n visit" and "reliable" and "at (D {}) S n d"
  shows "wp (walk_modified E visit) (\<lambda>_. reached X D S n (memberships T0)) (\<lambda>_ _. False) (X {}, d)"
proof -
  have empty: "memberships T0 = {}" if "Collect (marked (D {}) True) = {}"
    using that visits_flag [OF v, of _ "{}"] by (auto simp: memberships_def)
  show ?thesis
    unfolding walk_modified_def
  proof (intro wp_bnd wp_try [OF modified_cursor assms(3)], goal_cases)
    case (1 x T1 d1)
    then have at: "at (D {}) S n d1" by simp
    show ?case
    proof (simp, intro wp_bnd wp_try [OF modified_search at], goal_cases)
      case (1 hs T2 d2)
      then have hs: "at (D {}) S n d2" "set hs \<subseteq> dom (points T0)" "distinct hs" "Collect (marked (D {}) True) \<subseteq> set hs"
        by (simp_all add: visits_same [OF v])
      then have all: "{(p, i) \<in> memberships T0. p \<in> set hs} = memberships T0"
        using visits_flag [OF v, of _ "{}"] by (auto simp: memberships_def)
      have close: "wp (db (csr_close E)) (\<lambda>_. reached X D S n (memberships T0)) (\<lambda>_ _. False) s"
        if "reached X D S n (memberships T0) s" for s
        using that assms(2) by (cases s) (auto simp: reached_def intro!: wp_sure [OF csr_close])
      show ?case
      proof (simp, intro wp_sq wp_sure [OF csr_first hs(1)] wp_loop_c wp_mono [OF wp_walk_points [OF v assms(2) _ hs(2,3)]], goal_cases)
        case (4 x T' d' y t)
        then show ?case using all by (intro close) simp
      next
        case (5 x T' d' e t)
        then obtain rc where "e = Brk rc" by blast
        moreover from 5 have "sbs_items T0 = Map.empty" and "reached X D S n {} t" by blast+
        then have "reached X D S n (memberships T0) t" by (simp add: memberships_none)
        ultimately show ?case by (simp only: exc.simps) (rule close)
      qed (use assms(2) in auto)
    next
      case (2 rc d2)
      then have "at (D {}) S n d2" "rc = MCO_S_NOTFOUND" "Collect (marked (D {}) True) = {}"
        using assms(2) by simp_all
      then show ?case
        using assms(2) empty unfolding reached_def
        by (simp, intro wp_sq wp_ret wp_sure [OF csr_close]) auto
    qed
  next
    case (2 rc d1)
    then have "at (D {}) S n d1" "points (D {}) = Map.empty" using assms(2) by simp_all
    then show ?case using empty by (auto simp: marked_def reached_def intro!: wp_ret)
  qed
qed

end

section \<open>Transactions that succeed\<close>

lemma wp_rt_txn:
  assumes "wp (rtap_start E mode) (\<lambda>_ d. wp steps (\<lambda>_. Q MCO_S_OK)
        (\<lambda>e s'. case e of Crash f \<Rightarrow> R f s'
            | Brk rc \<Rightarrow> if rc = MCO_S_OK then Q MCO_S_OK s' else Q rc (fst s', snd (rtap_rollback E True (snd s')))) (fst s, d))
     (\<lambda>rc d. Q rc (fst s, snd (rtap_rollback E False d))) (snd s)"
  shows "wp (rt_txn E mode steps) Q R s"
  using assms
  by (auto simp: wp_def rt_txn_def db_try_def [of "rtap_start _ _"] split: prod.splits sum.splits exc.splits)

context rtap_laws
begin

lemma wp_rt_start:
  assumes "at T S n d" and reliable and "\<And>d'. at T S (Suc n) d' \<Longrightarrow> Q () d'"
  shows "wp (rtap_start E m) Q R d"
  by (rule wp_mono [OF start]) (use assms in \<open>auto simp: view_def\<close>)

lemma wp_rt_commit:
  assumes "at T S 1 d" and reliable and "rt_keys_ok T" and "\<And>d'. at T T 0 d' \<Longrightarrow> Q () (y, d')"
  shows "wp (db (rtap_commit E)) Q R (y, d)"
  by (rule wp_db, rule wp_mono [OF commit]) (use assms in \<open>auto simp: view_def\<close>)

text \<open>One transaction on its own: the steps end in \<open>T'\<close> before the commit.\<close>

lemma wp_rt_alone:
  assumes "at T T 0 d" and reliable
    and "\<And>d1. at T T 1 d1 \<Longrightarrow> wp steps (\<lambda>_. Q MCO_S_OK)
       (\<lambda>e s'. case e of Crash f \<Rightarrow> R f s'
            | Brk rc \<Rightarrow> if rc = MCO_S_OK then Q MCO_S_OK s' else Q rc (fst s', snd (rtap_rollback E True (snd s')))) (y, d1)"
  shows "wp (rt_txn E mode steps) Q R (y, d)"
  by (rule wp_rt_txn, simp only: fst_conv snd_conv, rule wp_rt_start [OF assms(1,2)], rule assms(3), simp)

lemma wp_rt_query:
  assumes "at T T 0 d" and reliable and "rt_keys_ok T'"
    and steps: "\<And>d1. at T T 1 d1 \<Longrightarrow> wp steps (\<lambda>_ s. fst s = y' \<and> at T' T 1 (snd s)) (\<lambda>_ _. False) (y, d1)"
    and Q: "\<And>d'. at T' T' 0 d' \<Longrightarrow> Q MCO_S_OK (y', d')"
  shows "wp (rt_query E mode steps) Q R (y, d)"
  unfolding rt_query_def
proof (intro wp_bnd wp_rt_alone [OF assms(1,2)] wp_sq, goal_cases)
  case (1 d1)
  show ?case
  proof (rule wp_mono [OF steps [OF 1]], goal_cases)
    case (1 u s)
    then show ?case
      by (cases s) (auto intro!: wp_rt_commit [OF _ assms(2,3)] wp_sq wp_ret Q)
  qed simp
qed

end

section \<open>What the queries mean\<close>

text \<open>The groups of visited memberships, and the points of a group.\<close>

definition groups_of :: "string \<Rightarrow> rt_tables \<Rightarrow> (int \<times> int) set \<Rightarrow> int \<rightharpoonup> string" where
  "groups_of b T V = (\<lambda>g. if \<exists>(p, i) \<in> V. in_group T g i
     then (case sbs_stats T g of None \<Rightarrow> None
        | Some st \<Rightarrow> if sbs_state st = ENABLE then Some (from_buffer LABEL_MAXLEN b (sbs_name st)) else None)
     else None)"

definition armed_groups :: "string \<Rightarrow> rt_tables \<Rightarrow> int \<rightharpoonup> string" where
  "armed_groups b T = groups_of b T (memberships T)"

definition group_points :: "rt_tables \<Rightarrow> int \<Rightarrow> int set" where
  "group_points T g = {p. \<exists>i. links_point T p i \<and> in_group T g i}"

definition refs_ok :: "rt_tables \<Rightarrow> bool" where
  "refs_ok T \<longleftrightarrow> (\<forall>i it. sbs_items T i = Some it \<longrightarrow> sbs_stats T (it_group_id it) \<noteq> None)"

definition unflag :: "int set \<Rightarrow> rt_tables \<Rightarrow> rt_tables" where
  "unflag P T = T\<lparr>points := (\<lambda>p. if p \<in> P then map_option (p_is_modified_update (\<lambda>_. False)) (points T p) else points T p)\<rparr>"

definition tags_of :: "string \<Rightarrow> rt_tables \<Rightarrow> int set \<Rightarrow> int \<rightharpoonup> string" where
  "tags_of b T P = (\<lambda>p. if p \<in> P then map_option (\<lambda>r. from_buffer TAG_NAME_MAXLEN b (p_TAG r)) (points T p) else None)"

lemma memberships_group: "\<exists>(p, i) \<in> memberships T. in_group T g i \<Longrightarrow> \<exists>p \<in> group_points T g. marked T True p"
  by (auto simp: memberships_def group_points_def)

section \<open>What is done for a membership\<close>

context rtap_laws
begin

lemma visits_armed:
  assumes reliable and "refs_ok T"
  shows "visits T (\<lambda>V. q\<lparr>o_map := groups_of (o_behind q) T V\<rparr>) (\<lambda>_. T) S n (note_group E)"
  unfolding visits_def
proof (intro conjI allI impI, goal_cases)
  case (4 V p i d)
  from 4(2) obtain it where it: "sbs_items T i = Some it" by (auto simp: links_point_def)
  with assms(2) obtain st where st: "sbs_stats T (it_group_id it) = Some st" by (auto simp: refs_ok_def)
  have other: "g \<noteq> it_group_id it \<Longrightarrow> groups_of (o_behind q) T (insert (p, i) V) g = groups_of (o_behind q) T V g" for g
    using it by (simp add: groups_of_def in_group_def)
  have this_group: "groups_of (o_behind q) T (insert (p, i) V) (it_group_id it)
      = (if sbs_state st = ENABLE then Some (from_buffer LABEL_MAXLEN (o_behind q) (sbs_name st)) else None)"
    using it st by (simp add: groups_of_def in_group_def)
  have seen: "groups_of (o_behind q) T (insert (p, i) V) = groups_of (o_behind q) T V" if "groups_of (o_behind q) T V (it_group_id it) \<noteq> None"
    using that st it by (intro ext) (auto simp: groups_of_def in_group_def split: if_splits)
  have new: "groups_of (o_behind q) T (insert (p, i) V) = (if sbs_state st = ENABLE
      then (groups_of (o_behind q) T V)(it_group_id it \<mapsto> from_buffer LABEL_MAXLEN (o_behind q) (sbs_name st)) else groups_of (o_behind q) T V)"
    if "groups_of (o_behind q) T V (it_group_id it) = None"
    using that other this_group by (intro ext) auto
  show ?case
    unfolding note_group_def
    by (insert 4(4), (rule vcg | (rule call_rules, assumption)
        | (use assms(1) it st seen new in \<open>auto simp: reached_def map_insert_def set_obj_def wp_upd dest: option.inject [THEN iffD1]\<close>; fail))+)
qed simp_all

end

text \<open>The points of the group \<open>g\<close> among visited memberships.\<close>

definition members :: "rt_tables \<Rightarrow> int \<Rightarrow> (int \<times> int) set \<Rightarrow> int set" where
  "members T g V = {p. \<exists>i. (p, i) \<in> V \<and> in_group T g i}"

lemma members_insert: "members T g (insert (p, i) V) = (if in_group T g i then insert p (members T g V) else members T g V)"
  by (auto simp: members_def)

lemma members_all: "members T g (memberships T) = {p \<in> group_points T g. marked T True p}"
  by (auto simp: members_def memberships_def group_points_def)

lemma unflag_rows [simp]:
  "sbs_items (unflag P T) = sbs_items T" "sbs_stats (unflag P T) = sbs_stats T" "dom (points (unflag P T)) = dom (points T)"
  by (auto simp: unflag_def split: if_splits)

lemma unflag_point: "points (unflag P T) p = (if p \<in> P then map_option (p_is_modified_update (\<lambda>_. False)) (points T p) else points T p)"
  by (simp add: unflag_def)

lemma unflag_insert:
  "points (unflag P T) p = Some r \<Longrightarrow> (unflag P T)\<lparr>points := (points (unflag P T))(p \<mapsto> r\<lparr>p_is_modified := False\<rparr>)\<rparr> = unflag (insert p P) T"
  by (cases "points T p") (auto simp: unflag_def intro!: arg_cong [where f = "\<lambda>m. T\<lparr>points := m\<rparr>"] ext split: if_splits)

lemma unflag_none: "unflag {} T = T"
  by (simp add: unflag_def)

text \<open>A point that is not marked is not changed.\<close>

lemma unflag_marked: "unflag {p \<in> P. marked T True p} T = unflag P T"
proof -
  have "map_option (p_is_modified_update (\<lambda>_. False)) (points T p) = points T p" if "\<not> marked T True p" for p
    using that by (cases "points T p") (auto simp: marked_def)
  then show ?thesis by (simp add: unflag_def fun_eq_iff)
qed

lemma marked_unflag: "marked (unflag P T) True p \<longleftrightarrow> marked T True p \<and> p \<notin> P"
  by (auto simp: marked_def unflag_def)

lemma members_fst: "members T g V \<subseteq> fst ` V"
  by (force simp: members_def)

context rtap_laws
begin

lemma visits_disarm:
  assumes reliable
  shows "visits T (\<lambda>_. q) (\<lambda>V. unflag (members T g V) T) S n (visit_group E load rtQUERY_SBS_POINTS_DISARM g)"
  unfolding visits_def
proof (intro conjI allI impI, goal_cases)
  case (3 V p)
  then show ?case using members_fst [of T g V] by (auto simp: marked_unflag)
next
  case (4 V p i d)
  let ?T = "unflag (members T g V) T"
  from 4(2) obtain it where it: "sbs_items T i = Some it" by (auto simp: links_point_def)
  from 4(1) obtain r0 where "points T p = Some r0" by (auto simp: marked_def)
  then obtain r where r: "points ?T p = Some r" by (cases "p \<in> members T g V") (simp_all add: unflag_point)
  have post: "reached (\<lambda>_. q) (\<lambda>V. unflag (members T g V) T) S n (insert (p, i) V) (q, d')"
    if "if it_group_id it = g then at (unflag (insert p (members T g V)) T) S n d' else at ?T S n d'" for d'
    using that it by (auto simp: reached_def members_insert in_group_def split: if_splits)
  show ?case
    unfolding visit_group_def do_action_def TypeOfQuery.simps if_False if_True
    by (insert 4(4), (rule wp_loop_c wp_bnd wp_db wp_if wp_ret | (rule wp_call [OF itm.get], assumption)
        | (rule wp_call [OF pts.put_fits [of "Put_is_modified False", simplified]], assumption)
        | (use assms it r post in \<open>auto simp: unflag_insert\<close>; fail))+)
qed (use unflag_rows in \<open>simp_all\<close>)

lemma visits_points:
  assumes reliable
  shows "visits T (\<lambda>V. q\<lparr>o_map := tags_of (o_behind q) T (members T g V)\<rparr>) (\<lambda>_. T) S n (visit_group E load rtQUERY_SBS_POINTS_ARMED g)"
  unfolding visits_def
proof (intro conjI allI impI, goal_cases)
  case (4 V p i d)
  from 4(2) obtain it where it: "sbs_items T i = Some it" by (auto simp: links_point_def)
  from 4(1) obtain r where r: "points T p = Some r" by (auto simp: marked_def)
  have same: "tags_of (o_behind q) T (insert p M) = (tags_of (o_behind q) T M)(p \<mapsto> from_buffer TAG_NAME_MAXLEN (o_behind q) (p_TAG r))" for M
    using r by (auto simp: tags_of_def fun_eq_iff)
  have upd: "(tags_of (o_behind q) T M)(p \<mapsto> from_buffer TAG_NAME_MAXLEN (o_behind q) (p_TAG r)) = tags_of (o_behind q) T M" if "tags_of (o_behind q) T M p \<noteq> None" for M
    using that r by (auto simp: tags_of_def fun_eq_iff split: if_splits)
  have post: "reached (\<lambda>V. q\<lparr>o_map := tags_of (o_behind q) T (members T g V)\<rparr>) (\<lambda>_. T) S n (insert (p, i) V)
      (if it_group_id it = g then q\<lparr>o_map := (tags_of (o_behind q) T (members T g V))(p \<mapsto> from_buffer TAG_NAME_MAXLEN (o_behind q) (p_TAG r))\<rparr>
       else q\<lparr>o_map := tags_of (o_behind q) T (members T g V)\<rparr>, d')" if "at T S n d'" for d'
    using that it by (auto simp: reached_def members_insert in_group_def same)
  show ?case
    unfolding visit_group_def do_action_def TypeOfQuery.simps if_False if_True map_insert_def
    by (insert 4(4), (rule wp_loop_c wp_bnd wp_db wp_if wp_ret wp_set_obj wp_obj | (rule wp_call [OF itm.get], assumption)
        | (rule wp_call [OF pts.get], assumption)
        | (use assms it r post upd in \<open>auto dest: option.inject [THEN iffD1]\<close>; fail))+)
qed simp_all

end

section \<open>Creating and deleting\<close>

definition known_tag :: "rt_tables \<Rightarrow> string \<Rightarrow> bool" where
  "known_tag T tag \<longleftrightarrow> (\<exists>h r. points T h = Some r \<and> p_TAG r = tag)"

definition item_row :: "int \<Rightarrow> sbs_item \<Rightarrow> rt_tables \<Rightarrow> rt_tables" where
  "item_row h r T = T\<lparr>sbs_items := (sbs_items T)(h \<mapsto> r)\<rparr>"

definition with_item :: "int \<Rightarrow> int \<Rightarrow> int \<Rightarrow> rt_tables \<Rightarrow> rt_tables" where
  "with_item h g p = item_row h \<lparr>it_group_id = g, it_tag_id = p\<rparr>"

lemma item_row_rows [simp]:
  "points (item_row h r T) = points T" "sbs_stats (item_row h r T) = sbs_stats T"
  "passports (item_row h r T) = passports T" "val_labels (item_row h r T) = val_labels T" "macros (item_row h r T) = macros T" "unities (item_row h r T) = unities T"
  "sbs_items (item_row h r T) = (sbs_items T)(h \<mapsto> r)" "rt_keys_ok (item_row h r T) = rt_keys_ok T"
  by (simp_all add: item_row_def rt_keys_ok_def)

text \<open>The items a list of names leaves in the group \<open>g\<close>: one of each known name, and at the first
  unknown one an item without a point.\<close>

inductive links :: "int \<Rightarrow> rt_tables \<Rightarrow> string list \<Rightarrow> rt_tables \<Rightarrow> bool" for g :: int where
  no_tag: "links g T [] T"
| known: "sbs_items T h = None \<Longrightarrow> points T p = Some r \<Longrightarrow> links g (with_item h g p T) tags T'
    \<Longrightarrow> links g T (p_TAG r # tags) T'"
| unknown: "sbs_items T h = None \<Longrightarrow> \<not> known_tag T tag \<Longrightarrow> links g T (tag # tags) (with_item h g 0 T)"

inductive_cases links_NilE: "links g T [] T'"

lemma with_item_rows [simp]:
  "points (with_item h g p T) = points T" "sbs_stats (with_item h g p T) = sbs_stats T"
  "passports (with_item h g p T) = passports T" "val_labels (with_item h g p T) = val_labels T" "macros (with_item h g p T) = macros T" "unities (with_item h g p T) = unities T"
  "known_tag (with_item h g p T) = known_tag T" "rt_keys_ok (with_item h g p T) = rt_keys_ok T"
  by (simp_all add: with_item_def known_tag_def [abs_def])

lemma group_points_iff: "p \<in> group_points T g \<longleftrightarrow> \<lparr>it_group_id = g, it_tag_id = p\<rparr> \<in> ran (sbs_items T)"
proof
  assume "p \<in> group_points T g"
  then obtain i r where "sbs_items T i = Some r" "it_tag_id r = p" "it_group_id r = g"
    by (auto simp: group_points_def links_point_def in_group_def)
  then show "\<lparr>it_group_id = g, it_tag_id = p\<rparr> \<in> ran (sbs_items T)" by (cases r) (auto intro: ranI)
next
  assume "\<lparr>it_group_id = g, it_tag_id = p\<rparr> \<in> ran (sbs_items T)"
  then obtain i where "sbs_items T i = Some \<lparr>it_group_id = g, it_tag_id = p\<rparr>" by (auto simp: ran_def)
  then have "links_point T p i" "in_group T g i" by (simp_all add: links_point_def in_group_def)
  then show "p \<in> group_points T g" by (auto simp: group_points_def)
qed

lemma with_item_groups:
  "sbs_items T h = None \<Longrightarrow> group_points (with_item h g p T) g' = (if g' = g then insert p (group_points T g) else group_points T g')"
  by (rule set_eqI) (simp add: group_points_iff with_item_def ran_map_upd)

lemma with_item_rest:
  "sbs_items T h = None \<Longrightarrow> sbs_items (with_item h g p T) |` {i. \<not> in_group (with_item h g p T) g i} = sbs_items T |` {i. \<not> in_group T g i}"
  by (auto simp: with_item_def in_group_def restrict_map_def fun_eq_iff)

lemma links_rows:
  "links g T tags T' \<Longrightarrow> points T' = points T \<and> sbs_stats T' = sbs_stats T \<and> passports T' = passports T
     \<and> val_labels T' = val_labels T \<and> macros T' = macros T
     \<and> unities T' = unities T \<and> (\<forall>g'. g' \<noteq> g \<longrightarrow> group_points T' g' = group_points T g')
     \<and> sbs_items T' |` {i. \<not> in_group T' g i} = sbs_items T |` {i. \<not> in_group T g i}"
  by (induction rule: links.induct) (simp_all add: with_item_groups with_item_rest)

text \<open>The points that are linked: those named before the first unknown name.\<close>

definition tagged :: "rt_tables \<Rightarrow> string list \<Rightarrow> int set" where
  "tagged T tags = {p. \<exists>r. points T p = Some r \<and> p_TAG r \<in> set tags}"

lemma tagged_Cons:
  assumes "unique_on p_TAG (points T)" and "points T p = Some r"
  shows "tagged T (p_TAG r # tags) = insert p (tagged T tags)"
proof -
  have same: "p' = p" if "points T p' = Some r'" "p_TAG r' = p_TAG r" for p' r'
    using assms that unfolding unique_on_def by metis
  have "p' \<in> tagged T (p_TAG r # tags) \<longleftrightarrow> p' \<in> insert p (tagged T tags)" for p'
    using assms(2) same [of p'] by (cases "p' = p") (auto simp: tagged_def)
  then show ?thesis by blast
qed

lemma links_points:
  assumes "links g T tags T'" and "unique_on p_TAG (points T)"
  shows "group_points T' g = group_points T g \<union> tagged T (takeWhile (known_tag T) tags)
     \<union> (if \<forall>tag \<in> set tags. known_tag T tag then {} else {0})"
  using assms
proof (induction rule: links.induct)
  case (known T h p r tags T')
  have "tagged T (p_TAG r # ts) = insert p (tagged T ts)" for ts
    using known.prems known.hyps(2) by (rule tagged_Cons)
  moreover have "known_tag T (p_TAG r)" using known.hyps(2) by (auto simp: known_tag_def)
  moreover have "tagged (with_item h g p T) = tagged T" by (simp add: tagged_def fun_eq_iff)
  ultimately show ?case using known by (simp add: with_item_groups)
qed (simp_all add: tagged_def with_item_groups)

definition without_items :: "int set \<Rightarrow> rt_tables \<Rightarrow> rt_tables" where
  "without_items V T = T\<lparr>sbs_items := sbs_items T |` (- V)\<rparr>"

lemma without_items_rows [simp]:
  "points (without_items V T) = points T" "sbs_stats (without_items V T) = sbs_stats T"
  "sbs_items (without_items V T) = sbs_items T |` (- V)" "rt_keys_ok (without_items V T) = rt_keys_ok T"
  by (simp_all add: without_items_def rt_keys_ok_def)

lemma without_items_more: "(without_items V T)\<lparr>sbs_items := (sbs_items T |` (- V))(h := None)\<rparr> = without_items (insert h V) T"
  by (simp add: without_items_def restrict_map_def fun_eq_iff)

lemma without_items_none: "without_items {} T = T"
  by (simp add: without_items_def restrict_map_def)

context rtap_laws
begin

lemma wp_new_item:
  assumes "at T S n d" and reliable
    and "\<And>h d'. sbs_items T h = None \<Longrightarrow> at (item_row h new_item_row T) S n d' \<Longrightarrow> Q h (y, d')"
  shows "wp (db (c_create (SBS_ITEM E))) Q R (y, d)"
  by (rule wp_sure [OF itm.create assms(1)]) (use assms(2,3) in \<open>auto simp: item_row_def\<close>)

lemma wp_put_item:
  assumes "at (item_row h r T) S n d" and reliable
    and "\<And>d'. at (item_row h (apply_item_put p r) T) S n d' \<Longrightarrow> Q () (y, d')"
  shows "wp (db (c_put (SBS_ITEM E) p h)) Q R (y, d)"
  by (rule wp_sure [OF itm.put_fits [OF TrueI] assms(1)]) (use assms(2,3) in \<open>auto simp: item_row_def\<close>)

lemma wp_checkpoint:
  assumes "at T S n d" and reliable and "rt_keys_ok T" and "\<And>d'. at T S n d' \<Longrightarrow> Q () (y, d')"
  shows "wp (db (checkpoint E)) Q R (y, d)"
  by (rule wp_sure [OF checkpoint assms(1)]) (use assms(2-4) in auto)

lemma wp_link_points:
  assumes reliable and "at T S n d" and "rt_keys_ok T"
  shows "wp (link_points E g tags) (\<lambda>_ s. fst s = q \<and> (\<exists>T'. links g T tags T' \<and> at T' S n (snd s)))
     (\<lambda>e s. (\<exists>rc. e = Brk rc) \<and> fst s = q\<lparr>o_error := rtE_POINT_NOT_FOUND\<rparr> \<and> (\<exists>T'. links g T tags T' \<and> at T' S n (snd s))) (q, d)"
  using assms(2,3)
proof (induction tags arbitrary: T d)
  case Nil
  then show ?case by (auto intro!: wp_ret links.intros)
next
  case (Cons tag tags)
  show ?case
    unfolding link_points.simps
  proof (intro wp_bnd wp_sq wp_new_item [OF Cons.prems(1) assms(1)] wp_put_item [OF _ assms(1)], assumption, goal_cases)
    case (1 h d1 d2)
    show ?case
    proof (rule wp_try [OF find_tag 1(3)], goal_cases)
      case (1 p T2 d3)
      then obtain r where p: "points T p = Some r" "tag = p_TAG r"
        by auto
      have rest: "wp (link_points E g tags) (\<lambda>_ s. fst s = q \<and> (\<exists>T'. links g T (p_TAG r # tags) T' \<and> at T' S n (snd s)))
         (\<lambda>e s. (\<exists>rc. e = Brk rc) \<and> fst s = q\<lparr>o_error := rtE_POINT_NOT_FOUND\<rparr> \<and> (\<exists>T'. links g T (p_TAG r # tags) T' \<and> at T' S n (snd s))) (q, d')"
        if "at (item_row h (new_item_row\<lparr>it_group_id := g, it_tag_id := p\<rparr>) T) S n d'" for d'
      proof (rule wp_mono [OF Cons.IH])
        show "at (with_item h g p T) S n d'" using that by (simp add: with_item_def new_item_row_def)
      qed (use Cons.prems(2) links.known [OF \<open>sbs_items T h = None\<close> p(1)] in auto)
      show ?case
        using 1 p Cons.prems(2) assms(1)
        by (auto intro!: wp_bnd wp_sq wp_sure [OF pts.autoid_get] wp_put_item wp_checkpoint rest)
    next
      case (2 rc d3)
      then show ?case
        using assms(1) links.unknown [OF \<open>sbs_items T h = None\<close>, of tag g tags]
        by (auto simp: set_error_def with_item_def known_tag_def new_item_row_def intro!: wp_sq wp_set_obj wp_raise)
    qed
  qed
qed

end

text \<open>Rows of groups.\<close>

definition stat_row :: "int \<Rightarrow> sbs_stat \<Rightarrow> rt_tables \<Rightarrow> rt_tables" where
  "stat_row h r T = T\<lparr>sbs_stats := (sbs_stats T)(h \<mapsto> r)\<rparr>"

lemma stat_row_rows [simp]:
  "points (stat_row h r T) = points T" "sbs_stats (stat_row h r T) = (sbs_stats T)(h \<mapsto> r)"
  "sbs_items (stat_row h r T) = sbs_items T" "passports (stat_row h r T) = passports T" "val_labels (stat_row h r T) = val_labels T" "macros (stat_row h r T) = macros T"
  "unities (stat_row h r T) = unities T" "known_tag (stat_row h r T) = known_tag T"
  by (simp_all add: stat_row_def known_tag_def [abs_def])

lemma stat_row_groups [simp]:
  "in_group (stat_row h r T) = in_group T" "group_points (stat_row h r T) = group_points T" "tagged (stat_row h r T) = tagged T"
  by (auto simp: fun_eq_iff in_group_def group_points_iff tagged_def)

definition group_name :: "rt_tables \<Rightarrow> string \<Rightarrow> int \<Rightarrow> bool" where
  "group_name T name g \<longleftrightarrow> (\<exists>r. sbs_stats T g = Some r \<and> sbs_name r = name)"

lemma stat_row_keys:
  assumes "rt_keys_ok T" and "\<nexists>g. group_name T name g" and "sbs_stats T h = None"
  shows "rt_keys_ok (stat_row h \<lparr>sbs_name = name, sbs_state = s\<rparr> T)"
  using assms unfolding rt_keys_ok_def by (auto simp: unique_on_def group_name_def)

definition without_group :: "int \<Rightarrow> rt_tables \<Rightarrow> rt_tables" where
  "without_group g T = (without_items {i. in_group T g i} T)\<lparr>sbs_stats := (sbs_stats T)(g := None)\<rparr>"

context rtap_laws
begin

lemma wp_new_stat:
  assumes "at T S n d" and reliable
    and "\<And>h d'. sbs_stats T h = None \<Longrightarrow> at (stat_row h new_stat_row T) S n d' \<Longrightarrow> Q h (y, d')"
  shows "wp (db (c_create (SBS_STAT E))) Q R (y, d)"
  by (rule wp_sure [OF sts.create assms(1)]) (use assms(2,3) in \<open>auto simp: stat_row_def\<close>)

lemma wp_put_stat:
  assumes "at (stat_row h r T) S n d" and reliable and "stat_fits p"
    and "\<And>d'. at (stat_row h (apply_stat_put p r) T) S n d' \<Longrightarrow> Q () (y, d')"
  shows "wp (db (c_put (SBS_STAT E) p h)) Q R (y, d)"
  by (rule wp_sure [OF sts.put_fits [OF assms(3)] assms(1)]) (use assms(2,4) in \<open>auto simp: stat_row_def\<close>)

lemma wp_stat_id:
  assumes "at T S n d" and reliable and "sbs_stats T h \<noteq> None" and "\<And>d'. at T S n d' \<Longrightarrow> Q h (y, d')"
  shows "wp (db (c_autoid_get (SBS_STAT E) h)) Q R (y, d)"
  by (rule wp_sure [OF sts.autoid_get assms(1)]) (use assms(2-4) in auto)

lemma wp_createGroup:
  assumes at: "at T T 0 d" and rel: reliable and keys: "rt_keys_ok T" and fits: "stat_fits (PutSbsName name)"
    and new: "\<nexists>g. group_name T name g"
    and Q: "\<And>g T' d'. sbs_stats T g = None \<Longrightarrow> links g (stat_row g \<lparr>sbs_name = name, sbs_state = ENABLE\<rparr> T) tags T'
       \<Longrightarrow> at T' T' 0 d' \<Longrightarrow> Q MCO_S_OK (q\<lparr>o_error := rtE_NONE\<rparr>, d')"
  shows "wp (createGroup E name tags) Q R (q, d)"
  unfolding createGroup_def createGroup_steps_def
proof (intro wp_sq wp_upd, unfold prod.case, intro wp_rt_alone [OF at rel] wp_bnd, rule wp_try [OF find_group], assumption, goal_cases)
  case (1 d1 h T1 d2)
  then show ?case using new by (auto simp: group_name_def)
next
  case (2 d1 rc d2)
  then have rc: "rc = MCO_S_NOTFOUND" using rel by simp
  show ?case
    unfolding rc sum.case mco_ret.simps simp_thms if_False
  proof (intro wp_bnd wp_sq wp_new_stat [OF 2(4) rel] wp_put_stat [OF _ rel] wp_checkpoint [OF _ rel], assumption, rule fits, assumption, simp, assumption, goal_cases)
    case (1 h d3 d4 d5)
    then show ?case using stat_row_keys [OF keys new, of h ENABLE] by (simp add: new_stat_row_def)
  next
    case (2 h d3 d4 d5 d6)
    let ?T = "stat_row h \<lparr>sbs_name = name, sbs_state = ENABLE\<rparr> T"
    from 2 have at: "at ?T T 1 d6" and none: "sbs_stats T h = None" by (simp_all add: new_stat_row_def)
    have keys': "rt_keys_ok T'" if "links h ?T tags T'" for T'
      using links_rows [OF that] stat_row_keys [OF keys new none, of ENABLE] by (simp add: rt_keys_ok_def)
    have finish: "wp (db (rtap_commit E)) (\<lambda>_. wp (set_error rtE_NONE) (\<lambda>_. Q MCO_S_OK) R') R' s"
      if "links h ?T tags T'" "at T' T 1 (snd s)" "(fst s)\<lparr>o_error := rtE_NONE\<rparr> = q\<lparr>o_error := rtE_NONE\<rparr>" for T' s R'
      using that keys' [OF that(1)] rel
      by (cases s) (auto simp: set_error_def intro!: wp_rt_commit wp_set_obj Q [OF none])
    show ?case
    proof (rule wp_stat_id [OF at rel], simp, rule wp_sq, rule wp_loop_c, goal_cases)
      case (1 d7)
      show ?case
        by (rule wp_mono [OF wp_link_points [OF rel 1]])
          (use stat_row_keys [OF keys new none, of ENABLE] in \<open>auto intro!: wp_sq finish\<close>)
    qed
  qed
qed

end

lemma in_group_without [simp]: "in_group (without_items V T) g h \<longleftrightarrow> in_group T g h \<and> h \<notin> V"
  by (simp add: in_group_def restrict_map_def)

context rtap_laws
begin

lemma wp_delete_items:
  assumes rel: reliable and "at (without_items V T) S n d" and "set hs \<subseteq> dom (sbs_items T)" and "distinct hs" and "V \<inter> set hs = {}"
  shows "wp (delete_items E g hs) (\<lambda>_ s. fst s = y \<and> at (without_items (V \<union> {h \<in> set hs. in_group T g h}) T) S n (snd s))
     (\<lambda>_ _. False) (y, d)"
  using assms(2-5)
proof (induction hs arbitrary: V d)
  case Nil
  then show ?case by (simp add: wp_ret)
next
  case (Cons h hs)
  let ?V = "if in_group T g h then insert h V else V"
  let ?post = "\<lambda>_ s. fst s = y \<and> at (without_items (V \<union> {h' \<in> set (h # hs). in_group T g h'}) T) S n (snd s)"
  have V: "V \<union> {h' \<in> set (h # hs). in_group T g h'} = ?V \<union> {h' \<in> set hs. in_group T g h'}" by auto
  have rest: "wp (csr_round E hs (delete_items E g hs)) ?post (\<lambda>_ _. False) (y, d')" if "at (without_items ?V T) S n d'" for d'
    unfolding V
  proof (rule wp_csr_round [OF that rel], goal_cases)
    case (2 d'')
    show ?case by (rule Cons.IH [OF 2(2)]) (use Cons.prems(2-4) in auto)
  qed (use that in simp)
  obtain it where it: "sbs_items (without_items V T) h = Some it"
    using Cons.prems(2,4) by auto
  have gone: "(without_items V T)\<lparr>sbs_items := (sbs_items (without_items V T))(h := None)\<rparr> = without_items (insert h V) T"
    by (simp only: without_items_rows without_items_more)
  show ?case
    unfolding delete_items.simps
  proof (intro wp_bnd, rule wp_sure [OF group_compare Cons.prems(1)], goal_cases)
    case (2 c T' d')
    then have c: "c = 0 \<longleftrightarrow> in_group T g h" "at (without_items V T) S n d'" using Cons.prems(4) by auto
    show ?case
    proof (intro wp_sq wp_if wp_bnd, goal_cases)
      case 1
      show ?case
      proof (rule wp_sure [OF csr_from c(2)], goal_cases)
        case (2 x T1 d1)
        then have x: "x = h" "at (without_items V T) S n d1" by simp_all
        show ?case
          unfolding x(1)
        proof (intro wp_sq wp_bnd, rule wp_sure [OF itm.get x(2)], goal_cases)
          case (2 r T2 d2)
          then have "at (without_items V T) S n d2" by simp
          then show ?case
            by (intro wp_ret, rule wp_sure [OF itm.remove]) (use it rel gone c 1 rest in auto)
        qed (use it rel in auto)
      qed (use rel in auto)
    next
      case 2
      then show ?case using c rest by (auto intro!: wp_ret)
    qed
  qed (use it rel in auto)
qed

lemma wp_delete_group_items:
  assumes rel: reliable and at: "at T S n d"
  shows "wp (delete_group_items E g) (\<lambda>_ s. fst s = y \<and> at (without_items {i. in_group T g i} T) S n (snd s)) (\<lambda>_ _. False) (y, d)"
proof -
  have none: "without_items {i. in_group T g i} T = T" if "Collect (in_group T g) = {}"
    using that by (simp add: without_items_none)
  show ?thesis
    unfolding delete_group_items_def
  proof (intro wp_bnd, rule wp_try [OF group_cursor at], goal_cases)
    case (1 x T1 d1)
    then have at: "at T S n d1" by simp
    show ?case
    proof (simp, intro wp_bnd, rule wp_try [OF group_search at], goal_cases)
      case (1 hs T2 d2)
      then have hs: "at T S n d2" "set hs \<subseteq> dom (sbs_items T)" "distinct hs" "Collect (in_group T g) \<subseteq> set hs"
        by simp_all
      then have all: "{h \<in> set hs. in_group T g h} = {i. in_group T g i}" by auto
      show ?case
      proof (simp, intro wp_sq, rule wp_sure [OF csr_first hs(1)], goal_cases)
        case (2 u T3 d3)
        then have "at (without_items {} T) S n d3" by (simp add: without_items_none)
        then show ?case
          by (intro wp_loop_c, rule wp_mono [OF wp_delete_items [OF rel _ hs(2,3)]])
            (use all rel in \<open>auto intro!: wp_sure [OF csr_close]\<close>)
      qed (use rel in simp)
    next
      case (2 rc d2)
      then have "at T S n d2" "rc = MCO_S_NOTFOUND" "Collect (in_group T g) = {}" using rel by simp_all
      then show ?case
        using rel none by (simp, intro wp_sq wp_ret wp_sure [OF csr_close]) auto
    qed
  next
    case (2 rc d1)
    then have "at T S n d1" "Collect (in_group T g) = {}" using rel by (auto simp: in_group_def)
    then show ?case using none by (auto intro!: wp_ret)
  qed
qed

end

lemma without_group_keys: "rt_keys_ok T \<Longrightarrow> rt_keys_ok (without_group g T)"
  unfolding rt_keys_ok_def without_group_def by (auto simp: unique_on_def without_items_def split: if_splits)

lemma group_name_same: "rt_keys_ok T \<Longrightarrow> group_name T name g \<Longrightarrow> group_name T name g' \<Longrightarrow> g' = g"
  unfolding rt_keys_ok_def group_name_def unique_on_def by metis

context rtap_laws
begin

lemma wp_deleteGroup:
  assumes at: "at T T 0 d" and rel: reliable and keys: "rt_keys_ok T" and name: "group_name T name g"
    and Q: "\<And>d'. at (without_group g T) (without_group g T) 0 d' \<Longrightarrow> Q MCO_S_OK (q\<lparr>o_error := rtE_NONE\<rparr>, d')"
  shows "wp (deleteGroup E name) Q R (q, d)"
  unfolding deleteGroup_def deleteGroup_steps_def
proof (intro wp_sq wp_upd, unfold prod.case, intro wp_rt_alone [OF at rel] wp_bnd, rule wp_sure [OF find_group], assumption, goal_cases)
  case (1 d1 rc)
  then show ?case using rel name by (auto simp: group_name_def)
next
  case (2 d1 h T1 d2)
  then have h: "h = g" "at T T 1 d2" using group_name_same [OF keys name] by (auto simp: group_name_def)
  have g: "sbs_stats T g \<noteq> None" using name by (auto simp: group_name_def)
  let ?T = "without_items {i. in_group T g i} T"
  show ?case
    unfolding h(1)
  proof (rule wp_bnd, rule wp_stat_id [OF h(2) rel g], intro wp_sq, goal_cases)
    case (1 d3)
    show ?case
    proof (rule wp_mono [OF wp_delete_group_items [OF rel 1, of g "q\<lparr>o_error := rtE_RUNTIME_ERROR\<rparr>"]], goal_cases)
      case (1 u s)
      then obtain d4 where s: "s = (q\<lparr>o_error := rtE_RUNTIME_ERROR\<rparr>, d4)" and at4: "at ?T T 1 d4" by (cases s) auto
      show ?case
        unfolding s
      proof (intro wp_bnd, rule wp_sure [OF sts.find at4], goal_cases)
        case (2 x T2 d5)
        then have x: "x = g" "at ?T T 1 d5" by simp_all
        have row: "?T\<lparr>sbs_stats := (sbs_stats ?T)(g := None)\<rparr> = without_group g T" by (simp add: without_group_def)
        have finish: "wp (db (rtap_commit E)) (\<lambda>_. wp (set_error rtE_NONE) (\<lambda>_. Q MCO_S_OK) R') R' (q\<lparr>o_error := rtE_RUNTIME_ERROR\<rparr>, d')"
          if "at (without_group g T) T 1 d'" for d' R'
          by (rule wp_rt_commit [OF that rel without_group_keys [OF keys]]) (auto simp: set_error_def intro!: wp_set_obj Q)
        show ?case
          unfolding x(1)
          by (intro wp_sq, rule wp_sure [OF sts.remove x(2)]) (use g rel row in \<open>auto intro!: wp_sq finish\<close>)
      qed (use g rel in auto)
    qed simp
  qed
qed

text \<open>A group that is there already, and one that is not.\<close>

lemma at_rollback: "at T S 1 d \<Longrightarrow> at S S 0 (snd (rtap_rollback E True d))"
  using rollback [of d] by (auto simp: view_def)

lemma wp_createGroup_again:
  assumes at: "at T T 0 d" and rel: reliable and name: "group_name T name g"
    and Q: "\<And>d'. at T T 1 d' \<Longrightarrow> Q MCO_S_OK (q\<lparr>o_error := rtE_RUNTIME_ERROR\<rparr>, d')"
  shows "wp (createGroup E name tags) Q R (q, d)"
  unfolding createGroup_def createGroup_steps_def
proof (intro wp_sq wp_upd, unfold prod.case, intro wp_rt_alone [OF at rel] wp_bnd, rule wp_try [OF find_group], assumption, goal_cases)
  case (1 d1 h T1 d2)
  then have "at T T 1 d2" "sbs_stats T h \<noteq> None" by auto
  then show ?case
    using rel by (auto intro!: wp_bnd wp_stat_id wp_raise Q)
next
  case (2 d1 rc d2)
  then show ?case using name rel by (auto simp: group_name_def)
qed

lemma wp_deleteGroup_none:
  assumes at: "at T T 0 d" and rel: reliable and name: "\<nexists>g. group_name T name g"
    and Q: "\<And>d'. at T T 0 d' \<Longrightarrow> Q MCO_S_NOTFOUND (q\<lparr>o_error := rtE_RUNTIME_ERROR\<rparr>, d')"
  shows "wp (deleteGroup E name) Q R (q, d)"
  unfolding deleteGroup_def deleteGroup_steps_def
proof (intro wp_sq wp_upd, unfold prod.case, intro wp_rt_alone [OF at rel] wp_bnd, rule wp_db, rule wp_call [OF find_group], assumption, goal_cases)
  case (1 d1 h T1 d2)
  then show ?case using name by (auto simp: group_name_def)
next
  case (2 d1 rc d2)
  then show ?case using rel at_rollback [of T T d2] by (auto intro!: Q)
qed

end

lemma unflag_keys: "rt_keys_ok T \<Longrightarrow> rt_keys_ok (unflag P T)"
  unfolding rt_keys_ok_def by (auto simp: unique_on_def unflag_def split: if_splits)

context rtap_laws
begin

lemma wp_named_group:
  assumes "at T S n d" and rel: reliable and keys: "rt_keys_ok T" and name: "group_name T name g"
    and "\<And>d'. at T S n d' \<Longrightarrow> wp (k g) Q R (y, d')"
  shows "wp (bnd (db (PK_by_name_find E name)) (\<lambda>stat. bnd (db (c_autoid_get (SBS_STAT E) stat)) k)) Q R (y, d)"
proof (intro wp_bnd, rule wp_sure [OF find_group assms(1)], goal_cases)
  case (1 rc)
  then show ?case using rel name by (auto simp: group_name_def)
next
  case (2 h T1 d1)
  then have h: "h = g" "at T S n d1" using group_name_same [OF keys name] by (auto simp: group_name_def)
  have g: "sbs_stats T g \<noteq> None" using name by (auto simp: group_name_def)
  show ?case unfolding h(1) by (intro wp_bnd wp_stat_id [OF h(2) rel g] assms(5))
qed

end

context rtap_laws
begin

lemma wp_disarm_points:
  assumes rel: reliable and keys: "rt_keys_ok T" and "at (unflag P T) S n d"
  shows "wp (disarm_points E tags)
     (\<lambda>_ s. fst s = y \<and> at (unflag (P \<union> tagged T (takeWhile (known_tag T) tags)) T) S n (snd s))
     (\<lambda>e s. (\<exists>rc. e = Brk rc) \<and> fst s = y \<and> at (unflag (P \<union> tagged T (takeWhile (known_tag T) tags)) T) S n (snd s)) (y, d)"
  using assms(3)
proof (induction tags arbitrary: P d)
  case Nil
  then show ?case by (simp add: wp_ret tagged_def)
next
  case (Cons tag tags)
  have rows: "\<exists>r. points T h = Some r \<and> p_TAG r = p_TAG r'" if "points (unflag P T) h = Some r'" for h r'
    using that by (auto simp: unflag_point split: if_splits)
  show ?case
    unfolding disarm_points.simps
  proof (intro wp_bnd, rule wp_db, rule wp_call [OF find_tag Cons.prems], goal_cases)
    case (1 h T1 d1)
    then obtain r' where r': "points (unflag P T) h = Some r'" "p_TAG r' = tag" and T1: "T1 = unflag P T" by auto
    with rows obtain r where r: "points T h = Some r" "p_TAG r = tag" by metis
    have more: "insert h P \<union> tagged T (takeWhile (known_tag T) tags) = P \<union> tagged T (takeWhile (known_tag T) (tag # tags))"
      using tagged_Cons [OF _ r(1)] keys r by (auto simp: rt_keys_ok_def known_tag_def)
    show ?case
    proof (rule wp_sq, rule wp_sure [OF pts.put_fits [of "Put_is_modified False", simplified] 1(2)], goal_cases)
      case (2 u T2 d2)
      then have "at (unflag (insert h P) T) S n d2"
        using unflag_insert [OF r'(1)] r' T1 by simp
      from Cons.IH [OF this] show ?case by (simp only: more)
    qed (use r' T1 rel in auto)
  next
    case (2 rc d1)
    have unknown: "\<not> known_tag T tag"
    proof
      assume "known_tag T tag"
      then obtain h r where "points T h = Some r" "p_TAG r = tag" by (auto simp: known_tag_def)
      then have "\<exists>r'. points (unflag P T) h = Some r' \<and> p_TAG r' = tag" by (simp add: unflag_point)
      then show False using 2 rel by blast
    qed
    then show ?case using 2 by (simp add: tagged_def)
  qed
qed

lemma wp_disarm_selected:
  assumes at: "at T T 0 d" and rel: reliable and keys: "rt_keys_ok T"
    and Q: "\<And>d'. at (unflag (tagged T (takeWhile (known_tag T) tags)) T) (unflag (tagged T (takeWhile (known_tag T) tags)) T) 0 d'
       \<Longrightarrow> Q MCO_S_OK (q, d')"
  shows "wp (querySbsDisarmSelectedPoints E tags) Q R (q, d)"
  unfolding querySbsDisarmSelectedPoints_def
proof (rule wp_rt_alone [OF at rel], goal_cases)
  case (1 d1)
  then have "at (unflag {} T) T 1 d1" by (simp add: unflag_none)
  from wp_disarm_points [OF rel keys this, of tags q]
  have steps: "wp (disarm_points E tags) (\<lambda>_ s. fst s = q \<and> at (unflag (tagged T (takeWhile (known_tag T) tags)) T) T 1 (snd s))
     (\<lambda>e s. (\<exists>rc. e = Brk rc) \<and> fst s = q \<and> at (unflag (tagged T (takeWhile (known_tag T) tags)) T) T 1 (snd s)) (q, d1)"
    by simp
  show ?case
    by (intro wp_sq wp_loop_c wp_mono [OF steps])
      (auto intro!: wp_rt_commit [OF _ rel unflag_keys [OF keys]] Q)
qed

end

end
