(* ===== verification/MemTables.thy ===== *)
theory MemTables
  imports BrokerStore "HOL-Library.AList"
begin

text \<open>
  Executable engines of association lists: tables are lists of rows under their ids, a memory
  holds the contents as the running transaction sees them, the contents a rollback restores, and
  a stack of those saved by nested transactions.  Any schema can be put on top; the laws of
  \<open>class_laws\<close> hold for each of its tables.
\<close>

section \<open>Memory\<close>

record 'c memory =
  m_cur :: 'c
  m_base :: 'c
  m_stack :: "'c list"

definition mem_depth :: "'c memory \<Rightarrow> nat" where
  "mem_depth m = length (m_stack m)"

definition mem_with :: "'c \<Rightarrow> 'c memory" where
  "mem_with c = \<lparr>m_cur = c, m_base = c, m_stack = []\<rparr>"

section \<open>Operations\<close>

definition fresh_id :: "(int \<times> 'r) list \<Rightarrow> int" where
  "fresh_id xs = 1 + foldr max (map fst xs) 0"

definition mem_answer :: "'a option \<Rightarrow> mco_ret \<Rightarrow> ('d, 'a) call" where
  "mem_answer r rc d = ((case r of None \<Rightarrow> Inl rc | Some x \<Rightarrow> Inr x), d)"

definition looks :: "('d \<Rightarrow> 'a option) \<Rightarrow> mco_ret \<Rightarrow> ('d, 'a) call" where
  "looks f rc d = mem_answer (f d) rc d"

definition edits ::
  "('m \<Rightarrow> (int \<times> 'r) list) \<Rightarrow> ((int \<times> 'r) list \<Rightarrow> 'm \<Rightarrow> 'm) \<Rightarrow> int \<Rightarrow> ((int \<times> 'r) list \<Rightarrow> (int \<times> 'r) list) \<Rightarrow> ('m, unit) call" where
  "edits get set_m h f m =
     (if map_of (get m) h = None then (Inl MCO_S_NOTFOUND, m) else (Inr (), set_m (f (get m)) m))"

definition upd_row :: "int \<Rightarrow> ('r \<Rightarrow> 'r) \<Rightarrow> (int \<times> 'r) list \<Rightarrow> (int \<times> 'r) list" where
  "upd_row h f xs = (case map_of xs h of None \<Rightarrow> xs | Some r \<Rightarrow> AList.update h (f r) xs)"

definition first_key :: "('r \<Rightarrow> bool) \<Rightarrow> (int \<times> 'r) list \<Rightarrow> int option" where
  "first_key P xs = map_option fst (List.find (\<lambda>(h, r). P r) (AList.clearjunk xs))"

definition all_keys :: "('r \<Rightarrow> bool) \<Rightarrow> (int \<times> 'r) list \<Rightarrow> int list option" where
  "all_keys P xs = (case filter (\<lambda>(h, r). P r) (AList.clearjunk xs) of [] \<Rightarrow> None | ys \<Rightarrow> Some (map fst ys))"

definition mem_class ::
  "('m \<Rightarrow> (int \<times> 'r) list) \<Rightarrow> ((int \<times> 'r) list \<Rightarrow> 'm \<Rightarrow> 'm) \<Rightarrow> 'r \<Rightarrow> ('p \<Rightarrow> 'r \<Rightarrow> 'r) \<Rightarrow> ('m, 'r, 'p) mco_class" where
  "mem_class get set_m fresh put_row =
     \<lparr>c_create = (\<lambda>m. let h = fresh_id (get m) in (Inr h, set_m (AList.update h fresh (get m)) m)),
      c_remove = (\<lambda>h. edits get set_m h (AList.delete h)),
      c_delete_all = (\<lambda>m. (Inr (), set_m [] m)),
      c_find = (\<lambda>h. looks (\<lambda>m. map_option (\<lambda>_. h) (map_of (get m) h)) MCO_S_NOTFOUND),
      c_autoid_get = (\<lambda>h. looks (\<lambda>m. Some h) MCO_S_NOTFOUND),
      c_get = (\<lambda>h. looks (\<lambda>m. map_of (get m) h) MCO_S_NOTFOUND),
      c_access = (\<lambda>h. looks (\<lambda>m. Some ()) MCO_S_NOTFOUND),
      c_put = (\<lambda>p h. edits get set_m h (upd_row h (put_row p))),
      c_list_cursor = looks (\<lambda>m. all_keys (\<lambda>_. True) (get m)) MCO_S_CURSOR_EMPTY\<rparr>"

definition keys_distinct :: "('r \<Rightarrow> 'k) \<Rightarrow> (int \<times> 'r) list \<Rightarrow> bool" where
  "keys_distinct f xs \<longleftrightarrow> distinct (map (\<lambda>(h, r). f r) (AList.clearjunk xs))"

definition mem_start :: "('c memory, unit) call" where
  "mem_start m = (Inr (), m\<lparr>m_stack := m_cur m # m_stack m\<rparr>)"

definition mem_commit :: "('c \<Rightarrow> bool) \<Rightarrow> ('c memory, unit) call" where
  "mem_commit keys m =
     (if length (m_stack m) = 1
      then (if keys (m_cur m) then (Inr (), m\<lparr>m_base := m_cur m, m_stack := []\<rparr>) else (Inl MCO_S_DUPLICATE, m))
      else (Inr (), m\<lparr>m_stack := tl (m_stack m)\<rparr>))"

definition mem_rollback :: "bool \<Rightarrow> ('c memory, unit) call" where
  "mem_rollback opened m =
     (if \<not> opened then (Inl (MCO_E 1), m)
      else if length (m_stack m) \<le> 1 then (Inr (), m\<lparr>m_cur := m_base m, m_stack := []\<rparr>)
      else (Inr (), m\<lparr>m_cur := hd (m_stack m), m_stack := tl (m_stack m)\<rparr>))"

section \<open>The laws of a table\<close>

lemma fresh_id_pos: "0 < fresh_id xs"
proof -
  have "0 \<le> foldr max ys (0 :: int)" for ys by (induction ys) auto
  then show ?thesis by (simp add: fresh_id_def add_pos_nonneg)
qed

lemma fresh_id_new: "map_of xs (fresh_id xs) = None"
proof -
  have le: "y \<in> set ys \<Longrightarrow> y \<le> foldr max ys (0 :: int)" for y ys by (induction ys) auto
  have "fresh_id xs \<notin> set (map fst xs)"
  proof
    assume "fresh_id xs \<in> set (map fst xs)"
    from le [OF this] show False by (simp add: fresh_id_def)
  qed
  then show ?thesis by (simp add: map_of_eq_None_iff)
qed

lemma clearjunk_iff: "(h, r) \<in> set (AList.clearjunk xs) \<longleftrightarrow> map_of xs h = Some r"
  using map_of_eq_Some_iff [OF distinct_clearjunk, of xs h r] by (simp add: map_of_clearjunk)

lemma first_key_Some:
  assumes "first_key P xs = Some h"
  shows "\<exists>r. map_of xs h = Some r \<and> P r"
proof -
  from assms obtain r where "List.find (\<lambda>(h, r). P r) (AList.clearjunk xs) = Some (h, r)"
    by (auto simp: first_key_def)
  then have "(h, r) \<in> set (AList.clearjunk xs)" "P r"
    by (auto simp: find_Some_iff in_set_conv_nth)
  then show ?thesis by (auto simp: clearjunk_iff)
qed

lemma first_key_None: "first_key P xs = None \<Longrightarrow> map_of xs h = Some r \<Longrightarrow> \<not> P r"
  unfolding first_key_def by (auto simp: find_None_iff clearjunk_iff [symmetric])

lemma all_keys_Some:
  assumes "all_keys P xs = Some hs"
  shows "hs \<noteq> [] \<and> distinct hs \<and> set hs \<subseteq> dom (map_of xs) \<and> (\<forall>h r. map_of xs h = Some r \<longrightarrow> P r \<longrightarrow> h \<in> set hs)"
proof -
  have hs: "hs = map fst (filter (\<lambda>(h, r). P r) (AList.clearjunk xs))"
    and ne: "filter (\<lambda>(h, r). P r) (AList.clearjunk xs) \<noteq> []"
    using assms by (auto simp: all_keys_def split: list.splits)
  have "h \<in> set hs \<longleftrightarrow> (\<exists>r. map_of xs h = Some r \<and> P r)" for h
    unfolding hs by (force simp: clearjunk_iff)
  moreover have "distinct hs"
    unfolding hs by (rule distinct_map_filter) (rule distinct_clearjunk)
  ultimately show ?thesis using hs ne by auto
qed

lemma all_keys_None: "all_keys P xs = None \<Longrightarrow> map_of xs h = Some r \<Longrightarrow> \<not> P r"
  unfolding all_keys_def
  by (auto simp: filter_empty_conv clearjunk_iff [symmetric] split: list.splits)

lemma keys_distinct_iff: "keys_distinct f xs \<longleftrightarrow> unique_on f (map_of xs)"
proof -
  have "distinct (AList.clearjunk xs)"
    using distinct_clearjunk [of xs] by (simp add: distinct_map)
  then have "keys_distinct f xs \<longleftrightarrow> inj_on (\<lambda>(h, r). f r) (set (AList.clearjunk xs))"
    by (simp add: keys_distinct_def distinct_map)
  also have "\<dots> \<longleftrightarrow> unique_on f (map_of xs)"
  proof
    assume inj: "inj_on (\<lambda>(h, r). f r) (set (AList.clearjunk xs))"
    show "unique_on f (map_of xs)"
      unfolding unique_on_def
    proof (intro allI impI)
      fix i j r s
      assume "map_of xs i = Some r" "map_of xs j = Some s" "f r = f s"
      then show "i = j"
        using inj_onD [OF inj, of "(i, r)" "(j, s)"] by (simp add: clearjunk_iff)
    qed
  next
    assume u: "unique_on f (map_of xs)"
    show "inj_on (\<lambda>(h, r). f r) (set (AList.clearjunk xs))"
      by (rule inj_onI) (use u in \<open>auto simp: clearjunk_iff unique_on_def\<close>, metis option.inject)
  qed
  finally show ?thesis .
qed

lemma obeys_looks:
  assumes "\<And>m x. f m = Some x \<Longrightarrow> P (tabs m) x (tabs m)" and "rc \<noteq> MCO_S_OK"
    and "\<And>m. f m = None \<Longrightarrow> F (tabs m) rc"
  shows "obeys tabs saved depth (looks f rc) P F"
  using assms unfolding obeys_def wp_def looks_def mem_answer_def by (auto split: option.splits)

lemma obeys_edits:
  assumes "\<And>m x. map_of (get m) h = Some x \<Longrightarrow> P (tabs m) () (tabs (set_m (f (get m)) m))"
    and "\<And>m. map_of (get m) h = None \<Longrightarrow> F (tabs m) MCO_S_NOTFOUND"
    and "\<And>xs m. saved (set_m xs m) = saved m" and "\<And>xs m. depth (set_m xs m) = depth m"
  shows "obeys tabs saved depth (edits get set_m h f) P F"
  using assms unfolding obeys_def wp_def edits_def by auto

lemma map_of_upd_row: "map_of xs h = Some r \<Longrightarrow> map_of (upd_row h f xs) = (map_of xs)(h \<mapsto> f r)"
  by (simp add: upd_row_def update_conv')

lemma mem_class_laws:
  assumes row: "\<And>m. row (tabs m) = map_of (get m)"
    and tabs: "\<And>xs m. tabs (set_m xs m) = set_row (map_of xs) (tabs m)"
    and base: "\<And>xs m. saved (set_m xs m) = saved m" and stack: "\<And>xs m. depth (set_m xs m) = depth m"
  shows "class_laws tabs saved depth True (mem_class get set_m fresh put_row) row set_row fresh put_row fits"
proof (unfold_locales, goal_cases)
  case 1
  then show ?case
    using fresh_id_pos fresh_id_new
    by (auto simp: obeys_def wp_def mem_class_def row tabs stack base Let_def update_conv')
next
  case (2 h)
  show ?case
    unfolding mem_class_def mco_class.simps
    by (rule obeys_edits) (simp_all add: row tabs stack base delete_conv')
next
  case 3
  then show ?case
    by (auto simp: obeys_def wp_def mem_class_def tabs stack base)
next
  case (8 p h)
  show ?case
    unfolding mem_class_def mco_class.simps
    by (rule obeys_edits) (auto simp: row tabs stack base map_of_upd_row)
next
  case 9
  show ?case
    unfolding mem_class_def mco_class.simps
  proof (rule obeys_looks, goal_cases)
    case (1 m hs)
    from all_keys_Some [OF this] show ?case by (auto simp: row)
  next
    case (3 m)
    from all_keys_None [OF this] have "map_of (get m) h = None" for h by (cases "map_of (get m) h") auto
    then show ?case by (simp add: row fun_eq_iff)
  qed simp
qed (unfold mem_class_def mco_class.simps; rule obeys_looks; simp add: row split: option.splits)+

section \<open>Calls that fail\<close>

text \<open>A call fails when the next entry of the script says so; a rollback always works.\<close>

definition flake :: "('d, 'a) call \<Rightarrow> ('d \<times> bool list, 'a) call" where
  "flake c s = (case s of (d, script) \<Rightarrow>
     if script \<noteq> [] \<and> hd script then (Inl (MCO_E 1), (d, tl script))
     else (case c d of (r, d') \<Rightarrow> (r, (d', tl script))))"

definition flaky_class :: "('d, 'r, 'p) mco_class \<Rightarrow> ('d \<times> bool list, 'r, 'p) mco_class" where
  "flaky_class C =
     \<lparr>c_create = flake (c_create C), c_remove = (\<lambda>h. flake (c_remove C h)), c_delete_all = flake (c_delete_all C),
      c_find = (\<lambda>i. flake (c_find C i)), c_autoid_get = (\<lambda>h. flake (c_autoid_get C h)),
      c_get = (\<lambda>h. flake (c_get C h)), c_access = (\<lambda>h. flake (c_access C h)),
      c_put = (\<lambda>p h. flake (c_put C p h)), c_list_cursor = flake (c_list_cursor C)\<rparr>"

lemma wp_flake:
  assumes "wp c (\<lambda>x d'. Q x (d', tl (snd s))) (\<lambda>e d'. R e (d', tl (snd s))) (fst s)"
    and "R (MCO_E 1) (fst s, tl (snd s))"
  shows "wp (flake c) Q R s"
  using assms by (cases s) (auto simp: wp_def flake_def split: prod.splits sum.splits)

lemma obeys_flake:
  assumes "obeys tabs saved depth c P F" and "\<And>T rc. F T rc \<Longrightarrow> F' T rc" and "\<And>T. F' T (MCO_E 1)"
  shows "obeys (tabs \<circ> fst) (saved \<circ> fst) (depth \<circ> fst) (flake c) P F'"
  unfolding obeys_def
proof (intro allI wp_flake, goal_cases)
  case (1 s)
  have "wp c (\<lambda>x d'. P (tabs (fst s)) x (tabs d') \<and> saved d' = saved (fst s) \<and> depth d' = depth (fst s))
     (\<lambda>rc d'. rc \<noteq> MCO_S_OK \<and> F (tabs (fst s)) rc \<and> tabs d' = tabs (fst s) \<and> saved d' = saved (fst s)
        \<and> depth d' = depth (fst s)) (fst s)"
    using assms(1) by (simp add: obeys_def)
  then show ?case by (rule wp_mono) (use assms(2) in auto)
qed (use assms(3) in simp)

context class_laws
begin

lemma flaky_class_laws:
  "class_laws (tabs \<circ> fst) (saved \<circ> fst) (depth \<circ> fst) False (flaky_class C) row set_row fresh_row put_row fits"
  by (rule class_laws.intro; unfold flaky_class_def mco_class.simps)
    (rule obeys_flake, rule create remove delete_all find autoid_get get access put list_cursor, simp, simp)+

end

end
