(* ===== verification/RtapMem.thy ===== *)
theory RtapMem
  imports RtapStore MemTables
begin

text \<open>
  An executable engine for the real-time database, of the tables of \<open>MemTables\<close>, that keeps the
  laws \<open>rtap_laws\<close>; and the same engine with failures from a script.
\<close>

section \<open>The engine\<close>

record rt_contents =
  c_points :: "(int \<times> xdb_point) list"
  c_stats :: "(int \<times> sbs_stat) list"
  c_items :: "(int \<times> sbs_item) list"
  c_pass :: "objclass_t \<Rightarrow> (int \<times> passport) list"
  c_units :: "(int \<times> unity_row) list"
  c_labels :: "(int \<times> label_row) list"
  c_macros :: "(int \<times> macro_row) list"

type_synonym rt_mem = "rt_contents memory"

definition rt_tables_of :: "rt_contents \<Rightarrow> rt_tables" where
  "rt_tables_of c = \<lparr>points = map_of (c_points c), sbs_stats = map_of (c_stats c), sbs_items = map_of (c_items c),
     passports = (\<lambda>k. map_of (c_pass c k)), unities = map_of (c_units c), val_labels = map_of (c_labels c),
     macros = map_of (c_macros c)\<rparr>"

definition rt_mem_tabs :: "rt_mem \<Rightarrow> rt_tables" where
  "rt_mem_tabs m = rt_tables_of (m_cur m)"

definition rt_mem_saved :: "rt_mem \<Rightarrow> rt_tables" where
  "rt_mem_saved m = rt_tables_of (m_base m)"

definition rt_contents_keys_ok :: "rt_contents \<Rightarrow> bool" where
  "rt_contents_keys_ok c \<longleftrightarrow> keys_distinct p_TAG (c_points c) \<and> keys_distinct p_passport_ref (c_points c)
     \<and> keys_distinct sbs_name (c_stats c) \<and> keys_distinct un_UNITY (c_units c) \<and> keys_distinct un_unityID (c_units c)
     \<and> keys_distinct (\<lambda>r. (vl_classID r, vl_valueID r)) (c_labels c) \<and> keys_distinct ce_macrosId (c_macros c)"

definition rt_mem_env :: "rt_mem rtap_env" where
  "rt_mem_env =
     \<lparr>rtap_start = (\<lambda>_. mem_start), rtap_commit = mem_commit rt_contents_keys_ok, rtap_rollback = mem_rollback,
      XDBPoint = mem_class (\<lambda>m. c_points (m_cur m)) (\<lambda>xs m. m\<lparr>m_cur := (m_cur m)\<lparr>c_points := xs\<rparr>\<rparr>) new_point_row apply_point_put,
      SBS_STAT = mem_class (\<lambda>m. c_stats (m_cur m)) (\<lambda>xs m. m\<lparr>m_cur := (m_cur m)\<lparr>c_stats := xs\<rparr>\<rparr>) new_stat_row apply_stat_put,
      SBS_ITEM = mem_class (\<lambda>m. c_items (m_cur m)) (\<lambda>xs m. m\<lparr>m_cur := (m_cur m)\<lparr>c_items := xs\<rparr>\<rparr>) new_item_row apply_item_put,
      PASSPORT = (\<lambda>k. mem_class (\<lambda>m. c_pass (m_cur m) k)
         (\<lambda>xs m. m\<lparr>m_cur := (m_cur m)\<lparr>c_pass := (c_pass (m_cur m))(k := xs)\<rparr>\<rparr>) (new_passport k) apply_pass_put),
      UNITY = mem_class (\<lambda>m. c_units (m_cur m)) (\<lambda>xs m. m\<lparr>m_cur := (m_cur m)\<lparr>c_units := xs\<rparr>\<rparr>) new_unity_row apply_unity_put,
      VAL_LABEL = mem_class (\<lambda>m. c_labels (m_cur m)) (\<lambda>xs m. m\<lparr>m_cur := (m_cur m)\<lparr>c_labels := xs\<rparr>\<rparr>) new_label_row apply_label_put,
      XDB_CE = mem_class (\<lambda>m. c_macros (m_cur m)) (\<lambda>xs m. m\<lparr>m_cur := (m_cur m)\<lparr>c_macros := xs\<rparr>\<rparr>) new_macro_row apply_macro_put,
      checkpoint = looks (\<lambda>m. if rt_contents_keys_ok (m_cur m) then Some () else None) MCO_S_DUPLICATE,
      SK_by_tag_find = (\<lambda>s. looks (\<lambda>m. first_key (\<lambda>r. p_TAG r = s) (c_points (m_cur m))) MCO_S_NOTFOUND),
      ai_read = (\<lambda>h. looks (\<lambda>m. case map_of (c_points (m_cur m)) h of Some r \<Rightarrow> map_option (\<lambda>_. ()) (p_ai r) | None \<Rightarrow> None) MCO_S_NOTFOUND),
      di_read = (\<lambda>h. looks (\<lambda>m. case map_of (c_points (m_cur m)) h of Some r \<Rightarrow> map_option (\<lambda>_. ()) (p_di r) | None \<Rightarrow> None) MCO_S_NOTFOUND),
      SA_passport_find = (\<lambda>i. looks (\<lambda>m. map_option (\<lambda>_. i) (map_of (c_pass (m_cur m) SA) i)) MCO_S_NOTFOUND),
      SA_passport_get = (\<lambda>h. looks (\<lambda>m. map_option sa_part (map_of (c_pass (m_cur m) SA) h)) MCO_S_NOTFOUND),
      unityHash_find = (\<lambda>s. looks (\<lambda>m. first_key (\<lambda>r. un_UNITY r = s) (c_units (m_cur m))) MCO_S_NOTFOUND),
      unity_by_id_find = (\<lambda>u. looks (\<lambda>m. first_key (\<lambda>r. un_unityID r = u) (c_units (m_cur m))) MCO_S_NOTFOUND),
      unity_get = (\<lambda>h. looks (\<lambda>m. map_of (c_units (m_cur m)) h) MCO_S_NOTFOUND),
      PK_by_name_find = (\<lambda>s. looks (\<lambda>m. first_key (\<lambda>r. sbs_name r = s) (c_stats (m_cur m))) MCO_S_NOTFOUND),
      by_group_cursor = looks (\<lambda>m. if c_items (m_cur m) = [] then None else Some ()) MCO_S_CURSOR_EMPTY,
      by_group_search = (\<lambda>g. looks (\<lambda>m. all_keys (\<lambda>r. it_group_id r = g) (c_items (m_cur m))) MCO_S_NOTFOUND),
      by_group_compare = (\<lambda>h g. looks (\<lambda>m. map_option (\<lambda>r. if it_group_id r = g then 0 else 1) (map_of (c_items (m_cur m)) h)) MCO_S_NOTFOUND),
      by_tag_id_cursor = looks (\<lambda>m. if c_items (m_cur m) = [] then None else Some ()) MCO_S_CURSOR_EMPTY,
      by_tag_id_search = (\<lambda>p. looks (\<lambda>m. all_keys (\<lambda>r. it_tag_id r = p) (c_items (m_cur m))) MCO_S_NOTFOUND),
      by_tag_id_compare = (\<lambda>h p. looks (\<lambda>m. map_option (\<lambda>r. if it_tag_id r = p then 0 else 1) (map_of (c_items (m_cur m)) h)) MCO_S_NOTFOUND),
      by_modified_cursor = looks (\<lambda>m. if c_points (m_cur m) = [] then None else Some ()) MCO_S_CURSOR_EMPTY,
      by_modified_search = (\<lambda>b. looks (\<lambda>m. all_keys (\<lambda>r. p_is_modified r = b) (c_points (m_cur m))) MCO_S_NOTFOUND),
      by_modified_compare = (\<lambda>h b. looks (\<lambda>m. map_option (\<lambda>r. if p_is_modified r = b then 0 else 1) (map_of (c_points (m_cur m)) h)) MCO_S_NOTFOUND),
      csr_from = (\<lambda>h. looks (\<lambda>_. Some h) MCO_S_NOTFOUND),
      csr_first = looks (\<lambda>_. Some ()) MCO_S_NOTFOUND, csr_next = looks (\<lambda>_. Some ()) MCO_S_NOTFOUND,
      csr_close = looks (\<lambda>_. Some ()) MCO_S_NOTFOUND, unopened = looks (\<lambda>_. None) (MCO_E 2)\<rparr>"

section \<open>The laws hold\<close>

lemma rt_mem_rows [simp]:
  "points (rt_mem_tabs m) = map_of (c_points (m_cur m))"
  "sbs_stats (rt_mem_tabs m) = map_of (c_stats (m_cur m))"
  "sbs_items (rt_mem_tabs m) = map_of (c_items (m_cur m))"
  "passports (rt_mem_tabs m) k = map_of (c_pass (m_cur m) k)"
  "sa_passports (rt_mem_tabs m) i = map_option sa_part (map_of (c_pass (m_cur m) SA) i)"
  "unities (rt_mem_tabs m) = map_of (c_units (m_cur m))"
  "val_labels (rt_mem_tabs m) = map_of (c_labels (m_cur m))"
  "macros (rt_mem_tabs m) = map_of (c_macros (m_cur m))"
  by (simp_all add: rt_mem_tabs_def rt_tables_of_def sa_passports_def)

lemma rt_mem_keys: "rt_keys_ok (rt_mem_tabs m) \<longleftrightarrow> rt_contents_keys_ok (m_cur m)"
  by (simp add: rt_keys_ok_def rt_contents_keys_ok_def keys_distinct_iff)

lemmas rt_mem_defs = rt_mem_tabs_def rt_mem_saved_def mem_depth_def rt_tables_of_def

lemma rt_mem_points: "class_laws rt_mem_tabs rt_mem_saved mem_depth True (XDBPoint rt_mem_env) points
    (\<lambda>m T. T\<lparr>points := m\<rparr>) new_point_row apply_point_put point_fits"
  unfolding rt_mem_env_def rtap_env.simps by (rule mem_class_laws) (simp_all add: rt_mem_defs)

lemma rt_mem_stats: "class_laws rt_mem_tabs rt_mem_saved mem_depth True (SBS_STAT rt_mem_env) sbs_stats
    (\<lambda>m T. T\<lparr>sbs_stats := m\<rparr>) new_stat_row apply_stat_put stat_fits"
  unfolding rt_mem_env_def rtap_env.simps by (rule mem_class_laws) (simp_all add: rt_mem_defs)

lemma rt_mem_items: "class_laws rt_mem_tabs rt_mem_saved mem_depth True (SBS_ITEM rt_mem_env) sbs_items
    (\<lambda>m T. T\<lparr>sbs_items := m\<rparr>) new_item_row apply_item_put (\<lambda>_. True)"
  unfolding rt_mem_env_def rtap_env.simps by (rule mem_class_laws) (simp_all add: rt_mem_defs)

lemma rt_mem_passports: "class_laws rt_mem_tabs rt_mem_saved mem_depth True (PASSPORT rt_mem_env k) (\<lambda>T. passports T k)
    (\<lambda>m T. T\<lparr>passports := (passports T)(k := m)\<rparr>) (new_passport k) apply_pass_put (pass_fits k)"
  unfolding rt_mem_env_def rtap_env.simps by (rule mem_class_laws) (auto simp: rt_mem_defs)

lemma rt_mem_unities: "class_laws rt_mem_tabs rt_mem_saved mem_depth True (UNITY rt_mem_env) unities
    (\<lambda>m T. T\<lparr>unities := m\<rparr>) new_unity_row apply_unity_put unity_fits"
  unfolding rt_mem_env_def rtap_env.simps by (rule mem_class_laws) (simp_all add: rt_mem_defs)

lemma rt_mem_labels: "class_laws rt_mem_tabs rt_mem_saved mem_depth True (VAL_LABEL rt_mem_env) val_labels
    (\<lambda>m T. T\<lparr>val_labels := m\<rparr>) new_label_row apply_label_put label_fits"
  unfolding rt_mem_env_def rtap_env.simps by (rule mem_class_laws) (simp_all add: rt_mem_defs)

lemma rt_mem_macros: "class_laws rt_mem_tabs rt_mem_saved mem_depth True (XDB_CE rt_mem_env) macros
    (\<lambda>m T. T\<lparr>macros := m\<rparr>) new_macro_row apply_macro_put macro_fits"
  unfolding rt_mem_env_def rtap_env.simps by (rule mem_class_laws) (simp_all add: rt_mem_defs)

text \<open>A search through an index finds every row with the key.\<close>

lemma obeys_all_keys:
  assumes "\<And>m h. K (tabs m) h \<longleftrightarrow> (\<exists>r. map_of (get m) h = Some r \<and> P r)" and "\<And>m. D (tabs m) = map_of (get m)"
  shows "obeys tabs saved depth (looks (\<lambda>m. all_keys P (get m)) MCO_S_NOTFOUND)
     (reads (\<lambda>T hs. hs \<noteq> [] \<and> distinct hs \<and> set hs \<subseteq> dom (D T) \<and> Collect (K T) \<subseteq> set hs))
     (\<lambda>T rc. (rc = MCO_S_NOTFOUND \<longrightarrow> Collect (K T) = {}) \<and> (True \<longrightarrow> rc = MCO_S_NOTFOUND))"
proof (rule obeys_looks, goal_cases)
  case (1 m hs)
  from all_keys_Some [OF this] show ?case by (auto simp: assms)
next
  case (3 m)
  from all_keys_None [OF this] show ?case by (auto simp: assms)
qed simp

interpretation rt_mem: rtap_laws rt_mem_env rt_mem_tabs rt_mem_saved mem_depth True
proof (intro rtap_laws.intro rt_mem_points rt_mem_stats rt_mem_items rt_mem_unities rt_mem_labels
    rt_mem_macros rtap_laws_axioms.intro, goal_cases)
  case (1 c)
  show ?case by (rule rt_mem_passports)
next
  case (2 m d)
  show ?case by (simp add: rt_mem_env_def mem_start_def wp_def view_def rt_mem_tabs_def rt_mem_saved_def mem_depth_def)
next
  case (3 d)
  show ?case
    using rt_mem_keys [of d]
    by (auto simp: rt_mem_env_def mem_commit_def wp_def view_def rt_mem_tabs_def rt_mem_saved_def mem_depth_def)
next
  case (4 d)
  show ?case by (auto simp: rt_mem_env_def mem_rollback_def rt_mem_tabs_def rt_mem_saved_def mem_depth_def)
next
  case (5 d)
  show ?case by (auto simp: rt_mem_env_def mem_rollback_def view_def rt_mem_tabs_def rt_mem_saved_def mem_depth_def)
next
  case 6
  show ?case unfolding rt_mem_env_def rtap_env.simps by (rule obeys_looks) (auto simp: rt_mem_keys split: if_splits)
next
  case (17 g)
  show ?case unfolding rt_mem_env_def rtap_env.simps by (rule obeys_all_keys) (auto simp: in_group_def)
next
  case (20 p)
  show ?case unfolding rt_mem_env_def rtap_env.simps by (rule obeys_all_keys) (auto simp: links_point_def)
next
  case (23 b)
  show ?case unfolding rt_mem_env_def rtap_env.simps by (rule obeys_all_keys) (auto simp: marked_def)
qed (unfold rt_mem_env_def rtap_env.simps; rule obeys_looks;
     auto simp: in_group_def links_point_def marked_def dest: first_key_Some first_key_None
       split: if_splits option.splits)+

section \<open>An engine that fails\<close>

definition rt_flaky :: "'d rtap_env \<Rightarrow> ('d \<times> bool list) rtap_env" where
  "rt_flaky E =
     \<lparr>rtap_start = (\<lambda>m. flake (rtap_start E m)), rtap_commit = flake (rtap_commit E),
      rtap_rollback = (\<lambda>b (d, script). case rtap_rollback E b d of (r, d') \<Rightarrow> (r, (d', script))),
      XDBPoint = flaky_class (XDBPoint E), SBS_STAT = flaky_class (SBS_STAT E), SBS_ITEM = flaky_class (SBS_ITEM E),
      PASSPORT = (\<lambda>k. flaky_class (PASSPORT E k)), UNITY = flaky_class (UNITY E), VAL_LABEL = flaky_class (VAL_LABEL E),
      XDB_CE = flaky_class (XDB_CE E),
      checkpoint = flake (checkpoint E), SK_by_tag_find = (\<lambda>s. flake (SK_by_tag_find E s)),
      ai_read = (\<lambda>h. flake (ai_read E h)), di_read = (\<lambda>h. flake (di_read E h)),
      SA_passport_find = (\<lambda>i. flake (SA_passport_find E i)), SA_passport_get = (\<lambda>h. flake (SA_passport_get E h)),
      unityHash_find = (\<lambda>s. flake (unityHash_find E s)), unity_by_id_find = (\<lambda>u. flake (unity_by_id_find E u)),
      unity_get = (\<lambda>h. flake (unity_get E h)), PK_by_name_find = (\<lambda>s. flake (PK_by_name_find E s)),
      by_group_cursor = flake (by_group_cursor E), by_group_search = (\<lambda>g. flake (by_group_search E g)),
      by_group_compare = (\<lambda>h g. flake (by_group_compare E h g)), by_tag_id_cursor = flake (by_tag_id_cursor E),
      by_tag_id_search = (\<lambda>p. flake (by_tag_id_search E p)), by_tag_id_compare = (\<lambda>h p. flake (by_tag_id_compare E h p)),
      by_modified_cursor = flake (by_modified_cursor E), by_modified_search = (\<lambda>b. flake (by_modified_search E b)),
      by_modified_compare = (\<lambda>h b. flake (by_modified_compare E h b)), csr_from = (\<lambda>h. flake (csr_from E h)),
      csr_first = flake (csr_first E), csr_next = flake (csr_next E), csr_close = flake (csr_close E),
      unopened = flake (unopened E)\<rparr>"

context rtap_laws
begin

lemma rt_flaky_laws: "rtap_laws (rt_flaky E) (tabs \<circ> fst) (saved \<circ> fst) (depth \<circ> fst) False"
proof (intro rtap_laws.intro rtap_laws_axioms.intro, goal_cases)
  case 1
  show ?case unfolding rt_flaky_def rtap_env.simps by (rule pts.flaky_class_laws)
next
  case 2
  show ?case unfolding rt_flaky_def rtap_env.simps by (rule sts.flaky_class_laws)
next
  case 3
  show ?case unfolding rt_flaky_def rtap_env.simps by (rule itm.flaky_class_laws)
next
  case 4
  show ?case unfolding rt_flaky_def rtap_env.simps by (rule uni.flaky_class_laws)
next
  case 5
  show ?case unfolding rt_flaky_def rtap_env.simps by (rule lab.flaky_class_laws)
next
  case 6
  show ?case unfolding rt_flaky_def rtap_env.simps by (rule mac.flaky_class_laws)
next
  case (7 c)
  show ?case unfolding rt_flaky_def rtap_env.simps by (rule class_laws.flaky_class_laws [OF passport])
next
  case (8 m d)
  show ?case
    unfolding rt_flaky_def rtap_env.simps
    by (rule wp_flake, rule wp_mono [OF start]) (auto simp: view_def)
next
  case (9 d)
  show ?case
    unfolding rt_flaky_def rtap_env.simps
    by (rule wp_flake, rule wp_mono [OF commit]) (auto simp: view_def)
next
  case (10 d)
  show ?case
    using rollback [of "fst d"] by (cases d) (auto simp: rt_flaky_def split: prod.splits)
next
  case (11 d)
  show ?case
    using rollback_unopened [of "fst d"] by (cases d) (auto simp: rt_flaky_def view_def split: prod.splits)
qed (unfold rt_flaky_def rtap_env.simps, (rule obeys_flake, rule checkpoint find_tag ai_part di_part sa_find sa_get
     unity_label unity_id unity_row find_group group_cursor group_search group_compare tag_id_cursor tag_id_search
     tag_id_compare modified_cursor modified_search modified_compare csr_from csr_first csr_next csr_close unopened, simp, simp)+)

end

interpretation rt_flaky_mem: rtap_laws "rt_flaky rt_mem_env" "rt_mem_tabs \<circ> fst" "rt_mem_saved \<circ> fst" "mem_depth \<circ> fst" False
  by (rule rt_mem.rt_flaky_laws)

end
