(* ===== verification/RtapSubscriptions.thy ===== *)
theory RtapSubscriptions
  imports RtapGroupLaws RtapMem
begin

text \<open>
  Properties of subscription groups: what creating and deleting a group does to the tables, which
  groups a poll reports, and what disarming one group takes from the others.
\<close>

section \<open>Outcomes\<close>

text \<open>The state between requests: no transaction is open, and the unique keys are kept.\<close>

definition at_rest :: "('d \<Rightarrow> rt_tables) \<Rightarrow> ('d \<Rightarrow> rt_tables) \<Rightarrow> ('d \<Rightarrow> nat) \<Rightarrow> 'd \<Rightarrow> bool" where
  "at_rest tabs saved depth d \<longleftrightarrow> depth d = 0 \<and> saved d = tabs d \<and> rt_keys_ok (tabs d)"

lemma at_rest_at: "at_rest tabs saved depth d \<Longrightarrow> view tabs saved depth (tabs d) (tabs d) 0 d"
  by (simp add: at_rest_def view_def)

lemma at_at_rest: "view tabs saved depth T T 0 d \<Longrightarrow> rt_keys_ok T \<Longrightarrow> at_rest tabs saved depth d \<and> tabs d = T"
  by (simp add: at_rest_def view_def)

lemma wp_run:
  assumes "wp m (\<lambda>x s. P x (fst s) (snd s)) (\<lambda>_ _. False) (q, d)"
  shows "\<exists>x q' d'. m (q, d) = (Inr x, (q', d')) \<and> P x q' d'"
  using assms by (cases "m (q, d)") (auto simp: wp_def split: sum.splits prod.splits)

text \<open>The points of a request that is answered, and its effect.\<close>

lemma create_outcome:
  assumes "rtap_laws E tabs saved depth True" and "at_rest tabs saved depth d" and "stat_fits (PutSbsName name)"
    and "\<nexists>g. group_name (tabs d) name g"
  shows "\<exists>g d'. createGroup E name tags (q, d) = (Inr MCO_S_OK, (q\<lparr>o_error := rtE_NONE\<rparr>, d'))
     \<and> sbs_stats (tabs d) g = None \<and> links g (stat_row g \<lparr>sbs_name = name, sbs_state = ENABLE\<rparr> (tabs d)) tags (tabs d')
     \<and> at_rest tabs saved depth d'"
proof -
  have keys: "rt_keys_ok (tabs d)" using assms(2) by (simp add: at_rest_def)
  have "wp (createGroup E name tags) (\<lambda>rc s. rc = MCO_S_OK \<and> fst s = q\<lparr>o_error := rtE_NONE\<rparr> \<and> (\<exists>g. sbs_stats (tabs d) g = None
      \<and> links g (stat_row g \<lparr>sbs_name = name, sbs_state = ENABLE\<rparr> (tabs d)) tags (tabs (snd s)) \<and> at_rest tabs saved depth (snd s)))
      (\<lambda>_ _. False) (q, d)"
  proof (rule rtap_laws.wp_createGroup [OF assms(1) at_rest_at [OF assms(2)] TrueI keys assms(3,4)], goal_cases)
    case (1 g T' d')
    have "rt_keys_ok T'"
      using links_rows [OF 1(2)] stat_row_keys [OF keys assms(4) 1(1), of ENABLE] by (simp add: rt_keys_ok_def)
    with 1 at_at_rest [OF 1(3)] show ?case by auto
  qed
  from wp_run [where P = "\<lambda>rc q' d'. rc = MCO_S_OK \<and> q' = q\<lparr>o_error := rtE_NONE\<rparr> \<and> (\<exists>g. sbs_stats (tabs d) g = None
      \<and> links g (stat_row g \<lparr>sbs_name = name, sbs_state = ENABLE\<rparr> (tabs d)) tags (tabs d') \<and> at_rest tabs saved depth d')", OF this]
  show ?thesis by blast
qed

lemma delete_outcome:
  assumes "rtap_laws E tabs saved depth True" and "at_rest tabs saved depth d" and "group_name (tabs d) name g"
  shows "\<exists>d'. deleteGroup E name (q, d) = (Inr MCO_S_OK, (q\<lparr>o_error := rtE_NONE\<rparr>, d'))
     \<and> tabs d' = without_group g (tabs d) \<and> at_rest tabs saved depth d'"
proof -
  have keys: "rt_keys_ok (tabs d)" using assms(2) by (simp add: at_rest_def)
  have "wp (deleteGroup E name) (\<lambda>rc s. rc = MCO_S_OK \<and> fst s = q\<lparr>o_error := rtE_NONE\<rparr>
      \<and> tabs (snd s) = without_group g (tabs d) \<and> at_rest tabs saved depth (snd s)) (\<lambda>_ _. False) (q, d)"
  proof (rule rtap_laws.wp_deleteGroup [OF assms(1) at_rest_at [OF assms(2)] TrueI keys assms(3)], goal_cases)
    case (1 d')
    from at_at_rest [OF this without_group_keys [OF keys]] show ?case by simp
  qed
  from wp_run [where P = "\<lambda>rc q' d'. rc = MCO_S_OK \<and> q' = q\<lparr>o_error := rtE_NONE\<rparr>
      \<and> tabs d' = without_group g (tabs d) \<and> at_rest tabs saved depth d'", OF this]
  show ?thesis by blast
qed

lemma query_outcome:
  assumes "rtap_laws E tabs saved depth True" and "at_rest tabs saved depth d" and "rt_keys_ok T'"
    and "\<And>d1. view tabs saved depth (tabs d) (tabs d) 1 d1
      \<Longrightarrow> wp steps (\<lambda>_ s. fst s = q' \<and> view tabs saved depth T' (tabs d) 1 (snd s)) (\<lambda>_ _. False) (q, d1)"
  shows "\<exists>d'. rt_query E mode steps (q, d) = (Inr MCO_S_OK, (q', d')) \<and> tabs d' = T' \<and> at_rest tabs saved depth d'"
proof -
  have "wp (rt_query E mode steps) (\<lambda>rc s. rc = MCO_S_OK \<and> fst s = q' \<and> tabs (snd s) = T' \<and> at_rest tabs saved depth (snd s))
      (\<lambda>_ _. False) (q, d)"
  proof (rule rtap_laws.wp_rt_query [OF assms(1) at_rest_at [OF assms(2)] TrueI assms(3,4)], assumption, goal_cases)
    case (1 d')
    from at_at_rest [OF this assms(3)] show ?case by simp
  qed
  from wp_run [where P = "\<lambda>rc p d'. rc = MCO_S_OK \<and> p = q' \<and> tabs d' = T' \<and> at_rest tabs saved depth d'", OF this]
  show ?thesis by blast
qed

lemma armed_outcome:
  assumes "rtap_laws E tabs saved depth True" and "at_rest tabs saved depth d" and "refs_ok (tabs d)"
  shows "\<exists>d'. querySbsArmedGroup E (q, d) = (Inr MCO_S_OK, (q\<lparr>o_map := armed_groups (o_behind q) (tabs d)\<rparr>, d'))
     \<and> tabs d' = tabs d \<and> at_rest tabs saved depth d'"
proof -
  have keys: "rt_keys_ok (tabs d)" using assms(2) by (simp add: at_rest_def)
  have none: "groups_of (o_behind q) (tabs d) {} = Map.empty" by (simp add: groups_of_def)
  have "\<exists>d'. rt_query E MCO_READ_ONLY (walk_modified E (note_group E)) (q\<lparr>o_map := Map.empty\<rparr>, d)
      = (Inr MCO_S_OK, (q\<lparr>o_map := armed_groups (o_behind q) (tabs d)\<rparr>, d')) \<and> tabs d' = tabs d \<and> at_rest tabs saved depth d'"
  proof (rule query_outcome [OF assms(1,2) keys], goal_cases)
    case (1 d1)
    from rtap_laws.wp_walk_modified [OF assms(1) rtap_laws.visits_armed [OF assms(1) TrueI assms(3), of q] TrueI 1]
    show ?case
      by (simp add: none armed_groups_def rtap_laws.reached_def [OF assms(1), abs_def])
  qed
  then show ?thesis by (auto simp: querySbsArmedGroup_def prog_defs)
qed

lemma disarm_outcome:
  assumes "rtap_laws E tabs saved depth True" and "at_rest tabs saved depth d" and "group_name (tabs d) name g"
  shows "\<exists>d'. querySbsPoints E load rtQUERY_SBS_POINTS_DISARM name (q, d) = (Inr MCO_S_OK, (q, d'))
     \<and> tabs d' = unflag (group_points (tabs d) g) (tabs d) \<and> at_rest tabs saved depth d'"
proof -
  have keys: "rt_keys_ok (tabs d)" using assms(2) by (simp add: at_rest_def)
  have all: "unflag (members (tabs d) g (memberships (tabs d))) (tabs d) = unflag (group_points (tabs d) g) (tabs d)"
    by (simp add: members_all unflag_marked)
  have none: "unflag (members (tabs d) g {}) (tabs d) = tabs d" by (simp add: members_def unflag_none)
  have "\<exists>d'. rt_query E MCO_READ_WRITE (bnd (db (PK_by_name_find E name)) (\<lambda>stat. bnd (db (c_autoid_get (SBS_STAT E) stat))
        (\<lambda>g. walk_modified E (visit_group E load rtQUERY_SBS_POINTS_DISARM g)))) (q, d)
      = (Inr MCO_S_OK, (q, d')) \<and> tabs d' = unflag (group_points (tabs d) g) (tabs d) \<and> at_rest tabs saved depth d'"
  proof (rule query_outcome [OF assms(1,2) unflag_keys [OF keys]], rule rtap_laws.wp_named_group [OF assms(1) _ TrueI keys assms(3)], assumption, goal_cases)
    case (1 d1 d2)
    have "view tabs saved depth (unflag (members (tabs d) g {}) (tabs d)) (tabs d) 1 d2" using 1(2) none by simp
    from rtap_laws.wp_walk_modified [OF assms(1) rtap_laws.visits_disarm [OF assms(1) TrueI, where g = g and load = load] TrueI this]
    show ?case by (simp add: all rtap_laws.reached_def [OF assms(1), abs_def])
  qed
  then show ?thesis by (auto simp: querySbsPoints_def prog_defs)
qed

lemma points_outcome:
  assumes "rtap_laws E tabs saved depth True" and "at_rest tabs saved depth d" and "group_name (tabs d) name g"
  shows "\<exists>d'. querySbsPoints E load rtQUERY_SBS_POINTS_ARMED name (q, d)
       = (Inr MCO_S_OK, (q\<lparr>o_map := tags_of (o_behind q) (tabs d) {p \<in> group_points (tabs d) g. marked (tabs d) True p}\<rparr>, d'))
     \<and> tabs d' = tabs d \<and> at_rest tabs saved depth d'"
proof -
  have keys: "rt_keys_ok (tabs d)" using assms(2) by (simp add: at_rest_def)
  have none: "tags_of (o_behind q) (tabs d) (members (tabs d) g {}) = Map.empty" by (simp add: members_def tags_of_def)
  have "\<exists>d'. rt_query E MCO_READ_ONLY (bnd (db (PK_by_name_find E name)) (\<lambda>stat. bnd (db (c_autoid_get (SBS_STAT E) stat))
        (\<lambda>g. walk_modified E (visit_group E load rtQUERY_SBS_POINTS_ARMED g)))) (q\<lparr>o_map := Map.empty\<rparr>, d)
      = (Inr MCO_S_OK, (q\<lparr>o_map := tags_of (o_behind q) (tabs d) {p \<in> group_points (tabs d) g. marked (tabs d) True p}\<rparr>, d'))
     \<and> tabs d' = tabs d \<and> at_rest tabs saved depth d'"
  proof (rule query_outcome [OF assms(1,2) keys], rule rtap_laws.wp_named_group [OF assms(1) _ TrueI keys assms(3)], assumption, goal_cases)
    case (1 d1 d2)
    from rtap_laws.wp_walk_modified [OF assms(1) rtap_laws.visits_points [OF assms(1) TrueI, where g = g and load = load and q = q] TrueI 1(2)]
    show ?case by (simp add: none members_all rtap_laws.reached_def [OF assms(1), abs_def])
  qed
  then show ?thesis by (auto simp: querySbsPoints_def prog_defs)
qed

lemma selected_outcome:
  assumes "rtap_laws E tabs saved depth True" and "at_rest tabs saved depth d"
  shows "\<exists>d'. querySbsDisarmSelectedPoints E tags (q, d) = (Inr MCO_S_OK, (q, d'))
     \<and> tabs d' = unflag (tagged (tabs d) (takeWhile (known_tag (tabs d)) tags)) (tabs d) \<and> at_rest tabs saved depth d'"
proof -
  have keys: "rt_keys_ok (tabs d)" using assms(2) by (simp add: at_rest_def)
  have "wp (querySbsDisarmSelectedPoints E tags) (\<lambda>rc s. rc = MCO_S_OK \<and> fst s = q
      \<and> tabs (snd s) = unflag (tagged (tabs d) (takeWhile (known_tag (tabs d)) tags)) (tabs d) \<and> at_rest tabs saved depth (snd s))
      (\<lambda>_ _. False) (q, d)"
  proof (rule rtap_laws.wp_disarm_selected [OF assms(1) at_rest_at [OF assms(2)] TrueI keys], goal_cases)
    case (1 d')
    from at_at_rest [OF this unflag_keys [OF keys]] show ?case by simp
  qed
  from wp_run [where P = "\<lambda>rc p d'. rc = MCO_S_OK \<and> p = q
      \<and> tabs d' = unflag (tagged (tabs d) (takeWhile (known_tag (tabs d)) tags)) (tabs d) \<and> at_rest tabs saved depth d'", OF this]
  show ?thesis by blast
qed

lemma again_outcome:
  assumes "rtap_laws E tabs saved depth True" and "at_rest tabs saved depth d" and "group_name (tabs d) name g"
  shows "\<exists>d'. createGroup E name tags (q, d) = (Inr MCO_S_OK, (q\<lparr>o_error := rtE_RUNTIME_ERROR\<rparr>, d'))
     \<and> tabs d' = tabs d \<and> depth d' = 1"
proof -
  have "wp (createGroup E name tags) (\<lambda>rc s. rc = MCO_S_OK \<and> fst s = q\<lparr>o_error := rtE_RUNTIME_ERROR\<rparr>
      \<and> tabs (snd s) = tabs d \<and> depth (snd s) = 1) (\<lambda>_ _. False) (q, d)"
    by (rule rtap_laws.wp_createGroup_again [OF assms(1) at_rest_at [OF assms(2)] TrueI assms(3)]) (simp add: view_def)
  from wp_run [where P = "\<lambda>rc q' d'. rc = MCO_S_OK \<and> q' = q\<lparr>o_error := rtE_RUNTIME_ERROR\<rparr> \<and> tabs d' = tabs d \<and> depth d' = 1", OF this]
  show ?thesis by blast
qed

text \<open>Requests seen from outside: the object's error code is what the caller gets.\<close>

lemma request_runs:
  "Config E ct rtCONFIG_ADD_GROUP_SBS name tags (q, d)
     = (case createGroup E name tags (q\<lparr>o_error := rtE_NONE\<rparr>, d) of (Inl f, s) \<Rightarrow> (Inl f, s) | (Inr _, s) \<Rightarrow> (Inr (o_error (fst s)), s))"
  "Config E ct rtCONFIG_DEL_GROUP_SBS name tags (q, d)
     = (case deleteGroup E name (q\<lparr>o_error := rtE_NONE\<rparr>, d) of (Inl f, s) \<Rightarrow> (Inl f, s) | (Inr _, s) \<Rightarrow> (Inr (o_error (fst s)), s))"
  "Query E load rtQUERY_SBS_LIST_ARMED tags (q, d)
     = (case querySbsArmedGroup E (q\<lparr>o_error := rtE_NONE\<rparr>, d) of (Inl f, s) \<Rightarrow> (Inl f, s) | (Inr _, s) \<Rightarrow> (Inr (o_error (fst s)), s))"
  "Query E load rtQUERY_SBS_POINTS_DISARM [name] (q, d)
     = (case querySbsPoints E load rtQUERY_SBS_POINTS_DISARM name (q\<lparr>o_error := rtE_NONE\<rparr>, d) of
          (Inl f, s) \<Rightarrow> (Inl f, s) | (Inr _, s) \<Rightarrow> (Inr (o_error (fst s)), s))"
  "Query E load rtQUERY_SBS_POINTS_ARMED [name] (q, d)
     = (case querySbsPoints E load rtQUERY_SBS_POINTS_ARMED name (q\<lparr>o_error := rtE_NONE\<rparr>, d) of
          (Inl f, s) \<Rightarrow> (Inl f, s) | (Inr _, s) \<Rightarrow> (Inr (o_error (fst s)), s))"
  "Query E load rtQUERY_SBS_POINTS_DISARM_BY_LIST tags (q, d)
     = (case querySbsDisarmSelectedPoints E tags (q\<lparr>o_error := rtE_NONE\<rparr>, d) of
          (Inl f, s) \<Rightarrow> (Inl f, s) | (Inr _, s) \<Rightarrow> (Inr (o_error (fst s)), s))"
  by (auto simp: Config_def rt_config_call_def Query_def rt_query_call_def prog_defs check_def split: prod.splits sum.splits)

text \<open>The group a request creates.\<close>

lemma fresh_group: "refs_ok T \<Longrightarrow> sbs_stats T g = None \<Longrightarrow> \<not> in_group T g i \<and> group_points T g = {}"
  by (fastforce simp: refs_ok_def in_group_def group_points_def)

lemma created_group:
  assumes "rtap_laws E tabs saved depth True" and "at_rest tabs saved depth d" and "refs_ok (tabs d)"
    and "stat_fits (PutSbsName name)" and "\<nexists>g. group_name (tabs d) name g"
  shows "\<exists>g d'. Config E ct rtCONFIG_ADD_GROUP_SBS name tags (q, d) = (Inr rtE_NONE, (q\<lparr>o_error := rtE_NONE\<rparr>, d'))
     \<and> sbs_stats (tabs d) g = None \<and> sbs_stats (tabs d') = (sbs_stats (tabs d))(g \<mapsto> \<lparr>sbs_name = name, sbs_state = ENABLE\<rparr>)
     \<and> group_points (tabs d') = (group_points (tabs d))(g := tagged (tabs d) (takeWhile (known_tag (tabs d)) tags)
          \<union> (if \<forall>tag \<in> set tags. known_tag (tabs d) tag then {} else {0}))
     \<and> points (tabs d') = points (tabs d) \<and> at_rest tabs saved depth d'"
proof -
  obtain g d' where new: "createGroup E name tags (q\<lparr>o_error := rtE_NONE\<rparr>, d) = (Inr MCO_S_OK, (q\<lparr>o_error := rtE_NONE\<rparr>, d'))"
    and g: "sbs_stats (tabs d) g = None"
    and links: "links g (stat_row g \<lparr>sbs_name = name, sbs_state = ENABLE\<rparr> (tabs d)) tags (tabs d')"
    and rest: "at_rest tabs saved depth d'"
    using create_outcome [OF assms(1,2,4,5), of tags "q\<lparr>o_error := rtE_NONE\<rparr>"] by auto
  have "unique_on p_TAG (points (tabs d))" using assms(2) by (simp add: at_rest_def rt_keys_ok_def)
  with links_points [OF links] fresh_group [OF assms(3) g] links_rows [OF links]
  have "group_points (tabs d') = (group_points (tabs d))(g := tagged (tabs d) (takeWhile (known_tag (tabs d)) tags)
          \<union> (if \<forall>tag \<in> set tags. known_tag (tabs d) tag then {} else {0}))"
    by (intro ext) simp
  with new g rest links_rows [OF links] show ?thesis by (auto simp: request_runs)
qed

lemma without_created:
  assumes "links g (stat_row g r T) tags T'" and "sbs_stats T g = None" and "refs_ok T"
  shows "without_group g T' = T"
proof -
  have "sbs_items T' |` {i. \<not> in_group T' g i} = sbs_items T"
    using links_rows [OF assms(1)] fresh_group [OF assms(3,2)] by (simp add: restrict_map_def)
  moreover have "- {i. in_group T' g i} = {i. \<not> in_group T' g i}" by blast
  moreover have "(sbs_stats T')(g := None) = sbs_stats T" using links_rows [OF assms(1)] assms(2) by auto
  ultimately show ?thesis
    using links_rows [OF assms(1)] by (intro rt_tables.equality) (simp_all add: without_group_def without_items_def)
qed

section \<open>An example\<close>

definition yard_point :: "string \<Rightarrow> int \<Rightarrow> bool \<Rightarrow> xdb_point" where
  "yard_point tag i b = new_point_row\<lparr>p_TAG := tag, p_passport_ref := i, p_is_modified := b\<rparr>"

definition blank :: "unit request" where
  "blank = \<lparr>o_error = rtE_NONE, o_map = Map.empty, o_points = [], o_behind = ''''\<rparr>"

lemma blank_simps [simp]: "blank\<lparr>o_error := rtE_NONE\<rparr> = blank" "blank\<lparr>o_map := Map.empty\<rparr> = blank"
  by (simp_all add: blank_def)

text \<open>Changed points \<open>A\<close> and \<open>B\<close>, an unchanged \<open>C\<close>; \<open>A\<close> is in two groups.\<close>

definition yard :: rt_contents where
  "yard = \<lparr>c_points = [(1, yard_point ''A'' 1 True), (2, yard_point ''B'' 2 True), (3, yard_point ''C'' 3 False)],
     c_stats = [(5, \<lparr>sbs_name = ''G'', sbs_state = ENABLE\<rparr>), (6, \<lparr>sbs_name = ''H'', sbs_state = ENABLE\<rparr>)],
     c_items = [(11, \<lparr>it_group_id = 5, it_tag_id = 1\<rparr>), (12, \<lparr>it_group_id = 6, it_tag_id = 1\<rparr>), (13, \<lparr>it_group_id = 6, it_tag_id = 3\<rparr>)],
     c_pass = (\<lambda>_. []), c_units = [], c_labels = [], c_macros = []\<rparr>"

lemma yard_at_rest [simp]: "at_rest rt_mem_tabs rt_mem_saved mem_depth (mem_with yard)"
  by (simp add: at_rest_def rt_mem_tabs_def rt_mem_saved_def mem_depth_def mem_with_def rt_mem_keys [unfolded rt_mem_tabs_def]
      rt_contents_keys_ok_def yard_def yard_point_def keys_distinct_def rt_keys_ok_def rt_tables_of_def unique_on_def)

lemma yard_tables [simp]: "rt_mem_tabs (mem_with yard) = rt_tables_of yard"
  by (simp add: rt_mem_tabs_def mem_with_def)

lemma yard_rows [simp]:
  "sbs_stats (rt_tables_of yard) = [5 \<mapsto> \<lparr>sbs_name = ''G'', sbs_state = ENABLE\<rparr>, 6 \<mapsto> \<lparr>sbs_name = ''H'', sbs_state = ENABLE\<rparr>]"
  "sbs_items (rt_tables_of yard) = [11 \<mapsto> \<lparr>it_group_id = 5, it_tag_id = 1\<rparr>, 12 \<mapsto> \<lparr>it_group_id = 6, it_tag_id = 1\<rparr>,
     13 \<mapsto> \<lparr>it_group_id = 6, it_tag_id = 3\<rparr>]"
  "points (rt_tables_of yard) = [1 \<mapsto> yard_point ''A'' 1 True, 2 \<mapsto> yard_point ''B'' 2 True, 3 \<mapsto> yard_point ''C'' 3 False]"
  by (auto simp: rt_tables_of_def yard_def fun_eq_iff)

lemma yard_refs [simp]: "refs_ok (rt_tables_of yard)"
  by (auto simp: refs_ok_def split: if_splits)

lemma yard_group [simp]: "group_name (rt_tables_of yard) name g \<longleftrightarrow> (name, g) \<in> {(''G'', 5), (''H'', 6)}"
  by (auto simp: group_name_def)

lemma yard_points [simp]: "group_points (rt_tables_of yard) g = (if g = 5 then {1} else if g = 6 then {1, 3} else {})"
  by (auto simp: group_points_iff ran_map_upd)

text \<open>The groups with a changed point outside the group \<open>g\<close>.\<close>

definition armed_outside :: "string \<Rightarrow> int \<Rightarrow> rt_tables \<Rightarrow> int \<rightharpoonup> string" where
  "armed_outside b g T = (\<lambda>h. if \<exists>p. p \<in> group_points T h - group_points T g \<and> marked T True p then armed_groups b T h else None)"

lemma armed_after_disarming: "armed_groups b (unflag (group_points T g) T) = armed_outside b g T"
  by (auto simp: fun_eq_iff armed_outside_def armed_groups_def groups_of_def memberships_def marked_unflag group_points_def
      links_point_def in_group_def split: option.splits)

lemma armed_groups_iff:
  "armed_groups b T g = Some name \<longleftrightarrow> (\<exists>p. p \<in> group_points T g \<and> marked T True p)
     \<and> (\<exists>st. sbs_stats T g = Some st \<and> sbs_state st = ENABLE \<and> name = from_buffer LABEL_MAXLEN b (sbs_name st))"
  by (auto simp: armed_groups_def groups_of_def memberships_def group_points_def split: option.splits)

lemma known_tag_ran: "known_tag T tag \<longleftrightarrow> tag \<in> p_TAG ` ran (points T)"
  by (force simp: known_tag_def ran_def)

lemma yard_flags [simp]: "marked (rt_tables_of yard) True p \<longleftrightarrow> p = 1 \<or> p = 2"
  by (auto simp: marked_def yard_point_def)

lemma yard_armed [simp]: "armed_groups b (rt_tables_of yard) = [5 \<mapsto> ''G'', 6 \<mapsto> ''H'']"
proof
  fix g
  have "armed_groups b (rt_tables_of yard) g = Some name \<longleftrightarrow> [5 \<mapsto> ''G'', 6 \<mapsto> ''H''] g = Some name" for name
    by (auto simp: armed_groups_iff LABEL_MAXLEN_def from_buffer_def strncpy_def c_str_def NUL_def)
  then show "armed_groups b (rt_tables_of yard) g = [5 \<mapsto> ''G'', 6 \<mapsto> ''H''] g"
    by (cases "armed_groups b (rt_tables_of yard) g"; cases "[5 \<mapsto> ''G'', 6 \<mapsto> ''H''] g"; metis option.distinct(1))
qed

lemma yard_armed_outside [simp]: "armed_outside b 5 (rt_tables_of yard) = Map.empty"
  by (auto simp: armed_outside_def fun_eq_iff)

lemma yard_tags [simp]:
  "known_tag (rt_tables_of yard) tag \<longleftrightarrow> tag \<in> {''A'', ''B'', ''C''}"
  "tagged (rt_tables_of yard) tags = (if ''A'' \<in> set tags then {1} else {}) \<union> (if ''B'' \<in> set tags then {2} else {})
     \<union> (if ''C'' \<in> set tags then {3} else {})"
  by (auto simp: known_tag_ran tagged_def yard_point_def ran_map_upd split: if_splits)

section \<open>Properties\<close>

text \<open>C9. A poll of a client reports exactly the groups that are enabled and contain a changed point
  (\<open>armed_groups\<close>), and changes nothing.  Each is reported under its name (up to the first NUL), except that a
  name of exactly 100 characters, which the code does not terminate, is followed by what the memory
  behind the buffer holds up to its first NUL (\<open>from_buffer\<close>).\<close>

theorem armed_groups_are_reported:
  assumes "rtap_laws E tabs saved depth True" and "at_rest tabs saved depth d" and "refs_ok (tabs d)"
  shows "\<exists>d'. Query E load rtQUERY_SBS_LIST_ARMED tags (q, d)
       = (Inr rtE_NONE, (q\<lparr>o_error := rtE_NONE, o_map := armed_groups (o_behind q) (tabs d)\<rparr>, d'))
     \<and> tabs d' = tabs d \<and> at_rest tabs saved depth d'"
  using armed_outcome [OF assms, of "q\<lparr>o_error := rtE_NONE\<rparr>"] by (auto simp: request_runs)

theorem armed_groups_are_reported_witness:
  "\<exists>d'. Query rt_mem_env (\<lambda>_. ret ()) rtQUERY_SBS_LIST_ARMED [] (blank, mem_with yard)
     = (Inr rtE_NONE, (blank\<lparr>o_map := [5 \<mapsto> ''G'', 6 \<mapsto> ''H'']\<rparr>, d'))
     \<and> rt_mem_tabs d' = rt_tables_of yard \<and> at_rest rt_mem_tabs rt_mem_saved mem_depth d'"
  using armed_groups_are_reported [OF rt_mem.rtap_laws_axioms yard_at_rest, of "\<lambda>_. ret ()" "[]"
      blank] by simp

text \<open>C10. Disarming a group resets the flags of its points and nothing else, and a poll after it
  reports exactly the enabled groups with a changed point outside the disarmed group.  So the
  other groups that share a point with it are never told of the change.\<close>

theorem disarming_takes_from_other_groups:
  assumes "rtap_laws E tabs saved depth True" and "at_rest tabs saved depth d" and "refs_ok (tabs d)"
    and "group_name (tabs d) name g"
  shows "\<exists>d'. Query E load rtQUERY_SBS_POINTS_DISARM [name] (q, d) = (Inr rtE_NONE, (q\<lparr>o_error := rtE_NONE\<rparr>, d'))
     \<and> tabs d' = unflag (group_points (tabs d) g) (tabs d)
     \<and> (\<exists>d2. Query E load rtQUERY_SBS_LIST_ARMED [] (q, d')
         = (Inr rtE_NONE, (q\<lparr>o_error := rtE_NONE, o_map := armed_outside (o_behind q) g (tabs d)\<rparr>, d2)))"
proof -
  obtain d' where run: "querySbsPoints E load rtQUERY_SBS_POINTS_DISARM name (q\<lparr>o_error := rtE_NONE\<rparr>, d)
      = (Inr MCO_S_OK, (q\<lparr>o_error := rtE_NONE\<rparr>, d'))"
    and tabs: "tabs d' = unflag (group_points (tabs d) g) (tabs d)" and rest: "at_rest tabs saved depth d'"
    using disarm_outcome [OF assms(1,2,4)] by blast
  have refs: "refs_ok (tabs d')" using assms(3) by (simp add: tabs refs_ok_def)
  from armed_outcome [OF assms(1) rest refs, of "q\<lparr>o_error := rtE_NONE\<rparr>"] run tabs show ?thesis
    by (auto simp: request_runs armed_after_disarming)
qed

theorem disarming_takes_from_other_groups_witness:
  "\<exists>d'. Query rt_mem_env (\<lambda>_. ret ()) rtQUERY_SBS_POINTS_DISARM [''G''] (blank, mem_with yard)
       = (Inr rtE_NONE, (blank, d'))
     \<and> (\<exists>d2. Query rt_mem_env (\<lambda>_. ret ()) rtQUERY_SBS_LIST_ARMED [] (blank, d')
         = (Inr rtE_NONE, (blank, d2)))"
  using disarming_takes_from_other_groups [OF rt_mem.rtap_laws_axioms yard_at_rest, of "''G''" 5 "\<lambda>_. ret ()"
      blank] by auto

text \<open>Resetting points by name stops at the first name that is not in the database, and the caller
  is told that everything went well: the points before it are reset, the ones after it are not.\<close>

theorem unknown_name_stops_disarming:
  assumes "rtap_laws E tabs saved depth True" and "at_rest tabs saved depth d"
  shows "\<exists>d'. Query E load rtQUERY_SBS_POINTS_DISARM_BY_LIST tags (q, d) = (Inr rtE_NONE, (q\<lparr>o_error := rtE_NONE\<rparr>, d'))
     \<and> tabs d' = unflag (tagged (tabs d) (takeWhile (known_tag (tabs d)) tags)) (tabs d) \<and> at_rest tabs saved depth d'"
  using selected_outcome [OF assms, of tags "q\<lparr>o_error := rtE_NONE\<rparr>"] by (auto simp: request_runs)

theorem unknown_name_stops_disarming_witness:
  "\<exists>d'. Query rt_mem_env (\<lambda>_. ret ()) rtQUERY_SBS_POINTS_DISARM_BY_LIST [''A'', ''X'', ''B'']
       (blank, mem_with yard)
       = (Inr rtE_NONE, (blank, d'))
     \<and> rt_mem_tabs d' = unflag {1} (rt_tables_of yard) \<and> at_rest rt_mem_tabs rt_mem_saved mem_depth d'"
  using unknown_name_stops_disarming [OF rt_mem.rtap_laws_axioms yard_at_rest, of "\<lambda>_. ret ()" "[''A'', ''X'', ''B'']"
      blank] by simp

text \<open>C12. A new group contains exactly the points that were named; the points, the other groups and
  their points stay.\<close>

theorem new_group_has_its_points:
  assumes "rtap_laws E tabs saved depth True" and "at_rest tabs saved depth d" and "refs_ok (tabs d)"
    and "stat_fits (PutSbsName name)" and "\<nexists>g. group_name (tabs d) name g" and "\<forall>tag \<in> set tags. known_tag (tabs d) tag"
  shows "\<exists>g d'. Config E ct rtCONFIG_ADD_GROUP_SBS name tags (q, d) = (Inr rtE_NONE, (q\<lparr>o_error := rtE_NONE\<rparr>, d'))
     \<and> sbs_stats (tabs d) g = None \<and> sbs_stats (tabs d') = (sbs_stats (tabs d))(g \<mapsto> \<lparr>sbs_name = name, sbs_state = ENABLE\<rparr>)
     \<and> group_points (tabs d') = (group_points (tabs d))(g := tagged (tabs d) tags) \<and> points (tabs d') = points (tabs d)
     \<and> at_rest tabs saved depth d'"
  using created_group [OF assms(1-5), of ct tags q] assms(6) by (auto simp: takeWhile_eq_all_conv [THEN iffD2])

theorem new_group_has_its_points_witness:
  "\<exists>g d'. Config rt_mem_env (ret MCO_S_OK) rtCONFIG_ADD_GROUP_SBS ''N'' [''B'', ''C''] (blank, mem_with yard)
       = (Inr rtE_NONE, (blank, d'))
     \<and> group_points (rt_mem_tabs d') = (group_points (rt_tables_of yard))(g := {3, 2})"
  using new_group_has_its_points [OF rt_mem.rtap_laws_axioms yard_at_rest, of "''N''" "[''B'', ''C'']" "ret MCO_S_OK"
      blank] by (auto simp: NUL_def)

text \<open>C22. When a name is not in the database, the request still succeeds: the group is created with
  the points before that name and with an item that is linked to no point, and the error code the
  code sets is overwritten.\<close>

theorem unknown_name_truncates_group:
  assumes "rtap_laws E tabs saved depth True" and "at_rest tabs saved depth d" and "refs_ok (tabs d)"
    and "stat_fits (PutSbsName name)" and "\<nexists>g. group_name (tabs d) name g" and "tag \<in> set tags" and "\<not> known_tag (tabs d) tag"
  shows "\<exists>g d'. Config E ct rtCONFIG_ADD_GROUP_SBS name tags (q, d) = (Inr rtE_NONE, (q\<lparr>o_error := rtE_NONE\<rparr>, d'))
     \<and> sbs_stats (tabs d') = (sbs_stats (tabs d))(g \<mapsto> \<lparr>sbs_name = name, sbs_state = ENABLE\<rparr>)
     \<and> group_points (tabs d') g = insert 0 (tagged (tabs d) (takeWhile (known_tag (tabs d)) tags))
     \<and> at_rest tabs saved depth d'"
proof -
  have "\<not> (\<forall>t \<in> set tags. known_tag (tabs d) t)" using assms(6,7) by blast
  with created_group [OF assms(1-5), of ct tags q] show ?thesis by auto
qed

theorem unknown_name_truncates_group_witness:
  "\<exists>g d'. Config rt_mem_env (ret MCO_S_OK) rtCONFIG_ADD_GROUP_SBS ''N'' [''B'', ''X'', ''C''] (blank, mem_with yard)
       = (Inr rtE_NONE, (blank, d'))
     \<and> group_points (rt_mem_tabs d') g = {0, 2}"
  using unknown_name_truncates_group [OF rt_mem.rtap_laws_axioms yard_at_rest, of "''N''" "''X''" "[''B'', ''X'', ''C'']" "ret MCO_S_OK"
      blank] by (auto simp: NUL_def)

text \<open>C11. Creating a group and deleting it again gives back the tables, whatever was named.\<close>

theorem create_delete_round_trip:
  assumes "rtap_laws E tabs saved depth True" and "at_rest tabs saved depth d" and "refs_ok (tabs d)"
    and "stat_fits (PutSbsName name)" and "\<nexists>g. group_name (tabs d) name g"
  shows "\<exists>d' d2. Config E ct rtCONFIG_ADD_GROUP_SBS name tags (q, d) = (Inr rtE_NONE, (q\<lparr>o_error := rtE_NONE\<rparr>, d'))
     \<and> Config E ct rtCONFIG_DEL_GROUP_SBS name [] (q, d') = (Inr rtE_NONE, (q\<lparr>o_error := rtE_NONE\<rparr>, d2))
     \<and> tabs d2 = tabs d \<and> at_rest tabs saved depth d2"
proof -
  obtain g d' where new: "createGroup E name tags (q\<lparr>o_error := rtE_NONE\<rparr>, d) = (Inr MCO_S_OK, (q\<lparr>o_error := rtE_NONE\<rparr>, d'))"
    and g: "sbs_stats (tabs d) g = None"
    and links: "links g (stat_row g \<lparr>sbs_name = name, sbs_state = ENABLE\<rparr> (tabs d)) tags (tabs d')"
    and rest: "at_rest tabs saved depth d'"
    using create_outcome [OF assms(1,2,4,5), of tags "q\<lparr>o_error := rtE_NONE\<rparr>"] by auto
  have name: "group_name (tabs d') name g" using links_rows [OF links] by (simp add: group_name_def)
  have undone: "without_group g (tabs d') = tabs d"
    by (rule without_created [OF links g assms(3)])
  show ?thesis
    using new delete_outcome [OF assms(1) rest name, of "q\<lparr>o_error := rtE_NONE\<rparr>"] undone by (auto simp: request_runs)
qed

theorem create_delete_round_trip_witness:
  "\<exists>d' d2. Config rt_mem_env (ret MCO_S_OK) rtCONFIG_ADD_GROUP_SBS ''N'' [''B'', ''X''] (blank, mem_with yard)
       = (Inr rtE_NONE, (blank, d'))
     \<and> Config rt_mem_env (ret MCO_S_OK) rtCONFIG_DEL_GROUP_SBS ''N'' [] (blank, d')
       = (Inr rtE_NONE, (blank, d2))
     \<and> rt_mem_tabs d2 = rt_tables_of yard"
  using create_delete_round_trip [OF rt_mem.rtap_laws_axioms yard_at_rest, of "''N''" "ret MCO_S_OK" "[''B'', ''X'']"
      blank] by (auto simp: NUL_def)

text \<open>C23. Creating a group under a name that is taken changes no table, but leaves its transaction
  open: the code reports an error to the caller, returns success and neither commits nor rolls
  back.\<close>

theorem taken_name_leaves_transaction_open:
  assumes "rtap_laws E tabs saved depth True" and "at_rest tabs saved depth d" and "group_name (tabs d) name g"
  shows "\<exists>d'. Config E ct rtCONFIG_ADD_GROUP_SBS name tags (q, d) = (Inr rtE_RUNTIME_ERROR, (q\<lparr>o_error := rtE_RUNTIME_ERROR\<rparr>, d'))
     \<and> tabs d' = tabs d \<and> depth d' = 1"
  using again_outcome [OF assms, of tags "q\<lparr>o_error := rtE_NONE\<rparr>"] by (auto simp: request_runs)

theorem taken_name_leaves_transaction_open_witness:
  "\<exists>d'. Config rt_mem_env (ret MCO_S_OK) rtCONFIG_ADD_GROUP_SBS ''G'' [''B''] (blank, mem_with yard)
       = (Inr rtE_RUNTIME_ERROR, (blank\<lparr>o_error := rtE_RUNTIME_ERROR\<rparr>, d'))
     \<and> rt_mem_tabs d' = rt_tables_of yard \<and> mem_depth d' = 1"
  using taken_name_leaves_transaction_open [OF rt_mem.rtap_laws_axioms yard_at_rest, of "''G''" 5 "ret MCO_S_OK" "[''B'']"
      blank] by simp

end
