(* ===== verification/RtapEventLaws.thy ===== *)
theory RtapEventLaws
  imports RtapEvents RtapMem
begin

text \<open>
  What follows for a measurement from the events written to it: the handler does what the tables
  of \<open>RtapEvents\<close> say, and four consequences that show where these tables protect the value of a
  point and where they do not.  The examples run on the engine of \<open>RtapMem\<close>.
\<close>

section \<open>Sequences of events\<close>

text \<open>Writes of VALIDCHANGE to a point, one after the other.\<close>

primrec fires :: "'d rtap_env \<Rightarrow> int \<Rightarrow> ValidChange list \<Rightarrow> ('d, unit) call" where
  "fires E h [] = ret ()"
| "fires E h (vc # vcs) = sq (fire E h vc) (fires E h vcs)"

text \<open>What a sequence of events makes of a row.\<close>

definition event_write :: "SystemState \<Rightarrow> ValidChange \<Rightarrow> xdb_point \<Rightarrow> xdb_point" where
  "event_write sa vc r = event_row vc sa (r\<lparr>p_VALIDCHANGE := vc\<rparr>)"

lemma event_row_keeps [simp]:
  "p_OBJCLASS (event_row vc sa r) = p_OBJCLASS r" "p_SA_ref (event_row vc sa r) = p_SA_ref r"
  "p_passport_ref (event_row vc sa r) = p_passport_ref r" "p_VALIDCHANGE (event_row vc sa r) = p_VALIDCHANGE r"
  "p_ai (event_row vc sa r) = map_option (take_value (value_source vc (args_of sa r))) (p_ai r)"
  "p_VALIDITY (event_row vc sa r) = new_validity vc (args_of sa r)"
  "p_VALIDITY_ACQ (event_row vc sa r) = new_acquired vc (args_of sa r)"
  "p_INHIBLOCAL (event_row vc sa r) = new_inhiblocal vc (args_of sa r)" "p_INHIB (event_row vc sa r) = p_INHIB r"
  by (simp_all add: event_row_def event_body_def point_with_def Let_def)

lemma args_of_keeps [simp]:
  "h_Valid (args_of sa r) = p_VALIDITY r" "b_Validacq (args_of sa r) = p_VALIDITY_ACQ r" "o_SaState (args_of sa r) = sa"
  "b_InhibLocal (args_of sa r) = p_INHIBLOCAL r" "b_Inhib (args_of sa r) = p_INHIB r"
  by (simp_all add: args_of_def)

lemma take_value_Keep [simp]: "map_option (take_value Keep) x = x"
  by (cases x) auto

lemma with_point_twice [simp]: "with_point (with_point T h r) h r' = with_point T h r'"
  by (simp add: with_point_def)

lemma sa_of_with_point:
  "points T h = Some r \<Longrightarrow> p_passport_ref r' = p_passport_ref r \<Longrightarrow> sa_of (with_point T h r') i = sa_of T i"
  by (auto simp: sa_of_def with_point_def split: option.splits)

context rtap_laws
begin

lemma wp_fire:
  assumes "at T S n d" and "points T h = Some r" and "p_OBJCLASS r \<in> {TM, TR, ICM}" and "p_ai r \<noteq> None"
    and "sa_of T (p_SA_ref r) = Some sa" and reliable
    and Q: "\<And>d'. at (with_point T h (event_row vc sa (r\<lparr>p_VALIDCHANGE := vc\<rparr>))) S n d' \<Longrightarrow> Q () d'"
  shows "wp (fire E h vc) Q R d"
proof -
  let ?r = "r\<lparr>p_VALIDCHANGE := vc\<rparr>"
  from assms(4) obtain p where "p_ai ?r = Some p" by auto
  note ai = assms(3) this assms(5,6)
  have at: "at (with_point T h r) S n d" using assms(1,2) by (simp add: with_point_same)
  show ?thesis
    unfolding fire_def
  proof (intro wp_sq wp_point_put [OF at], goal_cases)
    case (2 d')
    show ?case
      by (rule wp_on_update_analog [where T = "with_point T h ?r" and S = S and n = n and r = ?r and p = p and sa = sa])
        (use 2 ai assms(2) in \<open>auto simp: sa_of_with_point intro!: Q\<close>)
  qed (use assms(6) in auto)
qed

lemma wp_fires:
  assumes "at (with_point T h r) S n d" and "p_OBJCLASS r \<in> {TM, TR, ICM}" and "p_ai r \<noteq> None"
    and "sa_of (with_point T h r) (p_SA_ref r) = Some sa" and reliable
    and Q: "\<And>d'. at (with_point T h (fold (event_write sa) vcs r)) S n d' \<Longrightarrow> Q () d'"
  shows "wp (fires E h vcs) Q R d"
  using assms(1-4) Q
proof (induction vcs arbitrary: r d)
  case Nil
  then show ?case by (simp add: wp_ret)
next
  case (Cons vc vcs)
  have sa: "sa_of (with_point T h (event_write sa vc r)) (p_SA_ref r) = Some sa"
    using Cons.prems(4) sa_of_with_point [of "with_point T h r" h r "event_write sa vc r"]
    by (simp add: event_write_def)
  show ?case
    unfolding fires.simps
  proof (intro wp_sq wp_fire [OF Cons.prems(1) _ Cons.prems(2-4) assms(5)], goal_cases)
    case (2 d')
    show ?case
      by (rule Cons.IH [where r = "event_write sa vc r"])
        (use 2 Cons.prems(2,3,5) sa in \<open>simp_all add: event_write_def\<close>)
  qed simp
qed

end

section \<open>An example\<close>

text \<open>A working station with the measurement \<open>m\<close>, which has the id 2.\<close>

definition station :: xdb_point where
  "station = new_point_row\<lparr>p_TAG := ''S'', p_OBJCLASS := SA, p_passport_ref := 7\<rparr>"

definition measurement :: "Validity \<Rightarrow> xdb_point" where
  "measurement v = new_point_row\<lparr>p_TAG := ''M'', p_OBJCLASS := TM, p_SA_ref := 1, p_passport_ref := 8, p_VALIDITY := v,
     p_VALIDITY_ACQ := VALIDITY_VALID, p_ai := Some \<lparr>i_VAL = 10, i_VALACQ = 20, i_VALMANUAL = 30\<rparr>\<rparr>"

definition plant :: "SystemState \<Rightarrow> xdb_point \<Rightarrow> rt_contents" where
  "plant sa r = \<lparr>c_points = [(1, station), (2, r)], c_stats = [], c_items = [],
     c_pass = (\<lambda>_. [])(SA := [(7, [''sa_state'' \<mapsto> PSystemState sa, ''old_sa_state'' \<mapsto> PSystemState sa])]),
     c_units = [], c_labels = [], c_macros = []\<rparr>"

lemma plant_rows [simp]:
  "points (rt_tables_of (plant sa r)) = [1 \<mapsto> station, 2 \<mapsto> r]"
  "p_passport_ref station = 7" "sa_passports (rt_tables_of (plant sa r)) = [7 \<mapsto> \<lparr>sa_state = sa, old_sa_state = sa\<rparr>]"
  by (auto simp: rt_tables_of_def plant_def station_def fun_upd_twist sa_passports_def sa_part_def fun_eq_iff)

lemma rt_mem_view [simp]:
  "rt_mem_tabs (mem_with c) = rt_tables_of c" "rt_mem_saved (mem_with c) = rt_tables_of c" "mem_depth (mem_with c) = 0"
  by (simp_all add: rt_mem_tabs_def rt_mem_saved_def mem_depth_def mem_with_def)

section \<open>Properties\<close>

text \<open>The outcome of the handler in one statement, for the properties.\<close>

lemma event_outcome:
  assumes "rtap_laws E tabs saved depth rel" and "points (tabs d) h = Some r" and "p_OBJCLASS r \<in> {TM, TR, ICM}"
    and "p_ai r \<noteq> None" and "sa_of (tabs d) (p_SA_ref r) = Some sa" and "on_update_VALIDCHANGE E h d = (res, d')"
  shows "\<exists>r'. tabs d' = with_point (tabs d) h r' \<and> between r (event_row (p_VALIDCHANGE r) sa r) r'
     \<and> (rel \<longrightarrow> res = Inr () \<and> r' = event_row (p_VALIDCHANGE r) sa r)"
proof -
  let ?row = "event_row (p_VALIDCHANGE r) sa r"
  from assms(4) obtain p where p: "p_ai r = Some p" by auto
  have at: "view tabs saved depth (tabs d) (saved d) (depth d) d" by (simp add: view_def)
  have "wp (on_update_VALIDCHANGE E h)
      (\<lambda>_ d'. \<exists>r'. tabs d' = with_point (tabs d) h r' \<and> between r ?row r' \<and> (rel \<longrightarrow> r' = ?row))
      (\<lambda>_ d'. \<not> rel \<and> (\<exists>r'. tabs d' = with_point (tabs d) h r' \<and> between r ?row r')) d"
    by (rule rtap_laws.wp_on_update_analog [OF assms(1) at assms(2,3) p assms(5)]) (auto simp: view_def)
  with assms(6) show ?thesis by (auto simp: wp_def split: sum.splits)
qed

text \<open>C8. The handler of VALIDCHANGE does to an analog point what the tables of events say.  On an
  engine on which nothing fails the row of the point is exactly the tables' one; when writes
  fail, each of the attributes an event sets is the old or the new one, and no other row and no
  other attribute changes.\<close>

theorem event_follows_tables:
  assumes "rtap_laws E tabs saved depth rel" and "points (tabs d) h = Some r" and "p_OBJCLASS r \<in> {TM, TR, ICM}"
    and "p_ai r \<noteq> None" and "sa_of (tabs d) (p_SA_ref r) = Some sa"
  shows "case on_update_VALIDCHANGE E h d of (res, d') \<Rightarrow> \<exists>r'. tabs d' = with_point (tabs d) h r'
     \<and> between r (event_row (p_VALIDCHANGE r) sa r) r'
     \<and> (if rel then res = Inr () \<and> r' = event_row (p_VALIDCHANGE r) sa r else True)"
  using event_outcome [OF assms] by (fastforce split: prod.splits)

theorem event_follows_tables_witness:
  "case on_update_VALIDCHANGE rt_mem_env 2 (mem_with (plant SS_WORK (measurement VALIDITY_FAULT \<lparr>p_VALIDCHANGE := VALIDCHANGE_VALID\<rparr>))) of
     (res, d') \<Rightarrow> \<exists>r'. rt_mem_tabs d' = with_point (rt_tables_of (plant SS_WORK (measurement VALIDITY_FAULT \<lparr>p_VALIDCHANGE := VALIDCHANGE_VALID\<rparr>))) 2 r'
     \<and> between (measurement VALIDITY_FAULT \<lparr>p_VALIDCHANGE := VALIDCHANGE_VALID\<rparr>)
         (event_row VALIDCHANGE_VALID SS_WORK (measurement VALIDITY_FAULT \<lparr>p_VALIDCHANGE := VALIDCHANGE_VALID\<rparr>)) r'
     \<and> (if True then res = Inr () \<and> r' = event_row VALIDCHANGE_VALID SS_WORK (measurement VALIDITY_FAULT \<lparr>p_VALIDCHANGE := VALIDCHANGE_VALID\<rparr>) else True)"
  using event_follows_tables [OF rt_mem.rtap_laws_axioms, where h = 2 and sa = SS_WORK
      and d = "mem_with (plant SS_WORK (measurement VALIDITY_FAULT \<lparr>p_VALIDCHANGE := VALIDCHANGE_VALID\<rparr>))"]
  by (simp add: measurement_def sa_of_def)

text \<open>While a point is held (forced by hand or inhibited), no event but the operator's own and the
  end of the hold changes its value: acquisition, faults and new inhibitions leave it alone,
  whatever fails.\<close>

theorem held_value_is_kept:
  assumes "rtap_laws E tabs saved depth rel" and "points (tabs d) h = Some r" and "p_OBJCLASS r \<in> {TM, TR, ICM}"
    and "p_ai r \<noteq> None" and "sa_of (tabs d) (p_SA_ref r) = Some sa" and "held (p_VALIDITY r)"
    and "p_VALIDCHANGE r \<notin> {VALIDCHANGE_FORCED, VALIDCHANGE_MANUAL, VALIDCHANGE_END_INHIB, VALIDCHANGE_END_FORCED,
      VALIDCHANGE_INHIB_GBL, VALIDCHANGE_END_INHIB_SA}"
  shows "\<exists>r'. points (tabs (snd (on_update_VALIDCHANGE E h d))) h = Some r' \<and> p_ai r' = p_ai r"
proof -
  have "value_source (p_VALIDCHANGE r) (args_of sa r) = Keep"
    using assms(6,7) by (cases "p_VALIDCHANGE r") (auto simp: held_def)
  moreover obtain r' where "tabs (snd (on_update_VALIDCHANGE E h d)) = with_point (tabs d) h r'"
    "between r (event_row (p_VALIDCHANGE r) sa r) r'"
    using event_outcome [OF assms(1-5) prod.collapse [symmetric]] by blast
  ultimately show ?thesis by (auto simp: between_def point_with_def)
qed

theorem held_value_is_kept_witness:
  "\<exists>r'. points ((rt_mem_tabs \<circ> fst) (snd (on_update_VALIDCHANGE (rt_flaky rt_mem_env) 2
       (mem_with (plant SS_WORK (measurement VALIDITY_MANUAL \<lparr>p_VALIDCHANGE := VALIDCHANGE_VALID\<rparr>)), [False, True])))) 2 = Some r'
     \<and> p_ai r' = Some \<lparr>i_VAL = 10, i_VALACQ = 20, i_VALMANUAL = 30\<rparr>"
  using held_value_is_kept [OF rt_flaky_mem.rtap_laws_axioms, where h = 2 and sa = SS_WORK
      and d = "(mem_with (plant SS_WORK (measurement VALIDITY_MANUAL \<lparr>p_VALIDCHANGE := VALIDCHANGE_VALID\<rparr>)), [False, True])"]
  by (simp add: measurement_def sa_of_def held_def)

text \<open>Values and faults of a station that is not working are ignored: the database stays as it
  was, and the write that raised the event succeeds.\<close>

theorem silent_station_changes_nothing:
  assumes "rtap_laws E tabs saved depth rel" and "points (tabs d) h = Some r" and "p_OBJCLASS r \<in> {TM, TR, ICM}"
    and "p_ai r \<noteq> None" and "sa_of (tabs d) (p_SA_ref r) = Some sa" and "sa \<noteq> SS_WORK"
    and "p_VALIDCHANGE r \<in> {VALIDCHANGE_FAULT, VALIDCHANGE_VALID}" and rel
  shows "case on_update_VALIDCHANGE E h d of (res, d') \<Rightarrow> res = Inr () \<and> tabs d' = tabs d"
proof -
  have "event_row (p_VALIDCHANGE r) sa r = r"
    using assms(6,7)
    by (auto simp: event_row_def event_body_def point_with_def Let_def args_of_def)
  then show ?thesis
    using event_outcome [OF assms(1-5)] assms(2,8) by (fastforce simp: with_point_same split: prod.splits)
qed

theorem silent_station_changes_nothing_witness:
  "case on_update_VALIDCHANGE rt_mem_env 2 (mem_with (plant SS_FAULT (measurement VALIDITY_VALID \<lparr>p_VALIDCHANGE := VALIDCHANGE_VALID\<rparr>))) of
     (res, d') \<Rightarrow> res = Inr () \<and> rt_mem_tabs d' = rt_tables_of (plant SS_FAULT (measurement VALIDITY_VALID \<lparr>p_VALIDCHANGE := VALIDCHANGE_VALID\<rparr>))"
  using silent_station_changes_nothing [OF rt_mem.rtap_laws_axioms, where h = 2 and sa = SS_FAULT
      and d = "mem_with (plant SS_FAULT (measurement VALIDITY_VALID \<lparr>p_VALIDCHANGE := VALIDCHANGE_VALID\<rparr>))"]
  by (simp add: measurement_def sa_of_def)

text \<open>C24. When a valid point of a working station is forced by hand and then gets a valid acquisition, it
  has the acquired value again and is still valid: the handler computes the validity of a forced point and
  never writes it, so nothing protects the forced value.  An end of forcing after these two events leaves
  the point as it is, valid and with the local inhibition that forcing set.\<close>

theorem forced_value_is_lost:
  assumes "rtap_laws E tabs saved depth rel" and "points (tabs d) h = Some r" and "p_OBJCLASS r \<in> {TM, TR, ICM}"
    and "p_ai r = Some p" and "sa_of (tabs d) (p_SA_ref r) = Some SS_WORK" and rel and "p_VALIDITY r = VALIDITY_VALID"
    and "vcs = [VALIDCHANGE_FORCED, VALIDCHANGE_VALID] \<or> vcs = [VALIDCHANGE_FORCED, VALIDCHANGE_VALID, VALIDCHANGE_END_FORCED]"
  shows "case fires E h vcs d of
     (res, d') \<Rightarrow> res = Inr () \<and> (\<exists>r'. points (tabs d') h = Some r' \<and> p_ai r' = Some (p\<lparr>i_VAL := i_VALACQ p\<rparr>)
        \<and> p_VALIDITY r' = VALIDITY_VALID \<and> p_INHIBLOCAL r')"
proof -
  have at: "view tabs saved depth (with_point (tabs d) h r) (saved d) (depth d) d"
    using assms(2) by (simp add: view_def with_point_same)
  have "wp (fires E h vcs)
     (\<lambda>_ d'. \<exists>r'. points (tabs d') h = Some r' \<and> p_ai r' = Some (p\<lparr>i_VAL := i_VALACQ p\<rparr>)
        \<and> p_VALIDITY r' = VALIDITY_VALID \<and> p_INHIBLOCAL r') (\<lambda>_ _. False) d"
    by (rule rtap_laws.wp_fires [OF assms(1) at assms(3)])
      (use assms(2,4-8) in \<open>auto simp: with_point_same view_def event_write_def held_def validity_after_end_def\<close>)
  then show ?thesis by (auto simp: wp_def split: prod.splits sum.splits)
qed

theorem forced_value_is_lost_witness:
  "case fires rt_mem_env 2 [VALIDCHANGE_FORCED, VALIDCHANGE_VALID, VALIDCHANGE_END_FORCED]
       (mem_with (plant SS_WORK (measurement VALIDITY_VALID))) of
     (res, d') \<Rightarrow> res = Inr () \<and> (\<exists>r'. points (rt_mem_tabs d') 2 = Some r'
        \<and> p_ai r' = Some \<lparr>i_VAL = 20, i_VALACQ = 20, i_VALMANUAL = 30\<rparr> \<and> p_VALIDITY r' = VALIDITY_VALID \<and> p_INHIBLOCAL r')"
  using forced_value_is_lost [OF rt_mem.rtap_laws_axioms, where h = 2 and r = "measurement VALIDITY_VALID"
      and p = "\<lparr>i_VAL = 10, i_VALACQ = 20, i_VALMANUAL = 30\<rparr>" and d = "mem_with (plant SS_WORK (measurement VALIDITY_VALID))"
      and vcs = "[VALIDCHANGE_FORCED, VALIDCHANGE_VALID, VALIDCHANGE_END_FORCED]"]
  by (simp add: measurement_def sa_of_def del: fires.simps)

text \<open>A point that is not analog, or whose acquisition system has no row, is not processed: the
  handler gives an error and only reads.\<close>

theorem other_points_are_refused:
  assumes "rtap_laws E tabs saved depth rel" and "points (tabs d) h = Some r"
    and "p_OBJCLASS r \<notin> {TM, TR, ICM} \<or> sa_of (tabs d) (p_SA_ref r) = None"
  shows "case on_update_VALIDCHANGE E h d of (res, d') \<Rightarrow> \<exists>rc. res = Inl rc \<and> rc \<noteq> MCO_S_OK \<and> tabs d' = tabs d"
proof -
  have at: "view tabs saved depth (tabs d) (saved d) (depth d) d" by (simp add: view_def)
  from rtap_laws.wp_on_update_refused [OF assms(1) at assms(2,3)]
  show ?thesis by (auto simp: wp_def view_def split: prod.splits sum.splits)
qed

theorem other_points_are_refused_witness:
  "case on_update_VALIDCHANGE rt_mem_env 2 (mem_with (plant SS_WORK (measurement VALIDITY_VALID \<lparr>p_SA_ref := 5\<rparr>))) of
     (res, d') \<Rightarrow> \<exists>rc. res = Inl rc \<and> rc \<noteq> MCO_S_OK
       \<and> rt_mem_tabs d' = rt_tables_of (plant SS_WORK (measurement VALIDITY_VALID \<lparr>p_SA_ref := 5\<rparr>))"
  using other_points_are_refused [OF rt_mem.rtap_laws_axioms, where h = 2
      and d = "mem_with (plant SS_WORK (measurement VALIDITY_VALID \<lparr>p_SA_ref := 5\<rparr>))"]
  by (simp add: sa_of_def)

text \<open>C25. When the value of a valid point cannot be written, the acquisition is reported as done: the
  code of the failed write is replaced by success, and nothing is written.\<close>

theorem failed_write_is_success:
  assumes "c_put (XDBPoint E) (PutAI_VAL (g_Valacq a)) h d = (Inl rc, d')" and "rc \<noteq> MCO_S_OK"
    and "o_SaState a = SS_WORK" and "h_Valid a = VALIDITY_VALID"
  shows "GOFVALTI E h VALIDCHANGE_VALID a d = (Inr (), d')"
  using assms
  by (simp add: GOFVALTI_def gof_valid_def gof_finish_def switch_c_def gput_def on_obj_def under_def prog_defs)

theorem failed_write_is_success_witness:
  "GOFVALTI (rt_flaky rt_mem_env) 2 VALIDCHANGE_VALID (args_of SS_WORK (measurement VALIDITY_VALID))
     (mem_with (plant SS_WORK (measurement VALIDITY_VALID)), [True])
   = (Inr (), (mem_with (plant SS_WORK (measurement VALIDITY_VALID)), []))"
  by (rule failed_write_is_success [where rc = "MCO_E 1"])
    (simp_all add: rt_flaky_def flaky_class_def flake_def measurement_def)

end
