(* ===== verification/CommonTables.thy ===== *)
theory CommonTables
  imports RtapStore
begin

text \<open>
  The tables of src/xdb/common/xdb_common.hpp and xdb_common.cpp that the real-time database looks
  things up in: the types of attributes, their correspondence with the types of RTAP, and the
  classes of points.  A size is the one of the platform the program is built for: \<open>wchar_t\<close> has 4
  bytes and \<open>timeval\<close> 16, and \<open>TAG_NAME_MAXLEN\<close> is 32.
\<close>

section \<open>Types\<close>

datatype DbType_t = DB_TYPE_UNDEF | DB_TYPE_LOGICAL | DB_TYPE_INT8 | DB_TYPE_UINT8 | DB_TYPE_INT16 | DB_TYPE_UINT16
  | DB_TYPE_INT32 | DB_TYPE_UINT32 | DB_TYPE_INT64 | DB_TYPE_UINT64 | DB_TYPE_FLOAT | DB_TYPE_DOUBLE
  | DB_TYPE_BYTES | DB_TYPE_BYTES4 | DB_TYPE_BYTES8 | DB_TYPE_BYTES12 | DB_TYPE_BYTES16 | DB_TYPE_BYTES20
  | DB_TYPE_BYTES32 | DB_TYPE_BYTES48 | DB_TYPE_BYTES64 | DB_TYPE_BYTES80 | DB_TYPE_BYTES128 | DB_TYPE_BYTES256
  | DB_TYPE_ABSTIME | DB_TYPE_LAST

fun DbType_code :: "DbType_t \<Rightarrow> nat" where
  "DbType_code DB_TYPE_UNDEF = 0" | "DbType_code DB_TYPE_LOGICAL = 1" | "DbType_code DB_TYPE_INT8 = 2"
| "DbType_code DB_TYPE_UINT8 = 3" | "DbType_code DB_TYPE_INT16 = 4" | "DbType_code DB_TYPE_UINT16 = 5"
| "DbType_code DB_TYPE_INT32 = 6" | "DbType_code DB_TYPE_UINT32 = 7" | "DbType_code DB_TYPE_INT64 = 8"
| "DbType_code DB_TYPE_UINT64 = 9" | "DbType_code DB_TYPE_FLOAT = 10" | "DbType_code DB_TYPE_DOUBLE = 11"
| "DbType_code DB_TYPE_BYTES = 12" | "DbType_code DB_TYPE_BYTES4 = 13" | "DbType_code DB_TYPE_BYTES8 = 14"
| "DbType_code DB_TYPE_BYTES12 = 15" | "DbType_code DB_TYPE_BYTES16 = 16" | "DbType_code DB_TYPE_BYTES20 = 17"
| "DbType_code DB_TYPE_BYTES32 = 18" | "DbType_code DB_TYPE_BYTES48 = 19" | "DbType_code DB_TYPE_BYTES64 = 20"
| "DbType_code DB_TYPE_BYTES80 = 21" | "DbType_code DB_TYPE_BYTES128 = 22" | "DbType_code DB_TYPE_BYTES256 = 23"
| "DbType_code DB_TYPE_ABSTIME = 24" | "DbType_code DB_TYPE_LAST = 25"

text \<open>The types of RTAP.\<close>

datatype rtDeType = rtRESERVED0 | rtLOGICAL | rtINT8 | rtUINT8 | rtINT16 | rtUINT16 | rtINT32 | rtUINT32 | rtFLOAT | rtDOUBLE
  | rtPOLAR | rtRECTANGULAR | rtRESERVED12 | rtRESERVED13 | rtRESERVED14 | rtRESERVED15 | rtBYTES4 | rtBYTES8
  | rtBYTES12 | rtBYTES16 | rtBYTES20 | rtBYTES32 | rtBYTES48 | rtBYTES64 | rtBYTES80 | rtBYTES128
  | rtBYTES256 | rtRESERVED27 | rtDB_XREF | rtDATE | rtTIME_OF_DAY | rtABS_TIME | rtUNDEFINED

fun rtDeType_code :: "rtDeType \<Rightarrow> nat" where
  "rtDeType_code rtRESERVED0 = 0" | "rtDeType_code rtLOGICAL = 1" | "rtDeType_code rtINT8 = 2"
| "rtDeType_code rtUINT8 = 3" | "rtDeType_code rtINT16 = 4" | "rtDeType_code rtUINT16 = 5"
| "rtDeType_code rtINT32 = 6" | "rtDeType_code rtUINT32 = 7" | "rtDeType_code rtFLOAT = 8"
| "rtDeType_code rtDOUBLE = 9" | "rtDeType_code rtPOLAR = 10" | "rtDeType_code rtRECTANGULAR = 11"
| "rtDeType_code rtRESERVED12 = 12" | "rtDeType_code rtRESERVED13 = 13" | "rtDeType_code rtRESERVED14 = 14"
| "rtDeType_code rtRESERVED15 = 15" | "rtDeType_code rtBYTES4 = 16" | "rtDeType_code rtBYTES8 = 17"
| "rtDeType_code rtBYTES12 = 18" | "rtDeType_code rtBYTES16 = 19" | "rtDeType_code rtBYTES20 = 20"
| "rtDeType_code rtBYTES32 = 21" | "rtDeType_code rtBYTES48 = 22" | "rtDeType_code rtBYTES64 = 23"
| "rtDeType_code rtBYTES80 = 24" | "rtDeType_code rtBYTES128 = 25" | "rtDeType_code rtBYTES256 = 26"
| "rtDeType_code rtRESERVED27 = 27" | "rtDeType_code rtDB_XREF = 28" | "rtDeType_code rtDATE = 29"
| "rtDeType_code rtTIME_OF_DAY = 30" | "rtDeType_code rtABS_TIME = 31" | "rtDeType_code rtUNDEFINED = 32"

section \<open>Attributes\<close>

text \<open>The numbers \<open>RTDB_ATT_IDX_*\<close>, by the rest of their names.\<close>

definition RTDB_ATT_IDX :: "(string \<times> nat) list" where
  "RTDB_ATT_IDX =
     [(''ACTIONTYP'', 0), (''ALARMBEGIN'', 1), (''ALARMBEGINACK'', 2), (''ALARMENDACK'', 3), (''ALARMSYNTH'', 4),
      (''ALDEST'', 5), (''ALINHIB'', 6), (''CONFREMOTECMD'', 7), (''CONVERTCOEFF'', 8), (''CURRENT_SHIFT_TIME'', 9),
      (''DATEAINS'', 10), (''DATEHOURM'', 11), (''DATERTU'', 12), (''DELEGABLE'', 13), (''DISPP'', 14),
      (''FLGMAINTENANCE'', 15), (''FLGREMOTECMD'', 16), (''FUNCTION'', 17), (''GRADLEVEL'', 18), (''INHIB'', 19),
      (''INHIBLOCAL'', 20), (''KMREFDWN'', 21), (''KMREFUPS'', 22), (''LABEL'', 23), (''L_CONSUMER'', 24),
      (''L_CORRIDOR'', 25), (''L_DIPL'', 26), (''L_EQT'', 27), (''L_EQTORBORDWN'', 28), (''L_EQTORBORUPS'', 29),
      (''L_EQTTYP'', 30), (''LINK_HIST'', 31), (''L_NET'', 32), (''L_NETTYPE'', 33), (''LOCALFLAG'', 34),
      (''L_PIPE'', 35), (''L_PIPELINE'', 36), (''L_SA'', 37), (''L_TL'', 38), (''L_TM'', 39), (''L_TYPINFO'', 40),
      (''MAXVAL'', 41), (''MINVAL'', 42), (''MNVALPHY'', 43), (''MXFLOW'', 44), (''MXPRESSURE'', 45),
      (''MXVALPHY'', 46), (''NAMEMAINTENANCE'', 47), (''NMFLOW'', 48), (''NMPRESSURE'', 49), (''OBJCLASS'', 50),
      (''PLANFLOW'', 51), (''PLANPRESSURE'', 52), (''PREV_DISPATCHER'', 53), (''PREV_SHIFT_TIME'', 54),
      (''REMOTECONTROL'', 55), (''SHORTLABEL'', 56), (''STATUS'', 57), (''SUPPLIER'', 58), (''SUPPLIERMODE'', 59),
      (''SUPPLIERSTATE'', 60), (''SYNTHSTATE'', 61), (''TSSYNTHETICAL'', 62), (''TYPE'', 63), (''UNITY'', 64),
      (''UNITYCATEG'', 65), (''UNIVNAME'', 66), (''VAL'', 67), (''VALACQ'', 68), (''VALEX'', 69), (''VALID'', 70),
      (''VALIDACQ'', 71), (''VALIDCHANGE'', 72), (''VALMANUAL'', 73), (''UNEXIST'', 74)]"

text \<open>Index, name, type and size.\<close>

definition AttrTypeDescription :: "(nat \<times> string \<times> DbType_t \<times> nat) list" where
  "AttrTypeDescription =
     [(0, ''ACTIONTYP'', DB_TYPE_UINT16, 2), (1, ''ALARMBEGIN'', DB_TYPE_UINT32, 4),
      (2, ''ALARMBEGINACK'', DB_TYPE_UINT32, 4), (3, ''ALARMENDACK'', DB_TYPE_UINT32, 4),
      (4, ''ALARMSYNTH'', DB_TYPE_UINT8, 1), (5, ''ALDEST'', DB_TYPE_LOGICAL, 1),
      (6, ''ALINHIB'', DB_TYPE_LOGICAL, 1), (7, ''CONFREMOTECMD'', DB_TYPE_LOGICAL, 1),
      (8, ''CONVERTCOEFF'', DB_TYPE_DOUBLE, 8), (9, ''CURRENT_SHIFT_TIME'', DB_TYPE_ABSTIME, 16),
      (10, ''DATEAINS'', DB_TYPE_BYTES12, 48), (11, ''DATEHOURM'', DB_TYPE_ABSTIME, 16),
      (12, ''DATERTU'', DB_TYPE_ABSTIME, 16), (13, ''DELEGABLE'', DB_TYPE_UINT8, 1),
      (14, ''DISPP'', DB_TYPE_BYTES20, 80), (15, ''FLGMAINTENANCE'', DB_TYPE_LOGICAL, 1),
      (16, ''FLGREMOTECMD'', DB_TYPE_LOGICAL, 1), (17, ''FUNCTION'', DB_TYPE_BYTES20, 80),
      (18, ''GRADLEVEL'', DB_TYPE_DOUBLE, 8), (19, ''INHIB'', DB_TYPE_LOGICAL, 1),
      (20, ''INHIBLOCAL'', DB_TYPE_LOGICAL, 1), (21, ''KMREFDWN'', DB_TYPE_DOUBLE, 8),
      (22, ''KMREFUPS'', DB_TYPE_DOUBLE, 8), (23, ''LABEL'', DB_TYPE_BYTES20, 80),
      (24, ''L_CONSUMER'', DB_TYPE_BYTES32, 128), (25, ''L_CORRIDOR'', DB_TYPE_BYTES32, 128),
      (26, ''L_DIPL'', DB_TYPE_BYTES32, 128), (27, ''L_EQT'', DB_TYPE_BYTES32, 128),
      (28, ''L_EQTORBORDWN'', DB_TYPE_BYTES32, 128), (29, ''L_EQTORBORUPS'', DB_TYPE_BYTES32, 128),
      (30, ''L_EQTTYP'', DB_TYPE_BYTES32, 128), (31, ''LINK_HIST'', DB_TYPE_UINT64, 8),
      (32, ''L_NET'', DB_TYPE_BYTES32, 128), (33, ''L_NETTYPE'', DB_TYPE_BYTES32, 128),
      (34, ''LOCALFLAG'', DB_TYPE_UINT8, 1), (35, ''L_PIPE'', DB_TYPE_BYTES32, 128),
      (36, ''L_PIPELINE'', DB_TYPE_BYTES32, 128), (37, ''L_SA'', DB_TYPE_BYTES32, 128),
      (38, ''L_TL'', DB_TYPE_BYTES32, 128), (39, ''L_TM'', DB_TYPE_BYTES32, 128),
      (40, ''L_TYPINFO'', DB_TYPE_BYTES32, 128), (41, ''MAXVAL'', DB_TYPE_DOUBLE, 8),
      (42, ''MINVAL'', DB_TYPE_DOUBLE, 8), (43, ''MNVALPHY'', DB_TYPE_DOUBLE, 8),
      (44, ''MXFLOW'', DB_TYPE_DOUBLE, 8), (45, ''MXPRESSURE'', DB_TYPE_DOUBLE, 8),
      (46, ''MXVALPHY'', DB_TYPE_DOUBLE, 8), (47, ''NAMEMAINTENANCE'', DB_TYPE_BYTES12, 48),
      (48, ''NMFLOW'', DB_TYPE_DOUBLE, 8), (49, ''NMPRESSURE'', DB_TYPE_DOUBLE, 8),
      (50, ''OBJCLASS'', DB_TYPE_UINT8, 1), (51, ''PLANFLOW'', DB_TYPE_DOUBLE, 8),
      (52, ''PLANPRESSURE'', DB_TYPE_DOUBLE, 8), (53, ''PREV_DISPATCHER'', DB_TYPE_BYTES12, 48),
      (54, ''PREV_SHIFT_TIME'', DB_TYPE_UINT64, 8), (55, ''REMOTECONTROL'', DB_TYPE_UINT8, 1),
      (56, ''SHORTLABEL'', DB_TYPE_BYTES16, 64), (57, ''STATUS'', DB_TYPE_UINT8, 1),
      (58, ''SUPPLIER'', DB_TYPE_BYTES16, 64), (59, ''SUPPLIERMODE'', DB_TYPE_BYTES16, 64),
      (60, ''SUPPLIERSTATE'', DB_TYPE_BYTES16, 64), (61, ''SYNTHSTATE'', DB_TYPE_UINT8, 1),
      (62, ''TSSYNTHETICAL'', DB_TYPE_UINT8, 1), (63, ''TYPE'', DB_TYPE_UINT32, 4),
      (64, ''UNITY'', DB_TYPE_BYTES20, 80), (65, ''UNITYCATEG'', DB_TYPE_UINT8, 1),
      (66, ''TAG'', DB_TYPE_BYTES32, 128), (67, ''VAL'', DB_TYPE_DOUBLE, 8), (68, ''VALACQ'', DB_TYPE_DOUBLE, 8),
      (69, ''VALEX'', DB_TYPE_DOUBLE, 8), (70, ''VALID'', DB_TYPE_UINT8, 1), (71, ''VALIDACQ'', DB_TYPE_UINT8, 1),
      (72, ''VALIDCHANGE'', DB_TYPE_UINT8, 1), (73, ''VALMANUAL'', DB_TYPE_DOUBLE, 8), (74, '''', DB_TYPE_UNDEF, 0)]"

definition attr_index :: "string \<Rightarrow> nat" where
  "attr_index n = (case map_of RTDB_ATT_IDX n of None \<Rightarrow> length AttrTypeDescription - 1 | Some i \<Rightarrow> i)"

definition attr_type :: "string \<Rightarrow> DbType_t" where
  "attr_type n = fst (snd (snd (AttrTypeDescription ! attr_index n)))"

definition attr_size :: "string \<Rightarrow> nat" where
  "attr_size n = snd (snd (snd (AttrTypeDescription ! attr_index n)))"

definition attr_name :: "nat \<Rightarrow> string" where
  "attr_name i = fst (snd (AttrTypeDescription ! i))"

section \<open>Sizes and descriptions of types\<close>

definition var_size :: "nat list" where
  "var_size =
     [0, 0, 0, 0, 0, 0, 0, 0, 0, 0, 0, 0, 65535, 16, 32, 48, 64, 80, 128, 192, 256, 320, 512, 1024, 16, 0]"

definition DbTypeDescription :: "(DbType_t \<times> string \<times> nat) list" where
  "DbTypeDescription =
     [(DB_TYPE_UNDEF, ''UNDEF'', 0), (DB_TYPE_LOGICAL, ''LOGICAL'', 1), (DB_TYPE_INT8, ''INT8'', 1),
      (DB_TYPE_UINT8, ''UINT8'', 1), (DB_TYPE_INT16, ''INT16'', 2), (DB_TYPE_UINT16, ''UINT16'', 2),
      (DB_TYPE_INT32, ''INT32'', 4), (DB_TYPE_UINT32, ''UINT32'', 4), (DB_TYPE_INT64, ''INT64'', 8),
      (DB_TYPE_UINT64, ''UINT64'', 8), (DB_TYPE_FLOAT, ''FLOAT'', 4), (DB_TYPE_DOUBLE, ''DOUBLE'', 8),
      (DB_TYPE_BYTES, ''BYTES'', 0), (DB_TYPE_BYTES4, ''BYTES4'', 16), (DB_TYPE_BYTES8, ''BYTES8'', 32),
      (DB_TYPE_BYTES12, ''BYTES12'', 48), (DB_TYPE_BYTES16, ''BYTES16'', 64), (DB_TYPE_BYTES20, ''BYTES20'', 80),
      (DB_TYPE_BYTES32, ''BYTES32'', 128), (DB_TYPE_BYTES48, ''BYTES48'', 192), (DB_TYPE_BYTES64, ''BYTES64'', 256),
      (DB_TYPE_BYTES80, ''BYTES80'', 320), (DB_TYPE_BYTES128, ''BYTES128'', 512),
      (DB_TYPE_BYTES256, ''BYTES256'', 1024), (DB_TYPE_ABSTIME, ''ABS_TIME'', 16), (DB_TYPE_LAST, ''LAST'', 0)]"

definition rtDataElem :: "(rtDeType \<times> string \<times> nat) list" where
  "rtDataElem =
     [(rtRESERVED0, ''RESERVED0'', 0), (rtLOGICAL, ''rtLOGICAL'', 1), (rtINT8, ''rtINT8'', 1),
      (rtUINT8, ''rtUINT8'', 1), (rtINT16, ''rtINT16'', 2), (rtUINT16, ''rtUINT16'', 2), (rtINT32, ''rtINT32'', 4),
      (rtUINT32, ''rtUINT32'', 4), (rtFLOAT, ''rtFLOAT'', 4), (rtDOUBLE, ''rtDOUBLE'', 8), (rtPOLAR, ''rtPOLAR'', 0),
      (rtRECTANGULAR, ''rtRECTANGULAR'', 0), (rtRESERVED12, ''RESERVED12'', 0), (rtRESERVED13, ''RESERVED13'', 0),
      (rtRESERVED14, ''RESERVED14'', 0), (rtRESERVED15, ''RESERVED15'', 0), (rtBYTES4, ''rtBYTES4'', 4),
      (rtBYTES8, ''rtBYTES8'', 8), (rtBYTES12, ''rtBYTES12'', 12), (rtBYTES16, ''rtBYTES16'', 16),
      (rtBYTES20, ''rtBYTES20'', 20), (rtBYTES32, ''rtBYTES32'', 32), (rtBYTES48, ''rtBYTES48'', 48),
      (rtBYTES64, ''rtBYTES64'', 64), (rtBYTES80, ''rtBYTES80'', 80), (rtBYTES128, ''rtBYTES128'', 128),
      (rtBYTES256, ''rtBYTES256'', 256), (rtRESERVED27, ''RESERVED27'', 0), (rtDB_XREF, ''rtDB_XREF'', 0),
      (rtDATE, ''rtDATE'', 16), (rtTIME_OF_DAY, ''rtTIME_OF_DAY'', 16), (rtABS_TIME, ''rtABS_TIME'', 16),
      (rtUNDEFINED, ''rtUNDEFINED'', 0)]"

definition DeTypeToDbType :: "(rtDeType \<times> DbType_t) list" where
  "DeTypeToDbType =
     [(rtRESERVED0, DB_TYPE_UNDEF), (rtLOGICAL, DB_TYPE_LOGICAL), (rtINT8, DB_TYPE_INT8), (rtUINT8, DB_TYPE_UINT8),
      (rtINT16, DB_TYPE_INT16), (rtUINT16, DB_TYPE_UINT16), (rtINT32, DB_TYPE_INT32), (rtUINT32, DB_TYPE_UINT32),
      (rtFLOAT, DB_TYPE_FLOAT), (rtDOUBLE, DB_TYPE_DOUBLE), (rtPOLAR, DB_TYPE_UNDEF), (rtRECTANGULAR, DB_TYPE_UNDEF),
      (rtRESERVED12, DB_TYPE_UNDEF), (rtRESERVED13, DB_TYPE_UNDEF), (rtRESERVED14, DB_TYPE_UNDEF),
      (rtRESERVED15, DB_TYPE_UNDEF), (rtBYTES4, DB_TYPE_BYTES4), (rtBYTES8, DB_TYPE_BYTES8),
      (rtBYTES12, DB_TYPE_BYTES12), (rtBYTES16, DB_TYPE_BYTES16), (rtBYTES20, DB_TYPE_BYTES20),
      (rtBYTES32, DB_TYPE_BYTES32), (rtBYTES48, DB_TYPE_BYTES48), (rtBYTES64, DB_TYPE_BYTES64),
      (rtBYTES80, DB_TYPE_BYTES80), (rtBYTES128, DB_TYPE_BYTES128), (rtBYTES256, DB_TYPE_BYTES256),
      (rtRESERVED27, DB_TYPE_UNDEF), (rtDB_XREF, DB_TYPE_UINT64), (rtDATE, DB_TYPE_ABSTIME),
      (rtTIME_OF_DAY, DB_TYPE_ABSTIME), (rtABS_TIME, DB_TYPE_ABSTIME), (rtUNDEFINED, DB_TYPE_UNDEF)]"

definition DbTypeToDeType :: "(DbType_t \<times> rtDeType) list" where
  "DbTypeToDeType =
     [(DB_TYPE_UNDEF, rtUNDEFINED), (DB_TYPE_LOGICAL, rtLOGICAL), (DB_TYPE_INT8, rtINT8), (DB_TYPE_UINT8, rtUINT8),
      (DB_TYPE_INT16, rtINT16), (DB_TYPE_UINT16, rtUINT16), (DB_TYPE_INT32, rtINT32), (DB_TYPE_UINT32, rtUINT32),
      (DB_TYPE_INT64, rtUNDEFINED), (DB_TYPE_UINT64, rtUNDEFINED), (DB_TYPE_FLOAT, rtFLOAT),
      (DB_TYPE_DOUBLE, rtDOUBLE), (DB_TYPE_BYTES, rtUNDEFINED), (DB_TYPE_BYTES4, rtBYTES4),
      (DB_TYPE_BYTES8, rtBYTES8), (DB_TYPE_BYTES12, rtBYTES12), (DB_TYPE_BYTES16, rtBYTES16),
      (DB_TYPE_BYTES20, rtBYTES20), (DB_TYPE_BYTES32, rtBYTES32), (DB_TYPE_BYTES48, rtBYTES48),
      (DB_TYPE_BYTES64, rtBYTES64), (DB_TYPE_BYTES80, rtBYTES80), (DB_TYPE_BYTES128, rtBYTES128),
      (DB_TYPE_BYTES256, rtBYTES256), (DB_TYPE_ABSTIME, rtABS_TIME), (DB_TYPE_LAST, rtUNDEFINED)]"

section \<open>Classes\<close>

text \<open>The numbers \<open>GOF_D_BDR_OBJCLASS_*\<close>, by the rest of their names.\<close>

definition GOF_D_BDR_OBJCLASS :: "(string \<times> nat) list" where
  "GOF_D_BDR_OBJCLASS =
     [(''TS'', 0), (''TM'', 1), (''TR'', 2), (''TSA'', 3), (''TSC'', 4), (''TC'', 5), (''AL'', 6), (''ICS'', 7),
      (''ICM'', 8), (''REF'', 9), (''PIPE'', 11), (''BORDER'', 12), (''CONSUMER'', 13), (''CORRIDOR'', 14),
      (''PIPELINE'', 15), (''TL'', 16), (''VA'', 19), (''SC'', 20), (''ATC'', 21), (''GRC'', 22), (''SV'', 23),
      (''SDG'', 24), (''RGA'', 25), (''SSDG'', 26), (''BRG'', 27), (''SCP'', 28), (''STG'', 29), (''DIR'', 30),
      (''DIPL'', 31), (''METLINE'', 32), (''ESDG'', 33), (''SVLINE'', 34), (''SCPLINE'', 35), (''TLLINE'', 36),
      (''INVT'', 37), (''AUX1'', 38), (''AUX2'', 39), (''SITE'', 45), (''SA'', 50), (''GENAL'', 51),
      (''USERAL'', 52), (''HISTSET'', 53), (''EQTFIRST'', 16), (''EQTLAST'', 39), (''SYSTFIRST'', 50),
      (''SYSTLAST'', 50), (''NBMAX'', 54), (''DISP_TABLE_H'', 75), (''DISP_TABLE_J'', 76), (''DISP_TABLE_M'', 77),
      (''DISP_TABLE_QH'', 78), (''FIXEDPOINT'', 79), (''HIST_SET'', 80), (''HIST_TABLE_H'', 81),
      (''HIST_TABLE_J'', 82), (''HIST_TABLE_M'', 83), (''HIST_TABLE_QH'', 84), (''HIST_TABLE_SAMPLE'', 85),
      (''TIME_AVAILABLE'', 86), (''CONFIG'', 87), (''LASTUSED'', 87), (''UNUSED'', 127)]"

text \<open>Name, number and type of the values; the pool of attributes is empty until a dictionary is read.\<close>

definition ClassDescriptionTable :: "(string \<times> nat \<times> DbType_t) list" where
  "ClassDescriptionTable =
     [(''TS'', 0, DB_TYPE_UINT16), (''TM'', 1, DB_TYPE_DOUBLE), (''TR'', 2, DB_TYPE_DOUBLE),
      (''TSA'', 3, DB_TYPE_UINT16), (''TSC'', 4, DB_TYPE_UINT16), (''TC'', 5, DB_TYPE_UINT16),
      (''AL'', 6, DB_TYPE_UINT16), (''ICS'', 7, DB_TYPE_UINT16), (''ICM'', 8, DB_TYPE_DOUBLE),
      (''MISSING'', 127, DB_TYPE_UNDEF), (''MISSING'', 127, DB_TYPE_UNDEF), (''PIPE'', 11, DB_TYPE_UINT16),
      (''BORDER'', 12, DB_TYPE_UINT16), (''CONSUMER'', 13, DB_TYPE_UINT16), (''CORRIDOR'', 14, DB_TYPE_UINT16),
      (''PIPELINE'', 15, DB_TYPE_UINT16), (''TL'', 16, DB_TYPE_UINT16), (''MISSING'', 127, DB_TYPE_UNDEF),
      (''MISSING'', 127, DB_TYPE_UNDEF), (''VA'', 19, DB_TYPE_UINT16), (''SC'', 20, DB_TYPE_UINT16),
      (''ATC'', 21, DB_TYPE_UINT16), (''GRC'', 22, DB_TYPE_UINT16), (''SV'', 23, DB_TYPE_UINT16),
      (''SDG'', 24, DB_TYPE_UINT16), (''RGA'', 25, DB_TYPE_UINT16), (''SSDG'', 26, DB_TYPE_UINT16),
      (''BRG'', 27, DB_TYPE_UINT16), (''SCP'', 28, DB_TYPE_UINT16), (''STG'', 29, DB_TYPE_UINT16),
      (''DIR'', 30, DB_TYPE_UINT16), (''DIPL'', 31, DB_TYPE_UINT16), (''METLINE'', 32, DB_TYPE_UINT16),
      (''ESDG'', 33, DB_TYPE_UINT16), (''SVLINE'', 34, DB_TYPE_UINT16), (''SCPLINE'', 35, DB_TYPE_UINT16),
      (''TLLINE'', 36, DB_TYPE_UINT16), (''INVT'', 37, DB_TYPE_UINT16), (''AUX1'', 38, DB_TYPE_UINT16),
      (''AUX2'', 39, DB_TYPE_UINT16), (''MISSING'', 127, DB_TYPE_UNDEF), (''MISSING'', 127, DB_TYPE_UNDEF),
      (''MISSING'', 127, DB_TYPE_UNDEF), (''MISSING'', 127, DB_TYPE_UNDEF), (''MISSING'', 127, DB_TYPE_UNDEF),
      (''SITE'', 45, DB_TYPE_UNDEF), (''MISSING'', 127, DB_TYPE_UNDEF), (''MISSING'', 127, DB_TYPE_UNDEF),
      (''MISSING'', 127, DB_TYPE_UNDEF), (''MISSING'', 127, DB_TYPE_UNDEF), (''SA'', 50, DB_TYPE_UINT16),
      (''GENAL'', 51, DB_TYPE_UNDEF), (''USERAL'', 52, DB_TYPE_UNDEF), (''HISTSET'', 53, DB_TYPE_UNDEF),
      (''MISSING'', 127, DB_TYPE_UNDEF), (''MISSING'', 127, DB_TYPE_UNDEF), (''MISSING'', 127, DB_TYPE_UNDEF),
      (''MISSING'', 127, DB_TYPE_UNDEF), (''MISSING'', 127, DB_TYPE_UNDEF), (''MISSING'', 127, DB_TYPE_UNDEF),
      (''DRIVE_TYPE'', 127, DB_TYPE_UNDEF), (''COMPRESSOR_TYPE'', 127, DB_TYPE_UNDEF),
      (''GRC_TYPE'', 127, DB_TYPE_UNDEF), (''ATC_TYPE'', 127, DB_TYPE_UNDEF), (''SC_TYP'', 127, DB_TYPE_UNDEF),
      (''SDG_TYP'', 127, DB_TYPE_UNDEF), (''SCP_TYP'', 127, DB_TYPE_UNDEF), (''MISSING'', 127, DB_TYPE_UNDEF),
      (''PIPE_TYPE'', 127, DB_TYPE_UNDEF), (''VA_TYPE'', 127, DB_TYPE_UNDEF), (''TS_TYPE'', 127, DB_TYPE_UNDEF),
      (''AL_TYPE'', 127, DB_TYPE_UNDEF), (''TSC_TYPE'', 127, DB_TYPE_UNDEF), (''AUX_TYPE'', 127, DB_TYPE_UNDEF),
      (''VERSION'', 79, DB_TYPE_UINT16), (''DISP_TABLE_H'', 127, DB_TYPE_UNDEF),
      (''DISP_TABLE_J'', 127, DB_TYPE_UNDEF), (''DISP_TABLE_M'', 127, DB_TYPE_UNDEF),
      (''DISP_TABLE_QH'', 127, DB_TYPE_UNDEF), (''FIXEDPOINT'', 79, DB_TYPE_UNDEF),
      (''HIST_SET'', 127, DB_TYPE_UNDEF), (''HIST_TABLE_H'', 127, DB_TYPE_UNDEF),
      (''HIST_TABLE_J'', 127, DB_TYPE_UNDEF), (''HIST_TABLE_M'', 127, DB_TYPE_UNDEF),
      (''HIST_TABLE_QH'', 127, DB_TYPE_UNDEF), (''HIST_TABLE_SAMPLE'', 127, DB_TYPE_UNDEF),
      (''TIME_AVAILABLE'', 127, DB_TYPE_UNDEF), (''config'', 79, DB_TYPE_UNDEF)]"

definition val_type :: "objclass_t \<Rightarrow> DbType_t" where
  "val_type c = snd (snd (ClassDescriptionTable ! objclass_code c))"

end
