(* ===== verification/RtapAttributes.thy ===== *)
theory RtapAttributes
  imports CommonTables RtapGroups RtapEvents
begin

text \<open>
  Reading and writing single attributes of a point (xdb_impl_db_rtap.cpp, read, write and the
  functions \<open>read*\<close> and \<open>write*\<close> they dispatch to), and reading the attributes a subscription delivers.
  The caller's \<open>AttributeInfo_t\<close> holds a value of fixed size, which is a union of 16 bytes, and
  pointers to strings it owns; the state of an operation is this object and the error of the
  database object, together with the database.  What a failed getter leaves in a local variable
  is not looked at.
\<close>

unbundle bit_operations_syntax

section \<open>The caller's object\<close>

datatype Quality_t = ATTR_OK | ATTR_SUSPECT | ATTR_ERROR | ATTR_DISABLED | ATTR_NOT_FOUND

text \<open>A pointer is null, was never set, points to freed memory, or to an object.\<close>

datatype 'a pointer = Null | Wild | Freed | To 'a

text \<open>
  \<open>a_lo\<close> and \<open>a_hi\<close> are the two halves of the union \<open>fixed_part\<close>; \<open>val_time\<close> fills both.  A buffer
  of characters has a size and, up to its first NUL, contents.
\<close>

record attribute_info =
  a_name :: string
  a_type :: DbType_t
  a_quality :: Quality_t
  a_lo :: "64 word"
  a_hi :: "64 word"
  d_size :: nat
  d_varchar :: "(nat \<times> string) pointer"
  d_string :: "string pointer"

record attr_obj =
  t_error :: ErrorCode_t
  t_info :: attribute_info

type_synonym ('d, 'a) attr_step = "(attr_obj, 'd, 'a) step"

definition info :: "('d, attribute_info) attr_step" where
  "info = rd (\<lambda>s. t_info (fst s))"

definition set_info :: "(attribute_info \<Rightarrow> attribute_info) \<Rightarrow> ('d, unit) attr_step" where
  "set_info f = set_obj (t_info_update f)"

definition attr_error :: "ErrorCode_t \<Rightarrow> ('d, unit) attr_step" where
  "attr_error e = set_obj (\<lambda>q. q\<lparr>t_error := e\<rparr>)"

text \<open>The views of the union that the code uses; writing one byte keeps the others.\<close>

definition low_byte :: "64 word \<Rightarrow> 8 word" where
  "low_byte w = ucast w"

definition put_byte :: "8 word \<Rightarrow> 64 word \<Rightarrow> 64 word" where
  "put_byte b w = (w AND NOT (mask 8)) OR ucast b"

definition set_byte :: "nat \<Rightarrow> ('d, unit) attr_step" where
  "set_byte n = set_info (a_lo_update (put_byte (of_nat n)))"

definition set_word :: "64 word \<Rightarrow> ('d, unit) attr_step" where
  "set_word w = set_info (\<lambda>i. i\<lparr>a_lo := w\<rparr>)"

definition set_time :: "timestamp \<Rightarrow> ('d, unit) attr_step" where
  "set_time t = set_info (\<lambda>i. i\<lparr>a_lo := ucast (ts_sec t), a_hi := ucast (ts_nsec t)\<rparr>)"

definition time_of :: "attribute_info \<Rightarrow> timestamp" where
  "time_of i = \<lparr>ts_sec = ucast (a_lo i), ts_nsec = ucast (a_hi i)\<rparr>"

definition set_type :: "DbType_t \<Rightarrow> ('d, unit) attr_step" where
  "set_type t = set_info (\<lambda>i. i\<lparr>a_type := t\<rparr>)"

text \<open>What the getter of a string does with the caller's buffer, and a writer with its contents.\<close>

definition give_text :: "string \<Rightarrow> ('d, unit) attr_step" where
  "give_text s =
     bnd info (\<lambda>i.
     case d_varchar i of
       Null \<Rightarrow> raise (Crash NullDeref)
     | To (cap, _) \<Rightarrow>
         if length (strncpy (d_size i) s) < cap then set_info (\<lambda>i. i\<lparr>d_varchar := To (cap, strncpy (d_size i) s)\<rparr>)
         else raise (Crash BadPointer)
     | _ \<Rightarrow> raise (Crash BadPointer))"

definition take_text :: "(attribute_info \<Rightarrow> nat) \<Rightarrow> ('d, string) attr_step" where
  "take_text n =
     bnd info (\<lambda>i.
     case d_varchar i of
       Null \<Rightarrow> raise (Crash NullDeref)
     | To (_, s) \<Rightarrow> ret (strncpy (n i) s)
     | _ \<Rightarrow> raise (Crash BadPointer))"

text \<open>\<open>delete\<close>; a null pointer may be deleted.\<close>

fun deleted :: "'a pointer \<Rightarrow> ('a pointer) option" where
  "deleted Null = Some Null"
| "deleted (To _) = Some Freed"
| "deleted _ = None"

definition is_chars :: "DbType_t \<Rightarrow> bool" where
  "is_chars t \<longleftrightarrow> DbType_code DB_TYPE_BYTES4 \<le> DbType_code t \<and> DbType_code t \<le> DbType_code DB_TYPE_BYTES256"

definition drop_old :: "('d, unit) attr_step" where
  "drop_old =
     bnd info (\<lambda>i.
     if is_chars (a_type i) then
       (case deleted (d_varchar i) of None \<Rightarrow> raise (Crash BadPointer) | Some p \<Rightarrow> set_info (\<lambda>i. i\<lparr>d_varchar := p\<rparr>))
     else if a_type i = DB_TYPE_BYTES then
       (case deleted (d_string i) of None \<Rightarrow> raise (Crash BadPointer) | Some p \<Rightarrow> set_info (\<lambda>i. i\<lparr>d_string := p\<rparr>))
     else ret ())"

text \<open>The second comparison is with the type the caller gave, not with the last type of strings.\<close>

definition make_new :: "string \<Rightarrow> ('d, unit) attr_step" where
  "make_new att =
     bnd info (\<lambda>i.
     if DbType_code DB_TYPE_BYTES4 \<le> DbType_code (attr_type att) \<and> DbType_code (a_type i) \<le> DbType_code (attr_type att) then
       set_info (\<lambda>i. i\<lparr>d_size := attr_size att, d_varchar := To (attr_size att + 1, '''')\<rparr>)
     else if a_type i = DB_TYPE_BYTES then set_info (\<lambda>i. i\<lparr>d_string := To ''''\<rparr>)
     else ret ())"

definition check_user_defined_type :: "string \<Rightarrow> ('d, unit) attr_step" where
  "check_user_defined_type att =
     bnd info (\<lambda>i.
     sq (if a_type i \<noteq> attr_type att then sq drop_old (make_new att) else ret ())
        (set_type (attr_type att)))"

section \<open>Rows\<close>

definition point_row :: "'d rtap_env \<Rightarrow> int \<Rightarrow> ('o, 'd, xdb_point) step" where
  "point_row E h = db (c_get (XDBPoint E) h)"

definition put_point :: "'d rtap_env \<Rightarrow> int \<Rightarrow> point_put \<Rightarrow> ('o, 'd, unit) step" where
  "put_point E h p = db (c_put (XDBPoint E) p h)"

text \<open>
  \<open>rc = getter(value); ... store it in any case ...; return rc;\<close> where \<open>dflt\<close> is stored when the
  getter failed.
\<close>

definition get_then :: "'d rtap_env \<Rightarrow> int \<Rightarrow> (xdb_point option \<Rightarrow> ('d, unit) attr_step) \<Rightarrow> ('d, unit) attr_step" where
  "get_then E h keep =
     bnd (db_try (c_get (XDBPoint E) h)) (\<lambda>r.
     case r of Inl rc \<Rightarrow> sq (keep None) (raise (Brk rc)) | Inr row \<Rightarrow> keep (Some row))"

section \<open>Strings of the common part\<close>

definition readTAG :: "'d rtap_env \<Rightarrow> int \<Rightarrow> ('d, unit) attr_step" where
  "readTAG E h =
     sq (check_user_defined_type ''UNIVNAME'')
        (bnd (point_row E h) (\<lambda>r. give_text (p_TAG r)))"

definition readSHORTLABEL :: "'d rtap_env \<Rightarrow> int \<Rightarrow> ('d, unit) attr_step" where
  "readSHORTLABEL E h =
     sq (check_user_defined_type ''SHORTLABEL'')
        (bnd (point_row E h) (\<lambda>r. give_text (p_SHORTLABEL r)))"

text \<open>\<open>assert(varchar); assert(type = ...)\<close>, where the second sets the type.\<close>

definition text_given :: "string \<Rightarrow> ('d, unit) attr_step" where
  "text_given att =
     bnd info (\<lambda>i.
     sq (assert_c (d_varchar i \<noteq> Null))
        (set_type (attr_type att)))"

definition writeSHORTLABEL :: "'d rtap_env \<Rightarrow> int \<Rightarrow> ('d, unit) attr_step" where
  "writeSHORTLABEL E h =
     sq (text_given ''SHORTLABEL'')
        (bnd (take_text (\<lambda>_. attr_size ''SHORTLABEL'')) (\<lambda>s. put_point E h (PutSHORTLABEL s)))"

definition readUNITY :: "'d rtap_env \<Rightarrow> int \<Rightarrow> ('d, unit) attr_step" where
  "readUNITY E h =
     sq (check_user_defined_type ''UNITY'')
        (bnd (point_row E h) (\<lambda>r.
         bnd (db (unity_by_id_find E (p_UNITY_ID r))) (\<lambda>u.
         bnd (db (unity_get E u)) (\<lambda>row. give_text (un_UNITY row)))))"

definition writeUNITY :: "'d rtap_env \<Rightarrow> int \<Rightarrow> ('d, unit) attr_step" where
  "writeUNITY E h =
     sq (text_given ''UNITY'')
        (bnd (take_text d_size) (\<lambda>s.
         bnd (db (unityHash_find E s)) (\<lambda>u.
         bnd (db (unity_get E u)) (\<lambda>row. put_point E h (PutUNITY_ID (un_unityID row))))))"

definition readL_SA :: "'d rtap_env \<Rightarrow> int \<Rightarrow> ('d, unit) attr_step" where
  "readL_SA E h =
     sq (check_user_defined_type ''L_SA'')
        (bnd (point_row E h) (\<lambda>r.
         bnd (db (c_find (XDBPoint E) (p_SA_ref r))) (\<lambda>sa.
         bnd (point_row E sa) (\<lambda>q. give_text (p_TAG q)))))"

definition writeL_SA :: "'d rtap_env \<Rightarrow> int \<Rightarrow> ('d, unit) attr_step" where
  "writeL_SA E h =
     sq (text_given ''L_SA'')
        (bnd (take_text d_size) (\<lambda>s.
         bnd (db_try (SK_by_tag_find E s)) (\<lambda>r.
         case r of
           Inl rc \<Rightarrow> sq (attr_error rtE_POINT_NOT_FOUND) (raise (Brk rc))
         | Inr sa \<Rightarrow>
             bnd (db (c_autoid_get (XDBPoint E) sa)) (\<lambda>aid. put_point E h (PutSA_ref aid)))))"

section \<open>Numbers of the common part\<close>

definition readOBJCLASS :: "'d rtap_env \<Rightarrow> int \<Rightarrow> ('d, unit) attr_step" where
  "readOBJCLASS E h =
     bnd (point_row E h) (\<lambda>r.
     sq (set_byte (objclass_code (p_OBJCLASS r)))
        (set_type (attr_type ''OBJCLASS'')))"

fun PointStatus_code :: "PointStatus \<Rightarrow> nat" where
  "PointStatus_code PLANNED = 0" | "PointStatus_code WORKED = 1" | "PointStatus_code DISABLED = 2"

definition readSTATUS :: "'d rtap_env \<Rightarrow> int \<Rightarrow> ('d, unit) attr_step" where
  "readSTATUS E h =
     get_then E h (\<lambda>r.
     sq (set_byte (PointStatus_code (case r of None \<Rightarrow> DISABLED | Some r \<Rightarrow> p_STATUS r)))
        (set_type (attr_type ''STATUS'')))"

definition MCO_E_ILLEGAL_PARAM :: mco_ret where
  "MCO_E_ILLEGAL_PARAM = MCO_E 3"

definition writeSTATUS :: "'d rtap_env \<Rightarrow> int \<Rightarrow> ('d, unit) attr_step" where
  "writeSTATUS E h =
     bnd info (\<lambda>i.
     let v = low_byte (a_lo i) in
     if v = 0 then put_point E h (PutSTATUS PLANNED)
     else if v = 1 then put_point E h (PutSTATUS WORKED)
     else if v = 2 then put_point E h (PutSTATUS DISABLED)
     else raise (Brk MCO_E_ILLEGAL_PARAM))"

fun Validity_code :: "Validity \<Rightarrow> nat" where
  "Validity_code VALIDITY_FAULT = 0" | "Validity_code VALIDITY_VALID = 1" | "Validity_code VALIDITY_MANUAL = 2"
| "Validity_code VALIDITY_INHIBITION = 3" | "Validity_code VALIDITY_FAULT_INHIB = 4"
| "Validity_code VALIDITY_FAULT_FORCED = 5" | "Validity_code VALIDITY_INQUIRED = 6"
| "Validity_code VALIDITY_NO_INSTRUM = 7" | "Validity_code VALIDITY_GLOBAL_FAULT = 8"

definition Validities :: "Validity list" where
  "Validities = [VALIDITY_FAULT, VALIDITY_VALID, VALIDITY_MANUAL, VALIDITY_INHIBITION, VALIDITY_FAULT_INHIB,
     VALIDITY_FAULT_FORCED, VALIDITY_INQUIRED, VALIDITY_NO_INSTRUM, VALIDITY_GLOBAL_FAULT]"

text \<open>\<open>switch\<close> over the numbers 0 to 8; any other number is \<open>VALIDITY_FAULT\<close>.\<close>

definition validity_of :: "int \<Rightarrow> Validity" where
  "validity_of n = (if 0 \<le> n \<and> n \<le> 8 then Validities ! nat n else VALIDITY_FAULT)"

definition readVALID :: "'d rtap_env \<Rightarrow> int \<Rightarrow> ('d, unit) attr_step" where
  "readVALID E h =
     sq (set_type (attr_type ''VALID''))
        (get_then E h (\<lambda>r. set_byte (Validity_code (case r of None \<Rightarrow> VALIDITY_FAULT | Some r \<Rightarrow> p_VALIDITY r))))"

definition writeVALID :: "'d rtap_env \<Rightarrow> int \<Rightarrow> ('d, unit) attr_step" where
  "writeVALID E h = bnd info (\<lambda>i. put_point E h (PutVALIDITY (validity_of (uint (low_byte (a_lo i))))))"

definition readVALIDACQ :: "'d rtap_env \<Rightarrow> int \<Rightarrow> ('d, unit) attr_step" where
  "readVALIDACQ E h =
     sq (set_type (attr_type ''VALIDACQ''))
        (get_then E h (\<lambda>r. set_byte (Validity_code (case r of None \<Rightarrow> VALIDITY_FAULT | Some r \<Rightarrow> p_VALIDITY_ACQ r))))"

definition writeVALIDACQ :: "'d rtap_env \<Rightarrow> int \<Rightarrow> ('d, unit) attr_step" where
  "writeVALIDACQ E h = bnd info (\<lambda>i. put_point E h (PutVALIDITY_ACQ (validity_of (uint (low_byte (a_lo i))))))"

definition ValidChanges :: "ValidChange list" where
  "ValidChanges = [VALIDCHANGE_NULL, VALIDCHANGE_VALID, VALIDCHANGE_FORCED, VALIDCHANGE_INHIB, VALIDCHANGE_MANUAL,
     VALIDCHANGE_END_INHIB, VALIDCHANGE_END_FORCED, VALIDCHANGE_INHIB_GBL, VALIDCHANGE_END_INHIB_GBL, VALIDCHANGE_NULL,
     VALIDCHANGE_FAULT_GBL, VALIDCHANGE_INHIB_SA, VALIDCHANGE_END_INHIB_SA]"

text \<open>\<open>switch\<close> over the numbers 1 to 12; any other number, 0 too, is \<open>VALIDCHANGE_NULL\<close>.\<close>

definition valid_change_of :: "int \<Rightarrow> ValidChange" where
  "valid_change_of n = (if 1 \<le> n \<and> n \<le> 12 then ValidChanges ! nat n else VALIDCHANGE_NULL)"

fun valid_change_shown :: "ValidChange \<Rightarrow> nat" where
  "valid_change_shown VALIDCHANGE_VALID = 1" | "valid_change_shown VALIDCHANGE_FORCED = 2"
| "valid_change_shown VALIDCHANGE_INHIB = 3" | "valid_change_shown VALIDCHANGE_MANUAL = 4"
| "valid_change_shown VALIDCHANGE_END_INHIB = 5" | "valid_change_shown VALIDCHANGE_END_FORCED = 6"
| "valid_change_shown VALIDCHANGE_INHIB_GBL = 7" | "valid_change_shown VALIDCHANGE_END_INHIB_GBL = 8"
| "valid_change_shown VALIDCHANGE_NULL = 9" | "valid_change_shown VALIDCHANGE_FAULT_GBL = 10"
| "valid_change_shown VALIDCHANGE_INHIB_SA = 11" | "valid_change_shown VALIDCHANGE_END_INHIB_SA = 12"
| "valid_change_shown VALIDCHANGE_FAULT = 9"

definition readVALIDCHANGE :: "'d rtap_env \<Rightarrow> int \<Rightarrow> ('d, unit) attr_step" where
  "readVALIDCHANGE E h =
     get_then E h (\<lambda>r.
     sq (set_byte (case r of None \<Rightarrow> 9 | Some r \<Rightarrow> valid_change_shown (p_VALIDCHANGE r)))
        (set_type (attr_type ''VALIDCHANGE'')))"

text \<open>The put raises the event of the schema, so the handler of VALIDCHANGE runs before the put returns.\<close>

definition writeVALIDCHANGE :: "'d rtap_env \<Rightarrow> int \<Rightarrow> ('d, unit) attr_step" where
  "writeVALIDCHANGE E h = bnd info (\<lambda>i. db (fire E h (valid_change_of (sint (low_byte (a_lo i))))))"

text \<open>\<open>switch (val_bool)\<close> with the cases false and true, which are the bytes 0 and 1.\<close>

definition readINHIB :: "'d rtap_env \<Rightarrow> int \<Rightarrow> ('d, unit) attr_step" where
  "readINHIB E h =
     get_then E h (\<lambda>r.
     sq (set_byte (case r of None \<Rightarrow> 0 | Some r \<Rightarrow> of_bool (p_INHIB r)))
        (set_type (attr_type ''INHIB'')))"

definition writeINHIB :: "'d rtap_env \<Rightarrow> int \<Rightarrow> ('d, unit) attr_step" where
  "writeINHIB E h =
     bnd info (\<lambda>i.
     sq (assert_c (a_type i = attr_type ''INHIB''))
        (put_point E h (PutINHIB (low_byte (a_lo i) = 1))))"

definition readINHIBLOCAL :: "'d rtap_env \<Rightarrow> int \<Rightarrow> ('d, unit) attr_step" where
  "readINHIBLOCAL E h =
     get_then E h (\<lambda>r.
     sq (set_byte (case r of None \<Rightarrow> 0 | Some r \<Rightarrow> of_bool (p_INHIBLOCAL r)))
        (set_type (attr_type ''INHIBLOCAL'')))"

definition writeINHIBLOCAL :: "'d rtap_env \<Rightarrow> int \<Rightarrow> ('d, unit) attr_step" where
  "writeINHIBLOCAL E h =
     bnd info (\<lambda>i.
     sq (assert_c (a_type i = attr_type ''INHIBLOCAL''))
        (put_point E h (PutINHIBLOCAL (low_byte (a_lo i) = 1))))"

text \<open>The getters of a time are called for a local variable whose contents are then dropped.\<close>

definition readDATEHOURM :: "'d rtap_env \<Rightarrow> int \<Rightarrow> ('d, unit) attr_step" where
  "readDATEHOURM E h =
     sq (set_type (attr_type ''DATEHOURM''))
        (get_then E h (\<lambda>r. case r of None \<Rightarrow> set_info (\<lambda>i. i\<lparr>a_lo := 0, a_hi := 0\<rparr>) | Some _ \<Rightarrow> ret ()))"

text \<open>The time is put through a handle that is opened only afterwards.\<close>

definition writeDATEHOURM :: "'d rtap_env \<Rightarrow> int \<Rightarrow> ('d, unit) attr_step" where
  "writeDATEHOURM E h =
     sq (db (unopened E))
    (sq (bnd (db_try (unopened E)) (\<lambda>_. ret ()))
        (db (c_access (XDBPoint E) h)))"

section \<open>Attributes of the passport\<close>

fun time_in :: "pass_val option \<Rightarrow> timestamp" where
  "time_in (Some (PTime t)) = t"
| "time_in _ = no_time"

fun text_in :: "pass_val option \<Rightarrow> string" where
  "text_in (Some (PText s)) = s"
| "text_in _ = ''''"

definition passport_row :: "'d rtap_env \<Rightarrow> objclass_t \<Rightarrow> int \<Rightarrow> ('o, 'd, passport) step" where
  "passport_row E c h = bnd (db (c_find (PASSPORT E c) h)) (\<lambda>p. db (c_get (PASSPORT E c) p))"

definition readCURRENT_SHIFT_TIME :: "'d rtap_env \<Rightarrow> int \<Rightarrow> ('d, unit) attr_step" where
  "readCURRENT_SHIFT_TIME E h =
     bnd (point_row E h) (\<lambda>r.
     if p_OBJCLASS r \<noteq> SITE then ret ()
     else
       bnd (passport_row E SITE (p_passport_ref r)) (\<lambda>p.
       sq (set_time (time_in (p ''CURRENT_SHIFT_TIME'')))
          (set_type (attr_type ''CURRENT_SHIFT_TIME''))))"

definition writeCURRENT_SHIFT_TIME :: "'d rtap_env \<Rightarrow> int \<Rightarrow> ('d, unit) attr_step" where
  "writeCURRENT_SHIFT_TIME E h =
     bnd (point_row E h) (\<lambda>r.
     bnd (db (c_find (PASSPORT E SITE) (p_passport_ref r))) (\<lambda>p.
     sq (db (c_access (PASSPORT E SITE) p))
        (bnd info (\<lambda>i. db (c_put (PASSPORT E SITE) (PassPut ''CURRENT_SHIFT_TIME'' (PTime (time_of i))) p)))))"

definition readPREV_SHIFT_TIME :: "'d rtap_env \<Rightarrow> int \<Rightarrow> ('d, unit) attr_step" where
  "readPREV_SHIFT_TIME E h =
     bnd (point_row E h) (\<lambda>r.
     if p_OBJCLASS r = SITE then
       bnd (passport_row E SITE (p_passport_ref r)) (\<lambda>p.
       sq (set_time (time_in (p ''PREV_SHIFT_TIME'')))
          (set_type (attr_type ''PREV_SHIFT_TIME'')))
     else ret ())"

definition readPREV_DISPATCHER :: "'d rtap_env \<Rightarrow> int \<Rightarrow> ('d, unit) attr_step" where
  "readPREV_DISPATCHER E h =
     sq (check_user_defined_type ''PREV_DISPATCHER'')
        (bnd (point_row E h) (\<lambda>r.
         if p_OBJCLASS r = SITE then
           bnd (passport_row E SITE (p_passport_ref r)) (\<lambda>p. give_text (text_in (p ''PREV_DISPATCHER'')))
         else ret ()))"

definition writePREV_DISPATCHER :: "'d rtap_env \<Rightarrow> int \<Rightarrow> ('d, unit) attr_step" where
  "writePREV_DISPATCHER E h =
     sq (text_given ''PREV_DISPATCHER'')
    (sq (check_user_defined_type ''PREV_DISPATCHER'')
        (bnd (point_row E h) (\<lambda>r.
         if p_OBJCLASS r = SITE then
           bnd (db (c_find (PASSPORT E SITE) (p_passport_ref r))) (\<lambda>p.
           bnd (take_text d_size) (\<lambda>s. db (c_put (PASSPORT E SITE) (PassPut ''PREV_DISPATCHER'' (PText s)) p)))
         else ret ())))"

definition readDISPP :: "'d rtap_env \<Rightarrow> int \<Rightarrow> ('d, unit) attr_step" where
  "readDISPP E h =
     sq (check_user_defined_type ''DISPP'')
        (bnd (point_row E h) (\<lambda>r.
         if p_OBJCLASS r = SITE then
           bnd (passport_row E SITE (p_passport_ref r)) (\<lambda>p. give_text (text_in (p ''DISPP'')))
         else ret ()))"

definition size_of_type :: "DbType_t \<Rightarrow> nat" where
  "size_of_type t = var_size ! DbType_code t"

definition readFUNCTION :: "'d rtap_env \<Rightarrow> int \<Rightarrow> ('d, unit) attr_step" where
  "readFUNCTION E h =
     sq (check_user_defined_type ''FUNCTION'')
    (sq (set_info (\<lambda>i. if d_varchar i = Null then i\<lparr>d_varchar := To (d_size i + 1, '''')\<rparr> else i))
    (sq (set_info (\<lambda>i. i\<lparr>d_size := size_of_type (a_type i)\<rparr>))
    (bnd (point_row E h) (\<lambda>r.
     sq (if p_OBJCLASS r = PIPELINE \<or> p_OBJCLASS r = VA then
           bnd (passport_row E (p_OBJCLASS r) (p_passport_ref r)) (\<lambda>p. give_text (text_in (p ''FUNCTION'')))
         else ret ())
        (set_type (attr_type ''FUNCTION''))))))"

text \<open>The passport is looked up with the id of the point.\<close>

definition writeFUNCTION :: "'d rtap_env \<Rightarrow> int \<Rightarrow> ('d, unit) attr_step" where
  "writeFUNCTION E h =
     sq (set_type (attr_type ''FUNCTION''))
    (bnd (db (c_autoid_get (XDBPoint E) h)) (\<lambda>aid.
     bnd (point_row E h) (\<lambda>r.
     if p_OBJCLASS r = PIPELINE \<or> p_OBJCLASS r = VA then
       bnd (db (c_find (PASSPORT E (p_OBJCLASS r)) aid)) (\<lambda>p.
       bnd (take_text (\<lambda>i. min (d_size i) (size_of_type (a_type i)))) (\<lambda>s.
       db (c_put (PASSPORT E (p_OBJCLASS r)) (PassPut ''FUNCTION'' (PText s)) p)))
     else ret ())))"

section \<open>The values of a point\<close>

definition analog_class :: "objclass_t \<Rightarrow> bool" where
  "analog_class c \<longleftrightarrow> c \<in> {TM, TR, ICM}"

definition acquired_class :: "objclass_t \<Rightarrow> bool" where
  "acquired_class c \<longleftrightarrow> c \<in> {TS, TSA, AL, ICS, PIPE, TL, VA, SC, ATC, GRC, SV, SDG, RGA, SSDG, BRG, SCP, STG,
     METLINE, ESDG, SVLINE, SCPLINE, TLLINE, AUX1, AUX2}"

definition discrete_class :: "objclass_t \<Rightarrow> bool" where
  "discrete_class c \<longleftrightarrow> acquired_class c \<or> c \<in> {DIR, DIPL}"

text \<open>A field of a part that was read before.\<close>

definition part_field :: "(info_type \<Rightarrow> 64 word) \<Rightarrow> info_type option \<Rightarrow> 64 word" where
  "part_field f p = (case p of None \<Rightarrow> 0 | Some i \<Rightarrow> f i)"

definition read_analog :: "'d rtap_env \<Rightarrow> int \<Rightarrow> (info_type \<Rightarrow> 64 word) \<Rightarrow> DbType_t \<Rightarrow> ('d, unit) attr_step" where
  "read_analog E h f t =
     sq (db (ai_read E h))
        (bnd (point_row E h) (\<lambda>r. sq (set_word (part_field f (p_ai r))) (set_type t)))"

definition read_discrete :: "'d rtap_env \<Rightarrow> int \<Rightarrow> (info_type \<Rightarrow> 64 word) \<Rightarrow> DbType_t \<Rightarrow> ('d, unit) attr_step" where
  "read_discrete E h f t =
     sq (db (di_read E h))
        (bnd (point_row E h) (\<lambda>r. sq (set_word (part_field f (p_di r))) (set_type t)))"

definition write_analog :: "'d rtap_env \<Rightarrow> int \<Rightarrow> (64 word \<Rightarrow> point_put) \<Rightarrow> ('d, unit) attr_step" where
  "write_analog E h p = sq (db (ai_read E h)) (bnd info (\<lambda>i. put_point E h (p (a_lo i))))"

definition write_discrete :: "'d rtap_env \<Rightarrow> int \<Rightarrow> (64 word \<Rightarrow> point_put) \<Rightarrow> ('d, unit) attr_step" where
  "write_discrete E h p = sq (db (di_read E h)) (bnd info (\<lambda>i. put_point E h (p (a_lo i))))"

definition readVAL :: "'d rtap_env \<Rightarrow> int \<Rightarrow> ('d, unit) attr_step" where
  "readVAL E h =
     bnd (point_row E h) (\<lambda>r.
     if analog_class (p_OBJCLASS r) then read_analog E h i_VAL (val_type (p_OBJCLASS r))
     else if discrete_class (p_OBJCLASS r) then read_discrete E h i_VAL (val_type (p_OBJCLASS r))
     else set_type DB_TYPE_UNDEF)"

definition writeVAL :: "'d rtap_env \<Rightarrow> int \<Rightarrow> ('d, unit) attr_step" where
  "writeVAL E h =
     bnd (point_row E h) (\<lambda>r.
     if analog_class (p_OBJCLASS r) then write_analog E h PutAI_VAL
     else if discrete_class (p_OBJCLASS r) then write_discrete E h PutDI_VAL
     else ret ())"

definition readVALACQ :: "'d rtap_env \<Rightarrow> int \<Rightarrow> ('d, unit) attr_step" where
  "readVALACQ E h =
     bnd (point_row E h) (\<lambda>r.
     if analog_class (p_OBJCLASS r) then read_analog E h i_VALACQ DB_TYPE_DOUBLE
     else if acquired_class (p_OBJCLASS r) then read_discrete E h i_VALACQ DB_TYPE_UINT64
     else set_type DB_TYPE_UNDEF)"

definition writeVALACQ :: "'d rtap_env \<Rightarrow> int \<Rightarrow> ('d, unit) attr_step" where
  "writeVALACQ E h =
     bnd (point_row E h) (\<lambda>r.
     if analog_class (p_OBJCLASS r) then write_analog E h PutAI_VALACQ
     else if acquired_class (p_OBJCLASS r) then write_discrete E h PutDI_VALACQ
     else ret ())"

definition readVALMANUAL :: "'d rtap_env \<Rightarrow> int \<Rightarrow> ('d, unit) attr_step" where
  "readVALMANUAL E h =
     bnd (point_row E h) (\<lambda>r.
     if analog_class (p_OBJCLASS r) then read_analog E h i_VALMANUAL DB_TYPE_DOUBLE
     else if acquired_class (p_OBJCLASS r) then read_discrete E h i_VALMANUAL DB_TYPE_UINT64
     else set_type DB_TYPE_UNDEF)"

definition writeVALMANUAL :: "'d rtap_env \<Rightarrow> int \<Rightarrow> ('d, unit) attr_step" where
  "writeVALMANUAL E h =
     bnd (point_row E h) (\<lambda>r.
     if analog_class (p_OBJCLASS r) then write_analog E h PutAI_VALMANUAL
     else if acquired_class (p_OBJCLASS r) then write_discrete E h PutDI_VALMANUAL
     else set_type DB_TYPE_UNDEF)"


section \<open>Which function serves an attribute\<close>

text \<open>
  The maps \<open>m_attr_reading_func_map\<close> and \<open>m_attr_writing_func_map\<close>.  The functions of the attributes in
  \<open>read_stubs\<close> and \<open>write_stubs\<close>, in the files impl_func_read.gen and impl_func_write.gen, only
  return \<open>MCO_S_OK\<close>.
\<close>

definition read_stubs :: "string list" where
  "read_stubs =
     [''ACTIONTYP'', ''ALARMBEGIN'', ''ALARMBEGINACK'', ''ALARMENDACK'', ''ALARMSYNTH'', ''ALDEST'', ''ALINHIB'',
      ''CONFREMOTECMD'', ''CONVERTCOEFF'', ''DATEAINS'', ''DATERTU'', ''DELEGABLE'', ''FLGMAINTENANCE'',
      ''FLGREMOTECMD'', ''GRADLEVEL'', ''KMREFDWN'', ''KMREFUPS'', ''LABEL'', ''L_CONSUMER'', ''L_CORRIDOR'',
      ''L_DIPL'', ''L_EQT'', ''L_EQTORBORDWN'', ''L_EQTORBORUPS'', ''L_EQTTYP'', ''LINK_HIST'', ''L_NET'',
      ''L_NETTYPE'', ''LOCALFLAG'', ''L_PIPE'', ''L_PIPELINE'', ''L_TL'', ''L_TM'', ''L_TYPINFO'', ''MAXVAL'',
      ''MINVAL'', ''MNVALPHY'', ''MXFLOW'', ''MXPRESSURE'', ''MXVALPHY'', ''NAMEMAINTENANCE'', ''NMFLOW'',
      ''NMPRESSURE'', ''PLANFLOW'', ''PLANPRESSURE'', ''REMOTECONTROL'', ''SUPPLIER'', ''SUPPLIERMODE'',
      ''SUPPLIERSTATE'', ''SYNTHSTATE'', ''TSSYNTHETICAL'', ''TYPE'', ''UNITYCATEG'', ''VALEX'', ''VAL_LABEL'']"

definition write_stubs :: "string list" where
  "write_stubs =
     [''ACTIONTYP'', ''ALARMBEGIN'', ''ALARMBEGINACK'', ''ALARMENDACK'', ''ALARMSYNTH'', ''ALDEST'', ''ALINHIB'',
      ''CONFREMOTECMD'', ''CONVERTCOEFF'', ''DATEAINS'', ''DATERTU'', ''DELEGABLE'', ''DISPP'', ''FLGMAINTENANCE'',
      ''FLGREMOTECMD'', ''GRADLEVEL'', ''KMREFDWN'', ''KMREFUPS'', ''LABEL'', ''L_CONSUMER'', ''L_CORRIDOR'',
      ''L_DIPL'', ''L_EQT'', ''L_EQTORBORDWN'', ''L_EQTORBORUPS'', ''L_EQTTYP'', ''LINK_HIST'', ''L_NET'',
      ''L_NETTYPE'', ''LOCALFLAG'', ''L_PIPE'', ''L_PIPELINE'', ''L_TL'', ''L_TM'', ''L_TYPINFO'', ''MAXVAL'',
      ''MINVAL'', ''MNVALPHY'', ''MXFLOW'', ''MXPRESSURE'', ''MXVALPHY'', ''NAMEMAINTENANCE'', ''NMFLOW'',
      ''NMPRESSURE'', ''PLANFLOW'', ''PLANPRESSURE'', ''PREV_SHIFT_TIME'', ''REMOTECONTROL'', ''SUPPLIER'',
      ''SUPPLIERMODE'', ''SUPPLIERSTATE'', ''SYNTHSTATE'', ''TSSYNTHETICAL'', ''TYPE'', ''UNITYCATEG'', ''VALEX'',
      ''VAL_LABEL'']"

definition gen_readers :: "'d rtap_env \<Rightarrow> (string \<times> (int \<Rightarrow> ('d, unit) attr_step)) list" where
  "gen_readers E =
     [(''CURRENT_SHIFT_TIME'', readCURRENT_SHIFT_TIME E), (''DATEHOURM'', readDATEHOURM E), (''DISPP'', readDISPP E),
      (''FUNCTION'', readFUNCTION E), (''INHIB'', readINHIB E), (''INHIBLOCAL'', readINHIBLOCAL E),
      (''L_SA'', readL_SA E), (''PREV_DISPATCHER'', readPREV_DISPATCHER E),
      (''PREV_SHIFT_TIME'', readPREV_SHIFT_TIME E), (''SHORTLABEL'', readSHORTLABEL E), (''STATUS'', readSTATUS E),
      (''UNITY'', readUNITY E), (''VAL'', readVAL E), (''VALACQ'', readVALACQ E), (''VALID'', readVALID E),
      (''VALIDACQ'', readVALIDACQ E), (''VALIDCHANGE'', readVALIDCHANGE E), (''VALMANUAL'', readVALMANUAL E)]"

text \<open>The one reader that the generated file does not hold.\<close>

definition readers :: "'d rtap_env \<Rightarrow> (string \<times> (int \<Rightarrow> ('d, unit) attr_step)) list" where
  "readers E = gen_readers E @ [(''OBJCLASS'', readOBJCLASS E)]"

definition writers :: "'d rtap_env \<Rightarrow> (string \<times> (int \<Rightarrow> ('d, unit) attr_step)) list" where
  "writers E =
     [(''CURRENT_SHIFT_TIME'', writeCURRENT_SHIFT_TIME E), (''DATEHOURM'', writeDATEHOURM E),
      (''FUNCTION'', writeFUNCTION E), (''INHIB'', writeINHIB E), (''INHIBLOCAL'', writeINHIBLOCAL E),
      (''L_SA'', writeL_SA E), (''PREV_DISPATCHER'', writePREV_DISPATCHER E), (''SHORTLABEL'', writeSHORTLABEL E),
      (''STATUS'', writeSTATUS E), (''UNITY'', writeUNITY E), (''VAL'', writeVAL E), (''VALACQ'', writeVALACQ E),
      (''VALID'', writeVALID E), (''VALIDACQ'', writeVALIDACQ E), (''VALIDCHANGE'', writeVALIDCHANGE E),
      (''VALMANUAL'', writeVALMANUAL E)]"

definition stub :: "int \<Rightarrow> ('d, unit) attr_step" where
  "stub h = ret ()"

definition attr_reading_func :: "'d rtap_env \<Rightarrow> string \<Rightarrow> (int \<Rightarrow> ('d, unit) attr_step) option" where
  "attr_reading_func E n = (case map_of (readers E) n of
     Some f \<Rightarrow> Some f | None \<Rightarrow> if n \<in> set read_stubs then Some stub else None)"

definition attr_writing_func :: "'d rtap_env \<Rightarrow> string \<Rightarrow> (int \<Rightarrow> ('d, unit) attr_step) option" where
  "attr_writing_func E n = (case map_of (writers E) n of
     Some f \<Rightarrow> Some f | None \<Rightarrow> if n \<in> set write_stubs then Some stub else None)"

section \<open>Reading and writing an attribute\<close>

text \<open>\<open>name.find(''.'')\<close>: the name of the point and that of the attribute, if there is a dot.\<close>

definition split_name :: "string \<Rightarrow> (string \<times> string) option" where
  "split_name n = (if CHR ''.'' \<in> set n then Some (takeWhile (\<lambda>c. c \<noteq> CHR ''.'') n, tl (dropWhile (\<lambda>c. c \<noteq> CHR ''.'') n))
     else None)"

definition locate_point :: "'d rtap_env \<Rightarrow> string \<Rightarrow> ('d, int) attr_step" where
  "locate_point E tag =
     bnd (db_try (SK_by_tag_find E tag)) (\<lambda>r.
     case r of Inl rc \<Rightarrow> sq (attr_error rtE_POINT_NOT_FOUND) (raise (Brk rc)) | Inr h \<Rightarrow> ret h)"

text \<open>A function of an attribute, whose code becomes the error of the operation.\<close>

definition served :: "('d, unit) attr_step \<Rightarrow> ('d, unit) attr_step" where
  "served m =
     bnd (rc_of m) (\<lambda>r.
     case r of Inl rc \<Rightarrow> sq (attr_error rtE_ILLEGAL_PARAMETER_VALUE) (raise (Brk rc)) | Inr _ \<Rightarrow> ret ())"

definition read_steps :: "'d rtap_env \<Rightarrow> string \<Rightarrow> string \<Rightarrow> ('d, unit) attr_step" where
  "read_steps E tag att =
     bnd (locate_point E tag) (\<lambda>h.
     sq (case attr_reading_func E att of None \<Rightarrow> attr_error rtE_ATTR_NOT_FOUND | Some f \<Rightarrow> served (f h))
    (sq (db (rtap_commit E))
    (sq (set_info (\<lambda>i. i\<lparr>a_quality := ATTR_OK\<rparr>))
        (attr_error rtE_NONE))))"

definition read_attribute :: "'d rtap_env \<Rightarrow> (attr_obj \<times> 'd, fault, ErrorCode_t) prog" where
  "read_attribute E =
     sq (upd (\<lambda>(q, d). (q\<lparr>t_error := rtE_RUNTIME_ERROR, t_info := (t_info q)\<lparr>a_quality := ATTR_NOT_FOUND\<rparr>\<rparr>, d)))
    (bnd (rd (\<lambda>(q, d). split_name (a_name (t_info q)))) (\<lambda>n.
     sq (case n of
           Some (tag, att) \<Rightarrow> bnd (rt_txn E MCO_READ_ONLY (read_steps E tag att)) (\<lambda>_. ret ())
         | None \<Rightarrow> upd (\<lambda>(q, d). (q\<lparr>t_error := rtE_ILLEGAL_TAG_NAME\<rparr>, d)))
        (rd (\<lambda>(q, d). t_error q))))"

definition write_steps :: "'d rtap_env \<Rightarrow> string \<Rightarrow> string \<Rightarrow> ('d, unit) attr_step" where
  "write_steps E tag att =
     bnd (locate_point E tag) (\<lambda>h.
     sq (case attr_writing_func E att of
           None \<Rightarrow> attr_error rtE_ATTR_NOT_FOUND
         | Some f \<Rightarrow>
             bnd (rc_of (f h)) (\<lambda>r.
             case r of
               Inl rc \<Rightarrow> sq (attr_error rtE_ILLEGAL_PARAMETER_VALUE) (raise (Brk rc))
             | Inr _ \<Rightarrow> put_point E h (Put_is_modified True)))
    (sq (db (rtap_commit E))
        (attr_error rtE_NONE)))"

definition write_attribute :: "'d rtap_env \<Rightarrow> (attr_obj \<times> 'd, fault, ErrorCode_t) prog" where
  "write_attribute E =
     sq (upd (\<lambda>(q, d). (q\<lparr>t_error := rtE_RUNTIME_ERROR\<rparr>, d)))
    (bnd (rd (\<lambda>(q, d). split_name (a_name (t_info q)))) (\<lambda>n.
     sq (case n of
           Some (tag, att) \<Rightarrow> bnd (rt_txn E MCO_READ_WRITE (write_steps E tag att)) (\<lambda>_. ret ())
         | None \<Rightarrow> upd (\<lambda>(q, d). (q\<lparr>t_error := rtE_ATTR_NOT_FOUND\<rparr>, d)))
        (rd (\<lambda>(q, d). t_error q))))"

text \<open>Finding a point gives null in any case.\<close>

definition locate :: "'d rtap_env \<Rightarrow> string \<Rightarrow> ('o \<times> 'd, fault, int option) prog" where
  "locate E tag =
     bnd (rt_txn E MCO_READ_ONLY (sq (bnd (db (SK_by_tag_find E tag)) (\<lambda>_. ret ())) (db (rtap_commit E)))) (\<lambda>_. ret None)"

section \<open>What a subscription delivers\<close>

text \<open>The class and the attributes that are delivered to subscribers, for each number of a class.\<close>

definition g_attribs_on_event :: "(nat \<times> nat list) list" where
  "g_attribs_on_event =
     [(0, [67, 70, 62, 16, 5]), (1, [67, 70, 4, 5]), (2, []), (3, []), (4, []), (5, []),
      (6, [67, 70, 5, 20, 1, 2, 3, 4]), (7, []), (8, []), (127, []), (127, []), (11, []), (12, []), (13, []),
      (14, []), (15, []), (16, []), (127, []), (127, []), (19, [67, 70, 62, 16, 5]), (20, [67, 70, 62, 16, 5]),
      (21, [67, 70, 62, 16, 5]), (22, [67, 70, 62, 16, 5, 7]), (23, [67, 70, 62, 16, 5]), (24, []), (25, []),
      (26, []), (27, []), (28, [67, 70, 62, 16, 5]), (29, []), (30, [57]), (31, [19, 20, 6, 7]), (32, []), (33, []),
      (34, []), (35, []), (36, []), (37, []), (38, [67, 70, 62, 16, 5]), (39, [67, 70, 62, 16, 5]), (127, []),
      (127, []), (127, []), (127, []), (127, []), (45, []), (127, []), (127, []), (127, []), (127, []), (50, []),
      (51, []), (52, []), (53, []), (127, []), (127, []), (127, []), (127, []), (127, []), (127, []), (127, []),
      (127, []), (127, []), (127, []), (127, []), (127, []), (127, []), (127, []), (127, []), (127, []), (127, []),
      (127, []), (127, []), (127, []), (79, []), (127, []), (127, []), (127, []), (127, []), (79, []), (127, []),
      (127, []), (127, []), (127, []), (127, []), (127, []), (127, []), (79, [])]"

record point_description =
  pd_objclass :: nat
  pd_tag :: string
  pd_attributes :: "string \<rightharpoonup> attribute_info"

text \<open>
  One \<open>AttributeInfo_t\<close> serves all attributes of a point; it is copied into the map after each.
  An attribute without a function is left out.
\<close>

fun load_attributes :: "'d rtap_env \<Rightarrow> int \<Rightarrow> nat list \<Rightarrow> (string \<rightharpoonup> attribute_info) \<Rightarrow> ('d, string \<rightharpoonup> attribute_info) attr_step" where
  "load_attributes E h [] m = ret m"
| "load_attributes E h (k # ks) m =
     (case attr_reading_func E (attr_name k) of
        None \<Rightarrow> load_attributes E h ks m
      | Some f \<Rightarrow>
          sq (served (f h))
             (bnd info (\<lambda>i. load_attributes E h ks (if m (attr_name k) = None then m(attr_name k \<mapsto> i) else m))))"

text \<open>Steps on a part of the state.\<close>

definition on_part :: "('o \<Rightarrow> 'p) \<Rightarrow> ('p \<Rightarrow> 'o \<Rightarrow> 'o) \<Rightarrow> ('p, 'd, 'a) step \<Rightarrow> ('o, 'd, 'a) step" where
  "on_part part put m s = (case m (part (fst s), snd s) of (r, (p, d)) \<Rightarrow> (r, (put p (fst s), d)))"

text \<open>\<open>garbage\<close> is what the local \<open>AttributeInfo_t\<close> holds, which nothing initialises.\<close>

definition LoadPointInfo :: "'d rtap_env \<Rightarrow> attribute_info \<Rightarrow> int \<Rightarrow> ('i, 'd, point_description) req_step" where
  "LoadPointInfo E garbage point =
     bnd (db (c_find (XDBPoint E) point)) (\<lambda>h.
     bnd (point_row E h) (\<lambda>tagged.
     bnd (point_row E h) (\<lambda>r.
     bnd (on_part (\<lambda>q. \<lparr>t_error = o_error q, t_info = garbage\<rparr>) (\<lambda>a q. q\<lparr>o_error := t_error a\<rparr>)
            (load_attributes E h (snd (g_attribs_on_event ! objclass_code (p_OBJCLASS r))) Map.empty)) (\<lambda>m.
     ret \<lparr>pd_objclass = objclass_code (p_OBJCLASS r), pd_tag = p_TAG tagged, pd_attributes = m\<rparr>))))"

section \<open>Reading a group\<close>

text \<open>The state is the request and the number of points so far.  With \<open>counting\<close> they are only counted.\<close>

definition read_item ::
  "'d rtap_env \<Rightarrow> (int \<Rightarrow> ('i, 'd, 'i) req_step) \<Rightarrow> bool \<Rightarrow> int \<Rightarrow> ('i request \<times> nat, 'd, unit) step" where
  "read_item E load counting h =
     sq (if counting then ret ()
         else
           bnd (db (csr_from E h)) (\<lambda>item.
           bnd (db (c_get (SBS_ITEM E) item)) (\<lambda>it.
           bnd (on_part fst (\<lambda>q s. (q, snd s)) (load (it_tag_id it))) (\<lambda>i.
           set_obj (\<lambda>(q, n). (q\<lparr>o_points := o_points q @ [i]\<rparr>, n))))))
        (set_obj (\<lambda>(q, n). (q, n + 1)))"

fun read_items ::
  "'d rtap_env \<Rightarrow> (int \<Rightarrow> ('i, 'd, 'i) req_step) \<Rightarrow> bool \<Rightarrow> int \<Rightarrow> int list \<Rightarrow> ('i request \<times> nat, 'd, unit) step" where
  "read_items E load counting g [] = ret ()"
| "read_items E load counting g (h # hs) =
     bnd (db (by_group_compare E h g)) (\<lambda>c.
     sq (if c = 0 then read_item E load counting h else ret ())
        (csr_round E hs (read_items E load counting g hs)))"

definition read_group_items ::
  "'d rtap_env \<Rightarrow> (int \<Rightarrow> ('i, 'd, 'i) req_step) \<Rightarrow> bool \<Rightarrow> int \<Rightarrow> ('i request \<times> nat, 'd, unit) step" where
  "read_group_items E load counting g =
     bnd (db_try (by_group_cursor E)) (\<lambda>c.
     case c of
       Inl _ \<Rightarrow> ret ()
     | Inr _ \<Rightarrow>
         bnd (db_try (by_group_search E g)) (\<lambda>s.
         sq (case s of
               Inl rc \<Rightarrow> if rc \<noteq> MCO_S_NOTFOUND then raise (Brk rc) else ret ()
             | Inr hs \<Rightarrow> sq (db (csr_first E)) (loop_c (read_items E load counting g hs)))
            (db (csr_close E))))"

definition read_group_steps ::
  "'d rtap_env \<Rightarrow> (int \<Rightarrow> ('i, 'd, 'i) req_step) \<Rightarrow> string \<Rightarrow> bool \<Rightarrow> ('i request \<times> nat, 'd, unit) step" where
  "read_group_steps E load name counting =
     bnd (db_try (PK_by_name_find E name)) (\<lambda>r.
     case r of
       Inl rc \<Rightarrow> raise (Brk rc)
     | Inr stat \<Rightarrow>
         bnd (db (c_autoid_get (SBS_STAT E) stat)) (\<lambda>g.
         sq (read_group_items E load counting g)
        (bnd (db (c_find (SBS_STAT E) g)) (\<lambda>_.
         sq (db (rtap_commit E))
            (set_obj (\<lambda>(q, n). (q\<lparr>o_error := rtE_NONE\<rparr>, n)))))))"

text \<open>The error and, for a count, the size; \<open>p_size\<close> is what the caller passed.\<close>

definition read_group ::
  "'d rtap_env \<Rightarrow> (int \<Rightarrow> ('i, 'd, 'i) req_step) \<Rightarrow> string \<Rightarrow> nat \<Rightarrow> ('i request \<times> 'd, fault, ErrorCode_t \<times> nat) prog" where
  "read_group E load name p_size s =
     (case rt_txn E MCO_READ_ONLY (read_group_steps E load name (p_size = 0))
         (((fst s)\<lparr>o_error := rtE_RUNTIME_ERROR\<rparr>, 0), snd s) of
        (Inl f, ((q, n), d)) \<Rightarrow> (Inl f, (q, d))
      | (Inr _, ((q, n), d)) \<Rightarrow> (Inr (o_error q, if p_size = 0 then n else p_size), (q, d)))"

end
