(* ===== verification/RtapPoints.thy ===== *)
theory RtapPoints
  imports RtapAttributes
begin

text \<open>
  Creating points and dictionaries (xdb_impl_db_rtap.cpp: \<open>PointInDatabase\<close>, create, createPassport,
  createPoint, the functions \<open>create*\<close> of the attributes, createTable).  A point comes from the XML
  file as a name, a class and a list of attributes, all strings; each attribute of the list is
  stored by one function, in the row of the point or in its passport.
\<close>

section \<open>What is created\<close>

text \<open>
  What a description of a point says.  The class is a number; \<open>None\<close> stands for one that names no class.
\<close>

record point_info =
  pi_tag :: string
  pi_objclass :: "objclass_t option"
  pi_attributes :: "(string \<times> string) list"

text \<open>
  \<open>PointInDatabase\<close> with the error of the database object: the handles of the point and of its
  passport, if there is one, their ids, and which parts of the row were assigned.
\<close>

record new_point =
  n_error :: ErrorCode_t
  n_point :: int
  n_id :: int
  n_passport :: "int option"
  n_passport_id :: int
  n_AI :: bool
  n_DI :: bool
  n_AL :: bool

type_synonym 'd make_step = "(new_point, 'd, unit) step"

text \<open>
  Two functions of the C library, which are parameters: the bits of the number \<open>atof\<close> reads, and
  the field \<open>tm_sec\<close> after \<open>strptime\<close> with the format ''%d-%m-%Y %T'', which is not initialised before.
\<close>

record clib =
  atof :: "string \<Rightarrow> 64 word"
  strptime_sec :: "string \<Rightarrow> 32 word"

type_synonym 'd creator = "'d rtap_env \<Rightarrow> clib \<Rightarrow> point_info \<Rightarrow> string \<Rightarrow> 'd make_step"

definition n_fails :: "ErrorCode_t \<Rightarrow> 'd make_step" where
  "n_fails e = set_obj (\<lambda>q. q\<lparr>n_error := e\<rparr>)"

section \<open>The instance\<close>

definition own_put :: "'d rtap_env \<Rightarrow> point_put \<Rightarrow> 'd make_step" where
  "own_put E x = bnd obj (\<lambda>q. db (c_put (XDBPoint E) x (n_point q)))"

text \<open>\<open>assign\<close> of the three optional parts.\<close>

definition assign_alarm :: "'d rtap_env \<Rightarrow> 'd make_step" where
  "assign_alarm E = sq (own_put E WriteAlarm) (set_obj (\<lambda>q. q\<lparr>n_AL := True\<rparr>))"

definition assign_di :: "'d rtap_env \<Rightarrow> 'd make_step" where
  "assign_di E = sq (own_put E WriteDI) (set_obj (\<lambda>q. q\<lparr>n_DI := True\<rparr>))"

definition assign_ai :: "'d rtap_env \<Rightarrow> 'd make_step" where
  "assign_ai E = sq (own_put E WriteAI) (set_obj (\<lambda>q. q\<lparr>n_AI := True\<rparr>))"

definition assign_parts :: "'d rtap_env \<Rightarrow> objclass_t option \<Rightarrow> 'd make_step" where
  "assign_parts E oc =
     (case oc of
        None \<Rightarrow> ret ()
      | Some c \<Rightarrow>
          if c \<in> {TS, AL, ICS, TL, VA, SC, ATC, GRC, SV, SDG, RGA, SSDG, BRG, SCP, STG, DIR, DIPL, METLINE, ESDG,
                  SVLINE, SCPLINE, TLLINE, INVT, AUX1, AUX2}
          then sq (assign_alarm E) (assign_di E)
          else if c = TSA then assign_di E
          else if c \<in> {TM, ICM} then sq (assign_alarm E) (assign_ai E)
          else if c = TR then assign_ai E
          else ret ())"

definition create_instance :: "'d rtap_env \<Rightarrow> point_info \<Rightarrow> 'd make_step" where
  "create_instance E p =
     bnd (db (c_create (XDBPoint E))) (\<lambda>h.
     sq (set_obj (\<lambda>q. q\<lparr>n_point := h\<rparr>))
    (bnd (db (c_autoid_get (XDBPoint E) h)) (\<lambda>aid.
     sq (set_obj (\<lambda>q. q\<lparr>n_id := aid, n_passport_id := aid\<rparr>))
        (assign_parts E (pi_objclass p)))))"

text \<open>
  The passport: the code of \<open>create\<close> is overwritten by that of \<open>autoid_get\<close>, which is then called on
  a handle that was not set.
\<close>

definition make_passport :: "'d rtap_env \<Rightarrow> objclass_t \<Rightarrow> 'd make_step" where
  "make_passport E c =
     bnd (db_try (c_create (PASSPORT E c))) (\<lambda>r.
     case r of
       Inr k \<Rightarrow>
         sq (set_obj (\<lambda>q. q\<lparr>n_passport := Some k\<rparr>))
            (bnd (db (c_autoid_get (PASSPORT E c) k)) (\<lambda>i. set_obj (\<lambda>q. q\<lparr>n_passport_id := i\<rparr>)))
     | Inl _ \<Rightarrow> db (unopened E))"

definition MCO_E_UNSUPPORTED :: mco_ret where
  "MCO_E_UNSUPPORTED = MCO_E 10"

definition createPassport :: "'d rtap_env \<Rightarrow> point_info \<Rightarrow> 'd make_step" where
  "createPassport E p =
     (case pi_objclass p of
        None \<Rightarrow> raise (Brk MCO_E_UNSUPPORTED)
      | Some c \<Rightarrow> if c \<in> {FIXEDPOINT, HIST} then ret () else make_passport E c)"

section \<open>Values from strings\<close>

text \<open>\<open>uint1 value = atoi(...)\<close> keeps the low byte.\<close>

definition byte_in :: "string \<Rightarrow> 8 word" where
  "byte_in v = word_of_int (atoi v)"

text \<open>A length that is passed as a number of \<open>k\<close> bits: 8 where the code keeps it in a \<open>uint1\<close>.\<close>

definition first_chars :: "nat \<Rightarrow> string \<Rightarrow> string" where
  "first_chars k v = take (length v mod 2 ^ k) v"

definition responsability_in :: "string \<Rightarrow> Responsability" where
  "responsability_in v = (if byte_in v = 1 then DISTANT else LOCAL)"

definition alarm_state_of :: "int \<Rightarrow> AlarmState" where
  "alarm_state_of n = (if n = 1 then ALARM_NOTACK else if n = 2 then ALARM_ACK else NO_ALARM)"

definition synth_state_in :: "string \<Rightarrow> SynthState" where
  "synth_state_in v = (if byte_in v = 1 then SS_OPER else if byte_in v = 2 then SS_PRE_OPER else SS_UNREACH)"

definition Actions :: "Action list" where
  "Actions =
     [TC_NONE, TC_ON, TC_OFF, TC_SC_START_MAIN_LINE, TC_SC_STOP_MAIN_LINE, TC_ATC_STOP_NORMAL, TC_ATC_START_LOOPING,
      TC_ATC_START_MAIN_LINE, TC_ATC_STOP_MAIN_LINE, TC_ATC_SWITCH_COLD_REGUL1, TC_ATC_SWITCH_COLD_REGUL2,
      TC_GRC_STOP_URG_NO_EVAC_GAZ, TC_ATC_STOP_URG_WITH_EVAC_GAZ, TC_GRC_START_LOOPING, TC_GRC_START_MAIN_LINE,
      TC_AUX_FLOW_REGUL, TC_AUX_PRESSURE_REGUL, TC_AUX_START_PUMP, TC_AUX_STOP_PUMP, TC_AUX_START_COMPRESSOR,
      TC_AUX_STOP_COMPRESSOR, TC_AUX_STOP_URG_AIRCOOLING, TC_AUX_START_VENTILATOR, TC_AUX_STOP_VENTILATOR]"

definition action_in :: "string \<Rightarrow> Action" where
  "action_in v = (if unat (byte_in v) \<le> 23 then Actions ! unat (byte_in v) else TC_NONE)"

text \<open>\<open>value.find_last_of(''.'')\<close> and the number after it.\<close>

definition after_last_dot :: "string \<Rightarrow> string" where
  "after_last_dot v = rev (takeWhile (\<lambda>c. c \<noteq> CHR ''.'') (rev v))"

definition nanos_in :: "string \<Rightarrow> 32 word" where
  "nanos_in v = (if CHR ''.'' \<in> set v then word_of_int (atoi (after_last_dot v)) else 0)"

text \<open>The date is read, but only its seconds field is kept.\<close>

definition date_in :: "clib \<Rightarrow> string \<Rightarrow> timestamp" where
  "date_in L v = \<lparr>ts_sec = strptime_sec L v, ts_nsec = nanos_in v\<rparr>"

text \<open>\<open>atoll\<close> into a union of 64 bits with two halves.\<close>

definition moment_in :: "string \<Rightarrow> timestamp" where
  "moment_in v = (let w = word_of_int (atoi v) :: 64 word in \<lparr>ts_sec = ucast w, ts_nsec = ucast (drop_bit 32 w)\<rparr>)"

section \<open>Attributes of the common part\<close>

text \<open>
  A time: the writer of the structure is opened, then the two fields are put and their codes are not
  looked at.
\<close>

definition put_time :: "'d make_step \<Rightarrow> (timestamp \<Rightarrow> 'd make_step) \<Rightarrow> timestamp \<Rightarrow> 'd make_step" where
  "put_time open_it put t =
     sq open_it
    (bnd (rc_of (put \<lparr>ts_sec = ts_sec t, ts_nsec = 0\<rparr>)) (\<lambda>r.
     bnd (rc_of (put \<lparr>ts_sec = (case r of Inl _ \<Rightarrow> 0 | Inr _ \<Rightarrow> ts_sec t), ts_nsec = ts_nsec t\<rparr>)) (\<lambda>_. ret ())))"

definition own_time :: "'d rtap_env \<Rightarrow> (timestamp \<Rightarrow> point_put) \<Rightarrow> timestamp \<Rightarrow> 'd make_step" where
  "own_time E x t = put_time (bnd obj (\<lambda>q. db (c_access (XDBPoint E) (n_point q)))) (\<lambda>t. own_put E (x t)) t"

definition createTAG :: "'d rtap_env \<Rightarrow> point_info \<Rightarrow> 'd make_step" where
  "createTAG E p = own_put E (PutTAG (first_chars 16 (pi_tag p)))"

definition createOBJCLASS :: "'d rtap_env \<Rightarrow> point_info \<Rightarrow> 'd make_step" where
  "createOBJCLASS E p = (case pi_objclass p of None \<Rightarrow> raise (Brk MCO_E_ILLEGAL_PARAM) | Some c \<Rightarrow> own_put E (PutOBJCLASS c))"

definition createSTATUS :: "'d creator" where
  "createSTATUS E L p v = own_put E (PutSTATUS (let n = atoi v in
     if n = 0 then PLANNED else if n = 1 then WORKED else DISABLED))"

definition createSHORTLABEL :: "'d creator" where
  "createSHORTLABEL E L p v = own_put E (PutSHORTLABEL (first_chars 16 v))"

definition createUNITY :: "'d creator" where
  "createUNITY E L p v =
     bnd (db (unityHash_find E (first_chars 16 v))) (\<lambda>u.
     bnd (db (unity_get E u)) (\<lambda>row. own_put E (PutUNITY_ID (un_unityID row))))"

text \<open>Attributes that are taken and ignored.\<close>

definition createLABEL :: "'d creator" where
  "createLABEL E L p v = ret ()"

definition createL_SA :: "'d creator" where
  "createL_SA E L p v = ret ()"

definition createVAL_LABEL :: "'d creator" where
  "createVAL_LABEL E L p v = ret ()"

definition createLINK_HIST :: "'d creator" where
  "createLINK_HIST E L p v = ret ()"

definition createUNITYCATEG :: "'d creator" where
  "createUNITYCATEG E L p v = ret ()"

definition createVALID :: "'d creator" where
  "createVALID E L p v = own_put E (PutVALIDITY (validity_of (atoi v)))"

definition createVALIDACQ :: "'d creator" where
  "createVALIDACQ E L p v = own_put E (PutVALIDITY_ACQ (validity_of (atoi v)))"

text \<open>
  A plain put: the point is new in this transaction, and the update event of the schema is taken as one of
  points that were there before it; their writes run the handler (\<open>writeVALIDCHANGE\<close>).
\<close>

definition createVALIDCHANGE :: "'d creator" where
  "createVALIDCHANGE E L p v = own_put E (PutVALIDCHANGE (valid_change_of (uint (byte_in v))))"

definition createINHIB :: "'d creator" where
  "createINHIB E L p v = own_put E (PutINHIB (byte_in v \<noteq> 0))"

definition createINHIBLOCAL :: "'d creator" where
  "createINHIBLOCAL E L p v = own_put E (PutINHIBLOCAL (byte_in v \<noteq> 0))"

definition createDATEHOURM :: "'d creator" where
  "createDATEHOURM E L p v = own_time E PutDATEHOURM (date_in L v)"

definition createDATERTU :: "'d creator" where
  "createDATERTU E L p v = own_time E PutDATERTU (date_in L v)"

section \<open>Values and alarms\<close>

text \<open>\<open>AIT\<close>, \<open>DIT\<close> and \<open>alarm\<close> insist that the part was assigned.\<close>

definition ai_put :: "'d rtap_env \<Rightarrow> point_put \<Rightarrow> 'd make_step" where
  "ai_put E x = bnd obj (\<lambda>q. sq (assert_c (n_AI q)) (own_put E x))"

definition di_put :: "'d rtap_env \<Rightarrow> point_put \<Rightarrow> 'd make_step" where
  "di_put E x = bnd obj (\<lambda>q. sq (assert_c (n_DI q)) (own_put E x))"

definition alarm_put :: "'d rtap_env \<Rightarrow> point_put \<Rightarrow> 'd make_step" where
  "alarm_put E x = bnd obj (\<lambda>q. sq (assert_c (n_AL q)) (own_put E x))"

definition in_class :: "point_info \<Rightarrow> objclass_t set \<Rightarrow> bool" where
  "in_class p cs \<longleftrightarrow> (\<exists>c \<in> cs. pi_objclass p = Some c)"

definition createVAL :: "'d creator" where
  "createVAL E L p v =
     (if in_class p {TM, TR, ICM} then ai_put E (PutAI_VAL (atof L v))
      else if in_class p {TS, TSA, PIPE, TL, VA, SC, ATC, GRC, SV, SDG, RGA, SSDG, BRG, SCP, STG, DIR, DIPL, METLINE,
        ESDG, SVLINE, SCPLINE, TLLINE, AUX1, AUX2, AL, ICS} then di_put E (PutDI_VAL (word_of_int (atoi v)))
      else raise (Brk MCO_S_NOTFOUND))"

definition createVALACQ :: "'d creator" where
  "createVALACQ E L p v =
     (if in_class p {TM} then ai_put E (PutAI_VALACQ (atof L v))
      else if in_class p {TS, TSA, AL, ICS, PIPE, TL, VA, SC, ATC, GRC, SV, SDG, RGA, SSDG, BRG, SCP, STG, METLINE,
        ESDG, SVLINE, SCPLINE, TLLINE, AUX1, AUX2} then di_put E (PutDI_VALACQ (word_of_int (atoi v)))
      else raise (Brk MCO_S_NOTFOUND))"

definition createVALMANUAL :: "'d creator" where
  "createVALMANUAL E L p v =
     (if in_class p {TM} then ai_put E (PutAI_VALMANUAL (atof L v))
      else if in_class p {TS, TSA, AL, ICS, PIPE, TL, VA, SC, ATC, GRC, SV, SDG, RGA, SSDG, BRG, SCP, STG, METLINE,
        ESDG, SVLINE, SCPLINE, TLLINE, AUX1, AUX2} then di_put E (PutDI_VALMANUAL (word_of_int (atoi v)))
      else raise (Brk MCO_S_NOTFOUND))"

definition createALARMBEGIN :: "'d creator" where
  "createALARMBEGIN E L p v =
     (if in_class p {TS, TM, VA, ATC, AUX1, AUX2, AL, ICS, ICM} then alarm_put E (PutALARMBEGIN (word_of_int (atoi v)))
      else raise (Brk MCO_S_NOTFOUND))"

definition createALARMBEGINACK :: "'d creator" where
  "createALARMBEGINACK E L p v =
     (if in_class p {TS, TM, VA, ATC, AUX1, AUX2, AL, ICS, ICM} then alarm_put E (PutALARMBEGINACK (word_of_int (atoi v)))
      else raise (Brk MCO_S_NOTFOUND))"

definition createALARMENDACK :: "'d creator" where
  "createALARMENDACK E L p v =
     (if in_class p {TS, TM, VA, ATC, AUX1, AUX2, AL, ICS, ICM} then alarm_put E (PutALARMENDACK (word_of_int (atoi v)))
      else raise (Brk MCO_S_NOTFOUND))"

definition createALARMSYNTH :: "'d creator" where
  "createALARMSYNTH E L p v =
     (if in_class p {TS, TM, VA, ATC, AUX1, AUX2, AL, ICS, ICM} then alarm_put E (PutALARMSYNTH (alarm_state_of (atoi v)))
      else raise (Brk MCO_S_NOTFOUND))"

section \<open>Attributes of the passport\<close>

text \<open>\<open>switch(objclass)\<close>: the classes with the attribute put it into their passport.\<close>

definition pass_row_put :: "'d rtap_env \<Rightarrow> objclass_t \<Rightarrow> pass_put \<Rightarrow> 'd make_step" where
  "pass_row_put E c x =
     bnd obj (\<lambda>q. case n_passport q of None \<Rightarrow> db (unopened E) | Some k \<Rightarrow> db (c_put (PASSPORT E c) x k))"

definition passport_put :: "'d rtap_env \<Rightarrow> point_info \<Rightarrow> objclass_t list \<Rightarrow> string \<Rightarrow> pass_val \<Rightarrow> 'd make_step" where
  "passport_put E p cs n v =
     (case pi_objclass p of
        None \<Rightarrow> raise (Brk MCO_S_NOTFOUND)
      | Some c \<Rightarrow> if c \<in> set cs then pass_row_put E c (PassPut n v) else raise (Brk MCO_S_NOTFOUND))"

definition pass_row_open :: "'d rtap_env \<Rightarrow> objclass_t \<Rightarrow> 'd make_step" where
  "pass_row_open E c =
     bnd obj (\<lambda>q. case n_passport q of None \<Rightarrow> db (unopened E) | Some k \<Rightarrow> db (c_access (PASSPORT E c) k))"

definition passport_time :: "'d rtap_env \<Rightarrow> point_info \<Rightarrow> objclass_t list \<Rightarrow> string \<Rightarrow> timestamp \<Rightarrow> 'd make_step" where
  "passport_time E p cs n t =
     (case pi_objclass p of
        None \<Rightarrow> raise (Brk MCO_S_NOTFOUND)
      | Some c \<Rightarrow>
          if c \<in> set cs then put_time (pass_row_open E c) (\<lambda>t. pass_row_put E c (PassPut n (PTime t))) t
          else raise (Brk MCO_S_NOTFOUND))"

definition createCURRENT_SHIFT_TIME :: "'d creator" where
  "createCURRENT_SHIFT_TIME E L p v = passport_time E p [SITE] ''CURRENT_SHIFT_TIME'' (moment_in v)"

definition createPREV_SHIFT_TIME :: "'d creator" where
  "createPREV_SHIFT_TIME E L p v = passport_time E p [SITE] ''PREV_SHIFT_TIME'' (moment_in v)"

definition createDATEAINS :: "'d creator" where
  "createDATEAINS E L p v = passport_time E p [VA, GRC, AUX1, AUX2] ''DATEAINS'' (date_in L v)"

definition createSYNTHSTATE :: "'d creator" where
  "createSYNTHSTATE E L p v = passport_put E p [SA] ''SYNTHSTATE'' (PSynthState (synth_state_in v))"

text \<open>For \<open>AUX1\<close> the member \<open>aux2\<close> of the union is used, which was not stored.\<close>

definition createSUPPLIER :: "'d creator" where
  "createSUPPLIER E L p v =
     (if in_class p {AUX1} then raise (Crash BadPointer)
      else passport_put E p [AUX2] ''SUPPLIER'' (PText (first_chars 16 v)))"

definition createPREV_DISPATCHER :: "'d creator" where
  "createPREV_DISPATCHER E L p v = passport_put E p [SITE] ''PREV_DISPATCHER'' (PText (first_chars 16 v))"

definition createTYPE :: "'d creator" where
  "createTYPE E L p v = passport_put E p [SA] ''TYPE'' (PUint1 (byte_in v))"

definition createL_EQTTYP :: "'d creator" where
  "createL_EQTTYP E L p v = passport_put E p
     [TL, VA, SC, ATC, GRC, SV, SDG, RGA, SSDG, BRG, SCP, STG, DIPL, METLINE, ESDG, SVLINE, SCPLINE, TLLINE, INVT,
      AUX1, AUX2]
     ''L_EQTTYP'' (PText (first_chars 8 v))"

definition createLOCALFLAG :: "'d creator" where
  "createLOCALFLAG E L p v = passport_put E p
     [PIPE, PIPELINE, TL, VA, SC, ATC, GRC, SV, SDG, RGA, SSDG, BRG, SCP, STG, DIR, DIPL, METLINE, ESDG, SVLINE,
      SCPLINE, TLLINE, INVT, AUX1, AUX2, SA]
     ''LOCALFLAG'' (PResponsability (responsability_in v))"

definition createMINVAL :: "'d creator" where
  "createMINVAL E L p v = passport_put E p [TR] ''MINVAL'' (PDouble (atof L v))"

definition createMAXVAL :: "'d creator" where
  "createMAXVAL E L p v = passport_put E p [TR] ''MAXVAL'' (PDouble (atof L v))"

definition createVALEX :: "'d creator" where
  "createVALEX E L p v = passport_put E p [TR] ''VALEX'' (PDouble (atof L v))"

definition createALINHIB :: "'d creator" where
  "createALINHIB E L p v = passport_put E p
     [PIPE, PIPELINE, TL, VA, SC, ATC, GRC, SV, SDG, RGA, SSDG, BRG, SCP, STG, DIPL, METLINE, ESDG, SVLINE, SCPLINE,
      TLLINE, INVT, AUX1, AUX2, SA]
     ''ALINHIB'' (PBoolean (byte_in v \<noteq> 0))"

definition createMNVALPHY :: "'d creator" where
  "createMNVALPHY E L p v = passport_put E p [TM] ''MNVALPHY'' (PDouble (atof L v))"

definition createMXVALPHY :: "'d creator" where
  "createMXVALPHY E L p v = passport_put E p [TM] ''MXVALPHY'' (PDouble (atof L v))"

definition createDISPP :: "'d creator" where
  "createDISPP E L p v = passport_put E p [DIPL, SITE] ''DISPP'' (PText (first_chars 16 v))"

definition createL_TL :: "'d creator" where
  "createL_TL E L p v = passport_put E p [PIPE] ''L_TL'' (PText (first_chars 16 v))"

definition createL_TM :: "'d creator" where
  "createL_TM E L p v = passport_put E p [TR] ''L_TM'' (PText (first_chars 16 v))"

definition createL_NETTYPE :: "'d creator" where
  "createL_NETTYPE E L p v = passport_put E p [PIPE] ''L_NETTYPE'' (PText (first_chars 16 v))"

definition createL_NET :: "'d creator" where
  "createL_NET E L p v = passport_put E p [PIPE] ''L_NET'' (PText (first_chars 16 v))"

definition createL_EQTORBORUPS :: "'d creator" where
  "createL_EQTORBORUPS E L p v = passport_put E p [PIPE] ''L_EQTORBORUPS'' (PText (first_chars 16 v))"

definition createL_EQTORBORDWN :: "'d creator" where
  "createL_EQTORBORDWN E L p v = passport_put E p [PIPE] ''L_EQTORBORDWN'' (PText (first_chars 16 v))"

definition createNMPRESSURE :: "'d creator" where
  "createNMPRESSURE E L p v = passport_put E p [PIPE] ''NMPRESSURE'' (PDouble (atof L v))"

definition createKMREFUPS :: "'d creator" where
  "createKMREFUPS E L p v = passport_put E p [PIPE] ''KMREFUPS'' (PDouble (atof L v))"

definition createKMREFDWN :: "'d creator" where
  "createKMREFDWN E L p v = passport_put E p [PIPE] ''KMREFDWN'' (PDouble (atof L v))"

definition createSUPPLIERMODE :: "'d creator" where
  "createSUPPLIERMODE E L p v = passport_put E p [SA] ''SUPPLIERMODE'' (PText (first_chars 16 v))"

definition createSUPPLIERSTATE :: "'d creator" where
  "createSUPPLIERSTATE E L p v = passport_put E p [SA] ''SUPPLIERSTATE'' (PText (first_chars 16 v))"

definition createL_CONSUMER :: "'d creator" where
  "createL_CONSUMER E L p v = passport_put E p [SSDG] ''L_CONSUMER'' (PText (first_chars 16 v))"

definition createL_CORRIDOR :: "'d creator" where
  "createL_CORRIDOR E L p v = passport_put E p [PIPELINE] ''L_CORRIDOR'' (PText (first_chars 16 v))"

definition createPLANFLOW :: "'d creator" where
  "createPLANFLOW E L p v = passport_put E p [SSDG] ''PLANFLOW'' (PDouble (atof L v))"

definition createPLANPRESSURE :: "'d creator" where
  "createPLANPRESSURE E L p v = passport_put E p [SSDG] ''PLANPRESSURE'' (PDouble (atof L v))"

definition createFUNCTION :: "'d creator" where
  "createFUNCTION E L p v = passport_put E p [PIPELINE, VA] ''FUNCTION'' (PText (first_chars 16 v))"

definition createCONVERTCOEFF :: "'d creator" where
  "createCONVERTCOEFF E L p v = passport_put E p [TM] ''CONVERTCOEFF'' (PDouble (atof L v))"

definition createGRADLEVEL :: "'d creator" where
  "createGRADLEVEL E L p v = passport_put E p [TM, ICM] ''GRADLEVEL'' (PDouble (atof L v))"

definition createMXPRESSURE :: "'d creator" where
  "createMXPRESSURE E L p v = passport_put E p [PIPELINE, SSDG, ESDG] ''MXPRESSURE'' (PDouble (atof L v))"

definition createNMFLOW :: "'d creator" where
  "createNMFLOW E L p v = passport_put E p [PIPELINE] ''NMFLOW'' (PDouble (atof L v))"

definition createMXFLOW :: "'d creator" where
  "createMXFLOW E L p v = passport_put E p [SDG] ''MXFLOW'' (PDouble (atof L v))"

definition createDELEGABLE :: "'d creator" where
  "createDELEGABLE E L p v = passport_put E p [SA] ''DELEGABLE'' (PBoolean (byte_in v \<noteq> 0))"

definition createFLGREMOTECMD :: "'d creator" where
  "createFLGREMOTECMD E L p v = passport_put E p
     [TR, VA, SC, ATC, GRC, AUX1, AUX2]
     ''FLGREMOTECMD'' (PBoolean (byte_in v \<noteq> 0))"

definition createFLGMAINTENANCE :: "'d creator" where
  "createFLGMAINTENANCE E L p v = passport_put E p [VA] ''FLGMAINTENANCE'' (PBoolean (byte_in v \<noteq> 0))"

definition createNAMEMAINTENANCE :: "'d creator" where
  "createNAMEMAINTENANCE E L p v = passport_put E p [VA] ''NAMEMAINTENANCE'' (PText (first_chars 8 v))"

definition createTSSYNTHETICAL :: "'d creator" where
  "createTSSYNTHETICAL E L p v = passport_put E p
     [VA, ATC, GRC, SDG, RGA, SCP, INVT, AUX1, AUX2]
     ''TSSYNTHETICAL'' (PAlarmState (alarm_state_of (uint (byte_in v))))"

definition createL_TYPINFO :: "'d creator" where
  "createL_TYPINFO E L p v = passport_put E p
     [TS, TM, TR, TSA, VA, ATC, AUX1, AUX2, TC, AL, ICS, ICM]
     ''L_TYPINFO'' (PText (first_chars 8 v))"

definition createL_EQT :: "'d creator" where
  "createL_EQT E L p v = passport_put E p
     [TS, TM, TR, TSA, TC, AL, ICS, ICM, RGA, METLINE, SVLINE, SCPLINE, TLLINE, INVT]
     ''L_EQT'' (PText (first_chars 8 v))"

definition createREMOTECONTROL :: "'d creator" where
  "createREMOTECONTROL E L p v = passport_put E p
     [TR, TC, VA, SC, ATC, GRC, SV, SDG, RGA, SSDG, BRG, SCP, STG, ESDG, AUX1, AUX2]
     ''REMOTECONTROL'' (PResponsability (responsability_in v))"

definition createACTIONTYP :: "'d creator" where
  "createACTIONTYP E L p v = passport_put E p [TC] ''ACTIONTYP'' (PAction (action_in v))"

definition createL_DIPL :: "'d creator" where
  "createL_DIPL E L p v = passport_put E p
     [TS, TM, TSA, VA, ATC, AUX1, AUX2, AL, ICS, ICM, SSDG]
     ''L_DIPL'' (PText (first_chars 16 v))"

definition createALDEST :: "'d creator" where
  "createALDEST E L p v = passport_put E p
     [TS, TM, VA, ATC, AUX1, AUX2, AL, ICM, SA]
     ''ALDEST'' (PBoolean (byte_in v \<noteq> 0))"

definition createL_PIPE :: "'d creator" where
  "createL_PIPE E L p v = passport_put E p [SC] ''L_PIPE'' (PText (first_chars 16 v))"

definition createL_PIPELINE :: "'d creator" where
  "createL_PIPELINE E L p v = passport_put E p [VA, TLLINE] ''L_PIPELINE'' (PText (first_chars 16 v))"

definition createCONFREMOTECMD :: "'d creator" where
  "createCONFREMOTECMD E L p v = passport_put E p
     [TR, TL, VA, SC, ATC, GRC, SV, SDG, RGA, SSDG, BRG, SCP, STG, DIPL, ESDG, AUX1, AUX2]
     ''CONFREMOTECMD'' (PBoolean (byte_in v \<noteq> 0))"

section \<open>The functions of the attributes\<close>

text \<open>The map \<open>m_attr_creating_func_map\<close> (impl_attr_creating_map.gen).\<close>

definition creators :: "'d rtap_env \<Rightarrow> clib \<Rightarrow> point_info \<Rightarrow> (string \<times> (string \<Rightarrow> 'd make_step)) list" where
  "creators E L p =
     [(''ACTIONTYP'', createACTIONTYP E L p), (''ALARMBEGIN'', createALARMBEGIN E L p),
      (''ALARMBEGINACK'', createALARMBEGINACK E L p), (''ALARMENDACK'', createALARMENDACK E L p),
      (''ALARMSYNTH'', createALARMSYNTH E L p), (''ALDEST'', createALDEST E L p), (''ALINHIB'', createALINHIB E L p),
      (''CONFREMOTECMD'', createCONFREMOTECMD E L p), (''CONVERTCOEFF'', createCONVERTCOEFF E L p),
      (''CURRENT_SHIFT_TIME'', createCURRENT_SHIFT_TIME E L p), (''DATEAINS'', createDATEAINS E L p),
      (''DATEHOURM'', createDATEHOURM E L p), (''DATERTU'', createDATERTU E L p),
      (''DELEGABLE'', createDELEGABLE E L p), (''DISPP'', createDISPP E L p),
      (''FLGMAINTENANCE'', createFLGMAINTENANCE E L p), (''FLGREMOTECMD'', createFLGREMOTECMD E L p),
      (''FUNCTION'', createFUNCTION E L p), (''GRADLEVEL'', createGRADLEVEL E L p), (''INHIB'', createINHIB E L p),
      (''INHIBLOCAL'', createINHIBLOCAL E L p), (''KMREFDWN'', createKMREFDWN E L p),
      (''KMREFUPS'', createKMREFUPS E L p), (''LABEL'', createLABEL E L p), (''L_CONSUMER'', createL_CONSUMER E L p),
      (''L_CORRIDOR'', createL_CORRIDOR E L p), (''L_DIPL'', createL_DIPL E L p), (''L_EQT'', createL_EQT E L p),
      (''L_EQTORBORDWN'', createL_EQTORBORDWN E L p), (''L_EQTORBORUPS'', createL_EQTORBORUPS E L p),
      (''L_EQTTYP'', createL_EQTTYP E L p), (''LINK_HIST'', createLINK_HIST E L p), (''L_NET'', createL_NET E L p),
      (''L_NETTYPE'', createL_NETTYPE E L p), (''LOCALFLAG'', createLOCALFLAG E L p),
      (''L_PIPE'', createL_PIPE E L p), (''L_PIPELINE'', createL_PIPELINE E L p), (''L_SA'', createL_SA E L p),
      (''L_TL'', createL_TL E L p), (''L_TM'', createL_TM E L p), (''L_TYPINFO'', createL_TYPINFO E L p),
      (''MAXVAL'', createMAXVAL E L p), (''MINVAL'', createMINVAL E L p), (''MNVALPHY'', createMNVALPHY E L p),
      (''MXFLOW'', createMXFLOW E L p), (''MXPRESSURE'', createMXPRESSURE E L p),
      (''MXVALPHY'', createMXVALPHY E L p), (''NAMEMAINTENANCE'', createNAMEMAINTENANCE E L p),
      (''NMFLOW'', createNMFLOW E L p), (''NMPRESSURE'', createNMPRESSURE E L p),
      (''PLANFLOW'', createPLANFLOW E L p), (''PLANPRESSURE'', createPLANPRESSURE E L p),
      (''PREV_DISPATCHER'', createPREV_DISPATCHER E L p), (''PREV_SHIFT_TIME'', createPREV_SHIFT_TIME E L p),
      (''REMOTECONTROL'', createREMOTECONTROL E L p), (''SHORTLABEL'', createSHORTLABEL E L p),
      (''STATUS'', createSTATUS E L p), (''SUPPLIER'', createSUPPLIER E L p),
      (''SUPPLIERMODE'', createSUPPLIERMODE E L p), (''SUPPLIERSTATE'', createSUPPLIERSTATE E L p),
      (''SYNTHSTATE'', createSYNTHSTATE E L p), (''TSSYNTHETICAL'', createTSSYNTHETICAL E L p),
      (''TYPE'', createTYPE E L p), (''UNITY'', createUNITY E L p), (''UNITYCATEG'', createUNITYCATEG E L p),
      (''VAL'', createVAL E L p), (''VALACQ'', createVALACQ E L p), (''VALEX'', createVALEX E L p),
      (''VALID'', createVALID E L p), (''VALIDACQ'', createVALIDACQ E L p),
      (''VALIDCHANGE'', createVALIDCHANGE E L p), (''VAL_LABEL'', createVAL_LABEL E L p),
      (''VALMANUAL'', createVALMANUAL E L p)]"

definition attr_creating_func :: "'d rtap_env \<Rightarrow> clib \<Rightarrow> point_info \<Rightarrow> string \<Rightarrow> (string \<Rightarrow> 'd make_step) option" where
  "attr_creating_func E L p n = map_of (creators E L p) n"

text \<open>An attribute without a function is left out; the error it leaves is cleared in the end.\<close>

fun create_attributes :: "'d rtap_env \<Rightarrow> clib \<Rightarrow> point_info \<Rightarrow> (string \<times> string) list \<Rightarrow> 'd make_step" where
  "create_attributes E L p [] = ret ()"
| "create_attributes E L p ((n, v) # xs) =
     sq (case attr_creating_func E L p n of None \<Rightarrow> n_fails rtE_ATTR_NOT_FOUND | Some f \<Rightarrow> f v)
        (create_attributes E L p xs)"

definition update_references :: "'d rtap_env \<Rightarrow> 'd make_step" where
  "update_references E =
     bnd obj (\<lambda>q.
     sq (own_put E (Put_passport_ref (n_passport_id q)))
    (sq (own_put E (PutCE_ref (n_id q)))
    (sq (own_put E (PutSA_ref (n_id q)))
        (own_put E (Put_hist_ref (n_id q))))))"

text \<open>
  The code of \<open>update_references\<close> is overwritten by that of the checkpoint.  The calls of \<open>createTAG\<close> and
  \<open>createOBJCLASS\<close> pass a reference to the first attribute, which neither looks at; a description without
  attributes is treated as if that reference were harmless.
\<close>

definition createPoint :: "'d rtap_env \<Rightarrow> clib \<Rightarrow> point_info \<Rightarrow> 'd make_step" where
  "createPoint E L p =
     sq (n_fails rtE_RUNTIME_ERROR)
    (sq (createTAG E p)
    (sq (createOBJCLASS E p)
    (sq (create_attributes E L p (pi_attributes p))
    (sq (bnd (rc_of (update_references E)) (\<lambda>_. ret ()))
    (sq (db (checkpoint E))
        (n_fails rtE_NONE))))))"

text \<open>
  The whole of \<open>create\<close>.  The error is cleared whatever the commit returned.  When the database is not
  connected or the name is empty, the pointer that is deleted in the end was never set.
\<close>

definition create_steps :: "'d rtap_env \<Rightarrow> clib \<Rightarrow> point_info \<Rightarrow> 'd make_step" where
  "create_steps E L p =
     sq (create_instance E p)
    (sq (createPassport E p)
    (sq (createPoint E L p)
    (bnd (db_try (rtap_commit E)) (\<lambda>r.
     sq (n_fails rtE_NONE)
        (case r of Inl rc \<Rightarrow> raise (Brk rc) | Inr _ \<Rightarrow> ret ())))))"

definition blank_point :: "ErrorCode_t \<Rightarrow> new_point" where
  "blank_point e = \<lparr>n_error = e, n_point = 0, n_id = 0, n_passport = None, n_passport_id = 0, n_AI = False, n_DI = False, n_AL = False\<rparr>"

definition create_point :: "'d rtap_env \<Rightarrow> clib \<Rightarrow> DBState_t \<Rightarrow> point_info \<Rightarrow> ('d, fault, ErrorCode_t) prog" where
  "create_point E L state p d =
     (if state \<noteq> DB_STATE_CONNECTED \<or> pi_tag p = '''' then (Inl BadPointer, d)
      else
        (case rt_txn E MCO_READ_WRITE (create_steps E L p) (blank_point rtE_RUNTIME_ERROR, d) of
           (Inl f, (q, d')) \<Rightarrow> (Inl f, d')
         | (Inr _, (q, d')) \<Rightarrow> (Inr (n_error q), d')))"

section \<open>Dictionaries\<close>

record val_label_entry =
  ve_objclass :: int
  ve_value :: nat
  ve_label :: string

record unity_entry =
  ue_dimension_id :: nat
  ue_dimension_entry :: string
  ue_unity_id :: nat
  ue_unity_entry :: string
  ue_designation_entry :: string

record macro_entry =
  me_id :: nat
  me_definition :: string

datatype dictionary = NoDict | ValLabels "val_label_entry list" | Unities "unity_entry list" | Macros "macro_entry list"

type_synonym 'd dict_step = "(ErrorCode_t, 'd, unit) step"

text \<open>One row: it is created, its fields are put in turn, and it is checkpointed.\<close>

definition puts :: "('d, 'r, 'p) mco_class \<Rightarrow> int \<Rightarrow> 'p list \<Rightarrow> 'd dict_step" where
  "puts C h ps = foldr (\<lambda>x m. sq (db (c_put C x h)) m) ps (ret ())"

definition insert_entry :: "'d rtap_env \<Rightarrow> ('d, 'r, 'p) mco_class \<Rightarrow> 'p list \<Rightarrow> 'd dict_step" where
  "insert_entry E C ps = bnd (db (c_create C)) (\<lambda>h. sq (puts C h ps) (db (checkpoint E)))"

definition insert_entries :: "'d rtap_env \<Rightarrow> ('d, 'r, 'p) mco_class \<Rightarrow> 'p list list \<Rightarrow> 'd dict_step" where
  "insert_entries E C pss = foldr (\<lambda>ps m. sq (insert_entry E C ps) m) pss (ret ())"

definition label_puts :: "val_label_entry \<Rightarrow> label_put list" where
  "label_puts e = [PutClassID (ve_objclass e), PutValueID (of_nat (ve_value e)), PutLabel (first_chars 16 (ve_label e))]"

definition unity_puts :: "unity_entry \<Rightarrow> unity_put list" where
  "unity_puts e = [PutDimensionID (of_nat (ue_dimension_id e)), PutUnityID (of_nat (ue_unity_id e)),
     PutDimensionEntry (first_chars 16 (ue_dimension_entry e)), PutUNITY (first_chars 16 (ue_unity_entry e)),
     PutDesignationEntry (first_chars 16 (ue_designation_entry e))]"

definition macro_puts :: "macro_entry \<Rightarrow> macro_put list" where
  "macro_puts e = [PutMacrosId (of_nat (me_id e)), PutCE (first_chars 16 (me_definition e))]"

text \<open>
  The frame the three loads share: the table is emptied, the loop over the entries ends at the first
  failure, whose code is then overwritten by that of the commit.  \<open>done\<close> is what the error becomes
  on success.
\<close>

definition load_table :: "'d rtap_env \<Rightarrow> ('d, 'r, 'p) mco_class \<Rightarrow> 'p list list \<Rightarrow> ErrorCode_t option \<Rightarrow> (ErrorCode_t \<times> 'd, fault, mco_ret) prog" where
  "load_table E C pss cleared =
     bnd (rt_txn E MCO_READ_WRITE
       (sq (db (c_delete_all C))
       (sq (loop_c (insert_entries E C pss))
       (sq (db (rtap_commit E))
           (case cleared of None \<Rightarrow> ret () | Some e \<Rightarrow> set_obj (\<lambda>_. e)))))) (\<lambda>rc.
     sq (if rc \<noteq> MCO_S_OK then upd (\<lambda>(q, d). (rtE_RUNTIME_ERROR, d)) else ret ())
        (ret rc))"

definition createTableDICT_TSC_VAL_LABEL :: "'d rtap_env \<Rightarrow> val_label_entry list \<Rightarrow> (ErrorCode_t \<times> 'd, fault, mco_ret) prog" where
  "createTableDICT_TSC_VAL_LABEL E xs = load_table E (VAL_LABEL E) (map label_puts xs) None"

definition createTableDICT_UNITY_ID :: "'d rtap_env \<Rightarrow> unity_entry list \<Rightarrow> (ErrorCode_t \<times> 'd, fault, mco_ret) prog" where
  "createTableDICT_UNITY_ID E xs =
     sq (upd (\<lambda>(q, d). (rtE_RUNTIME_ERROR, d)))
        (load_table E (UNITY E) (map unity_puts xs) (Some rtE_NONE))"

definition createTableXDB_CE :: "'d rtap_env \<Rightarrow> macro_entry list \<Rightarrow> (ErrorCode_t \<times> 'd, fault, mco_ret) prog" where
  "createTableXDB_CE E xs =
     sq (upd (\<lambda>(q, d). (rtE_RUNTIME_ERROR, d)))
        (load_table E (XDB_CE E) (map macro_puts xs) (Some rtE_NONE))"

text \<open>The buffer is a \<open>void*\<close> that is cast to the dictionary the tag names.\<close>

definition createTable :: "'d rtap_env \<Rightarrow> string list \<Rightarrow> dictionary \<Rightarrow> (ErrorCode_t \<times> 'd, fault, mco_ret) prog" where
  "createTable E tags dict =
     sq (check (length tags = 1) AssertFailed)
       (let tag = tags ! 0 in
        if tag = ''DICT_TSC_VAL_LABEL'' then
          (case dict of ValLabels xs \<Rightarrow> createTableDICT_TSC_VAL_LABEL E xs | NoDict \<Rightarrow> raise AssertFailed | _ \<Rightarrow> raise BadPointer)
        else if tag = ''DICT_UNITY_ID'' then
          (case dict of Unities xs \<Rightarrow> createTableDICT_UNITY_ID E xs | NoDict \<Rightarrow> raise AssertFailed | _ \<Rightarrow> raise BadPointer)
        else if tag = ''XDB_CE'' then
          (case dict of Macros xs \<Rightarrow> createTableXDB_CE E xs | NoDict \<Rightarrow> raise AssertFailed | _ \<Rightarrow> raise BadPointer)
        else ret MCO_E_UNSUPPORTED)"

end
