(* ===== verification/RtapAttrLaws.thy ===== *)
theory RtapAttrLaws
  imports RtapSubscriptions RtapEventLaws RtapAttributes
begin

text \<open>
  Properties of reading and writing attributes.  An attribute of fixed size is seen through a pure
  view of its row, \<open>attr_view\<close>, and changed by one writer, \<open>attr_change\<close>; reading and writing through
  the database is shown to be these.
\<close>

section \<open>Tables\<close>

lemma attr_types [simp]:
  "attr_type ''STATUS'' = DB_TYPE_UINT8" "attr_type ''VALID'' = DB_TYPE_UINT8" "attr_type ''VALIDACQ'' = DB_TYPE_UINT8"
  "attr_type ''VALIDCHANGE'' = DB_TYPE_UINT8" "attr_type ''OBJCLASS'' = DB_TYPE_UINT8"
  "attr_type ''INHIB'' = DB_TYPE_LOGICAL" "attr_type ''INHIBLOCAL'' = DB_TYPE_LOGICAL"
  "attr_type ''SHORTLABEL'' = DB_TYPE_BYTES16" "attr_type ''UNITY'' = DB_TYPE_BYTES20" "attr_type ''L_SA'' = DB_TYPE_BYTES32"
  "attr_type ''DISPP'' = DB_TYPE_BYTES20" "attr_type ''PREV_DISPATCHER'' = DB_TYPE_BYTES12"
  "attr_type ''FUNCTION'' = DB_TYPE_BYTES20" "attr_type ''DATEHOURM'' = DB_TYPE_ABSTIME" "attr_type ''UNIVNAME'' = DB_TYPE_BYTES32"
  by code_simp+

lemma attr_sizes [simp]:
  "attr_size ''SHORTLABEL'' = 64" "attr_size ''UNITY'' = 80" "attr_size ''L_SA'' = 128" "attr_size ''UNIVNAME'' = 128"
  "attr_size ''DISPP'' = 80" "attr_size ''PREV_DISPATCHER'' = 48" "attr_size ''FUNCTION'' = 80"
  by code_simp+

lemma low_byte_put_byte [simp]: "low_byte (put_byte b w) = b"
  unfolding low_byte_def put_byte_def by (rule bit_word_eqI) (simp add: bit_simps)

section \<open>The values as the row has them\<close>

definition with_byte :: "nat \<Rightarrow> attribute_info \<Rightarrow> attribute_info" where
  "with_byte n i = i\<lparr>a_lo := put_byte (of_nat n) (a_lo i)\<rparr>"

fun part_of_class :: "objclass_t \<Rightarrow> xdb_point \<Rightarrow> info_type option" where
  "part_of_class c r = (if analog_class c then p_ai r else p_di r)"

definition value_view :: "(info_type \<Rightarrow> 64 word) \<Rightarrow> DbType_t \<Rightarrow> xdb_point \<Rightarrow> attribute_info \<Rightarrow> attribute_info" where
  "value_view f t r i = i\<lparr>a_lo := part_field f (part_of_class (p_OBJCLASS r) r), a_type := t\<rparr>"

definition acquired_type :: "objclass_t \<Rightarrow> DbType_t" where
  "acquired_type c = (if analog_class c then DB_TYPE_DOUBLE else DB_TYPE_UINT64)"

definition attr_view :: "string \<Rightarrow> xdb_point \<Rightarrow> attribute_info \<Rightarrow> attribute_info" where
  "attr_view att r i =
     (if att = ''STATUS'' then (with_byte (PointStatus_code (p_STATUS r)) i)\<lparr>a_type := DB_TYPE_UINT8\<rparr>
      else if att = ''VALID'' then (with_byte (Validity_code (p_VALIDITY r)) i)\<lparr>a_type := DB_TYPE_UINT8\<rparr>
      else if att = ''VALIDACQ'' then (with_byte (Validity_code (p_VALIDITY_ACQ r)) i)\<lparr>a_type := DB_TYPE_UINT8\<rparr>
      else if att = ''VALIDCHANGE'' then (with_byte (valid_change_shown (p_VALIDCHANGE r)) i)\<lparr>a_type := DB_TYPE_UINT8\<rparr>
      else if att = ''INHIB'' then (with_byte (of_bool (p_INHIB r)) i)\<lparr>a_type := DB_TYPE_LOGICAL\<rparr>
      else if att = ''INHIBLOCAL'' then (with_byte (of_bool (p_INHIBLOCAL r)) i)\<lparr>a_type := DB_TYPE_LOGICAL\<rparr>
      else if att = ''VAL'' then value_view i_VAL (val_type (p_OBJCLASS r)) r i
      else if att = ''VALACQ'' then value_view i_VALACQ (acquired_type (p_OBJCLASS r)) r i
      else value_view i_VALMANUAL (acquired_type (p_OBJCLASS r)) r i)"

definition value_change :: "(64 word \<Rightarrow> point_put) \<Rightarrow> (64 word \<Rightarrow> point_put) \<Rightarrow> attribute_info \<Rightarrow> xdb_point \<Rightarrow> point_put" where
  "value_change pa pd i r = (if analog_class (p_OBJCLASS r) then pa (a_lo i) else pd (a_lo i))"

definition attr_change :: "string \<Rightarrow> attribute_info \<Rightarrow> xdb_point \<Rightarrow> point_put" where
  "attr_change att i r =
     (let b = low_byte (a_lo i) in
      if att = ''STATUS'' then PutSTATUS (if b = 0 then PLANNED else if b = 1 then WORKED else DISABLED)
      else if att = ''VALID'' then PutVALIDITY (validity_of (uint b))
      else if att = ''VALIDACQ'' then PutVALIDITY_ACQ (validity_of (uint b))
      else if att = ''VALIDCHANGE'' then PutVALIDCHANGE (valid_change_of (sint b))
      else if att = ''INHIB'' then PutINHIB (b = 1)
      else if att = ''INHIBLOCAL'' then PutINHIBLOCAL (b = 1)
      else if att = ''VAL'' then value_change PutAI_VAL PutDI_VAL i r
      else if att = ''VALACQ'' then value_change PutAI_VALACQ PutDI_VALACQ i r
      else value_change PutAI_VALMANUAL PutDI_VALMANUAL i r)"

text \<open>The attributes of fixed size that the rows of all points, or of points with values, have.\<close>

definition has_part :: "xdb_point \<Rightarrow> bool" where
  "has_part r \<longleftrightarrow> part_of_class (p_OBJCLASS r) r \<noteq> None"

definition has_attribute :: "string \<Rightarrow> xdb_point \<Rightarrow> bool" where
  "has_attribute att r \<longleftrightarrow> att \<in> {''STATUS'', ''VALID'', ''VALIDACQ'', ''VALIDCHANGE'', ''INHIB'', ''INHIBLOCAL''}
     \<or> att = ''VAL'' \<and> (analog_class (p_OBJCLASS r) \<or> discrete_class (p_OBJCLASS r)) \<and> has_part r
     \<or> att \<in> {''VALACQ'', ''VALMANUAL''} \<and> (analog_class (p_OBJCLASS r) \<or> acquired_class (p_OBJCLASS r)) \<and> has_part r"

lemma has_attribute_cases:
  assumes "has_attribute att r"
  obtains "att = ''STATUS''" | "att = ''VALID''" | "att = ''VALIDACQ''" | "att = ''VALIDCHANGE''" | "att = ''INHIB''"
    | "att = ''INHIBLOCAL''" | "att = ''VAL''" "analog_class (p_OBJCLASS r) \<or> discrete_class (p_OBJCLASS r)" "has_part r"
    | "att = ''VALACQ''" "analog_class (p_OBJCLASS r) \<or> acquired_class (p_OBJCLASS r)" "has_part r"
    | "att = ''VALMANUAL''" "analog_class (p_OBJCLASS r) \<or> acquired_class (p_OBJCLASS r)" "has_part r"
  using assms unfolding has_attribute_def
  by (elim disjE conjE insertE emptyE) (rule that; (assumption | rule disjI1, assumption | rule disjI2, assumption))+

text \<open>
  The row after a write.  A write of VALIDCHANGE raises an event, and the row is then what the tables
  of events make of it, which is known for the points that the handler processes.
\<close>

definition processed :: "rt_tables \<Rightarrow> xdb_point \<Rightarrow> bool" where
  "processed T r \<longleftrightarrow> p_OBJCLASS r \<in> {TM, TR, ICM} \<and> p_ai r \<noteq> None \<and> sa_of T (p_SA_ref r) \<noteq> None"

definition row_after :: "rt_tables \<Rightarrow> string \<Rightarrow> attribute_info \<Rightarrow> xdb_point \<Rightarrow> xdb_point" where
  "row_after T att i r =
     (let r1 = apply_point_put (attr_change att i r) r in
      if att = ''VALIDCHANGE'' then event_row (p_VALIDCHANGE r1) (the (sa_of T (p_SA_ref r))) r1 else r1)"

definition can_write :: "rt_tables \<Rightarrow> string \<Rightarrow> xdb_point \<Rightarrow> bool" where
  "can_write T att r \<longleftrightarrow> has_attribute att r \<and> (att = ''VALIDCHANGE'' \<longrightarrow> processed T r)"

text \<open>What a writer does not refuse.\<close>

definition accepts :: "string \<Rightarrow> attribute_info \<Rightarrow> bool" where
  "accepts att i \<longleftrightarrow> (att = ''STATUS'' \<longrightarrow> low_byte (a_lo i) \<le> 2)
     \<and> (att \<in> {''INHIB'', ''INHIBLOCAL''} \<longrightarrow> a_type i = DB_TYPE_LOGICAL)"

section \<open>Rules for rows\<close>

context rtap_laws
begin

lemma wp_point_row:
  assumes "at T S n d" and reliable and "points T h = Some r" and "\<And>d'. at T S n d' \<Longrightarrow> Q r (y, d')"
  shows "wp (point_row E h) Q R (y, d)"
  unfolding point_row_def by (rule wp_sure [OF pts.get assms(1)]) (use assms(2-4) in auto)

lemma wp_get_then:
  assumes "at T S n d" and reliable and "points T h = Some r" and "\<And>d'. at T S n d' \<Longrightarrow> wp (keep (Some r)) Q R (y, d')"
  shows "wp (get_then E h keep) Q R (y, d)"
  unfolding get_then_def
  by (intro wp_bnd wp_try [OF pts.get assms(1)]) (use assms(2-4) in auto)

lemma wp_put_point:
  assumes "at T S n d" and reliable and "points T h = Some r" and "point_fits p"
    and "\<And>d'. at (with_point T h (apply_point_put p r)) S n d' \<Longrightarrow> Q () (y, d')"
  shows "wp (put_point E h p) Q R (y, d)"
  unfolding put_point_def
  by (rule wp_sure [OF pts.put_fits assms(1)]) (use assms(2-5) in \<open>auto simp: with_point_def\<close>)

lemma wp_ai:
  assumes "at T S n d" and reliable and "points T h = Some r" and "p_ai r \<noteq> None" and "\<And>d'. at T S n d' \<Longrightarrow> Q () (y, d')"
  shows "wp (db (ai_read E h)) Q R (y, d)"
  by (rule wp_sure [OF ai_part assms(1)]) (use assms(2-5) in auto)

lemma wp_di:
  assumes "at T S n d" and reliable and "points T h = Some r" and "p_di r \<noteq> None" and "\<And>d'. at T S n d' \<Longrightarrow> Q () (y, d')"
  shows "wp (db (di_read E h)) Q R (y, d)"
  by (rule wp_sure [OF di_part assms(1)]) (use assms(2-5) in auto)

end

lemma wp_set_info [vcg]: "Q () (t_info_update f q, d) \<Longrightarrow> wp (set_info f) Q R (q, d)"
  by (simp add: set_info_def wp_set_obj)

lemma wp_info [vcg]: "Q (t_info q) (q, d) \<Longrightarrow> wp info Q R (q, d)"
  by (simp add: info_def wp_rd)

lemma wp_attr_error [vcg]: "Q () (q\<lparr>t_error := e\<rparr>, d) \<Longrightarrow> wp (attr_error e) Q R (q, d)"
  by (simp add: attr_error_def wp_set_obj)

lemmas small_steps = set_byte_def set_word_def set_time_def set_type_def

section \<open>Readers and writers\<close>

lemma reading_funcs:
  "attr_reading_func E ''STATUS'' = Some (readSTATUS E)" "attr_reading_func E ''VALID'' = Some (readVALID E)"
  "attr_reading_func E ''VALIDACQ'' = Some (readVALIDACQ E)" "attr_reading_func E ''VALIDCHANGE'' = Some (readVALIDCHANGE E)"
  "attr_reading_func E ''INHIB'' = Some (readINHIB E)" "attr_reading_func E ''INHIBLOCAL'' = Some (readINHIBLOCAL E)"
  "attr_reading_func E ''VAL'' = Some (readVAL E)" "attr_reading_func E ''VALACQ'' = Some (readVALACQ E)"
  "attr_reading_func E ''VALMANUAL'' = Some (readVALMANUAL E)"
  by (simp_all add: attr_reading_func_def readers_def gen_readers_def)

lemma writing_funcs:
  "attr_writing_func E ''STATUS'' = Some (writeSTATUS E)" "attr_writing_func E ''VALID'' = Some (writeVALID E)"
  "attr_writing_func E ''VALIDACQ'' = Some (writeVALIDACQ E)" "attr_writing_func E ''VALIDCHANGE'' = Some (writeVALIDCHANGE E)"
  "attr_writing_func E ''INHIB'' = Some (writeINHIB E)" "attr_writing_func E ''INHIBLOCAL'' = Some (writeINHIBLOCAL E)"
  "attr_writing_func E ''VAL'' = Some (writeVAL E)" "attr_writing_func E ''VALACQ'' = Some (writeVALACQ E)"
  "attr_writing_func E ''VALMANUAL'' = Some (writeVALMANUAL E)"
  by (simp_all add: attr_writing_func_def writers_def)

lemma discrete_not_analog: "discrete_class c \<Longrightarrow> \<not> analog_class c" "acquired_class c \<Longrightarrow> \<not> analog_class c"
    "acquired_class c \<Longrightarrow> discrete_class c"
  by (auto simp: discrete_class_def acquired_class_def analog_class_def)

lemma point_fits_change: "point_fits (attr_change att i r)"
  by (simp add: attr_change_def value_change_def Let_def)

lemma byte_le_2: "b \<le> 2 \<Longrightarrow> b = 0 \<or> b = 1 \<or> b = (2 :: 8 word)"
proof -
  assume "b \<le> 2"
  then have "unat b \<le> 2" by (simp add: word_le_nat_alt)
  then have "unat b = unat (0 :: 8 word) \<or> unat b = unat (1 :: 8 word) \<or> unat b = unat (2 :: 8 word)" by auto
  then show ?thesis by (simp only: word_unat_eq_iff)
qed

context rtap_laws
begin

lemma wp_read_analog:
  assumes "at T S n d" and reliable and "points T h = Some r" and "p_ai r \<noteq> None"
    and "\<And>d'. at T S n d' \<Longrightarrow> Q () (t_info_update (\<lambda>i. i\<lparr>a_lo := part_field f (p_ai r), a_type := t\<rparr>) q, d')"
  shows "wp (read_analog E h f t) Q R (q, d)"
  unfolding read_analog_def small_steps
  by (rule wp_sq, rule wp_ai [OF assms(1-4)], rule wp_bnd, rule wp_point_row [OF _ assms(2,3)], assumption, intro vcg)
    (use assms(5) in \<open>simp add: comp_def\<close>)

lemma wp_read_discrete:
  assumes "at T S n d" and reliable and "points T h = Some r" and "p_di r \<noteq> None"
    and "\<And>d'. at T S n d' \<Longrightarrow> Q () (t_info_update (\<lambda>i. i\<lparr>a_lo := part_field f (p_di r), a_type := t\<rparr>) q, d')"
  shows "wp (read_discrete E h f t) Q R (q, d)"
  unfolding read_discrete_def small_steps
  by (rule wp_sq, rule wp_di [OF assms(1-4)], rule wp_bnd, rule wp_point_row [OF _ assms(2,3)], assumption, intro vcg)
    (use assms(5) in \<open>simp add: comp_def\<close>)

lemma wp_write_analog:
  assumes "at T S n d" and reliable and "points T h = Some r" and "p_ai r \<noteq> None" and "point_fits (p (a_lo (t_info q)))"
    and "\<And>d'. at (with_point T h (apply_point_put (p (a_lo (t_info q))) r)) S n d' \<Longrightarrow> Q () (q, d')"
  shows "wp (write_analog E h p) Q R (q, d)"
  unfolding write_analog_def
  by (rule wp_sq, rule wp_ai [OF assms(1-4)], rule wp_bnd, rule wp_info, rule wp_put_point [OF _ assms(2,3,5)])
    (use assms(6) in auto)

lemma wp_write_discrete:
  assumes "at T S n d" and reliable and "points T h = Some r" and "p_di r \<noteq> None" and "point_fits (p (a_lo (t_info q)))"
    and "\<And>d'. at (with_point T h (apply_point_put (p (a_lo (t_info q))) r)) S n d' \<Longrightarrow> Q () (q, d')"
  shows "wp (write_discrete E h p) Q R (q, d)"
  unfolding write_discrete_def
  by (rule wp_sq, rule wp_di [OF assms(1-4)], rule wp_bnd, rule wp_info, rule wp_put_point [OF _ assms(2,3,5)])
    (use assms(6) in auto)

lemma wp_byte_reader:
  assumes "at T S n d" and reliable and "points T h = Some r"
    and "\<And>d'. at T S n d' \<Longrightarrow> wp (keep (Some r)) (\<lambda>_ s. fst s = q\<lparr>t_info := attr_view att r (t_info q)\<rparr> \<and> at T S n (snd s)) (\<lambda>_ _. False) (q', d')"
  shows "wp (get_then E h keep) (\<lambda>_ s. fst s = q\<lparr>t_info := attr_view att r (t_info q)\<rparr> \<and> at T S n (snd s)) (\<lambda>_ _. False) (q', d)"
  by (rule wp_get_then [OF assms(1-3)]) (rule assms(4))

lemma reader:
  assumes "has_attribute att r" and "at T S n d" and reliable and "points T h = Some r"
  shows "\<exists>f. attr_reading_func E att = Some f
     \<and> wp (f h) (\<lambda>_ s. fst s = q\<lparr>t_info := attr_view att r (t_info q)\<rparr> \<and> at T S n (snd s)) (\<lambda>_ _. False) (q, d)"
proof -
  note row = wp_byte_reader [OF _ assms(3,4)]
  note val = wp_point_row [OF assms(2,3,4)]
  note out = attr_view_def with_byte_def value_view_def acquired_type_def
  show ?thesis
    using assms(1)
  proof (cases rule: has_attribute_cases)
    case 1
    then show ?thesis
      by (simp add: reading_funcs readSTATUS_def small_steps) (rule row [OF assms(2)], intro vcg, simp add: out)
  next
    case 2
    then show ?thesis
      by (simp add: reading_funcs readVALID_def small_steps) (intro vcg, rule row [OF assms(2)], simp, intro vcg, simp add: out)
  next
    case 3
    then show ?thesis
      by (simp add: reading_funcs readVALIDACQ_def small_steps) (intro vcg, rule row [OF assms(2)], simp, intro vcg, simp add: out)
  next
    case 4
    then show ?thesis
      by (simp add: reading_funcs readVALIDCHANGE_def small_steps) (rule row [OF assms(2)], simp, intro vcg, simp add: out)
  next
    case 5
    then show ?thesis
      by (simp add: reading_funcs readINHIB_def small_steps) (rule row [OF assms(2)], intro vcg, simp add: out)
  next
    case 6
    then show ?thesis
      by (simp add: reading_funcs readINHIBLOCAL_def small_steps) (rule row [OF assms(2)], intro vcg, simp add: out)
  next
    case 7
    then show ?thesis
      by (simp add: reading_funcs readVAL_def)
        (intro wp_bnd, rule val, intro wp_if wp_read_analog [OF _ assms(3,4)] wp_read_discrete [OF _ assms(3,4)];
         auto simp: out has_part_def discrete_not_analog)
  next
    case 8
    then show ?thesis
      by (simp add: reading_funcs readVALACQ_def)
        (intro wp_bnd, rule val, intro wp_if wp_read_analog [OF _ assms(3,4)] wp_read_discrete [OF _ assms(3,4)];
         auto simp: out has_part_def discrete_not_analog)
  next
    case 9
    then show ?thesis
      by (simp add: reading_funcs readVALMANUAL_def)
        (intro wp_bnd, rule val, intro wp_if wp_read_analog [OF _ assms(3,4)] wp_read_discrete [OF _ assms(3,4)];
         auto simp: out has_part_def discrete_not_analog)
  qed
qed

lemma writer:
  assumes "can_write T att r" and "accepts att (t_info q)" and "at T S n d" and reliable and "points T h = Some r"
  shows "\<exists>f. attr_writing_func E att = Some f
     \<and> wp (f h) (\<lambda>_ s. fst s = q \<and> at (with_point T h (row_after T att (t_info q) r)) S n (snd s)) (\<lambda>_ _. False) (q, d)"
proof -
  note put = wp_put_point [OF assms(3-5)]
  note val = wp_point_row [OF assms(3-5)]
  note out = row_after_def attr_change_def value_change_def Let_def
  have "has_attribute att r" using assms(1) by (simp add: can_write_def)
  then show ?thesis
  proof (cases rule: has_attribute_cases)
    case 1
    with byte_le_2 have "low_byte (a_lo (t_info q)) \<in> {0, 1, 2}" using assms(2) by (auto simp: accepts_def)
    with 1 show ?thesis
      by (simp add: writing_funcs writeSTATUS_def Let_def) (intro wp_bnd wp_info, intro wp_if put; auto simp: out)
  next
    case 2
    then show ?thesis
      by (simp add: writing_funcs writeVALID_def) (intro wp_bnd wp_info put; simp add: out)
  next
    case 3
    then show ?thesis
      by (simp add: writing_funcs writeVALIDACQ_def) (intro wp_bnd wp_info put; simp add: out)
  next
    case 4
    with assms(1) obtain sa where p: "p_OBJCLASS r \<in> {TM, TR, ICM}" "p_ai r \<noteq> None" "sa_of T (p_SA_ref r) = Some sa"
      by (auto simp: can_write_def processed_def)
    show ?thesis
      unfolding 4 writing_funcs writeVALIDCHANGE_def
      by (intro exI conjI, rule refl, intro wp_bnd wp_info wp_db wp_fire [OF assms(3,5) p assms(4)])
        (simp add: out p(3))
  next
    case 5
    with assms(2) show ?thesis
      by (simp add: writing_funcs writeINHIB_def accepts_def) (intro wp_bnd wp_info wp_sq wp_assert_c put; simp add: out)
  next
    case 6
    with assms(2) show ?thesis
      by (simp add: writing_funcs writeINHIBLOCAL_def accepts_def) (intro wp_bnd wp_info wp_sq wp_assert_c put; simp add: out)
  next
    case 7
    then show ?thesis
      by (simp add: writing_funcs writeVAL_def)
        (intro wp_bnd, rule val, intro wp_if wp_write_analog [OF _ assms(4,5)] wp_write_discrete [OF _ assms(4,5)];
         auto simp: out has_part_def discrete_not_analog)
  next
    case 8
    then show ?thesis
      by (simp add: writing_funcs writeVALACQ_def)
        (intro wp_bnd, rule val, intro wp_if wp_write_analog [OF _ assms(4,5)] wp_write_discrete [OF _ assms(4,5)];
         auto simp: out has_part_def discrete_not_analog)
  next
    case 9
    then show ?thesis
      by (simp add: writing_funcs writeVALMANUAL_def)
        (intro wp_bnd, rule val, intro wp_if wp_write_analog [OF _ assms(4,5)] wp_write_discrete [OF _ assms(4,5)];
         auto simp: out has_part_def discrete_not_analog)
  qed
qed

end

section \<open>Whole operations\<close>

text \<open>\<open>q\<close> after the first assignments of an operation, and after its last.\<close>

definition opened :: "attr_obj \<Rightarrow> attr_obj" where
  "opened q = q\<lparr>t_error := rtE_RUNTIME_ERROR, t_info := (t_info q)\<lparr>a_quality := ATTR_NOT_FOUND\<rparr>\<rparr>"

definition finished :: "attr_obj \<Rightarrow> attr_obj" where
  "finished q = (t_info_update (a_quality_update (\<lambda>_. ATTR_OK)) q)\<lparr>t_error := rtE_NONE\<rparr>"

lemma finished_error [simp]: "finished (q\<lparr>t_error := e\<rparr>) = finished q"
  by (simp add: finished_def)

definition flagged_point :: "int \<Rightarrow> xdb_point \<Rightarrow> rt_tables \<Rightarrow> rt_tables" where
  "flagged_point h r T = with_point T h (r\<lparr>p_is_modified := True\<rparr>)"

context rtap_laws
begin

lemma wp_locate_point:
  assumes "at T S n d" and reliable and "rt_keys_ok T" and "points T h = Some r"
    and "\<And>d'. at T S n d' \<Longrightarrow> Q h (q, d')"
  shows "wp (locate_point E (p_TAG r)) Q R (q, d)"
  unfolding locate_point_def
proof (rule wp_bnd, rule wp_try [OF find_tag assms(1)], goal_cases)
  case (1 h' T' d')
  with assms(3,4) have "h' = h" by (auto simp: rt_keys_ok_def unique_on_def)
  with 1 assms(5) show ?case by (auto intro!: decided wp_ret)
next
  case (2 rc d')
  with assms(2,4) show ?case by auto
qed

lemma wp_served:
  assumes "wp m (\<lambda>_ s. P s) (\<lambda>_ _. False) s" and "\<And>t. P t \<Longrightarrow> Q () t"
  shows "wp (served m) Q R s"
  unfolding served_def
  by (intro wp_bnd wp_rc_of wp_mono [OF assms(1)]) (auto intro!: decided wp_ret assms(2))

lemma wp_read_attribute:
  assumes "at T T 0 d" and reliable and "rt_keys_ok T" and "points T h = Some r"
    and "split_name (a_name (t_info q)) = Some (p_TAG r, att)"
    and "attr_reading_func E att = None \<Longrightarrow> q' = opened q"
    and "\<And>f d1. attr_reading_func E att = Some f \<Longrightarrow> at T T 1 d1
       \<Longrightarrow> wp (f h) (\<lambda>_ s. fst s = q' \<and> at T T 1 (snd s)) (\<lambda>_ _. False) (opened q, d1)"
    and "\<And>d'. at T T 0 d' \<Longrightarrow> Q rtE_NONE (finished q', d')"
  shows "wp (read_attribute E) Q R (q, d)"
proof -
  have rest: "wp (sq (db (rtap_commit E)) (sq (set_info (\<lambda>i. i\<lparr>a_quality := ATTR_OK\<rparr>)) (attr_error rtE_NONE)))
      (\<lambda>_ s. wp (ret ()) (\<lambda>_. wp (rd (\<lambda>(q, d). t_error q)) Q R) R s) R' (p, d1)"
    if "at T T 1 d1" "finished p = finished q'" for p R' d1
    by (rule wp_sq, rule wp_rt_commit [OF that(1) assms(2,3)], intro vcg)
      (use assms(8) that(2) in \<open>simp add: finished_def\<close>)
  have steps: "wp (read_steps E (p_TAG r) att) (\<lambda>_ s. wp (ret ()) (\<lambda>_. wp (rd (\<lambda>(q, d). t_error q)) Q R) R s) R' (opened q, d1)"
    if "at T T 1 d1" for R' d1
    unfolding read_steps_def
  proof (rule wp_bnd, rule wp_locate_point [OF that assms(2-4)], rule wp_sq, goal_cases)
    case (1 d2)
    show ?case
    proof (cases "attr_reading_func E att")
      case None
      with assms(6) show ?thesis
        by simp (rule wp_attr_error, rule rest [OF 1], simp)
    next
      case (Some f)
      then show ?thesis
        by (simp, intro wp_served [OF assms(7) [OF Some 1]]) (auto intro: rest)
    qed
  qed
  show ?thesis
    unfolding read_attribute_def
    by (intro wp_sq wp_upd wp_bnd wp_rd) (simp add: assms(5), intro wp_bnd wp_rt_alone [OF assms(1,2)] steps [unfolded opened_def])
qed

lemma wp_write_attribute:
  assumes "at T T 0 d" and reliable and "rt_keys_ok T" and "points T h = Some r"
    and "split_name (a_name (t_info q)) = Some (p_TAG r, att)"
    and "attr_writing_func E att = None \<Longrightarrow> q' = q\<lparr>t_error := rtE_NONE\<rparr> \<and> T' = T"
    and "\<And>f d1. attr_writing_func E att = Some f \<Longrightarrow> at T T 1 d1
       \<Longrightarrow> wp (f h) (\<lambda>_ s. (fst s)\<lparr>t_error := rtE_NONE\<rparr> = q' \<and> at Tw T 1 (snd s)) (\<lambda>_ _. False) (q\<lparr>t_error := rtE_RUNTIME_ERROR\<rparr>, d1)"
    and "attr_writing_func E att \<noteq> None \<Longrightarrow> points Tw h = Some rw \<and> T' = flagged_point h rw Tw" and "rt_keys_ok T'"
    and "\<And>d'. at T' T' 0 d' \<Longrightarrow> Q rtE_NONE (q', d')"
  shows "wp (write_attribute E) Q R (q, d)"
proof -
  let ?q = "q\<lparr>t_error := rtE_RUNTIME_ERROR\<rparr>"
  have rest: "wp (sq (db (rtap_commit E)) (attr_error rtE_NONE))
      (\<lambda>_ s. wp (ret ()) (\<lambda>_. wp (rd (\<lambda>(q, d). t_error q)) Q R) R s) R' (p, d1)"
    if "at T' T 1 d1" "p\<lparr>t_error := rtE_NONE\<rparr> = q'" for p R' d1
    by (rule wp_sq, rule wp_rt_commit [OF that(1) assms(2,9)], intro vcg) (use assms(10) that(2) in auto)
  have steps: "wp (write_steps E (p_TAG r) att) (\<lambda>_ s. wp (ret ()) (\<lambda>_. wp (rd (\<lambda>(q, d). t_error q)) Q R) R s) R' (?q, d1)"
    if "at T T 1 d1" for R' d1
    unfolding write_steps_def
  proof (rule wp_bnd, rule wp_locate_point [OF that assms(2-4)], rule wp_sq, goal_cases)
    case (1 d2)
    show ?case
    proof (cases "attr_writing_func E att")
      case None
      with assms(6) 1 show ?thesis
        by simp (rule wp_attr_error, rule rest, simp_all)
    next
      case (Some f)
      have put: "wp (bnd (rc_of (f h)) (\<lambda>r. case r of
          Inl rc \<Rightarrow> sq (attr_error rtE_ILLEGAL_PARAMETER_VALUE) (raise (Brk rc))
        | Inr _ \<Rightarrow> put_point E h (Put_is_modified True)))
        (\<lambda>_ s. (fst s)\<lparr>t_error := rtE_NONE\<rparr> = q' \<and> at T' T 1 (snd s)) (\<lambda>_ _. False) (?q, d2)"
      proof (intro wp_bnd wp_rc_of wp_mono [OF assms(7) [OF Some 1]], goal_cases)
        case (1 u s)
        with Some assms(8) show ?case
          by (cases s) (auto intro!: decided wp_put_point [OF _ assms(2)] simp: flagged_point_def)
      qed simp
      show ?thesis
        by (simp add: Some, rule wp_mono [OF put]) (auto intro: rest)
    qed
  qed
  show ?thesis
    unfolding write_attribute_def
    by (intro wp_sq wp_upd wp_bnd wp_rd) (simp add: assms(5), intro wp_bnd wp_rt_alone [OF assms(1,2)] steps)
qed

end

section \<open>Outcomes\<close>

text \<open>What a caller has after a read of the attribute \<open>att\<close>, and the row after a write.\<close>

definition shown :: "string \<Rightarrow> xdb_point \<Rightarrow> attr_obj \<Rightarrow> attr_obj" where
  "shown att r q = q\<lparr>t_error := rtE_NONE, t_info := (attr_view att r (t_info q))\<lparr>a_quality := ATTR_OK\<rparr>\<rparr>"

definition written :: "rt_tables \<Rightarrow> string \<Rightarrow> attr_obj \<Rightarrow> xdb_point \<Rightarrow> xdb_point" where
  "written T att q r = (row_after T att (t_info q) r)\<lparr>p_is_modified := True\<rparr>"

lemma finished_shown:
  "finished ((opened q)\<lparr>t_info := attr_view att r (t_info (opened q))\<rparr>) = shown att r q"
  by (simp add: finished_def opened_def shown_def attr_view_def with_byte_def value_view_def)

lemma attr_change_keeps [simp]:
  "p_TAG (apply_point_put (attr_change att i r) r) = p_TAG r"
  "p_passport_ref (apply_point_put (attr_change att i r) r) = p_passport_ref r"
  "p_OBJCLASS (apply_point_put (attr_change att i r) r) = p_OBJCLASS r"
  by (simp_all add: attr_change_def value_change_def Let_def)

lemma row_after_keeps [simp]:
  "p_TAG (row_after T att i r) = p_TAG r" "p_passport_ref (row_after T att i r) = p_passport_ref r"
  "p_OBJCLASS (row_after T att i r) = p_OBJCLASS r"
  by (simp_all add: row_after_def Let_def event_row_def event_body_def point_with_def)

lemma written_keeps [simp]:
  "p_TAG (written T att q r) = p_TAG r" "p_passport_ref (written T att q r) = p_passport_ref r" "p_OBJCLASS (written T att q r) = p_OBJCLASS r"
  by (simp_all add: written_def)

lemma keys_with_point:
  assumes "rt_keys_ok T" and "points T h = Some r" and "p_TAG r' = p_TAG r" and "p_passport_ref r' = p_passport_ref r"
  shows "rt_keys_ok (with_point T h r')"
  using assms unfolding rt_keys_ok_def with_point_def by (auto simp: unique_on_def)

lemma read_outcome:
  assumes "rtap_laws E tabs saved depth True" and "at_rest tabs saved depth d" and "points (tabs d) h = Some r"
    and "split_name (a_name (t_info q)) = Some (p_TAG r, att)" and "has_attribute att r"
  shows "\<exists>d'. read_attribute E (q, d) = (Inr rtE_NONE, (shown att r q, d')) \<and> tabs d' = tabs d \<and> at_rest tabs saved depth d'"
proof -
  have keys: "rt_keys_ok (tabs d)" using assms(2) by (simp add: at_rest_def)
  note reads = rtap_laws.reader [OF assms(1,5) _ TrueI assms(3)]
  have "wp (read_attribute E) (\<lambda>e s. e = rtE_NONE \<and> fst s = shown att r q \<and> tabs (snd s) = tabs d \<and> at_rest tabs saved depth (snd s))
      (\<lambda>_ _. False) (q, d)"
  proof (rule rtap_laws.wp_read_attribute [OF assms(1) at_rest_at [OF assms(2)] TrueI keys assms(3,4),
        where q' = "(opened q)\<lparr>t_info := attr_view att r (t_info (opened q))\<rparr>"], goal_cases)
    case 1
    then show ?case using reads [OF at_rest_at [OF assms(2)]] by auto
  next
    case (2 f d1)
    then show ?case using reads [OF 2(2), of "opened q"] by auto
  next
    case (3 d')
    from at_at_rest [OF this keys] show ?case by (simp add: finished_shown)
  qed
  from wp_run [where P = "\<lambda>e p d'. e = rtE_NONE \<and> p = shown att r q \<and> tabs d' = tabs d \<and> at_rest tabs saved depth d'", OF this]
  show ?thesis by blast
qed

lemma write_outcome:
  assumes "rtap_laws E tabs saved depth True" and "at_rest tabs saved depth d" and "points (tabs d) h = Some r"
    and "split_name (a_name (t_info q)) = Some (p_TAG r, att)" and "can_write (tabs d) att r" and "accepts att (t_info q)"
  shows "\<exists>d'. write_attribute E (q, d) = (Inr rtE_NONE, (q\<lparr>t_error := rtE_NONE\<rparr>, d'))
     \<and> tabs d' = with_point (tabs d) h (written (tabs d) att q r) \<and> at_rest tabs saved depth d'"
proof -
  let ?q = "q\<lparr>t_error := rtE_RUNTIME_ERROR\<rparr>"
  let ?T1 = "with_point (tabs d) h (row_after (tabs d) att (t_info q) r)"
  have keys: "rt_keys_ok (tabs d)" using assms(2) by (simp add: at_rest_def)
  have keys': "rt_keys_ok (with_point (tabs d) h (written (tabs d) att q r))" by (rule keys_with_point [OF keys assms(3)]) simp_all
  have "accepts att (t_info ?q)" using assms(6) by simp
  note writes = rtap_laws.writer [OF assms(1,5) this _ TrueI assms(3)]
  have "wp (write_attribute E) (\<lambda>e s. e = rtE_NONE \<and> fst s = q\<lparr>t_error := rtE_NONE\<rparr>
      \<and> tabs (snd s) = with_point (tabs d) h (written (tabs d) att q r) \<and> at_rest tabs saved depth (snd s)) (\<lambda>_ _. False) (q, d)"
  proof (rule rtap_laws.wp_write_attribute [OF assms(1) at_rest_at [OF assms(2)] TrueI keys assms(3,4), where q' = "q\<lparr>t_error := rtE_NONE\<rparr>"
        and Tw = ?T1 and rw = "row_after (tabs d) att (t_info q) r"
        and T' = "with_point (tabs d) h (written (tabs d) att q r)"], goal_cases)
    case 1
    then show ?case using writes [OF at_rest_at [OF assms(2)]] by auto
  next
    case (2 f d1)
    from writes [OF 2(2)] 2(1) obtain w: "wp (f h) (\<lambda>_ s. fst s = ?q \<and> view tabs saved depth ?T1 (tabs d) 1 (snd s)) (\<lambda>_ _. False) (?q, d1)"
      by auto
    show ?case by (rule wp_mono [OF w]) auto
  next
    case 3
    show ?case by (simp add: flagged_point_def written_def)
  next
    case 4
    show ?case by (rule keys')
  next
    case (5 d')
    from at_at_rest [OF this keys'] show ?case by simp
  qed
  from wp_run [where P = "\<lambda>e p d'. e = rtE_NONE \<and> p = q\<lparr>t_error := rtE_NONE\<rparr>
      \<and> tabs d' = with_point (tabs d) h (written (tabs d) att q r) \<and> at_rest tabs saved depth d'", OF this]
  show ?thesis by blast
qed

section \<open>What a writer keeps of a value\<close>

lemma put_byte_low [simp]: "put_byte (low_byte w) w = w"
  unfolding low_byte_def put_byte_def by (rule bit_word_eqI) (auto simp: bit_simps)

text \<open>A value outside the cases of a writer is stored as its default.\<close>

definition stored_as :: "string \<Rightarrow> 64 word \<Rightarrow> 64 word" where
  "stored_as att w =
     (let b = low_byte w in
      if att \<in> {''VALID'', ''VALIDACQ''} then put_byte (if b \<le> 8 then b else 0) w
      else if att = ''VALIDCHANGE'' then put_byte (if 1 \<le> sint b \<and> sint b \<le> 12 then b else 9) w
      else if att \<in> {''INHIB'', ''INHIBLOCAL''} then put_byte (if b = 1 then 1 else 0) w
      else w)"

lemma status_byte: "b \<le> 2 \<Longrightarrow> of_nat (PointStatus_code (if b = 0 then PLANNED else if b = 1 then WORKED else DISABLED)) = (b :: 8 word)"
  using byte_le_2 by auto

lemma all_shown:
  "list_all (\<lambda>n. int (Validity_code (validity_of n)) = n) [0..8]"
  "list_all (\<lambda>n. int (valid_change_shown (valid_change_of n)) = n) [1..12]"
  by code_simp+

lemma validity_shown: "int (Validity_code (validity_of n)) = (if 0 \<le> n \<and> n \<le> 8 then n else 0)"
  using all_shown(1) by (cases "0 \<le> n \<and> n \<le> 8") (simp add: list_all_iff, auto simp: validity_of_def [of n])

lemma change_shown: "int (valid_change_shown (valid_change_of n)) = (if 1 \<le> n \<and> n \<le> 12 then n else 9)"
  using all_shown(2) by (cases "1 \<le> n \<and> n \<le> 12") (simp add: list_all_iff, auto simp: valid_change_of_def [of n])

lemma validity_byte: "of_nat (Validity_code (validity_of (uint b))) = (if b \<le> 8 then b else 0 :: 8 word)"
proof -
  have "of_nat (Validity_code (validity_of (uint b))) = (of_int (int (Validity_code (validity_of (uint b)))) :: 8 word)"
    by (simp only: of_int_of_nat_eq)
  also have "\<dots> = of_int (if 0 \<le> uint b \<and> uint b \<le> 8 then uint b else 0)" by (simp only: validity_shown)
  finally show ?thesis by (cases "b \<le> 8") (simp_all add: word_le_def)
qed

lemma change_byte: "of_nat (valid_change_shown (valid_change_of (sint b))) = (if 1 \<le> sint b \<and> sint b \<le> 12 then b else 9 :: 8 word)"
proof -
  have "of_nat (valid_change_shown (valid_change_of (sint b))) = (of_int (int (valid_change_shown (valid_change_of (sint b)))) :: 8 word)"
    by (simp only: of_int_of_nat_eq)
  also have "\<dots> = of_int (if 1 \<le> sint b \<and> sint b \<le> 12 then sint b else 9)" by (simp only: change_shown)
  finally show ?thesis by (auto split: if_splits)
qed

lemma view_of_written:
  assumes "has_attribute att r" and "accepts att (t_info q)"
  shows "a_lo (attr_view att (written T att q r) (t_info q)) = stored_as att (a_lo (t_info q))"
  using assms(1)
proof (cases rule: has_attribute_cases)
  case 1
  with assms(2) have "low_byte (a_lo (t_info q)) \<le> 2" by (simp add: accepts_def)
  from status_byte [OF this] 1 show ?thesis
    by (simp add: attr_view_def with_byte_def written_def row_after_def attr_change_def stored_as_def Let_def)
next
  case 2
  then show ?thesis by (simp add: attr_view_def with_byte_def written_def row_after_def attr_change_def stored_as_def Let_def validity_byte)
next
  case 3
  then show ?thesis by (simp add: attr_view_def with_byte_def written_def row_after_def attr_change_def stored_as_def Let_def validity_byte)
next
  case 4
  then show ?thesis
    by (simp add: attr_view_def with_byte_def written_def row_after_def attr_change_def stored_as_def Let_def change_byte)
next
  case 5
  then show ?thesis by (simp add: attr_view_def with_byte_def written_def row_after_def attr_change_def stored_as_def Let_def)
next
  case 6
  then show ?thesis by (simp add: attr_view_def with_byte_def written_def row_after_def attr_change_def stored_as_def Let_def)
next
  case 7
  then show ?thesis
    by (auto simp: attr_view_def value_view_def written_def row_after_def attr_change_def value_change_def stored_as_def Let_def has_part_def part_field_def)
next
  case 8
  then show ?thesis
    by (auto simp: attr_view_def value_view_def written_def row_after_def attr_change_def value_change_def stored_as_def Let_def has_part_def part_field_def)
next
  case 9
  then show ?thesis
    by (auto simp: attr_view_def value_view_def written_def row_after_def attr_change_def value_change_def stored_as_def Let_def has_part_def part_field_def)
qed

lemma has_attribute_written [simp]: "has_attribute att (written T att q r) = has_attribute att r"
  by (auto simp: has_attribute_def has_part_def written_def row_after_def attr_change_def value_change_def Let_def)

section \<open>Properties of single attributes\<close>

text \<open>A caller's object for the attribute of the name \<open>n\<close>, with the value \<open>w\<close>; and a station with a
  measurement at rest.\<close>

definition asked :: "string \<Rightarrow> DbType_t \<Rightarrow> 64 word \<Rightarrow> attr_obj" where
  "asked n t w = \<lparr>t_error = rtE_NONE, t_info = \<lparr>a_name = n, a_type = t, a_quality = ATTR_ERROR, a_lo = w, a_hi = 0,
     d_size = 0, d_varchar = Null, d_string = Null\<rparr>\<rparr>"

definition measured :: rt_mem where
  "measured = mem_with (plant SS_WORK (measurement VALIDITY_FAULT))"

lemma measured_at_rest [simp]: "at_rest rt_mem_tabs rt_mem_saved mem_depth measured"
  by (simp add: at_rest_def measured_def, simp add: plant_def station_def measurement_def rt_keys_ok_def rt_tables_of_def unique_on_def)

lemma measured_points [simp]: "map_of (c_points (m_cur measured)) = [1 \<mapsto> station, 2 \<mapsto> measurement VALIDITY_FAULT]"
  by (simp add: measured_def mem_with_def plant_def fun_upd_twist)

lemma val_type_TM [simp]: "val_type TM = DB_TYPE_DOUBLE"
  by code_simp

lemma measured_tag [simp]: "p_TAG (measurement v) = ''M''" "p_OBJCLASS (measurement v) = TM"
  by (simp_all add: measurement_def)

lemma measured_sa:
  "sa_of (rt_mem_tabs measured) (p_SA_ref (measurement v)) = Some SS_WORK" "p_ai (measurement v) \<noteq> None"
  by (simp_all add: sa_of_def measured_def measurement_def)

text \<open>C13. Reading a status, a validity, an inhibition or one of the values of a point gives the field
  of its row, in the encoding and with the type of the attribute, marks it as good and changes
  nothing in the database.\<close>

theorem read_attribute_shows_row:
  assumes "rtap_laws E tabs saved depth True" and "at_rest tabs saved depth d" and "points (tabs d) h = Some r"
    and "split_name (a_name (t_info q)) = Some (p_TAG r, att)" and "has_attribute att r"
  shows "\<exists>d'. read_attribute E (q, d) = (Inr rtE_NONE,
       (q\<lparr>t_error := rtE_NONE, t_info := (attr_view att r (t_info q))\<lparr>a_quality := ATTR_OK\<rparr>\<rparr>, d'))
     \<and> tabs d' = tabs d \<and> at_rest tabs saved depth d'"
  using read_outcome [OF assms] by (simp add: shown_def)

theorem read_attribute_shows_row_witness:
  "\<exists>d'. read_attribute rt_mem_env (asked ''M.VAL'' DB_TYPE_UNDEF 0, measured) = (Inr rtE_NONE,
     ((asked ''M.VAL'' DB_TYPE_DOUBLE 10)\<lparr>t_info := (t_info (asked ''M.VAL'' DB_TYPE_DOUBLE 10))\<lparr>a_quality := ATTR_OK\<rparr>\<rparr>, d'))
     \<and> rt_mem_tabs d' = rt_mem_tabs measured"
  using read_attribute_shows_row [OF rt_mem.rtap_laws_axioms measured_at_rest, where h = 2 and att = "''VAL''"
      and r = "measurement VALIDITY_FAULT" and q = "asked ''M.VAL'' DB_TYPE_UNDEF 0"]
  by (simp add: split_name_def asked_def has_attribute_def has_part_def analog_class_def attr_view_def value_view_def part_field_def)
    (auto simp: measurement_def)



text \<open>C17. A value that was written is read back as it was, unless the writer does not know it: a
  validity above 8 comes back as 0, a change of validity outside 1 to 12 as 9, and an inhibition
  that is neither 0 nor 1 as 0.  For VALIDCHANGE, whose write runs the handler of the event, this holds for
  the points that the handler processes: analog ones whose acquisition system is stored.\<close>

theorem written_value_is_read_back:
  assumes "rtap_laws E tabs saved depth True" and "at_rest tabs saved depth d" and "points (tabs d) h = Some r"
    and "split_name (a_name (t_info q)) = Some (p_TAG r, att)" and "has_attribute att r" and "accepts att (t_info q)"
    and "att = ''VALIDCHANGE'' \<longrightarrow> p_OBJCLASS r \<in> {TM, TR, ICM} \<and> p_ai r \<noteq> None \<and> sa_of (tabs d) (p_SA_ref r) \<noteq> None"
  shows "\<exists>d1 q' d2. write_attribute E (q, d) = (Inr rtE_NONE, (q\<lparr>t_error := rtE_NONE\<rparr>, d1))
     \<and> read_attribute E (q\<lparr>t_error := rtE_NONE\<rparr>, d1) = (Inr rtE_NONE, (q', d2))
     \<and> a_lo (t_info q') = stored_as att (a_lo (t_info q))"
proof -
  have can: "can_write (tabs d) att r" using assms(5,7) by (simp add: can_write_def processed_def)
  from write_outcome [OF assms(1-4) can assms(6)] obtain d1 where
    w: "write_attribute E (q, d) = (Inr rtE_NONE, (q\<lparr>t_error := rtE_NONE\<rparr>, d1))" and
    t: "tabs d1 = with_point (tabs d) h (written (tabs d) att q r)" and rest: "at_rest tabs saved depth d1" by auto
  have "points (tabs d1) h = Some (written (tabs d) att q r)" by (simp add: t)
  from read_outcome [OF assms(1) rest this, of "q\<lparr>t_error := rtE_NONE\<rparr>" att] assms(4,5) obtain d2 where
    "read_attribute E (q\<lparr>t_error := rtE_NONE\<rparr>, d1) = (Inr rtE_NONE, (shown att (written (tabs d) att q r) (q\<lparr>t_error := rtE_NONE\<rparr>), d2))"
    by auto
  with w view_of_written [OF assms(5,6)] show ?thesis by (simp add: shown_def)
qed

theorem written_value_is_read_back_witness:
  "\<exists>d1 q' d2. write_attribute rt_mem_env (asked ''M.VALIDCHANGE'' DB_TYPE_UINT8 200, measured)
       = (Inr rtE_NONE, (asked ''M.VALIDCHANGE'' DB_TYPE_UINT8 200, d1))
     \<and> read_attribute rt_mem_env (asked ''M.VALIDCHANGE'' DB_TYPE_UINT8 200, d1) = (Inr rtE_NONE, (q', d2))
     \<and> a_lo (t_info q') = stored_as ''VALIDCHANGE'' 200"
  using written_value_is_read_back [OF rt_mem.rtap_laws_axioms measured_at_rest, where h = 2 and att = "''VALIDCHANGE''"
      and r = "measurement VALIDITY_FAULT" and q = "asked ''M.VALIDCHANGE'' DB_TYPE_UINT8 200"]
  by (simp add: split_name_def asked_def has_attribute_def accepts_def measured_sa)

section \<open>Attributes without a function of their own\<close>

lemma reader_names: "map fst (readers E) = [''CURRENT_SHIFT_TIME'', ''DATEHOURM'', ''DISPP'', ''FUNCTION'', ''INHIB'', ''INHIBLOCAL'',
    ''L_SA'', ''PREV_DISPATCHER'', ''PREV_SHIFT_TIME'', ''SHORTLABEL'', ''STATUS'', ''UNITY'', ''VAL'', ''VALACQ'', ''VALID'',
    ''VALIDACQ'', ''VALIDCHANGE'', ''VALMANUAL'', ''OBJCLASS'']"
  by (simp add: readers_def gen_readers_def)

lemma writer_names: "map fst (writers E) = [''CURRENT_SHIFT_TIME'', ''DATEHOURM'', ''FUNCTION'', ''INHIB'', ''INHIBLOCAL'',
    ''L_SA'', ''PREV_DISPATCHER'', ''SHORTLABEL'', ''STATUS'', ''UNITY'', ''VAL'', ''VALACQ'', ''VALID'',
    ''VALIDACQ'', ''VALIDCHANGE'', ''VALMANUAL'']"
  by (simp add: writers_def)

lemma stubs_apart:
  "list_all (\<lambda>a. a \<notin> set [''CURRENT_SHIFT_TIME'', ''DATEHOURM'', ''DISPP'', ''FUNCTION'', ''INHIB'', ''INHIBLOCAL'',
    ''L_SA'', ''PREV_DISPATCHER'', ''PREV_SHIFT_TIME'', ''SHORTLABEL'', ''STATUS'', ''UNITY'', ''VAL'', ''VALACQ'', ''VALID'',
    ''VALIDACQ'', ''VALIDCHANGE'', ''VALMANUAL'', ''OBJCLASS'']) read_stubs"
  "list_all (\<lambda>a. a \<notin> set [''CURRENT_SHIFT_TIME'', ''DATEHOURM'', ''FUNCTION'', ''INHIB'', ''INHIBLOCAL'',
    ''L_SA'', ''PREV_DISPATCHER'', ''SHORTLABEL'', ''STATUS'', ''UNITY'', ''VAL'', ''VALACQ'', ''VALID'',
    ''VALIDACQ'', ''VALIDCHANGE'', ''VALMANUAL'']) write_stubs"
  by code_simp+

lemma read_stub: "att \<in> set read_stubs \<Longrightarrow> attr_reading_func E att = Some stub"
proof -
  assume a: "att \<in> set read_stubs"
  with stubs_apart(1) have "att \<notin> set (map fst (readers E))" unfolding reader_names list_all_iff by blast
  with a show ?thesis by (auto simp: attr_reading_func_def map_of_eq_None_iff [THEN iffD2])
qed

lemma write_stub: "att \<in> set write_stubs \<Longrightarrow> attr_writing_func E att = Some stub"
proof -
  assume a: "att \<in> set write_stubs"
  with stubs_apart(2) have "att \<notin> set (map fst (writers E))" unfolding writer_names list_all_iff by blast
  with a show ?thesis by (auto simp: attr_writing_func_def map_of_eq_None_iff [THEN iffD2])
qed

lemma silent_read:
  assumes "rtap_laws E tabs saved depth True" and "at_rest tabs saved depth d" and "points (tabs d) h = Some r"
    and "split_name (a_name (t_info q)) = Some (p_TAG r, att)" and "attr_reading_func E att \<in> {None, Some stub}"
  shows "\<exists>d'. read_attribute E (q, d) = (Inr rtE_NONE, (q\<lparr>t_error := rtE_NONE, t_info := (t_info q)\<lparr>a_quality := ATTR_OK\<rparr>\<rparr>, d'))
     \<and> tabs d' = tabs d \<and> at_rest tabs saved depth d'"
proof -
  have keys: "rt_keys_ok (tabs d)" using assms(2) by (simp add: at_rest_def)
  have fin: "finished (opened q) = q\<lparr>t_error := rtE_NONE, t_info := (t_info q)\<lparr>a_quality := ATTR_OK\<rparr>\<rparr>"
    by (simp add: finished_def opened_def)
  have "wp (read_attribute E) (\<lambda>e s. e = rtE_NONE \<and> fst s = finished (opened q) \<and> tabs (snd s) = tabs d
      \<and> at_rest tabs saved depth (snd s)) (\<lambda>_ _. False) (q, d)"
  proof (rule rtap_laws.wp_read_attribute [OF assms(1) at_rest_at [OF assms(2)] TrueI keys assms(3,4), where q' = "opened q"], goal_cases)
    case (2 f d1)
    with assms(5) show ?case by (auto simp: stub_def intro!: wp_ret)
  next
    case (3 d')
    from at_at_rest [OF this keys] show ?case by simp
  qed simp
  from wp_run [where P = "\<lambda>e p d'. e = rtE_NONE \<and> p = finished (opened q) \<and> tabs d' = tabs d \<and> at_rest tabs saved depth d'", OF this]
  show ?thesis by (auto simp: fin)
qed

text \<open>C27. The attributes of the list \<open>read_stubs\<close> (limits, alarms and most links and labels among them) have a
  reader that does nothing: reading one of a known point is reported as good while the caller's value and
  type stay as they were, and an attribute without a reader is read with the same success.\<close>

theorem stub_attribute_reads_nothing:
  assumes "rtap_laws E tabs saved depth True" and "at_rest tabs saved depth d" and "points (tabs d) h = Some r"
    and "split_name (a_name (t_info q)) = Some (p_TAG r, att)"
    and "att \<in> set read_stubs \<or> attr_reading_func E att = None"
  shows "\<exists>d'. read_attribute E (q, d) = (Inr rtE_NONE, (q\<lparr>t_error := rtE_NONE, t_info := (t_info q)\<lparr>a_quality := ATTR_OK\<rparr>\<rparr>, d'))
     \<and> tabs d' = tabs d \<and> at_rest tabs saved depth d'"
  using assms(5) by (intro silent_read [OF assms(1-4)]) (auto dest: read_stub)

theorem stub_attribute_reads_nothing_witness:
  "\<exists>d'. read_attribute rt_mem_env (asked ''M.MAXVAL'' DB_TYPE_UINT8 7, measured) = (Inr rtE_NONE,
     ((asked ''M.MAXVAL'' DB_TYPE_UINT8 7)\<lparr>t_info := (t_info (asked ''M.MAXVAL'' DB_TYPE_UINT8 7))\<lparr>a_quality := ATTR_OK\<rparr>\<rparr>, d'))
     \<and> rt_mem_tabs d' = rt_mem_tabs measured"
  using stub_attribute_reads_nothing [OF rt_mem.rtap_laws_axioms measured_at_rest, where h = 2 and att = "''MAXVAL''"
      and r = "measurement VALIDITY_FAULT" and q = "asked ''M.MAXVAL'' DB_TYPE_UINT8 7"]
  by (simp add: split_name_def asked_def read_stubs_def) blast

text \<open>C28. Writing an attribute of the list \<open>write_stubs\<close>, or one without a writer, reports success too: it stores
  nothing and, for those of the list, marks the point as changed, so that its subscribers are told of a
  change that never happened.\<close>

theorem stub_attribute_writes_nothing:
  assumes "rtap_laws E tabs saved depth True" and "at_rest tabs saved depth d" and "points (tabs d) h = Some r"
    and "split_name (a_name (t_info q)) = Some (p_TAG r, att)"
    and "att \<in> set write_stubs \<or> attr_writing_func E att = None"
  shows "\<exists>d'. write_attribute E (q, d) = (Inr rtE_NONE, (q\<lparr>t_error := rtE_NONE\<rparr>, d'))
     \<and> tabs d' = (if att \<in> set write_stubs then with_point (tabs d) h (r\<lparr>p_is_modified := True\<rparr>) else tabs d)
     \<and> at_rest tabs saved depth d'"
proof -
  let ?q = "q\<lparr>t_error := rtE_NONE\<rparr>"
  let ?T' = "if att \<in> set write_stubs then with_point (tabs d) h (r\<lparr>p_is_modified := True\<rparr>) else tabs d"
  have keys: "rt_keys_ok (tabs d)" using assms(2) by (simp add: at_rest_def)
  have keys': "rt_keys_ok ?T'" using keys keys_with_point [OF keys assms(3), of "r\<lparr>p_is_modified := True\<rparr>"] by simp
  have func: "attr_writing_func E att = (if att \<in> set write_stubs then Some stub else None)"
    using assms(5) write_stub by auto
  have "wp (write_attribute E) (\<lambda>e s. e = rtE_NONE \<and> fst s = ?q \<and> tabs (snd s) = ?T' \<and> at_rest tabs saved depth (snd s))
      (\<lambda>_ _. False) (q, d)"
  proof (rule rtap_laws.wp_write_attribute [OF assms(1) at_rest_at [OF assms(2)] TrueI keys assms(3,4),
        where q' = ?q and Tw = "tabs d" and rw = r and T' = ?T'], goal_cases)
    case (2 f d1)
    with func have "f = stub" by (simp split: if_splits)
    with 2 show ?case by (simp add: stub_def wp_ret)
  next
    case 3
    with func assms(3) show ?case by (simp add: flagged_point_def split: if_splits)
  next
    case (5 d')
    from at_at_rest [OF this keys'] show ?case by simp
  qed (use func keys' in \<open>auto split: if_splits\<close>)
  from wp_run [where P = "\<lambda>e p d'. e = rtE_NONE \<and> p = ?q \<and> tabs d' = ?T' \<and> at_rest tabs saved depth d'", OF this]
  show ?thesis by blast
qed

theorem stub_attribute_writes_nothing_witness:
  "\<exists>d'. write_attribute rt_mem_env (asked ''M.MAXVAL'' DB_TYPE_UINT8 7, measured) = (Inr rtE_NONE, (asked ''M.MAXVAL'' DB_TYPE_UINT8 7, d'))
     \<and> rt_mem_tabs d' = with_point (rt_mem_tabs measured) 2 ((measurement VALIDITY_FAULT)\<lparr>p_is_modified := True\<rparr>)"
  using stub_attribute_writes_nothing [OF rt_mem.rtap_laws_axioms measured_at_rest, where h = 2 and att = "''MAXVAL''"
      and r = "measurement VALIDITY_FAULT" and q = "asked ''M.MAXVAL'' DB_TYPE_UINT8 7"]
  by (simp add: split_name_def asked_def write_stubs_def) blast

section \<open>Strings\<close>

text \<open>The text a point shows for an attribute: its own, or that of the row it refers to.\<close>

definition text_of :: "rt_tables \<Rightarrow> string \<Rightarrow> xdb_point \<Rightarrow> string \<Rightarrow> bool" where
  "text_of T att r s \<longleftrightarrow> att = ''SHORTLABEL'' \<and> s = p_SHORTLABEL r
     \<or> att = ''UNITY'' \<and> (\<exists>h u. unities T h = Some u \<and> un_unityID u = p_UNITY_ID r \<and> s = un_UNITY u)
     \<or> att = ''L_SA'' \<and> (\<exists>q. points T (p_SA_ref r) = Some q \<and> s = p_TAG q)"

text \<open>An object from which a string can be read: not one of strings, and with a type that comes first.\<close>

definition plain_type :: "string \<Rightarrow> DbType_t \<Rightarrow> bool" where
  "plain_type att t \<longleftrightarrow> \<not> is_chars t \<and> t \<noteq> DB_TYPE_BYTES \<and> DbType_code t \<le> DbType_code (attr_type att)"

definition with_text :: "string \<Rightarrow> string \<Rightarrow> attribute_info \<Rightarrow> attribute_info" where
  "with_text att s i = i\<lparr>a_type := attr_type att, d_size := attr_size att,
     d_varchar := To (attr_size att + 1, strncpy (attr_size att) s)\<rparr>"

lemma text_cases:
  assumes "text_of T att r s"
  obtains "att = ''SHORTLABEL''" "s = p_SHORTLABEL r"
    | h u where "att = ''UNITY''" "unities T h = Some u" "un_unityID u = p_UNITY_ID r" "s = un_UNITY u"
    | q where "att = ''L_SA''" "points T (p_SA_ref r) = Some q" "s = p_TAG q"
  using assms unfolding text_of_def by (elim disjE conjE exE) (rule that; assumption)+

lemma wp_new_buffer:
  assumes "plain_type att (a_type (t_info q))" and "att \<in> {''SHORTLABEL'', ''UNITY'', ''L_SA''}"
    and "\<And>i. i = (t_info q)\<lparr>d_size := attr_size att, d_varchar := To (attr_size att + 1, ''''), a_type := attr_type att\<rparr>
       \<Longrightarrow> Q () (q\<lparr>t_info := i\<rparr>, d)"
  shows "wp (check_user_defined_type att) Q R (q, d)"
proof -
  have "is_chars (attr_type att)" "DbType_code DB_TYPE_BYTES4 \<le> DbType_code (attr_type att)"
    using assms(2) by (auto simp: is_chars_def)
  with assms(1) have "a_type (t_info q) \<noteq> attr_type att" by (auto simp: plain_type_def)
  with assms(1) \<open>DbType_code DB_TYPE_BYTES4 \<le> DbType_code (attr_type att)\<close> show ?thesis
    unfolding check_user_defined_type_def drop_old_def make_new_def set_type_def plain_type_def
    by (cases q, simp, intro vcg) (use assms(3) in \<open>auto simp: \<open>a_type (t_info q) \<noteq> attr_type att\<close>\<close>)
qed

lemma wp_give_text:
  assumes "d_varchar (t_info q) = To (cap, t)" and "d_size (t_info q) < cap"
    and "Q () (q\<lparr>t_info := (t_info q)\<lparr>d_varchar := To (cap, strncpy (d_size (t_info q)) s)\<rparr>\<rparr>, d)"
  shows "wp (give_text s) Q R (q, d)"
  unfolding give_text_def
  by (intro wp_bnd wp_info, cases q)
    (use assms length_strncpy [of "d_size (t_info q)" s] in \<open>auto intro!: wp_set_info\<close>)

lemma text_readers:
  "attr_reading_func E ''SHORTLABEL'' = Some (readSHORTLABEL E)" "attr_reading_func E ''UNITY'' = Some (readUNITY E)"
  "attr_reading_func E ''L_SA'' = Some (readL_SA E)"
  by (simp_all add: attr_reading_func_def readers_def gen_readers_def)

context rtap_laws
begin

lemma wp_text_out:
  assumes "i = (t_info q)\<lparr>d_size := attr_size att, d_varchar := To (attr_size att + 1, ''''), a_type := attr_type att\<rparr>" and "at T S n d"
  shows "wp (give_text s) (\<lambda>_ s'. fst s' = q\<lparr>t_info := with_text att s (t_info q)\<rparr> \<and> at T S n (snd s')) (\<lambda>_ _. False) (q\<lparr>t_info := i\<rparr>, d)"
  by (rule wp_give_text [where cap = "attr_size att + 1" and t = "''''"]) (use assms in \<open>simp_all add: with_text_def\<close>)

lemma text_reader:
  assumes "text_of T att r s" and "plain_type att (a_type (t_info q))" and "at T S n d" and reliable and "rt_keys_ok T"
    and "points T h = Some r"
  shows "\<exists>f. attr_reading_func E att = Some f
     \<and> wp (f h) (\<lambda>_ s'. fst s' = q\<lparr>t_info := with_text att s (t_info q)\<rparr> \<and> at T S n (snd s')) (\<lambda>_ _. False) (q, d)"
  using assms(1)
proof (cases rule: text_cases)
  case 1
  show ?thesis
    unfolding 1
  proof (intro exI conjI, rule text_readers, unfold readSHORTLABEL_def, intro wp_sq wp_new_buffer wp_bnd wp_point_row [OF assms(3,4,6)],
      goal_cases)
    case (3 i d1)
    then show ?case by (rule wp_text_out)
  qed (use assms(2) 1 in auto)
next
  case (2 u x)
  have unit: "h' = u" if "unities T h' = Some r'" "un_unityID r' = p_UNITY_ID r" for h' r'
    using assms(5) 2 that unfolding rt_keys_ok_def unique_on_def by metis
  show ?thesis
    unfolding 2
  proof (intro exI conjI, rule text_readers, unfold readUNITY_def, intro wp_sq wp_new_buffer wp_bnd wp_point_row [OF assms(3,4,6)], goal_cases)
    case (3 i d1)
    show ?case
    proof (rule wp_sure [OF unity_id 3(2)], goal_cases)
      case (1 rc)
      with assms(4) 2 show ?case by auto
    next
      case (2 h' T' d2)
      then have "h' = u" "at T S n d2" using unit by auto
      show ?case
        by (rule wp_bnd, rule wp_sure [OF unity_row \<open>at T S n d2\<close>])
          (use assms(4) \<open>unities T u = Some x\<close> \<open>h' = u\<close> wp_text_out [OF 3(1)] in auto)
    qed
  qed (use assms(2) 2 in auto)
next
  case (3 p)
  show ?thesis
    unfolding 3
  proof (intro exI conjI, rule text_readers, unfold readL_SA_def, intro wp_sq wp_new_buffer wp_bnd wp_point_row [OF assms(3,4,6)], goal_cases)
    case (3 i d1)
    show ?case
    proof (rule wp_sure [OF pts.find 3(2)], goal_cases)
      case (1 rc)
      with assms(4) \<open>points T (p_SA_ref r) = Some p\<close> show ?case by auto
    next
      case (2 h' T' d2)
      then have "h' = p_SA_ref r" "at T S n d2" by auto
      show ?case
        by (rule wp_bnd, rule wp_point_row [OF \<open>at T S n d2\<close> assms(4)])
          (use \<open>points T (p_SA_ref r) = Some p\<close> \<open>h' = p_SA_ref r\<close> wp_text_out [OF 3(1)] in auto)
    qed
  qed (use assms(2) 3 in auto)
qed

end

lemma text_outcome:
  assumes "rtap_laws E tabs saved depth True" and "at_rest tabs saved depth d" and "points (tabs d) h = Some r"
    and "split_name (a_name (t_info q)) = Some (p_TAG r, att)" and "text_of (tabs d) att r s" and "plain_type att (a_type (t_info q))"
  shows "\<exists>d'. read_attribute E (q, d) = (Inr rtE_NONE, (q\<lparr>t_error := rtE_NONE,
       t_info := (with_text att s (t_info q))\<lparr>a_quality := ATTR_OK\<rparr>\<rparr>, d')) \<and> tabs d' = tabs d \<and> at_rest tabs saved depth d'"
proof -
  have keys: "rt_keys_ok (tabs d)" using assms(2) by (simp add: at_rest_def)
  have plain: "plain_type att (a_type (t_info (opened q)))" using assms(6) by (simp add: opened_def)
  note reads = rtap_laws.text_reader [OF assms(1,5) plain _ TrueI keys assms(3)]
  have fin: "finished ((opened q)\<lparr>t_info := with_text att s (t_info (opened q))\<rparr>)
      = q\<lparr>t_error := rtE_NONE, t_info := (with_text att s (t_info q))\<lparr>a_quality := ATTR_OK\<rparr>\<rparr>" (is "_ = ?q")
    by (simp add: finished_def opened_def with_text_def)
  have "wp (read_attribute E) (\<lambda>e s. e = rtE_NONE \<and> fst s = ?q \<and> tabs (snd s) = tabs d \<and> at_rest tabs saved depth (snd s))
      (\<lambda>_ _. False) (q, d)"
  proof (rule rtap_laws.wp_read_attribute [OF assms(1) at_rest_at [OF assms(2)] TrueI keys assms(3,4),
        where q' = "(opened q)\<lparr>t_info := with_text att s (t_info (opened q))\<rparr>"], goal_cases)
    case 1
    then show ?case using reads [OF at_rest_at [OF assms(2)]] by auto
  next
    case (2 f d1)
    then show ?case using reads [OF 2(2)] by auto
  next
    case (3 d')
    from at_at_rest [OF this keys] show ?case by (simp add: fin)
  qed
  from wp_run [where P = "\<lambda>e p d'. e = rtE_NONE \<and> p = ?q \<and> tabs d' = tabs d \<and> at_rest tabs saved depth d'", OF this]
  show ?thesis by blast
qed

text \<open>C20. A label, a unit or the name of the station of a point is read into a new buffer of the caller:
  the label from the point, the other two through the references of its row, each cut to the size
  of the attribute, provided that the caller's object did not hold a string before.\<close>

theorem read_text_follows_references:
  assumes "rtap_laws E tabs saved depth True" and "at_rest tabs saved depth d" and "points (tabs d) h = Some r"
    and "split_name (a_name (t_info q)) = Some (p_TAG r, att)" and "text_of (tabs d) att r s" and "plain_type att (a_type (t_info q))"
  shows "\<exists>d'. read_attribute E (q, d) = (Inr rtE_NONE, (q\<lparr>t_error := rtE_NONE,
       t_info := (with_text att s (t_info q))\<lparr>a_quality := ATTR_OK\<rparr>\<rparr>, d')) \<and> tabs d' = tabs d \<and> at_rest tabs saved depth d'"
  by (rule text_outcome [OF assms])

theorem read_text_follows_references_witness:
  "\<exists>d' q'. read_attribute rt_mem_env (asked ''M.L_SA'' DB_TYPE_UNDEF 0, measured) = (Inr rtE_NONE, (q', d'))
     \<and> d_varchar (t_info q') = To (129, ''S'')"
  using read_text_follows_references [OF rt_mem.rtap_laws_axioms measured_at_rest, where h = 2 and att = "''L_SA''"
      and r = "measurement VALIDITY_FAULT" and q = "asked ''M.L_SA'' DB_TYPE_UNDEF 0" and s = "''S''"]
  by (simp add: split_name_def asked_def text_of_def plain_type_def is_chars_def with_text_def measurement_def station_def
      strncpy_def c_str_def NUL_def) (elim exE conjE, rule exI, rule exI, rule conjI, assumption, simp)

section \<open>Types, on any engine\<close>

text \<open>The attributes whose reader sets the type of the table of attributes.\<close>

definition typed_attributes :: "string list" where
  "typed_attributes = [''STATUS'', ''VALID'', ''VALIDACQ'', ''VALIDCHANGE'', ''INHIB'', ''INHIBLOCAL'', ''OBJCLASS'', ''DATEHOURM'',
     ''SHORTLABEL'', ''UNITY'', ''L_SA'', ''DISPP'', ''PREV_DISPATCHER'', ''FUNCTION'']"

text \<open>A call to the engine of which nothing is known.\<close>

lemma wp_blind: "(\<And>x d'. Q x d') \<Longrightarrow> (\<And>e d'. R e d') \<Longrightarrow> wp c Q R d"
  by (auto simp: wp_def split: prod.splits sum.splits)

lemma wp_db_blind: "(\<And>x d'. Q x (q, d')) \<Longrightarrow> (\<And>rc d'. R (Brk rc) (q, d')) \<Longrightarrow> wp (db c) Q R (q, d)"
  by (auto simp: wp_def db_def split: prod.splits sum.splits)

lemma wp_db_try_blind: "(\<And>r d'. Q r (q, d')) \<Longrightarrow> wp (db_try c) Q R (q, d)"
  by (auto simp: wp_def db_try_def split: prod.splits sum.splits)

lemma wp_point_row_blind: "(\<And>x d'. Q x (q, d')) \<Longrightarrow> (\<And>rc d'. R (Brk rc) (q, d')) \<Longrightarrow> wp (point_row E h) Q R (q, d)"
  by (simp add: point_row_def wp_db_blind)

lemma wp_get_then_blind:
  assumes "\<And>r d'. wp (keep r) (\<lambda>_ s. Q () s \<and> (\<forall>rc. R (Brk rc) s)) R (q, d')"
  shows "wp (get_then E h keep) Q R (q, d)"
proof -
  have "wp (keep r) Q R (q, d')" "wp (keep r) (\<lambda>_. wp (raise (Brk rc)) Q R) R (q, d')" for r rc d'
    by (rule wp_mono [OF assms], auto intro: wp_raise)+
  then show ?thesis
    unfolding get_then_def by (intro wp_bnd wp_db_try_blind wp_case_sum wp_sq)
qed

lemma wp_give_text_blind:
  assumes "\<And>p. Q () (t_info_update (\<lambda>i. i\<lparr>d_varchar := p i\<rparr>) q, d)" and "\<And>f. R (Crash f) (q, d)"
  shows "wp (give_text s) Q R (q, d)"
  unfolding give_text_def
  by (intro wp_bnd wp_info) (use assms in \<open>auto split: pointer.splits intro!: wp_raise wp_set_info\<close>)

lemma wp_check_type_blind:
  assumes "\<And>i. a_type i = attr_type att \<Longrightarrow> a_name i = a_name (t_info q) \<Longrightarrow> Q () (q\<lparr>t_info := i\<rparr>, d)" and "\<And>i f. R (Crash f) (q\<lparr>t_info := i\<rparr>, d)"
  shows "wp (check_user_defined_type att) Q R (q, d)"
proof (cases q)
  case (fields e i)
  show ?thesis
    unfolding check_user_defined_type_def drop_old_def make_new_def set_type_def fields
    by (intro vcg) (use assms in \<open>auto simp: fields intro!: vcg\<close>)
qed

lemmas blind = wp_bnd wp_sq wp_ret wp_if wp_case_option wp_rd wp_set_obj wp_info wp_point_row_blind wp_get_then_blind
  wp_give_text_blind wp_check_type_blind wp_db_blind wp_set_info

text \<open>What every typed reader leaves of the caller's object, however it ends.\<close>

definition typed :: "string \<Rightarrow> attr_obj \<Rightarrow> ('d, unit) attr_step \<Rightarrow> bool" where
  "typed att q m \<longleftrightarrow> (\<forall>d. wp m (\<lambda>_ s. t_error (fst s) = t_error q \<and> a_type (t_info (fst s)) = attr_type att)
     (\<lambda>_ s. t_error (fst s) = t_error q) (q, d))"

lemma typed_number:
  "typed ''STATUS'' q (readSTATUS E h)" "typed ''VALID'' q (readVALID E h)" "typed ''VALIDACQ'' q (readVALIDACQ E h)"
  "typed ''VALIDCHANGE'' q (readVALIDCHANGE E h)" "typed ''INHIB'' q (readINHIB E h)" "typed ''INHIBLOCAL'' q (readINHIBLOCAL E h)"
  "typed ''OBJCLASS'' q (readOBJCLASS E h)" "typed ''DATEHOURM'' q (readDATEHOURM E h)"
  unfolding typed_def readSTATUS_def readVALID_def readVALIDACQ_def readVALIDCHANGE_def readINHIB_def readINHIBLOCAL_def
    readOBJCLASS_def readDATEHOURM_def small_steps
  by (intro allI blind; simp)+

lemma typed_text:
  "typed ''SHORTLABEL'' q (readSHORTLABEL E h)" "typed ''UNITY'' q (readUNITY E h)" "typed ''L_SA'' q (readL_SA E h)"
  "typed ''DISPP'' q (readDISPP E h)" "typed ''PREV_DISPATCHER'' q (readPREV_DISPATCHER E h)" "typed ''FUNCTION'' q (readFUNCTION E h)"
  unfolding typed_def readSHORTLABEL_def readUNITY_def readL_SA_def readDISPP_def readPREV_DISPATCHER_def readFUNCTION_def
    passport_row_def small_steps
  by (intro allI blind; simp)+

lemma typed_readers:
  assumes "att \<in> set typed_attributes"
  shows "\<exists>f. attr_reading_func E att = Some f \<and> (\<forall>h. typed att q (f h))"
proof -
  have more: "attr_reading_func E ''DISPP'' = Some (readDISPP E)" "attr_reading_func E ''PREV_DISPATCHER'' = Some (readPREV_DISPATCHER E)"
    "attr_reading_func E ''FUNCTION'' = Some (readFUNCTION E)" "attr_reading_func E ''OBJCLASS'' = Some (readOBJCLASS E)"
    "attr_reading_func E ''DATEHOURM'' = Some (readDATEHOURM E)"
    by (simp_all add: attr_reading_func_def readers_def gen_readers_def)
  have "list_all (\<lambda>att. \<exists>f. attr_reading_func E att = Some f \<and> (\<forall>h. typed att q (f h))) typed_attributes"
    unfolding typed_attributes_def list.pred_inject more reading_funcs text_readers option.inject
    by (intro conjI TrueI exI allI, (rule refl | rule typed_number typed_text list.pred_inject(1))+)
  with assms show ?thesis by (simp add: list_all_iff)
qed

lemma wp_typed_read:
  assumes "split_name (a_name (t_info q)) = Some (tag, att)" and "att \<in> set typed_attributes"
  shows "wp (read_attribute E) (\<lambda>e s. e = rtE_NONE \<longrightarrow> a_type (t_info (fst s)) = attr_type att \<and> a_quality (t_info (fst s)) = ATTR_OK)
     (\<lambda>_ _. True) (q, d)"
proof -
  let ?good = "\<lambda>s :: attr_obj \<times> 'a. a_type (t_info (fst s)) = attr_type att \<and> a_quality (t_info (fst s)) = ATTR_OK"
  let ?bad = "\<lambda>s :: attr_obj \<times> 'a. t_error (fst s) \<noteq> rtE_NONE"
  have open_error: "t_error (opened q) = rtE_RUNTIME_ERROR" by (simp add: opened_def)
  have steps: "wp (read_steps E tag att) (\<lambda>_. ?good) (\<lambda>_. ?bad) (opened q, d1)" for d1
  proof -
    obtain f where f: "attr_reading_func E att = Some f" "\<And>h. typed att (opened q) (f h)"
      using typed_readers [OF assms(2)] by blast
    have serve: "wp (served (f h)) (\<lambda>_ s. a_type (t_info (fst s)) = attr_type att \<and> t_error (fst s) = rtE_RUNTIME_ERROR)
        (\<lambda>_. ?bad) (opened q, d2)" for h d2
      unfolding served_def
    proof (intro wp_bnd wp_rc_of wp_mono [OF f(2) [unfolded typed_def, rule_format]], goal_cases)
      case (1 u s)
      then show ?case by (auto simp: open_error intro!: decided wp_ret)
    next
      case (2 e s)
      then show ?case
        by (cases s) (auto simp: open_error attr_error_def split: exc.splits intro!: decided vcg)
    qed
    have rest: "wp (sq (db (rtap_commit E)) (sq (set_info (\<lambda>i. i\<lparr>a_quality := ATTR_OK\<rparr>)) (attr_error rtE_NONE)))
        (\<lambda>_. ?good) (\<lambda>_. ?bad) (p, d2)" if "a_type (t_info p) = attr_type att" "t_error p = rtE_RUNTIME_ERROR" for p d2
      unfolding attr_error_def by (intro blind) (use that in simp_all)
    show ?thesis
      unfolding read_steps_def locate_point_def attr_error_def [of rtE_POINT_NOT_FOUND]
    proof (intro wp_bnd wp_db_try_blind wp_case_sum wp_sq wp_set_obj wp_ret wp_raise, goal_cases)
      case (2 r d' h)
      show ?case by (simp add: f(1), rule wp_mono [OF serve]) (auto intro: rest)
    qed simp
  qed
  show ?thesis
    unfolding read_attribute_def
  proof (intro wp_sq wp_upd wp_bnd wp_rd, simp add: assms(1), intro wp_bnd wp_rt_txn, goal_cases)
    case 1
    show ?case
      by (rule wp_blind) (auto intro!: wp_mono [OF steps [unfolded opened_def]] wp_ret wp_rd split: exc.splits)
  qed
qed

text \<open>C21. On any engine, whatever its calls return: a read of one of the fourteen attributes with a typed
  reader that ends without an error leaves in the caller's object exactly the type the table of
  attributes declares, and the quality good.\<close>

theorem read_leaves_declared_type:
  assumes "split_name (a_name (t_info q)) = Some (tag, att)" and "att \<in> set typed_attributes"
    and "read_attribute E (q, d) = (Inr rtE_NONE, (q', d'))"
  shows "a_type (t_info q') = attr_type att \<and> a_quality (t_info q') = ATTR_OK"
  using wp_okD [OF wp_typed_read [OF assms(1,2), of E d] assms(3)] by simp

theorem read_leaves_declared_type_witness:
  "\<exists>q' d'. read_attribute rt_mem_env (asked ''M.VALIDCHANGE'' DB_TYPE_UNDEF 0, measured) = (Inr rtE_NONE, (q', d'))
     \<and> a_type (t_info q') = DB_TYPE_UINT8"
proof -
  obtain q' d' where r: "read_attribute rt_mem_env (asked ''M.VALIDCHANGE'' DB_TYPE_UNDEF 0, measured) = (Inr rtE_NONE, (q', d'))"
    using read_outcome [OF rt_mem.rtap_laws_axioms measured_at_rest, where h = 2 and att = "''VALIDCHANGE''"
        and r = "measurement VALIDITY_FAULT" and q = "asked ''M.VALIDCHANGE'' DB_TYPE_UNDEF 0"]
    by (auto simp: split_name_def asked_def has_attribute_def)
  from read_leaves_declared_type [OF _ _ r, of "''M''" "''VALIDCHANGE''"] r show ?thesis
    by (auto simp: split_name_def asked_def typed_attributes_def)
qed

context rtap_laws
begin

lemma wp_wide_label:
  assumes "at T T 0 d" and reliable and "rt_keys_ok T" and "points T h = Some r"
    and "split_name (a_name (t_info q)) = Some (p_TAG r, ''SHORTLABEL'')"
    and "is_chars (a_type (t_info q))" and "DbType_code (attr_type ''SHORTLABEL'') < DbType_code (a_type (t_info q))"
    and "d_varchar (t_info q) = To buffer"
  shows "wp (read_attribute E) (\<lambda>_ _. False) (\<lambda>f _. f = BadPointer) (q, d)"
proof -
  have crash: "wp (readSHORTLABEL E h) (\<lambda>_ _. False) (\<lambda>e _. e = Crash BadPointer) (opened q, d1)" if "at T T 1 d1" for d1
  proof -
    have "wp (check_user_defined_type ''SHORTLABEL'') (\<lambda>_ s. d_varchar (t_info (fst s)) = Freed \<and> snd s = d1) (\<lambda>_ _. False) (opened q, d1)"
      unfolding check_user_defined_type_def drop_old_def make_new_def set_type_def
      by (cases q, intro vcg) (use assms(6-8) in \<open>auto simp: opened_def is_chars_def intro!: vcg\<close>)
    then show ?thesis
      unfolding readSHORTLABEL_def
      by (intro wp_sq, rule wp_mono) (auto intro!: wp_bnd wp_point_row [OF that assms(2,4)] wp_info wp_raise simp: give_text_def)
  qed
  show ?thesis
    unfolding read_attribute_def
  proof (intro wp_sq wp_upd wp_bnd wp_rd, simp add: assms(5), intro wp_bnd wp_rt_alone [OF assms(1,2)], goal_cases)
    case (1 d1)
    show ?case
      unfolding read_steps_def
    proof (rule wp_bnd, rule wp_locate_point [OF 1 assms(2-4)], simp add: text_readers del: One_nat_def, rule wp_sq, goal_cases)
      case (1 d2)
      show ?case
        unfolding served_def
        by (intro wp_bnd wp_rc_of, rule wp_mono [OF crash [unfolded opened_def, OF 1]]) auto
    qed
  qed
qed

end

text \<open>C26. A caller whose object still holds a string of a wider type than a label loses its buffer: it is
  released, no new one is made, because the code compares with the type of the caller where it means
  the widest type of strings, and the label is copied into released memory.\<close>

theorem label_into_released_buffer:
  assumes "rtap_laws E tabs saved depth True" and "at_rest tabs saved depth d" and "points (tabs d) h = Some r"
    and "split_name (a_name (t_info q)) = Some (p_TAG r, ''SHORTLABEL'')" and "is_chars (a_type (t_info q))"
    and "DbType_code (attr_type ''SHORTLABEL'') < DbType_code (a_type (t_info q))" and "d_varchar (t_info q) = To buffer"
  shows "fst (read_attribute E (q, d)) = Inl BadPointer"
proof -
  have keys: "rt_keys_ok (tabs d)" using assms(2) by (simp add: at_rest_def)
  from rtap_laws.wp_wide_label [OF assms(1) at_rest_at [OF assms(2)] TrueI keys assms(3-7)] show ?thesis
    by (cases "read_attribute E (q, d)") (auto simp: wp_def split: sum.splits)
qed

theorem label_into_released_buffer_witness:
  "fst (read_attribute rt_mem_env ((asked ''M.SHORTLABEL'' DB_TYPE_BYTES32 0)\<lparr>t_info :=
     (t_info (asked ''M.SHORTLABEL'' DB_TYPE_BYTES32 0))\<lparr>d_varchar := To (129, ''S'')\<rparr>\<rparr>, measured)) = Inl BadPointer"
  by (rule label_into_released_buffer [OF rt_mem.rtap_laws_axioms measured_at_rest, where h = 2 and r = "measurement VALIDITY_FAULT"
        and buffer = "(129, ''S'')"])
    (simp_all add: split_name_def asked_def is_chars_def)

end
