(* ===== verification/RtapPointLaws.thy ===== *)
theory RtapPointLaws
  imports RtapPoints RtapAttrLaws
begin

text \<open>
  What creating a point does to the tables, whatever fails: nothing or one new point with one new
  passport whose fields keep their types; and what loading a dictionary leaves.
\<close>

section \<open>Passports with typed fields\<close>

definition well_typed :: "objclass_t \<Rightarrow> passport \<Rightarrow> bool" where
  "well_typed c r \<longleftrightarrow> (\<forall>n v. r n = Some v \<longrightarrow> (\<exists>t. map_of (pass_fields c) n = Some t \<and> has_type v t))"

definition all_typed :: "rt_tables \<Rightarrow> bool" where
  "all_typed T \<longleftrightarrow> (\<forall>c i r. passports T c i = Some r \<longrightarrow> well_typed c r)"

lemma has_type_default: "has_type (default_of t) t"
  by (cases t) simp_all

definition all_classes :: "objclass_t list" where
  "all_classes =
   [TS, TM, TR, TSA, TSC, TC, AL, ICS, ICM, PIPE, PIPELINE, TL, VA, SC, ATC, GRC, SV, SDG, RGA, SSDG, BRG, SCP, STG, DIR,
    DIPL, METLINE, ESDG, SVLINE, SCPLINE, TLLINE, INVT, AUX1, AUX2, SITE, SA, FIXEDPOINT, HIST]"

lemma in_all_classes: "c \<in> set all_classes"
  by (cases c) (simp_all add: all_classes_def)

lemma coeff_is_double: "list_all (\<lambda>c. map_of (pass_fields c) ''CONVERTCOEFF'' \<in> {None, Some TDouble}) all_classes"
  by code_simp

lemma map_of_named: "map_of (map (\<lambda>(n, t). (n, f n t)) xs) n = map_option (f n) (map_of xs n)"
  by (induction xs) auto

lemma new_passport_typed: "well_typed c (new_passport c)"
proof -
  have "map_of (pass_fields c) ''CONVERTCOEFF'' \<in> {None, Some TDouble}"
    using coeff_is_double in_all_classes [of c] unfolding list_all_iff by blast
  then show ?thesis
    unfolding well_typed_def new_passport_def map_of_named [where f = "\<lambda>n t. if n = ''CONVERTCOEFF'' then PDouble 0x3FF0000000000000 else default_of t"]
    by (auto simp: has_type_default)
qed

lemma typed_put: "well_typed c r \<Longrightarrow> pass_fits c x \<Longrightarrow> well_typed c (apply_pass_put x r)"
  by (cases x) (auto simp: well_typed_def split: option.splits)

section \<open>Tables with one more point\<close>

definition grows :: "rt_tables \<Rightarrow> int \<Rightarrow> rt_tables \<Rightarrow> bool" where
  "grows T0 h T \<longleftrightarrow> points T0 h = None \<and> (\<forall>i. i \<noteq> h \<longrightarrow> points T i = points T0 i)
     \<and> (\<forall>c i r. passports T0 c i = Some r \<longrightarrow> passports T c i = Some r)
     \<and> sbs_stats T = sbs_stats T0 \<and> sbs_items T = sbs_items T0 \<and> unities T = unities T0
     \<and> val_labels T = val_labels T0 \<and> macros T = macros T0"

text \<open>The tables while a point of the class \<open>c\<close> is made, whose row satisfies \<open>R\<close>.\<close>

definition made :: "rt_tables \<Rightarrow> objclass_t \<Rightarrow> (int \<Rightarrow> xdb_point \<Rightarrow> bool) \<Rightarrow> new_point \<Rightarrow> rt_tables \<Rightarrow> bool" where
  "made T0 c R q T \<longleftrightarrow> grows T0 (n_point q) T \<and> (\<exists>r. points T (n_point q) = Some r \<and> R (n_point q) r)
     \<and> (all_typed T0 \<longrightarrow> all_typed T) \<and> n_id q = n_point q
     \<and> (\<forall>k. n_passport q = Some k \<longrightarrow> passports T0 c k = None \<and> (\<exists>r. passports T c k = Some r))"

lemma made_row:
  assumes "made T0 c R q T" and "points T (n_point q) = Some r" and "R' (n_point q) r'"
  shows "made T0 c R' q (T\<lparr>points := (points T)(n_point q \<mapsto> r')\<rparr>)"
  using assms by (auto simp: made_def grows_def all_typed_def)

lemma made_pass:
  assumes "made T0 c R q T" and "n_passport q = Some k" and "passports T c k = Some r" and "well_typed c r \<Longrightarrow> well_typed c r'"
  shows "made T0 c R q (T\<lparr>passports := (passports T)(c := (passports T c)(k \<mapsto> r'))\<rparr>)"
proof -
  have "all_typed (T\<lparr>passports := (passports T)(c := (passports T c)(k \<mapsto> r'))\<rparr>)" if "all_typed T"
    using that assms(3,4) by (auto simp: all_typed_def)
  with assms(1-3) show ?thesis by (auto simp: made_def grows_def)
qed

context rtap_laws
begin

text \<open>A step that makes of a row with \<open>R\<close> one with \<open>R'\<close>, and touches nothing else.\<close>

definition pres ::
  "rt_tables \<Rightarrow> objclass_t \<Rightarrow> (int \<Rightarrow> xdb_point \<Rightarrow> bool) \<Rightarrow> (int \<Rightarrow> xdb_point \<Rightarrow> bool) \<Rightarrow> (new_point, 'd, 'a) step \<Rightarrow> bool" where
  "pres T0 c R R' m \<longleftrightarrow> (\<forall>S n q d. made T0 c R q (tabs d) \<and> saved d = S \<and> depth d = n \<longrightarrow>
     wp m (\<lambda>_ s. made T0 c R' (fst s) (tabs (snd s)) \<and> saved (snd s) = S \<and> depth (snd s) = n)
          (\<lambda>e s. e \<noteq> Brk MCO_S_OK \<and> saved (snd s) = S \<and> depth (snd s) = n) (q, d))"

lemma pres_wp:
  assumes "pres T0 c R R' m" and "made T0 c R q (tabs d)" and "saved d = S" and "depth d = n"
    and "\<And>x q' d'. made T0 c R' q' (tabs d') \<Longrightarrow> saved d' = S \<Longrightarrow> depth d' = n \<Longrightarrow> Q x (q', d')"
    and "\<And>e q' d'. e \<noteq> Brk MCO_S_OK \<Longrightarrow> saved d' = S \<Longrightarrow> depth d' = n \<Longrightarrow> X e (q', d')"
  shows "wp m Q X (q, d)"
  by (rule wp_mono, rule assms(1) [unfolded pres_def, rule_format]) (use assms(2-6) in auto)

lemma presI:
  assumes "\<And>q d. made T0 c R q (tabs d) \<Longrightarrow> wp m (\<lambda>_ s. made T0 c R' (fst s) (tabs (snd s)) \<and> saved (snd s) = saved d \<and> depth (snd s) = depth d)
     (\<lambda>e s. e \<noteq> Brk MCO_S_OK \<and> saved (snd s) = saved d \<and> depth (snd s) = depth d) (q, d)"
  shows "pres T0 c R R' m"
  using assms unfolding pres_def by blast

lemma pres_sq:
  assumes "pres T0 c R M m" and "pres T0 c M R' k"
  shows "pres T0 c R R' (sq m k)"
  by (rule presI, rule wp_sq, rule pres_wp [OF assms(1)], assumption, rule refl, rule refl, rule pres_wp [OF assms(2)]) auto

lemma pres_bnd:
  assumes "pres T0 c R M m" and "\<And>x. pres T0 c M R' (f x)"
  shows "pres T0 c R R' (bnd m f)"
  by (rule presI, rule wp_bnd, rule pres_wp [OF assms(1)], assumption, rule refl, rule refl, rule pres_wp [OF assms(2)]) auto

lemmas pres_seq = pres_sq [where M = R and R = R and R' = R for R] pres_bnd [where M = R and R = R and R' = R for R]

lemma pres_ret: "pres T0 c R R (ret x)"
  by (rule presI, rule wp_ret) simp

lemma pres_raise: "e \<noteq> Brk MCO_S_OK \<Longrightarrow> pres T0 c R R' (raise e)"
  by (rule presI, rule wp_raise) simp

lemma pres_assert: "pres T0 c R R (assert_c b)"
  by (rule presI, rule wp_assert_c) simp_all

lemma pres_n_fails: "pres T0 c R R (n_fails e)"
  unfolding n_fails_def by (rule presI, rule wp_set_obj) (simp add: made_def)

lemma pres_flags:
  "pres T0 c R R (set_obj (\<lambda>q. q\<lparr>n_AL := b\<rparr>))" "pres T0 c R R (set_obj (\<lambda>q. q\<lparr>n_DI := b\<rparr>))"
  "pres T0 c R R (set_obj (\<lambda>q. q\<lparr>n_AI := b\<rparr>))" "pres T0 c R R (set_obj (\<lambda>q. q\<lparr>n_passport_id := i\<rparr>))"
  by (rule presI, rule wp_set_obj, simp add: made_def)+

text \<open>A call that only reads.\<close>

lemma pres_read:
  assumes "obeys tabs saved depth call (reads P) F"
  shows "pres T0 c R R (db call)"
  by (rule presI, rule wp_db, rule wp_call [OF assms at_self]) (auto simp: view_def)

lemma pres_try_read:
  assumes "obeys tabs saved depth call (reads P) F"
  shows "pres T0 c R R (db_try call)"
  by (rule presI, rule wp_db_try, rule wp_call [OF assms at_self]) (auto simp: view_def)

lemma pres_own_put:
  assumes "\<And>h r. R h r \<Longrightarrow> point_fits x \<Longrightarrow> R' h (apply_point_put x r)" and "point_fits x \<or> R' = (\<lambda>_ _. True)"
  shows "pres T0 c R R' (own_put E x)"
  unfolding own_put_def
proof (rule presI, rule wp_bnd, rule wp_obj, rule wp_db, rule wp_call [OF pts.put at_self], goal_cases)
  case (1 q d y T' d')
  then obtain r r' where r: "points (tabs d) (n_point q) = Some r" "T' = tabs d\<lparr>points := (points (tabs d))(n_point q \<mapsto> r')\<rparr>"
    "point_fits x \<longrightarrow> r' = apply_point_put x r" by auto
  from 1(1) r(1) have "R (n_point q) r" by (auto simp: made_def)
  with assms r(3) have "R' (n_point q) r'" by auto
  from made_row [where R' = R', OF 1(1) r(1) this] r(2) 1 show ?case by (simp add: view_def)
qed (simp_all add: view_def)

lemma pres_pass_put:
  assumes "pass_fits c x"
  shows "pres T0 c R R (pass_row_put E c x)"
  unfolding pass_row_put_def
proof (rule presI, rule wp_bnd, rule wp_obj, rule wp_case_option, goal_cases)
  case (1 q d)
  then show ?case by (intro pres_wp [OF pres_read [OF unopened]]) auto
next
  case (2 q d k)
  show ?case
  proof (rule wp_db, rule wp_call [OF class_laws.put_fits [OF passport assms] at_self], goal_cases)
    case (1 y T' d')
    then obtain r where "passports (tabs d) c k = Some r"
      "T' = tabs d\<lparr>passports := (passports (tabs d))(c := (passports (tabs d) c)(k \<mapsto> apply_pass_put x r))\<rparr>" by auto
    with made_pass [OF 2 this(1) typed_put [OF _ assms]] 1 show ?case by (simp add: view_def)
  qed (simp_all add: view_def)
qed

end

section \<open>The functions of the attributes\<close>

text \<open>A text that a field of \<open>m\<close> characters holds.\<close>

definition fits_in :: "nat \<Rightarrow> string \<Rightarrow> bool" where
  "fits_in m v \<longleftrightarrow> length v \<le> m \<and> NUL \<notin> set v"

lemma first_chars_all: "length v < 256 \<Longrightarrow> 8 \<le> k \<Longrightarrow> first_chars k v = v"
proof -
  assume "length v < 256" "8 \<le> k"
  then have "length v < 2 ^ 8" "(2 :: nat) ^ 8 \<le> 2 ^ k" using power_increasing [of 8 k "2 :: nat"] by simp_all
  then have "length v < 2 ^ k" by linarith
  then show ?thesis by (simp add: first_chars_def)
qed

text \<open>
  The text of an attribute fits the field it is stored in: the short label that of the row, any other
  that of its name in the passport of the class.  Texts that are not stored as such (numbers, dates, links
  that are looked up or ignored) always do.
\<close>

definition text_fits :: "objclass_t \<Rightarrow> string \<times> string \<Rightarrow> bool" where
  "text_fits c x \<longleftrightarrow> (fst x = ''SHORTLABEL'' \<longrightarrow> fits_in 80 (snd x))
     \<and> (case map_of (pass_fields c) (fst x) of Some (TText m) \<Rightarrow> fits_in m (snd x) | _ \<Rightarrow> True)"

definition has_field :: "string \<Rightarrow> pass_type \<Rightarrow> objclass_t list \<Rightarrow> bool" where
  "has_field n t cs \<longleftrightarrow> list_all (\<lambda>c. map_of (pass_fields c) n = Some t) cs"

definition text_field :: "string \<Rightarrow> objclass_t list \<Rightarrow> bool" where
  "text_field n cs \<longleftrightarrow> list_all (\<lambda>c. case map_of (pass_fields c) n of Some (TText m) \<Rightarrow> m < 256 | _ \<Rightarrow> False) cs"

text \<open>The puts that leave the name, the class and the references of the row alone.\<close>

fun own_field :: "point_put \<Rightarrow> bool" where
  "own_field (PutTAG _) = False" | "own_field (PutOBJCLASS _) = False" | "own_field (PutSA_ref _) = False"
| "own_field (PutCE_ref _) = False" | "own_field (Put_hist_ref _) = False" | "own_field (Put_passport_ref _) = False"
| "own_field _ = True"

definition kept :: "(int \<Rightarrow> xdb_point \<Rightarrow> bool) \<Rightarrow> bool" where
  "kept R \<longleftrightarrow> (\<forall>x h r. R h r \<and> own_field x \<longrightarrow> R h (apply_point_put x r))"

lemma keptD: "kept R \<Longrightarrow> R h r \<Longrightarrow> own_field x \<Longrightarrow> R h (apply_point_put x r)"
  by (auto simp: kept_def)

context rtap_laws
begin

lemma pres_field:
  assumes "kept R" and "own_field x" and "point_fits x"
  shows "pres T0 c R R (own_put E x)"
  by (rule pres_own_put) (use assms keptD in auto)

lemma pres_passport_put:
  assumes "pi_objclass p = Some c" and "has_field n t cs" and "has_type v t"
  shows "pres T0 c R R (passport_put E p cs n v)"
proof -
  have "pass_fits c (PassPut n v)" if "c \<in> set cs"
    using that assms(2,3) by (auto simp: has_field_def list_all_iff)
  then show ?thesis by (simp add: passport_put_def assms(1) pres_raise pres_pass_put)
qed

lemma pres_passport_text:
  assumes "pi_objclass p = Some c" and "text_field n cs" and "text_fits c (n, v)" and "8 \<le> k"
  shows "pres T0 c R R (passport_put E p cs n (PText (first_chars k v)))"
proof -
  have "pass_fits c (PassPut n (PText (first_chars k v)))" if "c \<in> set cs"
  proof -
    from that assms(2) have "case map_of (pass_fields c) n of Some (TText m) \<Rightarrow> m < 256 | _ \<Rightarrow> False"
      by (simp add: text_field_def list_all_iff)
    then obtain m where m: "map_of (pass_fields c) n = Some (TText m)" "m < 256" by (auto split: option.splits pass_type.splits)
    with assms(3) have "fits_in m v" by (simp add: text_fits_def)
    with m first_chars_all [OF _ assms(4), of v] show ?thesis by (simp add: fits_in_def)
  qed
  then show ?thesis by (simp add: passport_put_def assms(1) pres_raise pres_pass_put)
qed

lemma pres_try_put:
  assumes "kept R" and "own_field x" and "point_fits x"
  shows "pres T0 c R R (rc_of (own_put E x))"
  unfolding own_put_def
proof (rule presI, rule wp_rc_of, rule wp_bnd, rule wp_obj, rule wp_db, rule wp_call [OF pts.put_fits [OF assms(3)] at_self], goal_cases)
  case (1 q d y T' d')
  then obtain r where r: "points (tabs d) (n_point q) = Some r"
    "T' = tabs d\<lparr>points := (points (tabs d))(n_point q \<mapsto> apply_point_put x r)\<rparr>" by auto
  from 1(1) r(1) have "R (n_point q) r" by (auto simp: made_def)
  from made_row [where R' = R, OF 1(1) r(1) keptD [OF assms(1) this assms(2)]] r(2) 1 show ?case by (simp add: view_def)
qed (simp_all add: view_def)

lemma pres_try_pass:
  assumes "pass_fits c x"
  shows "pres T0 c R R (rc_of (pass_row_put E c x))"
  unfolding pass_row_put_def
proof (rule presI, rule wp_rc_of, rule wp_bnd, rule wp_obj, rule wp_case_option, goal_cases)
  case (1 q d)
  show ?case by (rule wp_db, rule wp_call [OF unopened at_self]) (use 1 in \<open>auto simp: view_def\<close>)
next
  case (2 q d k)
  show ?case
  proof (rule wp_db, rule wp_call [OF class_laws.put_fits [OF passport assms] at_self], goal_cases)
    case (1 y T' d')
    then obtain r where "passports (tabs d) c k = Some r"
      "T' = tabs d\<lparr>passports := (passports (tabs d))(c := (passports (tabs d) c)(k \<mapsto> apply_pass_put x r))\<rparr>" by auto
    with made_pass [OF 2 this(1) typed_put [OF _ assms]] 1 show ?case by (simp add: view_def)
  qed (use 2 in \<open>simp_all add: view_def\<close>)
qed

lemma pres_on_obj_read:
  assumes "\<And>q. obeys tabs saved depth (f q) (reads (P q)) (F q)"
  shows "pres T0 c R R (bnd obj (\<lambda>q. db (f q)))"
  by (rule presI, rule wp_bnd, rule wp_obj, rule pres_wp [OF pres_read [OF assms]], assumption, rule refl, rule refl) auto

lemma pres_own_time:
  assumes "kept R" and "\<And>t. own_field (x t) \<and> point_fits (x t)"
  shows "pres T0 c R R (own_time E x t)"
  unfolding own_time_def put_time_def
  by (rule pres_seq(1), rule pres_on_obj_read [OF pts.access], intro pres_seq(2) pres_try_put [OF assms(1)] pres_ret) (use assms(2) in auto)

lemma pres_passport_time:
  assumes "pi_objclass p = Some c" and "has_field n TTime cs"
  shows "pres T0 c R R (passport_time E p cs n t)"
proof -
  have fits: "pass_fits c (PassPut n (PTime t))" if "c \<in> set cs" for t
    using that assms(2) by (auto simp: has_field_def list_all_iff)
  have "pres T0 c R R (pass_row_open E c)"
    unfolding pass_row_open_def
  proof (rule presI, rule wp_bnd, rule wp_obj, rule wp_case_option, goal_cases)
    case (1 q d)
    then show ?case by (intro pres_wp [OF pres_read [OF unopened]]) auto
  next
    case (2 q d k)
    then show ?case by (intro pres_wp [OF pres_read [OF class_laws.access [OF passport]]]) auto
  qed
  with fits show ?thesis
    unfolding passport_time_def put_time_def
    by (simp add: assms(1)) (intro conjI impI pres_raise pres_seq pres_try_pass pres_ret; simp)
qed

lemma pres_part_put:
  assumes "kept R" and "own_field x" and "point_fits x"
  shows "pres T0 c R R (ai_put E x)" "pres T0 c R R (di_put E x)" "pres T0 c R R (alarm_put E x)"
proof -
  have own: "pres T0 c R R (own_put E x)" by (rule pres_field [OF assms])
  have "pres T0 c R R (bnd obj (\<lambda>q. sq (assert_c (f q)) (own_put E x)))" for f
    by (rule presI, rule wp_bnd, rule wp_obj, rule pres_wp [OF pres_sq [OF pres_assert own]], assumption, rule refl, rule refl) auto
  then show "pres T0 c R R (ai_put E x)" "pres T0 c R R (di_put E x)" "pres T0 c R R (alarm_put E x)"
    by (simp_all add: ai_put_def di_put_def alarm_put_def)
qed

end

text \<open>Every function of the map.\<close>

lemmas pass_creators =
  createPREV_DISPATCHER_def createTYPE_def createL_EQTTYP_def createLOCALFLAG_def createMINVAL_def createMAXVAL_def
  createVALEX_def createALINHIB_def createMNVALPHY_def createMXVALPHY_def createDISPP_def createL_TL_def createL_TM_def
  createL_NETTYPE_def createL_NET_def createL_EQTORBORUPS_def createL_EQTORBORDWN_def createNMPRESSURE_def
  createKMREFUPS_def createKMREFDWN_def createSUPPLIERMODE_def createSUPPLIERSTATE_def createL_CONSUMER_def
  createL_CORRIDOR_def createPLANFLOW_def createPLANPRESSURE_def createFUNCTION_def createCONVERTCOEFF_def
  createGRADLEVEL_def createMXPRESSURE_def createNMFLOW_def createMXFLOW_def createDELEGABLE_def createFLGREMOTECMD_def
  createFLGMAINTENANCE_def createNAMEMAINTENANCE_def createTSSYNTHETICAL_def createL_TYPINFO_def createL_EQT_def
  createREMOTECONTROL_def createACTIONTYP_def createL_DIPL_def createALDEST_def createL_PIPE_def createL_PIPELINE_def
  createCONFREMOTECMD_def createSYNTHSTATE_def

lemmas own_creators =
  createSTATUS_def createSHORTLABEL_def createUNITY_def createLABEL_def createL_SA_def createVAL_LABEL_def
  createLINK_HIST_def createUNITYCATEG_def createVALID_def createVALIDACQ_def createVALIDCHANGE_def createINHIB_def
  createINHIBLOCAL_def createDATEHOURM_def createDATERTU_def createVAL_def createVALACQ_def createVALMANUAL_def
  createALARMBEGIN_def createALARMBEGINACK_def createALARMENDACK_def createALARMSYNTH_def

lemma impI_any: "B \<Longrightarrow> A \<longrightarrow> B"
  by simp

context rtap_laws
begin

lemma pres_unity:
  assumes "kept R"
  shows "pres T0 c R R (bnd (db (unityHash_find E s)) (\<lambda>u. bnd (db (unity_get E u)) (\<lambda>row. own_put E (PutUNITY_ID (un_unityID row)))))"
  by (intro pres_seq pres_bnd [where M = R] pres_read [OF unity_label] pres_read [OF unity_row] pres_field [OF assms]) simp_all

lemma pres_own:
  assumes "kept R"
  shows
  "pres T0 c R R (createSTATUS E L p v)" "pres T0 c R R (createUNITY E L p v)"
  "pres T0 c R R (createLABEL E L p v)" "pres T0 c R R (createL_SA E L p v)" "pres T0 c R R (createVAL_LABEL E L p v)"
  "pres T0 c R R (createLINK_HIST E L p v)" "pres T0 c R R (createUNITYCATEG E L p v)" "pres T0 c R R (createVALID E L p v)"
  "pres T0 c R R (createVALIDACQ E L p v)" "pres T0 c R R (createVALIDCHANGE E L p v)" "pres T0 c R R (createINHIB E L p v)"
  "pres T0 c R R (createINHIBLOCAL E L p v)" "pres T0 c R R (createDATEHOURM E L p v)" "pres T0 c R R (createDATERTU E L p v)"
  "pres T0 c R R (createVAL E L p v)" "pres T0 c R R (createVALACQ E L p v)" "pres T0 c R R (createVALMANUAL E L p v)"
  "pres T0 c R R (createALARMBEGIN E L p v)" "pres T0 c R R (createALARMBEGINACK E L p v)"
  "pres T0 c R R (createALARMENDACK E L p v)" "pres T0 c R R (createALARMSYNTH E L p v)"
  unfolding own_creators
  by (auto intro!: pres_field [OF assms] pres_ret pres_unity [OF assms] pres_own_time [OF assms] pres_part_put [OF assms] pres_raise)

lemma pres_shortlabel:
  assumes "kept R" and "text_fits c (''SHORTLABEL'', v)"
  shows "pres T0 c R R (createSHORTLABEL E L p v)"
proof -
  have "fits_in 80 v" using assms(2) by (simp add: text_fits_def)
  with first_chars_all [of v 16] show ?thesis
    unfolding createSHORTLABEL_def by (intro pres_field [OF assms(1)]) (simp_all add: fits_in_def)
qed

lemma short_imp: "kept R \<Longrightarrow> text_fits c (''SHORTLABEL'', v) \<longrightarrow> pres T0 c R R (createSHORTLABEL E L p v)"
  by (simp add: pres_shortlabel)

lemmas pass_rules = pres_passport_put [OF _ _ has_type.simps(1) [THEN iffD2, OF TrueI]]
  pres_passport_put [OF _ _ has_type.simps(2) [THEN iffD2, OF TrueI]] pres_passport_put [OF _ _ has_type.simps(3) [THEN iffD2, OF TrueI]]
  pres_passport_put [OF _ _ has_type.simps(4) [THEN iffD2, OF TrueI]] pres_passport_put [OF _ _ has_type.simps(6) [THEN iffD2, OF TrueI]]
  pres_passport_put [OF _ _ has_type.simps(7) [THEN iffD2, OF TrueI]] pres_passport_put [OF _ _ has_type.simps(8) [THEN iffD2, OF TrueI]]

lemma pass_text:
  assumes "pi_objclass p = Some c" and "text_field n cs" and "8 \<le> k"
  shows "text_fits c (n, v) \<longrightarrow> pres T0 c R R (passport_put E p cs n (PText (first_chars k v)))"
  using assms by (intro impI pres_passport_text)

lemma pres_pass:
  assumes "pi_objclass p = Some c"
  shows
  "text_fits c (''PREV_DISPATCHER'', v) \<longrightarrow> pres T0 c R R (createPREV_DISPATCHER E L p v)" "text_fits c (''TYPE'', v) \<longrightarrow> pres T0 c R R (createTYPE E L p v)"
  "text_fits c (''L_EQTTYP'', v) \<longrightarrow> pres T0 c R R (createL_EQTTYP E L p v)" "text_fits c (''LOCALFLAG'', v) \<longrightarrow> pres T0 c R R (createLOCALFLAG E L p v)"
  "text_fits c (''MINVAL'', v) \<longrightarrow> pres T0 c R R (createMINVAL E L p v)" "text_fits c (''MAXVAL'', v) \<longrightarrow> pres T0 c R R (createMAXVAL E L p v)"
  "text_fits c (''VALEX'', v) \<longrightarrow> pres T0 c R R (createVALEX E L p v)" "text_fits c (''ALINHIB'', v) \<longrightarrow> pres T0 c R R (createALINHIB E L p v)"
  "text_fits c (''MNVALPHY'', v) \<longrightarrow> pres T0 c R R (createMNVALPHY E L p v)" "text_fits c (''MXVALPHY'', v) \<longrightarrow> pres T0 c R R (createMXVALPHY E L p v)"
  "text_fits c (''DISPP'', v) \<longrightarrow> pres T0 c R R (createDISPP E L p v)" "text_fits c (''L_TL'', v) \<longrightarrow> pres T0 c R R (createL_TL E L p v)"
  "text_fits c (''L_TM'', v) \<longrightarrow> pres T0 c R R (createL_TM E L p v)" "text_fits c (''L_NETTYPE'', v) \<longrightarrow> pres T0 c R R (createL_NETTYPE E L p v)"
  "text_fits c (''L_NET'', v) \<longrightarrow> pres T0 c R R (createL_NET E L p v)" "text_fits c (''L_EQTORBORUPS'', v) \<longrightarrow> pres T0 c R R (createL_EQTORBORUPS E L p v)"
  "text_fits c (''L_EQTORBORDWN'', v) \<longrightarrow> pres T0 c R R (createL_EQTORBORDWN E L p v)" "text_fits c (''NMPRESSURE'', v) \<longrightarrow> pres T0 c R R (createNMPRESSURE E L p v)"
  "text_fits c (''KMREFUPS'', v) \<longrightarrow> pres T0 c R R (createKMREFUPS E L p v)" "text_fits c (''KMREFDWN'', v) \<longrightarrow> pres T0 c R R (createKMREFDWN E L p v)"
  "text_fits c (''SUPPLIERMODE'', v) \<longrightarrow> pres T0 c R R (createSUPPLIERMODE E L p v)" "text_fits c (''SUPPLIERSTATE'', v) \<longrightarrow> pres T0 c R R (createSUPPLIERSTATE E L p v)"
  "text_fits c (''L_CONSUMER'', v) \<longrightarrow> pres T0 c R R (createL_CONSUMER E L p v)" "text_fits c (''L_CORRIDOR'', v) \<longrightarrow> pres T0 c R R (createL_CORRIDOR E L p v)"
  "text_fits c (''PLANFLOW'', v) \<longrightarrow> pres T0 c R R (createPLANFLOW E L p v)" "text_fits c (''PLANPRESSURE'', v) \<longrightarrow> pres T0 c R R (createPLANPRESSURE E L p v)"
  "text_fits c (''FUNCTION'', v) \<longrightarrow> pres T0 c R R (createFUNCTION E L p v)" "text_fits c (''CONVERTCOEFF'', v) \<longrightarrow> pres T0 c R R (createCONVERTCOEFF E L p v)"
  "text_fits c (''GRADLEVEL'', v) \<longrightarrow> pres T0 c R R (createGRADLEVEL E L p v)" "text_fits c (''MXPRESSURE'', v) \<longrightarrow> pres T0 c R R (createMXPRESSURE E L p v)"
  "text_fits c (''NMFLOW'', v) \<longrightarrow> pres T0 c R R (createNMFLOW E L p v)" "text_fits c (''MXFLOW'', v) \<longrightarrow> pres T0 c R R (createMXFLOW E L p v)"
  "text_fits c (''DELEGABLE'', v) \<longrightarrow> pres T0 c R R (createDELEGABLE E L p v)" "text_fits c (''FLGREMOTECMD'', v) \<longrightarrow> pres T0 c R R (createFLGREMOTECMD E L p v)"
  "text_fits c (''FLGMAINTENANCE'', v) \<longrightarrow> pres T0 c R R (createFLGMAINTENANCE E L p v)" "text_fits c (''NAMEMAINTENANCE'', v) \<longrightarrow> pres T0 c R R (createNAMEMAINTENANCE E L p v)"
  "text_fits c (''TSSYNTHETICAL'', v) \<longrightarrow> pres T0 c R R (createTSSYNTHETICAL E L p v)" "text_fits c (''L_TYPINFO'', v) \<longrightarrow> pres T0 c R R (createL_TYPINFO E L p v)"
  "text_fits c (''L_EQT'', v) \<longrightarrow> pres T0 c R R (createL_EQT E L p v)" "text_fits c (''REMOTECONTROL'', v) \<longrightarrow> pres T0 c R R (createREMOTECONTROL E L p v)"
  "text_fits c (''ACTIONTYP'', v) \<longrightarrow> pres T0 c R R (createACTIONTYP E L p v)" "text_fits c (''L_DIPL'', v) \<longrightarrow> pres T0 c R R (createL_DIPL E L p v)"
  "text_fits c (''ALDEST'', v) \<longrightarrow> pres T0 c R R (createALDEST E L p v)" "text_fits c (''L_PIPE'', v) \<longrightarrow> pres T0 c R R (createL_PIPE E L p v)"
  "text_fits c (''L_PIPELINE'', v) \<longrightarrow> pres T0 c R R (createL_PIPELINE E L p v)" "text_fits c (''CONFREMOTECMD'', v) \<longrightarrow> pres T0 c R R (createCONFREMOTECMD E L p v)"
  "text_fits c (''SYNTHSTATE'', v) \<longrightarrow> pres T0 c R R (createSYNTHSTATE E L p v)"
  unfolding pass_creators
  by (rule pass_rules [THEN impI_any] pass_text, rule assms(1), code_simp, simp?)+

lemma pres_odd:
  assumes "pi_objclass p = Some c"
  shows "text_fits c (''SUPPLIER'', v) \<longrightarrow> pres T0 c R R (createSUPPLIER E L p v)" "pres T0 c R R (createCURRENT_SHIFT_TIME E L p v)"
    "pres T0 c R R (createPREV_SHIFT_TIME E L p v)" "pres T0 c R R (createDATEAINS E L p v)"
proof -
  have "text_field ''SUPPLIER'' [AUX2]" "has_field ''CURRENT_SHIFT_TIME'' TTime [SITE]" "has_field ''PREV_SHIFT_TIME'' TTime [SITE]"
    "has_field ''DATEAINS'' TTime [VA, GRC, AUX1, AUX2]"
    by code_simp+
  then show "text_fits c (''SUPPLIER'', v) \<longrightarrow> pres T0 c R R (createSUPPLIER E L p v)" "pres T0 c R R (createCURRENT_SHIFT_TIME E L p v)"
    "pres T0 c R R (createPREV_SHIFT_TIME E L p v)" "pres T0 c R R (createDATEAINS E L p v)"
    unfolding createSUPPLIER_def createCURRENT_SHIFT_TIME_def createPREV_SHIFT_TIME_def createDATEAINS_def
    using pres_passport_time [OF assms(1)] pass_text [OF assms(1), where k = 16]
    by (simp_all add: pres_raise)
qed

end

section \<open>Creating a point\<close>

text \<open>Every text of a description that is stored fits its field in the schema.\<close>

definition info_fits :: "objclass_t \<Rightarrow> point_info \<Rightarrow> bool" where
  "info_fits c p \<longleftrightarrow> fits_in 32 (pi_tag p) \<and> (\<forall>x \<in> set (pi_attributes p). text_fits c x)"

definition anything :: "int \<Rightarrow> xdb_point \<Rightarrow> bool" where
  "anything h r \<longleftrightarrow> True"

definition named :: "point_info \<Rightarrow> int \<Rightarrow> xdb_point \<Rightarrow> bool" where
  "named p h r \<longleftrightarrow> p_TAG r = pi_tag p \<and> Some (p_OBJCLASS r) = pi_objclass p"

text \<open>A point whose references are its own id, its passport's apart.\<close>

definition settled_row :: "bool \<Rightarrow> point_info \<Rightarrow> int \<Rightarrow> xdb_point \<Rightarrow> bool" where
  "settled_row rel p h r \<longleftrightarrow> named p h r \<and> (rel \<longrightarrow> p_CE_ref r = h \<and> p_SA_ref r = h \<and> p_hist_ref r = h)"

lemma own_field_keeps:
  assumes "own_field x"
  shows "p_TAG (apply_point_put x r) = p_TAG r" "p_OBJCLASS (apply_point_put x r) = p_OBJCLASS r"
  using assms by (cases x; simp)+

lemma kept_named: "kept (named p)"
  by (simp add: kept_def named_def own_field_keeps)

lemma kept_anything: "kept anything"
  by (simp add: kept_def anything_def)

lemma creator_cases:
  assumes "attr_creating_func E L p n = Some f"
  shows "(n, f) \<in> set (creators E L p)"
  using assms by (simp add: attr_creating_func_def map_of_SomeD)

context rtap_laws
begin

lemma pres_creators:
  assumes "pi_objclass p = Some c" and "kept R"
  shows "list_all (\<lambda>(n, f). text_fits c (n, v) \<longrightarrow> pres T0 c R R (f v)) (creators E L p)"
  unfolding creators_def list.pred_inject prod.case
  by (intro conjI list.pred_inject(1) pres_pass [OF assms(1)] pres_own [OF assms(2), THEN impI_any]
      pres_odd(1) [OF assms(1)] pres_odd(2-4) [OF assms(1), THEN impI_any] short_imp [OF assms(2)])

lemma pres_attributes:
  assumes "pi_objclass p = Some c" and "\<forall>x \<in> set xs. text_fits c x" and "kept R"
  shows "pres T0 c R R (create_attributes E L p xs)"
  using assms(2)
proof (induction xs)
  case Nil
  then show ?case by (simp add: pres_ret)
next
  case (Cons x xs)
  obtain n v where x: "x = (n, v)" by (cases x)
  have "pres T0 c R R (f v)" if "attr_creating_func E L p n = Some f" for f
    using pres_creators [OF assms(1,3), of v T0 L] creator_cases [OF that] Cons.prems by (auto simp: list_all_iff x)
  then have "pres T0 c R R (case attr_creating_func E L p n of None \<Rightarrow> n_fails rtE_ATTR_NOT_FOUND | Some f \<Rightarrow> f v)"
    by (cases "attr_creating_func E L p n") (simp_all add: pres_n_fails)
  with Cons show ?case by (simp add: x pres_seq)
qed

lemma pres_named:
  assumes "pi_objclass p = Some c" and "fits_in 32 (pi_tag p)"
  shows "pres T0 c anything (named p) (sq (createTAG E p) (createOBJCLASS E p))"
proof (rule pres_sq)
  show "pres T0 c anything (\<lambda>h r. p_TAG r = pi_tag p) (createTAG E p)"
    unfolding createTAG_def
    by (rule pres_own_put) (use assms(2) first_chars_all [of "pi_tag p" 16] in \<open>auto simp: fits_in_def\<close>)
  show "pres T0 c (\<lambda>h r. p_TAG r = pi_tag p) (named p) (createOBJCLASS E p)"
    unfolding createOBJCLASS_def assms(1) option.case by (rule pres_own_put) (auto simp: named_def assms(1))
qed

text \<open>A step that may fail where failures are possible, and then leaves a row with \<open>Q\<close>.\<close>

definition slips ::
  "rt_tables \<Rightarrow> objclass_t \<Rightarrow> (int \<Rightarrow> xdb_point \<Rightarrow> bool) \<Rightarrow> (int \<Rightarrow> xdb_point \<Rightarrow> bool) \<Rightarrow> (int \<Rightarrow> xdb_point \<Rightarrow> bool)
   \<Rightarrow> (new_point, 'd, 'a) step \<Rightarrow> bool" where
  "slips T0 c Q R R' m \<longleftrightarrow> (\<forall>S n q d. made T0 c R q (tabs d) \<and> saved d = S \<and> depth d = n \<longrightarrow>
     wp m (\<lambda>_ s. made T0 c R' (fst s) (tabs (snd s)) \<and> saved (snd s) = S \<and> depth (snd s) = n)
          (\<lambda>e s. (\<exists>rc. e = Brk rc) \<and> \<not> reliable \<and> made T0 c Q (fst s) (tabs (snd s)) \<and> saved (snd s) = S \<and> depth (snd s) = n) (q, d))"

lemma slips_wp:
  assumes "slips T0 c Q R R' m" and "made T0 c R q (tabs d)" and "saved d = S" and "depth d = n"
    and "\<And>x q' d'. made T0 c R' q' (tabs d') \<Longrightarrow> saved d' = S \<Longrightarrow> depth d' = n \<Longrightarrow> P x (q', d')"
    and "\<And>rc q' d'. \<not> reliable \<Longrightarrow> made T0 c Q q' (tabs d') \<Longrightarrow> saved d' = S \<Longrightarrow> depth d' = n \<Longrightarrow> X (Brk rc) (q', d')"
  shows "wp m P X (q, d)"
  by (rule wp_mono, rule assms(1) [unfolded slips_def, rule_format]) (use assms(2-6) in auto)

lemma slips_sq:
  assumes "slips T0 c Q R M m" and "slips T0 c Q M R' k"
  shows "slips T0 c Q R R' (sq m k)"
  unfolding slips_def
  by (intro allI impI, elim conjE, rule wp_sq, rule slips_wp [OF assms(1)], assumption+, rule slips_wp [OF assms(2)], assumption+) auto

lemma slips_put:
  assumes "\<And>h r. R h r \<Longrightarrow> Q h r \<and> R' h (apply_point_put x r)" and "point_fits x"
  shows "slips T0 c Q R R' (own_put E x)"
  unfolding slips_def own_put_def
proof (intro allI impI wp_bnd wp_obj, elim conjE, rule wp_db, rule wp_call [OF pts.put_fits [OF assms(2)] at_self], goal_cases)
  case (1 S n q d y T' d')
  then obtain r where r: "points (tabs d) (n_point q) = Some r"
    "T' = tabs d\<lparr>points := (points (tabs d))(n_point q \<mapsto> apply_point_put x r)\<rparr>" by auto
  from 1(1) r(1) have "R (n_point q) r" by (auto simp: made_def)
  with assms(1) have "R' (n_point q) (apply_point_put x r)" by blast
  from made_row [where R' = R', OF 1(1) r(1) this] r(2) 1 show ?case by (simp add: view_def)
next
  case (2 S n q d rc d')
  with assms(1) show ?case by (auto simp: view_def made_def)
qed

text \<open>The references; a failure among them is not noticed.\<close>

lemma pres_references:
  "pres T0 c (named p) (settled_row reliable p) (bnd (rc_of (update_references E)) (\<lambda>_. ret ()))"
proof (rule presI, intro wp_bnd wp_rc_of, goal_cases)
  case (1 q d)
  define i where "i = n_point q"
  have id: "n_id q = i" using 1 by (simp add: made_def i_def)
  have start: "made T0 c (\<lambda>h r. named p h r \<and> h = i) q (tabs d)" using 1 by (auto simp: made_def i_def)
  have steps: "slips T0 c (named p) (\<lambda>h r. named p h r \<and> h = i) (\<lambda>h r. settled_row True p h r)
      (sq (own_put E (Put_passport_ref (n_passport_id q))) (sq (own_put E (PutCE_ref i)) (sq (own_put E (PutSA_ref i)) (own_put E (Put_hist_ref i)))))"
    by (rule slips_sq [where M = "\<lambda>h r. named p h r \<and> h = i"], rule slips_put, simp_all add: named_def,
        rule slips_sq [where M = "\<lambda>h r. named p h r \<and> h = i \<and> p_CE_ref r = i"], rule slips_put, simp_all add: named_def,
        rule slips_sq [where M = "\<lambda>h r. named p h r \<and> h = i \<and> p_CE_ref r = i \<and> p_SA_ref r = i"], rule slips_put, simp_all add: named_def,
        rule slips_put) (auto simp: settled_row_def named_def)
  show ?case
    unfolding update_references_def
    by (rule wp_bnd, rule wp_obj, simp only: id, rule wp_mono, rule steps [unfolded slips_def, rule_format], use start in simp)
      (auto simp: settled_row_def made_def intro!: wp_ret split: exc.splits)
qed

end

context rtap_laws
begin

lemma pres_createPoint:
  assumes "pi_objclass p = Some c" and "info_fits c p"
  shows "pres T0 c anything (settled_row reliable p) (createPoint E L p)"
proof -
  have assoc: "pres T0 c anything (settled_row reliable p)
      (sq (sq (createTAG E p) (createOBJCLASS E p)) (sq (create_attributes E L p (pi_attributes p))
        (sq (bnd (rc_of (update_references E)) (\<lambda>_. ret ())) (sq (db (checkpoint E)) (n_fails rtE_NONE)))))"
    by (rule pres_sq, rule pres_named [OF assms(1)], use assms(2) in \<open>simp add: info_fits_def\<close>,
        rule pres_sq, rule pres_attributes [OF assms(1) _ kept_named], use assms(2) in \<open>simp add: info_fits_def\<close>,
        rule pres_sq, rule pres_references, rule pres_seq(1), rule pres_read [OF checkpoint], rule pres_n_fails)
  have "sq (sq a b) k = sq a (sq b k)" for a :: "'d make_step" and b k :: "'d make_step"
    by (rule ext) (simp add: sq_def bnd_def split: prod.splits sum.splits)
  with assoc show ?thesis
    unfolding createPoint_def by (simp add: pres_sq [OF pres_n_fails])
qed

lemma pres_assign_parts: "pres T0 c anything anything (assign_parts E oc)"
proof -
  have part: "pres T0 c anything anything (assign_alarm E)" "pres T0 c anything anything (assign_di E)"
    "pres T0 c anything anything (assign_ai E)"
    unfolding assign_alarm_def assign_di_def assign_ai_def
    by (intro pres_seq(1) pres_field kept_anything pres_flags; simp)+
  show ?thesis
    unfolding assign_parts_def by (auto intro!: pres_seq(1) part pres_ret split: option.splits)
qed

lemma made_new_passport:
  assumes "made T0 c R q T" and "passports T c k = None"
  shows "made T0 c R (q\<lparr>n_passport := Some k\<rparr>) (T\<lparr>passports := (passports T)(c := (passports T c)(k \<mapsto> new_passport c))\<rparr>)"
proof -
  have "all_typed (T\<lparr>passports := (passports T)(c := (passports T c)(k \<mapsto> new_passport c))\<rparr>)" if "all_typed T"
    using that by (auto simp: all_typed_def new_passport_typed)
  moreover have "passports T0 c k = None"
    using assms by (cases "passports T0 c k") (auto simp: made_def grows_def)
  ultimately show ?thesis using assms by (auto simp: made_def grows_def)
qed

lemma pres_createPassport:
  assumes "pi_objclass p = Some c"
  shows "pres T0 c anything anything (createPassport E p)"
proof -
  have "pres T0 c anything anything (make_passport E c)"
    unfolding make_passport_def
  proof (rule presI, rule wp_bnd, rule wp_db_try, rule wp_call [OF class_laws.create [OF passport] at_self], goal_cases)
    case (1 q d k T' d')
    then have "made T0 c anything (q\<lparr>n_passport := Some k\<rparr>) (tabs d')" "saved d' = saved d" "depth d' = depth d"
      using made_new_passport [OF 1(1)] by (auto simp: view_def)
    then show ?case
      by (intro decided wp_sq wp_set_obj)
        (rule pres_wp [OF pres_bnd [OF pres_read [OF class_laws.autoid_get [OF passport]] pres_flags(4)]]; simp)
  next
    case (2 q d rc d')
    then have "made T0 c anything q (tabs d')" "saved d' = saved d" "depth d' = depth d" by (auto simp: view_def)
    then show ?case by (intro decided) (rule pres_wp [OF pres_read [OF unopened]]; simp)
  qed
  then show ?thesis by (simp add: createPassport_def assms pres_ret)
qed

lemma wp_create_instance:
  assumes "at T0 S n d" and "n_passport q = None"
  shows "wp (create_instance E p)
     (\<lambda>_ s. made T0 c anything (fst s) (tabs (snd s)) \<and> saved (snd s) = S \<and> depth (snd s) = n)
     (\<lambda>e s. e \<noteq> Brk MCO_S_OK \<and> saved (snd s) = S \<and> depth (snd s) = n) (q, d)"
  unfolding create_instance_def
proof (rule wp_bnd, rule wp_db, rule wp_call [OF pts.create assms(1)], goal_cases)
  case (1 h T' d1)
  show ?case
  proof (intro wp_sq wp_set_obj wp_bnd, rule wp_db, rule wp_call [OF pts.autoid_get 1(2)], goal_cases)
    case (1 i T'' d2)
    with \<open>T' = _ \<and> _\<close> assms(2)
    have "made T0 c anything (q\<lparr>n_point := h, n_id := i, n_passport_id := i\<rparr>) (tabs d2)" "saved d2 = S" "depth d2 = n"
      by (auto simp: made_def grows_def anything_def view_def all_typed_def)
    then show ?case
      by (intro wp_sq wp_set_obj) (rule pres_wp [OF pres_assign_parts]; simp)
  qed (simp add: view_def)
qed (simp add: view_def)

end

text \<open>What a whole creation leaves: the tables as they were, or one more point.\<close>

definition outcome :: "(rt_tables \<Rightarrow> bool) \<Rightarrow> ErrorCode_t \<Rightarrow> rt_tables \<Rightarrow> rt_tables \<Rightarrow> bool" where
  "outcome P e T0 T \<longleftrightarrow> T = T0 \<or> e = rtE_NONE \<and> P T"

definition new_point_in :: "bool \<Rightarrow> point_info \<Rightarrow> rt_tables \<Rightarrow> rt_tables \<Rightarrow> bool" where
  "new_point_in rel p T0 T \<longleftrightarrow> (\<exists>h r. grows T0 h T \<and> points T h = Some r \<and> settled_row rel p h r)"

context rtap_laws
begin

lemma rolled_back:
  assumes "saved d = T0" and "depth d = 1"
  shows "at T0 T0 0 (snd (rtap_rollback E True d))"
  using rollback [of d] assms by (simp add: view_def)

lemma wp_create:
  assumes "at T0 T0 0 d" and "pi_objclass p = Some c" and "info_fits c p" and "n_passport q = None" and "rt_keys_ok T0"
  shows "wp (rt_txn E MCO_READ_WRITE (create_steps E L p))
     (\<lambda>rc s. \<exists>T. at T T 0 (snd s) \<and> rt_keys_ok T \<and> (all_typed T0 \<longrightarrow> all_typed T) \<and> outcome (new_point_in reliable p T0) (n_error (fst s)) T0 T)
     (\<lambda>_ _. True) (q, d)" (is "wp _ ?Q _ _")
proof (rule wp_rt_txn, simp only: fst_conv snd_conv, rule wp_mono [OF start [where d = d]], goal_cases)
  case (1 u d1)
  with assms(1) have d1: "at T0 T0 1 d1" by (simp add: view_def)
  let ?X = "\<lambda>e s'. case e of Crash f \<Rightarrow> True
            | Brk rc \<Rightarrow> if rc = MCO_S_OK then ?Q MCO_S_OK s' else ?Q rc (fst s', snd (rtap_rollback E True (snd s')))"
  have undone: "\<exists>T. at T T 0 (snd (rtap_rollback E True d')) \<and> rt_keys_ok T \<and> (all_typed T0 \<longrightarrow> all_typed T)
      \<and> outcome (new_point_in reliable p T0) e T0 T" if "saved d' = T0" "depth d' = 1" for e d'
    using rolled_back [OF that] assms(5) by (auto simp: outcome_def)
  let ?made = "\<lambda>s. made T0 c (settled_row reliable p) (fst s) (tabs (snd s)) \<and> saved (snd s) = T0 \<and> depth (snd s) = 1"
  have body: "wp (sq (create_instance E p) (sq (createPassport E p) (createPoint E L p))) (\<lambda>_. ?made)
      (\<lambda>e s. e \<noteq> Brk MCO_S_OK \<and> saved (snd s) = T0 \<and> depth (snd s) = 1) (q, d1)"
  proof (rule wp_sq, rule wp_mono [OF wp_create_instance [OF d1 assms(4), where c = c]], goal_cases)
    case (1 u s)
    then show ?case
      by (cases s, simp only: fst_conv snd_conv) (rule pres_wp [OF pres_sq [OF pres_createPassport [OF assms(2)] pres_createPoint [OF assms(2,3)]]], auto)
  qed simp
  have final: "wp (bnd (db_try (rtap_commit E)) (\<lambda>r. sq (n_fails rtE_NONE) (case r of Inl rc \<Rightarrow> raise (Brk rc) | Inr _ \<Rightarrow> ret ())))
      (\<lambda>_. ?Q MCO_S_OK) ?X (q', d2)" if "?made (q', d2)" for q' d2
    unfolding n_fails_def
  proof (rule wp_bnd, rule wp_db_try, rule wp_mono [OF commit [of d2]], goal_cases)
    case (1 u d3)
    with that have "at (tabs d3) (tabs d3) 0 d3" "rt_keys_ok (tabs d3)" "made T0 c (settled_row reliable p) q' (tabs d3)"
      by (auto simp: view_def)
    then show ?case
      by (intro decided wp_sq wp_set_obj wp_ret) (auto simp: outcome_def new_point_in_def made_def)
  next
    case (2 rc d3)
    with that have "saved d3 = T0" "depth d3 = 1" "rc \<noteq> MCO_S_OK" by (auto simp: view_def)
    with undone [OF this(1,2)] show ?case by (intro decided wp_sq wp_set_obj wp_raise) simp
  qed
  have assoc: "create_steps E L p = sq (sq (create_instance E p) (sq (createPassport E p) (createPoint E L p)))
      (bnd (db_try (rtap_commit E)) (\<lambda>r. sq (n_fails rtE_NONE) (case r of Inl rc \<Rightarrow> raise (Brk rc) | Inr _ \<Rightarrow> ret ())))"
    unfolding create_steps_def by (rule ext) (simp add: sq_def bnd_def split: prod.splits sum.splits)
  show ?case
    unfolding assoc
  proof (rule wp_sq, rule wp_mono [OF body], goal_cases)
    case (1 u s)
    show ?case
      by (rule wp_mono [OF final [of "fst s" "snd s", unfolded prod.collapse]])
        (use 1 in \<open>auto split: exc.splits if_splits\<close>)
  next
    case (2 e s)
    with undone [of "snd s"] show ?case by (cases e) simp_all
  qed
next
  case (2 rc d1)
  with assms(1,5) rollback_unopened [of d1] show ?case by (auto simp: view_def outcome_def)
qed

end

section \<open>Properties of creation\<close>

lemma point_outcome:
  assumes "rtap_laws E tabs saved depth rel" and "at_rest tabs saved depth d" and "pi_objclass p = Some c" and "info_fits c p"
    and "create_point E L state p d = (Inr e, d')"
  shows "at_rest tabs saved depth d' \<and> (all_typed (tabs d) \<longrightarrow> all_typed (tabs d'))
     \<and> outcome (new_point_in rel p (tabs d)) e (tabs d) (tabs d')"
proof -
  let ?q = "blank_point rtE_RUNTIME_ERROR"
  have keys: "rt_keys_ok (tabs d)" using assms(2) by (simp add: at_rest_def)
  from assms(5) obtain rc q' where run: "rt_txn E MCO_READ_WRITE (create_steps E L p) (?q, d) = (Inr rc, (q', d'))" "e = n_error q'"
    by (auto simp: create_point_def split: if_splits prod.splits sum.splits)
  have "n_passport ?q = None" by (simp add: blank_point_def)
  from wp_okD [OF rtap_laws.wp_create [OF assms(1) at_rest_at [OF assms(2)] assms(3,4) this keys] run(1)] obtain T where
    "view tabs saved depth T T 0 d'" "rt_keys_ok T" "all_typed (tabs d) \<longrightarrow> all_typed T" "outcome (new_point_in rel p (tabs d)) e (tabs d) T"
    by (auto simp: run(2))
  note T = this
  from at_at_rest [OF T(1,2)] T(3,4) show ?thesis by auto
qed

text \<open>A measurement for an empty database, with an attribute of its own, one of its passport and an unknown one.\<close>

definition some_clib :: clib where
  "some_clib = \<lparr>atof = (\<lambda>s. of_nat (length s)), strptime_sec = (\<lambda>_. 0)\<rparr>"

definition new_measurement :: point_info where
  "new_measurement = \<lparr>pi_tag = ''N'', pi_objclass = Some TM,
     pi_attributes = [(''SHORTLABEL'', ''n''), (''LABEL'', ''A label of more than thirty-two characters''),
       (''MNVALPHY'', ''2''), (''NOPE'', '''')]\<rparr>"

definition bare :: rt_mem where
  "bare = mem_with \<lparr>c_points = [], c_stats = [], c_items = [], c_pass = (\<lambda>_. []), c_units = [], c_labels = [], c_macros = []\<rparr>"

lemma new_measurement_plain [simp]: "info_fits TM new_measurement" "pi_objclass new_measurement = Some TM" "pi_tag new_measurement = ''N''"
  by (simp_all add: info_fits_def new_measurement_def text_fits_def fits_in_def NUL_def)

lemma bare_at_rest [simp]: "at_rest rt_mem_tabs rt_mem_saved mem_depth bare"
  using rt_mem_keys [of bare]
  by (simp add: at_rest_def rt_mem_saved_def rt_mem_tabs_def mem_depth_def bare_def mem_with_def rt_contents_keys_ok_def keys_distinct_def)

lemma bare_typed [simp]: "all_typed (rt_mem_tabs bare)"
  by (simp add: all_typed_def bare_def mem_with_def)

lemma creators_found:
  "attr_creating_func E L p ''SHORTLABEL'' = Some (createSHORTLABEL E L p)"
  "attr_creating_func E L p ''MNVALPHY'' = Some (createMNVALPHY E L p)"
  "attr_creating_func E L p ''LABEL'' = Some (createLABEL E L p)"
  "attr_creating_func E L p ''NOPE'' = None"
  by (simp_all add: attr_creating_func_def creators_def)


lemma mem_points_sel:
  "c_create (XDBPoint rt_mem_env) m = (Inr (fresh_id (c_points (m_cur m))),
     m\<lparr>m_cur := (m_cur m)\<lparr>c_points := AList.update (fresh_id (c_points (m_cur m))) new_point_row (c_points (m_cur m))\<rparr>\<rparr>)"
  "c_autoid_get (XDBPoint rt_mem_env) h m = (Inr h, m)"
  "c_put (XDBPoint rt_mem_env) x h m = edits (\<lambda>m. c_points (m_cur m)) (\<lambda>xs m. m\<lparr>m_cur := (m_cur m)\<lparr>c_points := xs\<rparr>\<rparr>) h (upd_row h (apply_point_put x)) m"
  by (simp_all add: rt_mem_env_def mem_class_def looks_def mem_answer_def Let_def)

lemma mem_pass_sel:
  "c_create (PASSPORT rt_mem_env k) m = (Inr (fresh_id (c_pass (m_cur m) k)),
     m\<lparr>m_cur := (m_cur m)\<lparr>c_pass := (c_pass (m_cur m))(k := AList.update (fresh_id (c_pass (m_cur m) k)) (new_passport k) (c_pass (m_cur m) k))\<rparr>\<rparr>)"
  "c_autoid_get (PASSPORT rt_mem_env k) h m = (Inr h, m)"
  "c_put (PASSPORT rt_mem_env k) x h m = edits (\<lambda>m. c_pass (m_cur m) k)
     (\<lambda>xs m. m\<lparr>m_cur := (m_cur m)\<lparr>c_pass := (c_pass (m_cur m))(k := xs)\<rparr>\<rparr>) h (upd_row h (apply_pass_put x)) m"
  by (simp_all add: rt_mem_env_def mem_class_def looks_def mem_answer_def Let_def)

lemma mem_rest_sel:
  "rtap_start rt_mem_env md = mem_start" "rtap_commit rt_mem_env = mem_commit rt_contents_keys_ok"
  "checkpoint rt_mem_env = looks (\<lambda>m. if rt_contents_keys_ok (m_cur m) then Some () else None) MCO_S_DUPLICATE"
  by (simp_all add: rt_mem_env_def)

lemmas mem_run = mem_points_sel mem_pass_sel mem_rest_sel edits_def looks_def mem_answer_def mem_start_def mem_commit_def
  upd_row_def fresh_id_def rt_contents_keys_ok_def keys_distinct_def

lemmas create_run = create_point_def rt_txn_def create_steps_def create_instance_def assign_parts_def assign_alarm_def assign_ai_def
  own_put_def createPassport_def make_passport_def createPoint_def createTAG_def createOBJCLASS_def update_references_def
  n_fails_def blank_point_def prog_defs db_def db_try_def rc_of_def obj_def set_obj_def first_chars_def


lemma new_measurement_run:
  obtains d r where "create_point rt_mem_env some_clib DB_STATE_CONNECTED new_measurement bare = (Inr rtE_NONE, d)"
    "c_points (m_cur d) = [(1, r)]" "p_SHORTLABEL r = ''n''" "c_pass (m_cur d) TM \<noteq> []"
  using that
  by (simp add: mem_run create_run new_measurement_def bare_def mem_with_def creators_found createSHORTLABEL_def createLABEL_def createMNVALPHY_def
      passport_put_def pass_row_put_def)

lemma one_more_point: "c_points (m_cur d) = [(1, r)] \<Longrightarrow> rt_mem_tabs d \<noteq> rt_mem_tabs bare"
  by (auto dest!: arg_cong [where f = "\<lambda>T. points T 1"] simp: bare_def mem_with_def)

text \<open>C15. On any engine, whatever fails: creating a point of a known class is all or nothing, when the texts
  that are stored fit their fields (\<open>info_fits\<close>: the name has at most 32 characters, a short label at most 80,
  any other text at most those of its field in the passport of the class, and none contains a NUL).  Either
  the tables are what they were, or the operation reports no error and there is exactly one more point, whose
  row has the name and the class of the description; every other point, every passport and all other tables
  are kept.  No transaction is left open.\<close>

theorem creation_is_all_or_nothing:
  assumes "rtap_laws E tabs saved depth rel" and "at_rest tabs saved depth d" and "pi_objclass p = Some c" and "info_fits c p"
    and "create_point E L state p d = (Inr e, d')"
  shows "at_rest tabs saved depth d' \<and> (tabs d' = tabs d \<or> e = rtE_NONE \<and>
     (\<exists>h r. grows (tabs d) h (tabs d') \<and> points (tabs d') h = Some r \<and> p_TAG r = pi_tag p \<and> p_OBJCLASS r = c))"
  using point_outcome [OF assms] assms(3) by (auto simp: outcome_def new_point_in_def settled_row_def named_def)

theorem creation_is_all_or_nothing_witness:
  "\<exists>d h r. create_point rt_mem_env some_clib DB_STATE_CONNECTED new_measurement bare = (Inr rtE_NONE, d)
     \<and> grows (rt_mem_tabs bare) h (rt_mem_tabs d) \<and> points (rt_mem_tabs d) h = Some r \<and> p_TAG r = ''N'' \<and> p_OBJCLASS r = TM"
proof -
  obtain d r where run: "create_point rt_mem_env some_clib DB_STATE_CONNECTED new_measurement bare = (Inr rtE_NONE, d)"
    and new: "c_points (m_cur d) = [(1, r)]"
    by (rule new_measurement_run)
  have "rt_mem_tabs d \<noteq> rt_mem_tabs bare" by (rule one_more_point [OF new])
  with creation_is_all_or_nothing [OF rt_mem.rtap_laws_axioms bare_at_rest _ _ run] run show ?thesis by auto
qed

text \<open>C16. Passports stay typed, whatever fails: when every field of every passport holds a value of its
  declared type before a point is created, this is so afterwards, for each of the 37 classes and
  the 73 functions that create attributes.  The texts that are stored must fit their fields
  (\<open>info_fits\<close>), so what is shown of a text is that it reaches a field that is meant for texts; numbers,
  flags, codes and times are not restricted.\<close>

theorem creation_keeps_types:
  assumes "rtap_laws E tabs saved depth rel" and "at_rest tabs saved depth d" and "pi_objclass p = Some c" and "info_fits c p"
    and "create_point E L state p d = (Inr e, d')" and "all_typed (tabs d)"
  shows "all_typed (tabs d')"
  using point_outcome [OF assms(1-5)] assms(6) by simp

theorem creation_keeps_types_witness:
  "\<exists>d. create_point rt_mem_env some_clib DB_STATE_CONNECTED new_measurement bare = (Inr rtE_NONE, d)
     \<and> c_pass (m_cur d) TM \<noteq> [] \<and> all_typed (rt_mem_tabs d)"
proof -
  obtain d r where run: "create_point rt_mem_env some_clib DB_STATE_CONNECTED new_measurement bare = (Inr rtE_NONE, d)"
    and pass: "c_pass (m_cur d) TM \<noteq> []"
    by (rule new_measurement_run)
  from creation_keeps_types [OF rt_mem.rtap_laws_axioms bare_at_rest _ _ run bare_typed] run pass show ?thesis by auto
qed

text \<open>C18. A new point is its own station: on a reliable engine, once a point was created, reading its
  attribute L_SA gives its own name, whatever system the description named, because the value of L_SA is
  ignored and the reference is set to the id of the point itself.  The other texts of the description must
  fit their fields (\<open>info_fits\<close>), and the type of the caller's object must not be one of strings and not come
  after that of L_SA (\<open>plain_type\<close>).\<close>

theorem new_point_is_its_own_station:
  assumes "rtap_laws E tabs saved depth True" and "at_rest tabs saved depth d" and "pi_objclass p = Some c" and "info_fits c p"
    and "create_point E L state p d = (Inr e, d')" and "tabs d' \<noteq> tabs d"
    and "split_name (a_name (t_info q)) = Some (pi_tag p, ''L_SA'')" and "plain_type ''L_SA'' (a_type (t_info q))"
  shows "\<exists>d''. read_attribute E (q, d') = (Inr rtE_NONE, (q\<lparr>t_error := rtE_NONE,
       t_info := (with_text ''L_SA'' (pi_tag p) (t_info q))\<lparr>a_quality := ATTR_OK\<rparr>\<rparr>, d''))"
proof -
  from point_outcome [OF assms(1-5)] assms(6) obtain h r where rest: "at_rest tabs saved depth d'"
    and row: "points (tabs d') h = Some r" and named: "p_TAG r = pi_tag p" and own: "p_SA_ref r = h"
    by (auto simp: outcome_def new_point_in_def settled_row_def named_def)
  have "text_of (tabs d') ''L_SA'' r (pi_tag p)" using row named own by (simp add: text_of_def)
  from text_outcome [OF assms(1) rest row _ this assms(8)] assms(7) named show ?thesis by auto
qed

theorem new_point_is_its_own_station_witness:
  "\<exists>d d' q'. create_point rt_mem_env some_clib DB_STATE_CONNECTED new_measurement bare = (Inr rtE_NONE, d)
     \<and> read_attribute rt_mem_env (asked ''N.L_SA'' DB_TYPE_UNDEF 0, d) = (Inr rtE_NONE, (q', d'))
     \<and> d_varchar (t_info q') = To (129, ''N'')"
proof -
  obtain d r where run: "create_point rt_mem_env some_clib DB_STATE_CONNECTED new_measurement bare = (Inr rtE_NONE, d)"
    and new: "c_points (m_cur d) = [(1, r)]"
    by (rule new_measurement_run)
  have "rt_mem_tabs d \<noteq> rt_mem_tabs bare" by (rule one_more_point [OF new])
  from new_point_is_its_own_station [OF rt_mem.rtap_laws_axioms bare_at_rest _ _ run this, where q = "asked ''N.L_SA'' DB_TYPE_UNDEF 0"]
    run show ?thesis
    by (auto simp: split_name_def asked_def plain_type_def is_chars_def with_text_def strncpy_def c_str_def NUL_def)
qed

end
