(* ===== verification/RtapDictionaries.thy ===== *)
theory RtapDictionaries
  imports RtapPointLaws
begin

text \<open>
  What loading a dictionary leaves, on a reliable engine: one rule for the loop over the entries,
  for any class of rows with a unique index, and the dictionary of the names of values.
\<close>

section \<open>A table that is filled\<close>

text \<open>The rows so far and their keys.\<close>

definition filled :: "('r \<Rightarrow> 'k) \<Rightarrow> 'r list \<Rightarrow> (int \<rightharpoonup> 'r) \<Rightarrow> bool" where
  "filled f rs m \<longleftrightarrow> ran m = set rs \<and> unique_on f m"

lemma filled_Nil: "filled f [] Map.empty"
  by (simp add: filled_def unique_on_def)

lemma filled_snoc:
  assumes "filled f rs m" and "m h = None" and "f r \<notin> f ` set rs"
  shows "filled f (rs @ [r]) (m(h \<mapsto> r))"
proof -
  have "f s \<noteq> f r" if "m j = Some s" for j s
  proof -
    from that have "s \<in> ran m" by (auto simp: ran_def)
    with assms(1,3) show ?thesis by (metis filled_def image_eqI)
  qed
  then show ?thesis using assms by (auto simp: filled_def intro!: unique_on_upd)
qed

text \<open>The row that puts make of a new one.\<close>

definition put_all :: "('p \<Rightarrow> 'r \<Rightarrow> 'r) \<Rightarrow> 'p list \<Rightarrow> 'r \<Rightarrow> 'r" where
  "put_all put_row ps r = fold put_row ps r"

context rtap_laws
begin

lemma wp_puts:
  assumes laws: "class_laws tabs saved depth reliable C rows set_rows fresh put_row fits" and rel: reliable
    and put: "\<And>m m' T. rows (set_rows m T) = m \<and> set_rows m (set_rows m' T) = set_rows m T"
    and "list_all fits ps" and "at (set_rows m T) S n d" and "m h = Some r"
    and "\<And>d'. at (set_rows (m(h \<mapsto> put_all put_row ps r)) T) S n d' \<Longrightarrow> Q () (q, d')"
  shows "wp (puts C h ps) Q X (q, d)"
  using assms(4-7)
proof (induction ps arbitrary: m r d)
  case Nil
  then show ?case by (auto simp: puts_def put_all_def fun_upd_idem intro!: wp_ret)
next
  case (Cons x ps)
  have puts: "puts C h (x # ps) = sq (db (c_put C x h)) (puts C h ps)" by (simp add: puts_def)
  from Cons.prems(1) have fits: "fits x" by simp
  show ?case
    unfolding puts
  proof (rule wp_sq, rule wp_sure [OF class_laws.put_fits [OF laws fits] Cons.prems(2)], goal_cases)
    case (1 rc)
    with rel put Cons.prems(3) show ?case by simp
  next
    case (2 y T' d')
    with put Cons.prems(3) have next_row: "at (set_rows (m(h \<mapsto> put_row x r)) T) S n d'" by auto
    show ?case
      by (rule Cons.IH [OF _ next_row fun_upd_same])
        (use Cons.prems(1,4) in \<open>auto simp only: list.pred_inject(2) fun_upd_upd put_all_def fold_simps o_apply\<close>)
  qed
qed

lemma wp_insert_entries:
  assumes laws: "class_laws tabs saved depth reliable C rows set_rows fresh put_row fits" and rel: reliable
    and put: "\<And>m m' T. rows (set_rows m T) = m \<and> set_rows m (set_rows m' T) = set_rows m T"
    and keys: "\<And>m. unique_on f m \<Longrightarrow> rt_keys_ok (set_rows m T)"
    and "list_all (list_all fits) pss" and "at (set_rows m T) S n d" and "filled f rs m"
    and "distinct (map f (rs @ map (\<lambda>ps. put_all put_row ps fresh) pss))"
    and "\<And>m' d'. at (set_rows m' T) S n d' \<Longrightarrow> filled f (rs @ map (\<lambda>ps. put_all put_row ps fresh) pss) m' \<Longrightarrow> Q () (q, d')"
  shows "wp (insert_entries E C pss) Q X (q, d)"
  using assms(5-9)
proof (induction pss arbitrary: m rs d)
  case Nil
  then show ?case by (auto simp: insert_entries_def intro!: wp_ret)
next
  case (Cons ps pss)
  let ?r = "put_all put_row ps fresh"
  have entries: "insert_entries E C (ps # pss) = sq (insert_entry E C ps) (insert_entries E C pss)"
    by (simp add: insert_entries_def)
  show ?case
    unfolding entries insert_entry_def
  proof (rule wp_sq, rule wp_bnd, rule wp_sure [OF class_laws.create [OF laws] Cons.prems(2)], goal_cases)
    case (1 rc)
    with rel show ?case by simp
  next
    case (2 h T1 d1)
    with put have new: "m h = None" and at1: "at (set_rows (m(h \<mapsto> fresh)) T) S n d1" by auto
    have more: "filled f (rs @ [?r]) (m(h \<mapsto> ?r))"
      using Cons.prems(4) by (intro filled_snoc [OF Cons.prems(3) new]) auto
    show ?case
    proof (rule wp_sq, rule wp_puts [OF laws rel put _ at1], use Cons.prems(1) in simp, rule fun_upd_same, goal_cases)
      case (1 d2)
      then have at2: "at (set_rows (m(h \<mapsto> ?r)) T) S n d2" by (simp only: fun_upd_upd)
      have ok: "rt_keys_ok (set_rows (m(h \<mapsto> ?r)) T)" using more by (simp add: keys filled_def)
      show ?case
      proof (rule wp_sure [OF checkpoint at2], use ok rel in simp, goal_cases)
        case (1 y T3 d3)
        then have "at (set_rows (m(h \<mapsto> ?r)) T) S n d3" by simp
        from Cons.IH [OF _ this more] Cons.prems(1,4,5) show ?case by simp
      qed
    qed
  qed
qed

end

section \<open>The names of values\<close>

definition label_key :: "label_row \<Rightarrow> int \<times> 8 word" where
  "label_key r = (vl_classID r, vl_valueID r)"

definition label_of :: "val_label_entry \<Rightarrow> label_row" where
  "label_of e = \<lparr>vl_classID = ve_objclass e, vl_valueID = of_nat (ve_value e), vl_label = ve_label e\<rparr>"

definition label_entry_fits :: "val_label_entry \<Rightarrow> bool" where
  "label_entry_fits e \<longleftrightarrow> length (ve_label e) \<le> 80 \<and> NUL \<notin> set (ve_label e)"

lemma label_puts_row:
  assumes "label_entry_fits e"
  shows "list_all label_fits (label_puts e)" "put_all apply_label_put (label_puts e) new_label_row = label_of e"
proof -
  have "first_chars 16 (ve_label e) = ve_label e" using assms by (simp add: first_chars_def label_entry_fits_def)
  with assms show "list_all label_fits (label_puts e)" "put_all apply_label_put (label_puts e) new_label_row = label_of e"
    by (simp_all add: label_puts_def label_entry_fits_def put_all_def label_of_def new_label_row_def)
qed

lemma labels_keys: "rt_keys_ok T \<Longrightarrow> unique_on label_key m \<Longrightarrow> rt_keys_ok (T\<lparr>val_labels := m\<rparr>)"
  by (simp add: rt_keys_ok_def label_key_def [abs_def])

context rtap_laws
begin

lemma wp_load_labels:
  assumes "at T T 0 d" and rel: reliable and "rt_keys_ok T" and "distinct (map (label_key \<circ> label_of) xs)" and "list_all label_entry_fits xs"
    and Q: "\<And>m d'. at (T\<lparr>val_labels := m\<rparr>) (T\<lparr>val_labels := m\<rparr>) 0 d' \<Longrightarrow> filled label_key (map label_of xs) m \<Longrightarrow> Q MCO_S_OK (q, d')"
  shows "wp (createTableDICT_TSC_VAL_LABEL E xs) Q X (q, d)"
proof -
  have fits: "list_all (list_all label_fits) (map label_puts xs)"
    using assms(5) label_puts_row(1) by (auto simp: list_all_iff)
  have rows: "map (\<lambda>ps. put_all apply_label_put ps new_label_row) (map label_puts xs) = map label_of xs"
    using assms(5) label_puts_row(2) by (auto simp: list_all_iff)
  have dist: "distinct (map label_key ([] @ map (\<lambda>ps. put_all apply_label_put ps new_label_row) (map label_puts xs)))"
    using assms(4) unfolding rows by simp
  show ?thesis
    unfolding createTableDICT_TSC_VAL_LABEL_def load_table_def option.case
  proof (rule wp_bnd, rule wp_rt_alone [OF assms(1) rel], goal_cases)
    case (1 d1)
    show ?case
    proof (rule wp_sq, rule wp_sure [OF lab.delete_all 1], goal_cases)
      case (1 rc)
      with rel show ?case by simp
    next
      case (2 y T' d2)
      then have empty: "at (T\<lparr>val_labels := Map.empty\<rparr>) T 1 d2" by simp
      show ?case
      proof (rule wp_sq, rule wp_loop_c, rule wp_insert_entries [OF lab.class_laws_axioms rel _ labels_keys [OF assms(3)] fits empty filled_Nil dist],
          simp, assumption, goal_cases)
        case (1 m d3)
        then have "filled label_key (map label_of xs) m" unfolding rows by simp
        moreover from this have "rt_keys_ok (T\<lparr>val_labels := m\<rparr>)" by (simp add: labels_keys [OF assms(3)] filled_def)
        ultimately show ?case
          using 1(1) by (auto intro!: wp_sq wp_rt_commit [OF _ rel] wp_ret Q)
      qed
    qed
  qed
qed

end

lemma labels_outcome:
  assumes "rtap_laws E tabs saved depth True" and "at_rest tabs saved depth d"
    and "distinct (map (label_key \<circ> label_of) xs)" and "list_all label_entry_fits xs"
  shows "\<exists>m d'. createTableDICT_TSC_VAL_LABEL E xs (q, d) = (Inr MCO_S_OK, (q, d')) \<and> at_rest tabs saved depth d'
     \<and> tabs d' = (tabs d)\<lparr>val_labels := m\<rparr> \<and> filled label_key (map label_of xs) m"
proof -
  have keys: "rt_keys_ok (tabs d)" using assms(2) by (simp add: at_rest_def)
  have "wp (createTableDICT_TSC_VAL_LABEL E xs) (\<lambda>rc s. rc = MCO_S_OK \<and> fst s = q \<and> at_rest tabs saved depth (snd s)
      \<and> (\<exists>m. tabs (snd s) = (tabs d)\<lparr>val_labels := m\<rparr> \<and> filled label_key (map label_of xs) m)) (\<lambda>_ _. False) (q, d)"
  proof (rule rtap_laws.wp_load_labels [OF assms(1) at_rest_at [OF assms(2)] TrueI keys assms(3,4)], goal_cases)
    case (1 m d')
    then have "rt_keys_ok ((tabs d)\<lparr>val_labels := m\<rparr>)" by (simp add: labels_keys [OF keys] filled_def)
    from at_at_rest [OF 1(1) this] 1(2) show ?case by auto
  qed
  from wp_run [where P = "\<lambda>rc p d'. rc = MCO_S_OK \<and> p = q \<and> at_rest tabs saved depth d'
      \<and> (\<exists>m. tabs d' = (tabs d)\<lparr>val_labels := m\<rparr> \<and> filled label_key (map label_of xs) m)", OF this]
  show ?thesis by blast
qed

text \<open>C19. Loading the dictionary of the names of values replaces the table: on a reliable engine, when the
  names fit and no two entries agree in the class and the low byte of the value, the call succeeds, the
  table holds exactly one row for each entry and nothing else of the database changes.\<close>

theorem dictionary_is_replaced:
  assumes "rtap_laws E tabs saved depth True" and "at_rest tabs saved depth d"
    and "distinct (map (\<lambda>e. (ve_objclass e, of_nat (ve_value e) :: 8 word)) xs)" and "list_all label_entry_fits xs"
  shows "\<exists>m d'. createTable E [''DICT_TSC_VAL_LABEL''] (ValLabels xs) (q, d) = (Inr MCO_S_OK, (q, d'))
     \<and> tabs d' = (tabs d)\<lparr>val_labels := m\<rparr> \<and> ran m = label_of ` set xs \<and> at_rest tabs saved depth d'"
proof -
  have "label_key \<circ> label_of = (\<lambda>e. (ve_objclass e, of_nat (ve_value e)))" by (simp add: fun_eq_iff label_key_def label_of_def)
  with labels_outcome [OF assms(1,2) _ assms(4), of q] assms(3) show ?thesis
    by (auto simp: createTable_def check_def sq_def filled_def)
qed

definition two_names :: "val_label_entry list" where
  "two_names = [\<lparr>ve_objclass = 0, ve_value = 0, ve_label = ''off''\<rparr>, \<lparr>ve_objclass = 0, ve_value = 1, ve_label = ''on''\<rparr>]"

theorem dictionary_is_replaced_witness:
  "\<exists>d'. createTable rt_mem_env [''DICT_TSC_VAL_LABEL''] (ValLabels two_names) (rtE_NONE, measured) = (Inr MCO_S_OK, (rtE_NONE, d'))
     \<and> ran (val_labels (rt_mem_tabs d')) = {\<lparr>vl_classID = 0, vl_valueID = 0, vl_label = ''off''\<rparr>, \<lparr>vl_classID = 0, vl_valueID = 1, vl_label = ''on''\<rparr>}"
  using dictionary_is_replaced [OF rt_mem.rtap_laws_axioms measured_at_rest, of two_names rtE_NONE]
  by (simp add: two_names_def label_entry_fits_def label_of_def NUL_def del: rt_mem_rows) (elim exE conjE, rule exI, rule conjI, assumption, simp del: rt_mem_rows)

end
