(* ===== verification/BrokerServices.thy ===== *)
theory BrokerServices
  imports Txn
begin

text \<open>
  The service half of \<open>DatabaseBrokerImpl\<close> (xdb/impl/xdb_impl_db_broker.cpp): registering,
  loading, updating and removing rows of \<open>XDBService\<close>, and the table of default endpoints.
\<close>

section \<open>Endpoints\<close>

record ServiceEndpoint_t =
  ep_name :: string
  endpoint_default :: string
  endpoint_given :: string

text \<open>Nothing fills \<open>endpoint_given\<close>: the loader is compiled out.\<close>

definition Endpoints :: "ServiceEndpoint_t list" where
  "Endpoints =
     [\<lparr>ep_name = ''BROKER'', endpoint_default = ''tcp://localhost:5555'', endpoint_given = ''''\<rparr>,
      \<lparr>ep_name = ''SINF'', endpoint_default = ''tcp://localhost:5556'', endpoint_given = ''''\<rparr>,
      \<lparr>ep_name = ''IHM'', endpoint_default = ''tcp://localhost:5558'', endpoint_given = ''''\<rparr>,
      \<lparr>ep_name = ''EXCH'', endpoint_default = ''tcp://localhost:5559'', endpoint_given = ''''\<rparr>,
      \<lparr>ep_name = '''', endpoint_default = '''', endpoint_given = ''''\<rparr>]"

definition BROKER_ENDPOINT_IDX :: nat where
  "BROKER_ENDPOINT_IDX = 0"

definition given_or_default :: "ServiceEndpoint_t \<Rightarrow> string" where
  "given_or_default e = (if endpoint_given e \<noteq> '''' then endpoint_given e else endpoint_default e)"

definition getEndpoint :: "ServiceEndpoint_t list \<Rightarrow> string" where
  "getEndpoint eps = given_or_default (eps ! BROKER_ENDPOINT_IDX)"

text \<open>The search loop: it starts at index 1 and ends at the record with an empty name.\<close>

fun find_endpoint :: "string \<Rightarrow> ServiceEndpoint_t list \<Rightarrow> ServiceEndpoint_t option" where
  "find_endpoint name [] = None"
| "find_endpoint name (e # es) =
     (if ep_name e = '''' then None else if name = ep_name e then Some e else find_endpoint name es)"

text \<open>\<open>None\<close> is the pointer that was never set.\<close>

definition getEndpoint_of :: "ServiceEndpoint_t list \<Rightarrow> string \<Rightarrow> string option" where
  "getEndpoint_of eps service_name = map_option given_or_default (find_endpoint service_name (tl eps))"

section \<open>States\<close>

fun StateConvert_from :: "ServiceState \<Rightarrow> Service_State" where
  "StateConvert_from XREGISTERED = REGISTERED"
| "StateConvert_from XACTIVATED = ACTIVATED"
| "StateConvert_from XDISABLED = DISABLED"
| "StateConvert_from XUNKNOWN = UNKNOWN"

fun StateConvert_to :: "Service_State \<Rightarrow> ServiceState" where
  "StateConvert_to REGISTERED = XREGISTERED"
| "StateConvert_to ACTIVATED = XACTIVATED"
| "StateConvert_to DISABLED = XDISABLED"
| "StateConvert_to UNKNOWN = XUNKNOWN"

lemma StateConvert_to_from [simp]: "StateConvert_to (StateConvert_from s) = s"
  by (cases s) simp_all

lemma StateConvert_from_to [simp]: "StateConvert_from (StateConvert_to s) = s"
  by (cases s) simp_all

section \<open>Operations\<close>

definition AddService_steps :: "'d env \<Rightarrow> string \<Rightarrow> (Service option, 'd, unit) step" where
  "AddService_steps E name =
     bnd (db (c_create (XDBService E))) (\<lambda>h.
     sq (db (c_put (XDBService E) (PutName name) h))
    (sq (case find_endpoint name (tl Endpoints) of None \<Rightarrow> ret ()
         | Some e \<Rightarrow> db (c_put (XDBService E) (PutEndpoint (endpoint_default e)) h))
    (sq (db (c_put (XDBService E) (PutServiceState XREGISTERED) h))
    (bnd (db (c_autoid_get (XDBService E) h)) (\<lambda>aid.
     bnd (lift_fault (Service_make aid (Some name))) (\<lambda>srv.
     set_obj (\<lambda>_. Some (Service_SetSTATE REGISTERED srv))))))))"

text \<open>The object is returned even when the commit failed and the row is gone.\<close>

definition AddService :: "'d env \<Rightarrow> string \<Rightarrow> ('d, fault, Service option) prog" where
  "AddService E name = bnd (on_obj None (run_txn E (AddService_steps E (c_str name)))) (\<lambda>(_, srv). ret srv)"

definition Update_Service_steps :: "'d env \<Rightarrow> Service \<Rightarrow> (unit, 'd, unit) step" where
  "Update_Service_steps E srv =
     bnd (db (c_find (XDBService E) (srv_id srv))) (\<lambda>h.
     bnd (lift_fault (case srv_name srv of None \<Rightarrow> Inl NullDeref | Some n \<Rightarrow> Inr n)) (\<lambda>name.
     sq (db (c_put (XDBService E) (PutName name) h))
    (bnd (lift_fault (Service_GetENDPOINT srv)) (\<lambda>endpoint.
     sq (db (c_put (XDBService E) (PutEndpoint endpoint) h))
        (db (c_put (XDBService E) (PutServiceState (StateConvert_to (srv_state srv))) h))))))"

text \<open>\<open>status\<close> is never set after its initialisation.\<close>

definition Update_Service :: "'d env \<Rightarrow> Service \<Rightarrow> ('d, fault, bool) prog" where
  "Update_Service E srv = bnd (on_obj () (run_txn E (Update_Service_steps E srv))) (\<lambda>_. ret False)"

definition Update_Worker :: "Worker option \<Rightarrow> ('d, fault, bool) prog" where
  "Update_Worker w = sq (check (w \<noteq> None) AssertFailed) (ret False)"

definition RemoveService_steps :: "'d env \<Rightarrow> string \<Rightarrow> (unit, 'd, unit) step" where
  "RemoveService_steps E name =
     bnd (db (PK_name_find E name)) (\<lambda>h. db (c_remove (XDBService E) h))"

definition RemoveService :: "'d env \<Rightarrow> string option \<Rightarrow> ('d, fault, bool) prog" where
  "RemoveService E name =
     (case name of None \<Rightarrow> raise AssertFailed
      | Some n \<Rightarrow> bnd (on_obj () (run_txn E (RemoveService_steps E (c_str n)))) (\<lambda>(b, _). ret b))"

text \<open>\<open>LoadService\<close> gives a null pointer when one of the three reads fails.\<close>

definition LoadService :: "'d env \<Rightarrow> int \<Rightarrow> int \<Rightarrow> (unit, 'd, Service option) step" where
  "LoadService E aid instance =
     bnd (rc_of
       (bnd (db (c_get (XDBService E) instance)) (\<lambda>r1.
        bnd (db (c_get (XDBService E) instance)) (\<lambda>r2.
        bnd (db (c_get (XDBService E) instance)) (\<lambda>r3.
        ret (strncpy SERVICE_NAME_MAXLEN (x_name r1), strncpy ENDPOINT_MAXLEN (x_endpoint r2), x_state r3))))))
     (\<lambda>r. case r of Inl _ \<Rightarrow> ret None
        | Inr (name, endpoint, state) \<Rightarrow>
            bnd (lift_fault (Service_make aid (Some name))) (\<lambda>s.
            bnd (lift_fault (Service_SetENDPOINT (Some endpoint) (Service_SetSTATE (StateConvert_from state) s))) (\<lambda>s'.
            ret (Some (Service_SetVALID s')))))"

definition ro_result :: "mco_ret + 'a option \<Rightarrow> 'a option" where
  "ro_result r = (case r of Inl _ \<Rightarrow> None | Inr x \<Rightarrow> x)"

definition GetServiceByName_steps :: "'d env \<Rightarrow> string \<Rightarrow> (unit, 'd, Service option) step" where
  "GetServiceByName_steps E name =
     bnd (db (PK_name_find E name)) (\<lambda>h.
     bnd (db (c_autoid_get (XDBService E) h)) (\<lambda>service_id. LoadService E service_id h))"

definition GetServiceByName :: "'d env \<Rightarrow> string \<Rightarrow> ('d, fault, Service option) prog" where
  "GetServiceByName E name =
     bnd (on_obj () (run_ro E (GetServiceByName_steps E (c_str name)))) (\<lambda>(r, _). ret (ro_result r))"

definition RequireServiceByName :: "'d env \<Rightarrow> string \<Rightarrow> ('d, fault, Service option) prog" where
  "RequireServiceByName E name = GetServiceByName E name"

definition GetServiceById_steps :: "'d env \<Rightarrow> int \<Rightarrow> (unit, 'd, Service option) step" where
  "GetServiceById_steps E aid = bnd (db (c_find (XDBService E) aid)) (\<lambda>h. LoadService E aid h)"

definition GetServiceById :: "'d env \<Rightarrow> int \<Rightarrow> ('d, fault, Service option) prog" where
  "GetServiceById E aid =
     bnd (on_obj () (run_ro E (GetServiceById_steps E aid))) (\<lambda>(r, _). ret (ro_result r))"

definition GetServiceForWorker :: "'d env \<Rightarrow> Worker option \<Rightarrow> ('d, fault, Service option) prog" where
  "GetServiceForWorker E wrk =
     (case wrk of None \<Rightarrow> raise AssertFailed | Some w \<Rightarrow> GetServiceById E (wrk_service_id w))"

text \<open>Any outcome but \<open>MCO_S_NOTFOUND\<close> counts as existing.\<close>

definition IsServiceExist :: "'d env \<Rightarrow> string \<Rightarrow> ('d, fault, bool) prog" where
  "IsServiceExist E name =
     bnd (on_obj () (run_ro E (db (PK_name_find E (c_str name)))))
       (\<lambda>(r, _). ret (r \<noteq> Inl MCO_S_NOTFOUND))"

text \<open>The command filter is not written yet: each function ends in \<open>assert(1 == 0)\<close>.\<close>

definition ServiceCommand :: "string \<Rightarrow> string \<Rightarrow> ('d, fault, unit) prog" where
  "ServiceCommand service command =
     sq (check (service \<noteq> '''') AssertFailed)
    (sq (check (command \<noteq> '''') AssertFailed)
        (check ((1 :: int) = 0) AssertFailed))"

section \<open>What the operations do on a lawful engine\<close>

definition service_of :: "int \<Rightarrow> xdb_service \<Rightarrow> Service" where
  "service_of i r = \<lparr>srv_id = i, srv_name = Some (strncpy SERVICE_NAME_MAXLEN (x_name r)),
     srv_endpoint = Some (strncpy ENDPOINT_MAXLEN (x_endpoint r)), srv_state = StateConvert_from (x_state r),
     srv_modified = False\<rparr>"

definition default_endpoint :: "string \<Rightarrow> string" where
  "default_endpoint name =
     (case find_endpoint name (tl Endpoints) of None \<Rightarrow> '''' | Some e \<Rightarrow> endpoint_default e)"

definition registered_row :: "string \<Rightarrow> xdb_service" where
  "registered_row name = \<lparr>x_name = name, x_state = XREGISTERED, x_endpoint = default_endpoint name\<rparr>"

definition has_service :: "string \<Rightarrow> tables \<Rightarrow> bool" where
  "has_service name t \<longleftrightarrow> (\<exists>h r. services t h = Some r \<and> x_name r = name)"

lemma find_endpoint_fits:
  "find_endpoint name (tl Endpoints) = Some e \<Longrightarrow> service_fits (PutEndpoint (endpoint_default e))"
  by (auto simp: Endpoints_def ENDPOINT_MAXLEN_def NUL_def split: if_splits)

context engine_laws
begin

lemma wp_LoadService:
  assumes "at T S n d" and "services T h \<noteq> None"
    and ok: "\<And>r d'. services T h = Some r \<Longrightarrow> at T S n d' \<Longrightarrow> Q (Some (service_of aid r)) ((), d')"
    and bad: "\<And>d'. \<not> reliable \<Longrightarrow> at T S n d' \<Longrightarrow> Q None ((), d')"
  shows "wp (LoadService E aid h) Q R ((), d)"
  unfolding LoadService_def Service_make_def Service_SetNAME_def Service_SetENDPOINT_def option.case
  by (insert assms(1,2),
      (clarify | rule decided | rule vcg | (rule call_rules, assumption)
       | (use ok bad in \<open>simp add: service_of_def Service_SetVALID_def Service_SetSTATE_def Service_new_def\<close>; fail))+)

lemma wp_GetServiceByName:
  assumes "at T T 0 d"
  shows "wp (GetServiceByName E name)
     (\<lambda>r d'. at T T 0 d'
        \<and> (\<forall>srv. r = Some srv \<longrightarrow> (\<exists>h row. services T h = Some row \<and> x_name row = c_str name \<and> srv = service_of h row))
        \<and> (r = None \<longrightarrow> reliable \<longrightarrow> \<not> has_service (c_str name) T))
     (\<lambda>_ _. False) d"
  unfolding GetServiceByName_def
  apply (intro vcg wp_mono [OF ro [OF assms, where Q = "\<lambda>r _. case r of
            Some srv \<Rightarrow> \<exists>h row. services T h = Some row \<and> x_name row = c_str name \<and> srv = service_of h row
          | None \<Rightarrow> \<not> reliable"
        and R = "\<lambda>rc _. reliable \<longrightarrow> \<not> has_service (c_str name) T"]])
  unfolding GetServiceByName_steps_def
  subgoal
    by (clarify | rule decided | rule vcg | (rule wp_LoadService, assumption, simp) | (rule call_rules, assumption)
       | (auto simp: has_service_def; fail))+
  by (auto simp: ro_result_def intro!: vcg split: sum.splits option.splits)

lemma wp_GetServiceById:
  assumes "at T T 0 d"
  shows "wp (GetServiceById E i)
     (\<lambda>r d'. at T T 0 d'
        \<and> (\<forall>srv. r = Some srv \<longrightarrow> (\<exists>row. services T i = Some row \<and> srv = service_of i row))
        \<and> (r = None \<longrightarrow> reliable \<longrightarrow> services T i = None))
     (\<lambda>_ _. False) d"
  unfolding GetServiceById_def
  apply (intro vcg wp_mono [OF ro [OF assms, where Q = "\<lambda>r _. case r of
            Some srv \<Rightarrow> \<exists>row. services T i = Some row \<and> srv = service_of i row
          | None \<Rightarrow> \<not> reliable"
        and R = "\<lambda>rc _. reliable \<longrightarrow> services T i = None"]])
  unfolding GetServiceById_steps_def
  subgoal
    by (clarify | rule decided | rule vcg | (rule wp_LoadService, assumption, simp) | (rule call_rules, assumption)
       | (auto; fail))+
  by (auto simp: ro_result_def intro!: vcg split: sum.splits option.splits)

lemma AddService_row:
  assumes n: "length (c_str name) \<le> SERVICE_NAME_MAXLEN" and at: "at T S m d"
  defines "srv \<equiv> \<lambda>h. Some \<lparr>srv_id = h, srv_name = Some (c_str name), srv_endpoint = None,
                srv_state = REGISTERED, srv_modified = True\<rparr>"
  defines "Q \<equiv> \<lambda>r T'. \<exists>h>0. services T h = None \<and> r = srv h
     \<and> T' = T\<lparr>services := (services T)(h \<mapsto> registered_row (c_str name))\<rparr>"
  shows "wp (AddService_steps E (c_str name)) (\<lambda>_ s. \<exists>T'. at T' S m (snd s) \<and> Q (fst s) T')
        (\<lambda>e s. \<exists>rc T'. e = Brk rc \<and> rc \<noteq> MCO_S_OK \<and> at T' S m (snd s) \<and> (reliable \<longrightarrow> False))
        (None, d)"
  unfolding AddService_steps_def Service_make_def Service_SetNAME_def option.case
  by (insert n at,
     (clarify | simp only: tab_simps | rule decided | rule vcg | (rule call_rules, assumption)
      | (rule put_rules, ((rule find_endpoint_fits, assumption) | (simp; fail)), assumption)
      | (force simp: Q_def srv_def Service_SetSTATE_def Service_new_def registered_row_def default_endpoint_def
          new_service_row_def; fail))+)

lemma wp_AddService:
  assumes n: "length (c_str name) \<le> SERVICE_NAME_MAXLEN" and at: "at T T 0 d"
  shows "wp (AddService E name)
    (\<lambda>r d'. (\<exists>h>0. services T h = None \<and> keys_ok T
            \<and> at (T\<lparr>services := (services T)(h \<mapsto> registered_row (c_str name))\<rparr>)
                (T\<lparr>services := (services T)(h \<mapsto> registered_row (c_str name))\<rparr>) 0 d'
            \<and> r = Some \<lparr>srv_id = h, srv_name = Some (c_str name), srv_endpoint = None,
                         srv_state = REGISTERED, srv_modified = True\<rparr>)
        \<or> at T T 0 d' \<and> (reliable \<longrightarrow> \<not> keys_ok T))
    (\<lambda>_ _. False) d"
proof -
  have "keys_ok (T\<lparr>services := m\<rparr>) = keys_ok T" for m
    by (simp add: keys_ok_def)
  then show ?thesis
    unfolding AddService_def
    by (intro vcg wp_mono [OF txn [OF at refl, OF AddService_row [OF n]]])
      (auto intro!: vcg split: if_splits)
qed

lemma wp_RemoveService:
  assumes at: "at T T 0 d"
  shows "wp (RemoveService E (Some name))
    (\<lambda>b d'. if b then \<exists>h row. services T h = Some row \<and> x_name row = c_str name
            \<and> at (T\<lparr>services := (services T)(h := None)\<rparr>) (T\<lparr>services := (services T)(h := None)\<rparr>) 0 d'
        else at T T 0 d' \<and> (reliable \<longrightarrow> \<not> has_service (c_str name) T \<or> \<not> keys_ok T))
    (\<lambda>_ _. False) d"
proof -
  have keys: "keys_ok (T\<lparr>services := m\<rparr>) = keys_ok T" for m
    by (simp add: keys_ok_def)
  show ?thesis
    unfolding RemoveService_def option.case
    apply (intro vcg wp_mono [OF txn [OF at refl, where Q = "\<lambda>_ T'. \<exists>h row. services T h = Some row \<and> x_name row = c_str name
          \<and> T' = T\<lparr>services := (services T)(h := None)\<rparr>" and R = "\<lambda>_. \<not> has_service (c_str name) T"]])
    unfolding RemoveService_steps_def
    subgoal
      by (clarify | rule decided | rule vcg | (rule call_rules, assumption) | (force simp: has_service_def; fail))+
    by (auto simp: keys intro!: vcg split: if_splits)
qed

lemma wp_IsServiceExist:
  assumes at: "at T T 0 d" and reliable
  shows "wp (IsServiceExist E name) (\<lambda>b d'. at T T 0 d' \<and> b = has_service (c_str name) T) (\<lambda>_ _. False) d"
  unfolding IsServiceExist_def
  apply (intro vcg wp_mono [OF ro [OF at, where Q = "\<lambda>_ _. has_service (c_str name) T"
          and R = "\<lambda>rc _. rc = MCO_S_NOTFOUND \<and> \<not> has_service (c_str name) T"]])
  subgoal
    by (clarify | rule decided | rule vcg | (rule call_rules, assumption)
        | (use \<open>reliable\<close> in \<open>auto simp: has_service_def\<close>; fail))+
  using \<open>reliable\<close> by (auto intro!: vcg split: sum.splits)

end

end
