(* ===== verification/BrokerWorkers.thy ===== *)
theory BrokerWorkers
  imports BrokerServices
begin

text \<open>
  The worker and letter half of \<open>DatabaseBrokerImpl\<close> (xdb/impl/xdb_impl_db_broker.cpp): arming
  and disarming workers, choosing a free one, queueing letters, assigning a letter to a worker
  and releasing it.
\<close>

section \<open>Loading rows\<close>

text \<open>
  \<open>LoadWorker\<close> gives its last code and the object.  The codes of the two time reads are kept
  only as that last code, and a failed read leaves \<open>timer_value\<close> as it was.
\<close>

definition LoadWorker :: "'d env \<Rightarrow> int \<Rightarrow> ('o, 'd, mco_ret \<times> Worker option) step" where
  "LoadWorker E instance =
     bnd (rc_of
       (bnd (db (c_autoid_get (XDBWorker E) instance)) (\<lambda>wrk_aid.
        bnd (db (c_get (XDBWorker E) instance)) (\<lambda>r1.
        bnd (db (c_get (XDBWorker E) instance)) (\<lambda>r2.
        bnd (db (c_get (XDBWorker E) instance)) (\<lambda>r3.
        sq (db (c_access (XDBWorker E) instance))
       (bnd (db (c_get (XDBWorker E) instance)) (\<lambda>r4.
        ret (wrk_aid, strncpy IDENTITY_MAXLEN (w_identity r1), w_service_ref r2, w_letter_ref r3, w_state r4)))))))))
     (\<lambda>r. case r of Inl rc \<Rightarrow> ret (rc, None)
        | Inr (wrk_aid, ident, srv_aid, letter_aid, state) \<Rightarrow>
            bnd (db_try (c_get (XDBWorker E) instance)) (\<lambda>s.
            bnd (db_try (c_get (XDBWorker E) instance)) (\<lambda>n.
            let sec = (case s of Inl _ \<Rightarrow> junk E | Inr row \<Rightarrow> w_sec row);
                nsec = (case n of Inl _ \<Rightarrow> sec | Inr row \<Rightarrow> w_nsec row) in
            bnd (lift_fault (Worker_make srv_aid (Some ident) wrk_aid letter_aid)) (\<lambda>w.
            ret ((case n of Inl rc \<Rightarrow> rc | Inr _ \<Rightarrow> MCO_S_OK),
                 Some (Worker_SetVALID (Worker_SetEXPIRATION (Mark (uint sec) (uint nsec))
                   (Worker_SetSTATE state w))))))))"

definition letter_object :: "int \<Rightarrow> xdb_letter \<Rightarrow> timer_mark \<Rightarrow> Letter" where
  "letter_object aid r m =
     Letter_SetVALID (Letter_SetSTATE (l_state r) (Letter_SetEXPIRATION m
       (Letter_SetWORKER_ID (l_worker_ref r) (Letter_SetSERVICE_ID (l_service_ref r) (Letter_SetID aid
         (Letter_make (strncpy IDENTITY_MAXLEN (l_origin r)) (l_header r) (l_body r)))))))"

text \<open>The refs, then the sizes and bytes of header and body, the origin, the time and the state.\<close>

definition LoadLetter :: "'d env \<Rightarrow> int \<Rightarrow> ('o, 'd, mco_ret \<times> Letter option) step" where
  "LoadLetter E instance =
     (let get = db (c_get (XDBLetter E) instance); try = db_try (c_get (XDBLetter E) instance) in
     bnd (rc_of
       (bnd (db (c_autoid_get (XDBLetter E) instance)) (\<lambda>aid.
        bnd get (\<lambda>r1. bnd get (\<lambda>r2.
        bnd get (\<lambda>_. bnd get (\<lambda>r3.
        bnd get (\<lambda>_. bnd get (\<lambda>r4.
        bnd get (\<lambda>r5.
        sq (db (c_access (XDBLetter E) instance))
       (bnd try (\<lambda>s. bnd try (\<lambda>n.
        bnd get (\<lambda>r6.
        ret (let sec = (case s of Inl _ \<Rightarrow> junk E | Inr row \<Rightarrow> l_sec row);
                 nsec = (case n of Inl _ \<Rightarrow> sec | Inr row \<Rightarrow> l_nsec row) in
             letter_object aid
               (r6\<lparr>l_service_ref := l_service_ref r1, l_worker_ref := l_worker_ref r2,
                   l_header := l_header r3, l_body := l_body r4, l_origin := l_origin r5\<rparr>)
               (Mark (uint sec) (uint nsec)))))))))))))))))
     (\<lambda>r. case r of Inl rc \<Rightarrow> ret (rc, None) | Inr l \<Rightarrow> ret (MCO_S_OK, Some l)))"

section \<open>Workers\<close>

definition RemoveWorker_steps :: "'d env \<Rightarrow> (Worker, 'd, unit) step" where
  "RemoveWorker_steps E =
     bnd obj (\<lambda>wrk.
     bnd (db (SK_by_ident_find E (wrk_identity wrk))) (\<lambda>h.
     sq (db (c_put (XDBWorker E) (PutState DISARMED) h))
        (set_obj (Worker_SetSTATE DISARMED))))"

definition RemoveWorker :: "'d env \<Rightarrow> (Worker \<times> 'd, fault, bool) prog" where
  "RemoveWorker E = run_txn E (RemoveWorker_steps E)"

definition put_expiration :: "'d env \<Rightarrow> int \<Rightarrow> timer_mark \<Rightarrow> (Worker, 'd, unit) step" where
  "put_expiration E h m =
     sq (db (c_access (XDBWorker E) h))
    (sq (db (c_put (XDBWorker E) (PutSec (word_of_int (tv_sec m))) h))
        (db (c_put (XDBWorker E) (PutNsec (word_of_int (tv_nsec m))) h)))"

text \<open>\<open>next_expiration_time\<close> is uninitialised; the result of the calculation is not looked at.\<close>

definition next_expiration :: "'d env \<Rightarrow> ('o, 'd, timer_mark) step" where
  "next_expiration E =
     bnd (clock_now E) (\<lambda>c.
     ret (snd (Worker_CalculateEXPIRATION_TIME c (Mark (uint (junk E)) (uint (junk E))))))"

definition PushWorker_found :: "'d env \<Rightarrow> int \<Rightarrow> int \<Rightarrow> (Worker, 'd, unit) step" where
  "PushWorker_found E srv_aid h =
     bnd obj (\<lambda>wrk.
     sq (if wrk_id wrk = 0
         then bnd (db (c_autoid_get (XDBWorker E) h)) (\<lambda>wrk_aid. set_obj (Worker_SetID wrk_aid))
         else ret ())
    (sq (db (c_put (XDBWorker E) (PutState ARMED) h))
    (sq (db (c_put (XDBWorker E) (PutServiceRef srv_aid) h))
    (bnd (next_expiration E) (\<lambda>m. put_expiration E h m)))))"

definition PushWorker_new :: "'d env \<Rightarrow> int \<Rightarrow> (Worker, 'd, unit) step" where
  "PushWorker_new E srv_aid =
     bnd obj (\<lambda>wrk.
     bnd (db (c_create (XDBWorker E))) (\<lambda>h.
     sq (db (c_put (XDBWorker E) (PutIdentity (wrk_identity wrk)) h))
    (sq (db (c_put (XDBWorker E) (PutState ARMED) h))
    (sq (db (c_put (XDBWorker E) (PutServiceRef srv_aid) h))
    (bnd (db (c_autoid_get (XDBWorker E) h)) (\<lambda>wrk_aid.
     sq (set_obj (Worker_SetID wrk_aid))
    (bnd (next_expiration E) (\<lambda>m. put_expiration E h m))))))))"

definition PushWorker_steps :: "'d env \<Rightarrow> (Worker, 'd, unit) step" where
  "PushWorker_steps E =
     bnd obj (\<lambda>wrk.
     bnd (db (c_find (XDBService E) (wrk_service_id wrk))) (\<lambda>svc.
     bnd (db (c_autoid_get (XDBService E) svc)) (\<lambda>srv_aid.
     sq (assert_c (wrk_service_id wrk = srv_aid))
    (bnd (db_try (SK_by_ident_find E (wrk_identity wrk))) (\<lambda>found.
     case found of
       Inr h \<Rightarrow> PushWorker_found E srv_aid h
     | Inl rc \<Rightarrow> if rc = MCO_S_NOTFOUND then PushWorker_new E srv_aid else raise (Brk rc))))))"

definition PushWorker :: "'d env \<Rightarrow> (Worker \<times> 'd, fault, bool) prog" where
  "PushWorker E =
     bnd (rd fst) (\<lambda>wrk.
     sq (check (length (wrk_identity wrk) \<le> IDENTITY_MAXLEN) AssertFailed)
        (run_txn E (PushWorker_steps E)))"

text \<open>The object is returned even when it could not be stored.\<close>

definition PushWorkerForService :: "'d env \<Rightarrow> string \<Rightarrow> string \<Rightarrow> ('d, fault, Worker option) prog" where
  "PushWorkerForService E service_name wrk_ident =
     bnd (bnd (GetServiceByName E service_name)
            (\<lambda>srv. case srv of Some s \<Rightarrow> ret (Some s) | None \<Rightarrow> AddService E service_name)) (\<lambda>srv.
     case srv of
       None \<Rightarrow> ret None
     | Some s \<Rightarrow>
         (case Worker_make (srv_id s) (Some (c_str wrk_ident)) 0 0 of
            Inl f \<Rightarrow> raise f
          | Inr w \<Rightarrow> bnd (on_obj w (PushWorker E)) (\<lambda>(_, w'). ret (Some w'))))"

text \<open>
  The search loop over the cursor of \<open>SK_by_serv_id\<close>: the first row of the service in the
  wanted state.  A failing \<open>from_cursor\<close> or \<open>state_get\<close> ends it like a failing \<open>compare\<close>.
\<close>

fun find_in_state :: "'d env \<Rightarrow> int \<Rightarrow> Worker_State \<Rightarrow> int list \<Rightarrow> (unit, 'd, int option) step" where
  "find_in_state E service_id st [] = ret None"
| "find_in_state E service_id st (h # hs) =
     bnd (db (SK_by_serv_id_compare E h service_id)) (\<lambda>cmp.
     bnd (if cmp = 0
          then bnd (db (from_cursor E h)) (\<lambda>i.
               bnd (db (c_get (XDBWorker E) i)) (\<lambda>r.
               ret (if w_state r = st then Some i else None)))
          else ret None) (\<lambda>found.
     case found of
       Some i \<Rightarrow> ret (Some i)
     | None \<Rightarrow> if hs = [] then ret None
               else sq (db (cursor_next E)) (find_in_state E service_id st hs)))"

definition GetWorkerByState_steps :: "'d env \<Rightarrow> int \<Rightarrow> Worker_State \<Rightarrow> (unit, 'd, Worker option) step" where
  "GetWorkerByState_steps E service_id st =
     sq (db (SK_by_serv_id_cursor E))
    (bnd (db (SK_by_serv_id_search E service_id)) (\<lambda>hs.
     bnd (find_in_state E service_id st hs) (\<lambda>found.
     case found of None \<Rightarrow> ret None
     | Some i \<Rightarrow> bnd (LoadWorker E i) (\<lambda>(rc, w). ret w))))"

definition GetWorkerByState :: "'d env \<Rightarrow> int \<Rightarrow> Worker_State \<Rightarrow> ('d, fault, Worker option) prog" where
  "GetWorkerByState E service_id st =
     bnd (on_obj () (run_ro E (GetWorkerByState_steps E service_id st))) (\<lambda>(r, _). ret (ro_result r))"

definition PopWorker :: "'d env \<Rightarrow> Service option \<Rightarrow> Worker_State \<Rightarrow> ('d, fault, Worker option) prog" where
  "PopWorker E srv st =
     (case srv of None \<Rightarrow> raise AssertFailed | Some s \<Rightarrow> GetWorkerByState E (srv_id s) st)"

definition PopWorker_named :: "'d env \<Rightarrow> string \<Rightarrow> Worker_State \<Rightarrow> ('d, fault, Worker option) prog" where
  "PopWorker_named E service_name st =
     bnd (GetServiceByName E service_name) (\<lambda>srv.
     case srv of None \<Rightarrow> ret None | Some s \<Rightarrow> GetWorkerByState E (srv_id s) st)"

definition GetWorkerByIdent_steps :: "'d env \<Rightarrow> string \<Rightarrow> (unit, 'd, Worker option) step" where
  "GetWorkerByIdent_steps E ident =
     bnd (db (SK_by_ident_find E ident)) (\<lambda>h. bnd (LoadWorker E h) (\<lambda>(rc, w). ret w))"

definition GetWorkerByIdent :: "'d env \<Rightarrow> string \<Rightarrow> ('d, fault, Worker option) prog" where
  "GetWorkerByIdent E ident =
     bnd (on_obj () (run_ro E (GetWorkerByIdent_steps E (c_str ident)))) (\<lambda>(r, _). ret (ro_result r))"

text \<open>
  \<open>SetWorkerState\<close>.  Arming first clears the letter reference; when that fails, the \<open>break\<close>
  leaves only the \<open>switch\<close> and the state is written all the same.
\<close>

definition SetWorkerState_steps :: "'d env \<Rightarrow> Worker_State \<Rightarrow> (Worker, 'd, unit) step" where
  "SetWorkerState_steps E new_state =
     bnd obj (\<lambda>worker.
     bnd (db (SK_by_ident_find E (wrk_identity worker))) (\<lambda>h.
     sq (if new_state = ARMED
         then bnd (db_try (c_put (XDBWorker E) (PutLetterRef 0) h)) (\<lambda>r.
              case r of Inl _ \<Rightarrow> ret () | Inr _ \<Rightarrow> set_obj (Worker_SetLETTER_ID 0))
         else ret ())
    (sq (db (c_put (XDBWorker E) (PutState new_state) h))
        (set_obj (Worker_SetSTATE new_state)))))"

definition SetWorkerState :: "'d env \<Rightarrow> Worker_State \<Rightarrow> (Worker \<times> 'd, fault, bool) prog" where
  "SetWorkerState E new_state = run_txn E (SetWorkerState_steps E new_state)"

section \<open>Letters\<close>

fun find_waiting :: "'d env \<Rightarrow> int \<Rightarrow> int list \<Rightarrow> (unit, 'd, Letter option) step" where
  "find_waiting E service_id [] = ret None"
| "find_waiting E service_id (h # hs) =
     bnd (db_try (SK_by_state_for_serv_compare E h service_id UNASSIGNED)) (\<lambda>c.
     if c = Inr 0
     then bnd (db (from_cursor E h)) (\<lambda>i.
          bnd (LoadLetter E i) (\<lambda>(rc, letter).
          case letter of None \<Rightarrow> raise (Brk rc)
          | Some l \<Rightarrow> sq (assert_c (let_state l = UNASSIGNED)) (ret (Some l))))
     else if hs = [] then ret None
     else sq (db (cursor_next E)) (find_waiting E service_id hs))"

definition GetWaitingLetter_steps :: "'d env \<Rightarrow> int \<Rightarrow> (unit, 'd, Letter option) step" where
  "GetWaitingLetter_steps E service_id =
     sq (db (SK_by_state_for_serv_cursor E))
    (bnd (db (SK_by_state_for_serv_search E service_id UNASSIGNED)) (find_waiting E service_id))"

definition GetWaitingLetter :: "'d env \<Rightarrow> Service option \<Rightarrow> ('d, fault, Letter option) prog" where
  "GetWaitingLetter E srv =
     (case srv of None \<Rightarrow> raise AssertFailed
      | Some s \<Rightarrow> bnd (on_obj () (run_ro E (GetWaitingLetter_steps E (srv_id s)))) (\<lambda>(r, _). ret (ro_result r)))"

text \<open>The time limits: the return codes are not looked at.\<close>

definition AssignLetter_times :: "'d env \<Rightarrow> int \<Rightarrow> int \<Rightarrow> timer_mark \<Rightarrow> (Worker \<times> Letter, 'd, unit) step" where
  "AssignLetter_times E l w now =
     (let sec = word_of_int (tv_sec now + MESSAGE_EXPIRATION_PERIOD_MSEC); nsec = word_of_int (tv_nsec now) in
      bnd (db_try (c_access (XDBLetter E) l)) (\<lambda>_.
      bnd (db_try (c_put (XDBLetter E) (PutLSec sec) l)) (\<lambda>_.
      bnd (db_try (c_put (XDBLetter E) (PutLNsec nsec) l)) (\<lambda>_.
      bnd (db_try (c_access (XDBWorker E) w)) (\<lambda>_.
      bnd (db_try (c_put (XDBWorker E) (PutSec sec) w)) (\<lambda>_.
      bnd (db_try (c_put (XDBWorker E) (PutNsec nsec) w)) (\<lambda>_.
      bnd (db_try (get_last_error E)) (\<lambda>e.
      case e of Inl _ \<Rightarrow> raise (Brk MCO_S_OK) | Inr _ \<Rightarrow> ret ()))))))))"

definition AssignLetter_links :: "'d env \<Rightarrow> int \<Rightarrow> int \<Rightarrow> (Worker \<times> Letter, 'd, unit) step" where
  "AssignLetter_links E l w =
     bnd obj (\<lambda>(worker, letter).
     sq (db (c_put (XDBLetter E) (PutLState ASSIGNED) l))
    (sq (set_obj (\<lambda>(wk, lt). (wk, Letter_SetWORKER_ID (wrk_id worker) (Letter_SetSTATE ASSIGNED lt))))
    (sq (db (c_put (XDBWorker E) (PutState OCCUPIED) w))
    (sq (set_obj (\<lambda>(wk, lt). (Worker_SetSTATE OCCUPIED wk, lt)))
    (sq (db (c_put (XDBWorker E) (PutLetterRef (let_id letter)) w))
        (db (c_put (XDBLetter E) (PutLWorker (wrk_id worker)) l)))))))"

text \<open>A failing clock leaves with \<open>rc\<close> still \<open>MCO_S_OK\<close>, like a set \<open>last_error\<close>.\<close>

definition AssignLetter_steps :: "'d env \<Rightarrow> (Worker \<times> Letter, 'd, unit) step" where
  "AssignLetter_steps E =
     bnd obj (\<lambda>(worker, letter).
     bnd (db (c_find (XDBLetter E) (let_id letter))) (\<lambda>l.
     bnd (db (c_find (XDBWorker E) (wrk_id worker))) (\<lambda>w.
     bnd (db (c_autoid_get (XDBWorker E) w)) (\<lambda>worker_aid.
     bnd (db (c_autoid_get (XDBLetter E) l)) (\<lambda>letter_aid.
     sq (assert_c (worker_aid = wrk_id worker))
    (sq (assert_c (letter_aid = let_id letter))
    (bnd (clock_now E) (\<lambda>c.
     case c of None \<Rightarrow> raise (Brk MCO_S_OK)
     | Some now \<Rightarrow> sq (AssignLetter_times E l w now) (AssignLetter_links E l w)))))))))"

definition AssignLetterToWorker :: "'d env \<Rightarrow> ((Worker \<times> Letter) \<times> 'd, fault, bool) prog" where
  "AssignLetterToWorker E = run_txn E (AssignLetter_steps E)"

text \<open>
  \<open>ReleaseLetterFromWorker\<close> asserts on three reads whose codes it drops, and changes the
  worker in a transaction of its own inside the one that removes the letter.
\<close>

definition Release_check :: "'d env \<Rightarrow> int \<Rightarrow> (Worker, 'd, unit) step" where
  "Release_check E l =
     bnd obj (\<lambda>worker.
     bnd (db_try (c_autoid_get (XDBLetter E) l)) (\<lambda>_.
     bnd (db_try (c_get (XDBLetter E) l)) (\<lambda>r1.
     bnd (db_try (c_get (XDBLetter E) l)) (\<lambda>r2.
     sq (assert_c ((case r1 of Inl _ \<Rightarrow> uint (junk E) | Inr r \<Rightarrow> l_worker_ref r) = wrk_id worker))
        (assert_c ((case r2 of Inl _ \<Rightarrow> uint (junk E) | Inr r \<Rightarrow> l_service_ref r) = wrk_service_id worker))))))"

definition Release_steps :: "'d env \<Rightarrow> (Worker, 'd, unit) step" where
  "Release_steps E =
     bnd obj (\<lambda>worker.
     bnd (db (SK_by_worker_id_find E (wrk_id worker))) (\<lambda>l.
     sq (Release_check E l)
    (sq (db (c_remove (XDBLetter E) l))
    (bnd (nested (SetWorkerState E ARMED)) (\<lambda>b.
     if b then set_obj (Worker_SetSTATE ARMED) else raise (Brk MCO_S_OK))))))"

definition ReleaseLetterFromWorker :: "'d env \<Rightarrow> (Worker \<times> 'd, fault, bool) prog" where
  "ReleaseLetterFromWorker E = run_txn E (Release_steps E)"

definition SetLetterState_steps :: "'d env \<Rightarrow> Letter_State \<Rightarrow> (Letter, 'd, unit) step" where
  "SetLetterState_steps E new_state =
     bnd obj (\<lambda>letter.
     bnd (db (c_find (XDBLetter E) (let_id letter))) (\<lambda>l.
     sq (db (c_put (XDBLetter E) (PutLState new_state) l))
        (set_obj (Letter_SetSTATE new_state))))"

definition SetLetterState :: "'d env \<Rightarrow> Letter_State \<Rightarrow> (Letter \<times> 'd, fault, bool) prog" where
  "SetLetterState E new_state = run_txn E (SetLetterState_steps E new_state)"

definition PushRequest_time :: "'d env \<Rightarrow> int \<Rightarrow> (Letter, 'd, unit) step" where
  "PushRequest_time E l =
     bnd (clock_now E) (\<lambda>c.
     case c of
       Some now \<Rightarrow>
         (let what_time = Mark (tv_sec now + HEARTBEAT_PERIOD_MSEC div 1000) (tv_nsec now) in
          bnd (db_try (c_put (XDBLetter E) (PutLNsec (word_of_int (tv_nsec now))) l)) (\<lambda>_.
          bnd (db_try (c_put (XDBLetter E) (PutLSec (word_of_int (tv_sec what_time))) l)) (\<lambda>_.
          set_obj (Letter_SetEXPIRATION what_time))))
     | None \<Rightarrow>
         bnd (db_try (c_put (XDBLetter E) (PutLNsec 0) l)) (\<lambda>_.
         bnd (db_try (c_put (XDBLetter E) (PutLSec 0) l)) (\<lambda>_. ret ())))"

definition PushRequest_text :: "'d env \<Rightarrow> int \<Rightarrow> (Letter, 'd, unit) step" where
  "PushRequest_text E l =
     bnd obj (\<lambda>letter.
     sq (db (c_put (XDBLetter E) (PutHeader (let_header letter)) l))
    (sq (db (c_put (XDBLetter E) (PutBody (let_data letter)) l))
    (sq (db (c_put (XDBLetter E) (PutOrigin (let_reply_to letter)) l))
    (bnd (db_try (get_last_error E)) (\<lambda>e.
     case e of Inl _ \<Rightarrow> raise (Brk MCO_S_OK) | Inr _ \<Rightarrow> ret ())))))"

definition PushRequest_steps :: "'d env \<Rightarrow> Service \<Rightarrow> (Letter, 'd, unit) step" where
  "PushRequest_steps E srv =
     bnd (db (c_create (XDBLetter E))) (\<lambda>l.
     bnd (db (c_autoid_get (XDBLetter E) l)) (\<lambda>aid.
     sq (set_obj (Letter_SetID aid))
    (sq (db (c_put (XDBLetter E) (PutLService (srv_id srv)) l))
    (sq (set_obj (Letter_SetSERVICE_ID (srv_id srv)))
    (sq (db (c_put (XDBLetter E) (PutLWorker aid) l))
    (sq (set_obj (Letter_SetWORKER_ID 0))
    (sq (db (c_put (XDBLetter E) (PutLState UNASSIGNED) l))
    (sq (set_obj (Letter_SetSTATE UNASSIGNED))
    (sq (db (c_access (XDBLetter E) l))
    (sq (PushRequest_time E l) (PushRequest_text E l)))))))))))"

definition PushRequestToService :: "'d env \<Rightarrow> Service option \<Rightarrow> (Letter \<times> 'd, fault, bool) prog" where
  "PushRequestToService E srv =
     (case srv of None \<Rightarrow> raise AssertFailed | Some s \<Rightarrow> run_txn E (PushRequest_steps E s))"

text \<open>The lookup of an assigned letter is compiled out.\<close>

definition GetAssignedLetter :: "Worker option \<Rightarrow> ('d, fault, Letter option) prog" where
  "GetAssignedLetter worker = sq (check (worker \<noteq> None) AssertFailed) (ret None)"

end
