(* ===== verification/BrokerContract.thy ===== *)
theory BrokerContract
  imports BrokerWorkers
begin

text \<open>
  What the worker and letter operations of \<open>DatabaseBrokerImpl\<close> do to the tables, on every
  engine that keeps the laws of \<open>engine_laws\<close>.  Each lemma gives the outcome of one operation:
  on success the changed rows, on failure unchanged tables, and on a reliable engine the only
  reasons for a failure.
\<close>

section \<open>Objects of rows\<close>

definition row_mark :: "32 word \<Rightarrow> 32 word \<Rightarrow> timer_mark" where
  "row_mark s n = Mark (uint s) (uint n)"

definition worker_of :: "int \<Rightarrow> xdb_worker \<Rightarrow> Worker" where
  "worker_of i r = \<lparr>wrk_id = i, wrk_service_id = w_service_ref r, wrk_letter_id = w_letter_ref r,
     wrk_identity = strncpy IDENTITY_MAXLEN (w_identity r), wrk_state = w_state r,
     wrk_expiration = row_mark (w_sec r) (w_nsec r), wrk_modified = False\<rparr>"

definition letter_of :: "int \<Rightarrow> xdb_letter \<Rightarrow> Letter" where
  "letter_of i r = letter_object i r (row_mark (l_sec r) (l_nsec r))"

text \<open>An object of a row whose time could not be read.\<close>

definition worker_like :: "int \<Rightarrow> xdb_worker \<Rightarrow> Worker \<Rightarrow> bool" where
  "worker_like i r w \<longleftrightarrow> w\<lparr>wrk_expiration := row_mark (w_sec r) (w_nsec r)\<rparr> = worker_of i r"

definition letter_like :: "int \<Rightarrow> xdb_letter \<Rightarrow> Letter \<Rightarrow> bool" where
  "letter_like i r l \<longleftrightarrow> l\<lparr>let_expiration := row_mark (l_sec r) (l_nsec r)\<rparr> = letter_of i r"

lemma worker_like_of [simp]: "worker_like i r (worker_of i r)"
  by (simp add: worker_like_def worker_of_def)

lemma letter_like_of [simp]: "letter_like i r (letter_of i r)"
  by (simp add: letter_like_def letter_of_def letter_object_def Letter_SetVALID_def Letter_SetSTATE_def
      Letter_SetEXPIRATION_def row_mark_def)

section \<open>Changes of rows\<close>

definition armed_row :: "int \<Rightarrow> timer_mark \<Rightarrow> xdb_worker \<Rightarrow> xdb_worker" where
  "armed_row sid m r = r\<lparr>w_state := ARMED, w_service_ref := sid, w_sec := word_of_int (tv_sec m),
     w_nsec := word_of_int (tv_nsec m)\<rparr>"

definition set_worker :: "int \<Rightarrow> xdb_worker \<Rightarrow> tables \<Rightarrow> tables" where
  "set_worker h r T = T\<lparr>workers := (workers T)(h \<mapsto> r)\<rparr>"

definition set_letter :: "int \<Rightarrow> xdb_letter \<Rightarrow> tables \<Rightarrow> tables" where
  "set_letter h r T = T\<lparr>letters := (letters T)(h \<mapsto> r)\<rparr>"

definition worker_named :: "string \<Rightarrow> tables \<Rightarrow> int \<Rightarrow> xdb_worker \<Rightarrow> bool" where
  "worker_named s T h r \<longleftrightarrow> workers T h = Some r \<and> w_identity r = s"

definition no_worker_named :: "string \<Rightarrow> tables \<Rightarrow> bool" where
  "no_worker_named s T \<longleftrightarrow> (\<forall>h r. \<not> worker_named s T h r)"

lemma keys_ok_set_worker:
  assumes "keys_ok T" and "workers T h = Some r" and "w_identity r' = w_identity r"
  shows "keys_ok (set_worker h r' T)"
  using assms unfolding keys_ok_def set_worker_def
  by (auto intro!: unique_on_upd dest: unique_onD)

lemma keys_ok_new_worker:
  assumes "keys_ok T" and "no_worker_named (w_identity r) T"
  shows "keys_ok (set_worker h r T)"
  using assms unfolding keys_ok_def set_worker_def no_worker_named_def worker_named_def
  by (auto intro!: unique_on_upd)

lemma keys_ok_set_letter:
  assumes "keys_ok T" and "\<And>i s. i \<noteq> h \<Longrightarrow> letters T i = Some s \<Longrightarrow> l_worker_ref s \<noteq> l_worker_ref r"
  shows "keys_ok (set_letter h r T)"
  using assms unfolding keys_ok_def set_letter_def by (auto intro!: unique_on_upd)

text \<open>How a state is set: arming also clears the letter reference, unless that write fails.\<close>

definition set_state_row :: "bool \<Rightarrow> Worker_State \<Rightarrow> xdb_worker \<Rightarrow> xdb_worker" where
  "set_state_row cl st r = (if cl then r\<lparr>w_letter_ref := 0\<rparr> else r)\<lparr>w_state := st\<rparr>"

definition state_set :: "bool \<Rightarrow> Worker_State \<Rightarrow> Worker \<Rightarrow> tables \<Rightarrow> Worker \<Rightarrow> tables \<Rightarrow> bool" where
  "state_set rel st w T w' T' \<longleftrightarrow>
     (\<exists>cl h r. worker_named (wrk_identity w) T h r \<and> (cl \<longrightarrow> st = ARMED) \<and> (rel \<longrightarrow> st = ARMED \<longrightarrow> cl)
        \<and> T' = set_worker h (set_state_row cl st r) T
        \<and> w' = (if cl then Worker_SetLETTER_ID 0 w else w)\<lparr>wrk_state := st\<rparr>)"

lemma state_setI:
  assumes "workers T h = Some r" and "w_identity r = wrk_identity w"
    and "cl \<longrightarrow> st = ARMED" and "rel \<longrightarrow> st = ARMED \<longrightarrow> cl"
    and "T' = T\<lparr>workers := (workers T)(h \<mapsto> set_state_row cl st r)\<rparr>"
    and "w' = (if cl then Worker_SetLETTER_ID 0 w else w)\<lparr>wrk_state := st\<rparr>"
  shows "state_set rel st w T w' T'"
  using assms unfolding state_set_def worker_named_def set_worker_def by blast

lemma state_set_keys: "state_set rel st w T w' T' \<Longrightarrow> keys_ok T \<Longrightarrow> keys_ok T'"
  unfolding state_set_def
  by (elim exE conjE) (simp add: worker_named_def keys_ok_set_worker set_state_row_def)

text \<open>
  What a lookup gives: an object of a row that qualifies, or nothing; on a reliable engine it is
  exactly the row's object, and nothing only when no row qualifies.
\<close>

definition gives ::
  "bool \<Rightarrow> (int \<Rightarrow> 'r \<Rightarrow> 'w) \<Rightarrow> (int \<Rightarrow> 'r \<Rightarrow> 'w \<Rightarrow> bool) \<Rightarrow> (int \<Rightarrow> 'r \<Rightarrow> bool) \<Rightarrow> 'w option \<Rightarrow> bool" where
  "gives rel mk like P res \<longleftrightarrow>
     (case res of Some w \<Rightarrow> \<exists>i row. P i row \<and> like i row w \<and> (rel \<longrightarrow> w = mk i row)
      | None \<Rightarrow> rel \<longrightarrow> (\<forall>i row. \<not> P i row))"

lemma gives_row: "P i row \<Longrightarrow> gives rel worker_of worker_like P (Some (worker_of i row))"
  unfolding gives_def option.case using worker_like_of by blast

lemma gives_letter: "P i row \<Longrightarrow> gives rel letter_of letter_like P (Some (letter_of i row))"
  unfolding gives_def option.case using letter_like_of by blast

lemma gives_loaded: "(\<And>x. w = Some x \<Longrightarrow> like i row x) \<Longrightarrow> P i row \<Longrightarrow> \<not> rel \<Longrightarrow> gives rel mk like P w"
  by (cases w) (auto simp: gives_def)

context engine_laws
begin

section \<open>Loading\<close>

lemma wp_LoadWorker:
  assumes "at T S n d" and "workers T h = Some r"
    and ok: "\<And>d'. at T S n d' \<Longrightarrow> Q (MCO_S_OK, Some (worker_of h r)) (p, d')"
    and bad: "\<And>rc w d'. \<not> reliable \<Longrightarrow> at T S n d' \<Longrightarrow> (\<And>x. w = Some x \<Longrightarrow> worker_like h r x)
        \<Longrightarrow> Q (rc, w) (p, d')"
  shows "wp (LoadWorker E h) Q R (p, d)"
  unfolding LoadWorker_def Worker_make_Inr Let_def
  by (insert assms(1,2),
      (clarify | simp only: tab_simps | rule decided | rule vcg | (rule call_rules, assumption)
       | (rule bad; (assumption | (clarsimp simp: worker_of_def worker_like_def Worker_SetVALID_def
            Worker_SetSTATE_def Worker_SetEXPIRATION_def row_mark_def; fail)); fail)
       | (use ok in \<open>simp add: worker_of_def Worker_SetVALID_def Worker_SetSTATE_def
            Worker_SetEXPIRATION_def row_mark_def\<close>; fail))+)

lemma wp_LoadLetter:
  assumes "at T S n d" and "letters T h = Some r"
    and ok: "\<And>d'. at T S n d' \<Longrightarrow> Q (MCO_S_OK, Some (letter_of h r)) (p, d')"
    and bad: "\<And>rc l d'. \<not> reliable \<Longrightarrow> at T S n d' \<Longrightarrow> (rc = MCO_S_OK \<longleftrightarrow> l \<noteq> None)
        \<Longrightarrow> (\<And>x. l = Some x \<Longrightarrow> letter_like h r x) \<Longrightarrow> Q (rc, l) (p, d')"
  shows "wp (LoadLetter E h) Q R (p, d)"
  unfolding LoadLetter_def Let_def
  by (insert assms(1,2),
      (clarify | simp only: tab_simps | rule decided | rule vcg | (rule call_rules, assumption)
       | (rule bad; (assumption | (clarsimp simp: letter_of_def letter_like_def letter_object_def row_mark_def
            Letter_SetVALID_def Letter_SetSTATE_def Letter_SetEXPIRATION_def; fail)); fail)
       | (use ok in \<open>simp add: letter_of_def letter_object_def row_mark_def\<close>; fail))+)

section \<open>Workers\<close>

lemma wp_RemoveWorker:
  assumes at: "at T T 0 d" and keys: "keys_ok T"
  shows "wp (RemoveWorker E)
    (\<lambda>b (w', d'). if b
        then \<exists>T'. at T' T' 0 d' \<and> (\<exists>h r. worker_named (wrk_identity w) T h r \<and> w' = w\<lparr>wrk_state := DISARMED\<rparr>
            \<and> T' = set_worker h (r\<lparr>w_state := DISARMED\<rparr>) T) \<and> keys_ok T'
        else at T T 0 d' \<and> (reliable \<longrightarrow> w' = w \<and> no_worker_named (wrk_identity w) T))
    (\<lambda>_ _. False) (w, d)"
  unfolding RemoveWorker_def
proof (rule txn0 [OF at], goal_cases)
  case (1 d1)
  then show ?case
    unfolding RemoveWorker_steps_def
    by - (clarify | simp only: tab_simps | rule decided | rule vcg | (rule call_rules, assumption)
        | (rule put_rules, (simp; fail), assumption)
        | (force simp: worker_named_def no_worker_named_def set_worker_def Worker_SetSTATE_def; fail))+
next
  case (2 x' T')
  then show ?case using keys_ok_set_worker [OF keys] by (fastforce simp: worker_named_def)
qed

end

text \<open>How a worker is armed: its row when it has one, a fresh one otherwise.\<close>

definition armed :: "Worker \<Rightarrow> tables \<Rightarrow> timer_mark \<Rightarrow> Worker \<Rightarrow> tables \<Rightarrow> bool" where
  "armed w T m w' T' \<longleftrightarrow> services T (wrk_service_id w) \<noteq> None \<and>
     ((\<exists>h r. worker_named (wrk_identity w) T h r \<and> T' = set_worker h (armed_row (wrk_service_id w) m r) T
          \<and> w' = (if wrk_id w = 0 then Worker_SetID h w else w))
      \<or> (\<exists>h>0. no_worker_named (wrk_identity w) T \<and> workers T h = None \<and> w' = Worker_SetID h w
          \<and> T' = set_worker h (armed_row (wrk_service_id w) m (new_worker_row\<lparr>w_identity := wrk_identity w\<rparr>)) T))"

lemma armed_found:
  assumes "services T (wrk_service_id w) = Some y" and "w_identity r = wrk_identity w"
    and "workers T h = Some r" and "w' = (if wrk_id w = 0 then Worker_SetID h w else w)"
    and "T' = T\<lparr>workers := (workers T)(h \<mapsto> r\<lparr>w_state := ARMED, w_service_ref := wrk_service_id w,
           w_sec := word_of_int (tv_sec m), w_nsec := word_of_int (tv_nsec m)\<rparr>)\<rparr>"
  shows "armed w T m w' T'"
  using assms unfolding armed_def worker_named_def set_worker_def armed_row_def by blast

lemma armed_fresh:
  assumes "services T (wrk_service_id w) = Some y" and "0 < h" and "workers T h = None"
    and "\<forall>h r. workers T h = Some r \<longrightarrow> w_identity r \<noteq> wrk_identity w" and "w' = Worker_SetID h w"
    and "T' = T\<lparr>workers := (workers T)(h \<mapsto> new_worker_row\<lparr>w_identity := wrk_identity w, w_state := ARMED,
           w_service_ref := wrk_service_id w, w_sec := word_of_int (tv_sec m), w_nsec := word_of_int (tv_nsec m)\<rparr>)\<rparr>"
  shows "armed w T m w' T'"
  using assms unfolding armed_def no_worker_named_def worker_named_def set_worker_def armed_row_def by blast

lemma armed_keys: "armed w T m w' T' \<Longrightarrow> keys_ok T \<Longrightarrow> keys_ok T'"
  unfolding armed_def
proof (elim conjE disjE exE)
  fix h r
  assume "keys_ok T" "worker_named (wrk_identity w) T h r" "T' = set_worker h (armed_row (wrk_service_id w) m r) T"
  then show "keys_ok T'"
    using keys_ok_set_worker [of T h r] by (simp add: worker_named_def armed_row_def)
next
  fix h
  assume "keys_ok T" "no_worker_named (wrk_identity w) T"
    "T' = set_worker h (armed_row (wrk_service_id w) m (new_worker_row\<lparr>w_identity := wrk_identity w\<rparr>)) T"
  then show "keys_ok T'"
    using keys_ok_new_worker [of T] by (simp add: armed_row_def)
qed

definition fresh_mark :: "timer_mark \<Rightarrow> bool" where
  "fresh_mark m \<longleftrightarrow> (\<exists>now. normalised now \<and> m = Mark (tv_sec now + 4) (tv_nsec now))"

context engine_laws
begin

lemma wp_next_expiration:
  assumes "at T S n d" and "\<And>m d'. at T S n d' \<Longrightarrow> (reliable \<longrightarrow> fresh_mark m) \<Longrightarrow> Q m (p, d')"
  shows "wp (next_expiration E) Q R (p, d)"
  unfolding next_expiration_def clock_now_def
  by (insert assms(1), (clarify | rule decided | rule vcg | (rule call_rules, assumption)
       | (rule assms(2), assumption, force simp: fresh_mark_def Worker_CalculateEXPIRATION_TIME_def
            HEARTBEAT_PERIOD_MSEC_def))+)

lemma wp_put_expiration:
  assumes "at T S n d" and "workers T h = Some r"
    and "\<And>u d'. at (T\<lparr>workers := (workers T)(h \<mapsto> r\<lparr>w_sec := word_of_int (tv_sec m), w_nsec := word_of_int (tv_nsec m)\<rparr>)\<rparr>)
          S n d' \<Longrightarrow> Q u (p, d')"
    and "\<And>rc T' d'. rc \<noteq> MCO_S_OK \<Longrightarrow> \<not> reliable \<Longrightarrow> at T' S n d' \<Longrightarrow> R (Brk rc) (p, d')"
  shows "wp (put_expiration E h m) Q R (p, d)"
  unfolding put_expiration_def
  by (insert assms(1,2), (clarify | simp only: tab_simps apply_worker_put.simps | rule decided | rule vcg | (rule call_rules, assumption)
       | (rule put_rules, (simp; fail), assumption)
       | (rule assms(3), simp; fail) | (rule assms(4), assumption, simp, assumption))+)

lemma wp_PushWorker:
  assumes at: "at T T 0 d" and keys: "keys_ok T" and ok: "worker_ok w"
  shows "wp (PushWorker E)
    (\<lambda>b (w', d'). if b
        then \<exists>T'. at T' T' 0 d' \<and> (\<exists>m. armed w T m w' T' \<and> (reliable \<longrightarrow> fresh_mark m)) \<and> keys_ok T'
        else at T T 0 d' \<and> (reliable \<longrightarrow> services T (wrk_service_id w) = None \<and> w' = w))
    (\<lambda>_ _. False) (w, d)"
proof -
  have len: "length (wrk_identity w) \<le> IDENTITY_MAXLEN" "NUL \<notin> set (wrk_identity w)"
    using ok by (simp_all add: worker_ok_def)
  have "wp (run_txn E (PushWorker_steps E))
    (\<lambda>b (w', d'). if b
        then \<exists>T'. at T' T' 0 d' \<and> (\<exists>m. armed w T m w' T' \<and> (reliable \<longrightarrow> fresh_mark m)) \<and> keys_ok T'
        else at T T 0 d' \<and> (reliable \<longrightarrow> services T (wrk_service_id w) = None \<and> w' = w))
    (\<lambda>_ _. False) (w, d)"
  proof (rule txn0 [OF at], goal_cases)
    case (1 d1)
    then show ?case
      unfolding PushWorker_steps_def PushWorker_found_def PushWorker_new_def
      using len
      by - (clarify | simp only: tab_simps apply_worker_put.simps | rule decided
        | (rule wp_next_expiration, assumption) | (rule wp_put_expiration, assumption, (simp; fail))
        | rule vcg | (rule call_rules, assumption)
        | (rule put_rules, (simp; fail), assumption)
        | (rule brk, assumption, assumption, (simp; fail))
        | (simp; fail)
        | (rule fin, assumption, rule exI, rule conjI,
            ((rule armed_found, assumption, assumption, assumption, (simp; fail), (simp; fail))
             | (rule armed_fresh, assumption, assumption, assumption, (simp; fail), (simp; fail), (simp; fail))), assumption))+
  next
    case (2 x' T')
    then show ?case using armed_keys keys by blast
  qed
  then show ?thesis
    unfolding PushWorker_def using len by (intro vcg) (simp_all split: if_splits)
qed

section \<open>Choosing a worker\<close>

end

definition in_state :: "tables \<Rightarrow> int \<Rightarrow> Worker_State \<Rightarrow> int \<Rightarrow> xdb_worker \<Rightarrow> bool" where
  "in_state T sid st i r \<longleftrightarrow> workers T i = Some r \<and> w_service_ref r = sid \<and> w_state r = st"

context engine_laws
begin

lemma wp_find_in_state:
  assumes "at T S n d" and "set hs \<subseteq> dom (workers T)"
    and found: "\<And>i r d'. at T S n d' \<Longrightarrow> in_state T sid st i r \<Longrightarrow> Q (Some i) ((), d')"
    and none: "\<And>d'. at T S n d' \<Longrightarrow> \<forall>i\<in>set hs. \<forall>r. \<not> in_state T sid st i r \<Longrightarrow> Q None ((), d')"
    and err: "\<And>rc d'. rc \<noteq> MCO_S_OK \<Longrightarrow> \<not> reliable \<Longrightarrow> at T S n d' \<Longrightarrow> R (Brk rc) ((), d')"
  shows "wp (find_in_state E sid st hs) Q R ((), d)"
  using assms(1,2) none
proof (induction hs arbitrary: d)
  case Nil
  then show ?case by (simp add: wp_ret)
next
  case (Cons h hs)
  then obtain r where r: "workers T h = Some r" by auto
  have rest: "wp (find_in_state E sid st hs) Q R ((), d')" if "at T S n d'" and "\<not> in_state T sid st h r" for d'
    using that Cons.prems r by (intro Cons.IH) (auto simp: in_state_def)
  have last: "hs = [] \<Longrightarrow> Q None ((), d')" if "at T S n d'" and "\<not> in_state T sid st h r" for d'
    using that Cons.prems(3) r by (auto simp: in_state_def)
  show ?case
    unfolding find_in_state.simps
    by (insert Cons.prems(1) r, (elim conjE exE | hypsubst | simp only: tab_simps | rule decided
        | (rule rest, assumption, (simp add: in_state_def serves_def split: if_splits; fail))
        | (rule last, assumption, (simp add: in_state_def serves_def split: if_splits; fail), assumption)
        | (rule err, assumption, (simp; fail), assumption)
        | (rule found, assumption, (simp add: in_state_def serves_def split: if_splits; fail))
        | rule vcg | (rule call_rules, assumption) | (simp split: if_splits; fail))+)
qed

lemma wp_GetWorkerByState:
  assumes at: "at T T 0 d"
  shows "wp (GetWorkerByState E sid st)
    (\<lambda>r d'. at T T 0 d' \<and> gives reliable worker_of worker_like (in_state T sid st) r) (\<lambda>_ _. False) d"
  (is "wp _ (\<lambda>r d'. _ \<and> ?gives r) _ _")
  unfolding GetWorkerByState_def
proof (intro vcg wp_mono [OF ro [OF at, where Q = "\<lambda>r _. ?gives r" and R = "\<lambda>_ _. ?gives None"]], goal_cases)
  case (1 d1)
  have all: "?gives None"
    if "\<forall>h. serves T h sid \<longrightarrow> h \<in> set hs" "\<forall>i\<in>set hs. \<forall>r. \<not> in_state T sid st i r" for hs
    using that by (auto simp: gives_def in_state_def serves_def)
  have none: "?gives None" if "reliable \<longrightarrow> (\<forall>h. \<not> serves T h sid)"
    using that by (auto simp: gives_def in_state_def serves_def)
  have empty: "?gives None" if "reliable \<longrightarrow> workers T = Map.empty"
    using that by (auto simp: gives_def in_state_def)
  from 1 show ?case
    unfolding GetWorkerByState_steps_def
    by - (elim conjE exE | hypsubst | simp only: tab_simps | rule decided
        | (rule wp_find_in_state, assumption, assumption)
        | (rule wp_LoadWorker, assumption, (simp add: in_state_def; fail))
        | (rule ro_fin, assumption, rule gives_row, assumption)
        | (rule ro_fin, assumption, rule gives_loaded, assumption, assumption, (simp; fail))
        | (rule ro_fin, assumption, rule all, assumption, assumption)
        | (rule ro_brk, assumption, rule none, assumption)
        | (rule ro_brk, assumption, rule empty, (simp; fail))
        | (rule ro_brk, assumption, (simp add: gives_def; fail))
        | rule vcg | (rule call_rules, assumption))+
next
  case (3 x t)
  then show ?case by (auto simp: ro_result_def intro!: vcg split: sum.splits)
qed (auto simp: gives_def)

lemma wp_PopWorker:
  assumes at: "at T T 0 d"
  shows "wp (PopWorker E (Some s) st)
    (\<lambda>r d'. at T T 0 d' \<and> gives reliable worker_of worker_like (in_state T (srv_id s) st) r) (\<lambda>_ _. False) d"
  unfolding PopWorker_def option.case by (rule wp_GetWorkerByState [OF at])

lemma wp_GetWorkerByIdent:
  assumes at: "at T T 0 d"
  shows "wp (GetWorkerByIdent E ident)
    (\<lambda>r d'. at T T 0 d' \<and> gives reliable worker_of worker_like (worker_named (c_str ident) T) r) (\<lambda>_ _. False) d"
  (is "wp _ (\<lambda>r d'. _ \<and> ?gives r) _ _")
  unfolding GetWorkerByIdent_def
proof (intro vcg wp_mono [OF ro [OF at, where Q = "\<lambda>r _. ?gives r" and R = "\<lambda>_ _. ?gives None"]], goal_cases)
  case (1 d1)
  then show ?case
    unfolding GetWorkerByIdent_steps_def
    by - (elim conjE exE | hypsubst | simp only: tab_simps | rule decided
        | (rule wp_LoadWorker, assumption, assumption)
        | (rule ro_fin, assumption, rule gives_row, (simp add: worker_named_def; fail))
        | (rule ro_fin, assumption, rule gives_loaded, assumption, (simp add: worker_named_def; fail), (simp; fail))
        | (rule ro_brk, assumption, (auto simp: gives_def worker_named_def; fail))
        | rule vcg | (rule call_rules, assumption))+
next
  case (3 x t)
  then show ?case by (auto simp: ro_result_def intro!: vcg split: sum.splits)
qed (auto simp: gives_def)

section \<open>States\<close>

lemma wp_SetWorkerState_steps:
  assumes at: "at T S n d1"
  shows "wp (SetWorkerState_steps E st)
    (\<lambda>_ s. \<exists>T'. at T' S n (snd s) \<and> state_set reliable st w T (fst s) T')
    (\<lambda>e s. \<exists>rc T'. e = Brk rc \<and> rc \<noteq> MCO_S_OK \<and> at T' S n (snd s)
       \<and> (reliable \<longrightarrow> no_worker_named (wrk_identity w) T)) (w, d1)"
  unfolding SetWorkerState_steps_def
  by (insert at, (elim conjE exE | hypsubst | simp only: tab_simps apply_worker_put.simps | rule decided | rule vcg
      | (rule call_rules, assumption) | (rule put_rules, (simp; fail), assumption)
      | (rule brk, assumption, assumption, (simp add: no_worker_named_def worker_named_def; fail))
      | (rule fin, assumption, rule state_setI [where cl = True], assumption, assumption, (simp; fail), (simp; fail),
          (simp add: set_state_row_def; fail), (simp add: Worker_SetSTATE_def; fail))
      | (rule fin, assumption, rule state_setI [where cl = False], assumption, assumption, (simp; fail), (simp; fail),
          (simp add: set_state_row_def; fail), (simp add: Worker_SetSTATE_def; fail)))+)

lemma wp_SetWorkerState:
  assumes at: "at T S n d" and TS: "n = 0 \<Longrightarrow> S = T" and keys: "keys_ok T"
  shows "wp (SetWorkerState E st)
    (\<lambda>b (w', d'). if b then \<exists>T'. at T' (if n = 0 then T' else S) n d' \<and> state_set reliable st w T w' T'
        else \<exists>T'. at T' S n d' \<and> (n = 0 \<longrightarrow> T' = T) \<and> (reliable \<longrightarrow> no_worker_named (wrk_identity w) T))
    (\<lambda>_ _. False) (w, d)"
  unfolding SetWorkerState_def
  by (rule wp_mono [OF txn [OF at TS wp_SetWorkerState_steps]], assumption)
    (use state_set_keys keys in \<open>auto split: if_splits\<close>)

section \<open>Waiting letters\<close>

end

definition waiting :: "tables \<Rightarrow> int \<Rightarrow> int \<Rightarrow> xdb_letter \<Rightarrow> bool" where
  "waiting T sid i r \<longleftrightarrow> letters T i = Some r \<and> l_service_ref r = sid \<and> l_state r = UNASSIGNED"

lemma let_state_letter_of [simp]: "let_state (letter_of i r) = l_state r"
  by (simp add: letter_of_def letter_object_def Letter_SetVALID_def Letter_SetSTATE_def)

lemma letter_like_state: "letter_like i r l \<Longrightarrow> let_state l = l_state r"
  unfolding letter_like_def by (drule arg_cong [where f = let_state]) simp

context engine_laws
begin

lemma wp_find_waiting:
  assumes "at T S n d" and "set hs \<subseteq> dom (letters T)"
    and found: "\<And>i r l d'. at T S n d' \<Longrightarrow> waiting T sid i r \<Longrightarrow> letter_like i r l \<Longrightarrow> (reliable \<longrightarrow> l = letter_of i r)
        \<Longrightarrow> Q (Some l) ((), d')"
    and none: "\<And>d'. at T S n d' \<Longrightarrow> (reliable \<longrightarrow> (\<forall>i\<in>set hs. \<forall>r. \<not> waiting T sid i r)) \<Longrightarrow> Q None ((), d')"
    and err: "\<And>rc d'. \<not> reliable \<Longrightarrow> at T S n d' \<Longrightarrow> R (Brk rc) ((), d')"
  shows "wp (find_waiting E sid hs) Q R ((), d)"
  using assms(1,2) none
proof (induction hs arbitrary: d)
  case Nil
  then show ?case by (simp add: wp_ret)
next
  case (Cons h hs)
  then obtain r where r: "letters T h = Some r" by auto
  have rest: "wp (find_waiting E sid hs) Q R ((), d')" if "at T S n d'" and "reliable \<longrightarrow> \<not> waiting T sid h r" for d'
    using that Cons.prems r by (intro Cons.IH) (auto simp: waiting_def)
  have last: "hs = [] \<Longrightarrow> Q None ((), d')" if "at T S n d'" and "reliable \<longrightarrow> \<not> waiting T sid h r" for d'
    using that Cons.prems(3) r by (auto simp: waiting_def)
  have hit: "wp (LoadLetter E h) (\<lambda>x. wp (case x of (rc, None) \<Rightarrow> raise (Brk rc)
        | (rc, Some l) \<Rightarrow> sq (assert_c (let_state l = UNASSIGNED)) (ret (Some l))) Q R) R ((), d')"
    if "at T S n d'" "waiting T sid h r" for d'
    by (rule wp_LoadLetter [OF that(1) r]; (rule decided | rule vcg)+)
      (use that found err in \<open>auto simp: waiting_def letter_like_state split: option.splits intro!: vcg\<close>)
  have key: "queued T h sid UNASSIGNED \<longleftrightarrow> waiting T sid h r"
    using r by (auto simp: queued_def waiting_def)
  show ?case
    unfolding find_waiting.simps
    by (insert Cons.prems(1) r, (elim conjE exE | hypsubst | simp only: tab_simps key | rule decided
        | (rule rest, assumption, (simp; fail))
        | (rule last, assumption, (simp; fail), assumption)
        | (rule hit, assumption, (simp; fail))
        | (rule err, (simp; fail), assumption)
        | rule vcg | (rule call_rules, assumption) | (simp; fail))+)
qed

end

end
