(* ===== verification/BrokerLetters.thy ===== *)
theory BrokerLetters
  imports BrokerContract
begin

text \<open>
  What the letter operations of \<open>DatabaseBrokerImpl\<close> do to the tables: queueing a letter,
  finding the next one, giving it to a worker, releasing it.  These are the methods in which a
  \<open>break\<close> can be reached with \<open>rc\<close> still \<open>MCO_S_OK\<close>, so their lemmas name the case in which
  success is reported and the transaction is left open.
\<close>

context engine_laws
begin

lemma wp_GetWaitingLetter:
  assumes at: "at T T 0 d"
  shows "wp (GetWaitingLetter E (Some s))
    (\<lambda>r d'. at T T 0 d' \<and> gives reliable letter_of letter_like (waiting T (srv_id s)) r) (\<lambda>_ _. False) d"
  (is "wp _ (\<lambda>r d'. _ \<and> ?gives r) _ _")
  unfolding GetWaitingLetter_def option.case
proof (intro vcg wp_mono [OF ro [OF at, where Q = "\<lambda>r _. ?gives r" and R = "\<lambda>_ _. ?gives None"]], goal_cases)
  case (1 d1)
  have some: "?gives (Some l)"
    if "waiting T (srv_id s) i r" "letter_like i r l" "reliable \<longrightarrow> l = letter_of i r" for i r l
    using that by (auto simp: gives_def)
  have all: "?gives None"
    if "\<forall>h. queued T h (srv_id s) UNASSIGNED \<longrightarrow> h \<in> set hs" "reliable \<longrightarrow> (\<forall>i\<in>set hs. \<forall>r. \<not> waiting T (srv_id s) i r)" for hs
    using that by (auto simp: gives_def waiting_def queued_def)
  have none: "?gives None" if "reliable \<longrightarrow> (\<forall>h. \<not> queued T h (srv_id s) UNASSIGNED)"
    using that by (auto simp: gives_def waiting_def queued_def)
  have empty: "?gives None" if "reliable \<longrightarrow> letters T = Map.empty"
    using that by (auto simp: gives_def waiting_def)
  from 1 show ?case
    unfolding GetWaitingLetter_steps_def
    by - (elim conjE exE | hypsubst | simp only: tab_simps | rule decided
        | (rule wp_find_waiting, assumption, assumption)
        | (rule ro_fin, assumption, rule some, assumption, assumption, assumption)
        | (rule ro_fin, assumption, rule all, assumption, assumption)
        | (rule ro_brk, assumption, rule none, assumption)
        | (rule ro_brk, assumption, rule empty, (simp; fail))
        | (rule ro_brk, assumption, (simp add: gives_def; fail))
        | rule vcg | (rule call_rules, assumption))+
next
  case (3 x t)
  then show ?case by (auto simp: ro_result_def intro!: vcg split: sum.splits)
qed (auto simp: gives_def)

section \<open>Writes whose code is dropped\<close>

lemma wp_try_worker_sec:
  assumes "at T S n d" and "workers T h = Some r"
    and "\<And>s' x d'. at (T\<lparr>workers := (workers T)(h \<mapsto> r\<lparr>w_sec := s'\<rparr>)\<rparr>) S n d' \<Longrightarrow> (reliable \<longrightarrow> s' = s) \<Longrightarrow> Q x (p, d')"
  shows "wp (db_try (c_put (XDBWorker E) (PutSec s) h)) Q R (p, d)"
proof -
  have same: "T\<lparr>workers := (workers T)(h \<mapsto> r\<lparr>w_sec := w_sec r\<rparr>)\<rparr> = T"
    using assms(2) by (simp add: fun_upd_idem)
  show ?thesis
    by (insert assms(1,2), (elim conjE exE | hypsubst | simp only: tab_simps apply_worker_put.simps | rule vcg
        | (rule put_rules, (simp; fail), assumption)
        | (rule assms(3) [where s' = s], assumption, (simp; fail))
        | (rule assms(3) [where s' = "w_sec r", unfolded same], assumption, (simp; fail)))+)
qed

lemma wp_try_worker_nsec:
  assumes "at T S n d" and "workers T h = Some r"
    and "\<And>s' x d'. at (T\<lparr>workers := (workers T)(h \<mapsto> r\<lparr>w_nsec := s'\<rparr>)\<rparr>) S n d' \<Longrightarrow> (reliable \<longrightarrow> s' = s) \<Longrightarrow> Q x (p, d')"
  shows "wp (db_try (c_put (XDBWorker E) (PutNsec s) h)) Q R (p, d)"
proof -
  have same: "T\<lparr>workers := (workers T)(h \<mapsto> r\<lparr>w_nsec := w_nsec r\<rparr>)\<rparr> = T"
    using assms(2) by (simp add: fun_upd_idem)
  show ?thesis
    by (insert assms(1,2), (elim conjE exE | hypsubst | simp only: tab_simps apply_worker_put.simps | rule vcg
        | (rule put_rules, (simp; fail), assumption)
        | (rule assms(3) [where s' = s], assumption, (simp; fail))
        | (rule assms(3) [where s' = "w_nsec r", unfolded same], assumption, (simp; fail)))+)
qed

lemma wp_try_letter_sec:
  assumes "at T S n d" and "letters T h = Some r"
    and "\<And>s' x d'. at (T\<lparr>letters := (letters T)(h \<mapsto> r\<lparr>l_sec := s'\<rparr>)\<rparr>) S n d' \<Longrightarrow> (reliable \<longrightarrow> s' = s) \<Longrightarrow> Q x (p, d')"
  shows "wp (db_try (c_put (XDBLetter E) (PutLSec s) h)) Q R (p, d)"
proof -
  have same: "T\<lparr>letters := (letters T)(h \<mapsto> r\<lparr>l_sec := l_sec r\<rparr>)\<rparr> = T"
    using assms(2) by (simp add: fun_upd_idem)
  show ?thesis
    by (insert assms(1,2), (elim conjE exE | hypsubst | simp only: tab_simps apply_letter_put.simps | rule vcg
        | (rule put_rules, (simp; fail), assumption)
        | (rule assms(3) [where s' = s], assumption, (simp; fail))
        | (rule assms(3) [where s' = "l_sec r", unfolded same], assumption, (simp; fail)))+)
qed

lemma wp_try_letter_nsec:
  assumes "at T S n d" and "letters T h = Some r"
    and "\<And>s' x d'. at (T\<lparr>letters := (letters T)(h \<mapsto> r\<lparr>l_nsec := s'\<rparr>)\<rparr>) S n d' \<Longrightarrow> (reliable \<longrightarrow> s' = s) \<Longrightarrow> Q x (p, d')"
  shows "wp (db_try (c_put (XDBLetter E) (PutLNsec s) h)) Q R (p, d)"
proof -
  have same: "T\<lparr>letters := (letters T)(h \<mapsto> r\<lparr>l_nsec := l_nsec r\<rparr>)\<rparr> = T"
    using assms(2) by (simp add: fun_upd_idem)
  show ?thesis
    by (insert assms(1,2), (elim conjE exE | hypsubst | simp only: tab_simps apply_letter_put.simps | rule vcg
        | (rule put_rules, (simp; fail), assumption)
        | (rule assms(3) [where s' = s], assumption, (simp; fail))
        | (rule assms(3) [where s' = "l_nsec r", unfolded same], assumption, (simp; fail)))+)
qed

lemma wp_try_same:
  assumes "obeys tabs saved depth c P F" and "at T S n d" and "\<And>T' x T''. P T' x T'' \<Longrightarrow> T'' = T'"
    and "\<And>x d'. at T S n d' \<Longrightarrow> Q x (p, d')"
  shows "wp (db_try c) Q R (p, d)"
  by (rule wp_db_try, rule wp_call [OF assms(1,2)]) (use assms(3,4) in blast)+

section \<open>Assigning\<close>

end

definition limit :: "timer_mark \<Rightarrow> 32 word" where
  "limit now = word_of_int (tv_sec now + MESSAGE_EXPIRATION_PERIOD_MSEC)"

context engine_laws
begin

lemma wp_AssignLetter_times:
  assumes at: "at T S n d" and l: "letters T l = Some lr" and w: "workers T w = Some wr"
    and ok: "\<And>ls ln ws wn u d'.
        at (T\<lparr>workers := (workers T)(w \<mapsto> wr\<lparr>w_sec := ws, w_nsec := wn\<rparr>),
              letters := (letters T)(l \<mapsto> lr\<lparr>l_sec := ls, l_nsec := ln\<rparr>)\<rparr>) S n d'
        \<Longrightarrow> (reliable \<longrightarrow> ls = limit now \<and> ws = limit now \<and> ln = word_of_int (tv_nsec now) \<and> wn = word_of_int (tv_nsec now))
        \<Longrightarrow> Q u (p, d')"
    and leak: "\<And>T' d'. \<not> reliable \<Longrightarrow> at T' S n d' \<Longrightarrow> R (Brk MCO_S_OK) (p, d')"
  shows "wp (AssignLetter_times E l w now) Q R (p, d)"
  unfolding AssignLetter_times_def Let_def limit_def [symmetric]
  by (insert at l w, (elim conjE exE | hypsubst | simp only: tab_simps | rule decided
      | (rule wp_bnd, rule wp_try_same [OF ltr.access], assumption, blast)
      | (rule wp_bnd, rule wp_try_same [OF wkr.access], assumption, blast)
      | (rule wp_bnd, rule wp_try_letter_sec, assumption, (simp only: tab_simps; fail))
      | (rule wp_bnd, rule wp_try_letter_nsec, assumption, (simp only: tab_simps; fail))
      | (rule wp_bnd, rule wp_try_worker_sec, assumption, (simp only: tab_simps; fail))
      | (rule wp_bnd, rule wp_try_worker_nsec, assumption, (simp only: tab_simps; fail))
      | (rule wp_bnd, rule wp_db_try, rule call_rules, assumption)
      | (rule ok, assumption, (simp; fail)) | (rule leak, (simp; fail), assumption)
      | rule wp_ret | rule wp_raise)+)

end

definition assigned ::
  "Worker \<Rightarrow> Letter \<Rightarrow> 32 word \<Rightarrow> 32 word \<Rightarrow> 32 word \<Rightarrow> 32 word \<Rightarrow> tables \<Rightarrow> tables \<Rightarrow> bool" where
  "assigned w l ls ln ws wn T T' \<longleftrightarrow>
     (\<exists>lr wr. letters T (let_id l) = Some lr \<and> workers T (wrk_id w) = Some wr
        \<and> T' = T\<lparr>workers := (workers T)(wrk_id w \<mapsto>
                   wr\<lparr>w_sec := ws, w_nsec := wn, w_state := OCCUPIED, w_letter_ref := let_id l\<rparr>),
                letters := (letters T)(let_id l \<mapsto>
                   lr\<lparr>l_sec := ls, l_nsec := ln, l_state := ASSIGNED, l_worker_ref := wrk_id w\<rparr>)\<rparr>)"

text \<open>Another letter already has the worker's id in its unique reference field.\<close>

definition taken :: "tables \<Rightarrow> Worker \<Rightarrow> Letter \<Rightarrow> bool" where
  "taken T w l \<longleftrightarrow> (\<exists>i r. i \<noteq> let_id l \<and> letters T i = Some r \<and> l_worker_ref r = wrk_id w)"

lemma assigned_keys:
  assumes "assigned w l ls ln ws wn T T'" and keys: "keys_ok T" and "\<not> taken T w l"
  shows "keys_ok T'"
proof -
  obtain lr wr where "letters T (let_id l) = Some lr" "workers T (wrk_id w) = Some wr"
    and T': "T' = set_letter (let_id l) (lr\<lparr>l_sec := ls, l_nsec := ln, l_state := ASSIGNED, l_worker_ref := wrk_id w\<rparr>)
      (set_worker (wrk_id w) (wr\<lparr>w_sec := ws, w_nsec := wn, w_state := OCCUPIED, w_letter_ref := let_id l\<rparr>) T)"
    using assms(1) by (auto simp: assigned_def set_letter_def set_worker_def)
  then have "keys_ok (set_worker (wrk_id w)
      (wr\<lparr>w_sec := ws, w_nsec := wn, w_state := OCCUPIED, w_letter_ref := let_id l\<rparr>) T)"
    by (intro keys_ok_set_worker [OF keys]) simp_all
  then show ?thesis
    unfolding T' by (rule keys_ok_set_letter) (use assms(3) in \<open>auto simp: taken_def set_worker_def\<close>)
qed

definition assign_outcome :: "bool \<Rightarrow> Worker \<Rightarrow> Letter \<Rightarrow> tables \<Rightarrow> Worker \<times> Letter \<Rightarrow> tables \<Rightarrow> bool" where
  "assign_outcome rel w l T x T' \<longleftrightarrow> (\<exists>ls ln ws wn. assigned w l ls ln ws wn T T'
      \<and> (rel \<longrightarrow> (\<exists>now. normalised now \<and> ls = limit now \<and> ws = limit now
            \<and> ln = word_of_int (tv_nsec now) \<and> wn = word_of_int (tv_nsec now)))
      \<and> x = (w\<lparr>wrk_state := OCCUPIED\<rparr>, Letter_SetWORKER_ID (wrk_id w) (Letter_SetSTATE ASSIGNED l)))"

context engine_laws
begin

lemma assign_outcomeI:
  assumes "workers T (wrk_id w) = Some wr" and "letters T (let_id l) = Some lr"
    and "reliable \<longrightarrow> ls = limit now \<and> ws = limit now \<and> ln = word_of_int (tv_nsec now) \<and> wn = word_of_int (tv_nsec now)"
    and "normalised now"
    and "T' = T\<lparr>workers := (workers T)(wrk_id w \<mapsto>
                   wr\<lparr>w_sec := ws, w_nsec := wn, w_state := OCCUPIED, w_letter_ref := let_id l\<rparr>),
                letters := (letters T)(let_id l \<mapsto>
                   lr\<lparr>l_sec := ls, l_nsec := ln, l_state := ASSIGNED, l_worker_ref := wrk_id w\<rparr>)\<rparr>"
    and "x = (w\<lparr>wrk_state := OCCUPIED\<rparr>, Letter_SetWORKER_ID (wrk_id w) (Letter_SetSTATE ASSIGNED l))"
  shows "assign_outcome reliable w l T x T'"
  using assms unfolding assign_outcome_def assigned_def by blast

lemma wp_AssignLetterToWorker:
  assumes at: "at T T 0 d" and keys: "keys_ok T"
  shows "wp (AssignLetterToWorker E)
    (\<lambda>b (x, d'). if b then (\<exists>T'. at T' T' 0 d' \<and> assign_outcome reliable w l T x T' \<and> keys_ok T')
          \<or> \<not> reliable \<and> (\<exists>T'. at T' T 1 d')
        else at T T 0 d'
          \<and> (reliable \<longrightarrow> letters T (let_id l) = None \<or> workers T (wrk_id w) = None \<or> taken T w l))
    (\<lambda>_ _. False) ((w, l), d)"
  unfolding AssignLetterToWorker_def
proof (rule wp_mono [OF txn0_leak [OF at, where leak = "\<not> reliable" and Q = "assign_outcome reliable w l T"
    and R = "\<lambda>_. letters T (let_id l) = None \<or> workers T (wrk_id w) = None \<or> taken T w l"]], goal_cases)
  case (1 d1)
  then show ?case
    unfolding AssignLetter_steps_def AssignLetter_links_def clock_now_def
    by - (elim conjE exE | hypsubst | simp only: tab_simps apply_worker_put.simps apply_letter_put.simps sum.case option.case not_None_eq
        | rule decided
        | (rule wp_AssignLetter_times, assumption, (simp; fail), (simp; fail))
        | rule vcg | (rule call_rules, assumption) | (rule put_rules, (simp; fail), assumption)
        | (rule brk_leak, assumption, assumption, (simp; fail))
        | (rule fin, assumption, rule assign_outcomeI, assumption, assumption, assumption, assumption,
            (simp; fail), (simp add: Worker_SetSTATE_def; fail))
        | (auto; fail))+
next
  case (2 x' T')
  then show ?case using assigned_keys keys by (auto simp: assign_outcome_def)
qed (auto split: if_splits)

section \<open>Releasing\<close>

end

text \<open>On a reliable engine, for a worker that is stored and whose letter belongs to its service.\<close>

definition released :: "Worker \<Rightarrow> tables \<Rightarrow> Worker \<Rightarrow> tables \<Rightarrow> bool" where
  "released w T w' T' \<longleftrightarrow>
     (\<exists>l lr h r. letters T l = Some lr \<and> l_worker_ref lr = wrk_id w \<and> worker_named (wrk_identity w) T h r
        \<and> T' = T\<lparr>workers := (workers T)(h \<mapsto> r\<lparr>w_letter_ref := 0, w_state := ARMED\<rparr>),
                letters := (letters T)(l := None)\<rparr>
        \<and> w' = (Worker_SetLETTER_ID 0 w)\<lparr>wrk_state := ARMED\<rparr>)"

lemma keys_ok_del_letter: "keys_ok T \<Longrightarrow> keys_ok (T\<lparr>letters := (letters T)(l := None)\<rparr>)"
  by (simp add: keys_ok_def unique_on_del)

lemma released_keys: "released w T w' T' \<Longrightarrow> keys_ok T \<Longrightarrow> keys_ok T'"
  unfolding released_def
proof (elim exE conjE)
  fix l h r
  assume "keys_ok T" and w: "worker_named (wrk_identity w) T h r"
    and T': "T' = T\<lparr>workers := (workers T)(h \<mapsto> r\<lparr>w_letter_ref := 0, w_state := ARMED\<rparr>),
       letters := (letters T)(l := None)\<rparr>"
  then have "keys_ok (set_worker h (r\<lparr>w_letter_ref := 0, w_state := ARMED\<rparr>) T)"
    by (intro keys_ok_set_worker [where r = r]) (simp_all add: worker_named_def)
  then show "keys_ok T'"
    using keys_ok_del_letter [of "set_worker h (r\<lparr>w_letter_ref := 0, w_state := ARMED\<rparr>) T" l]
    by (simp add: T' set_worker_def)
qed

context engine_laws
begin

lemma releasedI:
  assumes "state_set reliable ARMED w (T\<lparr>letters := (letters T)(l := None)\<rparr>) w1 T1" and reliable
    and "letters T l = Some lr" and "l_worker_ref lr = wrk_id w"
  shows "released w T (Worker_SetSTATE ARMED w1) T1"
proof -
  from assms(1,2) obtain h r where "worker_named (wrk_identity w) T h r"
    "T1 = T\<lparr>workers := (workers T)(h \<mapsto> r\<lparr>w_letter_ref := 0, w_state := ARMED\<rparr>),
        letters := (letters T)(l := None)\<rparr>"
    "w1 = (Worker_SetLETTER_ID 0 w)\<lparr>wrk_state := ARMED\<rparr>"
    by (auto simp: state_set_def set_state_row_def set_worker_def worker_named_def)
  with assms(3,4) show ?thesis
    unfolding released_def Worker_SetSTATE_def by - (intro exI conjI, assumption+, simp)
qed

end

text \<open>The letters that refer to the worker belong to its service, which the method asserts.\<close>

definition owns_letters :: "Worker \<Rightarrow> tables \<Rightarrow> bool" where
  "owns_letters w T \<longleftrightarrow>
     (\<forall>i r. letters T i = Some r \<longrightarrow> l_worker_ref r = wrk_id w \<longrightarrow> l_service_ref r = wrk_service_id w)"

lemma owns_letters_unique:
  assumes "keys_ok T" and "letters T l = Some lr" and "l_worker_ref lr = wrk_id w" and "l_service_ref lr = wrk_service_id w"
  shows "owns_letters w T"
  using assms by (auto simp: owns_letters_def keys_ok_def dest: unique_onD)

context engine_laws
begin

lemma wp_Release_crash:
  assumes at: "at T T 0 d" and keys: "keys_ok T" and rel: reliable
    and stored: "\<not> no_worker_named (wrk_identity w) T"
  shows "wp (ReleaseLetterFromWorker E)
    (\<lambda>b (w', d'). if b then \<exists>T'. at T' T' 0 d' \<and> released w T w' T' \<and> owns_letters w T \<and> keys_ok T'
        else at T T 0 d' \<and> w' = w \<and> (\<forall>i r. letters T i = Some r \<longrightarrow> l_worker_ref r \<noteq> wrk_id w))
    (\<lambda>f _. f = AssertFailed \<and> \<not> owns_letters w T) (w, d)"
  unfolding ReleaseLetterFromWorker_def
proof (rule wp_mono [OF txn0_crash [OF at, where Q = "\<lambda>w' T'. released w T w' T' \<and> owns_letters w T"
    and R = "\<lambda>w'. w' = w \<and> (\<forall>i r. letters T i = Some r \<longrightarrow> l_worker_ref r \<noteq> wrk_id w)"
    and C = "\<lambda>f. f = AssertFailed \<and> \<not> owns_letters w T"]], goal_cases)
  case (1 d1)
  have nested: "wp (SetWorkerState E ARMED) Q R (w, d')"
    if a: "at (T\<lparr>letters := (letters T)(l := None)\<rparr>) T 1 d'"
      and Q: "\<And>w1 T1 d1. state_set reliable ARMED w (T\<lparr>letters := (letters T)(l := None)\<rparr>) w1 T1 \<Longrightarrow> at T1 T 1 d1
        \<Longrightarrow> Q True (w1, d1)" for l d' Q R
    by (rule wp_mono [OF wp_SetWorkerState [OF a _ keys_ok_del_letter [OF keys]]])
      (use stored rel Q in \<open>auto simp: no_worker_named_def worker_named_def split: if_splits\<close>)
  from 1 show ?case
    unfolding Release_steps_def Release_check_def
    by - (elim conjE exE | hypsubst
        | simp only: tab_simps apply_worker_put.simps apply_letter_put.simps sum.case option.case not_None_eq
        | rule decided | (rule wp_nested, rule nested, assumption)
        | rule vcg | (rule call_rules, assumption) | (rule put_rules, (simp; fail), assumption)
        | (rule disjI1, rule brk, assumption, assumption, (simp; fail))
        | (rule fin, assumption, simp only: fst_conv, rule conjI, rule releasedI, assumption, rule rel, assumption, assumption,
             rule owns_letters_unique [OF keys], assumption, assumption, (simp; fail))
        | (use rel in \<open>auto simp: owns_letters_def; fail\<close>))+
next
  case (2 x' T')
  then show ?case using released_keys keys by blast
qed (use rel in \<open>auto split: if_splits\<close>)

lemma wp_ReleaseLetterFromWorker:
  assumes "at T T 0 d" and "keys_ok T" and reliable and "\<not> no_worker_named (wrk_identity w) T"
    and own: "owns_letters w T"
  shows "wp (ReleaseLetterFromWorker E)
    (\<lambda>b (w', d'). if b then \<exists>T'. at T' T' 0 d' \<and> released w T w' T' \<and> keys_ok T'
        else at T T 0 d' \<and> w' = w \<and> (\<forall>i r. letters T i = Some r \<longrightarrow> l_worker_ref r \<noteq> wrk_id w))
    (\<lambda>_ _. False) (w, d)"
  by (rule wp_mono [OF wp_Release_crash [OF assms(1-4)]]) (use own in auto)

section \<open>States of letters\<close>

lemma wp_SetLetterState:
  assumes at: "at T T 0 d" and keys: "keys_ok T"
  shows "wp (SetLetterState E st)
    (\<lambda>b (l', d'). if b then \<exists>T'. at T' T' 0 d'
          \<and> (\<exists>r. letters T (let_id l) = Some r \<and> T' = set_letter (let_id l) (r\<lparr>l_state := st\<rparr>) T
                \<and> l' = l\<lparr>let_state := st\<rparr>) \<and> keys_ok T'
        else at T T 0 d' \<and> (reliable \<longrightarrow> letters T (let_id l) = None))
    (\<lambda>_ _. False) (l, d)"
  unfolding SetLetterState_def
proof (rule txn0 [OF at], goal_cases)
  case (1 d1)
  then show ?case
    unfolding SetLetterState_steps_def
    by - (elim conjE exE | hypsubst
        | simp only: tab_simps apply_letter_put.simps not_None_eq
        | rule decided | rule vcg | (rule call_rules, assumption) | (rule put_rules, (simp; fail), assumption)
        | (rule brk, assumption, assumption, (simp; fail))
        | (rule fin, assumption, rule exI, (simp add: set_letter_def Letter_SetSTATE_def; fail)))+
next
  case (2 x' T')
  then obtain r where "letters T (let_id l) = Some r" "T' = set_letter (let_id l) (r\<lparr>l_state := st\<rparr>) T" by blast
  moreover have "unique_on l_worker_ref (letters T)"
    using keys by (simp add: keys_ok_def)
  ultimately have "keys_ok T'"
    using keys_ok_set_letter [OF keys, of "let_id l" "r\<lparr>l_state := st\<rparr>"] by (auto dest: unique_onD)
  with 2 show ?case by simp
qed

section \<open>Queueing\<close>

end

definition queued_row :: "int \<Rightarrow> int \<Rightarrow> Letter \<Rightarrow> 32 word \<Rightarrow> 32 word \<Rightarrow> xdb_letter" where
  "queued_row sid i l ls ln =
     \<lparr>l_service_ref = sid, l_worker_ref = i, l_state = UNASSIGNED, l_origin = let_reply_to l, l_sec = ls,
      l_nsec = ln, l_header = let_header l, l_body = let_data l\<rparr>"

definition pushed :: "int \<Rightarrow> Letter \<Rightarrow> tables \<Rightarrow> Letter \<Rightarrow> tables \<Rightarrow> bool" where
  "pushed sid l T l' T' \<longleftrightarrow>
     (\<exists>i ls ln. 0 < i \<and> letters T i = None \<and> T' = set_letter i (queued_row sid i l ls ln) T \<and> let_id l' = i)"

text \<open>A stored letter refers to an id that no letter has yet.\<close>

definition ref_ahead :: "tables \<Rightarrow> bool" where
  "ref_ahead T \<longleftrightarrow> (\<exists>i>0. letters T i = None \<and> (\<exists>j r. letters T j = Some r \<and> l_worker_ref r = i))"

lemma pushed_keys: "pushed sid l T l' T' \<Longrightarrow> keys_ok T \<Longrightarrow> \<not> ref_ahead T \<Longrightarrow> keys_ok T'"
  unfolding pushed_def ref_ahead_def by (auto simp: queued_row_def intro!: keys_ok_set_letter)

context engine_laws
begin

lemma wp_PushRequest_time:
  assumes at: "at T S n d" and l: "letters T l = Some lr"
    and ok: "\<And>ls ln u p' d'. at (T\<lparr>letters := (letters T)(l \<mapsto> lr\<lparr>l_nsec := ln, l_sec := ls\<rparr>)\<rparr>) S n d'
        \<Longrightarrow> (\<exists>m. p' = p\<lparr>let_expiration := m\<rparr>) \<Longrightarrow> Q u (p', d')"
  shows "wp (PushRequest_time E l) Q R (p, d)"
proof -
  have p: "\<exists>m. p = p\<lparr>let_expiration := m\<rparr>" by (rule exI [of _ "let_expiration p"]) simp
  show ?thesis
    unfolding PushRequest_time_def Let_def clock_now_def
    by (insert at l, (elim conjE exE | hypsubst | simp only: tab_simps sum.case option.case | rule decided
      | (rule wp_bnd, rule wp_try_letter_sec, assumption, (simp only: tab_simps; fail))
      | (rule wp_bnd, rule wp_try_letter_nsec, assumption, (simp only: tab_simps; fail))
      | (rule ok, assumption, rule p) | (rule ok, assumption, rule exI, (simp add: Letter_SetEXPIRATION_def; fail))
      | rule wp_bnd | rule wp_set_obj | rule wp_ret | rule wp_db_try | (rule call_rules, assumption) | rule wp_case_option)+)
qed

end

lemma pushedI:
  assumes "0 < i" and "letters T i = None"
    and "T' = T\<lparr>letters := (letters T)(i \<mapsto> queued_row sid i l ls ln)\<rparr>" and "let_id l' = i"
  shows "pushed sid l T l' T'"
  using assms unfolding pushed_def set_letter_def by blast

context engine_laws
begin

lemma wp_PushRequestToService:
  assumes at: "at T T 0 d" and keys: "keys_ok T" and ok: "letter_ok l"
    and "length (let_header l) < 65536" and "length (let_data l) < 65536"
  shows "wp (PushRequestToService E (Some s))
    (\<lambda>b (l', d'). if b then (\<exists>T'. at T' T' 0 d' \<and> pushed (srv_id s) l T l' T' \<and> keys_ok T')
          \<or> \<not> reliable \<and> (\<exists>T'. at T' T 1 d')
        else at T T 0 d' \<and> (reliable \<longrightarrow> ref_ahead T))
    (\<lambda>_ _. False) (l, d)"
  unfolding PushRequestToService_def option.case
proof (rule wp_mono [OF txn0_leak [OF at, where leak = "\<not> reliable" and Q = "pushed (srv_id s) l T"
    and R = "\<lambda>_. ref_ahead T"]], goal_cases)
  case (1 d1)
  have fits: "letter_fits (PutHeader (let_header l))" "letter_fits (PutBody (let_data l))"
    "letter_fits (PutOrigin (let_reply_to l))"
    using assms by (simp_all add: letter_ok_def)
  note setters = Letter_SetID_def Letter_SetSERVICE_ID_def Letter_SetWORKER_ID_def Letter_SetSTATE_def
  from 1 show ?case
    unfolding PushRequest_steps_def PushRequest_text_def setters
    by - (elim conjE exE | hypsubst
        | simp only: tab_simps apply_letter_put.simps sum.case option.case not_None_eq Letter.simps
        | rule decided | (rule wp_PushRequest_time, assumption, (simp only: tab_simps; fail))
        | rule vcg | (rule call_rules, assumption)
        | (rule put_rules, (use fits in \<open>simp; fail\<close>), assumption)
        | (rule brk_leak, assumption, assumption, (simp; fail))
        | (rule fin, assumption, rule pushedI, assumption, assumption,
            (simp add: queued_row_def new_letter_row_def; fail), (simp; fail))
        | (auto; fail))+
next
  case (2 x' T')
  then show ?case using pushed_keys keys by blast
qed (auto split: if_splits)

end

end
