(* ===== verification/BrokerDb.thy ===== *)
theory BrokerDb
  imports BrokerLetters
begin

text \<open>
  The rest of xdb_impl_db_broker.cpp: the list of services that is read from the database
  (\<open>ServiceList\<close>), the loops over it, the emptying of the database, and the state of a
  \<open>DatabaseBrokerImpl\<close>, which is the database and that list.
\<close>

section \<open>ServiceList\<close>

definition MAX_SERVICES_ENTRY :: nat where
  "MAX_SERVICES_ENTRY = 400"

record ServiceList =
  sl_index :: int
  sl_array :: "Service option list"
  sl_size :: int

definition ServiceList_new :: ServiceList where
  "ServiceList_new = \<lparr>sl_index = 0, sl_array = replicate MAX_SERVICES_ENTRY None, sl_size = 0\<rparr>"

definition sl_first :: "ServiceList \<Rightarrow> Service option \<times> ServiceList" where
  "sl_first l = (sl_array l ! 0, l\<lparr>sl_index := (if sl_size l \<noteq> 0 then 1 else 0)\<rparr>)"

definition sl_last :: "ServiceList \<Rightarrow> Service option \<times> ServiceList" where
  "sl_last l =
     (let i = (if sl_size l = 0 then sl_size l else sl_size l - 1) in
      (sl_array l ! nat i, l\<lparr>sl_index := i\<rparr>))"

definition sl_next :: "ServiceList \<Rightarrow> Service option \<times> ServiceList" where
  "sl_next l =
     (if sl_index l < sl_size l
      then (sl_array l ! nat (sl_index l), l\<lparr>sl_index := sl_index l + 1\<rparr>) else (None, l))"

text \<open>The guard compares the other way round, so it never holds for an index inside the list.\<close>

definition sl_prev :: "ServiceList \<Rightarrow> Service option \<times> ServiceList" where
  "sl_prev l =
     (if sl_size l < sl_index l
      then (sl_array l ! nat (sl_index l), l\<lparr>sl_index := sl_index l - 1\<rparr>) else (None, l))"

definition sl_AddService :: "Service \<Rightarrow> ServiceList \<Rightarrow> bool \<times> ServiceList" where
  "sl_AddService srv l =
     (if sl_size l \<ge> int MAX_SERVICES_ENTRY then (False, l)
      else (True, l\<lparr>sl_array := (sl_array l)[nat (sl_size l) := Some srv], sl_size := sl_size l + 1\<rparr>))"

definition sl_AddService_named :: "string \<Rightarrow> int \<Rightarrow> ServiceList \<Rightarrow> fault + bool \<times> ServiceList" where
  "sl_AddService_named name i l =
     (if sl_size l \<ge> int MAX_SERVICES_ENTRY then Inr (False, l)
      else (case Service_make i (Some name) of Inl f \<Rightarrow> Inl f | Inr s \<Rightarrow> Inr (sl_AddService s l)))"

definition sl_RemoveService :: "ServiceList \<Rightarrow> bool \<times> ServiceList" where
  "sl_RemoveService l = (False, l)"

definition sl_clear :: "ServiceList \<Rightarrow> ServiceList" where
  "sl_clear l = l\<lparr>sl_array := map (\<lambda>i. if int i < sl_size l then None else sl_array l ! i) [0..<length (sl_array l)],
     sl_size := 0\<rparr>"

text \<open>The loop of \<open>refresh\<close>; a failing \<open>from_cursor\<close> leaves the handle of the round before.\<close>

fun refresh_loop :: "'d env \<Rightarrow> int \<Rightarrow> int list \<Rightarrow> (ServiceList, 'd, unit) step" where
  "refresh_loop E inst [] = raise (Brk MCO_S_CURSOR_END)"
| "refresh_loop E inst (h # hs) =
     bnd (db_try (from_cursor E h)) (\<lambda>r.
     let inst' = (case r of Inl _ \<Rightarrow> inst | Inr i \<Rightarrow> i) in
     bnd (db (c_get (XDBService E) inst')) (\<lambda>row.
     bnd (db (c_autoid_get (XDBService E) inst')) (\<lambda>aid.
     bnd obj (\<lambda>l.
     bnd (lift_fault (sl_AddService_named (strncpy SERVICE_NAME_MAXLEN (x_name row)) aid l)) (\<lambda>(b, l').
     sq (set_obj (\<lambda>_. l'))
        (if hs = [] then raise (Brk MCO_S_CURSOR_END)
         else sq (db (cursor_next E)) (refresh_loop E inst' hs)))))))"

definition refresh_steps :: "'d env \<Rightarrow> (ServiceList, 'd, unit) step" where
  "refresh_steps E =
     bnd (db (c_list_cursor (XDBService E))) (\<lambda>hs.
     sq (db (cursor_first E)) (refresh_loop E 0 hs))"

definition sl_refresh :: "'d env \<Rightarrow> (ServiceList \<times> 'd, fault, bool) prog" where
  "sl_refresh E =
     sq (upd (\<lambda>(l, d). (sl_clear l, d)))
    (bnd (run_ro E (refresh_steps E)) (\<lambda>r.
     ret (r = Inl MCO_S_CURSOR_END \<or> r = Inl MCO_S_CURSOR_EMPTY)))"

text \<open>\<open>srv = list->first(); while (srv) { ... srv = list->next(); }\<close>\<close>

function service_loop ::
  "(Service \<Rightarrow> ('s, 'e, unit) prog) \<Rightarrow> Service option \<Rightarrow> ServiceList \<Rightarrow> ('s, 'e, ServiceList) prog" where
  "service_loop f None l = ret l"
| "service_loop f (Some s) l =
     sq (f s) (case sl_next l of (srv, l') \<Rightarrow> service_loop f srv l')"
  by pat_completeness auto

termination
  by (relation "measure (\<lambda>(f, srv, l). case srv of None \<Rightarrow> 0 | Some _ \<Rightarrow> Suc (nat (sl_size l - sl_index l)))")
    (auto simp: sl_next_def split: option.splits if_splits)

text \<open>The services a loop visits.\<close>

definition sl_services :: "ServiceList \<Rightarrow> Service list" where
  "sl_services l = map the (takeWhile (\<lambda>s. s \<noteq> None) (take (nat (sl_size l)) (sl_array l)))"

definition sl_ok :: "ServiceList \<Rightarrow> bool" where
  "sl_ok l \<longleftrightarrow> length (sl_array l) = MAX_SERVICES_ENTRY \<and> 0 \<le> sl_size l \<and> sl_size l \<le> int MAX_SERVICES_ENTRY
     \<and> 0 \<le> sl_index l
     \<and> (\<forall>i < MAX_SERVICES_ENTRY. sl_array l ! i \<noteq> None \<longleftrightarrow> int i < sl_size l)"

section \<open>DatabaseBrokerImpl\<close>

record 'd broker_impl =
  m_database :: 'd
  m_service_list :: "ServiceList option"

type_synonym ('d, 'a) impl_op = "('d broker_impl, fault, 'a) prog"

definition on_db :: "('d, fault, 'a) prog \<Rightarrow> ('d, 'a) impl_op" where
  "on_db m s = (case m (m_database s) of (r, d) \<Rightarrow> (r, s\<lparr>m_database := d\<rparr>))"

definition GetServiceList :: "'d env \<Rightarrow> ('d, ServiceList) impl_op" where
  "GetServiceList E =
     bnd (rd m_service_list) (\<lambda>sl.
     bnd (on_db (on_obj (case sl of None \<Rightarrow> ServiceList_new | Some l \<Rightarrow> l) (sl_refresh E))) (\<lambda>(b, l).
     sq (upd (\<lambda>s. s\<lparr>m_service_list := Some l\<rparr>)) (ret l)))"

text \<open>
  The loop of \<open>ClearWorkersForService\<close> runs until no worker is occupied.  \<open>False\<close> stands for
  running out of fuel; the method itself only returns true.
\<close>

fun ClearWorkersForService :: "nat \<Rightarrow> 'd env \<Rightarrow> Service \<Rightarrow> ('d, fault, bool) prog" where
  "ClearWorkersForService 0 E srv = ret False"
| "ClearWorkersForService (Suc n) E srv =
     bnd (PopWorker E (Some srv) OCCUPIED) (\<lambda>wrk.
     case wrk of None \<Rightarrow> ret True
     | Some w \<Rightarrow>
         bnd (on_obj w (ReleaseLetterFromWorker E)) (\<lambda>(_, w').
         bnd (on_obj w' (RemoveWorker E)) (\<lambda>_.
         ClearWorkersForService n E srv)))"

definition ClearServices :: "nat \<Rightarrow> 'd env \<Rightarrow> ('d, bool) impl_op" where
  "ClearServices fuel E =
     bnd (rd m_service_list) (\<lambda>sl.
     case sl of None \<Rightarrow> ret True
     | Some l \<Rightarrow>
         (case sl_first l of (srv, l1) \<Rightarrow>
          bnd (on_obj (False, l1) (bnd (service_loop (\<lambda>s.
                 bnd (under (on_db (ClearWorkersForService fuel E s))) (\<lambda>b.
                 bnd (if b then under (on_db (RemoveService E (srv_name s))) else ret False) (\<lambda>status.
                 upd (\<lambda>((_, l), d). ((status, l), d))))) srv l1)
               (\<lambda>l2. sq (upd (\<lambda>((b, _), d). ((b, l2), d))) (ret ())))) (\<lambda>(_, status, l2).
          sq (upd (\<lambda>s. s\<lparr>m_service_list := Some l2\<rparr>)) (ret status))))"

text \<open>\<open>Cleanup\<close> first walks each table for the log, until a read fails.\<close>

fun report_loop :: "'d env \<Rightarrow> ('d, 'r, 'p) mco_class \<Rightarrow> int \<Rightarrow> int list \<Rightarrow> (unit, 'd, unit) step" where
  "report_loop E C inst [] = ret ()"
| "report_loop E C inst (h # hs) =
     bnd (db_try (from_cursor E h)) (\<lambda>r.
     let inst' = (case r of Inl _ \<Rightarrow> inst | Inr i \<Rightarrow> i) in
     bnd (db_try (c_autoid_get C inst')) (\<lambda>_.
     bnd (db_try (c_get C inst')) (\<lambda>row.
     case row of Inl _ \<Rightarrow> ret ()
     | Inr _ \<Rightarrow> if hs = [] then ret ()
               else bnd (db_try (cursor_next E)) (\<lambda>n.
                    case n of Inl _ \<Rightarrow> ret () | Inr _ \<Rightarrow> report_loop E C inst' hs))))"

definition report_table :: "'d env \<Rightarrow> ('d, 'r, 'p) mco_class \<Rightarrow> (unit, 'd, unit) step" where
  "report_table E C =
     bnd (db_try (c_list_cursor C)) (\<lambda>hs.
     bnd (db_try (cursor_first E)) (\<lambda>f.
     case f of Inl _ \<Rightarrow> ret ()
     | Inr _ \<Rightarrow> report_loop E C 0 (case hs of Inl _ \<Rightarrow> [] | Inr l \<Rightarrow> l)))"

text \<open>
  Both transactions go on when \<open>mco_trans_start\<close> failed, which is only reported.  The handle is
  rolled back as an opened one exactly when it was opened.
\<close>

definition Cleanup_report :: "'d env \<Rightarrow> (unit, 'd, unit) step" where
  "Cleanup_report E =
     bnd (db_try (trans_start E MCO_READ_ONLY)) (\<lambda>t.
     sq (report_table E (XDBLetter E))
    (sq (report_table E (XDBWorker E))
    (sq (report_table E (XDBService E))
    (bnd (db_try (trans_rollback E (t = Inr ()))) (\<lambda>_. ret ())))))"

definition Cleanup_delete :: "'d env \<Rightarrow> (unit, 'd, unit) step" where
  "Cleanup_delete E =
     bnd (db_try (trans_start E MCO_READ_WRITE)) (\<lambda>t.
     bnd (db_try (c_delete_all (XDBLetter E))) (\<lambda>_.
     bnd (db_try (c_delete_all (XDBWorker E))) (\<lambda>_.
     bnd (db_try (c_delete_all (XDBService E))) (\<lambda>_.
     bnd (db_try (trans_commit E)) (\<lambda>c.
     case c of Inr _ \<Rightarrow> ret ()
     | Inl _ \<Rightarrow> bnd (db_try (trans_rollback E (t = Inr ()))) (\<lambda>_. ret ()))))))"

definition run_steps :: "(unit, 'd, unit) step \<Rightarrow> ('d, fault, unit) prog" where
  "run_steps m d = (case m ((), d) of
     (Inl (Crash f), (_, d')) \<Rightarrow> (Inl f, d') | (_, (_, d')) \<Rightarrow> (Inr (), d'))"

definition Cleanup :: "nat \<Rightarrow> 'd env \<Rightarrow> ('d, bool) impl_op" where
  "Cleanup fuel E =
     bnd (ClearServices fuel E) (\<lambda>status.
     sq (on_db (run_steps (Cleanup_report E)))
    (sq (on_db (run_steps (Cleanup_delete E))) (ret status)))"

end
