(* ===== verification/BrokerLists.thy ===== *)
theory BrokerLists
  imports BrokerDb
begin

text \<open>
  The list of services keeps its shape and a loop over it visits each service once; reading it
  gives the stored services; \<open>ClearWorkersForService\<close> ends and leaves no occupied worker;
  \<open>Cleanup\<close> empties the tables.  The theory also says when the tables are well formed.
\<close>

section \<open>Loops over the list\<close>

text \<open>The same call for every element of a list, in order.\<close>

definition each :: "('a \<Rightarrow> ('s, 'e, unit) prog) \<Rightarrow> 'a list \<Rightarrow> ('s, 'e, unit) prog" where
  "each f xs = foldr (\<lambda>x k. sq (f x) k) xs (ret ())"

lemma each_simps [simp]: "each f [] = ret ()" "each f (x # xs) = sq (f x) (each f xs)"
  by (simp_all add: each_def)

lemma sq_assoc: "sq (sq m k) n = sq m (sq k n)"
  by (simp add: sq_def bnd_assoc)

lemma sq_ret [simp]: "sq (ret x) m = m"
  by (simp add: sq_def)

lemma sl_ok_services:
  assumes "sl_ok l"
  shows "sl_services l = map the (take (nat (sl_size l)) (sl_array l))"
    and "length (sl_services l) = nat (sl_size l)"
proof -
  have "takeWhile (\<lambda>s. s \<noteq> None) (take (nat (sl_size l)) (sl_array l)) = take (nat (sl_size l)) (sl_array l)"
    using assms by (auto simp: takeWhile_eq_all_conv in_set_conv_nth sl_ok_def)
  then show "sl_services l = map the (take (nat (sl_size l)) (sl_array l))"
    unfolding sl_services_def by (rule arg_cong)
  then show "length (sl_services l) = nat (sl_size l)"
    using assms by (auto simp: sl_ok_def min_def)
qed

lemma sl_ok_nth:
  assumes "sl_ok l" and "i < nat (sl_size l)"
  shows "sl_array l ! i = Some (sl_services l ! i)"
  using assms by (auto simp: sl_ok_services sl_ok_def)

lemma service_loop_from:
  assumes "sl_ok l" and "i < nat (sl_size l)"
  shows "service_loop f (sl_array l ! i) (l\<lparr>sl_index := int i + 1\<rparr>) =
    sq (each f (drop i (sl_services l))) (ret (l\<lparr>sl_index := sl_size l\<rparr>))"
  using assms(2)
proof (induction "nat (sl_size l) - i" arbitrary: i)
  case (Suc n)
  note here = sl_ok_nth [OF assms(1) Suc.prems]
  have split: "drop i (sl_services l) = sl_services l ! i # drop (Suc i) (sl_services l)"
    by (rule Cons_nth_drop_Suc [symmetric]) (use Suc.prems assms(1) in \<open>simp add: sl_ok_services(2)\<close>)
  show ?case
  proof (cases "Suc i < nat (sl_size l)")
    case True
    then have "sl_next (l\<lparr>sl_index := int i + 1\<rparr>) = (sl_array l ! Suc i, l\<lparr>sl_index := int (Suc i) + 1\<rparr>)"
      by (auto simp: sl_next_def nat_add_distrib)
    with Suc.hyps(1) [of "Suc i"] Suc.hyps(2) True here split show ?thesis
      by (simp add: sq_assoc)
  next
    case False
    with Suc.prems assms(1) have "drop (Suc i) (sl_services l) = []" "sl_size l = int i + 1"
      by (auto simp: sl_ok_services)
    then show ?thesis
      using here split by (simp add: sl_next_def sq_assoc)
  qed
qed simp

text \<open>A loop over the list calls its body once for each stored service, in order.\<close>

lemma service_loop_each:
  assumes "sl_ok l"
  shows "(case sl_first l of (srv, l1) \<Rightarrow> service_loop f srv l1) =
    sq (each f (sl_services l)) (ret (l\<lparr>sl_index := sl_size l\<rparr>))"
proof (cases "sl_size l = 0")
  case True
  with assms have "sl_array l ! 0 = None" "sl_services l = []"
    by (auto simp: sl_ok_def sl_services_def MAX_SERVICES_ENTRY_def)
  then show ?thesis
    using True by (simp add: sl_first_def)
next
  case False
  with assms service_loop_from [OF assms, of 0 f] show ?thesis
    by (simp add: sl_first_def sl_ok_def)
qed

lemma sl_ok_index: "sl_ok l \<Longrightarrow> 0 \<le> i \<Longrightarrow> sl_ok (l\<lparr>sl_index := i\<rparr>)"
  by (simp add: sl_ok_def)

lemma sl_services_index [simp]: "sl_services (l\<lparr>sl_index := i\<rparr>) = sl_services l"
  by (simp add: sl_services_def)

lemma sl_ok_new: "sl_ok ServiceList_new"
  by (simp add: sl_ok_def ServiceList_new_def)

lemma sl_clear_ok:
  assumes "sl_ok l"
  shows "sl_ok (sl_clear l)" and "sl_services (sl_clear l) = []"
  using assms by (auto simp: sl_ok_def sl_clear_def sl_services_def)

lemma sl_AddService_ok:
  assumes "sl_ok l"
  shows "sl_AddService s l = (let room = length (sl_services l) < MAX_SERVICES_ENTRY in
      (room, snd (sl_AddService s l)))"
    and "sl_ok (snd (sl_AddService s l))"
    and "sl_services (snd (sl_AddService s l)) = take MAX_SERVICES_ENTRY (sl_services l @ [s])"
proof -
  have n: "0 \<le> sl_size l" "length (sl_array l) = MAX_SERVICES_ENTRY" "sl_size l \<le> int MAX_SERVICES_ENTRY"
    using assms by (simp_all add: sl_ok_def)
  show "sl_AddService s l = (let room = length (sl_services l) < MAX_SERVICES_ENTRY in
      (room, snd (sl_AddService s l)))"
    using n sl_ok_services(2) [OF assms] by (auto simp: sl_AddService_def)
  show ok: "sl_ok (snd (sl_AddService s l))"
    using assms by (auto simp: sl_AddService_def sl_ok_def nth_list_update)
  show "sl_services (snd (sl_AddService s l)) = take MAX_SERVICES_ENTRY (sl_services l @ [s])"
  proof (cases "sl_size l \<ge> int MAX_SERVICES_ENTRY")
    case True
    with n show ?thesis
      by (simp add: sl_AddService_def sl_ok_services [OF assms])
  next
    case False
    then have "take (nat (sl_size l + 1)) ((sl_array l)[nat (sl_size l) := Some s])
        = take (nat (sl_size l)) (sl_array l) @ [Some s]"
      using n by (simp add: nat_add_distrib take_Suc_conv_app_nth)
    with False n ok show ?thesis
      by (simp add: sl_ok_services sl_ok_services [OF assms] sl_AddService_def)
  qed
qed

section \<open>Reading the list on a lawful engine\<close>

definition listed_service :: "int \<Rightarrow> xdb_service \<Rightarrow> Service" where
  "listed_service i r = Service_new\<lparr>srv_id := i, srv_name := Some (strncpy SERVICE_NAME_MAXLEN (x_name r)),
     srv_modified := True\<rparr>"

definition all_listed :: "tables \<Rightarrow> Service list \<Rightarrow> bool" where
  "all_listed T ss \<longleftrightarrow> (\<forall>s\<in>set ss. \<exists>i r. services T i = Some r \<and> s = listed_service i r)"

lemma wp_raise_iff: "wp (raise e) Q R s = R e s"
  by (simp add: wp_def raise_def)

lemma sl_AddService_named_eq:
  "sl_AddService_named (strncpy SERVICE_NAME_MAXLEN (x_name r)) i l = Inr (sl_AddService (listed_service i r) l)"
  by (simp add: sl_AddService_named_def sl_AddService_def Service_make_def Service_SetNAME_def listed_service_def)

lemma all_listed_add:
  assumes "sl_ok l" and "all_listed T (sl_services l)" and "services T i = Some r"
  shows "all_listed T (sl_services (snd (sl_AddService (listed_service i r) l)))"
  using assms(2,3) unfolding sl_AddService_ok(3) [OF assms(1)] all_listed_def
  by (fastforce dest!: in_set_takeD)

lemma wp_service_loop:
  assumes ok: "sl_ok l" and s: "I s"
    and body: "\<And>x s. x \<in> set (sl_services l) \<Longrightarrow> I s \<Longrightarrow> wp (f x) (\<lambda>_. I) R s"
    and fin: "\<And>s. I s \<Longrightarrow> Q (l\<lparr>sl_index := sl_size l\<rparr>) s"
  shows "wp (case sl_first l of (srv, l1) \<Rightarrow> service_loop f srv l1) Q R s"
proof -
  have "wp (each f xs) (\<lambda>_. I) R s" if "set xs \<subseteq> set (sl_services l)" "I s" for xs s
    using that
    by (induction xs arbitrary: s) (auto intro!: vcg wp_mono [OF body])
  from this [OF order_refl s] show ?thesis
    unfolding service_loop_each [OF ok] by (intro wp_sq wp_mono [OF \<open>wp _ _ _ _\<close>] wp_ret fin)
qed

lemma wp_on_db [vcg]:
  "wp m (\<lambda>x d. Q x (s\<lparr>m_database := d\<rparr>)) (\<lambda>e d. R e (s\<lparr>m_database := d\<rparr>)) (m_database s)
   \<Longrightarrow> wp (on_db m) Q R s"
  by (auto simp: wp_def on_db_def split: prod.splits sum.splits)

definition refreshed :: "bool \<Rightarrow> tables \<Rightarrow> Service list \<Rightarrow> int list \<Rightarrow> mco_ret \<Rightarrow> ServiceList \<Rightarrow> bool" where
  "refreshed rel T pre hs rc l \<longleftrightarrow> sl_ok l \<and> all_listed T (sl_services l)
     \<and> (rel \<longrightarrow> rc = MCO_S_CURSOR_END
          \<and> sl_services l = take MAX_SERVICES_ENTRY (pre @ map (\<lambda>h. listed_service h (the (services T h))) hs))"

context engine_laws
begin

lemma refreshed_step:
  assumes "refreshed reliable T (take MAX_SERVICES_ENTRY (pre @ [listed_service h r])) hs rc l" and "services T h = Some r"
  shows "refreshed reliable T pre (h # hs) rc l"
proof -
  have "take n (take n (a @ [x]) @ b) = take n (a @ x # b)" for n and a :: "Service list" and x b
    by (cases "length a < n") (simp_all add: take_Cons')
  with assms show ?thesis by (simp add: refreshed_def)
qed

lemma wp_refresh_loop:
  assumes "at T S n d" and "set hs \<subseteq> dom (services T)" and "sl_ok l" and "all_listed T (sl_services l)"
    and "length (sl_services l) \<le> MAX_SERVICES_ENTRY"
  shows "wp (refresh_loop E inst hs) (\<lambda>_ _. False)
     (\<lambda>e s. \<exists>rc. e = Brk rc \<and> at T S n (snd s) \<and> refreshed reliable T (sl_services l) hs rc (fst s)) (l, d)"
  using assms
proof (induction hs arbitrary: inst l d)
  case Nil
  then show ?case by (auto intro!: vcg simp: refreshed_def)
next
  case (Cons h hs)
  let ?goal = "\<lambda>m. wp m (\<lambda>_ _. False)
     (\<lambda>e s. \<exists>rc. e = Brk rc \<and> at T S n (snd s) \<and> refreshed reliable T (sl_services l) (h # hs) rc (fst s))"
  have step: "?goal (if hs = [] then raise (Brk MCO_S_CURSOR_END) else sq (db (cursor_next E)) (refresh_loop E inst' hs))
     (snd (sl_AddService (listed_service i r) l), d')"
    if "at T S n d'" "services T i = Some r" "reliable \<longrightarrow> i = h" for inst' i r d'
  proof -
    let ?l = "snd (sl_AddService (listed_service i r) l)"
    have l: "sl_ok ?l" "all_listed T (sl_services ?l)" "length (sl_services ?l) \<le> MAX_SERVICES_ENTRY"
      and sv: "sl_services ?l = take MAX_SERVICES_ENTRY (sl_services l @ [listed_service i r])"
      using sl_AddService_ok [OF Cons.prems(3)] all_listed_add [OF Cons.prems(3,4) that(2)] by simp_all
    have fin: "refreshed reliable T (sl_services l) (h # hs) rc l'" if "refreshed reliable T (sl_services ?l) hs rc l'" for rc l'
    proof (cases reliable)
      case True
      with that \<open>services T i = Some r\<close> \<open>reliable \<longrightarrow> i = h\<close> show ?thesis
        unfolding sv by (intro refreshed_step) simp_all
    qed (insert that, unfold refreshed_def, simp)
    have stop: "refreshed reliable T (sl_services ?l) hs rc ?l" if "reliable \<longrightarrow> hs = [] \<and> rc = MCO_S_CURSOR_END" for rc
      using that l by (auto simp: refreshed_def)
    have next': "wp (refresh_loop E inst' hs) (\<lambda>_ _. False)
       (\<lambda>e s. \<exists>rc. e = Brk rc \<and> at T S n (snd s) \<and> refreshed reliable T (sl_services l) (h # hs) rc (fst s)) (?l, d'')"
      if "at T S n d''" for d''
      by (rule wp_mono [OF Cons.IH [OF that _ l]]) (use Cons.prems(2) fin in auto)
    have last: "wp (raise (Brk rc)) (\<lambda>_ _. False)
       (\<lambda>e s. \<exists>rc. e = Brk rc \<and> at T S n (snd s) \<and> refreshed reliable T (sl_services l) (h # hs) rc (fst s)) (?l, d'')"
      if "at T S n d''" "reliable \<longrightarrow> hs = [] \<and> rc = MCO_S_CURSOR_END" for rc d''
      by (rule wp_raise) (use that fin stop in auto)
    show ?thesis
    proof (cases "hs = []")
      case True
      show ?thesis unfolding if_P [OF True] by (rule last) (use that True in auto)
    next
      case False
      show ?thesis
        unfolding if_not_P [OF False]
        by (rule wp_sq, rule wp_db, rule wp_call [OF cursor_next that(1)])
          (use next' last in \<open>auto simp: wp_raise wp_def raise_def\<close>)
    qed
  qed
  have stop: "wp (raise (Brk rc)) (\<lambda>_ _. False)
       (\<lambda>e s. \<exists>rc. e = Brk rc \<and> at T S n (snd s) \<and> refreshed reliable T (sl_services l) (h # hs) rc (fst s)) (l, d'')"
    if "at T S n d''" "\<not> reliable" for rc d''
    by (rule wp_raise, insert that Cons.prems, unfold refreshed_def) auto
  have rest: "?goal (bnd (db (c_get (XDBService E) inst')) (\<lambda>row.
       bnd (db (c_autoid_get (XDBService E) inst')) (\<lambda>aid.
       bnd obj (\<lambda>l.
       bnd (lift_fault (Inr (sl_AddService (listed_service aid row) l))) (\<lambda>(b, l').
       sq (set_obj (\<lambda>_. l'))
        (if hs = [] then raise (Brk MCO_S_CURSOR_END)
         else sq (db (cursor_next E)) (refresh_loop E inst' hs))))))) (l, d')"
    if "at T S n d'" "reliable \<longrightarrow> inst' = h" for inst' d'
    by (insert that, (elim conjE exE | hypsubst | simp only: sum.case prod.case split_beta
        | (rule step, assumption, assumption, assumption)
        | (rule stop [unfolded wp_raise_iff], assumption, use Cons.prems(2) in force)
        | rule vcg | (rule call_rules, assumption))+)
  show ?case
    unfolding refresh_loop.simps Let_def sl_AddService_named_eq
    by (insert Cons.prems(1), (elim conjE exE | hypsubst | unfold sum.case
        | (rule rest, assumption, rule impI, (rule refl | (erule notE, assumption)))
        | rule vcg | (rule call_rules, assumption))+)
qed

end

definition refresh_reads :: "bool \<Rightarrow> tables \<Rightarrow> ServiceList \<Rightarrow> bool" where
  "refresh_reads rel T l \<longleftrightarrow> sl_ok l \<and> all_listed T (sl_services l)
     \<and> (rel \<longrightarrow> (\<exists>hs. distinct hs \<and> set hs = dom (services T)
          \<and> sl_services l = take MAX_SERVICES_ENTRY (map (\<lambda>h. listed_service h (the (services T h))) hs)))"

context engine_laws
begin

lemma refreshed_reads:
  assumes "refreshed reliable T [] hs rc l" and "distinct hs" and "set hs = dom (services T)"
  shows "refresh_reads reliable T l \<and> (reliable \<longrightarrow> rc = MCO_S_CURSOR_END)"
  using assms by (auto simp: refreshed_def refresh_reads_def intro!: exI [of _ hs])

lemma refresh_reads_none:
  assumes "sl_ok l" and "reliable \<longrightarrow> services T = Map.empty"
  shows "refresh_reads reliable T (sl_clear l)"
  using sl_clear_ok [OF assms(1)] assms(2) by (auto simp: refresh_reads_def all_listed_def intro!: exI [of _ "[]"])

lemma wp_sl_refresh:
  assumes at: "at T T 0 d" and ok: "sl_ok l"
  shows "wp (sl_refresh E) (\<lambda>b s. at T T 0 (snd s) \<and> refresh_reads reliable T (fst s) \<and> (reliable \<longrightarrow> b)) (\<lambda>_ _. False) (l, d)"
  unfolding sl_refresh_def
  apply (intro vcg, simp only: prod.case)
  apply (rule wp_mono [OF ro [OF at, where Q = "\<lambda>_ _. False"
      and R = "\<lambda>rc l. refresh_reads reliable T l \<and> (reliable \<longrightarrow> rc \<in> {MCO_S_CURSOR_END, MCO_S_CURSOR_EMPTY})"]])
  subgoal premises at for d1
    unfolding refresh_steps_def using at
    by - (rule wp_mono [OF wp_refresh_loop] | assumption | rule vcg | (rule call_rules, assumption) | elim conjE exE | hypsubst
        | (simp add: sl_clear_ok ok all_listed_def; fail) | (use refresh_reads_none [OF ok] in \<open>auto; fail\<close>)
        | (auto dest: refreshed_reads simp: sl_clear_ok ok; fail))+
  subgoal using refresh_reads_none [OF ok] by simp
  by (auto split: sum.splits intro!: vcg)

lemma wp_GetServiceList:
  assumes at: "at T T 0 (m_database b)" and ok: "case m_service_list b of None \<Rightarrow> True | Some l \<Rightarrow> sl_ok l"
  shows "wp (GetServiceList E)
    (\<lambda>l b'. at T T 0 (m_database b') \<and> refresh_reads reliable T l \<and> m_service_list b' = Some l) (\<lambda>_ _. False) b"
  unfolding GetServiceList_def
proof (intro vcg, cases "m_service_list b", goal_cases)
  case 1
  then show ?case
    by simp (rule wp_mono [OF wp_sl_refresh [OF at sl_ok_new]], auto intro!: vcg)
next
  case (2 l)
  with ok have "sl_ok l" by simp
  from 2 show ?case
    by simp (rule wp_mono [OF wp_sl_refresh [OF at \<open>sl_ok l\<close>]], auto intro!: vcg)
qed

end

section \<open>Well-formed tables\<close>

definition ident_fits :: "string \<Rightarrow> bool" where
  "ident_fits s \<longleftrightarrow> length s \<le> IDENTITY_MAXLEN \<and> NUL \<notin> set s"

definition tables_ok :: "tables \<Rightarrow> bool" where
  "tables_ok T \<longleftrightarrow> keys_ok T \<and> finite (dom (workers T))
     \<and> (\<forall>h r. workers T h = Some r \<longrightarrow> ident_fits (w_identity r))"

text \<open>A letter that refers to a stored worker is a letter of the worker's service.\<close>

definition links_ok :: "tables \<Rightarrow> bool" where
  "links_ok T \<longleftrightarrow> (\<forall>i r w. letters T i = Some r \<longrightarrow> workers T (l_worker_ref r) = Some w
     \<longrightarrow> l_service_ref r = w_service_ref w)"

lemma tables_ok_keys: "tables_ok T \<Longrightarrow> keys_ok T"
  by (simp add: tables_ok_def)

lemma ident_fits_strncpy: "ident_fits (strncpy IDENTITY_MAXLEN s)"
  by (simp add: ident_fits_def length_strncpy)

lemma tables_ok_set_worker:
  assumes "tables_ok T" and "keys_ok (set_worker h r T)" and "ident_fits (w_identity r)"
  shows "tables_ok (set_worker h r T)"
  using assms by (auto simp: tables_ok_def set_worker_def)

lemma tables_ok_letters: "tables_ok T \<Longrightarrow> keys_ok (T\<lparr>letters := m\<rparr>) \<Longrightarrow> tables_ok (T\<lparr>letters := m\<rparr>)"
  by (simp add: tables_ok_def)

lemma tables_ok_services [simp]: "tables_ok (T\<lparr>services := m\<rparr>) = tables_ok T"
  by (simp add: tables_ok_def keys_ok_def)

lemma worker_of_simps [simp]: "wrk_id (worker_of i r) = i" "wrk_service_id (worker_of i r) = w_service_ref r"
  "wrk_state (worker_of i r) = w_state r" "wrk_letter_id (worker_of i r) = w_letter_ref r"
  by (simp_all add: worker_of_def)

lemma worker_of_named: "tables_ok T \<Longrightarrow> workers T i = Some r \<Longrightarrow> worker_named (wrk_identity (worker_of i r)) T i r"
  by (auto simp: tables_ok_def ident_fits_def worker_of_def worker_named_def strncpy_id)

lemma worker_of_owns: "links_ok T \<Longrightarrow> workers T i = Some r \<Longrightarrow> owns_letters (worker_of i r) T"
  by (auto simp: links_ok_def owns_letters_def worker_of_def)

section \<open>Clearing\<close>

definition occupied :: "tables \<Rightarrow> int \<Rightarrow> int set" where
  "occupied T sid = {i. \<exists>r. in_state T sid OCCUPIED i r}"

text \<open>One round: the letter of an occupied worker goes, the worker is disarmed.\<close>

definition cleared :: "int \<Rightarrow> tables \<Rightarrow> tables \<Rightarrow> bool" where
  "cleared i T T' \<longleftrightarrow> services T' = services T
     \<and> (\<exists>r r'. workers T i = Some r \<and> workers T' = (workers T)(i \<mapsto> r') \<and> w_state r' = DISARMED
          \<and> w_identity r' = w_identity r \<and> w_service_ref r' = w_service_ref r)
     \<and> letters T' \<subseteq>\<^sub>m letters T \<and> (\<forall>j r. letters T' j = Some r \<longrightarrow> l_worker_ref r \<noteq> i)"

lemma clearedE:
  assumes "cleared i T T'"
  obtains r r' where "services T' = services T" "workers T i = Some r" "workers T' = (workers T)(i \<mapsto> r')"
    "w_state r' = DISARMED" "w_identity r' = w_identity r" "w_service_ref r' = w_service_ref r"
    "letters T' \<subseteq>\<^sub>m letters T" "\<forall>j r. letters T' j = Some r \<longrightarrow> l_worker_ref r \<noteq> i"
  using assms unfolding cleared_def by blast

lemma cleared_occupied:
  assumes "cleared i T T'" and "i \<in> occupied T sid"
  shows "occupied T' sid = occupied T sid - {i}"
  using assms by (auto simp: cleared_def occupied_def in_state_def split: if_splits)

lemma cleared_links: "cleared i T T' \<Longrightarrow> links_ok T \<Longrightarrow> links_ok T'"
  unfolding links_ok_def
proof (intro allI impI, elim clearedE)
  fix j l w r r'
  assume ok: "\<forall>i r w. letters T i = Some r \<longrightarrow> workers T (l_worker_ref r) = Some w \<longrightarrow> l_service_ref r = w_service_ref w"
    and l: "letters T' j = Some l" and w: "workers T' (l_worker_ref l) = Some w" and i: "workers T i = Some r"
    and w': "workers T' = (workers T)(i \<mapsto> r')" and s: "w_service_ref r' = w_service_ref r"
    and sub: "letters T' \<subseteq>\<^sub>m letters T"
  from l sub have "letters T j = Some l" by (auto simp: map_le_def domI dest!: bspec)
  with ok w w' i s show "l_service_ref l = w_service_ref w" by (metis fun_upd_def option.inject)
qed

lemma finite_occupied: "tables_ok T \<Longrightarrow> finite (occupied T sid)"
  by (rule finite_subset [of _ "dom (workers T)"]) (auto simp: occupied_def in_state_def tables_ok_def)

lemma cleared_finite: "cleared i T T' \<Longrightarrow> tables_ok T \<Longrightarrow> keys_ok T' \<Longrightarrow> tables_ok T'"
  by (erule clearedE) (auto simp: tables_ok_def split: if_split_asm)

context engine_laws
begin

lemma cleared_step:
  assumes rel: reliable and at: "at T T 0 d" and ok: "tables_ok T" and links: "links_ok T"
    and i: "in_state T sid OCCUPIED i r"
  shows "wp (bnd (on_obj (worker_of i r) (ReleaseLetterFromWorker E)) (\<lambda>(_, w'). on_obj w' (RemoveWorker E)))
    (\<lambda>_ d'. \<exists>T'. at T' T' 0 d' \<and> cleared i T T' \<and> keys_ok T') (\<lambda>_ _. False) d"
proof -
  from i have r: "workers T i = Some r" by (simp add: in_state_def)
  note keys = tables_ok_keys [OF ok] and named = worker_of_named [OF ok r]
  have uniq: "h = i \<and> r' = r" if "worker_named (wrk_identity (worker_of i r)) T h r'" for h r'
    using that named keys by (auto simp: worker_named_def keys_ok_def dest: unique_onD)
  have released: "\<exists>l lr. letters T l = Some lr \<and> l_worker_ref lr = i
      \<and> T1 = T\<lparr>workers := (workers T)(i \<mapsto> r\<lparr>w_letter_ref := 0, w_state := ARMED\<rparr>), letters := (letters T)(l := None)\<rparr>
      \<and> wrk_identity w1 = wrk_identity (worker_of i r)" if "released (worker_of i r) T w1 T1" for w1 T1
    using that unfolding released_def
  proof (elim exE conjE)
    fix l lr h r'
    assume l: "letters T l = Some lr" "l_worker_ref lr = wrk_id (worker_of i r)"
      and n: "worker_named (wrk_identity (worker_of i r)) T h r'"
      and e: "T1 = T\<lparr>workers := (workers T)(h \<mapsto> r'\<lparr>w_letter_ref := 0, w_state := ARMED\<rparr>), letters := (letters T)(l := None)\<rparr>"
        "w1 = (Worker_SetLETTER_ID 0 (worker_of i r))\<lparr>wrk_state := ARMED\<rparr>"
    from l e uniq [OF n] show ?thesis
      by (intro exI [of _ l] exI [of _ lr]) (simp add: worker_of_def Worker_SetLETTER_ID_def)
  qed
  have remove: "wp (RemoveWorker E) (\<lambda>_ s. \<exists>T'. at T' T' 0 (snd s) \<and> cleared i T T' \<and> keys_ok T') (\<lambda>_ _. False) (w1, d1)"
    if "at T1 T1 0 d1" "keys_ok T1" "wrk_identity w1 = wrk_identity (worker_of i r)"
      "workers T1 = (workers T)(i \<mapsto> r1)" "w_identity r1 = w_identity r" "w_service_ref r1 = w_service_ref r"
      "letters T1 \<subseteq>\<^sub>m letters T" "\<forall>j r. letters T1 j = Some r \<longrightarrow> l_worker_ref r \<noteq> i" "services T1 = services T" for w1 d1 T1 r1
  proof -
    have n1: "worker_named (wrk_identity w1) T1 i r1"
      using that named by (simp add: worker_named_def)
    have u1: "h = i \<and> r' = r1" if "worker_named (wrk_identity w1) T1 h r'" for h r'
      using that n1 \<open>keys_ok T1\<close> by (auto simp: worker_named_def keys_ok_def dest: unique_onD)
    have c: "cleared i T (set_worker i (r1\<lparr>w_state := DISARMED\<rparr>) T1)"
      unfolding cleared_def set_worker_def using that r
      by (intro conjI exI [of _ r] exI [of _ "r1\<lparr>w_state := DISARMED\<rparr>"]) simp_all
    have fin: "\<exists>T'. at T' T' 0 d' \<and> cleared i T T' \<and> keys_ok T'"
      if "at T2 T2 0 d'" "keys_ok T2" "worker_named (wrk_identity w1) T1 h r'" "T2 = set_worker h (r'\<lparr>w_state := DISARMED\<rparr>) T1"
      for T2 d' h r'
      using that c u1 [OF that(3)] by blast
    have "\<not> no_worker_named (wrk_identity w1) T1" using n1 by (auto simp: no_worker_named_def)
    then show ?thesis
      by (intro wp_mono [OF wp_RemoveWorker [OF that(1,2)]])
        (use rel in \<open>force dest: fin split: if_splits\<close>)+
  qed
  have after: "wp (RemoveWorker E) (\<lambda>_ s. \<exists>T'. at T' T' 0 (snd s) \<and> cleared i T T' \<and> keys_ok T') (\<lambda>_ _. False) (w1, d1)"
    if "at T1 T1 0 d1" "keys_ok T1" "released (worker_of i r) T w1 T1" for w1 d1 T1
  proof -
    from released [OF that(3)] obtain l lr where l: "letters T l = Some lr" "l_worker_ref lr = i"
      and T1: "T1 = T\<lparr>workers := (workers T)(i \<mapsto> r\<lparr>w_letter_ref := 0, w_state := ARMED\<rparr>), letters := (letters T)(l := None)\<rparr>"
      and w1: "wrk_identity w1 = wrk_identity (worker_of i r)" by blast
    have "\<forall>j r. letters T1 j = Some r \<longrightarrow> l_worker_ref r \<noteq> i"
      using l keys unfolding T1 keys_ok_def by (auto dest: unique_onD split: if_split_asm)
    then show ?thesis
      by (intro remove [OF that(1,2) w1, of "r\<lparr>w_letter_ref := 0, w_state := ARMED\<rparr>"])
        (auto simp: T1 map_le_def)
  qed
  have same: "workers T = (workers T)(i \<mapsto> r)" using r by (simp add: fun_upd_idem)
  then have untouched: "wp (RemoveWorker E) (\<lambda>_ s. \<exists>T'. at T' T' 0 (snd s) \<and> cleared i T T' \<and> keys_ok T') (\<lambda>_ _. False)
      (worker_of i r, d')" if "at T T 0 d'" "\<forall>j r. letters T j = Some r \<longrightarrow> l_worker_ref r \<noteq> i" for d'
    using remove [OF that(1) keys refl _ refl refl _ that(2) refl] by (simp add: map_le_def)
  show ?thesis
  proof (intro vcg wp_mono [OF wp_ReleaseLetterFromWorker [OF at keys rel _ worker_of_owns [OF links r]]], goal_cases)
    case 1
    then show ?case using named by (auto simp: no_worker_named_def)
  next
    case (2 b s)
    then show ?case
      using after untouched by (cases s) (auto simp: split_beta intro!: vcg split: if_splits)
  qed simp
qed

text \<open>Enough fuel is more than the number of occupied workers.\<close>

lemma wp_ClearWorkersForService:
  assumes rel: reliable and "at T T 0 d" and "tables_ok T" and "links_ok T"
    and "card (occupied T (srv_id srv)) < fuel"
  shows "wp (ClearWorkersForService fuel E srv)
    (\<lambda>b d'. b \<and> (\<exists>T'. at T' T' 0 d' \<and> tables_ok T' \<and> links_ok T' \<and> occupied T' (srv_id srv) = {}
        \<and> services T' = services T \<and> letters T' \<subseteq>\<^sub>m letters T)) (\<lambda>_ _. False) d"
  using assms(2-5)
proof (induction fuel arbitrary: T d)
  case (Suc fuel)
  show ?case
    unfolding ClearWorkersForService.simps
  proof (intro wp_bnd wp_mono [OF wp_PopWorker [OF Suc.prems(1)]], goal_cases)
    case (1 res d')
    show ?case
    proof (cases res)
      case None
      with 1 rel have "occupied T (srv_id srv) = {}"
        by (auto simp: gives_def occupied_def)
      with 1 None Suc.prems show ?thesis by (auto intro!: vcg)
    next
      case (Some w)
      with 1 rel obtain i r where i: "in_state T (srv_id srv) OCCUPIED i r" and w: "w = worker_of i r"
        by (auto simp: gives_def)
      from 1 have at: "at T T 0 d'" by simp
      have mem: "i \<in> occupied T (srv_id srv)" using i by (auto simp: occupied_def)
      have next': "wp (ClearWorkersForService fuel E srv)
        (\<lambda>b d'. b \<and> (\<exists>T'. at T' T' 0 d' \<and> tables_ok T' \<and> links_ok T' \<and> occupied T' (srv_id srv) = {}
            \<and> services T' = services T \<and> letters T' \<subseteq>\<^sub>m letters T)) (\<lambda>_ _. False) d''"
        if "at T' T' 0 d''" "cleared i T T'" "keys_ok T'" for T' d''
      proof -
        have c: "tables_ok T'" "links_ok T'" "services T' = services T" "letters T' \<subseteq>\<^sub>m letters T"
          using that Suc.prems cleared_finite cleared_links by (auto elim: clearedE)
        have "card (occupied T' (srv_id srv)) < fuel"
          unfolding cleared_occupied [OF that(2) mem]
          using Suc.prems(4) mem finite_occupied [OF Suc.prems(2)] 
            card_gt_0_iff [of "occupied T (srv_id srv)"] by (auto simp: card_Diff_singleton)
        from Suc.IH [OF that(1) c(1,2) this] show ?thesis
          by (rule wp_mono) (use c in \<open>auto intro: map_le_trans\<close>)
      qed
      have "wp (bnd (bnd (on_obj w (ReleaseLetterFromWorker E)) (\<lambda>(_, w'). on_obj w' (RemoveWorker E)))
          (\<lambda>_. ClearWorkersForService fuel E srv))
        (\<lambda>b d'. b \<and> (\<exists>T'. at T' T' 0 d' \<and> tables_ok T' \<and> links_ok T' \<and> occupied T' (srv_id srv) = {}
            \<and> services T' = services T \<and> letters T' \<subseteq>\<^sub>m letters T)) (\<lambda>_ _. False) d'"
        unfolding w by (rule wp_bnd, rule wp_mono [OF cleared_step [OF rel at Suc.prems(2,3) i]]) (use next' in auto)
      then show ?thesis
        by (simp add: Some bnd_assoc split_def)
    qed
  qed
qed simp

end

text \<open>The second transaction of \<open>Cleanup\<close>.\<close>

definition no_rows :: tables where
  "no_rows = \<lparr>services = Map.empty, workers = Map.empty, letters = Map.empty\<rparr>"

lemma wp_run_steps:
  assumes "wp m (\<lambda>_ s. Q () (snd s)) (\<lambda>e s. case e of Brk _ \<Rightarrow> Q () (snd s) | Crash f \<Rightarrow> R f (snd s)) ((), d)"
  shows "wp (run_steps m) Q R d"
  using assms by (auto simp: wp_def run_steps_def split: prod.splits sum.splits exc.splits)

context engine_laws
begin

lemma wp_Cleanup_delete:
  assumes rel: reliable and at: "at T T 0 d"
  shows "wp (run_steps (Cleanup_delete E)) (\<lambda>_ d'. at no_rows no_rows 0 d') (\<lambda>_ _. False) d"
proof -
  have keys: "keys_ok no_rows" by (simp add: keys_ok_def no_rows_def unique_on_def)
  have none: "T\<lparr>services := Map.empty, workers := Map.empty, letters := Map.empty\<rparr> = no_rows" for T
    by (simp add: no_rows_def)
  show ?thesis
    unfolding Cleanup_delete_def
  proof (intro wp_run_steps wp_bnd wp_db_try wp_mono [OF start], goal_cases)
    case (1 u d1)
    then have "at T T 1 d1" using at by (simp add: view_def)
    then show ?case
      by - (rule wp_call [OF ltr.delete_all] wp_call [OF wkr.delete_all] wp_call [OF svc.delete_all], assumption
          | rule wp_bnd wp_db_try wp_case_sum wp_ret wp_mono [OF commit] | elim conjE exE | hypsubst | simp only: tab_simps
          | (insert rel keys, simp add: view_def none; fail))+
  next
    case (2 rc d1)
    then show ?case using rel by simp
  qed
qed

end

end
