(* ===== verification/MdpBroker.thy ===== *)
theory MdpBroker
  imports BrokerLists
begin

text \<open>
  The broker of mdp/mdp_broker.cpp: what it does with each message of a client or a worker, the
  purge of silent workers, and the loop that calls them.  The state is the database behind the
  broker, its list of services, and every message handed to the socket so far, as the frames and
  \<open>ZMQ_SNDMORE\<close> flags of \<open>zmsg::send\<close>.  Log output and \<open>MakeSnapshot\<close>, a debugging aid that
  writes files, are left out.  A null pointer is \<open>None\<close>; a live \<open>assert\<close> is a fault.
\<close>

section \<open>State and protocol\<close>

record 'd broker =
  m_impl :: "'d broker_impl"
  m_endpoint :: string
  m_heartbeat_at :: int
  m_sent :: "(string \<times> bool) list list"

type_synonym ('d, 'a) broker_op = "('d broker, fault, 'a) prog"

definition MDPC_CLIENT :: string where "MDPC_CLIENT = ''MDPC0X''"
definition MDPW_WORKER :: string where "MDPW_WORKER = ''MDPW0X''"

definition MDPC_REQUEST :: string where "MDPC_REQUEST = [CHR 0x01]"
definition MDPC_REPORT :: string where "MDPC_REPORT = [CHR 0x02]"
definition MDPC_NAK :: string where "MDPC_NAK = [CHR 0x03]"

definition MDPW_READY :: string where "MDPW_READY = [CHR 0x01]"
definition MDPW_REQUEST :: string where "MDPW_REQUEST = [CHR 0x02]"
definition MDPW_REPORT :: string where "MDPW_REPORT = [CHR 0x03]"
definition MDPW_HEARTBEAT :: string where "MDPW_HEARTBEAT = [CHR 0x04]"
definition MDPW_DISCONNECT :: string where "MDPW_DISCONNECT = [CHR 0x05]"

lemmas protocol_defs = MDPC_CLIENT_def MDPW_WORKER_def MDPC_REQUEST_def MDPC_REPORT_def MDPC_NAK_def
  MDPW_READY_def MDPW_REQUEST_def MDPW_REPORT_def MDPW_HEARTBEAT_def MDPW_DISCONNECT_def EMPTY_FRAME_def

definition HeartbeatInterval :: int where
  "HeartbeatInterval = HEARTBEAT_PERIOD_MSEC"

section \<open>The parts the handlers are built from\<close>

definition on_impl :: "('d, 'a) impl_op \<Rightarrow> ('d, 'a) broker_op" where
  "on_impl m b = (case m (m_impl b) of (r, i) \<Rightarrow> (r, b\<lparr>m_impl := i\<rparr>))"

abbreviation on_bd :: "('d, fault, 'a) prog \<Rightarrow> ('d, 'a) broker_op" where
  "on_bd m \<equiv> on_impl (on_db m)"

definition of_result :: "fault + 'a \<Rightarrow> ('s, fault, 'a) prog" where
  "of_result r = (case r of Inl f \<Rightarrow> raise f | Inr x \<Rightarrow> ret x)"

text \<open>A pointer that is followed, and one that a \<open>std::string\<close> is built from.\<close>

definition deref :: "'a option \<Rightarrow> ('s, fault, 'a) prog" where
  "deref p = of_result (case p of None \<Rightarrow> Inl NullDeref | Some x \<Rightarrow> Inr x)"

definition str_arg :: "string option \<Rightarrow> ('s, fault, string) prog" where
  "str_arg p = of_result (case p of None \<Rightarrow> Inl LogicError | Some x \<Rightarrow> Inr x)"

definition assert_b :: "bool \<Rightarrow> ('s, fault, unit) prog" where
  "assert_b b = check b AssertFailed"

text \<open>\<open>msg->send(*m_socket)\<close>\<close>

definition send_msg :: "frames \<Rightarrow> ('d, unit) broker_op" where
  "send_msg fs = bnd (of_result (fst (send fs))) (\<lambda>ms. upd (\<lambda>b. b\<lparr>m_sent := m_sent b @ [ms]\<rparr>))"

section \<open>Sending to a worker\<close>

text \<open>The optional frame is pushed first, so it ends up behind the others.\<close>

definition push_option :: "string \<Rightarrow> frames \<Rightarrow> frames" where
  "push_option option fs = (if option \<noteq> '''' then push_front_c option fs else fs)"

definition worker_send :: "'d env \<Rightarrow> Worker option \<Rightarrow> string \<Rightarrow> string \<Rightarrow> Letter option \<Rightarrow> ('d, unit) broker_op" where
  "worker_send E worker command option letter =
     (case worker of None \<Rightarrow> raise AssertFailed
      | Some w \<Rightarrow>
          (case letter of None \<Rightarrow> ret ()
           | Some l \<Rightarrow>
               bnd (on_bd (on_obj (w, l) (AssignLetterToWorker E))) (\<lambda>(assigned, w', l').
               if \<not> assigned then ret ()
               else send_msg
                 (wrap (wrk_identity w') (Some EMPTY_FRAME)
                   (push_front_c MDPW_WORKER
                   (push_front_c command
                   (push_front_c (let_reply_to l')
                   (push_front (let_header l')
                   (push_front (let_data l') (push_option option []))))))))))"

definition worker_send_text :: "Worker \<Rightarrow> string \<Rightarrow> string \<Rightarrow> string \<Rightarrow> string \<Rightarrow> ('d, unit) broker_op" where
  "worker_send_text worker command option header text =
     send_msg
       (wrap (wrk_identity worker) (Some EMPTY_FRAME)
         (push_front_c MDPW_WORKER
         (push_front_c command
         (push_front header
         (push_front text (push_option option []))))))"

definition worker_send_ident :: "string \<Rightarrow> string \<Rightarrow> string \<Rightarrow> frames option \<Rightarrow> ('d, unit) broker_op" where
  "worker_send_ident worker_identity command option msg =
     send_msg
       (wrap worker_identity (Some EMPTY_FRAME)
         (push_front_c MDPW_WORKER
         (push_front_c command
         (push_option option (case msg of None \<Rightarrow> [] | Some m \<Rightarrow> m)))))"

section \<open>Workers and services\<close>

definition worker_register :: "'d env \<Rightarrow> string \<Rightarrow> string \<Rightarrow> ('d, Worker option) broker_op" where
  "worker_register E service_name worker_identity = on_bd (PushWorkerForService E service_name worker_identity)"

definition worker_require :: "'d env \<Rightarrow> string \<Rightarrow> ('d, Worker option) broker_op" where
  "worker_require E identity = on_bd (GetWorkerByIdent E identity)"

text \<open>The result is the status and the object, which the caller still owns.\<close>

definition release :: "'d env \<Rightarrow> Worker option \<Rightarrow> bool \<Rightarrow> ('d, bool \<times> Worker option) broker_op" where
  "release E wrk disconnect =
     (case wrk of None \<Rightarrow> raise AssertFailed
      | Some w \<Rightarrow>
          sq (if disconnect then worker_send_ident (wrk_identity w) MDPW_DISCONNECT EMPTY_FRAME None else ret ())
             (bnd (on_bd (on_obj w (RemoveWorker E))) (\<lambda>(status, w'). ret (status, Some w'))))"

definition worker_expired :: "'d env \<Rightarrow> Worker \<Rightarrow> ('d, bool) broker_op" where
  "worker_expired E w =
     bnd (on_bd (attempt (clock_gettime E))) (\<lambda>c.
     of_result (Worker_Expired (case c of Inl _ \<Rightarrow> None | Inr now \<Rightarrow> Some now) w))"

text \<open>One worker of each service is looked at.\<close>

definition purge_service :: "'d env \<Rightarrow> Service \<Rightarrow> ('d, unit) broker_op" where
  "purge_service E service =
     bnd (on_bd (PopWorker E (Some service) ARMED)) (\<lambda>wrk.
     case wrk of None \<Rightarrow> ret ()
     | Some w \<Rightarrow>
         bnd (worker_expired E w) (\<lambda>expired.
         if expired then bnd (release E (Some w) False) (\<lambda>_. ret ()) else ret ()))"

definition purge_workers :: "'d env \<Rightarrow> ('d, unit) broker_op" where
  "purge_workers E =
     bnd (on_impl (GetServiceList E)) (\<lambda>sl.
     bnd (case sl_first sl of (service, sl1) \<Rightarrow> service_loop (purge_service E) service sl1) (\<lambda>sl2.
     on_impl (upd (\<lambda>i. i\<lparr>m_service_list := Some sl2\<rparr>))))"

definition service_require :: "'d env \<Rightarrow> string \<Rightarrow> ('d, Service option) broker_op" where
  "service_require E service_name =
     sq (assert_b (length service_name > 0))
    (bnd (on_bd (GetServiceByName E (c_str service_name))) (\<lambda>srv.
     case srv of Some s \<Rightarrow> ret (Some s)
     | None \<Rightarrow> on_bd (AddService E (c_str service_name))))"

text \<open>The \<open>while\<close> of the source ends with an unconditional \<open>break\<close>: at most one round.\<close>

definition service_dispatch :: "'d env \<Rightarrow> Service option \<Rightarrow> frames option \<Rightarrow> ('d, unit) broker_op" where
  "service_dispatch E srv processing_msg =
     sq (assert_b (srv \<noteq> None))
    (sq (case processing_msg of None \<Rightarrow> ret ()
         | Some m \<Rightarrow>
             bnd (of_result (Letter_of_zmsg m)) (\<lambda>letter.
             bnd (on_bd (on_obj letter (PushRequestToService E srv))) (\<lambda>_. ret ())))
    (sq (purge_workers E)
    (bnd (on_bd (PopWorker E srv ARMED)) (\<lambda>wrk.
     case wrk of None \<Rightarrow> ret ()
     | Some w \<Rightarrow>
         bnd (on_bd (GetWaitingLetter E srv)) (\<lambda>letter.
         case letter of None \<Rightarrow> ret ()
         | Some l \<Rightarrow> worker_send E (Some w) MDPW_REQUEST EMPTY_FRAME (Some l))))))"

text \<open>The result is the object with what \<open>PushWorker\<close> stored in it.\<close>

definition worker_waiting :: "'d env \<Rightarrow> Worker option \<Rightarrow> ('d, Worker option) broker_op" where
  "worker_waiting E worker =
     (case worker of None \<Rightarrow> raise AssertFailed
      | Some w \<Rightarrow>
          bnd (on_bd (on_obj w (PushWorker E))) (\<lambda>(_, w').
          bnd (on_bd (GetServiceById E (wrk_service_id w'))) (\<lambda>service.
          sq (case service of None \<Rightarrow> ret () | Some _ \<Rightarrow> service_dispatch E service None)
             (ret (Some w')))))"

section \<open>The internal services\<close>

definition service_active :: "Service \<Rightarrow> bool" where
  "service_active s \<longleftrightarrow> srv_state s = ACTIVATED \<or> srv_state s = REGISTERED"

definition mmi_service :: "'d env \<Rightarrow> frames \<Rightarrow> ('d, frames) broker_op" where
  "mmi_service E msg =
     sq (assert_b (parts msg = 3))
    (bnd (deref (get_part 2 msg)) (\<lambda>asked.
     bnd (on_bd (GetServiceByName E (c_str asked))) (\<lambda>srv.
     case srv of None \<Rightarrow> ret (body_set ''404'' msg)
     | Some s \<Rightarrow>
         if service_active s
         then bnd (of_result (Service_GetENDPOINT s)) (\<lambda>endpoint. ret (push_back_c endpoint (body_set ''200'' msg)))
         else ret (body_set ''404'' msg))))"

definition mmi_filter :: "'d env \<Rightarrow> frames \<Rightarrow> ('d, frames) broker_op" where
  "mmi_filter E msg =
     bnd (of_result (pop_front msg)) (\<lambda>(operation_frame, m1).
     bnd (of_result (pop_front m1)) (\<lambda>(service_frame, m2).
     bnd (of_result (pop_front m2)) (\<lambda>(command_frame, m3).
     bnd (if operation_frame = ''enable'' \<or> operation_frame = ''disable''
          then sq (on_bd (ServiceCommand service_frame command_frame)) (ret (body_set ''200'' m3))
          else ret (body_set ''400'' m3)) (\<lambda>m4.
     ret (push_front_c EMPTY_FRAME m4)))))"

definition service_internal :: "'d env \<Rightarrow> string \<Rightarrow> frames \<Rightarrow> ('d, unit) broker_op" where
  "service_internal E service_name msg =
     sq (assert_b (parts msg \<ge> 2))
    (bnd (if service_name = ''mmi.service'' then mmi_service E msg
          else if service_name = ''mmi.filter'' then mmi_filter E msg
          else ret (body_set ''501'' msg)) (\<lambda>msg1.
     case unwrap msg1 of (client, msg2) \<Rightarrow>
       bnd (str_arg client) (\<lambda>c.
       send_msg
         (wrap c (Some EMPTY_FRAME)
           (push_front_c MDPC_CLIENT
           (push_front_c MDPC_REPORT
           (wrap MDPC_CLIENT (Some (c_str service_name)) msg2)))))))"

section \<open>Messages of workers\<close>

definition is_mmi :: "string \<Rightarrow> bool" where
  "is_mmi s \<longleftrightarrow> length s \<ge> 4 \<and> contains_sub ''mmi.'' s"

definition worker_process_READY ::
  "'d env \<Rightarrow> Worker option \<Rightarrow> string \<Rightarrow> frames \<Rightarrow> ('d, bool \<times> Worker option) broker_op" where
  "worker_process_READY E worker sender_identity msg =
     (case worker of
        Some _ \<Rightarrow> release E worker True
      | None \<Rightarrow>
          if is_mmi sender_identity then release E worker True
          else
            bnd (of_result (pop_front msg)) (\<lambda>(service_name, m1).
            bnd (of_result (pop_front m1)) (\<lambda>(endpoint, _).
            bnd (service_require E service_name) (\<lambda>service.
            sq (assert_b (service \<noteq> None))
           (bnd (deref service) (\<lambda>s.
            bnd (of_result (Service_SetENDPOINT (Some (c_str endpoint)) s)) (\<lambda>s1.
            bnd (on_bd (Update_Service E s1)) (\<lambda>_.
            bnd (of_result (Worker_make (srv_id s1) (Some (c_str sender_identity)) 0 0)) (\<lambda>w.
            bnd (worker_waiting E (Some w)) (\<lambda>w'.
            sq (service_dispatch E (Some s1) None)
               (ret (True, w'))))))))))))"

definition worker_process_REPORT ::
  "'d env \<Rightarrow> Worker option \<Rightarrow> string \<Rightarrow> frames \<Rightarrow> ('d, bool \<times> Worker option) broker_op" where
  "worker_process_REPORT E worker sender_identity msg =
     (case worker of
        None \<Rightarrow> ret (False, None)
      | Some w \<Rightarrow>
          bnd (on_bd (GetServiceForWorker E worker)) (\<lambda>service.
          bnd (deref service) (\<lambda>s.
          sq (assert_b (srv_id s = wrk_service_id w))
         (bnd (on_bd (on_obj w (ReleaseLetterFromWorker E))) (\<lambda>(status, w').
          case unwrap msg of (client, m) \<Rightarrow>
            bnd (str_arg client) (\<lambda>c.
            bnd (str_arg (srv_name s)) (\<lambda>name.
            sq (send_msg
                 (wrap c (Some EMPTY_FRAME)
                   (push_front_c MDPC_CLIENT
                   (push_front_c MDPC_REPORT
                   (push_front_c name m)))))
           (bnd (worker_waiting E (Some w')) (\<lambda>w''. ret (status, w''))))))))))"

definition worker_process_HEARTBEAT ::
  "'d env \<Rightarrow> Worker option \<Rightarrow> string \<Rightarrow> frames \<Rightarrow> ('d, bool \<times> Worker option) broker_op" where
  "worker_process_HEARTBEAT E worker sender_identity msg =
     (case worker of
        None \<Rightarrow> ret (True, None)
      | Some _ \<Rightarrow> bnd (worker_waiting E worker) (\<lambda>w'. ret (True, w')))"

definition worker_process_DISCONNECT ::
  "'d env \<Rightarrow> Worker option \<Rightarrow> string \<Rightarrow> frames \<Rightarrow> ('d, bool \<times> Worker option) broker_op" where
  "worker_process_DISCONNECT E worker sender_identity msg = release E worker False"

definition worker_command ::
  "'d env \<Rightarrow> string \<Rightarrow> Worker option \<Rightarrow> string \<Rightarrow> frames \<Rightarrow> ('d, bool \<times> Worker option) broker_op" where
  "worker_command E command wrk sender_identity msg =
     (if command = MDPW_READY then worker_process_READY E wrk sender_identity msg
      else if command = MDPW_REPORT then worker_process_REPORT E wrk sender_identity msg
      else if command = MDPW_HEARTBEAT then worker_process_HEARTBEAT E wrk sender_identity msg
      else if command = MDPW_DISCONNECT then worker_process_DISCONNECT E wrk sender_identity msg
      else ret (False, wrk))"

definition worker_msg :: "'d env \<Rightarrow> string \<Rightarrow> frames \<Rightarrow> ('d, unit) broker_op" where
  "worker_msg E sender_identity msg =
     sq (assert_b (parts msg \<ge> 1))
    (sq (assert_b (length sender_identity > 0))
    (bnd (of_result (pop_front msg)) (\<lambda>(command, m).
     bnd (on_bd (GetWorkerByIdent E sender_identity)) (\<lambda>wrk.
     bnd (worker_command E command wrk sender_identity m) (\<lambda>(status, wrk').
     if \<not> status \<and> wrk' = None
     then worker_send_ident (c_str sender_identity) MDPW_DISCONNECT EMPTY_FRAME None
     else ret ())))))"

section \<open>Messages of clients\<close>

definition client_msg :: "'d env \<Rightarrow> string \<Rightarrow> frames \<Rightarrow> ('d, unit) broker_op" where
  "client_msg E sender msg =
     sq (assert_b (parts msg \<ge> 2))
    (bnd (of_result (pop_front msg)) (\<lambda>(service_frame, m).
     if is_mmi service_frame
     then service_internal E service_frame (wrap (c_str sender) (Some EMPTY_FRAME) m)
     else
       bnd (on_bd (GetServiceByName E (c_str service_frame))) (\<lambda>srv.
       case srv of
         None \<Rightarrow>
           send_msg
             (wrap (c_str sender) (Some EMPTY_FRAME)
               (push_front_c MDPC_CLIENT
               (push_front_c MDPC_NAK
               (push_front_c (c_str service_frame) []))))
       | Some s \<Rightarrow>
           (let m1 = wrap (c_str sender) (Some EMPTY_FRAME) m in
            if parts m1 \<ge> 1 then service_dispatch E srv (Some m1) else ret ()))))"

section \<open>The loop\<close>

text \<open>The body of \<open>start_brokering\<close> for one message, as \<open>recv\<close> has left its frames.\<close>

definition process_message :: "'d env \<Rightarrow> frames \<Rightarrow> ('d, unit) broker_op" where
  "process_message E msg =
     sq (assert_b (parts msg \<ge> 3))
    (bnd (of_result (pop_front msg)) (\<lambda>(sender, m1).
     sq (assert_b (sender \<noteq> ''''))
    (bnd (of_result (pop_front m1)) (\<lambda>(empty, m2).
     sq (assert_b (empty = ''''))
    (bnd (of_result (pop_front m2)) (\<lambda>(header, m3).
     sq (assert_b (header \<noteq> ''''))
       (if header = MDPC_CLIENT then client_msg E sender m3
        else if header = MDPW_WORKER then worker_msg E sender m3
        else ret ())))))))"

text \<open>One round: the frames the poll found, if any, and what \<open>s_clock()\<close> says afterwards.\<close>

definition brokering_round :: "'d env \<Rightarrow> frames option \<Rightarrow> int \<Rightarrow> ('d, unit) broker_op" where
  "brokering_round E wire now =
     sq (case wire of None \<Rightarrow> ret ()
         | Some fs \<Rightarrow>
             (case recv (arrives fs) of
                None \<Rightarrow> ret ()
              | Some r \<Rightarrow> bnd (of_result r) (\<lambda>(_, msg, _). process_message E msg)))
    (bnd (rd m_heartbeat_at) (\<lambda>t. if now > t then purge_workers E else ret ()))"

text \<open>The rounds until a signal ends the loop; a fault ends the process.\<close>

fun brokering_rounds :: "'d env \<Rightarrow> (frames option \<times> int) list \<Rightarrow> ('d, unit) broker_op" where
  "brokering_rounds E [] = ret ()"
| "brokering_rounds E ((wire, now) # rounds) = sq (brokering_round E wire now) (brokering_rounds E rounds)"

section \<open>Starting\<close>

fun replace_first :: "string \<Rightarrow> string \<Rightarrow> string \<Rightarrow> string" where
  "replace_first pat new [] = []"
| "replace_first pat new (c # s) =
     (if take (length pat) (c # s) = pat then new @ drop (length pat) (c # s) else c # replace_first pat new s)"

text \<open>\<open>bind_ok\<close>: whether \<open>socket_t::bind\<close> accepts the address.\<close>

definition Bind :: "(string \<Rightarrow> bool) \<Rightarrow> ('d, bool) broker_op" where
  "Bind bind_ok =
     (let endpoint = c_str (getEndpoint Endpoints) in
      sq (upd (\<lambda>b. b\<lparr>m_endpoint := replace_first ''localhost'' ''lo'' endpoint\<rparr>))
     (bnd (rd m_endpoint) (\<lambda>e. ret (bind_ok (c_str e)))))"

definition Init :: "('d, bool) broker_op \<Rightarrow> (string \<Rightarrow> bool) \<Rightarrow> ('d, bool) broker_op" where
  "Init connect bind_ok = bnd connect (\<lambda>status. if status then Bind bind_ok else ret False)"

text \<open>\<open>start_brokering\<close>: the loop runs only when the broker could connect to its database and bind its socket.\<close>

definition start_brokering ::
  "'d env \<Rightarrow> ('d, bool) broker_op \<Rightarrow> (string \<Rightarrow> bool) \<Rightarrow> (frames option \<times> int) list \<Rightarrow> ('d, unit) broker_op" where
  "start_brokering E connect bind_ok rounds =
     bnd (Init connect bind_ok) (\<lambda>ready. if ready then brokering_rounds E rounds else ret ())"

definition Broker_new :: "'d \<Rightarrow> int \<Rightarrow> 'd broker" where
  "Broker_new d now =
     \<lparr>m_impl = \<lparr>m_database = d, m_service_list = None\<rparr>, m_endpoint = '''', m_heartbeat_at = now + HeartbeatInterval,
      m_sent = []\<rparr>"

end
