(* ===== verification/WorkerApi.thy ===== *)
theory WorkerApi
  imports MdpBroker
begin

text \<open>
  The worker's side of the protocol: class \<open>mdwrk\<close> (mdp/mdp_worker_api.cpp) and the echo service
  built on it (worker/wecho.cpp).  ZeroMQ and the clock are the record \<open>wnet\<close>; what \<open>zmq::poll\<close>
  and the socket deliver is a list with one entry per pass of the loop.  What the worker hands to
  its sockets is a list of events.  Log output is left out.
\<close>

section \<open>State\<close>

definition HEARTBEAT_LIVENESS :: "64 word" where
  "HEARTBEAT_LIVENESS = 3"

text \<open>A socket pointer: null, to a live socket, or to one that has been deleted.\<close>

datatype socket_ptr = NoSocket | LiveSocket | DeletedSocket

datatype wevent = Connected string string | SentFrames "(string \<times> bool) list" | Slept int

record mdwrk =
  m_broker_endpoint :: string
  m_service :: string
  m_welcome_endpoint :: "string option"
  m_worker :: socket_ptr
  m_heartbeat_at_msec :: int
  m_liveness :: "64 word"
  m_heartbeat_msec :: int
  m_reconnect_msec :: int
  m_expect_reply :: bool
  interrupt_worker :: bool
  m_events :: "wevent list"
  m_sockets :: nat
  m_clock_reads :: nat

text \<open>The \<open>n\<close>-th reading of the clock, whether the \<open>n\<close>-th socket can be made, and whether an
  identity and an endpoint are accepted.\<close>

record wnet =
  n_clock :: "nat \<Rightarrow> int"
  n_socket :: "nat \<Rightarrow> bool"
  n_connect :: "string \<Rightarrow> string \<Rightarrow> bool"

text \<open>\<open>zmq::error_t\<close> beside the faults; \<open>std::logic_error\<close> is the fault \<open>LogicError\<close>.\<close>

datatype wexc = Fault fault | Zmq_error

type_synonym 'a worker_op = "(mdwrk, wexc, 'a) prog"

definition lift_w :: "fault + 'a \<Rightarrow> ('s, wexc, 'a) prog" where
  "lift_w r = (case r of Inl f \<Rightarrow> raise (Fault f) | Inr x \<Rightarrow> ret x)"

definition assert_w :: "bool \<Rightarrow> ('s, wexc, unit) prog" where
  "assert_w b = check b (Fault AssertFailed)"

definition event :: "wevent \<Rightarrow> unit worker_op" where
  "event e = upd (\<lambda>w. w\<lparr>m_events := m_events w @ [e]\<rparr>)"

definition s_clock :: "wnet \<Rightarrow> int worker_op" where
  "s_clock N =
     bnd (rd m_clock_reads) (\<lambda>n.
     sq (upd (\<lambda>w. w\<lparr>m_clock_reads := n + 1\<rparr>)) (ret (n_clock N n)))"

section \<open>Endpoints\<close>

text \<open>The worker's own copy of the table; its third service is called \<open>ECH\<close>, in the broker's
  copy \<open>EXCH\<close>.\<close>

definition WorkerEndpoints :: "ServiceEndpoint_t list" where
  "WorkerEndpoints =
     [\<lparr>ep_name = ''BROKER'', endpoint_default = ''tcp://localhost:5555'', endpoint_given = ''''\<rparr>,
      \<lparr>ep_name = ''SINF'', endpoint_default = ''tcp://localhost:5556'', endpoint_given = ''''\<rparr>,
      \<lparr>ep_name = ''IHM'', endpoint_default = ''tcp://localhost:5558'', endpoint_given = ''''\<rparr>,
      \<lparr>ep_name = ''ECH'', endpoint_default = ''tcp://localhost:5559'', endpoint_given = ''''\<rparr>,
      \<lparr>ep_name = '''', endpoint_default = '''', endpoint_given = ''''\<rparr>]"

fun strrchr :: "char \<Rightarrow> string \<Rightarrow> nat option" where
  "strrchr c [] = None"
| "strrchr c (x # s) =
     (case strrchr c s of Some n \<Rightarrow> Some (Suc n) | None \<Rightarrow> if x = c then Some 0 else None)"

text \<open>
  The rewriting is done in place: \<open>strcpy(pos_slash + 1, "*")\<close> puts a star and a NUL after the
  last slash, then \<open>strcat\<close> appends what stands at the last colon by now.  \<open>None\<close> stands for
  following the null pointer of a character that does not occur.
\<close>

definition for_bind :: "string \<Rightarrow> string option" where
  "for_bind endpoint =
     (case (strrchr (CHR ''/'') endpoint, strrchr (CHR '':'') endpoint) of
        (Some slash, Some colon) \<Rightarrow>
          (let endp = take (Suc slash) endpoint @ [CHR ''*'', NUL] @ drop (slash + 3) (endpoint @ [NUL])
           in Some (c_str endp @ c_str (drop colon endp)))
      | _ \<Rightarrow> None)"

text \<open>The search starts behind the broker's entry; a service that is not listed has no endpoint.\<close>

definition getEndpoint_worker :: "bool \<Rightarrow> string \<Rightarrow> fault + string option" where
  "getEndpoint_worker convertation_asked service =
     (case find_endpoint service (tl WorkerEndpoints) of
        None \<Rightarrow> Inr None
      | Some e \<Rightarrow>
          if convertation_asked
          then (case for_bind (given_or_default e) of None \<Rightarrow> Inl NullDeref | Some b \<Rightarrow> Inr (Some b))
          else Inr (Some (given_or_default e)))"

section \<open>Sending\<close>

text \<open>\<open>push_front\<close> of a null pointer builds a \<open>std::string\<close> from it.\<close>

definition push_front_p :: "string option \<Rightarrow> frames \<Rightarrow> fault + frames" where
  "push_front_p part fs = (case part of None \<Rightarrow> Inl LogicError | Some p \<Rightarrow> Inr (push_front_c p fs))"

definition send_to_broker :: "string \<Rightarrow> string option \<Rightarrow> frames option \<Rightarrow> unit worker_op" where
  "send_to_broker command option msg =
     (let m = (case msg of Some m \<Rightarrow> m | None \<Rightarrow> []);
          m1 = (case option of Some opt \<Rightarrow> push_front_c opt m | None \<Rightarrow> m);
          m2 = push_front_c '''' (push_front_c MDPW_WORKER (push_front_c command m1))
      in bnd (rd m_worker) (\<lambda>s. case s of
           NoSocket \<Rightarrow> ret ()
         | LiveSocket \<Rightarrow> bnd (lift_w (fst (send m2))) (\<lambda>fs. event (SentFrames fs))
         | DeletedSocket \<Rightarrow> raise (Fault NullDeref)))"

definition update_heartbeat_sign :: "wnet \<Rightarrow> unit worker_op" where
  "update_heartbeat_sign N =
     bnd (s_clock N) (\<lambda>now.
     upd (\<lambda>w. w\<lparr>m_heartbeat_at_msec := now + m_heartbeat_msec w, m_liveness := HEARTBEAT_LIVENESS\<rparr>))"

section \<open>Connecting\<close>

definition new_socket :: "wnet \<Rightarrow> unit worker_op" where
  "new_socket N =
     bnd (rd m_sockets) (\<lambda>n.
     sq (check (n_socket N n) Zmq_error)
        (upd (\<lambda>w. w\<lparr>m_worker := LiveSocket, m_sockets := Suc n\<rparr>)))"

definition connect_to_broker :: "wnet \<Rightarrow> unit worker_op" where
  "connect_to_broker N =
     sq (upd (\<lambda>w. if m_worker w \<noteq> NoSocket then w\<lparr>m_worker := DeletedSocket\<rparr> else w))
    (sq (new_socket N)
    (bnd (rd m_service) (\<lambda>service.
     bnd (rd m_broker_endpoint) (\<lambda>endpoint.
     sq (check (n_connect N service (c_str endpoint)) Zmq_error)
    (sq (event (Connected service (c_str endpoint)))
    (bnd (lift_w (getEndpoint_worker False service)) (\<lambda>endp.
     bnd (lift_w (push_front_p endp [])) (\<lambda>msg.
     sq (send_to_broker MDPW_READY None (Some (push_front_c service msg)))
        (update_heartbeat_sign N)))))))))"

definition set_heartbeat :: "int \<Rightarrow> unit worker_op" where
  "set_heartbeat heartbeat = upd (\<lambda>w. w\<lparr>m_heartbeat_msec := heartbeat\<rparr>)"

definition set_reconnect :: "int \<Rightarrow> unit worker_op" where
  "set_reconnect reconnect = upd (\<lambda>w. w\<lparr>m_reconnect_msec := reconnect\<rparr>)"

text \<open>The fields as the constructor's initialisers leave them.\<close>

definition mdwrk_fields :: "string \<Rightarrow> string \<Rightarrow> mdwrk" where
  "mdwrk_fields broker_endpoint service =
     \<lparr>m_broker_endpoint = broker_endpoint, m_service = service, m_welcome_endpoint = None, m_worker = NoSocket,
      m_heartbeat_at_msec = 0, m_liveness = HEARTBEAT_LIVENESS, m_heartbeat_msec = HeartbeatInterval,
      m_reconnect_msec = HeartbeatInterval, m_expect_reply = False, interrupt_worker = False,
      m_events = [], m_sockets = 0, m_clock_reads = 0\<rparr>"

definition mdwrk_init :: "wnet \<Rightarrow> unit worker_op" where
  "mdwrk_init N =
     bnd (rd m_service) (\<lambda>service.
     bnd (lift_w (getEndpoint_worker True service)) (\<lambda>endp.
     sq (upd (\<lambda>w. w\<lparr>m_welcome_endpoint := endp\<rparr>))
        (connect_to_broker N)))"

definition mdwrk_new :: "wnet \<Rightarrow> string \<Rightarrow> string \<Rightarrow> (wexc + unit) \<times> mdwrk" where
  "mdwrk_new N broker_endpoint service = mdwrk_init N (mdwrk_fields broker_endpoint service)"

definition mdwrk_delete :: "unit worker_op" where
  "mdwrk_delete =
     sq (send_to_broker MDPW_DISCONNECT None None)
        (upd (\<lambda>w. if m_worker w \<noteq> NoSocket then w\<lparr>m_worker := DeletedSocket\<rparr> else w))"

section \<open>Receiving\<close>

text \<open>What a pass of the loop meets: an error of \<open>zmq::poll\<close> (a signal is one), nothing, or a message.\<close>

datatype poll_result = PollError | PollSilent | PollReady "rx list"

text \<open>How a pass goes on: the request with its return address, or the next pass.\<close>

datatype recv_result = Request string frames | Null | Waiting

text \<open>A read that finds nothing more gives up after the timeout of the socket.\<close>

definition take_message :: "rx list \<Rightarrow> frames worker_op" where
  "take_message inp = (case recv (inp @ [RxFalse]) of
     None \<Rightarrow> ret [] | Some r \<Rightarrow> bnd (lift_w r) (\<lambda>(_, msg, _). ret msg))"

definition handle_message :: "wnet \<Rightarrow> frames \<Rightarrow> (string \<times> frames) option worker_op" where
  "handle_message N msg =
     sq (assert_w (parts msg \<ge> 3))
    (bnd (lift_w (pop_front msg)) (\<lambda>(empty, m1).
     sq (assert_w (empty = ''''))
    (bnd (lift_w (pop_front m1)) (\<lambda>(header, m2).
     sq (assert_w (header = MDPW_WORKER))
    (bnd (lift_w (pop_front m2)) (\<lambda>(command, m3).
     if command = MDPW_REQUEST then
       (case unwrap m3 of
          (None, _) \<Rightarrow> raise (Fault NullDeref)
        | (Some frame_reply, m4) \<Rightarrow> ret (Some (frame_reply, m4)))
     else if command = MDPW_HEARTBEAT then ret None
     else if command = MDPW_DISCONNECT then sq (connect_to_broker N) (ret None)
     else ret None))))))"

text \<open>\<open>else if (--m_liveness == 0)\<close>: the counter is a \<open>size_t\<close>.\<close>

definition poll_timeout :: "wnet \<Rightarrow> unit worker_op" where
  "poll_timeout N =
     sq (upd (\<lambda>w. w\<lparr>m_liveness := m_liveness w - 1\<rparr>))
    (bnd (rd m_liveness) (\<lambda>l.
     if l = 0
     then bnd (s_clock N) (\<lambda>_.
          bnd (rd m_reconnect_msec) (\<lambda>ms.
          sq (event (Slept ms)) (connect_to_broker N)))
     else ret ()))"

definition send_heartbeat_if_due :: "wnet \<Rightarrow> unit worker_op" where
  "send_heartbeat_if_due N =
     bnd (s_clock N) (\<lambda>now.
     bnd (rd m_heartbeat_at_msec) (\<lambda>t.
     if now > t
     then sq (send_to_broker MDPW_HEARTBEAT None None) (update_heartbeat_sign N)
     else ret ()))"

definition recv_pass :: "wnet \<Rightarrow> poll_result \<Rightarrow> (string \<times> frames) option worker_op" where
  "recv_pass N p =
     (case p of
        PollError \<Rightarrow> raise Zmq_error
      | PollReady inp \<Rightarrow>
          bnd (take_message inp) (\<lambda>msg.
          sq (update_heartbeat_sign N)
         (bnd (handle_message N msg) (\<lambda>r. case r of
            Some q \<Rightarrow> ret (Some q)
          | None \<Rightarrow> sq (send_heartbeat_if_due N) (ret None))))
      | PollSilent \<Rightarrow> sq (poll_timeout N) (sq (send_heartbeat_if_due N) (ret None)))"

text \<open>The loop over the passes, each with whether a signal arrived in it.\<close>

fun recv_passes :: "wnet \<Rightarrow> (poll_result \<times> bool) list \<Rightarrow> recv_result worker_op" where
  "recv_passes N [] = bnd (rd interrupt_worker) (\<lambda>i. ret (if i then Null else Waiting))"
| "recv_passes N ((p, signalled) # ps) =
     bnd (rd interrupt_worker) (\<lambda>i.
     if i then ret Null
     else bnd (recv_pass N p) (\<lambda>r.
       sq (upd (\<lambda>w. w\<lparr>interrupt_worker := interrupt_worker w \<or> signalled\<rparr>))
          (case r of Some (from, msg) \<Rightarrow> ret (Request from msg) | None \<Rightarrow> recv_passes N ps)))"

text \<open>\<open>zmq::error_t\<close> and \<open>std::exception\<close> are caught and end the loop.\<close>

definition catching :: "recv_result worker_op \<Rightarrow> recv_result worker_op" where
  "catching m w = (case m w of
     (Inl e, w') \<Rightarrow> if e = Zmq_error \<or> e = Fault LogicError then (Inr Null, w'\<lparr>interrupt_worker := True\<rparr>) else (Inl e, w')
   | (Inr r, w') \<Rightarrow> (Inr r, w'))"

text \<open>\<open>has_reply\<close>: whether the caller gave a string for the address.  The request's address is
  assigned through it.\<close>

definition mdwrk_recv :: "wnet \<Rightarrow> bool \<Rightarrow> (poll_result \<times> bool) list \<Rightarrow> recv_result worker_op" where
  "mdwrk_recv N has_reply ps =
     bnd (rd m_expect_reply) (\<lambda>e.
     sq (assert_w (has_reply \<or> \<not> e))
        (catching
          (sq (upd (\<lambda>w. w\<lparr>m_expect_reply := True\<rparr>))
          (bnd (recv_passes N ps) (\<lambda>r. case r of
             Request from msg \<Rightarrow> sq (check has_reply (Fault NullDeref)) (ret r)
           | _ \<Rightarrow> ret r)))))"

section \<open>The echo service\<close>

text \<open>\<open>Echo::handle_request\<close>: the frame behind the address comes off with the first \<open>unwrap\<close>.\<close>

definition Echo_handle_request :: "frames \<Rightarrow> string \<Rightarrow> unit worker_op" where
  "Echo_handle_request request reply_to =
     sq (assert_w (parts request \<ge> 1))
        (send_to_broker MDPW_REPORT None (Some (wrap (c_str reply_to) (Some EMPTY_FRAME) (snd (unwrap request)))))"

section \<open>The frames that travel\<close>

lemma c_str_worker_lits:
  "c_str MDPW_WORKER = MDPW_WORKER" "c_str MDPW_READY = MDPW_READY" "c_str MDPW_REPORT = MDPW_REPORT"
  "c_str MDPW_HEARTBEAT = MDPW_HEARTBEAT" "c_str MDPW_DISCONNECT = MDPW_DISCONNECT" "c_str MDPW_REQUEST = MDPW_REQUEST"
  by (simp_all add: protocol_defs c_str_def NUL_def)

lemma send_empty_first: "fst (send ('''' # fs)) = Inr (flagged ('''' # fs))"
  by (simp add: send_def send_frame_def send_from_later IDENTITY_MAXLEN_def)

definition to_broker :: "string \<Rightarrow> frames \<Rightarrow> wevent" where
  "to_broker command fs = SentFrames (flagged ('''' # MDPW_WORKER # command # fs))"

lemma send_to_broker_live:
  assumes "m_worker w = LiveSocket" and "c_str command = command"
  shows "send_to_broker command None (Some fs) w = (Inr (), w\<lparr>m_events := m_events w @ [to_broker command fs]\<rparr>)"
    and "send_to_broker command None None w = (Inr (), w\<lparr>m_events := m_events w @ [to_broker command []]\<rparr>)"
  using assms by (simp_all add: send_to_broker_def Let_def prog_defs push_front_c_def c_str_worker_lits
      send_empty_first lift_w_def event_def to_broker_def del: flagged.simps)

lemma take_message_arrives:
  "take_message (arrives (f # fs)) w = (Inr (printable_first f # fs), w)"
  by (simp only: take_message_def recv_arrives) (simp add: lift_w_def prog_defs)

lemma take_message_plain: "take_message (arrives ('''' # fs)) w = (Inr ('''' # fs), w)"
  by (simp add: take_message_arrives printable_first_def first_is_identity_def del: arrives_simps)

section \<open>Connecting\<close>

definition worker_endpoint :: "string \<Rightarrow> string option" where
  "worker_endpoint service = map_option given_or_default (find_endpoint service (tl WorkerEndpoints))"

lemma getEndpoint_worker_False [simp]: "getEndpoint_worker False service = Inr (worker_endpoint service)"
  by (simp add: getEndpoint_worker_def worker_endpoint_def split: option.splits)

lemma worker_endpoint_cases:
  "worker_endpoint service = (if service = ''SINF'' then Some ''tcp://localhost:5556''
     else if service = ''IHM'' then Some ''tcp://localhost:5558''
     else if service = ''ECH'' then Some ''tcp://localhost:5559'' else None)"
  by (simp add: worker_endpoint_def WorkerEndpoints_def given_or_default_def)

lemma worker_endpoint_plain:
  assumes "worker_endpoint service = Some e"
  shows "c_str service = service \<and> c_str e = e \<and> service \<noteq> ''''"
  using assms by (auto simp: worker_endpoint_cases c_str_def NUL_def split: if_splits)

text \<open>Whether the next connection is made, and the worker after it.\<close>

definition connects :: "wnet \<Rightarrow> mdwrk \<Rightarrow> bool" where
  "connects N w \<longleftrightarrow> n_socket N (m_sockets w) \<and> n_connect N (m_service w) (c_str (m_broker_endpoint w))"

definition reconnected :: "wnet \<Rightarrow> string \<Rightarrow> mdwrk \<Rightarrow> mdwrk" where
  "reconnected N e w =
     w\<lparr>m_worker := LiveSocket, m_sockets := Suc (m_sockets w),
       m_events := m_events w @ [Connected (m_service w) (c_str (m_broker_endpoint w)),
          to_broker MDPW_READY [m_service w, e]],
       m_heartbeat_at_msec := n_clock N (m_clock_reads w) + m_heartbeat_msec w, m_liveness := HEARTBEAT_LIVENESS,
       m_clock_reads := m_clock_reads w + 1\<rparr>"

lemma update_heartbeat_sign_eq:
  "update_heartbeat_sign N w =
     (Inr (), w\<lparr>m_heartbeat_at_msec := n_clock N (m_clock_reads w) + m_heartbeat_msec w,
        m_liveness := HEARTBEAT_LIVENESS, m_clock_reads := m_clock_reads w + 1\<rparr>)"
  by (simp add: update_heartbeat_sign_def s_clock_def prog_defs)

lemma connect_to_broker_ok:
  assumes "connects N w" and e: "worker_endpoint (m_service w) = Some e"
  shows "connect_to_broker N w = (Inr (), reconnected N e w)"
proof -
  note plain = worker_endpoint_plain [OF e]
  show ?thesis
    using assms plain
    by (cases "m_worker w"; simp add: connect_to_broker_def prog_defs new_socket_def event_def lift_w_def push_front_p_def
      push_front_c_def connects_def send_to_broker_live c_str_worker_lits update_heartbeat_sign_eq reconnected_def)
qed

section \<open>Silence\<close>

lemma send_heartbeat_if_due_eq:
  assumes "m_worker w = LiveSocket"
  shows "send_heartbeat_if_due N w = (Inr (),
     if n_clock N (m_clock_reads w) > m_heartbeat_at_msec w
     then w\<lparr>m_events := m_events w @ [to_broker MDPW_HEARTBEAT []],
       m_heartbeat_at_msec := n_clock N (m_clock_reads w + 1) + m_heartbeat_msec w, m_liveness := HEARTBEAT_LIVENESS,
       m_clock_reads := m_clock_reads w + 2\<rparr>
     else w\<lparr>m_clock_reads := m_clock_reads w + 1\<rparr>)"
  using assms
  by (simp add: send_heartbeat_if_due_def s_clock_def prog_defs send_to_broker_live c_str_worker_lits update_heartbeat_sign_eq)

lemma silent_pass:
  assumes "m_worker w = LiveSocket" and "m_liveness w \<noteq> 1"
  shows "recv_pass N PollSilent w = (Inr None,
     if n_clock N (m_clock_reads w) > m_heartbeat_at_msec w
     then w\<lparr>m_events := m_events w @ [to_broker MDPW_HEARTBEAT []],
       m_heartbeat_at_msec := n_clock N (m_clock_reads w + 1) + m_heartbeat_msec w, m_liveness := HEARTBEAT_LIVENESS,
       m_clock_reads := m_clock_reads w + 2\<rparr>
     else w\<lparr>m_liveness := m_liveness w - 1, m_clock_reads := m_clock_reads w + 1\<rparr>)"
  using assms by (simp add: recv_pass_def poll_timeout_def sq_def bnd_def ret_def rd_def upd_def send_heartbeat_if_due_eq)

text \<open>Each of \<open>n\<close> silent polls ends after the time of the next heartbeat.\<close>

fun polls_outlast :: "wnet \<Rightarrow> int \<Rightarrow> int \<Rightarrow> nat \<Rightarrow> nat \<Rightarrow> bool" where
  "polls_outlast N period due k 0 \<longleftrightarrow> True"
| "polls_outlast N period due k (Suc n) \<longleftrightarrow>
     due < n_clock N k \<and> polls_outlast N period (n_clock N (k + 1) + period) (k + 2) n"

lemma silent_passes:
  assumes "m_worker w = LiveSocket" and "\<not> interrupt_worker w" and "m_liveness w \<noteq> 1"
    and "polls_outlast N (m_heartbeat_msec w) (m_heartbeat_at_msec w) (m_clock_reads w) n"
  shows "\<exists>w'. recv_passes N (replicate n (PollSilent, False)) w = (Inr Waiting, w')
     \<and> m_events w' = m_events w @ replicate n (to_broker MDPW_HEARTBEAT []) \<and> m_sockets w' = m_sockets w
     \<and> m_worker w' = LiveSocket \<and> \<not> interrupt_worker w'"
  using assms
proof (induction n arbitrary: w)
  case 0
  then show ?case by (simp add: prog_defs)
next
  case (Suc n)
  let ?w1 = "w\<lparr>m_events := m_events w @ [to_broker MDPW_HEARTBEAT []],
       m_heartbeat_at_msec := n_clock N (m_clock_reads w + 1) + m_heartbeat_msec w, m_liveness := HEARTBEAT_LIVENESS,
       m_clock_reads := m_clock_reads w + 2\<rparr>"
  have 1: "recv_pass N PollSilent w = (Inr None, ?w1)"
    using Suc.prems by (simp add: silent_pass)
  have 2: "recv_passes N (replicate (Suc n) (PollSilent, False)) w = recv_passes N (replicate n (PollSilent, False)) ?w1"
    using Suc.prems(2) by (simp add: sq_def bnd_def rd_def upd_def 1)
  show ?case
    unfolding 2 using Suc.IH [of ?w1] Suc.prems by (auto simp: HEARTBEAT_LIVENESS_def)
qed

lemma recv_within:
  assumes "recv_passes N ps (w\<lparr>m_expect_reply := True\<rparr>) = (Inr r, w')"
  shows "mdwrk_recv N True ps w = (Inr r, w')"
  using assms by (cases r) (simp_all add: mdwrk_recv_def assert_w_def catching_def sq_def bnd_def rd_def upd_def ret_def check_def)

section \<open>The liveness counter\<close>

definition watching :: "mdwrk \<Rightarrow> bool" where
  "watching w \<longleftrightarrow> 1 \<le> m_liveness w \<and> m_liveness w \<le> HEARTBEAT_LIVENESS \<and> m_worker w = LiveSocket"

text \<open>The messages the worker's assertions let through.\<close>

definition acceptable :: "frames \<Rightarrow> bool" where
  "acceptable msg \<longleftrightarrow> (\<exists>command args. msg = '''' # MDPW_WORKER # command # args \<and> (command = MDPW_REQUEST \<longrightarrow> args \<noteq> []))"

definition arrived :: "rx list \<Rightarrow> frames" where
  "arrived inp = (case recv (inp @ [RxFalse]) of Some (Inr (_, msg, _)) \<Rightarrow> msg | _ \<Rightarrow> [])"

lemma take_message_arrived: "take_message inp w = (Inr (arrived inp), w)"
proof -
  have "\<exists>b msg rest. recv_loop n fs (inp @ [RxFalse]) = Some (Inr (b, msg, rest))" for n fs
  proof (induction inp arbitrary: n fs)
    case (Cons r inp)
    show ?case
    proof (cases r)
      case (RxFrame d more)
      then show ?thesis
        using Cons.IH [of "Suc n"] by (cases more) (auto simp: encode_uuid_def first_is_identity_def split: sum.splits if_splits)
    qed auto
  qed auto
  then obtain b msg rest where "recv (inp @ [RxFalse]) = Some (Inr (b, msg, rest))"
    unfolding recv_def by blast
  then show ?thesis by (simp add: take_message_def arrived_def lift_w_def prog_defs)
qed

definition acceptable_poll :: "poll_result \<Rightarrow> bool" where
  "acceptable_poll p \<longleftrightarrow> (case p of PollReady inp \<Rightarrow> acceptable (arrived inp) | _ \<Rightarrow> True)"

lemma wp_lift_w [vcg]: "(\<And>f. r = Inl f \<Longrightarrow> R (Fault f) w) \<Longrightarrow> (\<And>x. r = Inr x \<Longrightarrow> Q x w) \<Longrightarrow> wp (lift_w r) Q R w"
  by (auto simp: lift_w_def wp_def prog_defs split: sum.splits)

lemma wp_assert_w [vcg]: "(b \<Longrightarrow> Q () w) \<Longrightarrow> (\<not> b \<Longrightarrow> R (Fault AssertFailed) w) \<Longrightarrow> wp (assert_w b) Q R w"
  unfolding assert_w_def by (rule wp_check)

lemma wp_s_clock [vcg]: "Q (n_clock N (m_clock_reads w)) (w\<lparr>m_clock_reads := m_clock_reads w + 1\<rparr>) \<Longrightarrow> wp (s_clock N) Q R w"
  by (simp add: s_clock_def wp_def prog_defs)

lemma wp_send_to_broker:
  assumes "m_worker w = LiveSocket" and "\<And>fs. Q () (w\<lparr>m_events := m_events w @ [SentFrames fs]\<rparr>)"
  shows "wp (send_to_broker command option msg) Q R w"
  using assms by (simp add: send_to_broker_def Let_def wp_def prog_defs push_front_c_def send_empty_first lift_w_def event_def)

lemma wp_update_heartbeat_sign:
  "(\<And>w'. m_liveness w' = HEARTBEAT_LIVENESS \<Longrightarrow> m_worker w' = m_worker w \<Longrightarrow> interrupt_worker w' = interrupt_worker w \<Longrightarrow> Q () w')
     \<Longrightarrow> wp (update_heartbeat_sign N) Q R w"
  by (simp add: wp_def update_heartbeat_sign_eq)

lemma watching_again: "m_liveness w = HEARTBEAT_LIVENESS \<Longrightarrow> m_worker w = LiveSocket \<Longrightarrow> watching w"
  by (simp add: watching_def HEARTBEAT_LIVENESS_def)

definition caught :: "wexc \<Rightarrow> bool" where
  "caught e \<longleftrightarrow> e = Zmq_error \<or> e = Fault LogicError"

lemma wp_connect_to_broker:
  assumes Q: "\<And>w'. watching w' \<Longrightarrow> interrupt_worker w' = interrupt_worker w \<Longrightarrow> Q () w'" and R: "\<And>e w'. caught e \<Longrightarrow> R e w'"
  shows "wp (connect_to_broker N) Q R w"
  unfolding connect_to_broker_def new_socket_def event_def
  by (intro vcg wp_send_to_broker wp_update_heartbeat_sign Q R watching_again)
    (auto simp: caught_def push_front_p_def split: option.splits)

lemma wp_send_heartbeat_if_due:
  assumes "watching w" and Q: "\<And>w'. watching w' \<Longrightarrow> interrupt_worker w' = interrupt_worker w \<Longrightarrow> Q () w'"
  shows "wp (send_heartbeat_if_due N) Q R w"
proof -
  have "m_worker w = LiveSocket" using assms(1) by (simp add: watching_def)
  then show ?thesis
    using assms(1) by (auto simp: wp_def send_heartbeat_if_due_eq watching_def HEARTBEAT_LIVENESS_def intro!: Q)
qed

lemma wp_handle_message:
  assumes "watching w"
    and Q: "\<And>r w'. watching w' \<Longrightarrow> interrupt_worker w' = interrupt_worker w \<Longrightarrow> Q r w'"
    and R: "\<And>e w'. caught e \<or> \<not> acceptable msg \<Longrightarrow> R e w'"
  shows "wp (handle_message N msg) Q R w"
proof (cases "acceptable msg")
  case True
  then obtain command args where msg: "msg = '''' # MDPW_WORKER # command # args" and args: "command = MDPW_REQUEST \<longrightarrow> args \<noteq> []"
    by (auto simp: acceptable_def)
  show ?thesis
    unfolding handle_message_def msg
    by (intro vcg wp_connect_to_broker Q [OF assms(1)])
      (use args in \<open>auto simp: unwrap_def lift_w_def split: list.splits intro!: vcg wp_connect_to_broker Q [OF assms(1)] Q R\<close>)
next
  case False
  show ?thesis
    unfolding handle_message_def
    by (intro vcg wp_connect_to_broker; (rule R)?) (use False in \<open>auto split: option.splits intro!: vcg wp_connect_to_broker Q [OF assms(1)] Q R\<close>)
qed

lemma wp_poll_timeout:
  assumes "watching w" and Q: "\<And>w'. watching w' \<Longrightarrow> interrupt_worker w' = interrupt_worker w \<Longrightarrow> Q () w'"
    and R: "\<And>e w'. caught e \<Longrightarrow> R e w'"
  shows "wp (poll_timeout N) Q R w"
proof -
  have "watching (w\<lparr>m_liveness := m_liveness w - 1\<rparr>)" if "m_liveness w \<noteq> 1"
  proof -
    have "1 \<le> m_liveness w" "m_liveness w \<le> 3" "m_worker w = LiveSocket"
      using assms(1) by (simp_all add: watching_def HEARTBEAT_LIVENESS_def)
    moreover have "unat (m_liveness w) \<noteq> 1"
      using that word_unat_eq_iff [of "m_liveness w" 1] by simp
    ultimately have "unat (m_liveness w) = 2 \<or> unat (m_liveness w) = 3"
      by (simp add: word_le_nat_alt) linarith
    then have "m_liveness w = 2 \<or> m_liveness w = 3"
      by (simp add: word_unat_eq_iff)
    then show ?thesis
      using \<open>m_worker w = LiveSocket\<close> by (auto simp: watching_def HEARTBEAT_LIVENESS_def)
  qed
  then show ?thesis
    unfolding poll_timeout_def event_def
    by (intro vcg wp_connect_to_broker R) (auto intro: Q)
qed

lemma wp_recv_pass:
  assumes "watching w"
    and Q: "\<And>r w'. watching w' \<Longrightarrow> interrupt_worker w' = interrupt_worker w \<Longrightarrow> Q r w'"
    and R: "\<And>e w'. caught e \<or> \<not> acceptable_poll p \<Longrightarrow> R e w'"
  shows "wp (recv_pass N p) Q R w"
proof (cases p)
  case PollError
  then show ?thesis by (auto simp: recv_pass_def caught_def intro!: vcg R)
next
  case PollSilent
  then show ?thesis
    by (auto simp: recv_pass_def intro!: vcg wp_poll_timeout [OF assms(1)] wp_send_heartbeat_if_due Q R)
next
  case (PollReady inp)
  have "wp (sq (update_heartbeat_sign N) (bnd (handle_message N (arrived inp)) (\<lambda>r. case r of
            Some q \<Rightarrow> ret (Some q) | None \<Rightarrow> sq (send_heartbeat_if_due N) (ret None)))) Q R w"
    using assms(1) PollReady
    by (auto simp: acceptable_poll_def watching_def intro!: vcg wp_update_heartbeat_sign wp_handle_message
        wp_send_heartbeat_if_due Q R watching_again)
  then show ?thesis by (simp add: recv_pass_def PollReady wp_def bnd_def take_message_arrived)
qed

lemma wp_recv_passes:
  assumes "watching w \<or> interrupt_worker w"
    and "\<And>r w'. watching w' \<or> interrupt_worker w' \<Longrightarrow> Q r w'"
    and "\<And>e w'. caught e \<or> \<not> (\<forall>p\<in>set ps. acceptable_poll (fst p)) \<Longrightarrow> R e w'"
  shows "wp (recv_passes N ps) Q R w"
  using assms
proof (induction ps arbitrary: w)
  case Nil
  then show ?case by (auto intro!: vcg)
next
  case (Cons p ps)
  obtain q s where p: "p = (q, s)" by (cases p)
  show ?case
  proof (cases "interrupt_worker w")
    case True
    with Cons.prems show ?thesis by (auto simp: p intro!: vcg)
  next
    case False
    have later: "wp (recv_passes N ps) Q R (w'\<lparr>interrupt_worker := b\<rparr>)" if "watching w'" for w' b
      using that Cons.prems by (intro Cons.IH) (auto simp: watching_def)
    show ?thesis
      unfolding p recv_passes.simps
      using False Cons.prems(1) by (intro vcg wp_recv_pass)
        (auto simp: p watching_def split: option.splits intro!: vcg later Cons.prems(2,3))
  qed
qed

lemma wp_catching:
  assumes "wp m (\<lambda>r w'. Q r w') (\<lambda>e w'. if caught e then Q Null (w'\<lparr>interrupt_worker := True\<rparr>) else R e w') w"
  shows "wp (catching m) Q R w"
  using assms by (auto simp: wp_def catching_def caught_def split: prod.splits sum.splits if_splits)

lemma wp_mdwrk_recv:
  assumes "watching w \<or> interrupt_worker w"
  shows "wp (mdwrk_recv N has_reply ps) (\<lambda>_ w'. watching w' \<or> interrupt_worker w')
     (\<lambda>e _. \<not> caught e \<and> (\<not> has_reply \<or> \<not> (\<forall>p\<in>set ps. acceptable_poll (fst p)))) w"
  unfolding mdwrk_recv_def
  by (intro vcg wp_catching wp_recv_passes) (use assms in \<open>auto simp: watching_def caught_def split: recv_result.splits intro!: vcg\<close>)

section \<open>Starting, and three silent polls within one period\<close>

lemma getEndpoint_worker_True:
  "getEndpoint_worker True service = Inr (if service = ''SINF'' then Some ''tcp://*:5556''
     else if service = ''IHM'' then Some ''tcp://*:5558'' else if service = ''ECH'' then Some ''tcp://*:5559'' else None)"
  by (simp add: getEndpoint_worker_def WorkerEndpoints_def given_or_default_def for_bind_def c_str_def NUL_def)

lemma mdwrk_new_known:
  assumes "n_socket N 0" and "n_connect N service (c_str broker)" and e: "worker_endpoint service = Some e"
  shows "\<exists>w. mdwrk_new N broker service = (Inr (), w) \<and> watching w \<and> \<not> interrupt_worker w
     \<and> m_welcome_endpoint w = Some (''tcp://*:'' @ drop 16 e)
     \<and> m_events w = [Connected service (c_str broker), to_broker MDPW_READY [service, e]]"
proof -
  let ?w = "mdwrk_fields broker service\<lparr>m_welcome_endpoint := Some (''tcp://*:'' @ drop 16 e)\<rparr>"
  have c: "connects N ?w" "worker_endpoint (m_service ?w) = Some e"
    using assms by (simp_all add: connects_def mdwrk_fields_def)
  have "mdwrk_new N broker service = connect_to_broker N ?w"
    using e by (auto simp: mdwrk_new_def mdwrk_init_def getEndpoint_worker_True worker_endpoint_cases prog_defs lift_w_def
        mdwrk_fields_def split: if_splits)
  then have "mdwrk_new N broker service = (Inr (), reconnected N e ?w)"
    by (simp only: connect_to_broker_ok [OF c])
  then show ?thesis
    by (simp add: reconnected_def watching_def HEARTBEAT_LIVENESS_def mdwrk_fields_def)
qed

lemma mdwrk_new_unknown:
  assumes "n_socket N 0" and "n_connect N service (c_str broker)" and e: "worker_endpoint service = None"
  shows "fst (mdwrk_new N broker service) = Inl (Fault LogicError)"
  using assms
  by (simp add: mdwrk_new_def mdwrk_init_def getEndpoint_worker_True worker_endpoint_cases prog_defs lift_w_def
      mdwrk_fields_def connect_to_broker_def new_socket_def event_def push_front_p_def split: if_splits)

lemma quick_silence:
  assumes "m_worker w = LiveSocket" and "m_liveness w \<noteq> 1" and "n_clock N (m_clock_reads w) \<le> m_heartbeat_at_msec w"
    and "\<not> interrupt_worker w"
  shows "recv_passes N ((PollSilent, False) # ps) w
     = recv_passes N ps (w\<lparr>m_liveness := m_liveness w - 1, m_clock_reads := m_clock_reads w + 1\<rparr>)"
  using assms by (simp add: silent_pass sq_def bnd_def rd_def upd_def)

lemma last_silence:
  assumes "m_worker w = LiveSocket" and "m_liveness w = 1" and "\<not> interrupt_worker w"
    and "connects N w" and e: "worker_endpoint (m_service w) = Some e"
    and late: "n_clock N (m_clock_reads w + 2) \<le> n_clock N (m_clock_reads w + 1) + m_heartbeat_msec w"
  shows "\<exists>w'. recv_passes N [(PollSilent, False)] w = (Inr Waiting, w') \<and> m_liveness w' = HEARTBEAT_LIVENESS
     \<and> m_events w' = m_events w @ [Slept (m_reconnect_msec w), Connected (m_service w) (c_str (m_broker_endpoint w)),
          to_broker MDPW_READY [m_service w, e]]"
proof -
  let ?w1 = "w\<lparr>m_liveness := 0, m_clock_reads := m_clock_reads w + 1, m_events := m_events w @ [Slept (m_reconnect_msec w)]\<rparr>"
  have c: "connects N ?w1" "worker_endpoint (m_service ?w1) = Some e"
    using assms by (simp_all add: connects_def)
  have p: "poll_timeout N w = (Inr (), reconnected N e ?w1)"
    using assms connect_to_broker_ok [OF c]
    by (simp add: poll_timeout_def s_clock_def sq_def bnd_def rd_def upd_def ret_def event_def)
  have "send_heartbeat_if_due N (reconnected N e ?w1)
      = (Inr (), reconnected N e ?w1\<lparr>m_clock_reads := m_clock_reads w + 3\<rparr>)"
    using late by (simp add: send_heartbeat_if_due_eq reconnected_def)
  then show ?thesis
    using assms(3) p by (simp add: recv_pass_def sq_def bnd_def rd_def upd_def ret_def reconnected_def)
qed

end
