(* ===== verification/ClientApi.thy ===== *)
theory ClientApi
  imports MdpBroker
begin

text \<open>
  The client's side of the protocol: class \<open>mdcli\<close> (mdp/mdp_client_async_api.cpp).  A client
  talks to the broker through one socket, to services it knows the endpoint of through a second
  one, and receives group updates through a third.  ZeroMQ is the record \<open>cnet\<close> and, for each
  \<open>zmq::poll\<close>, what is ready on the three sockets.  Log output is left out.
\<close>

section \<open>State\<close>

record ServiceInfo =
  endpoint_external :: string
  connected :: bool

text \<open>What was handed to the sockets.  A message for a service goes to the one direct socket,
  and from there to one of the endpoints the socket is connected to.\<close>

datatype cevent =
    ConnectedBroker string
  | ToBroker "(string \<times> bool) list"
  | ToPeer "string list" "(string \<times> bool) list"
  | Subscribed string

text \<open>\<open>m_peer\<close> is \<open>None\<close> for the null pointer, else the endpoints the socket is connected to.\<close>

record mdcli =
  m_broker :: string
  m_subscriber :: bool
  m_peer :: "string list option"
  m_timeout :: int
  m_services_info :: "string \<Rightarrow> ServiceInfo option"
  m_cevents :: "cevent list"
  m_csockets :: nat

record cnet =
  cn_socket :: "nat \<Rightarrow> bool"
  cn_connect :: "string \<Rightarrow> bool"

datatype cexc = CFault fault | CZmq_error | CBufferOverrun

type_synonym 'a client_op = "(mdcli, cexc, 'a) prog"

definition lift_c :: "fault + 'a \<Rightarrow> ('s, cexc, 'a) prog" where
  "lift_c r = (case r of Inl f \<Rightarrow> raise (CFault f) | Inr x \<Rightarrow> ret x)"

definition assert_cl :: "bool \<Rightarrow> ('s, cexc, unit) prog" where
  "assert_cl b = check b (CFault AssertFailed)"

definition c_event :: "cevent \<Rightarrow> unit client_op" where
  "c_event e = upd (\<lambda>c. c\<lparr>m_cevents := m_cevents c @ [e]\<rparr>)"

definition c_new_socket :: "cnet \<Rightarrow> unit client_op" where
  "c_new_socket N =
     bnd (rd m_csockets) (\<lambda>n.
     sq (check (cn_socket N n) CZmq_error) (upd (\<lambda>c. c\<lparr>m_csockets := Suc n\<rparr>)))"

section \<open>Connecting\<close>

definition mdcli_fields :: "string \<Rightarrow> mdcli" where
  "mdcli_fields broker =
     \<lparr>m_broker = broker, m_subscriber = False, m_peer = None, m_timeout = 2500, m_services_info = \<lambda>_. None,
      m_cevents = [], m_csockets = 0\<rparr>"

definition c_connect_to_broker :: "cnet \<Rightarrow> unit client_op" where
  "c_connect_to_broker N =
     sq (c_new_socket N)
    (bnd (rd m_broker) (\<lambda>broker.
     sq (check (cn_connect N (c_str broker)) CZmq_error)
        (c_event (ConnectedBroker (c_str broker)))))"

definition mdcli_new :: "cnet \<Rightarrow> string \<Rightarrow> (cexc + unit) \<times> mdcli" where
  "mdcli_new N broker = c_connect_to_broker N (mdcli_fields broker)"

definition set_timeout :: "int \<Rightarrow> unit client_op" where
  "set_timeout timeout = upd (\<lambda>c. c\<lparr>m_timeout := timeout\<rparr>)"

definition ENDPOINT_SBS_PUBLISHER :: string where
  "ENDPOINT_SBS_PUBLISHER = ''tcp://localhost:5560''"

definition subscript :: "cnet \<Rightarrow> string \<Rightarrow> string \<Rightarrow> int client_op" where
  "subscript N service_name group_name =
     sq (c_new_socket N)
    (sq (upd (\<lambda>c. c\<lparr>m_subscriber := True\<rparr>))
    (sq (check (cn_connect N ENDPOINT_SBS_PUBLISHER) CZmq_error)
    (sq (c_event (Subscribed group_name)) (ret 0))))"

section \<open>Known services\<close>

definition service_info_by_name :: "string \<Rightarrow> ServiceInfo option client_op" where
  "service_info_by_name serv_name = rd (\<lambda>c. m_services_info c serv_name)"

definition insert_service_info :: "string \<Rightarrow> ServiceInfo \<Rightarrow> bool client_op" where
  "insert_service_info serv_name info =
     bnd (rd m_services_info) (\<lambda>known.
     if known serv_name = None
     then sq (upd (\<lambda>c. c\<lparr>m_services_info := (m_services_info c)(serv_name \<mapsto> info)\<rparr>)) (ret True)
     else ret False)"

section \<open>Sending\<close>

definition client_frames :: "string \<Rightarrow> frames \<Rightarrow> frames" where
  "client_frames service request = push_front_c '''' (push_front_c MDPC_CLIENT (push_front_c service request))"

definition send_persistent :: "string \<Rightarrow> frames \<Rightarrow> unit client_op" where
  "send_persistent service request =
     bnd (lift_c (fst (send (client_frames service request)))) (\<lambda>fs. c_event (ToBroker fs))"

definition mdcli_send :: "string \<Rightarrow> frames option \<Rightarrow> int client_op" where
  "mdcli_send service request =
     (case request of None \<Rightarrow> raise (CFault AssertFailed)
      | Some r \<Rightarrow> sq (send_persistent service r) (ret 0))"

text \<open>\<open>zmq::error_t\<close> is caught; what was done before stays.\<close>

definition or_zmq_error :: "'a \<Rightarrow> 'a client_op \<Rightarrow> 'a client_op" where
  "or_zmq_error x m c = (case m c of (Inl e, c') \<Rightarrow> (if e = CZmq_error then (Inr x, c') else (Inl e, c')) | r \<Rightarrow> r)"

definition open_peer :: "cnet \<Rightarrow> unit client_op" where
  "open_peer N =
     bnd (rd m_peer) (\<lambda>p. case p of
       None \<Rightarrow> sq (c_new_socket N) (upd (\<lambda>c. c\<lparr>m_peer := Some []\<rparr>))
     | Some _ \<Rightarrow> ret ())"

definition connect_peer :: "cnet \<Rightarrow> string \<Rightarrow> ServiceInfo \<Rightarrow> unit client_op" where
  "connect_peer N service_name info =
     sq (open_peer N)
    (sq (check (cn_connect N (endpoint_external info)) CZmq_error)
        (upd (\<lambda>c. c\<lparr>m_peer := map_option (\<lambda>eps. eps @ [endpoint_external info]) (m_peer c),
           m_services_info := (m_services_info c)(service_name \<mapsto> info\<lparr>connected := True\<rparr>)\<rparr>)))"

definition send_direct :: "cnet \<Rightarrow> string \<Rightarrow> frames \<Rightarrow> int client_op" where
  "send_direct N service_name request =
     bnd (service_info_by_name (c_str service_name)) (\<lambda>info. case info of
       None \<Rightarrow> ret 0
     | Some i \<Rightarrow>
         or_zmq_error 0
          (sq (if \<not> connected i then connect_peer N (c_str service_name) i else ret ())
          (bnd (lift_c (fst (send request))) (\<lambda>fs.
           bnd (rd m_peer) (\<lambda>p. case p of
             None \<Rightarrow> raise (CFault NullDeref)
           | Some eps \<Rightarrow> sq (c_event (ToPeer eps fs)) (ret 1))))))"

datatype ChannelType = PERSISTENT | DIRECT | OtherChannel int

definition send_by :: "cnet \<Rightarrow> string \<Rightarrow> frames option \<Rightarrow> ChannelType \<Rightarrow> int client_op" where
  "send_by N service request chan =
     (case request of None \<Rightarrow> raise (CFault AssertFailed)
      | Some r \<Rightarrow> (case chan of
          PERSISTENT \<Rightarrow> sq (send_persistent service r) (ret 1)
        | DIRECT \<Rightarrow> bnd (send_direct N service (push_front_c '''' r)) (\<lambda>s. ret (if s = 0 then 0 else 1))
        | OtherChannel _ \<Rightarrow> ret 0))"

section \<open>Receiving\<close>

text \<open>What \<open>zmq::poll\<close> finds: an error, or what each ready socket delivers.\<close>

datatype client_poll = ClientPollError | ClientPoll "rx list option" "rx list option" "rx list option"

definition c_take_message :: "rx list \<Rightarrow> frames client_op" where
  "c_take_message inp = (case recv (inp @ [RxFalse]) of
     None \<Rightarrow> ret [] | Some r \<Rightarrow> bnd (lift_c r) (\<lambda>(_, msg, _). ret msg))"

text \<open>The command frame is taken off and only logged.\<close>

definition broker_reply :: "frames \<Rightarrow> frames client_op" where
  "broker_reply msg =
     sq (assert_cl (parts msg \<ge> 4))
    (bnd (lift_c (pop_front msg)) (\<lambda>(empty, m1).
     sq (assert_cl (length empty = 0))
    (bnd (lift_c (pop_front m1)) (\<lambda>(header, m2).
     sq (assert_cl (header = MDPC_CLIENT))
    (bnd (lift_c (pop_front m2)) (\<lambda>(command, m3). ret m3))))))"

definition mdcli_recv :: "client_poll \<Rightarrow> frames option client_op" where
  "mdcli_recv poll =
     (case poll of
        ClientPollError \<Rightarrow> raise CZmq_error
      | ClientPoll from_broker from_subscriber from_peer \<Rightarrow>
          bnd (rd m_subscriber) (\<lambda>sub.
          bnd (rd m_peer) (\<lambda>peer.
          case from_broker of
            Some inp \<Rightarrow> bnd (c_take_message inp) (\<lambda>msg. bnd (broker_reply msg) (\<lambda>m. ret (Some m)))
          | None \<Rightarrow>
              (case (if sub then from_subscriber else None) of
                 Some inp \<Rightarrow> bnd (c_take_message inp) (\<lambda>msg. ret (Some msg))
               | None \<Rightarrow>
                   (case (if peer \<noteq> None then from_peer else None) of
                      Some inp \<Rightarrow> bnd (c_take_message inp) (\<lambda>msg. ret (Some msg))
                    | None \<Rightarrow> ret None)))))"

section \<open>Asking the broker for an endpoint\<close>

text \<open>
  The result is the status code and the C string left in the caller's buffer of \<open>capacity\<close>
  bytes.  \<open>strncpy\<close> fills \<open>buf_size\<close> bytes and the NUL goes to the byte after them.
\<close>

definition store_endpoint :: "nat \<Rightarrow> nat \<Rightarrow> string \<Rightarrow> string client_op" where
  "store_endpoint capacity buf_size endpoint =
     sq (check (buf_size < capacity) CBufferOverrun) (ret (strncpy buf_size endpoint))"

definition learn_endpoint :: "string \<Rightarrow> string \<Rightarrow> unit client_op" where
  "learn_endpoint service_name endpoint =
     bnd (service_info_by_name service_name) (\<lambda>info. case info of
       None \<Rightarrow>
         bnd (insert_service_info service_name \<lparr>endpoint_external = strncpy ENDPOINT_MAXLEN endpoint, connected = False\<rparr>)
           (\<lambda>_. ret ())
     | Some _ \<Rightarrow> ret ())"

definition endpoint_reply :: "nat \<Rightarrow> nat \<Rightarrow> string \<Rightarrow> frames \<Rightarrow> (int \<times> string) client_op" where
  "endpoint_reply capacity buf_size service_name report =
     bnd (lift_c (pop_front report)) (\<lambda>(client_code, m1).
     bnd (lift_c (pop_front m1)) (\<lambda>(service_request, m2).
     sq (assert_cl (service_request = ''mmi.service''))
    (bnd (lift_c (pop_front m2)) (\<lambda>(existance_code, m3).
     let code = atoi (c_str existance_code) in
     if code = 200
     then bnd (lift_c (pop_front m3)) (\<lambda>(endpoint, _).
          bnd (store_endpoint capacity buf_size (c_str endpoint)) (\<lambda>stored.
          sq (learn_endpoint service_name stored) (ret (code, stored))))
     else ret (code, '''')))))"

definition ask_service_info :: "string \<Rightarrow> nat \<Rightarrow> nat \<Rightarrow> client_poll \<Rightarrow> (int \<times> string) client_op" where
  "ask_service_info service_name capacity buf_size poll =
     sq (check (0 < capacity) CBufferOverrun)
    (bnd (mdcli_send ''mmi.service'' (Some (push_front_c service_name []))) (\<lambda>_.
     bnd (mdcli_recv poll) (\<lambda>report. case report of
       None \<Rightarrow> ret (0, '''')
     | Some r \<Rightarrow> endpoint_reply capacity buf_size service_name r)))"

end
