(* ===== verification/BrokerSpec.thy ===== *)
theory BrokerSpec
  imports MdpBroker
begin

text \<open>
  The broker as a state machine over the contents of its database and the messages it has sent,
  and the proof that the handlers of \<open>MdpBroker\<close> implement it on every reliable engine.  \<open>C\<close> is
  what is known of the clock.
\<close>

section \<open>Sent messages\<close>

type_synonym outbox = "(string \<times> bool) list list"

definition wire :: "frames \<Rightarrow> (string \<times> bool) list" where
  "wire fs = (case fst (send fs) of Inl _ \<Rightarrow> [] | Inr ms \<Rightarrow> ms)"

lemma send_wire: "fst (send fs) = Inr (wire fs)"
  by (cases fs) (auto simp: wire_def send_def send_frame_def send_from_later decode_uuid_def split: sum.splits)

lemma wire_plain:
  assumes "\<not> (length f = IDENTITY_MAXLEN \<and> f ! 0 = CHR ''@'')"
  shows "wire (f # fs) = flagged (f # fs)"
  using assms by (auto simp: wire_def send_def send_frame_def send_from_later)

definition request_to :: "Worker \<Rightarrow> Letter \<Rightarrow> frames" where
  "request_to w l = [wrk_identity w, '''', MDPW_WORKER, MDPW_REQUEST, let_reply_to l, let_header l, let_data l]"

definition disconnect_to :: "string \<Rightarrow> frames" where
  "disconnect_to ident = [ident, '''', MDPW_WORKER, MDPW_DISCONNECT]"

section \<open>What happens to the tables\<close>

text \<open>Some idle workers whose time is over are disarmed.\<close>

definition may_expire :: "(timer_mark \<Rightarrow> bool) \<Rightarrow> xdb_worker \<Rightarrow> xdb_worker \<Rightarrow> bool" where
  "may_expire C r r' \<longleftrightarrow> r' = r
     \<or> w_state r = ARMED \<and> (\<exists>now. C now \<and> uint (w_sec r) < tv_sec now) \<and> r' = r\<lparr>w_state := DISARMED\<rparr>"

definition purged :: "(timer_mark \<Rightarrow> bool) \<Rightarrow> tables \<Rightarrow> tables \<Rightarrow> bool" where
  "purged C T T' \<longleftrightarrow> services T' = services T \<and> letters T' = letters T
     \<and> dom (workers T') = dom (workers T)
     \<and> (\<forall>h r r'. workers T h = Some r \<longrightarrow> workers T' h = Some r' \<longrightarrow> may_expire C r r')"

text \<open>A free worker of the service gets a waiting letter of it, or there is no such pair, or the
  letter cannot refer to the worker.\<close>

definition assigns :: "int \<Rightarrow> tables \<times> outbox \<Rightarrow> tables \<times> outbox \<Rightarrow> bool" where
  "assigns sid st st' \<longleftrightarrow>
     st' = st \<and> ((\<forall>i r. \<not> in_state (fst st) sid ARMED i r) \<or> (\<forall>j l. \<not> waiting (fst st) sid j l)
        \<or> (\<exists>i r j l. in_state (fst st) sid ARMED i r \<and> waiting (fst st) sid j l
             \<and> taken (fst st) (worker_of i r) (letter_of j l)))
   \<or> (\<exists>i r j l x. in_state (fst st) sid ARMED i r \<and> waiting (fst st) sid j l
        \<and> \<not> taken (fst st) (worker_of i r) (letter_of j l)
        \<and> assign_outcome True (worker_of i r) (letter_of j l) (fst st) x (fst st')
        \<and> snd st' = snd st @ [wire (request_to (worker_of i r) (letter_of j l))])"

definition dispatched :: "(timer_mark \<Rightarrow> bool) \<Rightarrow> int \<Rightarrow> tables \<times> outbox \<Rightarrow> tables \<times> outbox \<Rightarrow> bool" where
  "dispatched C sid st st' \<longleftrightarrow> (\<exists>T1. purged C (fst st) T1 \<and> assigns sid (T1, snd st) st')"

definition waits :: "(timer_mark \<Rightarrow> bool) \<Rightarrow> Worker \<Rightarrow> tables \<times> outbox \<Rightarrow> tables \<times> outbox \<Rightarrow> bool" where
  "waits C w st st' \<longleftrightarrow>
     services (fst st) (wrk_service_id w) = None \<and> st' = st
   \<or> (\<exists>m w' T0. armed w (fst st) m w' T0 \<and> fresh_mark m \<and> dispatched C (wrk_service_id w) (T0, snd st) st')"

lemma purged_refl [simp]: "purged C T T"
  by (simp add: purged_def may_expire_def)

lemma may_expire_trans: "may_expire C r s \<Longrightarrow> may_expire C s t \<Longrightarrow> may_expire C r t"
  by (auto simp: may_expire_def)

lemma purged_some:
  assumes "purged C T T'" and "workers T' h = Some r'"
  obtains r where "workers T h = Some r" "may_expire C r r'"
proof -
  from assms have "h \<in> dom (workers T)" by (simp add: purged_def flip: domIff) (metis domI)
  then obtain r where "workers T h = Some r" by blast
  with assms that show thesis by (simp add: purged_def)
qed

lemma purged_trans:
  assumes "purged C T T1" and "purged C T1 T2"
  shows "purged C T T2"
proof -
  have "may_expire C r r2" if "workers T h = Some r" "workers T2 h = Some r2" for h r r2
  proof -
    note r = that
    obtain r1 where "workers T1 h = Some r1" "may_expire C r1 r2"
      using purged_some [OF assms(2) r(2)] .
    moreover from this(1) assms(1) r(1) have "may_expire C r r1" by (simp add: purged_def)
    ultimately show ?thesis by (blast intro: may_expire_trans)
  qed
  with assms show ?thesis by (simp add: purged_def)
qed

lemma purged_one:
  assumes "workers T h = Some r" and "w_state r = ARMED" and "C now" and "uint (w_sec r) < tv_sec now"
  shows "purged C T (set_worker h (r\<lparr>w_state := DISARMED\<rparr>) T)"
  using assms by (auto simp: purged_def set_worker_def may_expire_def split: if_splits)

lemma may_expire_same: "may_expire C r r' \<Longrightarrow> w_identity r' = w_identity r \<and> w_service_ref r' = w_service_ref r
    \<and> w_letter_ref r' = w_letter_ref r \<and> w_sec r' = w_sec r"
  by (auto simp: may_expire_def)

lemma purged_dom: "purged C T T' \<Longrightarrow> dom (workers T') = dom (workers T)"
  by (simp add: purged_def)

lemma purged_tables_ok:
  assumes "purged C T T'" and "tables_ok T"
  shows "tables_ok T'"
proof -
  have "unique_on w_identity (workers T')"
    unfolding unique_on_def
  proof (intro allI impI)
    fix i j r s
    assume r: "workers T' i = Some r" and s: "workers T' j = Some s" and "w_identity r = w_identity s"
    moreover obtain r0 where "workers T i = Some r0" "may_expire C r0 r" using purged_some [OF assms(1) r] .
    moreover obtain s0 where "workers T j = Some s0" "may_expire C s0 s" using purged_some [OF assms(1) s] .
    ultimately show "i = j"
      using assms(2) by (auto simp: tables_ok_def keys_ok_def dest!: may_expire_same dest: unique_onD)
  qed
  moreover have "ident_fits (w_identity r)" if "workers T' h = Some r" for h r
    using that assms by (auto elim!: purged_some dest!: may_expire_same simp: tables_ok_def)
  ultimately show ?thesis
    using assms purged_dom [OF assms(1)] by (simp add: tables_ok_def keys_ok_def purged_def)
qed

lemma assigned_tables_ok:
  assumes "assign_outcome rel w l T x T'" and "keys_ok T'" and "tables_ok T"
  shows "tables_ok T'"
  using assms by (auto simp: assign_outcome_def assigned_def tables_ok_def split: if_split_asm)

lemma let_id_letter_of [simp]: "let_id (letter_of j l) = j"
  by (simp add: letter_of_def letter_object_def Letter_SetVALID_def Letter_SetSTATE_def Letter_SetEXPIRATION_def
      Letter_SetWORKER_ID_def Letter_SetSERVICE_ID_def Letter_SetID_def)

lemma assigned_not_taken:
  assumes "assign_outcome rel w l T x T'" and "keys_ok T'"
  shows "\<not> taken T w l"
proof
  assume "taken T w l"
  then obtain k r where k: "k \<noteq> let_id l" "letters T k = Some r" "l_worker_ref r = wrk_id w"
    unfolding taken_def by blast
  from assms(1) obtain r' where T': "letters T' = (letters T)(let_id l \<mapsto> r')" "l_worker_ref r' = wrk_id w"
    unfolding assign_outcome_def assigned_def by (elim exE conjE) simp
  have "unique_on l_worker_ref (letters T')" using assms(2) by (simp add: keys_ok_def)
  from unique_onD [OF this, of k r "let_id l" r'] show False using k T' by simp
qed

lemma armed_set_worker:
  assumes "armed w T m w' T'"
  obtains h r where "T' = set_worker h r T" "w_identity r = wrk_identity w"
  using assms by (auto simp: armed_def armed_row_def worker_named_def)

lemma armed_tables_ok:
  assumes "armed w T m w' T'" and "tables_ok T" and "worker_ok w"
  shows "tables_ok T'"
proof -
  from assms(1) obtain h r where T': "T' = set_worker h r T" and r: "w_identity r = wrk_identity w"
    by (rule armed_set_worker)
  have "keys_ok T'" using armed_keys [OF assms(1) tables_ok_keys [OF assms(2)]] .
  moreover have "ident_fits (w_identity r)" using assms(3) by (simp add: r worker_ok_def ident_fits_def)
  ultimately show ?thesis unfolding T' by (intro tables_ok_set_worker assms(2))
qed

lemma released_tables_ok:
  assumes "released w T w' T'" and "tables_ok T"
  shows "tables_ok T'"
proof -
  have "keys_ok T'" using released_keys [OF assms(1)] assms(2) by (simp add: tables_ok_keys)
  from assms(1) obtain l h r where r: "workers T h = Some r"
    and T': "T' = T\<lparr>workers := (workers T)(h \<mapsto> r\<lparr>w_letter_ref := 0, w_state := ARMED\<rparr>), letters := (letters T)(l := None)\<rparr>"
    unfolding released_def worker_named_def by (elim exE conjE) (rule that)
  have "ident_fits (w_identity r)" using r assms(2) by (simp add: tables_ok_def)
  with assms(2) \<open>keys_ok T'\<close> show ?thesis by (auto simp: tables_ok_def T')
qed

lemma pushed_tables_ok: "pushed sid l T l' T' \<Longrightarrow> keys_ok T' \<Longrightarrow> tables_ok T \<Longrightarrow> tables_ok T'"
  by (auto simp: pushed_def set_letter_def tables_ok_def)

section \<open>The parts of the handlers on a reliable engine\<close>

definition list_ok :: "ServiceList option \<Rightarrow> bool" where
  "list_ok sl \<longleftrightarrow> (case sl of None \<Rightarrow> True | Some l \<Rightarrow> sl_ok l)"

text \<open>\<open>C\<close> holds of every time the clock tells.\<close>

definition clock_in :: "'d env \<Rightarrow> (timer_mark \<Rightarrow> bool) \<Rightarrow> bool" where
  "clock_in E C \<longleftrightarrow> (\<forall>d. wp (clock_gettime E) (\<lambda>m _. C m) (\<lambda>_ _. True) d)"

text \<open>The broker's state stands for the tables and the messages sent.\<close>

definition stands_for ::
  "('d \<Rightarrow> tables) \<Rightarrow> ('d \<Rightarrow> tables) \<Rightarrow> ('d \<Rightarrow> nat) \<Rightarrow> tables \<times> outbox \<Rightarrow> 'd broker \<Rightarrow> bool" where
  "stands_for tabs saved depth st b \<longleftrightarrow> view tabs saved depth (fst st) (fst st) 0 (m_database (m_impl b))
     \<and> list_ok (m_service_list (m_impl b)) \<and> m_sent b = snd st"

lemma wp_conj:
  "wp m Q R s \<Longrightarrow> wp m Q' R' s \<Longrightarrow> wp m (\<lambda>x t. Q x t \<and> Q' x t) (\<lambda>e t. R e t \<and> R' e t) s"
  by (auto simp: wp_def split: prod.splits sum.splits)

lemma wp_on_obj_bool:
  assumes "wp m (\<lambda>b (x', d'). if b then A x' d' else B x' d') (\<lambda>f _. C f) (x, d)"
    and "\<And>x' d'. A x' d' \<Longrightarrow> Q (True, x') d'" and "\<And>x' d'. B x' d' \<Longrightarrow> Q (False, x') d'"
    and "\<And>f d'. C f \<Longrightarrow> R f d'"
  shows "wp (on_obj x m) Q R d"
  using assms by (auto simp: wp_def on_obj_def split: prod.splits sum.splits if_splits) (metis (full_types))+

lemma wp_on_impl [vcg]:
  "wp m (\<lambda>x i. Q x (b\<lparr>m_impl := i\<rparr>)) (\<lambda>e i. R e (b\<lparr>m_impl := i\<rparr>)) (m_impl b) \<Longrightarrow> wp (on_impl m) Q R b"
  by (auto simp: wp_def on_impl_def split: prod.splits sum.splits)

lemma wp_of_result [vcg]:
  "(\<And>f. r = Inl f \<Longrightarrow> R f s) \<Longrightarrow> (\<And>x. r = Inr x \<Longrightarrow> Q x s) \<Longrightarrow> wp (of_result r) Q R s"
  by (cases r) (auto simp: of_result_def intro!: vcg)

lemma of_result_simps [simp]: "of_result (Inl f) = raise f" "of_result (Inr x) = ret x"
  by (simp_all add: of_result_def)

lemma wp_deref [vcg]:
  "(p = None \<Longrightarrow> R NullDeref s) \<Longrightarrow> (\<And>x. p = Some x \<Longrightarrow> Q x s) \<Longrightarrow> wp (deref p) Q R s"
  by (cases p) (auto simp: deref_def of_result_def intro!: vcg)

lemma wp_str_arg [vcg]:
  "(p = None \<Longrightarrow> R LogicError s) \<Longrightarrow> (\<And>x. p = Some x \<Longrightarrow> Q x s) \<Longrightarrow> wp (str_arg p) Q R s"
  by (cases p) (auto simp: str_arg_def of_result_def intro!: vcg)

lemma wp_assert_b [vcg]: "(b \<Longrightarrow> Q () s) \<Longrightarrow> (\<not> b \<Longrightarrow> R AssertFailed s) \<Longrightarrow> wp (assert_b b) Q R s"
  by (auto simp: assert_b_def intro!: vcg)

context engine_laws
begin

abbreviation holds :: "tables \<times> outbox \<Rightarrow> 'd broker \<Rightarrow> bool" where
  "holds \<equiv> stands_for tabs saved depth"

lemma wp_bd:
  assumes "holds (T, ms) b" and "\<And>d. at T T 0 d \<Longrightarrow> wp m (\<lambda>x d'. \<exists>T'. at T' T' 0 d' \<and> P x T') (\<lambda>f _. C f) d"
    and "\<And>x T' b'. P x T' \<Longrightarrow> holds (T', ms) b' \<Longrightarrow> Q x b'" and "\<And>f b'. C f \<Longrightarrow> R f b'"
  shows "wp (on_bd m) Q R b"
  by (intro vcg wp_mono [OF assms(2)]) (use assms(1,3,4) in \<open>auto simp: stands_for_def\<close>)

lemma wp_send_msg:
  assumes "holds (T, ms) b" and "\<And>b'. holds (T, ms @ [wire fs]) b' \<Longrightarrow> Q () b'"
  shows "wp (send_msg fs) Q R b"
  unfolding send_msg_def send_wire by (intro vcg) (use assms in \<open>auto simp: stands_for_def\<close>)

lemma wp_worker_send_ident:
  assumes "holds (T, ms) b" and "\<And>b'. holds (T, ms @ [wire (disconnect_to (c_str ident))]) b' \<Longrightarrow> Q () b'"
  shows "wp (worker_send_ident ident MDPW_DISCONNECT EMPTY_FRAME None) Q R b"
proof -
  have "c_str MDPW_WORKER = MDPW_WORKER" "c_str MDPW_DISCONNECT = MDPW_DISCONNECT"
    by (simp_all add: protocol_defs c_str_def NUL_def)
  then show ?thesis
    unfolding worker_send_ident_def
    by (intro wp_send_msg [OF assms(1)], intro assms(2))
      (simp add: wrap_empty push_option_def push_front_c_def disconnect_to_def EMPTY_FRAME_def)
qed

lemma wp_release:
  assumes rel: reliable and h: "holds (T, ms) b" and keys: "keys_ok T" and n: "worker_named (wrk_identity w) T i r"
    and Q: "\<And>b'. holds (set_worker i (r\<lparr>w_state := DISARMED\<rparr>) T,
          if dis then ms @ [wire (disconnect_to (c_str (wrk_identity w)))] else ms) b'
        \<Longrightarrow> Q (True, Some (w\<lparr>wrk_state := DISARMED\<rparr>)) b'"
  shows "wp (release E (Some w) dis) Q R b"
proof -
  have uniq: "j = i \<and> s = r" if "worker_named (wrk_identity w) T j s" for j s
    using that n keys by (auto simp: worker_named_def keys_ok_def dest: unique_onD)
  have remove: "wp (bnd (on_bd (on_obj w (RemoveWorker E))) (\<lambda>(status, w'). ret (status, Some w'))) Q R b'"
    if h: "holds (T, if dis then ms @ [wire (disconnect_to (c_str (wrk_identity w)))] else ms) b'" for b'
  proof (rule wp_bnd, rule wp_bd [OF h, where C = "\<lambda>_. False" and P = "\<lambda>x T'. x = (True, w\<lparr>wrk_state := DISARMED\<rparr>)
      \<and> T' = set_worker i (r\<lparr>w_state := DISARMED\<rparr>) T"], goal_cases)
    case (1 d)
    have "\<not> no_worker_named (wrk_identity w) T" using n by (auto simp: no_worker_named_def)
    then show ?case
      by (intro vcg wp_mono [OF wp_RemoveWorker [OF 1 keys]]) (use rel in \<open>auto split: if_splits dest: uniq\<close>)
  next
    case (2 x T' b')
    then show ?case by (auto intro!: vcg Q)
  qed simp
  show ?thesis
    unfolding release_def option.case using h
    by (intro wp_sq wp_if wp_worker_send_ident [OF h] wp_ret remove) auto
qed

text \<open>Looking for a service, a worker or a letter.\<close>

lemma wp_bd_find_service:
  assumes rel: reliable and h: "holds (T, ms) b"
    and some: "\<And>i row b'. services T i = Some row \<Longrightarrow> x_name row = c_str name \<Longrightarrow> holds (T, ms) b'
        \<Longrightarrow> Q (Some (service_of i row)) b'"
    and none: "\<And>b'. \<not> has_service (c_str name) T \<Longrightarrow> holds (T, ms) b' \<Longrightarrow> Q None b'"
  shows "wp (on_bd (GetServiceByName E name)) Q R b"
proof (rule wp_bd [OF h, where C = "\<lambda>_. False" and P = "\<lambda>r T'. T' = T \<and> (case r of None \<Rightarrow> \<not> has_service (c_str name) T
     | Some s \<Rightarrow> \<exists>i row. services T i = Some row \<and> x_name row = c_str name \<and> s = service_of i row)"], goal_cases)
  case (1 d)
  then show ?case by (rule wp_mono [OF wp_GetServiceByName]) (use rel in \<open>auto split: option.splits\<close>)
next
  case (2 x T' b')
  then show ?case using some none by (auto split: option.splits)
qed simp

lemma wp_bd_service_id:
  assumes rel: reliable and h: "holds (T, ms) b"
    and some: "\<And>row b'. services T i = Some row \<Longrightarrow> holds (T, ms) b' \<Longrightarrow> Q (Some (service_of i row)) b'"
    and none: "\<And>b'. services T i = None \<Longrightarrow> holds (T, ms) b' \<Longrightarrow> Q None b'"
  shows "wp (on_bd (GetServiceById E i)) Q R b"
proof (rule wp_bd [OF h, where C = "\<lambda>_. False" and P = "\<lambda>r T'. T' = T \<and> (case r of None \<Rightarrow> services T i = None
     | Some s \<Rightarrow> \<exists>row. services T i = Some row \<and> s = service_of i row)"], goal_cases)
  case (1 d)
  then show ?case by (rule wp_mono [OF wp_GetServiceById]) (use rel in \<open>auto split: option.splits\<close>)
next
  case (2 x T' b')
  then show ?case using some none by (auto split: option.splits)
qed simp

lemma wp_bd_gives:
  assumes rel: reliable and h: "holds (T, ms) b"
    and m: "\<And>d. at T T 0 d \<Longrightarrow> wp m (\<lambda>r d'. at T T 0 d' \<and> gives reliable mk like P r) (\<lambda>_ _. False) d"
    and some: "\<And>i row b'. P i row \<Longrightarrow> holds (T, ms) b' \<Longrightarrow> Q (Some (mk i row)) b'"
    and none: "\<And>b'. (\<And>i row. \<not> P i row) \<Longrightarrow> holds (T, ms) b' \<Longrightarrow> Q None b'"
  shows "wp (on_bd m) Q R b"
proof (rule wp_bd [OF h, where C = "\<lambda>_. False" and P = "\<lambda>r T'. T' = T \<and> gives True mk like P r"], goal_cases)
  case (1 d)
  then show ?case by (rule wp_mono [OF m]) (use rel in auto)
next
  case (2 x T' b')
  then show ?case using some none by (auto simp: gives_def split: option.splits)
qed simp

lemmas wp_bd_pop = wp_bd_gives [OF _ _ wp_PopWorker]
lemmas wp_bd_ident = wp_bd_gives [OF _ _ wp_GetWorkerByIdent]
lemmas wp_bd_letter = wp_bd_gives [OF _ _ wp_GetWaitingLetter]

section \<open>Purging\<close>

lemma wp_worker_expired:
  assumes rel: reliable and C: "clock_in E C" and h: "holds (T, ms) b"
    and Q: "\<And>now b'. C now \<Longrightarrow> holds (T, ms) b' \<Longrightarrow> Q (tv_sec (wrk_expiration w) < tv_sec now) b'"
  shows "wp (worker_expired E w) Q R b"
  unfolding worker_expired_def
proof (rule wp_bnd, rule wp_bd [OF h, where C = "\<lambda>_. False" and P = "\<lambda>r T'. T' = T \<and> (\<exists>now. r = Inr now \<and> C now)"], goal_cases)
  case (1 d)
  have "wp (clock_gettime E) (\<lambda>m d'. at T T 0 d' \<and> C m) (\<lambda>_ _. False) d"
    by (rule wp_mono [OF wp_conj [OF wp_call [OF clock 1, where Q = "\<lambda>_ d'. at T T 0 d'" and R = "\<lambda>_ _. False"]
          C [unfolded clock_in_def, rule_format]]]) (use rel in auto)
  then show ?case by (intro wp_attempt) (erule wp_mono, auto)
next
  case (2 x T' b')
  then show ?case using Q by (auto simp: Worker_Expired_def intro!: wp_of_result)
qed simp

lemma wp_purge_service:
  assumes rel: reliable and C: "clock_in E C" and h: "holds (T, ms) b" and ok: "tables_ok T"
  shows "wp (purge_service E s) (\<lambda>_ b'. \<exists>T'. holds (T', ms) b' \<and> purged C T T') (\<lambda>_ _. False) b"
  unfolding purge_service_def
proof (rule wp_bnd, rule wp_bd_pop [OF rel h], assumption, goal_cases)
  case (1 i row b')
  then have r: "workers T i = Some row" "w_state row = ARMED" by (simp_all add: in_state_def)
  note named = worker_of_named [OF ok r(1)]
  from 1 show ?case
    unfolding option.case
    apply (intro wp_bnd)
    apply (rule wp_worker_expired [OF rel C], assumption)
    apply (intro wp_if wp_bnd wp_release [OF rel _ tables_ok_keys [OF ok] named] wp_ret, assumption)
    subgoal for now b2 b3
      using purged_one [where C = C, OF r, of now] by (auto simp: worker_of_def row_mark_def)
    by (auto intro: purged_refl)
next
  case (2 b')
  then show ?case by (auto intro!: wp_ret)
qed

lemma wp_purge_workers:
  assumes rel: reliable and C: "clock_in E C" and h: "holds (T, ms) b" and ok: "tables_ok T"
    and Q: "\<And>T' b'. holds (T', ms) b' \<Longrightarrow> purged C T T' \<Longrightarrow> Q () b'"
  shows "wp (purge_workers E) Q R b"
  unfolding purge_workers_def
proof (intro wp_bnd wp_on_impl wp_mono [OF wp_GetServiceList [where T = T]], goal_cases)
  case 1
  then show ?case using h by (simp add: stands_for_def)
next
  case 2
  then show ?case using h by (simp add: stands_for_def list_ok_def)
next
  case (3 l i)
  then have "sl_ok l" by (simp add: refresh_reads_def)
  show ?case
  proof (rule wp_service_loop [OF \<open>sl_ok l\<close>, where I = "\<lambda>b. \<exists>T'. holds (T', ms) b \<and> purged C T T'"], goal_cases)
    case 1
    show ?case using 3 \<open>sl_ok l\<close> h by (intro exI [of _ T]) (simp add: stands_for_def list_ok_def)
  next
    case (2 x b')
    then obtain T1 where T1: "holds (T1, ms) b'" "purged C T T1" by blast
    then show ?case
      by (intro wp_mono [OF wp_purge_service [OF rel C T1(1) purged_tables_ok [OF T1(2) ok]]]) (auto intro: purged_trans)
  next
    case (3 b')
    then obtain T1 where T1: "holds (T1, ms) b'" "purged C T T1" by blast
    from T1 \<open>sl_ok l\<close> show ?case
      by (intro wp_on_impl wp_upd Q [OF _ T1(2)]) (auto simp: stands_for_def list_ok_def sl_ok_def)
  qed
qed simp_all

section \<open>Dispatching\<close>

lemma request_frames:
  assumes "x = (w\<lparr>wrk_state := OCCUPIED\<rparr>, Letter_SetWORKER_ID i (Letter_SetSTATE ASSIGNED l))"
    and "w = worker_of h r" and "l = letter_of j lr"
  shows "wrap (wrk_identity (fst x)) (Some EMPTY_FRAME) (push_front_c MDPW_WORKER (push_front_c MDPW_REQUEST
      (push_front_c (let_reply_to (snd x)) (push_front (let_header (snd x)) (push_front (let_data (snd x))
        (push_option EMPTY_FRAME [])))))) = request_to w l"
proof -
  have "c_str MDPW_WORKER = MDPW_WORKER" "c_str MDPW_REQUEST = MDPW_REQUEST"
    by (simp_all add: protocol_defs c_str_def NUL_def)
  moreover have "c_str (let_reply_to l) = let_reply_to l" "c_str (wrk_identity w) = wrk_identity w"
    by (simp_all add: assms(2,3) worker_of_def letter_of_def letter_object_def Letter_make_def Letter_SetVALID_def
        Letter_SetSTATE_def Letter_SetEXPIRATION_def Letter_SetWORKER_ID_def Letter_SetSERVICE_ID_def Letter_SetID_def)
  ultimately show ?thesis
    by (simp add: assms(1) wrap_empty push_option_def push_front_c_def push_front_def request_to_def EMPTY_FRAME_def
        Letter_SetWORKER_ID_def Letter_SetSTATE_def)
qed

lemma wp_worker_send:
  assumes rel: reliable and h: "holds (T, ms) b" and ok: "tables_ok T"
    and i: "in_state T sid ARMED i r" and j: "waiting T sid j l"
    and Q: "\<And>st' b'. holds st' b' \<Longrightarrow> assigns sid (T, ms) st' \<Longrightarrow> tables_ok (fst st') \<Longrightarrow> Q () b'"
  shows "wp (worker_send E (Some (worker_of i r)) MDPW_REQUEST EMPTY_FRAME (Some (letter_of j l))) Q R b"
proof -
  let ?w = "worker_of i r" and ?l = "letter_of j l"
  have fail: "taken T ?w ?l" if "letters T (let_id ?l) = None \<or> workers T (wrk_id ?w) = None \<or> taken T ?w ?l"
    using that i j by (auto simp: in_state_def waiting_def)
  have sent: "wp (send_msg (wrap (wrk_identity (fst x)) (Some EMPTY_FRAME) (push_front_c MDPW_WORKER
      (push_front_c MDPW_REQUEST (push_front_c (let_reply_to (snd x)) (push_front (let_header (snd x))
        (push_front (let_data (snd x)) (push_option EMPTY_FRAME [])))))))) Q R b'"
    if "assign_outcome True ?w ?l T x T'" "keys_ok T'" "holds (T', ms) b'" for x T' b'
  proof -
    from that(1) have x: "x = (?w\<lparr>wrk_state := OCCUPIED\<rparr>, Letter_SetWORKER_ID (wrk_id ?w) (Letter_SetSTATE ASSIGNED ?l))"
      unfolding assign_outcome_def by blast
    have a: "assigns sid (T, ms) (T', ms @ [wire (request_to ?w ?l)])"
      unfolding assigns_def fst_conv snd_conv using that(1) assigned_not_taken [OF that(1,2)] i j by blast
    show ?thesis
      unfolding request_frames [OF x refl refl]
      by (rule wp_send_msg [OF that(3)], rule Q [OF _ a])
        (use assigned_tables_ok [OF that(1,2) ok] in simp_all)
  qed
  show ?thesis
    unfolding worker_send_def option.case
  proof (rule wp_bnd, rule wp_bd [OF h, where C = "\<lambda>_. False" and P = "\<lambda>(a, x) T'.
      if a then assign_outcome True ?w ?l T x T' \<and> keys_ok T' else T' = T \<and> taken T ?w ?l"], goal_cases)
    case (1 d)
    show ?case
      by (rule wp_on_obj_bool [OF wp_AssignLetterToWorker [OF 1 tables_ok_keys [OF ok], of ?w ?l]])
        (use rel fail in auto)
  next
    case (2 x T' b')
    obtain a w' l' where x: "x = (a, w', l')" by (cases x) auto
    show ?case
    proof (cases a)
      case True
      with 2 sent [of "(w', l')" T' b'] show ?thesis by (simp add: x)
    next
      case False
      with 2 i j have a: "T' = T" "assigns sid (T, ms) (T, ms)" by (auto simp: x assigns_def)
      with False 2 Q [OF _ a(2)] ok show ?thesis by (auto simp: x intro!: wp_ret)
    qed
  qed simp
qed

lemma wp_dispatch_none:
  assumes rel: reliable and C: "clock_in E C" and h: "holds (T, ms) b" and ok: "tables_ok T"
    and Q: "\<And>st' b'. holds st' b' \<Longrightarrow> dispatched C (srv_id s) (T, ms) st' \<Longrightarrow> tables_ok (fst st') \<Longrightarrow> Q () b'"
  shows "wp (sq (purge_workers E) (bnd (on_bd (PopWorker E (Some s) ARMED)) (\<lambda>wrk.
     case wrk of None \<Rightarrow> ret ()
     | Some w \<Rightarrow>
         bnd (on_bd (GetWaitingLetter E (Some s))) (\<lambda>letter.
         case letter of None \<Rightarrow> ret ()
         | Some l \<Rightarrow> worker_send E (Some w) MDPW_REQUEST EMPTY_FRAME (Some l))))) Q R b"
proof (rule wp_sq, rule wp_purge_workers [OF rel C h ok], goal_cases)
  case (1 T1 b1)
  note ok1 = purged_tables_ok [OF 1(2) ok]
  have Q1: "Q () b'" if "holds st' b'" "assigns (srv_id s) (T1, ms) st'" "tables_ok (fst st')" for st' b'
    using that Q [of st' b'] 1(2) by (auto simp: dispatched_def)
  show ?case
  proof (rule wp_bnd, rule wp_bd_pop [OF rel 1(1)], assumption, goal_cases)
    case worker: (1 i r b2)
    show ?case
      unfolding option.case
    proof (rule wp_bnd, rule wp_bd_letter [OF rel worker(2)], assumption, goal_cases)
      case (1 j l b3)
      then show ?case unfolding option.case by (intro wp_worker_send [OF rel _ ok1 worker(1)] Q1)
    next
      case (2 b3)
      then show ?case by (auto simp: assigns_def ok1 intro!: wp_ret Q1 [of "(T1, ms)"])
    qed
  next
    case (2 b2)
    then show ?case by (auto simp: assigns_def ok1 intro!: wp_ret Q1 [of "(T1, ms)"])
  qed
qed

lemma wp_service_dispatch:
  assumes rel: reliable and C: "clock_in E C" and h: "holds (T, ms) b" and ok: "tables_ok T"
    and Q: "\<And>st' b'. holds st' b' \<Longrightarrow> dispatched C (srv_id s) (T, ms) st' \<Longrightarrow> tables_ok (fst st') \<Longrightarrow> Q () b'"
  shows "wp (service_dispatch E (Some s) None) Q R b"
  unfolding service_dispatch_def option.case
  by (rule wp_sq, rule wp_assert_b, rule wp_sq, rule wp_ret, rule wp_dispatch_none [OF rel C h ok], erule Q) simp_all

lemma wp_service_dispatch_msg:
  assumes rel: reliable and C: "clock_in E C" and h: "holds (T, ms) b" and ok: "tables_ok T"
    and l: "Letter_of_zmsg m = Inr l" and fits: "length (let_header l) < 65536" "length (let_data l) < 65536"
    and Q: "\<And>T0 l' st' b'. holds st' b' \<Longrightarrow> pushed (srv_id s) l T l' T0 \<and> keys_ok T0 \<or> T0 = T \<and> ref_ahead T
        \<Longrightarrow> dispatched C (srv_id s) (T0, ms) st' \<Longrightarrow> tables_ok (fst st') \<Longrightarrow> Q () b'"
  shows "wp (service_dispatch E (Some s) (Some m)) Q R b"
  unfolding service_dispatch_def option.case l
  of_result_simps bnd_ret
proof (rule wp_sq, rule wp_assert_b, rule wp_sq, rule wp_bnd, rule wp_bd [OF h, where C = "\<lambda>_. False"
      and P = "\<lambda>(a, l') T0. pushed (srv_id s) l T l' T0 \<and> keys_ok T0 \<or> T0 = T \<and> ref_ahead T"], goal_cases)
  case (1 d)
  show ?case
    by (rule wp_on_obj_bool [OF wp_PushRequestToService [OF 1(2) tables_ok_keys [OF ok] letter_ok_of_zmsg [OF l] fits]])
      (use rel in auto)
next
  case (2 y T0 b0)
  obtain a l' where y: "y = (a, l')" by (cases y)
  with 2 have p: "pushed (srv_id s) l T l' T0 \<and> keys_ok T0 \<or> T0 = T \<and> ref_ahead T" by auto
  then have ok0: "tables_ok T0" using pushed_tables_ok ok by auto
  from 2 show ?case
    by (intro wp_ret wp_dispatch_none [OF rel C _ ok0]) (auto intro: Q [OF _ p])
qed simp_all

lemma wp_worker_waiting:
  assumes rel: reliable and C: "clock_in E C" and h: "holds (T, ms) b" and ok: "tables_ok T" and w: "worker_ok w"
    and Q: "\<And>w' st' b'. holds st' b' \<Longrightarrow> waits C w (T, ms) st' \<Longrightarrow> tables_ok (fst st') \<Longrightarrow> Q (Some w') b'"
  shows "wp (worker_waiting E (Some w)) Q R b"
  unfolding worker_waiting_def option.case
proof (rule wp_bnd, rule wp_bd [OF h, where C = "\<lambda>_. False" and P = "\<lambda>(a, w') T0. wrk_service_id w' = wrk_service_id w \<and>
    (services T (wrk_service_id w) = None \<and> T0 = T \<or> (\<exists>m. armed w T m w' T0 \<and> fresh_mark m))"], goal_cases)
  case (1 d)
  have same: "wrk_service_id w' = wrk_service_id w" if "armed w T m w' T0" for m w' T0
    using that by (auto simp: armed_def Worker_SetID_def)
  show ?case
    by (rule wp_on_obj_bool [OF wp_PushWorker [OF 1 tables_ok_keys [OF ok] w]])
      (use rel same in auto)
next
  case (2 y T0 b0)
  obtain a w' where y: "y = (a, w')" by (cases y)
  with 2 have sid: "wrk_service_id w' = wrk_service_id w"
    and T0: "services T (wrk_service_id w) = None \<and> T0 = T \<or> (\<exists>m. armed w T m w' T0 \<and> fresh_mark m)" by auto
  have ok0: "tables_ok T0" using T0 armed_tables_ok ok w by auto
  have sv: "services T0 = services T" using T0 by (auto simp: armed_def set_worker_def)
  show ?case
    unfolding y prod.case sid
  proof (rule wp_bnd, rule wp_bd_service_id [OF rel 2(2)], goal_cases)
    case (1 row b1)
    with T0 sv have "\<exists>m. armed w T m w' T0 \<and> fresh_mark m" by auto
    with 1 show ?case
      unfolding option.case
      by (intro wp_sq wp_service_dispatch [OF rel C 1(2) ok0] wp_ret) (auto simp: service_of_def waits_def intro!: Q)
  next
    case (2 b1)
    then have "T0 = T" "waits C w (T, ms) (T, ms)" using T0 sv by (auto simp: armed_def waits_def)
    with 2 ok show ?case by (auto intro!: wp_sq wp_ret Q)
  qed
qed simp

end

end
