(* ===== verification/BrokerRefinement.thy ===== *)
theory BrokerRefinement
  imports BrokerSpec
begin

text \<open>
  The protocol of the broker: what each message does to the tables and which messages are sent
  for it (\<open>broker_step\<close>), which messages end the process (\<open>broker_fault\<close>), and that
  \<open>process_message\<close> does only that.
\<close>

section \<open>The steps of the machine\<close>

text \<open>The reply of an internal service, as the frames after its name.\<close>

definition found_service :: "string \<Rightarrow> tables \<Rightarrow> int \<Rightarrow> xdb_service \<Rightarrow> bool" where
  "found_service name T h row \<longleftrightarrow> services T h = Some row \<and> x_name row = c_str name"

definition mmi_reply :: "tables \<Rightarrow> string \<Rightarrow> frames \<Rightarrow> frames \<Rightarrow> bool" where
  "mmi_reply T name args reply \<longleftrightarrow>
     (if name = ''mmi.service''
      then \<exists>asked. args = [asked]
        \<and> ((\<exists>h row. found_service asked T h row
               \<and> service_active (service_of h row) \<and> reply = [''200'', strncpy ENDPOINT_MAXLEN (x_endpoint row)])
           \<or> ((\<exists>h row. found_service asked T h row \<and> \<not> service_active (service_of h row))
               \<or> \<not> has_service (c_str asked) T) \<and> reply = [''404''])
      else reply = butlast args @ [''501''])"

text \<open>The frames of \<open>mmi.filter\<close> are taken from the front of the message, where the return address is.\<close>

definition mmi_frames :: "tables \<Rightarrow> string \<Rightarrow> string \<Rightarrow> frames \<Rightarrow> frames \<Rightarrow> bool" where
  "mmi_frames T name sender args fs \<longleftrightarrow>
     (if name = ''mmi.filter''
      then c_str sender \<noteq> ''enable'' \<and> c_str sender \<noteq> ''disable''
        \<and> fs = ['''', '''', MDPC_CLIENT, MDPC_REPORT, MDPC_CLIENT, name]
              @ snd (unwrap ('''' # butlast (tl args) @ [''400'']))
      else \<exists>reply. mmi_reply T name args reply
        \<and> fs = [c_str sender, '''', MDPC_CLIENT, MDPC_REPORT, MDPC_CLIENT, c_str name] @ reply)"

text \<open>What a READY of a new worker makes of the services: the row it names, found or made, gets
  the endpoint of the message.\<close>

definition announced :: "string \<Rightarrow> string \<Rightarrow> tables \<Rightarrow> int \<Rightarrow> tables \<Rightarrow> bool" where
  "announced name ep T h T' \<longleftrightarrow>
     (\<exists>row. (found_service name T h row
           \<or> \<not> has_service (c_str name) T \<and> 0 < h \<and> services T h = None \<and> row = registered_row (c_str name))
        \<and> T' = T\<lparr>services := (services T)(h \<mapsto> row\<lparr>x_endpoint := c_str ep\<rparr>)\<rparr>)"

definition reported :: "Worker \<Rightarrow> tables \<Rightarrow> Worker \<Rightarrow> tables \<Rightarrow> bool" where
  "reported w T w' T' \<longleftrightarrow> released w T w' T' \<and> owns_letters w T
     \<or> T' = T \<and> w' = w \<and> (\<forall>j l. letters T j = Some l \<longrightarrow> l_worker_ref l \<noteq> wrk_id w)"

inductive broker_step ::
  "(timer_mark \<Rightarrow> bool) \<Rightarrow> frames \<Rightarrow> tables \<times> outbox \<Rightarrow> tables \<times> outbox \<Rightarrow> bool" for C where
  mmi: "is_mmi name \<Longrightarrow> args \<noteq> [] \<Longrightarrow> mmi_frames T name sender args fs
    \<Longrightarrow> broker_step C (sender # '''' # MDPC_CLIENT # name # args) (T, ms) (T, ms @ [wire fs])"
| nak: "\<not> is_mmi name \<Longrightarrow> args \<noteq> [] \<Longrightarrow> \<not> has_service (c_str name) T
    \<Longrightarrow> broker_step C (sender # '''' # MDPC_CLIENT # name # args) (T, ms)
          (T, ms @ [wire [c_str sender, '''', MDPC_CLIENT, MDPC_NAK, c_str name]])"
| request: "\<not> is_mmi name \<Longrightarrow> args \<noteq> [] \<Longrightarrow> found_service name T h row
    \<Longrightarrow> Letter_of_zmsg (wrap (c_str sender) (Some EMPTY_FRAME) args) = Inr l
    \<Longrightarrow> pushed h l T l' T0 \<and> keys_ok T0 \<or> T0 = T \<and> ref_ahead T
    \<Longrightarrow> dispatched C h (T0, ms) st'
    \<Longrightarrow> broker_step C (sender # '''' # MDPC_CLIENT # name # args) (T, ms) st'"
| ready: "no_worker_named (c_str sender) T \<Longrightarrow> \<not> is_mmi sender \<Longrightarrow> name \<noteq> ''''
    \<Longrightarrow> announced name ep T h T0
    \<Longrightarrow> Worker_make h (Some (c_str sender)) 0 0 = Inr w
    \<Longrightarrow> waits C w (T0, ms) st1 \<Longrightarrow> dispatched C h st1 st'
    \<Longrightarrow> broker_step C (sender # '''' # MDPW_WORKER # MDPW_READY # name # ep # args) (T, ms) st'"
| ready_again: "worker_named (c_str sender) T i r
    \<Longrightarrow> broker_step C (sender # '''' # MDPW_WORKER # MDPW_READY # args) (T, ms)
          (set_worker i (r\<lparr>w_state := DISARMED\<rparr>) T, ms @ [wire (disconnect_to (c_str sender))])"
| report: "worker_named (c_str sender) T i r \<Longrightarrow> services T (w_service_ref r) = Some row
    \<Longrightarrow> reported (worker_of i r) T w' T0 \<Longrightarrow> unwrap args = (Some client, body1)
    \<Longrightarrow> waits C w' (T0, ms @ [wire (client # '''' # MDPC_CLIENT # MDPC_REPORT
          # strncpy SERVICE_NAME_MAXLEN (x_name row) # body1)]) st'
    \<Longrightarrow> broker_step C (sender # '''' # MDPW_WORKER # MDPW_REPORT # args) (T, ms) st'"
| heartbeat: "worker_named (c_str sender) T i r \<Longrightarrow> waits C (worker_of i r) (T, ms) st'
    \<Longrightarrow> broker_step C (sender # '''' # MDPW_WORKER # MDPW_HEARTBEAT # args) (T, ms) st'"
| heartbeat_unknown: "no_worker_named (c_str sender) T
    \<Longrightarrow> broker_step C (sender # '''' # MDPW_WORKER # MDPW_HEARTBEAT # args) (T, ms) (T, ms)"
| disconnect: "worker_named (c_str sender) T i r
    \<Longrightarrow> broker_step C (sender # '''' # MDPW_WORKER # MDPW_DISCONNECT # args) (T, ms)
          (set_worker i (r\<lparr>w_state := DISARMED\<rparr>) T, ms)"
| unknown_worker: "no_worker_named (c_str sender) T \<Longrightarrow> cmd \<notin> {MDPW_READY, MDPW_HEARTBEAT, MDPW_DISCONNECT}
    \<Longrightarrow> broker_step C (sender # '''' # MDPW_WORKER # cmd # args) (T, ms) (T, ms @ [wire (disconnect_to (c_str sender))])"
| invalid_command: "worker_named (c_str sender) T i r
    \<Longrightarrow> cmd \<notin> {MDPW_READY, MDPW_REPORT, MDPW_HEARTBEAT, MDPW_DISCONNECT}
    \<Longrightarrow> broker_step C (sender # '''' # MDPW_WORKER # cmd # args) (T, ms) (T, ms)"
| invalid_header: "header \<notin> {MDPC_CLIENT, MDPW_WORKER}
    \<Longrightarrow> broker_step C (sender # '''' # header # args) (T, ms) (T, ms)"

text \<open>What ends the process: messages that break the asserted form, and a few that do not.\<close>

inductive broker_fault :: "frames \<Rightarrow> tables \<Rightarrow> fault \<Rightarrow> bool" where
  short: "length msg < 3 \<Longrightarrow> broker_fault msg T AssertFailed"
| envelope: "sender = '''' \<or> delim \<noteq> '''' \<or> header = '''' \<Longrightarrow> broker_fault (sender # delim # header # args) T AssertFailed"
| short_client: "length args < 2 \<Longrightarrow> broker_fault (sender # delim # MDPC_CLIENT # args) T AssertFailed"
| short_worker: "broker_fault [sender, delim, MDPW_WORKER] T AssertFailed"
| mmi_service_args: "length args \<noteq> 1 \<Longrightarrow> broker_fault (sender # delim # MDPC_CLIENT # ''mmi.service'' # args) T AssertFailed"
| mmi_filter_used: "c_str sender = ''enable'' \<or> c_str sender = ''disable''
    \<Longrightarrow> broker_fault (sender # delim # MDPC_CLIENT # ''mmi.filter'' # args) T AssertFailed"
| disconnect_unknown: "no_worker_named (c_str sender) T
    \<Longrightarrow> broker_fault (sender # delim # MDPW_WORKER # MDPW_DISCONNECT # args) T AssertFailed"
| ready_mmi: "no_worker_named (c_str sender) T \<Longrightarrow> is_mmi sender
    \<Longrightarrow> broker_fault (sender # delim # MDPW_WORKER # MDPW_READY # args) T AssertFailed"
| ready_short: "no_worker_named (c_str sender) T \<Longrightarrow> length args < 2
    \<Longrightarrow> broker_fault (sender # delim # MDPW_WORKER # MDPW_READY # args) T LogicError"
| ready_nameless: "no_worker_named (c_str sender) T
    \<Longrightarrow> broker_fault (sender # delim # MDPW_WORKER # MDPW_READY # '''' # args) T AssertFailed"
| report_orphan: "worker_named (c_str sender) T i r \<Longrightarrow> services T (w_service_ref r) = None
    \<Longrightarrow> broker_fault (sender # delim # MDPW_WORKER # MDPW_REPORT # args) T NullDeref"
| report_foreign: "worker_named (c_str sender) T i r \<Longrightarrow> \<not> owns_letters (worker_of i r) T
    \<Longrightarrow> broker_fault (sender # delim # MDPW_WORKER # MDPW_REPORT # args) T AssertFailed"
| report_short: "worker_named (c_str sender) T i r
    \<Longrightarrow> broker_fault [sender, delim, MDPW_WORKER, MDPW_REPORT] T LogicError"

text \<open>The sizes within which the fields of the database are defined.\<close>

definition message_fits :: "frames \<Rightarrow> bool" where
  "message_fits msg \<longleftrightarrow> (\<forall>f\<in>set msg. length f < 65536)
     \<and> (\<forall>sender delim name ep args. msg = sender # delim # MDPW_WORKER # MDPW_READY # name # ep # args
          \<longrightarrow> length (c_str name) \<le> SERVICE_NAME_MAXLEN \<and> length (c_str ep) \<le> ENDPOINT_MAXLEN)"

section \<open>Refinement\<close>

lemma c_str_lits:
  "c_str ''200'' = ''200''" "c_str ''404'' = ''404''" "c_str ''400'' = ''400''" "c_str ''501'' = ''501''"
  "c_str MDPC_CLIENT = MDPC_CLIENT" "c_str MDPC_REPORT = MDPC_REPORT" "c_str MDPC_NAK = MDPC_NAK"
  "c_str MDPW_WORKER = MDPW_WORKER" "c_str ''mmi.service'' = ''mmi.service''" "c_str ''mmi.filter'' = ''mmi.filter''"
  by (simp_all add: protocol_defs c_str_def NUL_def)

lemma body_set_eq: "body_set t fs = butlast fs @ [c_str t]"
  by (simp add: body_set_def push_back_c_def)

lemma sq_raise [simp]: "sq (raise e) m = raise e"
  by (simp add: sq_def)

lemma checks:
  "assert_b True = ret ()" "deref (Some x) = ret x" "str_arg (Some c) = ret c" "sq (ret ()) m = m" "bnd (ret y) f = f y"
  by (simp_all add: assert_b_def check_def deref_def str_arg_def sq_def)

lemma service_row_eq:
  "r\<lparr>x_name := a, x_endpoint := b, x_state := c\<rparr> = \<lparr>x_name = a, x_state = c, x_endpoint = b\<rparr>"
  by (cases r) simp

lemma reported_tables_ok: "reported w T w' T' \<Longrightarrow> tables_ok T \<Longrightarrow> tables_ok T'"
  using released_tables_ok by (auto simp: reported_def)

lemma reported_worker:
  assumes "reported w T w' T'"
  shows "wrk_service_id w' = wrk_service_id w \<and> wrk_identity w' = wrk_identity w"
  using assms by (auto simp: reported_def released_def Worker_SetLETTER_ID_def)

lemma worker_ok_of [simp]: "worker_ok (worker_of i r)"
  by (simp add: worker_ok_def worker_of_def length_strncpy)

context engine_laws
begin

lemma wp_Update_Service:
  assumes rel: reliable and at: "at T T 0 d" and keys: "keys_ok T" and row: "services T (srv_id s) = Some row"
    and n: "srv_name s = Some n" "service_fits (PutName n)" and ep: "srv_endpoint s = Some ep" "service_fits (PutEndpoint ep)"
  defines "T' \<equiv> T\<lparr>services := (services T)(srv_id s \<mapsto> \<lparr>x_name = n, x_state = StateConvert_to (srv_state s), x_endpoint = ep\<rparr>)\<rparr>"
  shows "wp (Update_Service E s) (\<lambda>b d'. \<not> b \<and> at T' T' 0 d') (\<lambda>_ _. False) d"
proof -
  have k: "keys_ok T'" using keys by (simp add: T'_def keys_ok_def)
  have "wp (run_txn E (Update_Service_steps E s))
     (\<lambda>b (x', d'). if b then \<exists>T''. at T'' T'' 0 d' \<and> T'' = T' \<and> keys_ok T''
        else at T T 0 d' \<and> (reliable \<longrightarrow> False)) (\<lambda>_ _. False) ((), d)"
  proof (rule txn0 [OF at], goal_cases)
    case (1 d1)
    then show ?case
      unfolding Update_Service_steps_def n ep option.case Service_GetENDPOINT_def
      by - (elim conjE exE | hypsubst
          | simp only: tab_simps apply_service_put.simps sum.case option.case
          | rule decided | rule vcg | (rule call_rules, assumption)
          | (rule put_rules, (use n ep in \<open>simp; fail\<close>), assumption)
          | (rule brk, assumption, assumption, (use row in \<open>simp; fail\<close>))
          | (rule fin, assumption, (simp add: T'_def service_row_eq; fail))
          | (use row in \<open>simp; fail\<close>))+
  next
    case (2 x' T')
    then show ?case using k by simp
  qed
  then show ?thesis
    unfolding Update_Service_def
    by (intro vcg) (erule wp_mono, use rel in \<open>auto split: if_splits intro!: vcg\<close>)
qed

abbreviation goes ::
  "(timer_mark \<Rightarrow> bool) \<Rightarrow> frames \<Rightarrow> tables \<Rightarrow> outbox \<Rightarrow> ('d, 'a) broker_op \<Rightarrow> 'd broker \<Rightarrow> bool" where
  "goes C msg T ms m b \<equiv> wp m (\<lambda>_ b'. \<exists>st'. holds st' b' \<and> broker_step C msg (T, ms) st' \<and> tables_ok (fst st'))
     (\<lambda>f _. broker_fault msg T f) b"

lemma goesI:
  assumes "holds st' b'" and "broker_step C msg (T, ms) st'" and "tables_ok (fst st')"
  shows "\<exists>st'. holds st' b' \<and> broker_step C msg (T, ms) st' \<and> tables_ok (fst st')"
  using assms by blast

section \<open>Messages of clients\<close>

lemma wp_mmi_service:
  assumes rel: reliable and h: "holds (T, ms) b"
    and Q: "\<And>reply b'. mmi_reply T ''mmi.service'' args reply \<Longrightarrow> holds (T, ms) b' \<Longrightarrow> Q (a # '''' # reply) b'"
    and F: "\<And>b'. length args \<noteq> 1 \<Longrightarrow> R AssertFailed b'"
  shows "wp (mmi_service E (a # '''' # args)) Q R b"
proof (cases "\<exists>asked. args = [asked]")
  case True
  then obtain asked where args: "args = [asked]" by blast
  note calc = args body_set_def push_back_c_def parts_def get_part_def Service_GetENDPOINT_def c_str_lits deref_def
    numeral_3_eq_3 service_of_def
  have found: "wp (if service_active (service_of i row)
         then bnd (of_result (Service_GetENDPOINT (service_of i row)))
           (\<lambda>endpoint. ret (push_back_c endpoint (body_set ''200'' (a # '''' # args))))
         else ret (body_set ''404'' (a # '''' # args))) Q R b'"
    if "services T i = Some row" "x_name row = c_str asked" "holds (T, ms) b'" for i row b'
  proof -
    have f: "found_service asked T i row" using that by (simp add: found_service_def)
    have "wp (ret (a # '''' # [''200'', strncpy ENDPOINT_MAXLEN (x_endpoint row)])) Q R b'" if "service_active (service_of i row)"
      using f that \<open>holds (T, ms) b'\<close> by (intro wp_ret Q) (auto simp: mmi_reply_def args)
    moreover have "wp (ret (a # '''' # [''404''])) Q R b'" if "\<not> service_active (service_of i row)"
      using f that \<open>holds (T, ms) b'\<close> by (intro wp_ret Q) (auto simp: mmi_reply_def args)
    ultimately show ?thesis by (simp add: calc)
  qed
  have p: "parts (a # '''' # args) = 3" "get_part 2 (a # '''' # args) = Some asked"
    by (simp_all add: args parts_def get_part_def)
  have missing: "wp (ret (body_set ''404'' (a # '''' # args))) Q R b'" if "\<not> has_service (c_str asked) T" "holds (T, ms) b'" for b'
    using that Q [of "[''404'']"] by (intro wp_ret) (simp add: mmi_reply_def calc)
  show ?thesis
    by (simp only: mmi_service_def p checks simp_thms, rule wp_bnd, rule wp_bd_find_service [OF rel h]; simp only: option.case)
      (use found missing in auto)
next
  case False
  then have "length args \<noteq> 1" by (cases args) auto
  then show ?thesis
    unfolding mmi_service_def by (intro wp_sq wp_assert_b F) (auto simp: parts_def)
qed

lemma wp_mmi_filter:
  assumes h: "holds (T, ms) b" and args: "args \<noteq> []"
    and Q: "\<And>b'. a \<noteq> ''enable'' \<Longrightarrow> a \<noteq> ''disable'' \<Longrightarrow> holds (T, ms) b' \<Longrightarrow> Q ('''' # butlast (tl args) @ [''400'']) b'"
    and F: "\<And>b'. a = ''enable'' \<or> a = ''disable'' \<Longrightarrow> R AssertFailed b'"
  shows "wp (mmi_filter E (a # '''' # args)) Q R b"
proof -
  obtain cmd rest where args_eq: "args = cmd # rest" using args by (cases args) auto
  have refused: "on_bd (ServiceCommand '''' cmd) = raise AssertFailed"
    by (auto simp: fun_eq_iff on_impl_def on_db_def ServiceCommand_def prog_defs)
  note Q' = Q [unfolded args_eq list.sel]
  show ?thesis
    using h unfolding mmi_filter_def args_eq
    by (auto simp: refused body_set_eq push_front_c_def c_str_lits EMPTY_FRAME_def split_beta
        intro!: wp_raise F wp_ret Q')
qed

lemma wp_service_internal:
  assumes rel: reliable and h: "holds (T, ms) b" and ok: "tables_ok T" and mmi: "is_mmi name" and args: "args \<noteq> []"
  shows "goes C (sender # '''' # MDPC_CLIENT # name # args) T ms
     (service_internal E name (wrap (c_str sender) (Some EMPTY_FRAME) args)) b"
proof -
  let ?msg = "sender # '''' # MDPC_CLIENT # name # args"
  have msg: "wrap (c_str sender) (Some EMPTY_FRAME) args = c_str sender # '''' # args"
    by (simp add: EMPTY_FRAME_def wrap_empty)
  have parts: "2 \<le> parts (c_str sender # '''' # args)" by (simp add: parts_def)
  have reply: "wp (case unwrap m of (client, msg2) \<Rightarrow> bnd (str_arg client) (\<lambda>c. send_msg (wrap c (Some EMPTY_FRAME)
        (push_front_c MDPC_CLIENT (push_front_c MDPC_REPORT (wrap MDPC_CLIENT (Some (c_str name)) msg2))))))
      (\<lambda>_ b'. \<exists>st'. holds st' b' \<and> broker_step C ?msg (T, ms) st' \<and> tables_ok (fst st')) R b'"
    if "holds (T, ms) b'" and u: "unwrap m = (Some c, m2)" "c_str c = c"
      and f: "mmi_frames T name sender args ([c, '''', MDPC_CLIENT, MDPC_REPORT, MDPC_CLIENT, c_str name] @ m2)" for b' m c m2 R
  proof -
    have w: "wrap c (Some EMPTY_FRAME) (push_front_c MDPC_CLIENT (push_front_c MDPC_REPORT (wrap MDPC_CLIENT (Some (c_str name)) m2)))
        = [c, '''', MDPC_CLIENT, MDPC_REPORT, MDPC_CLIENT, c_str name] @ m2"
      by (simp add: EMPTY_FRAME_def wrap_def push_front_c_def c_str_lits u(2))
    have step: "broker_step C ?msg (T, ms) (T, ms @ [wire ([c, '''', MDPC_CLIENT, MDPC_REPORT, MDPC_CLIENT, c_str name] @ m2)])"
      by (rule broker_step.mmi [OF mmi args f])
    show ?thesis
      unfolding u prod.case checks w
      by (rule wp_send_msg [OF that(1)], rule goesI, assumption, rule step) (simp add: ok)
  qed
  have plain: "unwrap (c_str sender # '''' # r) = (Some (c_str sender), r)" for r
    by (simp add: unwrap_def address_def)
  consider "name = ''mmi.service''" | "name = ''mmi.filter''" | "name \<noteq> ''mmi.service''" "name \<noteq> ''mmi.filter''" by blast
  then show ?thesis
  proof cases
    case 1
    have short: "broker_fault ?msg T AssertFailed" if "length args \<noteq> 1"
      using that broker_fault.mmi_service_args [of args sender "''''" T] by (simp add: 1)
    have answer: "mmi_frames T name sender args ([c_str sender, '''', MDPC_CLIENT, MDPC_REPORT, MDPC_CLIENT, c_str name] @ r)"
      if "mmi_reply T ''mmi.service'' args r" for r
      using that by (auto simp: mmi_frames_def 1 c_str_lits)
    show ?thesis
      unfolding service_internal_def msg
      by (rule wp_sq, rule wp_assert_b, simp only: if_P [OF 1], rule wp_bnd, rule wp_mmi_service [OF rel h])
        (use parts short reply [OF _ plain _ answer] in auto)
  next
    case 2
    have n: "name \<noteq> ''mmi.service''" by (simp add: 2)
    have used: "broker_fault ?msg T AssertFailed" if "c_str sender = ''enable'' \<or> c_str sender = ''disable''"
      using that broker_fault.mmi_filter_used [of sender "''''" args T] by (simp add: 2)
    obtain m2 where u: "unwrap ('''' # butlast (tl args) @ [''400'']) = (Some '''', m2)"
      by (simp add: unwrap_def)
    have answer: "mmi_frames T name sender args (['''', '''', MDPC_CLIENT, MDPC_REPORT, MDPC_CLIENT, c_str name] @ m2)"
      if "c_str sender \<noteq> ''enable''" "c_str sender \<noteq> ''disable''"
      using that u by (simp add: mmi_frames_def 2 c_str_lits)
    show ?thesis
      unfolding service_internal_def msg
      by (rule wp_sq, rule wp_assert_b, simp only: if_not_P [OF n] if_P [OF 2], rule wp_bnd, rule wp_mmi_filter [OF h args])
        (use parts used reply [OF _ u _ answer] in auto)
  next
    case 3
    have answer: "mmi_frames T name sender args ([c_str sender, '''', MDPC_CLIENT, MDPC_REPORT, MDPC_CLIENT, c_str name]
        @ butlast args @ [''501''])"
      using 3 by (simp add: mmi_frames_def mmi_reply_def)
    have b: "body_set ''501'' (c_str sender # '''' # args) = c_str sender # '''' # butlast args @ [''501'']"
      using args by (simp add: body_set_eq c_str_lits)
    show ?thesis
      unfolding service_internal_def msg
      by (rule wp_sq, rule wp_assert_b, simp only: if_not_P [OF 3(1)] if_not_P [OF 3(2)] checks b)
        (use parts reply [OF h plain _ answer] in auto)
  qed
qed

lemma letter_of_args:
  assumes "args \<noteq> []"
  obtains l where "Letter_of_zmsg (wrap a (Some EMPTY_FRAME) args) = Inr l"
    "let_header l \<in> insert '''' (set args)" "let_data l \<in> insert '''' (set args)"
proof -
  obtain xs y where args: "args = xs @ [y]" using assms by (cases args rule: rev_cases) auto
  obtain x zs where x: "'''' # xs = zs @ [x]" "x \<in> insert '''' (set xs)"
  proof (cases xs rule: rev_cases)
    case Nil
    then show thesis by (intro that [of "[]" "''''"]) auto
  next
    case (snoc ys x)
    then show thesis by (intro that [of "'''' # ys" x]) auto
  qed
  have "wrap a (Some EMPTY_FRAME) args = c_str a # ('''' # xs) @ [y]" by (simp add: EMPTY_FRAME_def wrap_empty args)
  also have "\<dots> = c_str a # zs @ [x, y]" unfolding x(1) by simp
  finally have "Letter_of_zmsg (wrap a (Some EMPTY_FRAME) args) = Inr (Letter_make (c_str a) x y)"
    by (simp only: Letter_of_zmsg_frames)
  then show thesis by (rule that) (use x(2) in \<open>auto simp: Letter_make_def args\<close>)
qed

lemma wp_client_msg:
  assumes rel: reliable and C: "clock_in E C" and h: "holds (T, ms) b" and ok: "tables_ok T"
    and fits: "\<forall>f\<in>set msg. length f < 65536"
  shows "goes C (sender # '''' # MDPC_CLIENT # msg) T ms (client_msg E sender msg) b"
proof (cases "length msg < 2")
  case True
  then show ?thesis
    unfolding client_msg_def by (intro wp_sq wp_assert_b broker_fault.short_client) (auto simp: parts_def)
next
  case False
  then obtain name args where msg: "msg = name # args" and args: "args \<noteq> []"
    by (cases msg) (auto simp: Suc_le_eq)
  have two: "2 \<le> parts msg" using False by (simp add: parts_def)
  have nak: "goes C (sender # '''' # MDPC_CLIENT # name # args) T ms (send_msg (wrap (c_str sender) (Some EMPTY_FRAME)
      (push_front_c MDPC_CLIENT (push_front_c MDPC_NAK (push_front_c (c_str name) []))))) b'"
    if "\<not> is_mmi name" "\<not> has_service (c_str name) T" "holds (T, ms) b'" for b'
    by (rule wp_send_msg [OF that(3)], rule goesI, assumption)
      (use broker_step.nak [OF that(1) args that(2), of C sender ms] ok in
        \<open>simp_all add: wrap_empty EMPTY_FRAME_def push_front_c_def c_str_lits\<close>)
  obtain l where l: "Letter_of_zmsg (wrap (c_str sender) (Some EMPTY_FRAME) args) = Inr l"
    and small: "let_header l \<in> insert '''' (set args)" "let_data l \<in> insert '''' (set args)"
    by (rule letter_of_args [OF args])
  have lens: "length (let_header l) < 65536" "length (let_data l) < 65536"
    using small fits by (auto simp: msg)
  have request: "goes C (sender # '''' # MDPC_CLIENT # name # args) T ms
      (service_dispatch E (Some (service_of i row)) (Some (wrap (c_str sender) (Some EMPTY_FRAME) args))) b'"
    if "\<not> is_mmi name" and f: "found_service name T i row" and "holds (T, ms) b'" for i row b'
  proof (rule wp_service_dispatch_msg [OF rel C that(3) ok l lens], rule goesI, assumption, goal_cases)
    case (1 T0 l' st' b')
    then show ?case by (intro broker_step.request [OF that(1) args f l]) (auto simp: service_of_def)
  qed
  have one: "1 \<le> parts (wrap (c_str sender) (Some EMPTY_FRAME) args)"
    by (simp add: EMPTY_FRAME_def wrap_empty)
  show ?thesis
  proof (cases "is_mmi name")
    case True
    show ?thesis
      unfolding client_msg_def
      by (rule wp_sq, rule wp_assert_b, simp only: msg pop_front.simps of_result_simps bnd_ret prod.case if_P [OF True])
        (use two wp_service_internal [OF rel h ok True args] in \<open>simp_all add: msg\<close>)
  next
    case False
    show ?thesis
      unfolding client_msg_def Let_def
      by (rule wp_sq, rule wp_assert_b,
          simp only: msg pop_front.simps of_result_simps bnd_ret prod.case if_not_P [OF False] if_P [OF one],
          rule wp_bnd, rule wp_bd_find_service [OF rel h], simp_all only: option.case)
        (use two nak [OF False] request [OF False] in \<open>auto simp: found_service_def msg\<close>)
  qed
qed

section \<open>Messages of workers\<close>

lemma wp_service_require:
  assumes rel: reliable and h: "holds (T, ms) b" and ok: "tables_ok T" and n: "length (c_str name) \<le> SERVICE_NAME_MAXLEN"
    and F: "name = '''' \<Longrightarrow> R AssertFailed b"
    and found: "\<And>i row b'. name \<noteq> '''' \<Longrightarrow> found_service name T i row \<Longrightarrow> holds (T, ms) b' \<Longrightarrow> Q (Some (service_of i row)) b'"
    and made: "\<And>i T' b'. name \<noteq> '''' \<Longrightarrow> \<not> has_service (c_str name) T \<Longrightarrow> 0 < i \<Longrightarrow> services T i = None
       \<Longrightarrow> T' = T\<lparr>services := (services T)(i \<mapsto> registered_row (c_str name))\<rparr> \<Longrightarrow> holds (T', ms) b'
       \<Longrightarrow> Q (Some \<lparr>srv_id = i, srv_name = Some (c_str name), srv_endpoint = None, srv_state = REGISTERED, srv_modified = True\<rparr>) b'"
  shows "wp (service_require E name) Q R b"
  unfolding service_require_def
proof (rule wp_sq, rule wp_assert_b, rule wp_bnd, rule wp_bd_find_service [OF rel h], goal_cases)
  case (1 i row b')
  then show ?case by (auto intro!: wp_ret found simp: found_service_def)
next
  case (2 b')
  then show ?case
    unfolding option.case
  proof (intro wp_bd [OF 2(3), where C = "\<lambda>_. False" and P = "\<lambda>r T'. \<exists>i>0. services T i = None
      \<and> T' = T\<lparr>services := (services T)(i \<mapsto> registered_row (c_str name))\<rparr>
      \<and> r = Some \<lparr>srv_id = i, srv_name = Some (c_str name), srv_endpoint = None, srv_state = REGISTERED, srv_modified = True\<rparr>"], goal_cases)
    case (1 d)
    show ?case
      by (rule wp_mono [OF wp_AddService [OF _ 1(4), of "c_str name"]])
        (use n rel tables_ok_keys [OF ok] in auto)
  next
    case (2 x T' b'')
    then show ?case by (auto intro!: made)
  qed simp
next
  case 3
  then show ?case using F by simp
qed

lemma wp_announce:
  assumes rel: reliable and h: "holds (T', ms) b" and ok: "tables_ok T'"
    and row: "services T' (srv_id s) = Some row" and n: "srv_name s = Some (x_name row)" "service_fits (PutName (x_name row))"
    and st: "StateConvert_to (srv_state s) = x_state row" and ep: "length (c_str ep) \<le> ENDPOINT_MAXLEN"
    and Q: "\<And>b'. holds (T'\<lparr>services := (services T')(srv_id s \<mapsto> row\<lparr>x_endpoint := c_str ep\<rparr>)\<rparr>, ms) b' \<Longrightarrow> Q False b'"
  shows "wp (on_bd (Update_Service E (s\<lparr>srv_endpoint := Some (c_str ep), srv_modified := True\<rparr>))) Q R b"
proof (rule wp_bd [OF h, where C = "\<lambda>_. False" and P = "\<lambda>r T''. \<not> r
      \<and> T'' = T'\<lparr>services := (services T')(srv_id s \<mapsto> row\<lparr>x_endpoint := c_str ep\<rparr>)\<rparr>"], goal_cases)
  case (1 d)
  have eq: "\<lparr>x_name = x_name row, x_state = x_state row, x_endpoint = c_str ep\<rparr> = row\<lparr>x_endpoint := c_str ep\<rparr>"
    by (cases row) simp
  show ?case
    by (intro wp_mono [OF wp_Update_Service [OF rel 1 tables_ok_keys [OF ok]]]) (use row n st ep in \<open>auto simp: eq\<close>)
qed (use Q in auto)

lemma wp_dispatch_st:
  assumes "reliable" and "clock_in E C" and "holds st b" and "tables_ok (fst st)"
    and "\<And>st' b'. holds st' b' \<Longrightarrow> dispatched C (srv_id s) st st' \<Longrightarrow> tables_ok (fst st') \<Longrightarrow> Q () b'"
  shows "wp (service_dispatch E (Some s) None) Q R b"
  using assms(3-5) by (cases st) (auto intro: wp_service_dispatch [OF assms(1,2)])

text \<open>After the service is known: the worker is made, armed, and the queue looked at.\<close>

lemma wp_ready_service:
  assumes rel: reliable and C: "clock_in E C" and h: "holds (T', ms) b" and ok: "tables_ok T'"
    and row: "services T' (srv_id s) = Some row" and n: "srv_name s = Some (x_name row)" "service_fits (PutName (x_name row))"
    and st: "StateConvert_to (srv_state s) = x_state row" and ep: "length (c_str ep) \<le> ENDPOINT_MAXLEN"
    and Q: "\<And>w w' st1 st' b'. holds st' b' \<Longrightarrow> Worker_make (srv_id s) (Some (c_str sender)) 0 0 = Inr w
       \<Longrightarrow> waits C w (T'\<lparr>services := (services T')(srv_id s \<mapsto> row\<lparr>x_endpoint := c_str ep\<rparr>)\<rparr>, ms) st1
       \<Longrightarrow> dispatched C (srv_id s) st1 st' \<Longrightarrow> tables_ok (fst st') \<Longrightarrow> Q (True, Some w') b'"
  shows "wp (sq (assert_b (Some s \<noteq> None)) (bnd (deref (Some s)) (\<lambda>s.
      bnd (of_result (Service_SetENDPOINT (Some (c_str ep)) s)) (\<lambda>s1.
      bnd (on_bd (Update_Service E s1)) (\<lambda>_.
      bnd (of_result (Worker_make (srv_id s1) (Some (c_str sender)) 0 0)) (\<lambda>w.
      bnd (worker_waiting E (Some w)) (\<lambda>w'. sq (service_dispatch E (Some s1) None) (ret (True, w'))))))))) Q R b"
proof -
  obtain w where w: "Worker_make (srv_id s) (Some (c_str sender)) 0 0 = Inr w"
    by (simp add: Worker_make_Inr)
  have wok: "worker_ok w" using worker_ok_make [OF w] .
  have e: "Service_SetENDPOINT (Some (c_str ep)) s = Inr (s\<lparr>srv_endpoint := Some (c_str ep), srv_modified := True\<rparr>)"
    by (simp add: Service_SetENDPOINT_def)
  have id: "srv_id (s\<lparr>srv_endpoint := Some (c_str ep), srv_modified := True\<rparr>) = srv_id s" by simp
  have nn: "Some s \<noteq> None" by simp
  show ?thesis
    by (simp only: nn e simp_thms checks of_result_simps id w, rule wp_bnd, rule wp_announce [OF rel h ok row n st ep],
        rule wp_bnd, rule wp_worker_waiting [OF rel C _ _ wok], assumption, use ok in simp,
        rule wp_sq, rule wp_dispatch_st [OF rel C], assumption, assumption)
      (auto intro!: wp_ret Q [OF _ w])
qed

lemma wp_ready_new:
  assumes rel: reliable and C: "clock_in E C" and h: "holds (T, ms) b" and ok: "tables_ok T"
    and new: "no_worker_named (c_str sender) T" and fits: "message_fits (sender # '''' # MDPW_WORKER # MDPW_READY # args)"
    and Q: "\<And>w' st' b'. holds st' b' \<Longrightarrow> broker_step C (sender # '''' # MDPW_WORKER # MDPW_READY # args) (T, ms) st'
       \<Longrightarrow> tables_ok (fst st') \<Longrightarrow> Q (True, Some w') b'"
    and F: "\<And>f b'. broker_fault (sender # '''' # MDPW_WORKER # MDPW_READY # args) T f \<Longrightarrow> R f b'"
  shows "wp (worker_process_READY E None sender args) Q R b"
proof (cases "is_mmi sender")
  case True
  then show ?thesis
    using new by (auto simp: worker_process_READY_def release_def intro!: wp_raise F broker_fault.ready_mmi)
next
  case not_mmi: False
  show ?thesis
  proof (cases "length args < 2")
    case True
    then consider "args = []" | name where "args = [name]" by (cases args; cases "tl args") auto
    then show ?thesis
      using not_mmi by cases (auto simp: worker_process_READY_def intro!: wp_raise wp_bnd F broker_fault.ready_short [OF new])
  next
    case False
    then obtain name ep rest where args: "args = name # ep # rest"
      by (cases args; cases "tl args") auto
    have sizes: "length (c_str name) \<le> SERVICE_NAME_MAXLEN" "length (c_str ep) \<le> ENDPOINT_MAXLEN"
      using fits by (auto simp: message_fits_def args)
    show ?thesis
      unfolding worker_process_READY_def option.case if_not_P [OF not_mmi] args pop_front.simps of_result_simps bnd_ret prod.case
    proof (rule wp_bnd, rule wp_service_require [OF rel h ok sizes(1)], goal_cases)
      case 1
      then show ?case using F broker_fault.ready_nameless [OF new, of "''''" "ep # rest"] by (simp add: args)
    next
      case (2 i row b')
      from 2(2) have row: "services T i = Some row" "x_name row = c_str name" by (simp_all add: found_service_def)
      have a: "announced name ep T i (T\<lparr>services := (services T)(i \<mapsto> row\<lparr>x_endpoint := c_str ep\<rparr>)\<rparr>)"
        using 2(2) unfolding announced_def by blast
      show ?case
        by (rule wp_ready_service [OF rel C 2(3) ok _ _ _ _ sizes(2), where row = row])
          (use row sizes 2 not_mmi a in \<open>auto simp: service_of_def strncpy_id args intro!: Q broker_step.ready [OF new]\<close>)
    next
      case (3 i T' b')
      let ?row = "registered_row (c_str name)"
      have ok': "tables_ok T'" using ok 3 by simp
      have a: "announced name ep T i (T'\<lparr>services := (services T')(i \<mapsto> ?row\<lparr>x_endpoint := c_str ep\<rparr>)\<rparr>)"
        using 3 by (auto simp: announced_def)
      show ?case
        by (rule wp_ready_service [OF rel C 3(6) ok' _ _ _ _ sizes(2), where row = ?row])
          (use sizes 3 not_mmi a in \<open>auto simp: registered_row_def args intro!: Q broker_step.ready [OF new]\<close>)
    qed
  qed
qed

lemma wp_bd_release_letter:
  assumes rel: reliable and h: "holds (T, ms) b" and ok: "tables_ok T" and r: "workers T i = Some r"
    and Q: "\<And>a w' T' b'. reported (worker_of i r) T w' T' \<Longrightarrow> holds (T', ms) b' \<Longrightarrow> Q (a, w') b'"
    and F: "\<And>b'. \<not> owns_letters (worker_of i r) T \<Longrightarrow> R AssertFailed b'"
  shows "wp (on_bd (on_obj (worker_of i r) (ReleaseLetterFromWorker E))) Q R b"
proof (rule wp_bd [OF h, where C = "\<lambda>f. f = AssertFailed \<and> \<not> owns_letters (worker_of i r) T"
    and P = "\<lambda>(a, w') T'. reported (worker_of i r) T w' T'"], goal_cases)
  case (1 d)
  have "\<not> no_worker_named (wrk_identity (worker_of i r)) T"
    using worker_of_named [OF ok r] by (auto simp: no_worker_named_def)
  then show ?case
    by (intro wp_on_obj_bool [OF wp_Release_crash [OF 1 tables_ok_keys [OF ok] rel]]) (auto simp: reported_def)
qed (use Q F in auto)

lemma wp_waiting_st:
  assumes "reliable" and "clock_in E C" and "holds st b" and "tables_ok (fst st)" and "worker_ok w"
    and "\<And>w' st' b'. holds st' b' \<Longrightarrow> waits C w st st' \<Longrightarrow> tables_ok (fst st') \<Longrightarrow> Q (Some w') b'"
  shows "wp (worker_waiting E (Some w)) Q R b"
  using assms(3,4,6) by (cases st) (auto intro: wp_worker_waiting [OF assms(1,2) _ _ assms(5)])

lemma wp_report:
  assumes rel: reliable and C: "clock_in E C" and h: "holds (T, ms) b" and ok: "tables_ok T"
    and named: "worker_named (c_str sender) T i r"
    and Q: "\<And>a w' st' b'. holds st' b' \<Longrightarrow> broker_step C (sender # '''' # MDPW_WORKER # MDPW_REPORT # args) (T, ms) st'
       \<Longrightarrow> tables_ok (fst st') \<Longrightarrow> Q (a, Some w') b'"
    and F: "\<And>f b'. broker_fault (sender # '''' # MDPW_WORKER # MDPW_REPORT # args) T f \<Longrightarrow> R f b'"
  shows "wp (worker_process_REPORT E (Some (worker_of i r)) sender args) Q R b"
proof -
  from named have r: "workers T i = Some r" by (simp add: worker_named_def)
  have after: "wp (case unwrap args of (client, m) \<Rightarrow> bnd (str_arg client) (\<lambda>c.
        bnd (str_arg (srv_name (service_of (w_service_ref r) row))) (\<lambda>name.
        sq (send_msg (wrap c (Some EMPTY_FRAME) (push_front_c MDPC_CLIENT (push_front_c MDPC_REPORT (push_front_c name m)))))
           (bnd (worker_waiting E (Some w')) (\<lambda>w''. ret (a, w'')))))) Q R b'"
    if rep: "reported (worker_of i r) T w' T'" and "holds (T', ms) b'" and row: "services T (w_service_ref r) = Some row"
    for a w' T' b' row
  proof (cases args)
    case Nil
    then show ?thesis
      using F broker_fault.report_short [OF named, of "''''"] by (auto simp: unwrap_def intro!: vcg)
  next
    case (Cons c0 rest)
    obtain c body1 where u: "unwrap args = (Some c, body1)" and c: "c_str c = c"
      unfolding Cons unwrap_def by auto
    have name: "srv_name (service_of (w_service_ref r) row) = Some (strncpy SERVICE_NAME_MAXLEN (x_name row))"
      by (simp add: service_of_def)
    have fs: "wrap c (Some EMPTY_FRAME) (push_front_c MDPC_CLIENT (push_front_c MDPC_REPORT
        (push_front_c (strncpy SERVICE_NAME_MAXLEN (x_name row)) body1)))
      = c # '''' # MDPC_CLIENT # MDPC_REPORT # strncpy SERVICE_NAME_MAXLEN (x_name row) # body1"
      by (simp add: wrap_empty EMPTY_FRAME_def push_front_c_def c_str_lits c)
    have w': "worker_ok w'" using reported_worker [OF rep] by (simp add: worker_ok_def worker_of_def length_strncpy)
    show ?thesis
      by (simp only: u prod.case name checks fs, rule wp_sq, rule wp_send_msg [OF that(2)], rule wp_bnd,
          rule wp_waiting_st [OF rel C _ _ w'], assumption)
        (use reported_tables_ok [OF rep ok] in \<open>auto intro!: wp_ret Q broker_step.report [OF named row rep u]\<close>)
  qed
  show ?thesis
    unfolding worker_process_REPORT_def option.case GetServiceForWorker_def worker_of_simps
  proof (rule wp_bnd, rule wp_bd_service_id [OF rel h], goal_cases)
    case (1 row b')
    have id: "srv_id (service_of (w_service_ref r) row) = w_service_ref r" by (simp add: service_of_def)
    show ?case
      by (simp only: checks id simp_thms, rule wp_bnd, rule wp_bd_release_letter [OF rel 1(2) ok r])
        (use after 1 F broker_fault.report_foreign [OF named] in auto)
  next
    case (2 b')
    then show ?case
      using F broker_fault.report_orphan [OF named] by (auto simp: deref_def intro!: vcg)
  qed
qed

lemma commands_distinct:
  "MDPW_READY \<noteq> MDPW_REPORT" "MDPW_READY \<noteq> MDPW_HEARTBEAT" "MDPW_READY \<noteq> MDPW_DISCONNECT"
  "MDPW_REPORT \<noteq> MDPW_HEARTBEAT" "MDPW_REPORT \<noteq> MDPW_DISCONNECT" "MDPW_HEARTBEAT \<noteq> MDPW_DISCONNECT"
  "MDPC_CLIENT \<noteq> MDPW_WORKER"
  by (simp_all add: protocol_defs)

lemma no_farewell:
  assumes "holds st' b'" and "broker_step C msg (T, ms) st'" and "tables_ok (fst st')"
  shows "goes C msg T ms (case (a, Some w') of (status, wrk') \<Rightarrow> if \<not> status \<and> wrk' = None then farewell else ret ()) b'"
  by (simp only: prod.case option.distinct simp_thms if_False, rule wp_ret, rule goesI [OF assms])

text \<open>A worker the broker does not know.\<close>

lemma wp_unknown_worker:
  assumes rel: reliable and C: "clock_in E C" and h: "holds (T, ms) b" and ok: "tables_ok T"
    and new: "no_worker_named (c_str sender) T" and fits: "message_fits (sender # '''' # MDPW_WORKER # cmd # args)"
  shows "goes C (sender # '''' # MDPW_WORKER # cmd # args) T ms
     (bnd (worker_command E cmd None sender args) (\<lambda>(status, wrk').
       if \<not> status \<and> wrk' = None then worker_send_ident (c_str sender) MDPW_DISCONNECT EMPTY_FRAME None else ret ())) b"
proof -
  note distinct = commands_distinct commands_distinct [symmetric]
  have gone: "goes C (sender # '''' # MDPW_WORKER # cmd # args) T ms
      (worker_send_ident (c_str sender) MDPW_DISCONNECT EMPTY_FRAME None) b"
    if "cmd \<notin> {MDPW_READY, MDPW_HEARTBEAT, MDPW_DISCONNECT}"
    by (rule wp_worker_send_ident [OF h], rule goesI, assumption)
      (use broker_step.unknown_worker [OF new that, of C args ms] ok in simp_all)
  consider "cmd = MDPW_READY" | "cmd = MDPW_HEARTBEAT" | "cmd = MDPW_DISCONNECT"
    | "cmd \<notin> {MDPW_READY, MDPW_HEARTBEAT, MDPW_DISCONNECT}" by blast
  then show ?thesis
  proof cases
    case 1
    show ?thesis
      by (simp only: worker_command_def 1 refl if_True, rule wp_bnd, rule wp_ready_new [OF rel C h ok new fits [unfolded 1]])
        (assumption | rule no_farewell)+
  next
    case 2
    show ?thesis
      using goesI [OF h broker_step.heartbeat_unknown [OF new] , of C args] ok
      by (auto simp: worker_command_def worker_process_HEARTBEAT_def 2 distinct intro!: wp_ret)
  next
    case 3
    show ?thesis
      using broker_fault.disconnect_unknown [OF new, of "''''" args]
      by (auto simp: worker_command_def worker_process_DISCONNECT_def release_def 3 distinct intro!: wp_raise)
  next
    case 4
    then have "worker_command E cmd None sender args = ret (False, None)"
      by (auto simp: worker_command_def worker_process_REPORT_def)
    then show ?thesis using gone [OF 4] by simp
  qed
qed

text \<open>A worker of the database.\<close>

lemma wp_known_worker:
  assumes rel: reliable and C: "clock_in E C" and h: "holds (T, ms) b" and ok: "tables_ok T"
    and named: "worker_named (c_str sender) T i r"
  shows "goes C (sender # '''' # MDPW_WORKER # cmd # args) T ms
     (bnd (worker_command E cmd (Some (worker_of i r)) sender args) (\<lambda>(status, wrk').
       if \<not> status \<and> wrk' = None then worker_send_ident (c_str sender) MDPW_DISCONNECT EMPTY_FRAME None else ret ())) b"
proof -
  note distinct = commands_distinct commands_distinct [symmetric]
  from named have r: "workers T i = Some r" and ident: "w_identity r = c_str sender" by (simp_all add: worker_named_def)
  note self = worker_of_named [OF ok r]
  have wi: "wrk_identity (worker_of i r) = c_str sender"
    using self ident r by (simp add: worker_named_def)
  have ok': "tables_ok (set_worker i (r\<lparr>w_state := DISARMED\<rparr>) T)"
  proof (rule tables_ok_set_worker [OF ok])
    show "keys_ok (set_worker i (r\<lparr>w_state := DISARMED\<rparr>) T)"
      by (rule keys_ok_set_worker [OF tables_ok_keys [OF ok] r]) simp
    show "ident_fits (w_identity (r\<lparr>w_state := DISARMED\<rparr>))" using ok r by (auto simp: tables_ok_def)
  qed
  consider "cmd = MDPW_READY" | "cmd = MDPW_REPORT" | "cmd = MDPW_HEARTBEAT" | "cmd = MDPW_DISCONNECT"
    | "cmd \<notin> {MDPW_READY, MDPW_REPORT, MDPW_HEARTBEAT, MDPW_DISCONNECT}" by blast
  then show ?thesis
  proof cases
    case 1
    show ?thesis
      by (simp only: worker_command_def worker_process_READY_def 1 refl if_True option.case, rule wp_bnd,
          rule wp_release [OF rel h tables_ok_keys [OF ok] self], rule no_farewell, assumption)
        (use ok' broker_step.ready_again [OF named] in \<open>simp_all add: wi\<close>)
  next
    case 2
    show ?thesis
      by (simp only: worker_command_def 2 commands_distinct [symmetric] refl if_False if_True, rule wp_bnd,
          rule wp_report [OF rel C h ok named]) (assumption | rule no_farewell)+
  next
    case 3
    show ?thesis
      by (simp only: worker_command_def worker_process_HEARTBEAT_def 3 commands_distinct [symmetric] refl if_False if_True option.case,
          rule wp_bnd, rule wp_bnd, rule wp_worker_waiting [OF rel C h ok worker_ok_of], rule wp_ret, rule no_farewell, assumption)
        (rule broker_step.heartbeat [OF named], assumption+)
  next
    case 4
    show ?thesis
      by (simp only: worker_command_def worker_process_DISCONNECT_def 4 commands_distinct [symmetric] refl if_False if_True,
          rule wp_bnd, rule wp_release [OF rel h tables_ok_keys [OF ok] self], rule no_farewell, assumption)
        (use ok' broker_step.disconnect [OF named] in \<open>simp_all add: wi\<close>)
  next
    case 5
    then have "worker_command E cmd (Some (worker_of i r)) sender args = ret (False, Some (worker_of i r))"
      by (auto simp: worker_command_def)
    then show ?thesis
      using goesI [OF h broker_step.invalid_command [OF named 5]] ok by (auto intro!: wp_ret)
  qed
qed

lemma wp_worker_msg:
  assumes rel: reliable and C: "clock_in E C" and h: "holds (T, ms) b" and ok: "tables_ok T"
    and fits: "message_fits (sender # '''' # MDPW_WORKER # msg)" and sender: "sender \<noteq> ''''"
  shows "goes C (sender # '''' # MDPW_WORKER # msg) T ms (worker_msg E sender msg) b"
proof (cases msg)
  case Nil
  then show ?thesis
    unfolding worker_msg_def by (intro wp_sq wp_assert_b) (auto simp: parts_def intro: broker_fault.short_worker)
next
  case (Cons cmd args)
  have p: "1 \<le> parts msg" "0 < length sender" using sender by (auto simp: Cons)
  show ?thesis
    unfolding worker_msg_def
    apply (simp only: p checks, simp only: Cons pop_front.simps of_result_simps bnd_ret prod.case, rule wp_bnd,
        rule wp_bd_ident [OF rel h], assumption)
    subgoal for i row b' by (rule wp_known_worker [OF rel C _ ok], assumption+)
    subgoal for b'
      using fits by (intro wp_unknown_worker [OF rel C _ ok]) (auto simp: no_worker_named_def Cons)
    done
qed

text \<open>Every message that is handled makes a step of the machine or ends the process for a listed reason.\<close>

lemma wp_process_message:
  assumes rel: reliable and C: "clock_in E C" and h: "holds (T, ms) b" and ok: "tables_ok T" and fits: "message_fits msg"
  shows "goes C msg T ms (process_message E msg) b"
proof (cases "length msg < 3")
  case True
  then show ?thesis
    unfolding process_message_def by (intro wp_sq wp_assert_b) (auto simp: parts_def intro: broker_fault.short)
next
  case False
  then obtain sender delim header args where msg: "msg = sender # delim # header # args"
    by (cases msg; cases "tl msg"; cases "tl (tl msg)") auto
  have p: "3 \<le> parts msg" by (simp add: msg)
  show ?thesis
  proof (cases "sender = '''' \<or> delim \<noteq> '''' \<or> header = ''''")
    case True
    have f: "broker_fault msg T AssertFailed" unfolding msg by (rule broker_fault.envelope [OF True])
    show ?thesis
      unfolding process_message_def
      by (simp only: p checks, simp only: msg pop_front.simps of_result_simps bnd_ret prod.case,
          rule wp_sq, rule wp_assert_b, rule wp_sq, rule wp_assert_b, rule wp_sq, rule wp_assert_b)
        (use True f in \<open>simp_all add: msg\<close>)
  next
    case False
    then have e: "sender \<noteq> ''''" "delim = ''''" "header \<noteq> ''''" by auto
    have ends: "goes C (sender # '''' # header # args) T ms (ret ()) b" if "header \<noteq> MDPC_CLIENT" "header \<noteq> MDPW_WORKER"
      using goesI [OF h broker_step.invalid_header [of header C sender args T ms]] that ok by (auto intro!: wp_ret)
    show ?thesis
      unfolding process_message_def
      apply (simp only: p checks, simp only: msg pop_front.simps of_result_simps bnd_ret prod.case e simp_thms checks)
      apply (intro wp_if)
      subgoal using wp_client_msg [OF rel C h ok, of args sender] fits by (auto simp: msg e message_fits_def)
      subgoal using wp_worker_msg [OF rel C h ok, of sender args] fits e by (auto simp: msg)
      subgoal by (rule ends)
      done
  qed
qed

end

end
