(* ===== verification/BrokerSafety.thy ===== *)
theory BrokerSafety
  imports BrokerRefinement
begin

text \<open>
  Runs of the broker, and what no step of the machine does: forget a service or a worker, take an
  assigned letter away from its worker, send more than two messages.
\<close>

section \<open>Runs\<close>

text \<open>One round of the loop: a message, if one has come, and perhaps a purge.\<close>

definition round_step ::
  "(timer_mark \<Rightarrow> bool) \<Rightarrow> frames option \<Rightarrow> tables \<times> outbox \<Rightarrow> tables \<times> outbox \<Rightarrow> bool" where
  "round_step C input st st' \<longleftrightarrow>
     (\<exists>st1. (case input of None \<Rightarrow> st1 = st
         | Some [] \<Rightarrow> st1 = st
         | Some (f # fs) \<Rightarrow> broker_step C (printable_first f # fs) st st1)
      \<and> purged C (fst st1) (fst st') \<and> snd st' = snd st1)"

inductive broker_run ::
  "(timer_mark \<Rightarrow> bool) \<Rightarrow> frames option list \<Rightarrow> tables \<times> outbox \<Rightarrow> tables \<times> outbox \<Rightarrow> bool" for C where
  stop: "broker_run C [] st st"
| more: "round_step C i st st1 \<Longrightarrow> broker_run C inputs st1 st' \<Longrightarrow> broker_run C (i # inputs) st st'"

text \<open>A run that ends the process: after some rounds a message is one that the broker cannot stand.\<close>

inductive run_fault ::
  "(timer_mark \<Rightarrow> bool) \<Rightarrow> frames option list \<Rightarrow> tables \<times> outbox \<Rightarrow> fault \<Rightarrow> bool" for C where
  now: "broker_fault (printable_first f # fs) (fst st) e \<Longrightarrow> run_fault C (Some (f # fs) # inputs) st e"
| later: "round_step C i st st1 \<Longrightarrow> run_fault C inputs st1 e \<Longrightarrow> run_fault C (i # inputs) st e"



text \<open>Such a run is one of the protocol up to the message at which it ends.\<close>

lemma run_fault_prefix:
  "run_fault C inputs st e \<Longrightarrow> \<exists>k st1 f fs. k < length inputs \<and> broker_run C (take k inputs) st st1
     \<and> inputs ! k = Some (f # fs) \<and> broker_fault (printable_first f # fs) (fst st1) e"
proof (induction rule: run_fault.induct)
  case (now f fs st e inputs)
  then show ?case by (intro exI [of _ 0] exI [of _ st]) (auto intro: broker_run.stop)
next
  case (later i st st1 inputs e)
  then obtain k st2 f fs where "k < length inputs" "broker_run C (take k inputs) st1 st2"
    "inputs ! k = Some (f # fs)" "broker_fault (printable_first f # fs) (fst st2) e" by blast
  with later(1) show ?case by (intro exI [of _ "Suc k"] exI [of _ st2]) (auto intro: broker_run.more)
qed

lemma run_fault_round:
  assumes "run_fault C (map fst rounds) st e"
  shows "\<exists>k st1 f fs. k < length rounds \<and> broker_run C (map fst (take k rounds)) st st1
     \<and> fst (rounds ! k) = Some (f # fs) \<and> broker_fault (printable_first f # fs) (fst st1) e"
  using run_fault_prefix [OF assms] by (auto simp: take_map) (metis nth_map)

definition wire_fits :: "frames option \<Rightarrow> bool" where
  "wire_fits input \<longleftrightarrow> (case input of Some (f # fs) \<Rightarrow> message_fits (printable_first f # fs) | _ \<Rightarrow> True)"

text \<open>The address the broker binds.\<close>

definition bind_address :: string where
  "bind_address = replace_first ''localhost'' ''lo'' (c_str (getEndpoint Endpoints))"

context engine_laws
begin

lemma wp_brokering_round:
  assumes rel: reliable and C: "clock_in E C" and h: "holds st b" and ok: "tables_ok (fst st)" and fits: "wire_fits input"
  shows "wp (brokering_round E input now)
    (\<lambda>_ b'. \<exists>st'. holds st' b' \<and> round_step C input st st' \<and> tables_ok (fst st'))
    (\<lambda>e _. \<exists>f fs. input = Some (f # fs) \<and> broker_fault (printable_first f # fs) (fst st) e) b"
proof -
  have tail: "wp (bnd (rd m_heartbeat_at) (\<lambda>t. if now > t then purge_workers E else ret ()))
      (\<lambda>_ b'. \<exists>st'. holds st' b' \<and> round_step C input st st' \<and> tables_ok (fst st')) R b1"
    if h1: "holds st1 b1" and ok1: "tables_ok (fst st1)"
      and step: "case input of None \<Rightarrow> st1 = st | Some [] \<Rightarrow> st1 = st
         | Some (f # fs) \<Rightarrow> broker_step C (printable_first f # fs) st st1" for st1 b1 R
  proof -
    obtain T1 ms1 where st1: "st1 = (T1, ms1)" by (cases st1)
    have fin: "\<exists>st'. holds st' b' \<and> round_step C input st st' \<and> tables_ok (fst st')"
      if "holds (T', ms1) b'" "purged C T1 T'" for T' b'
      using that step purged_tables_ok [OF that(2)] ok1 unfolding round_step_def st1
      by (intro exI [of _ "(T', ms1)"] conjI exI [of _ "(T1, ms1)"]) auto
    show ?thesis
      using h1 ok1 unfolding st1 fst_conv
      by (intro wp_bnd wp_rd wp_if wp_purge_workers [OF rel C] wp_ret)
        (assumption | rule fin, assumption, rule purged_refl | erule (1) fin)+
  qed
  show ?thesis
  proof (cases input)
    case None
    show ?thesis
      unfolding brokering_round_def None option.case
      by (rule wp_sq, rule wp_ret, rule tail [unfolded None option.case, OF h ok refl])
  next
    case (Some fs)
    show ?thesis
    proof (cases fs)
      case Nil
      have r: "recv (arrives []) = None" by (simp add: recv_def)
      show ?thesis
        unfolding brokering_round_def Some Nil option.case r
        by (rule wp_sq, rule wp_ret, rule tail [unfolded Some Nil option.case list.case, OF h ok refl])
    next
      case (Cons f rest)
      have r: "recv (arrives (f # rest)) = Some (Inr (True, printable_first f # rest, []))"
        using recv_arrives [of f rest "[]"] by simp
      obtain T ms where st: "st = (T, ms)" by (cases st)
      have body: "goes C (printable_first f # rest) T ms (process_message E (printable_first f # rest)) b"
        by (rule wp_process_message [OF rel C]) (use h ok fits in \<open>auto simp: st wire_fits_def Some Cons\<close>)
      show ?thesis
        unfolding brokering_round_def Some Cons option.case r of_result_simps bnd_ret prod.case
        by (rule wp_sq, rule wp_mono [OF body], elim exE conjE,
            rule tail [unfolded Some Cons option.case list.case], assumption+) (auto simp: st)
    qed
  qed
qed

lemma wp_brokering_rounds:
  assumes rel: reliable and C: "clock_in E C" and "holds st b" and "tables_ok (fst st)"
    and "\<forall>r\<in>set rounds. wire_fits (fst r)"
  shows "wp (brokering_rounds E rounds)
    (\<lambda>_ b'. \<exists>st'. holds st' b' \<and> broker_run C (map fst rounds) st st' \<and> tables_ok (fst st'))
    (\<lambda>e _. run_fault C (map fst rounds) st e) b"
  using assms(3-5)
proof (induction rounds arbitrary: st b)
  case Nil
  then show ?case
    by (simp only: brokering_rounds.simps list.map, intro wp_ret exI [of _ st] conjI broker_run.stop)
next
  case (Cons r rounds)
  obtain input now where r: "r = (input, now)" by (cases r)
  show ?case
    unfolding r brokering_rounds.simps
  proof (rule wp_sq, rule wp_mono [OF wp_brokering_round [OF rel C Cons.prems(1,2)]], goal_cases)
    case 1
    then show ?case using Cons.prems(3) by (simp add: r)
  next
    case (2 x b1)
    then obtain st1 where st1: "holds st1 b1" "round_step C input st st1" "tables_ok (fst st1)" by blast
    show ?case
      by (rule wp_mono [OF Cons.IH [OF st1(1,3)]])
        (use Cons.prems(3) st1(2) in \<open>auto intro: broker_run.more run_fault.later\<close>)
  next
    case (3 e b1)
    then show ?case by (auto intro: run_fault.now)
  qed
qed

lemma wp_start_brokering:
  assumes rel: reliable and C: "clock_in E C"
    and connect: "wp connect (\<lambda>up b'. up = connected \<and> holds st b') (\<lambda>_ _. False) b" and "tables_ok (fst st)"
    and "\<forall>r\<in>set rounds. wire_fits (fst r)"
  shows "wp (start_brokering E connect bind_ok rounds)
    (\<lambda>_ b'. \<exists>st'. holds st' b' \<and> tables_ok (fst st')
       \<and> (if connected \<and> bind_ok (c_str bind_address) then broker_run C (map fst rounds) st st' else st' = st))
    (\<lambda>e _. connected \<and> bind_ok (c_str bind_address) \<and> run_fault C (map fst rounds) st e) b"
  unfolding start_brokering_def Init_def
proof (rule wp_bnd, rule wp_bnd, rule wp_mono [OF connect], goal_cases)
  case (1 up b1)
  have rounds: "wp (brokering_rounds E rounds)
    (\<lambda>_ b'. \<exists>st'. holds st' b' \<and> broker_run C (map fst rounds) st st' \<and> tables_ok (fst st'))
    (\<lambda>e _. run_fault C (map fst rounds) st e) b'" if "holds st b'" for b'
    by (rule wp_brokering_rounds [OF rel C that assms(4,5)])
  have connected: "up = connected" using 1 by simp
  have bound: "holds st (b1\<lparr>m_endpoint := bind_address\<rparr>)" using 1 by (simp add: stands_for_def)
  show ?case
  proof (cases up)
    case False
    with 1 assms(4) show ?thesis by (auto intro!: wp_ret exI [of _ "fst st"] exI [of _ "snd st"])
  next
    case True
    have address: "m_endpoint (b1\<lparr>m_endpoint := bind_address\<rparr>) = bind_address" by simp
    show ?thesis
      unfolding Bind_def Let_def bind_address_def [symmetric] if_P [OF True]
    proof (intro wp_sq wp_bnd wp_upd wp_rd wp_ret, goal_cases)
      case 1
      show ?case
      proof (cases "bind_ok (c_str bind_address)")
        case True
        with \<open>up\<close> connected show ?thesis
          by (simp only: address if_True simp_thms) (rule wp_mono [OF rounds [OF bound]], auto)
      next
        case False
        with bound assms(4) show ?thesis
          by (simp only: address if_False simp_thms) (rule wp_ret, blast)
      qed
    qed
  qed
qed simp

end

section \<open>Relations between the tables before and after\<close>

text \<open>Nothing that is registered is forgotten, and no identity or name changes.\<close>

definition registered_kept :: "tables \<Rightarrow> tables \<Rightarrow> bool" where
  "registered_kept T T' \<longleftrightarrow>
     (\<forall>h r. services T h = Some r \<longrightarrow> (\<exists>r'. services T' h = Some r' \<and> x_name r' = x_name r))
   \<and> (\<forall>i r. workers T i = Some r \<longrightarrow> (\<exists>r'. workers T' i = Some r' \<and> w_identity r' = w_identity r))"

text \<open>A letter keeps its addressee, its sender and its text, and changes only while it waits.\<close>

definition same_letter :: "xdb_letter \<Rightarrow> xdb_letter \<Rightarrow> bool" where
  "same_letter l l' \<longleftrightarrow> (l_state l \<noteq> UNASSIGNED \<longrightarrow> l' = l) \<and> l_service_ref l' = l_service_ref l
     \<and> l_origin l' = l_origin l \<and> l_header l' = l_header l \<and> l_body l' = l_body l"

text \<open>So does every letter but those that refer to a worker of \<open>D\<close> and are for its service.\<close>

definition letters_kept :: "(int \<times> int) set \<Rightarrow> tables \<Rightarrow> tables \<Rightarrow> bool" where
  "letters_kept D T T' \<longleftrightarrow>
     (\<forall>j l. letters T j = Some l \<longrightarrow> (l_worker_ref l, l_service_ref l) \<notin> D \<longrightarrow> (\<exists>l'. letters T' j = Some l' \<and> same_letter l l'))"

lemma registered_kept_refl [simp]: "registered_kept T T"
  by (simp add: registered_kept_def)

lemma registered_kept_trans: "registered_kept T T1 \<Longrightarrow> registered_kept T1 T2 \<Longrightarrow> registered_kept T T2"
  unfolding registered_kept_def by metis

lemma same_letter_refl [simp]: "same_letter l l"
  by (simp add: same_letter_def)

lemma same_letter_trans: "same_letter l l1 \<Longrightarrow> same_letter l1 l2 \<Longrightarrow> same_letter l l2"
  by (auto simp: same_letter_def)

lemma letters_kept_same: "letters T' = letters T \<Longrightarrow> letters_kept D T T'"
  by (simp add: letters_kept_def)

lemma letters_kept_refl [simp]: "letters_kept D T T"
  by (simp add: letters_kept_same)

lemma letters_kept_trans:
  assumes "letters_kept D T T1" and "letters_kept {} T1 T2"
  shows "letters_kept D T T2"
  using assms unfolding letters_kept_def by (blast intro: same_letter_trans)

lemma letters_kept_mono: "letters_kept D T T' \<Longrightarrow> D \<subseteq> D' \<Longrightarrow> letters_kept D' T T'"
  by (auto simp: letters_kept_def)

text \<open>Both, and how two of them compose.\<close>

definition keeps :: "(int \<times> int) set \<Rightarrow> tables \<Rightarrow> tables \<Rightarrow> bool" where
  "keeps D T T' \<longleftrightarrow> registered_kept T T' \<and> letters_kept D T T'"

lemma keeps_refl [simp]: "keeps D T T"
  by (simp add: keeps_def)

lemma keeps_trans: "keeps D T T1 \<Longrightarrow> keeps {} T1 T2 \<Longrightarrow> keeps D T T2"
  unfolding keeps_def by (blast intro: registered_kept_trans letters_kept_trans)

lemma keeps_weaken: "keeps {} T T' \<Longrightarrow> keeps D T T'"
  unfolding keeps_def by (blast intro: letters_kept_mono)

section \<open>What each part keeps\<close>

lemma purged_kept: "purged C T T' \<Longrightarrow> keeps {} T T'"
  unfolding keeps_def registered_kept_def
proof (intro conjI allI impI)
  fix i r
  assume p: "purged C T T'" and r: "workers T i = Some r"
  then obtain r' where r': "workers T' i = Some r'"
    unfolding purged_def by (metis domD domI)
  with p r have "may_expire C r r'" by (simp add: purged_def)
  with r' show "\<exists>r'. workers T' i = Some r' \<and> w_identity r' = w_identity r"
    by (blast dest: may_expire_same)
qed (simp_all add: purged_def letters_kept_same)

lemma assign_kept: "assign_outcome rel w l T x T' \<Longrightarrow> waiting T sid (let_id l) lr \<Longrightarrow> keeps {} T T'"
  by (auto simp: keeps_def registered_kept_def assign_outcome_def assigned_def letters_kept_def same_letter_def waiting_def)

lemma assigns_kept: "assigns sid st st' \<Longrightarrow> keeps {} (fst st) (fst st')"
  unfolding assigns_def by (elim disjE conjE exE, simp_all only: keeps_refl) (metis assign_kept let_id_letter_of)

lemma dispatched_kept: "dispatched C sid st st' \<Longrightarrow> keeps {} (fst st) (fst st')"
  unfolding dispatched_def by (elim exE conjE) (drule assigns_kept, simp, rule keeps_trans [OF purged_kept])

lemma armed_kept: "armed w T m w' T' \<Longrightarrow> keeps {} T T'"
  unfolding armed_def
  by (auto simp: keeps_def registered_kept_def set_worker_def armed_row_def worker_named_def letters_kept_same)

lemma waits_kept: "waits C w st st' \<Longrightarrow> keeps {} (fst st) (fst st')"
  unfolding waits_def by (elim disjE exE conjE) (simp, drule dispatched_kept, simp, rule keeps_trans [OF armed_kept])

lemma announced_kept: "announced name ep T h T' \<Longrightarrow> keeps {} T T'"
  unfolding announced_def by (auto simp: keeps_def registered_kept_def found_service_def letters_kept_same)

lemma pushed_kept: "pushed sid l T l' T' \<Longrightarrow> keeps {} T T'"
  unfolding pushed_def by (auto simp: keeps_def registered_kept_def set_letter_def letters_kept_def)

lemma reported_kept: "reported w T w' T' \<Longrightarrow> keeps {(wrk_id w, wrk_service_id w)} T T'"
  unfolding reported_def released_def
  by (auto simp: owns_letters_def keeps_def registered_kept_def letters_kept_def worker_named_def)

lemma set_worker_kept:
  "workers T i = Some r \<Longrightarrow> w_identity r' = w_identity r \<Longrightarrow> keeps {} T (set_worker i r' T)"
  by (auto simp: keeps_def registered_kept_def set_worker_def letters_kept_same)

section \<open>What a step keeps\<close>

text \<open>The worker, with its service, whose letter a message may take away: its sender, when it reports.\<close>

definition reporter :: "frames \<Rightarrow> tables \<Rightarrow> (int \<times> int) set" where
  "reporter msg T = {(i, w_service_ref r) | i r. \<exists>sender args. msg = sender # '''' # MDPW_WORKER # MDPW_REPORT # args
     \<and> worker_named (c_str sender) T i r}"

lemma step_keeps:
  assumes "broker_step C msg (T, ms) (T', ms')"
  shows "keeps (reporter msg T) T T'"
  using assms
proof (cases rule: broker_step.cases)
  case (request name args h row sender l l' T0)
  then have "keeps {} T T0" using pushed_kept by (elim disjE conjE) auto
  from keeps_trans [OF this dispatched_kept [OF request(7), unfolded fst_conv]] show ?thesis by (rule keeps_weaken)
next
  case (ready sender name ep h T0 w st1 args)
  from keeps_trans [OF keeps_trans [OF announced_kept [OF ready(5)] waits_kept [OF ready(7), unfolded fst_conv]]
      dispatched_kept [OF ready(8), unfolded fst_conv]]
  show ?thesis by (rule keeps_weaken)
next
  case (ready_again sender i r args)
  then show ?thesis by (simp add: keeps_weaken set_worker_kept worker_named_def)
next
  case (report sender i r row w' T0 args client body1)
  have "reporter msg T = {(i, w_service_ref r) | i r. worker_named (c_str sender) T i r}"
    by (auto simp: reporter_def report(1))
  with report(2) have "(i, w_service_ref r) \<in> reporter msg T" by blast
  then have "keeps (reporter msg T) T T0"
    using reported_kept [OF report(4)] letters_kept_mono [of "{(i, w_service_ref r)}"] by (simp add: keeps_def worker_of_def)
  from keeps_trans [OF this waits_kept [OF report(6), unfolded fst_conv]] show ?thesis .
next
  case (heartbeat sender i r args)
  from waits_kept [OF heartbeat(3), unfolded fst_conv] show ?thesis by (rule keeps_weaken)
next
  case (disconnect sender i r args)
  then show ?thesis by (simp add: keeps_weaken set_worker_kept worker_named_def)
qed simp_all

section \<open>What a step sends\<close>

text \<open>No message is taken back, and at most \<open>n\<close> are added.\<close>

definition sends :: "nat \<Rightarrow> outbox \<Rightarrow> outbox \<Rightarrow> bool" where
  "sends n ms ms' \<longleftrightarrow> (\<exists>out. ms' = ms @ out \<and> length out \<le> n)"

lemma sends_refl [simp]: "sends n ms ms"
  by (simp add: sends_def)

lemma sends_one [simp]: "0 < n \<Longrightarrow> sends n ms (ms @ [m])"
  by (simp add: sends_def)

lemma sends_trans: "sends m a b \<Longrightarrow> sends n b c \<Longrightarrow> sends (m + n) a c"
  unfolding sends_def by (elim exE conjE) (rule exI, auto)

lemma sends_mono: "sends m a b \<Longrightarrow> m \<le> n \<Longrightarrow> sends n a b"
  unfolding sends_def by auto

lemma assigns_sent: "assigns sid st st' \<Longrightarrow> sends 1 (snd st) (snd st')"
  unfolding assigns_def by auto

lemma dispatched_sent: "dispatched C sid st st' \<Longrightarrow> sends 1 (snd st) (snd st')"
  unfolding dispatched_def by (auto dest: assigns_sent)

lemma waits_sent: "waits C w st st' \<Longrightarrow> sends 1 (snd st) (snd st')"
  unfolding waits_def by (auto dest: dispatched_sent)

lemma step_sends:
  assumes "broker_step C msg (T, ms) (T', ms')"
  shows "sends 2 ms ms'"
  using assms
proof (cases rule: broker_step.cases)
  case (request name args h row sender l l' T0)
  from dispatched_sent [OF request(7)] show ?thesis by (simp add: sends_mono)
next
  case (ready sender name ep h T0 w st1 args)
  from sends_trans [OF waits_sent [OF ready(7)] dispatched_sent [OF ready(8)]] show ?thesis by (simp add: numeral_2_eq_2)
next
  case (report sender i r row w' T0 args client body1)
  from sends_trans [of 1, OF sends_one waits_sent [OF report(6), unfolded snd_conv]] show ?thesis by (simp add: numeral_2_eq_2)
next
  case (heartbeat sender i r args)
  from waits_sent [OF heartbeat(3)] show ?thesis by (simp add: sends_mono)
qed simp_all

end
