(* ===== verification/BrokerDelivery.thy ===== *)
theory BrokerDelivery
  imports BrokerSafety
begin

text \<open>
  When a request reaches a worker: a step for a request of a stored service hands it to a free
  worker of the service, unless another letter stands in the way, and what a READY, a REPORT and
  a HEARTBEAT do.
\<close>

section \<open>Requests\<close>

text \<open>A worker whose time is not over by any clock of \<open>C\<close>.\<close>

definition alive :: "(timer_mark \<Rightarrow> bool) \<Rightarrow> xdb_worker \<Rightarrow> bool" where
  "alive C r \<longleftrightarrow> (\<forall>now. C now \<longrightarrow> tv_sec now \<le> uint (w_sec r))"

text \<open>No stored letter refers to a free worker of the service, nor to an id that is not in use yet.\<close>

definition refs_clear :: "int \<Rightarrow> tables \<Rightarrow> bool" where
  "refs_clear h T \<longleftrightarrow> \<not> ref_ahead T
     \<and> (\<forall>k l i r. letters T k = Some l \<longrightarrow> in_state T h ARMED i r \<longrightarrow> l_worker_ref l \<noteq> i)"

lemma purged_armed: "purged C T T' \<Longrightarrow> in_state T' h ARMED i r \<Longrightarrow> in_state T h ARMED i r"
  by (auto simp: in_state_def elim!: purged_some simp: may_expire_def)

lemma purged_alive:
  assumes "purged C T T'" and "in_state T h ARMED i r" and "alive C r"
  shows "in_state T' h ARMED i r"
proof -
  from assms(2) have r: "workers T i = Some r" by (simp add: in_state_def)
  with assms(1) obtain r' where r': "workers T' i = Some r'"
    unfolding purged_def by (metis domD domI)
  with r assms(1) have "may_expire C r r'" by (simp add: purged_def)
  with assms(3) have "r' = r" by (force simp: may_expire_def alive_def)
  with r' assms(2) show ?thesis by (simp add: in_state_def)
qed

lemma letter_of_simps [simp]:
  "let_reply_to (letter_of j l) = strncpy IDENTITY_MAXLEN (strncpy IDENTITY_MAXLEN (l_origin l))"
  "let_header (letter_of j l) = l_header l" "let_data (letter_of j l) = l_body l"
  by (simp_all add: letter_of_def letter_object_def Letter_SetVALID_def Letter_SetSTATE_def Letter_SetEXPIRATION_def
      Letter_SetWORKER_ID_def Letter_SetSERVICE_ID_def Letter_SetID_def Letter_make_def)

definition handed_over :: "int \<Rightarrow> int \<Rightarrow> Letter \<Rightarrow> tables \<Rightarrow> bool" where
  "handed_over i j l T' \<longleftrightarrow>
     (\<exists>r' l'. workers T' i = Some r' \<and> w_state r' = OCCUPIED \<and> w_letter_ref r' = j
        \<and> letters T' j = Some l' \<and> l_state l' = ASSIGNED \<and> l_worker_ref l' = i
        \<and> l_header l' = let_header l \<and> l_body l' = let_data l \<and> l_origin l' = let_reply_to l)"

lemma dispatched_new:
  assumes push: "pushed h l T l' T0" and disp: "dispatched C h (T0, ms) (T', ms')"
    and free: "in_state T h ARMED i r" "alive C r" and idle: "\<forall>j l. \<not> waiting T h j l" and clear: "refs_clear h T"
    and l: "letter_ok l"
  shows "\<exists>i r j. in_state T h ARMED i r \<and> letters T j = None \<and> handed_over i j l T'
    \<and> ms' = ms @ [wire [strncpy IDENTITY_MAXLEN (w_identity r), '''', MDPW_WORKER, MDPW_REQUEST, let_reply_to l, let_header l, let_data l]]"
proof -
  obtain j ls ln where j: "letters T j = None" and T0: "T0 = set_letter j (queued_row h j l ls ln) T"
    using push unfolding pushed_def by blast
  obtain T1 where p: "purged C T0 T1" and a: "assigns h (T1, ms) (T', ms')"
    using disp unfolding dispatched_def by auto
  have armed0: "in_state T0 h st i r \<longleftrightarrow> in_state T h st i r" for st i r
    by (simp add: in_state_def T0 set_letter_def)
  have letters1: "letters T1 = (letters T)(j \<mapsto> queued_row h j l ls ln)"
    using p by (simp add: purged_def T0 set_letter_def)
  have only: "k = j \<and> x = queued_row h j l ls ln" if "waiting T1 h k x" for k x
    using that idle by (auto simp: waiting_def letters1 split: if_splits)
  have some: "in_state T1 h ARMED i r" "waiting T1 h j (queued_row h j l ls ln)"
    using purged_alive [OF p _ free(2)] free(1) by (simp_all add: armed0 waiting_def letters1 queued_row_def)
  have untaken: "\<not> taken T1 (worker_of i r) (letter_of j x)" if "in_state T1 h ARMED i r" for i r x
    using purged_armed [OF p that] clear by (auto simp: armed0 taken_def letters1 refs_clear_def split: if_splits)
  from a consider "\<forall>i r. \<not> in_state T1 h ARMED i r" | "\<forall>j l. \<not> waiting T1 h j l"
    | i r j' x where "in_state T1 h ARMED i r" "waiting T1 h j' x" "taken T1 (worker_of i r) (letter_of j' x)"
    | i r j' x y where "in_state T1 h ARMED i r" "waiting T1 h j' x"
        "assign_outcome True (worker_of i r) (letter_of j' x) T1 y T'"
        "ms' = ms @ [wire (request_to (worker_of i r) (letter_of j' x))]"
    unfolding assigns_def fst_conv snd_conv by blast
  then obtain i r j' x y where i: "in_state T1 h ARMED i r" "waiting T1 h j' x"
    and o: "assign_outcome True (worker_of i r) (letter_of j' x) T1 y T'"
    and ms: "ms' = ms @ [wire (request_to (worker_of i r) (letter_of j' x))]"
  proof cases
    case (3 i r j' x)
    with only [OF 3(2)] untaken [OF 3(1)] show thesis by blast
  next
    case (4 i r j' x y)
    then show thesis by (rule that)
  qed (use some in blast)+
  from only [OF i(2)] have j': "j' = j" "x = queued_row h j l ls ln" by simp_all
  have "handed_over i j l T'"
    using o unfolding j' by (auto simp: handed_over_def assign_outcome_def assigned_def letters1 queued_row_def)
  moreover have "request_to (worker_of i r) (letter_of j' x)
      = [strncpy IDENTITY_MAXLEN (w_identity r), '''', MDPW_WORKER, MDPW_REQUEST, let_reply_to l, let_header l, let_data l]"
    using l by (simp add: request_to_def j' queued_row_def worker_of_def letter_ok_def strncpy_id)
  moreover have "in_state T h ARMED i r"
    using purged_armed [OF p i(1)] by (simp add: armed0)
  ultimately show ?thesis using ms j by metis
qed

lemma request_delivered:
  assumes step: "broker_step C (sender # '''' # MDPC_CLIENT # name # args) (T, ms) (T', ms')"
    and service: "\<not> is_mmi name" "found_service name T h row" "\<forall>h' row'. found_service name T h' row' \<longrightarrow> h' = h"
    and letter: "Letter_of_zmsg (c_str sender # '''' # args) = Inr l"
    and free: "in_state T h ARMED i r" "alive C r" "\<forall>j l. \<not> waiting T h j l" "refs_clear h T"
  shows "\<exists>i r j. in_state T h ARMED i r \<and> letters T j = None \<and> handed_over i j l T'
    \<and> ms' = ms @ [wire [strncpy IDENTITY_MAXLEN (w_identity r), '''', MDPW_WORKER, MDPW_REQUEST, let_reply_to l, let_header l, let_data l]]"
  using step
proof (cases rule: broker_step.cases)
  case nak
  then show ?thesis using service by (auto simp: has_service_def found_service_def)
next
  case (request h' row' l0 l' T0)
  have "h' = h" using request(3) service(3) by blast
  moreover have "l0 = l" using request(4) letter by (simp add: EMPTY_FRAME_def wrap_empty)
  ultimately have "pushed h l T l' T0"
    using request(5) free(4) by (auto simp: refs_clear_def)
  moreover have "letter_ok l" by (rule letter_ok_of_zmsg [OF letter])
  ultimately show ?thesis
    using dispatched_new [of h l T l' T0 C ms T' ms' i r] request(6) free by (simp add: \<open>h' = h\<close>)
qed (use service in \<open>auto simp: protocol_defs\<close>)

section \<open>Requests that are held back\<close>

text \<open>
  Every free worker of the service is referred to by a letter that is not waiting for it.  Two
  ways lead there.  A queued letter refers to its own id until it is assigned, and that id may be
  the id of a worker.  And a worker that sends a HEARTBEAT while it works becomes free, while its
  letter still refers to it.
\<close>

definition blocked :: "int \<Rightarrow> tables \<Rightarrow> bool" where
  "blocked h T \<longleftrightarrow> (\<forall>i r. in_state T h ARMED i r \<longrightarrow>
     (\<exists>k l. letters T k = Some l \<and> l_worker_ref l = i \<and> \<not> waiting T h k l))"

lemma blocked_taken:
  assumes "blocked h T" and "in_state T h ARMED i r" and "waiting T h j x"
  shows "taken T (worker_of i r) (letter_of j x)"
proof -
  obtain k l where k: "letters T k = Some l" "l_worker_ref l = i" "\<not> waiting T h k l"
    using assms(1,2) unfolding blocked_def by blast
  moreover from this assms(3) have "k \<noteq> j" by (auto simp: waiting_def)
  ultimately show ?thesis unfolding taken_def by auto
qed

lemma blocked_assigns: "assigns h (T, ms) st' \<Longrightarrow> blocked h T \<Longrightarrow> st' = (T, ms)"
  unfolding assigns_def fst_conv snd_conv using blocked_taken by blast

lemma blocked_purged:
  assumes "purged C T T'" and "blocked h T"
  shows "blocked h T'"
proof -
  have "letters T' = letters T" using assms(1) by (simp add: purged_def)
  with assms(2) purged_armed [OF assms(1)] show ?thesis
    unfolding blocked_def waiting_def by metis
qed

lemma blocked_dispatched: "dispatched C h (T, ms) (T', ms') \<Longrightarrow> blocked h T \<Longrightarrow> ms' = ms \<and> purged C T T'"
  unfolding dispatched_def by (auto dest!: blocked_assigns [OF _ blocked_purged])

lemma pushed_blocked:
  assumes "pushed h l T l' T0" and "blocked h T"
  shows "blocked h T0"
proof -
  from assms(1) obtain j ls ln where j: "letters T j = None" and T0: "T0 = set_letter j (queued_row h j l ls ln) T"
    unfolding pushed_def by blast
  show ?thesis
    unfolding blocked_def
  proof (intro allI impI)
    fix i r
    assume "in_state T0 h ARMED i r"
    then have "in_state T h ARMED i r" by (simp add: T0 set_letter_def in_state_def)
    with assms(2) obtain k l where k: "letters T k = Some l" "l_worker_ref l = i" "\<not> waiting T h k l"
      unfolding blocked_def by blast
    with j have "letters T0 k = Some l" by (auto simp: T0 set_letter_def)
    with k show "\<exists>k l. letters T0 k = Some l \<and> l_worker_ref l = i \<and> \<not> waiting T0 h k l"
      by (auto simp: waiting_def)
  qed
qed

text \<open>One more letter waits for the service, and it is the request.\<close>

definition queued_request :: "int \<Rightarrow> Letter \<Rightarrow> tables \<Rightarrow> tables \<Rightarrow> bool" where
  "queued_request h l T T' \<longleftrightarrow>
     (\<exists>j x. letters T j = None \<and> letters T' = (letters T)(j \<mapsto> x) \<and> waiting T' h j x
        \<and> l_origin x = let_reply_to l \<and> l_header x = let_header l \<and> l_body x = let_data l)"

lemma pushed_queued: "pushed h l T l' T0 \<Longrightarrow> purged C T0 T' \<Longrightarrow> queued_request h l T T'"
  unfolding pushed_def purged_def queued_request_def
  by (elim exE conjE, rule exI, rule exI, intro conjI, assumption)
    (auto simp: set_letter_def queued_row_def waiting_def)

lemma request_held_back:
  assumes step: "broker_step C (sender # '''' # MDPC_CLIENT # name # args) (T, ms) (T', ms')"
    and service: "\<not> is_mmi name" "found_service name T h row" "\<forall>h' row'. found_service name T h' row' \<longrightarrow> h' = h"
    and letter: "Letter_of_zmsg (c_str sender # '''' # args) = Inr l"
    and blocked: "blocked h T" and clear: "\<not> ref_ahead T"
  shows "ms' = ms \<and> queued_request h l T T'"
  using step
proof (cases rule: broker_step.cases)
  case nak
  then show ?thesis using service by (auto simp: has_service_def found_service_def)
next
  case (request h' row' l0 l' T0)
  have "h' = h" using request(3) service(3) by blast
  moreover have "l0 = l" using request(4) letter by (simp add: EMPTY_FRAME_def wrap_empty)
  ultimately have p: "pushed h l T l' T0" and d: "dispatched C h (T0, ms) (T', ms')"
    using request(5,6) clear by simp_all
  from blocked_dispatched [OF d pushed_blocked [OF p blocked]] pushed_queued [OF p] show ?thesis by blast
qed (use service in \<open>auto simp: protocol_defs\<close>)

section \<open>Workers\<close>

text \<open>Services and the services of the workers stay as they are.\<close>

definition links_kept :: "tables \<Rightarrow> tables \<Rightarrow> bool" where
  "links_kept T T' \<longleftrightarrow> services T' = services T
     \<and> (\<forall>i r. workers T i = Some r \<longrightarrow> (\<exists>r'. workers T' i = Some r' \<and> w_identity r' = w_identity r
          \<and> w_service_ref r' = w_service_ref r))
     \<and> dom (letters T') = dom (letters T)"

lemma links_kept_trans: "links_kept T T1 \<Longrightarrow> links_kept T1 T2 \<Longrightarrow> links_kept T T2"
  unfolding links_kept_def by metis

lemma purged_links: "purged C T T' \<Longrightarrow> links_kept T T'"
  unfolding links_kept_def
proof (intro conjI allI impI)
  fix i r
  assume p: "purged C T T'" and r: "workers T i = Some r"
  then obtain r' where r': "workers T' i = Some r'"
    unfolding purged_def by (metis domD domI)
  with p r have "may_expire C r r'" by (simp add: purged_def)
  with r' show "\<exists>r'. workers T' i = Some r' \<and> w_identity r' = w_identity r \<and> w_service_ref r' = w_service_ref r"
    by (blast dest: may_expire_same)
qed (simp_all add: purged_def)

lemma assigns_links: "assigns sid st st' \<Longrightarrow> links_kept (fst st) (fst st')"
  unfolding assigns_def
  by (elim disjE exE conjE) (auto simp: links_kept_def assign_outcome_def assigned_def split: if_split_asm)

lemma dispatched_links: "dispatched C sid st st' \<Longrightarrow> links_kept (fst st) (fst st')"
  unfolding dispatched_def
  by (elim exE conjE) (drule assigns_links, simp, rule links_kept_trans [OF purged_links])

lemma armed_row_stored:
  assumes "armed w T m w' T'"
  shows "\<exists>i r. workers T' i = Some r \<and> w_identity r = wrk_identity w \<and> w_service_ref r = wrk_service_id w"
proof -
  have row: "w_service_ref (armed_row s m r) = s" "w_identity (armed_row s m r) = w_identity r" for s m r
    by (simp_all add: armed_row_def)
  from assms obtain h r where "T' = set_worker h (armed_row (wrk_service_id w) m r) T" "w_identity r = wrk_identity w"
    unfolding armed_def worker_named_def
    by (elim conjE disjE exE) (blast, metis xdb_worker.select_convs(1) xdb_worker.update_convs(1) xdb_worker.surjective)
  then show ?thesis by (intro exI [of _ h] exI [of _ "armed_row (wrk_service_id w) m r"]) (simp add: set_worker_def row)
qed

lemma armed_services: "armed w T m w' T' \<Longrightarrow> services T' = services T"
  by (auto simp: armed_def set_worker_def)

lemma armed_letters: "armed w T m w' T' \<Longrightarrow> letters T' = letters T"
  by (auto simp: armed_def set_worker_def)

lemma waits_letters: "waits C w st st' \<Longrightarrow> dom (letters (fst st')) = dom (letters (fst st))"
  unfolding waits_def
  by (elim disjE exE conjE) (simp, drule dispatched_links, drule armed_letters, simp add: links_kept_def)

text \<open>A READY of a new worker registers it with its service and the service's endpoint.\<close>

lemma ready_registers:
  assumes step: "broker_step C (sender # '''' # MDPW_WORKER # MDPW_READY # name # ep # args) (T, ms) (T', ms')"
    and new: "no_worker_named (c_str sender) T"
  shows "\<exists>h i row r. services T' h = Some row \<and> x_name row = c_str name \<and> x_endpoint row = c_str ep
    \<and> workers T' i = Some r \<and> w_identity r = strncpy IDENTITY_MAXLEN sender \<and> w_service_ref r = h"
  using step
proof (cases rule: broker_step.cases)
  case (ready h T0 w st1)
  from ready(4) obtain row where row: "services T0 h = Some row" "x_name row = c_str name" "x_endpoint row = c_str ep"
    unfolding announced_def by (auto simp: found_service_def registered_row_def)
  from ready(5) have w: "wrk_service_id w = h" "wrk_identity w = strncpy IDENTITY_MAXLEN sender"
    by (auto simp: Worker_make_Inr strncpy_def)
  obtain m w' T1 where a: "armed w T0 m w' T1" and d: "dispatched C h (T1, ms) st1"
    using ready(6) row by (auto simp: waits_def w)
  from armed_row_stored [OF a] obtain i r where i: "workers T1 i = Some r"
    "w_identity r = strncpy IDENTITY_MAXLEN sender" "w_service_ref r = h" by (auto simp: w)
  note s = armed_services [OF a]
  from links_kept_trans [OF dispatched_links [OF d] dispatched_links [OF ready(7)]]
  obtain r' where "services T' = services T0" "workers T' i = Some r'" "w_identity r' = strncpy IDENTITY_MAXLEN sender"
    "w_service_ref r' = h"
    using i s unfolding links_kept_def fst_conv by metis
  with row show ?thesis by metis
qed (use new in \<open>auto simp: no_worker_named_def protocol_defs\<close>)

text \<open>A REPORT goes to the client it names, and the worker's letter is gone.\<close>

lemma keys_named: "keys_ok T \<Longrightarrow> worker_named s T i r \<Longrightarrow> worker_named s T j q \<Longrightarrow> j = i \<and> q = r"
  by (auto simp: worker_named_def keys_ok_def dest: unique_onD)

lemma report_relayed:
  assumes step: "broker_step C (sender # '''' # MDPW_WORKER # MDPW_REPORT # args) (T, ms) (T', ms')"
    and keys: "keys_ok T" and known: "worker_named (c_str sender) T i r" "services T (w_service_ref r) = Some row"
    and frames: "unwrap args = (Some client, answer)"
  shows "\<exists>out. ms' = ms @ wire (client # '''' # MDPC_CLIENT # MDPC_REPORT # strncpy SERVICE_NAME_MAXLEN (x_name row) # answer) # out
      \<and> length out \<le> 1"
    and "\<And>j l. letters T j = Some l \<Longrightarrow> l_worker_ref l = i \<Longrightarrow> letters T' j = None"
proof -
  obtain w' T0 where rep: "reported (worker_of i r) T w' T0"
    and waits: "waits C w' (T0, ms @ [wire (client # '''' # MDPC_CLIENT # MDPC_REPORT # strncpy SERVICE_NAME_MAXLEN (x_name row) # answer)]) (T', ms')"
    using step
  proof (cases rule: broker_step.cases)
    case (report i' r' row' w' T0 client' body1)
    with keys_named [OF keys known(1)] known(2) frames show thesis by (intro that) auto
  qed (use known in \<open>auto simp: no_worker_named_def protocol_defs\<close>)
  from waits_sent [OF waits]
  show "\<exists>out. ms' = ms @ wire (client # '''' # MDPC_CLIENT # MDPC_REPORT # strncpy SERVICE_NAME_MAXLEN (x_name row) # answer) # out
      \<and> length out \<le> 1"
    by (auto simp: sends_def)
  fix j l
  assume j: "letters T j = Some l" "l_worker_ref l = i"
  have "letters T0 j = None"
    using rep j keys by (auto simp: reported_def released_def keys_ok_def dest: unique_onD)
  moreover have "dom (letters T') = dom (letters T0)" using waits_letters [OF waits] by simp
  ultimately show "letters T' j = None" by (metis domIff)
qed

text \<open>A HEARTBEAT of a working worker makes it free although its letter is not done.\<close>

lemma heartbeat_frees:
  assumes step: "broker_step C (sender # '''' # MDPW_WORKER # MDPW_HEARTBEAT # args) (T, ms) (T', ms')"
    and ok: "tables_ok T" and known: "worker_named (c_str sender) T i r" "services T (w_service_ref r) \<noteq> None"
    and busy: "letters T j = Some l" "l_worker_ref l = i" "l_state l = ASSIGNED"
    and idle: "\<forall>k x. \<not> waiting T (w_service_ref r) k x"
  shows "ms' = ms \<and> letters T' j = Some l \<and> (\<exists>r'. workers T' i = Some r' \<and> w_state r' \<in> {ARMED, DISARMED})"
  using step
proof (cases rule: broker_step.cases)
  case (heartbeat i' r')
  have same: "i' = i" "r' = r" using keys_named [OF tables_ok_keys [OF ok] known(1) heartbeat(1)] by simp_all
  from known have r: "workers T i = Some r" by (simp add: worker_named_def)
  from heartbeat(2) obtain m w' T0 where a: "armed (worker_of i r) T m w' T0"
    and d: "dispatched C (w_service_ref r) (T0, ms) (T', ms')"
    using known(2) by (auto simp: same waits_def)
  have T0: "T0 = set_worker i (armed_row (w_service_ref r) m r) T"
    using a worker_of_named [OF ok r] keys_named [OF tables_ok_keys [OF ok] worker_of_named [OF ok r]]
    by (auto simp: armed_def no_worker_named_def)
  obtain T1 where p: "purged C T0 T1" and s: "assigns (w_service_ref r) (T1, ms) (T', ms')"
    using d by (auto simp: dispatched_def)
  have l1: "letters T1 = letters T" using p by (simp add: purged_def T0 set_worker_def)
  then have "T' = T1 \<and> ms' = ms"
    using s idle by (auto simp: assigns_def waiting_def)
  moreover have "\<exists>r'. workers T1 i = Some r' \<and> w_state r' \<in> {ARMED, DISARMED}"
  proof -
    have r0: "workers T0 i = Some (armed_row (w_service_ref r) m r)" by (simp add: T0 set_worker_def)
    with p obtain r1 where r1: "workers T1 i = Some r1"
      unfolding purged_def by (metis domD domI)
    with p r0 have "may_expire C (armed_row (w_service_ref r) m r) r1" by (simp add: purged_def)
    with r1 show ?thesis by (auto simp: may_expire_def armed_row_def)
  qed
  ultimately show ?thesis using l1 busy by simp
qed (use known in \<open>auto simp: no_worker_named_def protocol_defs\<close>)

section \<open>The tables stay well formed\<close>

lemma assigns_tables_ok: "assigns sid st st' \<Longrightarrow> tables_ok (fst st) \<Longrightarrow> tables_ok (fst st')"
  unfolding assigns_def
proof (elim disjE exE conjE)
  fix i r j l x
  assume a: "assign_outcome True (worker_of i r) (letter_of j l) (fst st) x (fst st')"
    and ok: "tables_ok (fst st)" and "\<not> taken (fst st) (worker_of i r) (letter_of j l)"
  then have "keys_ok (fst st')"
    unfolding assign_outcome_def by (auto intro: assigned_keys tables_ok_keys)
  with a ok show "tables_ok (fst st')" by (blast intro: assigned_tables_ok)
qed simp_all

lemma dispatched_tables_ok: "dispatched C sid st st' \<Longrightarrow> tables_ok (fst st) \<Longrightarrow> tables_ok (fst st')"
  unfolding dispatched_def by (elim exE conjE) (drule assigns_tables_ok, simp_all add: purged_tables_ok)

lemma waits_tables_ok: "waits C w st st' \<Longrightarrow> worker_ok w \<Longrightarrow> tables_ok (fst st) \<Longrightarrow> tables_ok (fst st')"
  unfolding waits_def by (elim disjE exE conjE) (simp, drule dispatched_tables_ok, simp_all add: armed_tables_ok)

lemma disarmed_tables_ok:
  assumes "tables_ok T" and "workers T i = Some r"
  shows "tables_ok (set_worker i (r\<lparr>w_state := st\<rparr>) T)"
  by (rule tables_ok_set_worker [OF assms(1) keys_ok_set_worker [OF tables_ok_keys [OF assms(1)] assms(2)]])
    (use assms in \<open>auto simp: tables_ok_def\<close>)

lemma step_tables_ok:
  assumes "broker_step C msg (T, ms) (T', ms')" and ok: "tables_ok T"
  shows "tables_ok T'"
  using assms(1)
proof (cases rule: broker_step.cases)
  case (request name args h row sender l l' T0)
  then have "tables_ok T0" using pushed_tables_ok ok by blast
  with dispatched_tables_ok [OF request(7)] show ?thesis by simp
next
  case (ready sender name ep h T0 w st1 args)
  from ready(5) have "tables_ok T0" using ok by (auto simp: announced_def)
  with waits_tables_ok [OF ready(7) worker_ok_make [OF ready(6)]] dispatched_tables_ok [OF ready(8)] show ?thesis by simp
next
  case (report sender i r row w' T0 args client body1)
  have "worker_ok w'"
    using reported_worker [OF report(4)] by (simp add: worker_ok_def worker_of_def length_strncpy)
  with waits_tables_ok [OF report(6)] reported_tables_ok [OF report(4) ok] show ?thesis by simp
next
  case (heartbeat sender i r args)
  from waits_tables_ok [OF heartbeat(3)] ok show ?thesis by simp
qed (use ok disarmed_tables_ok in \<open>auto simp: worker_named_def\<close>)

section \<open>The broker makes these steps\<close>

context engine_laws
begin

lemma wp_message:
  assumes reliable and "clock_in E C" and "holds (T, ms) b" and "tables_ok T" and "message_fits msg"
    and Q: "\<And>T' ms' b'. holds (T', ms') b' \<Longrightarrow> broker_step C msg (T, ms) (T', ms') \<Longrightarrow> tables_ok T' \<Longrightarrow> Q () b'"
    and F: "\<And>f b'. broker_fault msg T f \<Longrightarrow> R f b'"
  shows "wp (process_message E msg) Q R b"
  by (rule wp_mono [OF wp_process_message [OF assms(1-5)]]) (use Q F in fastforce)+

end

text \<open>A request for a service that is not internal is not a reason to end the process.\<close>

lemma request_no_fault:
  assumes "broker_fault (sender # '''' # MDPC_CLIENT # name # args) T f" and "sender \<noteq> ''''" and "args \<noteq> []" and "\<not> is_mmi name"
  shows False
  using assms(1)
proof (cases rule: broker_fault.cases)
  case mmi_service_args
  with assms(4) show False by (simp add: is_mmi_def)
next
  case mmi_filter_used
  with assms(4) show False by (simp add: is_mmi_def)
qed (use assms in \<open>auto simp: protocol_defs\<close>)

end
