(* ===== verification/Majordomo.thy ===== *)
theory Majordomo
  imports WorkerApi ClientApi BrokerDelivery
begin

text \<open>
  The three sides together: what a client sends is a message the broker's machine has a step
  for, what the broker sends is read by the worker and the client it is meant for, and what
  comes of a worker that announces itself again.  A ROUTER socket puts the sender's identity in
  front of a message it delivers and takes the addressee's identity off a message it sends.
\<close>

section \<open>Between a ROUTER and a DEALER\<close>

definition to_router :: "string \<Rightarrow> (string \<times> bool) list \<Rightarrow> frames" where
  "to_router ident ms = ident # map fst ms"

definition from_router :: "(string \<times> bool) list \<Rightarrow> rx list" where
  "from_router ms = arrives (map fst (tl ms))"

text \<open>Identities that survive the printable form and the fields of the database.\<close>

definition identity_ok :: "string \<Rightarrow> bool" where
  "identity_ok c \<longleftrightarrow> c \<noteq> '''' \<and> length c \<le> IDENTITY_MAXLEN \<and> (NUL \<notin> set c \<or> first_is_identity 1 c)
     \<and> \<not> (length c = IDENTITY_MAXLEN \<and> c ! 0 = CHR ''@'')"

lemma map_fst_flagged [simp]: "map fst (flagged fs) = fs"
  by (induction fs) simp_all

lemma tl_flagged: "tl (flagged (f # fs)) = flagged fs"
  by simp

lemma printable_ok:
  assumes "identity_ok c"
  shows "NUL \<notin> set (printable_first c)" "length (printable_first c) \<le> IDENTITY_MAXLEN" "printable_first c \<noteq> ''''"
    "strncpy IDENTITY_MAXLEN (printable_first c) = printable_first c" "c_str (printable_first c) = printable_first c"
proof -
  have "NUL \<notin> set (printable_first c) \<and> length (printable_first c) \<le> IDENTITY_MAXLEN \<and> printable_first c \<noteq> ''''"
  proof (cases "first_is_identity 1 c")
    case True
    with printable_first_identity [OF True] show ?thesis by (auto simp: IDENTITY_MAXLEN_def)
  next
    case False
    with assms show ?thesis by (simp add: identity_ok_def printable_first_other)
  qed
  then show "NUL \<notin> set (printable_first c)" "length (printable_first c) \<le> IDENTITY_MAXLEN" "printable_first c \<noteq> ''''"
    "strncpy IDENTITY_MAXLEN (printable_first c) = printable_first c" "c_str (printable_first c) = printable_first c"
    by (simp_all add: strncpy_id c_str_id)
qed

lemma wire_printable: "identity_ok c \<Longrightarrow> wire (printable_first c # fs) = flagged (c # fs)"
  using send_printable_first [of c fs] by (simp add: identity_ok_def wire_def)

lemma from_router_wire: "identity_ok c \<Longrightarrow> from_router (wire (printable_first c # fs)) = arrives fs"
  by (simp add: from_router_def wire_printable)

text \<open>The frames of a message as \<open>recv\<close> reads them.\<close>

lemma recv_to_router:
  "recv (arrives (to_router c ms)) = Some (Inr (True, printable_first c # map fst ms, []))"
  using recv_arrives [of c "map fst ms" "[]"] by (simp add: to_router_def)

section \<open>A request and its report\<close>

lemma client_sends:
  "mdcli_send service (Some args) c =
     (Inr 0, c\<lparr>m_cevents := m_cevents c @ [ToBroker (flagged ('''' # MDPC_CLIENT # c_str service # args))]\<rparr>)"
  by (simp add: mdcli_send_def send_persistent_def client_frames_def push_front_c_def c_str_lits send_empty_first lift_c_def
      c_event_def prog_defs del: flagged.simps)

lemma worker_reads_request:
  assumes "watching w" and "c_str from = from" and "c_str header \<noteq> ''''"
  shows "\<exists>w'. recv_pass N (PollReady (arrives ['''', MDPW_WORKER, MDPW_REQUEST, from, header, data])) w
      = (Inr (Some (from, [header, data])), w') \<and> watching w' \<and> m_events w' = m_events w"
  using assms
  by (simp add: recv_pass_def take_message_plain handle_message_def prog_defs update_heartbeat_sign_eq assert_w_def
      parts_def lift_w_def unwrap_def address_def watching_def HEARTBEAT_LIVENESS_def del: arrives_simps)

lemma echo_reports:
  assumes "watching w" and "c_str from = from" and "c_str data \<noteq> ''''" and "header = c_str header"
  shows "Echo_handle_request [header, data] from w
     = (Inr (), w\<lparr>m_events := m_events w @ [to_broker MDPW_REPORT [from, '''', data]]\<rparr>)"
  using assms send_to_broker_live(1) [of w MDPW_REPORT]
  by (simp add: Echo_handle_request_def prog_defs assert_w_def parts_def unwrap_def address_def wrap_empty EMPTY_FRAME_def
      watching_def c_str_worker_lits)

lemma c_take_message_arrives: "c_take_message (arrives ('''' # fs)) c = (Inr ('''' # fs), c)"
  by (simp only: c_take_message_def recv_arrives)
    (simp add: lift_c_def prog_defs printable_first_def first_is_identity_def)

lemma client_reads:
  assumes "args \<noteq> []"
  shows "mdcli_recv (ClientPoll (Some (arrives ('''' # MDPC_CLIENT # command # args))) s p) c = (Inr (Some args), c)"
  using assms
  by (simp add: mdcli_recv_def c_take_message_arrives prog_defs broker_reply_def assert_cl_def parts_def lift_c_def Suc_le_eq
      del: arrives_simps)

section \<open>A worker the broker already knows\<close>

text \<open>
  One exchange: the broker reads the worker's last message, and the worker reads what the broker
  sends for it.  The worker's identity is the name of its service.
\<close>

definition last_sent :: "mdwrk \<Rightarrow> (string \<times> bool) list \<Rightarrow> bool" where
  "last_sent w fs \<longleftrightarrow> m_events w \<noteq> [] \<and> last (m_events w) = SentFrames fs"

inductive exchange ::
  "(timer_mark \<Rightarrow> bool) \<Rightarrow> wnet \<Rightarrow> (tables \<times> outbox) \<times> mdwrk \<Rightarrow> (tables \<times> outbox) \<times> mdwrk \<Rightarrow> bool" for C N where
  "last_sent w fs \<Longrightarrow> broker_step C (to_router (m_service w) fs) (T, ms) (T', ms @ [reply])
     \<Longrightarrow> recv_pass N (PollReady (from_router reply)) w = (Inr None, w')
     \<Longrightarrow> exchange C N ((T, ms), w) ((T', ms @ [reply]), w')"

text \<open>The broker has a row for the worker, and the worker has just announced itself.\<close>

definition stuck :: "string \<Rightarrow> string \<Rightarrow> (tables \<times> outbox) \<times> mdwrk \<Rightarrow> bool" where
  "stuck broker service s \<longleftrightarrow> (\<exists>i r e. worker_named service (fst (fst s)) i r \<and> worker_endpoint service = Some e
     \<and> m_service (snd s) = service \<and> m_broker_endpoint (snd s) = broker \<and> m_worker (snd s) = LiveSocket
     \<and> 0 \<le> m_heartbeat_msec (snd s)
     \<and> last_sent (snd s) (flagged ['''', MDPW_WORKER, MDPW_READY, service, e]))"

lemma ready_again_only:
  assumes "broker_step C (sender # '''' # MDPW_WORKER # MDPW_READY # args) (T, ms) st'"
    and "worker_named (c_str sender) T i r" and "unique_on w_identity (workers T)"
  shows "st' = (set_worker i (r\<lparr>w_state := DISARMED\<rparr>) T, ms @ [wire (disconnect_to (c_str sender))])"
  using assms(1)
proof (cases rule: broker_step.cases)
  case (ready_again i' r')
  then have "i' = i" using assms(2,3) by (auto simp: worker_named_def unique_on_def)
  then show ?thesis using ready_again assms(2) by (simp add: worker_named_def)
qed (use assms(2) in \<open>auto simp: no_worker_named_def protocol_defs\<close>)

text \<open>The clock moves by less than a heartbeat period between two readings of a pass.\<close>

definition quick_clock :: "wnet \<Rightarrow> int \<Rightarrow> bool" where
  "quick_clock N period \<longleftrightarrow> (\<forall>k. n_clock N (Suc k) \<le> n_clock N k + period)"

lemma disconnect_reconnects:
  assumes "m_worker w = LiveSocket" and "connects N w" and e: "worker_endpoint (m_service w) = Some e"
    and "quick_clock N (m_heartbeat_msec w)"
  shows "\<exists>w'. recv_pass N (PollReady (arrives ['''', MDPW_WORKER, MDPW_DISCONNECT])) w = (Inr None, w')
     \<and> m_service w' = m_service w \<and> m_broker_endpoint w' = m_broker_endpoint w \<and> m_worker w' = LiveSocket
     \<and> m_heartbeat_msec w' = m_heartbeat_msec w
     \<and> m_events w' = m_events w @ [Connected (m_service w) (c_str (m_broker_endpoint w)),
          to_broker MDPW_READY [m_service w, e]]"
proof -
  let ?w1 = "w\<lparr>m_heartbeat_at_msec := n_clock N (m_clock_reads w) + m_heartbeat_msec w, m_liveness := HEARTBEAT_LIVENESS,
      m_clock_reads := m_clock_reads w + 1\<rparr>"
  let ?w2 = "reconnected N e ?w1"
  have c: "connects N ?w1" "worker_endpoint (m_service ?w1) = Some e"
    using assms by (simp_all add: connects_def)
  have "handle_message N ['''', MDPW_WORKER, MDPW_DISCONNECT] ?w1 = (Inr None, ?w2)"
    using connect_to_broker_ok [OF c]
    by (simp add: handle_message_def prog_defs assert_w_def parts_def lift_w_def protocol_defs)
  moreover have "send_heartbeat_if_due N ?w2 = (Inr (), ?w2\<lparr>m_clock_reads := m_clock_reads w + 3\<rparr>)"
    using assms(4) [unfolded quick_clock_def, THEN spec [of _ "Suc (m_clock_reads w)"]]
    by (simp add: send_heartbeat_if_due_eq reconnected_def)
  ultimately have "recv_pass N (PollReady (arrives ['''', MDPW_WORKER, MDPW_DISCONNECT])) w
      = (Inr None, ?w2\<lparr>m_clock_reads := m_clock_reads w + 3\<rparr>)"
    by (simp add: recv_pass_def sq_def bnd_def ret_def take_message_plain update_heartbeat_sign_eq del: arrives_simps)
  then show ?thesis
    using assms(1) by (simp add: reconnected_def)
qed

lemma exchange_from_stuck:
  assumes s: "stuck broker service ((T, ms), w)" and keys: "keys_ok T"
    and net: "\<forall>k. n_socket N k" "n_connect N service (c_str broker)" and quick: "quick_clock N (m_heartbeat_msec w)"
  obtains i r w' where "worker_named service T i r"
    and "stuck broker service ((set_worker i (r\<lparr>w_state := DISARMED\<rparr>) T, ms @ [wire (disconnect_to service)]), w')"
    and "m_heartbeat_msec w' = m_heartbeat_msec w"
    and "\<And>s'. exchange C N ((T, ms), w) s' \<longleftrightarrow>
      s' = ((set_worker i (r\<lparr>w_state := DISARMED\<rparr>) T, ms @ [wire (disconnect_to service)]), w')"
proof -
  from s obtain i r e where n: "worker_named service T i r" and e: "worker_endpoint service = Some e"
    and w: "m_service w = service" "m_broker_endpoint w = broker" "m_worker w = LiveSocket" "0 \<le> m_heartbeat_msec w"
    and last: "last_sent w (flagged ['''', MDPW_WORKER, MDPW_READY, service, e])"
    by (auto simp: stuck_def)
  have plain: "identity_ok service" "printable_first service = service" "c_str service = service"
    using e by (auto simp: worker_endpoint_cases identity_ok_def IDENTITY_MAXLEN_def printable_first_def
        first_is_identity_def c_str_def NUL_def split: if_splits)
  have c: "connects N w" "worker_endpoint (m_service w) = Some e"
    using net e by (simp_all add: connects_def w)
  obtain w' where w': "recv_pass N (PollReady (arrives ['''', MDPW_WORKER, MDPW_DISCONNECT])) w = (Inr None, w')"
    "m_service w' = service" "m_broker_endpoint w' = broker" "m_worker w' = LiveSocket" "m_heartbeat_msec w' = m_heartbeat_msec w"
    "m_events w' = m_events w @ [Connected service (c_str broker), to_broker MDPW_READY [service, e]]"
    using disconnect_reconnects [OF w(3) c quick] w by auto
  let ?T' = "set_worker i (r\<lparr>w_state := DISARMED\<rparr>) T" and ?ms' = "ms @ [wire (disconnect_to service)]"
  have read: "from_router (wire (disconnect_to service)) = arrives ['''', MDPW_WORKER, MDPW_DISCONNECT]"
    using from_router_wire [OF plain(1)] by (simp add: disconnect_to_def plain(2))
  have msg: "to_router service (flagged ['''', MDPW_WORKER, MDPW_READY, service, e])
      = service # '''' # MDPW_WORKER # MDPW_READY # [service, e]"
    by (simp only: to_router_def map_fst_flagged)
  have step: "broker_step C (to_router service (flagged ['''', MDPW_WORKER, MDPW_READY, service, e])) (T, ms) (?T', ?ms')"
    using broker_step.ready_again [of service T i r C "[service, e]" ms] n by (simp only: msg plain(3))
  have "worker_named service ?T' i (r\<lparr>w_state := DISARMED\<rparr>)"
    using n by (simp add: worker_named_def set_worker_def)
  moreover have "last_sent w' (flagged ['''', MDPW_WORKER, MDPW_READY, service, e])"
    by (simp add: last_sent_def w'(6) to_broker_def)
  ultimately have "stuck broker service ((?T', ?ms'), w')"
    using e w w' by (auto simp: stuck_def)
  moreover have "exchange C N ((T, ms), w) s' \<longleftrightarrow> s' = ((?T', ?ms'), w')" for s'
  proof
    assume "exchange C N ((T, ms), w) s'"
    then show "s' = ((?T', ?ms'), w')"
    proof cases
      case (1 fs T1 reply w1)
      then have "fs = flagged ['''', MDPW_WORKER, MDPW_READY, service, e]"
        using last by (simp add: last_sent_def)
      then have "broker_step C (service # '''' # MDPW_WORKER # MDPW_READY # [service, e]) (T, ms) (T1, ms @ [reply])"
        using 1 by (simp only: w msg)
      then have "(T1, ms @ [reply]) = (?T', ms @ [wire (disconnect_to service)])"
        using ready_again_only [of C service "[service, e]" T ms] n keys by (simp add: plain keys_ok_def)
      then show ?thesis using 1 w'(1) by (simp add: read)
    qed
  next
    assume "s' = ((?T', ?ms'), w')"
    then show "exchange C N ((T, ms), w) s'"
      using exchange.intros [OF last, of C T ms ?T' "wire (disconnect_to service)" N w'] step w'(1) w(1) by (simp add: read)
  qed
  ultimately show thesis using n w'(5) that by blast
qed

lemma exchanges_never_end:
  assumes "(exchange C N)\<^sup>*\<^sup>* s s'" and "stuck broker service s" and "keys_ok (fst (fst s))"
    and "\<forall>k. n_socket N k" "n_connect N service (c_str broker)" and "quick_clock N (m_heartbeat_msec (snd s))"
  shows "stuck broker service s' \<and> keys_ok (fst (fst s')) \<and> m_heartbeat_msec (snd s') = m_heartbeat_msec (snd s)"
  using assms
proof (induction rule: rtranclp_induct)
  case (step s1 s2)
  obtain T ms w where s1: "s1 = ((T, ms), w)" by (metis prod.exhaust)
  have h: "stuck broker service ((T, ms), w)" "keys_ok T" "m_heartbeat_msec w = m_heartbeat_msec (snd s)"
    using step.IH [OF step.prems] by (simp_all add: s1)
  obtain i r w' where n: "worker_named service T i r"
    and next_stuck: "stuck broker service ((set_worker i (r\<lparr>w_state := DISARMED\<rparr>) T, ms @ [wire (disconnect_to service)]), w')"
    and hb: "m_heartbeat_msec w' = m_heartbeat_msec w"
    and only: "\<And>s'. exchange C N ((T, ms), w) s' \<longleftrightarrow>
      s' = ((set_worker i (r\<lparr>w_state := DISARMED\<rparr>) T, ms @ [wire (disconnect_to service)]), w')"
    by (rule exchange_from_stuck [OF h(1,2) step.prems(3,4)]) (use step.prems(5) h(3) in auto)
  have "keys_ok (set_worker i (r\<lparr>w_state := DISARMED\<rparr>) T)"
    using h(2) n unfolding keys_ok_def set_worker_def worker_named_def
    by (auto intro!: unique_on_upd dest: unique_onD)
  moreover have "s2 = ((set_worker i (r\<lparr>w_state := DISARMED\<rparr>) T, ms @ [wire (disconnect_to service)]), w')"
    using step.hyps(2) only by (simp add: s1)
  ultimately show ?case using next_stuck hb h(3) by simp
qed simp

section \<open>Asking for an endpoint\<close>

lemma mmi_service_step:
  assumes "broker_step C (sender # '''' # MDPC_CLIENT # ''mmi.service'' # [name]) (T, ms) st'"
  obtains reply where "mmi_reply T ''mmi.service'' [name] reply"
    and "st' = (T, ms @ [wire ([c_str sender, '''', MDPC_CLIENT, MDPC_REPORT, MDPC_CLIENT, ''mmi.service''] @ reply)])"
  using assms
proof (cases rule: broker_step.cases)
  case (mmi fs)
  then show thesis using that by (auto simp: mmi_frames_def c_str_lits)
qed (auto simp: is_mmi_def protocol_defs)

lemma reads_mmi_reply:
  "mdcli_recv (ClientPoll (Some (arrives ('''' # MDPC_CLIENT # MDPC_REPORT # MDPC_CLIENT # ''mmi.service'' # reply))) s p) c
     = (Inr (Some (MDPC_CLIENT # ''mmi.service'' # reply)), c)"
  by (rule client_reads) simp

lemma c_str_mmi: "c_str ''mmi.service'' = ''mmi.service''"
  by (simp add: c_str_def NUL_def)

lemma ask_service_info_eq:
  assumes "0 < capacity"
    and "poll = ClientPoll (Some (arrives (['''', MDPC_CLIENT, MDPC_REPORT, MDPC_CLIENT, ''mmi.service''] @ reply))) s p"
  shows "ask_service_info name capacity buf_size poll c =
     endpoint_reply capacity buf_size name ([MDPC_CLIENT, ''mmi.service''] @ reply)
       (c\<lparr>m_cevents := m_cevents c @ [ToBroker (flagged ['''', MDPC_CLIENT, ''mmi.service'', c_str name])]\<rparr>)"
  using assms
  by (simp add: ask_service_info_def prog_defs client_sends reads_mmi_reply push_front_c_def c_str_mmi
      del: flagged.simps arrives_simps)

lemma codes: "atoi (c_str ''200'') = 200" "atoi (c_str ''404'') = 404"
  by code_simp+

lemma endpoint_reply_found:
  assumes "buf_size < capacity" and "c_str endpoint = endpoint"
  shows "\<exists>c'. endpoint_reply capacity buf_size name [MDPC_CLIENT, ''mmi.service'', ''200'', endpoint] c
       = (Inr (200, strncpy buf_size endpoint), c')
     \<and> m_services_info c' = (case m_services_info c name of
          None \<Rightarrow> (m_services_info c)(name \<mapsto> \<lparr>endpoint_external = strncpy ENDPOINT_MAXLEN (strncpy buf_size endpoint), connected = False\<rparr>)
        | Some _ \<Rightarrow> m_services_info c)"
  using assms
  by (cases "m_services_info c name"; cases "name = ''''")
    (simp_all add: endpoint_reply_def prog_defs lift_c_def assert_cl_def codes store_endpoint_def learn_endpoint_def
      service_info_by_name_def insert_service_info_def)

lemma endpoint_reply_missing:
  "endpoint_reply capacity buf_size name [MDPC_CLIENT, ''mmi.service'', ''404''] c = (Inr (404, ''''), c)"
  by (simp add: endpoint_reply_def prog_defs lift_c_def assert_cl_def codes)

text \<open>Any other message in the place of the broker's answer.\<close>

lemma ask_meets_report:
  assumes "0 < capacity" and "first \<noteq> ''mmi.service''"
    and "poll = ClientPoll (Some (arrives (['''', MDPC_CLIENT, MDPC_REPORT, service, first] @ rest))) s p"
  shows "fst (ask_service_info name capacity buf_size poll c) = Inl (CFault AssertFailed)"
  using assms client_reads [where args = "service # first # rest"]
  by (simp add: ask_service_info_def prog_defs client_sends endpoint_reply_def lift_c_def assert_cl_def
      del: flagged.simps arrives_simps)

section \<open>Direct messages\<close>

lemma send_direct_new:
  assumes "m_services_info c (c_str name) = Some i" and "\<not> connected i" and "m_peer c = Some eps"
    and "cn_connect N (endpoint_external i)"
  shows "send_direct N name ('''' # request) c =
     (Inr 1, c\<lparr>m_peer := Some (eps @ [endpoint_external i]), m_services_info := (m_services_info c)(c_str name \<mapsto> i\<lparr>connected := True\<rparr>),
        m_cevents := m_cevents c @ [ToPeer (eps @ [endpoint_external i]) (flagged ('''' # request))]\<rparr>)"
  using assms
  by (simp add: send_direct_def service_info_by_name_def or_zmq_error_def connect_peer_def open_peer_def prog_defs lift_c_def
      send_empty_first c_event_def del: flagged.simps)

lemma send_direct_first:
  assumes "m_services_info c (c_str name) = Some i" and "\<not> connected i" and "m_peer c = None"
    and "cn_socket N (m_csockets c)" and "cn_connect N (endpoint_external i)"
  shows "send_direct N name ('''' # request) c =
     (Inr 1, c\<lparr>m_peer := Some [endpoint_external i], m_csockets := Suc (m_csockets c),
        m_services_info := (m_services_info c)(c_str name \<mapsto> i\<lparr>connected := True\<rparr>),
        m_cevents := m_cevents c @ [ToPeer [endpoint_external i] (flagged ('''' # request))]\<rparr>)"
  using assms
  by (simp add: send_direct_def service_info_by_name_def or_zmq_error_def connect_peer_def open_peer_def prog_defs lift_c_def
      send_empty_first c_event_def c_new_socket_def del: flagged.simps)

lemma client_reads_wire:
  assumes "identity_ok c" and "args \<noteq> []"
  shows "mdcli_recv (ClientPoll (Some (from_router (wire (printable_first c # '''' # MDPC_CLIENT # command # args)))) s p) cl
      = (Inr (Some args), cl)"
  unfolding from_router_wire [OF assms(1)] by (rule client_reads [OF assms(2)])

lemma addressee: "identity_ok c \<Longrightarrow> fst (hd (wire (printable_first c # fs))) = c"
  by (simp add: wire_printable)

end
