(* ===== verification/MemEngine.thy ===== *)
theory MemEngine
  imports BrokerDb MemTables
begin

text \<open>
  An executable engine that keeps the laws of \<open>engine_laws\<close>, of the association lists of
  \<open>MemTables\<close>.  The broker's code runs on it, which is how the
  witnesses evaluate.  \<open>flaky\<close> adds failures from a script to any engine: it keeps the
  laws of an unreliable one.
\<close>

section \<open>Contents and state\<close>

record contents =
  m_services :: "(int \<times> xdb_service) list"
  m_workers :: "(int \<times> xdb_worker) list"
  m_letters :: "(int \<times> xdb_letter) list"

type_synonym mem = "contents memory"

definition tables_of :: "contents \<Rightarrow> tables" where
  "tables_of c = \<lparr>services = map_of (m_services c), workers = map_of (m_workers c), letters = map_of (m_letters c)\<rparr>"

definition mem_tabs :: "mem \<Rightarrow> tables" where
  "mem_tabs m = tables_of (m_cur m)"

definition mem_saved :: "mem \<Rightarrow> tables" where
  "mem_saved m = tables_of (m_base m)"

definition empty_mem :: mem where
  "empty_mem = mem_with \<lparr>m_services = [], m_workers = [], m_letters = []\<rparr>"

text \<open>Its clock stands still.\<close>

definition mem_clock :: timer_mark where
  "mem_clock = Mark 1000 5"

section \<open>Operations\<close>

definition contents_keys_ok :: "contents \<Rightarrow> bool" where
  "contents_keys_ok c \<longleftrightarrow> keys_distinct w_identity (m_workers c) \<and> keys_distinct l_worker_ref (m_letters c)"

definition mem_env :: "mem env" where
  "mem_env =
     \<lparr>trans_start = (\<lambda>_. mem_start),
      trans_commit = mem_commit contents_keys_ok, trans_rollback = mem_rollback,
      get_last_error = looks (\<lambda>_. Some ()) MCO_S_NOTFOUND,
      clock_gettime = looks (\<lambda>_. Some mem_clock) MCO_S_NOTFOUND,
      XDBService = mem_class (\<lambda>m. m_services (m_cur m)) (\<lambda>xs m. m\<lparr>m_cur := (m_cur m)\<lparr>m_services := xs\<rparr>\<rparr>)
        new_service_row apply_service_put,
      XDBWorker = mem_class (\<lambda>m. m_workers (m_cur m)) (\<lambda>xs m. m\<lparr>m_cur := (m_cur m)\<lparr>m_workers := xs\<rparr>\<rparr>)
        new_worker_row apply_worker_put,
      XDBLetter = mem_class (\<lambda>m. m_letters (m_cur m)) (\<lambda>xs m. m\<lparr>m_cur := (m_cur m)\<lparr>m_letters := xs\<rparr>\<rparr>)
        new_letter_row apply_letter_put,
      PK_name_find = (\<lambda>s. looks (\<lambda>m. first_key (\<lambda>r. x_name r = s) (m_services (m_cur m))) MCO_S_NOTFOUND),
      SK_by_ident_find = (\<lambda>s. looks (\<lambda>m. first_key (\<lambda>r. w_identity r = s) (m_workers (m_cur m))) MCO_S_NOTFOUND),
      SK_by_worker_id_find = (\<lambda>i. looks (\<lambda>m. first_key (\<lambda>r. l_worker_ref r = i) (m_letters (m_cur m))) MCO_S_NOTFOUND),
      SK_by_serv_id_cursor = looks (\<lambda>m. if m_workers (m_cur m) = [] then None else Some ()) MCO_S_CURSOR_EMPTY,
      SK_by_serv_id_search = (\<lambda>i. looks (\<lambda>m. all_keys (\<lambda>r. w_service_ref r = i) (m_workers (m_cur m))) MCO_S_NOTFOUND),
      SK_by_serv_id_compare = (\<lambda>h i. looks (\<lambda>m. map_option (\<lambda>r. if w_service_ref r = i then 0 else 1)
        (map_of (m_workers (m_cur m)) h)) MCO_S_NOTFOUND),
      SK_by_state_for_serv_cursor = looks (\<lambda>m. if m_letters (m_cur m) = [] then None else Some ()) MCO_S_CURSOR_EMPTY,
      SK_by_state_for_serv_search = (\<lambda>i st. looks (\<lambda>m. all_keys (\<lambda>r. l_service_ref r = i \<and> l_state r = st)
        (m_letters (m_cur m))) MCO_S_NOTFOUND),
      SK_by_state_for_serv_compare = (\<lambda>h i st. looks (\<lambda>m. map_option (\<lambda>r. if l_service_ref r = i \<and> l_state r = st then 0 else 1)
        (map_of (m_letters (m_cur m)) h)) MCO_S_NOTFOUND),
      from_cursor = (\<lambda>h. looks (\<lambda>_. Some h) MCO_S_NOTFOUND),
      cursor_first = looks (\<lambda>_. Some ()) MCO_S_NOTFOUND,
      cursor_next = looks (\<lambda>_. Some ()) MCO_S_NOTFOUND,
      junk = 0\<rparr>"

section \<open>The laws hold\<close>

lemma mem_services_laws: "class_laws mem_tabs mem_saved mem_depth True (XDBService mem_env) services
    (\<lambda>m T. T\<lparr>services := m\<rparr>) new_service_row apply_service_put service_fits"
  unfolding mem_env_def env.simps by (rule mem_class_laws) (simp_all add: mem_tabs_def tables_of_def mem_saved_def mem_depth_def)

lemma mem_workers_laws: "class_laws mem_tabs mem_saved mem_depth True (XDBWorker mem_env) workers
    (\<lambda>m T. T\<lparr>workers := m\<rparr>) new_worker_row apply_worker_put worker_fits"
  unfolding mem_env_def env.simps by (rule mem_class_laws) (simp_all add: mem_tabs_def tables_of_def mem_saved_def mem_depth_def)

lemma mem_letters_laws: "class_laws mem_tabs mem_saved mem_depth True (XDBLetter mem_env) letters
    (\<lambda>m T. T\<lparr>letters := m\<rparr>) new_letter_row apply_letter_put letter_fits"
  unfolding mem_env_def env.simps by (rule mem_class_laws) (simp_all add: mem_tabs_def tables_of_def mem_saved_def mem_depth_def)

lemma mem_rows [simp]:
  "services (mem_tabs m) = map_of (m_services (m_cur m))"
  "workers (mem_tabs m) = map_of (m_workers (m_cur m))"
  "letters (mem_tabs m) = map_of (m_letters (m_cur m))"
  by (simp_all add: mem_tabs_def tables_of_def)

lemma mem_keys:
  "keys_ok (mem_tabs m) \<longleftrightarrow>
     keys_distinct w_identity (m_workers (m_cur m)) \<and> keys_distinct l_worker_ref (m_letters (m_cur m))"
  by (simp add: keys_ok_def keys_distinct_iff)

lemmas mem_view = view_def mem_tabs_def mem_saved_def mem_depth_def

interpretation mem: engine_laws mem_env mem_tabs mem_saved mem_depth True
proof (intro engine_laws.intro mem_services_laws mem_workers_laws mem_letters_laws engine_laws_axioms.intro, goal_cases)
  case (1 m d)
  show ?case by (simp add: mem_env_def mem_start_def wp_def mem_view)
next
  case (2 d)
  show ?case
    using mem_keys [of d] by (auto simp: mem_env_def mem_commit_def contents_keys_ok_def wp_def mem_view)
next
  case (3 d)
  show ?case by (auto simp: mem_env_def mem_rollback_def mem_view)
next
  case (4 d)
  show ?case by (auto simp: mem_env_def mem_rollback_def mem_view)
next
  case 10
  show ?case unfolding mem_env_def env.simps by (rule obeys_looks) (auto split: if_splits)
next
  case (11 i)
  show ?case
    unfolding mem_env_def env.simps
    by (rule obeys_looks) (auto simp: serves_def dest!: all_keys_Some dest: all_keys_None)
next
  case (14 i st)
  show ?case
    unfolding mem_env_def env.simps
    by (rule obeys_looks) (auto simp: queued_def dest!: all_keys_Some dest: all_keys_None)
qed (unfold mem_env_def env.simps; rule obeys_looks;
     auto simp: normalised_def mem_clock_def BILLION_def serves_def queued_def dest: first_key_Some first_key_None split: if_splits)+

section \<open>An engine that fails\<close>

definition flaky :: "'d env \<Rightarrow> ('d \<times> bool list) env" where
  "flaky E =
     \<lparr>trans_start = (\<lambda>m. flake (trans_start E m)), trans_commit = flake (trans_commit E),
      trans_rollback = (\<lambda>b (d, script). case trans_rollback E b d of (r, d') \<Rightarrow> (r, (d', script))),
      get_last_error = flake (get_last_error E), clock_gettime = flake (clock_gettime E),
      XDBService = flaky_class (XDBService E), XDBWorker = flaky_class (XDBWorker E),
      XDBLetter = flaky_class (XDBLetter E),
      PK_name_find = (\<lambda>s. flake (PK_name_find E s)), SK_by_ident_find = (\<lambda>s. flake (SK_by_ident_find E s)),
      SK_by_worker_id_find = (\<lambda>i. flake (SK_by_worker_id_find E i)),
      SK_by_serv_id_cursor = flake (SK_by_serv_id_cursor E),
      SK_by_serv_id_search = (\<lambda>i. flake (SK_by_serv_id_search E i)),
      SK_by_serv_id_compare = (\<lambda>h i. flake (SK_by_serv_id_compare E h i)),
      SK_by_state_for_serv_cursor = flake (SK_by_state_for_serv_cursor E),
      SK_by_state_for_serv_search = (\<lambda>i st. flake (SK_by_state_for_serv_search E i st)),
      SK_by_state_for_serv_compare = (\<lambda>h i st. flake (SK_by_state_for_serv_compare E h i st)),
      from_cursor = (\<lambda>h. flake (from_cursor E h)), cursor_first = flake (cursor_first E),
      cursor_next = flake (cursor_next E), junk = junk E\<rparr>"

context engine_laws
begin

lemma flaky_engine_laws: "engine_laws (flaky E) (tabs \<circ> fst) (saved \<circ> fst) (depth \<circ> fst) False"
proof (intro engine_laws.intro engine_laws_axioms.intro, goal_cases)
  case 1
  show ?case unfolding flaky_def env.simps by (rule svc.flaky_class_laws)
next
  case 2
  show ?case unfolding flaky_def env.simps by (rule wkr.flaky_class_laws)
next
  case 3
  show ?case unfolding flaky_def env.simps by (rule ltr.flaky_class_laws)
next
  case (4 m d)
  show ?case
    unfolding flaky_def env.simps
    by (rule wp_flake, rule wp_mono [OF start]) (auto simp: view_def)
next
  case (5 d)
  show ?case
    unfolding flaky_def env.simps
    by (rule wp_flake, rule wp_mono [OF commit]) (auto simp: view_def)
next
  case (6 d)
  show ?case
    using rollback [of "fst d"] by (cases d) (auto simp: flaky_def split: prod.splits)
next
  case (7 d)
  show ?case
    using rollback_unopened [of "fst d"] by (cases d) (auto simp: flaky_def view_def split: prod.splits)
qed (unfold flaky_def env.simps, (rule obeys_flake, rule last_error clock find_name find_ident find_worker_id
     serv_id_cursor serv_id_search serv_id_compare state_for_serv_cursor state_for_serv_search
     state_for_serv_compare from_cursor cursor_first cursor_next, simp, simp)+)

end

interpretation flaky_mem: engine_laws "flaky mem_env" "mem_tabs \<circ> fst" "mem_saved \<circ> fst" "mem_depth \<circ> fst" False
  by (rule mem.flaky_engine_laws)

end
