(* ===== verification/BrokerExamples.thy ===== *)
theory BrokerExamples
  imports BrokerDelivery MemEngine
begin

text \<open>
  Small databases on the executable engine, with one service and one worker, on which the
  witnesses of the properties are evaluated.
\<close>

definition sinf :: xdb_service where
  "sinf = \<lparr>x_name = ''SINF'', x_state = XREGISTERED, x_endpoint = ''tcp://localhost:5556''\<rparr>"

definition idle_worker :: xdb_worker where
  "idle_worker = \<lparr>w_identity = ''w1'', w_state = ARMED, w_sec = 1004, w_nsec = 5, w_service_ref = 1, w_letter_ref = 0\<rparr>"

definition busy_worker :: xdb_worker where
  "busy_worker = idle_worker\<lparr>w_state := OCCUPIED, w_letter_ref := 1\<rparr>"

definition assigned_letter :: xdb_letter where
  "assigned_letter = \<lparr>l_service_ref = 1, l_worker_ref = 1, l_state = ASSIGNED, l_origin = ''c1'', l_sec = 1500, l_nsec = 5,
     l_header = ''hdr'', l_body = ''data''\<rparr>"

definition queued_letter :: xdb_letter where
  "queued_letter = assigned_letter\<lparr>l_state := UNASSIGNED\<rparr>"

definition no_workers :: contents where
  "no_workers = \<lparr>m_services = [(1, sinf)], m_workers = [], m_letters = []\<rparr>"

definition idle :: contents where
  "idle = \<lparr>m_services = [(1, sinf)], m_workers = [(1, idle_worker)], m_letters = []\<rparr>"

definition busy :: contents where
  "busy = \<lparr>m_services = [(1, sinf)], m_workers = [(1, busy_worker)], m_letters = [(1, assigned_letter)]\<rparr>"

definition queued :: contents where
  "queued = \<lparr>m_services = [(1, sinf)], m_workers = [(1, idle_worker)], m_letters = [(1, queued_letter)]\<rparr>"

text \<open>A letter of another worker's service still refers to the free worker.\<close>

definition crossed :: contents where
  "crossed = \<lparr>m_services = [(1, sinf)], m_workers = [(1, idle_worker)], m_letters = [(1, assigned_letter)]\<rparr>"

lemmas example_defs = sinf_def idle_worker_def busy_worker_def assigned_letter_def queued_letter_def no_workers_def
  idle_def busy_def queued_def crossed_def tables_of_def

definition broker_with :: "contents \<Rightarrow> mem broker" where
  "broker_with c = Broker_new (mem_with c) 0"

lemma broker_with_stands [simp]: "stands_for mem_tabs mem_saved mem_depth (tables_of c, []) (broker_with c)"
  by (simp add: stands_for_def broker_with_def Broker_new_def mem_with_def mem_view list_ok_def)

lemma mem_with_view [simp]: "view mem_tabs mem_saved mem_depth (tables_of c) (tables_of c) 0 (mem_with c)"
  by (simp add: mem_with_def mem_view)

lemma examples_ok [simp]:
  "tables_ok (tables_of no_workers)" "tables_ok (tables_of idle)" "tables_ok (tables_of busy)"
  "tables_ok (tables_of queued)" "tables_ok (tables_of crossed)"
  by (auto simp: example_defs tables_ok_def keys_ok_def unique_on_def ident_fits_def IDENTITY_MAXLEN_def NUL_def split: if_splits)

lemma examples_keys [simp]:
  "keys_ok (tables_of no_workers)" "keys_ok (tables_of idle)" "keys_ok (tables_of busy)"
  "keys_ok (tables_of queued)" "keys_ok (tables_of crossed)"
  by (simp_all add: tables_ok_keys)

text \<open>A worker's heartbeat, silence, and a message that no broker stands.\<close>

definition three_rounds :: "(frames option \<times> int) list" where
  "three_rounds = [(Some [''w1'', '''', MDPW_WORKER, MDPW_HEARTBEAT], 0), (None, 9000),
     (Some [''w9'', '''', MDPW_WORKER, MDPW_DISCONNECT], 9001)]"

lemma three_rounds_fit: "\<forall>r\<in>set three_rounds. wire_fits (fst r)"
  by (simp add: three_rounds_def wire_fits_def message_fits_def protocol_defs printable_first_def first_is_identity_def)

lemma mem_clock_in: "clock_in mem_env (\<lambda>m. m = mem_clock)"
  by (simp add: clock_in_def wp_def mem_env_def looks_def mem_answer_def)

lemma idle_worker_alive: "alive (\<lambda>m. m = mem_clock) idle_worker"
  by (simp add: alive_def mem_clock_def idle_worker_def)

lemma find_sinf:
  "found_service ''SINF'' (tables_of idle) h row \<longleftrightarrow> h = 1 \<and> row = sinf"
  "found_service ''SINF'' (tables_of crossed) h row \<longleftrightarrow> h = 1 \<and> row = sinf"
  by (auto simp: found_service_def example_defs c_str_def NUL_def split: if_splits)

end
