(* ===== verification/MajordomoExamples.thy ===== *)
theory MajordomoExamples
  imports Majordomo BrokerExamples
begin

text \<open>
  A network on which every socket can be made and every endpoint is accepted, a worker of the
  service \<open>SINF\<close> started on it, and tables in which the broker has a row for that worker.
\<close>

definition steady :: "(nat \<Rightarrow> int) \<Rightarrow> wnet" where
  "steady clock = \<lparr>n_clock = clock, n_socket = \<lambda>_. True, n_connect = \<lambda>_ _. True\<rparr>"

definition started :: "(nat \<Rightarrow> int) \<Rightarrow> mdwrk" where
  "started clock = snd (mdwrk_new (steady clock) ''tcp://broker:5555'' ''SINF'')"

definition restarted_row :: xdb_worker where
  "restarted_row = idle_worker\<lparr>w_identity := ''SINF''\<rparr>"

definition restarted :: contents where
  "restarted = \<lparr>m_services = [(1, sinf)], m_workers = [(1, restarted_row)], m_letters = []\<rparr>"

lemma sinf_endpoint [simp]: "worker_endpoint ''SINF'' = Some ''tcp://localhost:5556''"
  by (simp add: worker_endpoint_cases)

lemma started_eq:
  "started clock = reconnected (steady clock) ''tcp://localhost:5556''
     (mdwrk_fields ''tcp://broker:5555'' ''SINF''\<lparr>m_welcome_endpoint := Some ''tcp://*:5556''\<rparr>)"
proof -
  let ?w = "mdwrk_fields ''tcp://broker:5555'' ''SINF''\<lparr>m_welcome_endpoint := Some ''tcp://*:5556''\<rparr>"
  have "connects (steady clock) ?w" "worker_endpoint (m_service ?w) = Some ''tcp://localhost:5556''"
    by (simp_all add: connects_def steady_def mdwrk_fields_def)
  from connect_to_broker_ok [OF this] show ?thesis
    by (simp add: started_def mdwrk_new_def mdwrk_init_def getEndpoint_worker_True prog_defs lift_w_def mdwrk_fields_def)
qed

lemma started_state [simp]:
  "m_service (started clock) = ''SINF''" "m_broker_endpoint (started clock) = ''tcp://broker:5555''"
  "m_worker (started clock) = LiveSocket" "m_heartbeat_msec (started clock) = HeartbeatInterval"
  "m_liveness (started clock) = HEARTBEAT_LIVENESS" "\<not> interrupt_worker (started clock)"
  "m_heartbeat_at_msec (started clock) = clock 0 + HeartbeatInterval" "m_clock_reads (started clock) = 1"
  "m_events (started clock) = [Connected ''SINF'' (c_str ''tcp://broker:5555''),
     to_broker MDPW_READY [''SINF'', ''tcp://localhost:5556'']]"
  by (simp_all add: started_eq reconnected_def mdwrk_fields_def steady_def)

lemma started_watching [simp]: "watching (started clock)"
  by (simp add: watching_def HEARTBEAT_LIVENESS_def)

lemma restarted_keys [simp]: "keys_ok (tables_of restarted)"
  by (auto simp: restarted_def restarted_row_def tables_of_def keys_ok_def unique_on_def split: if_splits)

lemma restarted_stuck: "stuck ''tcp://broker:5555'' ''SINF'' ((tables_of restarted, []), started clock)"
  by (auto simp: stuck_def worker_named_def restarted_def restarted_row_def tables_of_def last_sent_def to_broker_def
      HeartbeatInterval_def HEARTBEAT_PERIOD_MSEC_def)

end
