(* ===== verification/Spec2Isabelle.thy ===== *)
theory Spec2Isabelle
  imports RtapSubscriptions RtapEventLaws RtapDictionaries DbLife MajordomoExamples
begin

text \<open>
  RTDBUS connects the processes of a real-time database by messages over ZeroMQ.  Clients send
  requests to named services; workers announce themselves as able to serve one; the broker keeps
  services, workers and letters (requests on their way) in a database and hands each request to
  a free worker, in the Majordomo protocol.  This development models the broker from its
  message frames down to the rows of its database, and proves that it is the state machine its
  comments describe, for every behaviour of the database engine the code relies on.

  \<^bold>\<open>The parts and where they are modelled.\<close>
  \<^item> \<open>Prelude\<close>: programs with state and exceptions, their weakest preconditions (\<open>wp\<close>, rules in
    \<open>vcg\<close>), C strings (\<open>c_str\<close>, \<open>strncpy\<close>), shared lemmas.
  \<^item> \<open>Zmsg\<close>, \<open>LogDump\<close>: class \<open>zmsg\<close> (src/mdp/mdp_zmsg.cpp), \<open>hex_dump\<close> (src/tools/helper.cpp).
    A message is the list of its frames; a socket is the list of frames it still delivers.
  \<^item> \<open>Timer\<close>: src/tools/timer.cpp and the option table of src/tools/helper.cpp.
  \<^item> \<open>BrokerObjects\<close>: the classes \<open>Service\<close>, \<open>Worker\<close>, \<open>Letter\<close> (src/xdb/broker/), one record each.
  \<^item> \<open>BrokerStore\<close>: the rows of src/xdb/impl/dat/broker_db.mco and the interface of the eXtremeDB
    runtime.  The runtime is not in the repository: its calls are the fields of the record \<open>env\<close>,
    what the code relies on is the locale \<open>engine_laws\<close> (a call that succeeds does to the tables
    what its documentation says, a call that fails leaves them alone, a rollback restores the
    tables of the transaction's start, unique indexes hold).  The law \<open>reliable\<close> can be switched
    off: then any call may also fail at any time.
  \<^item> \<open>Txn\<close>, \<open>BrokerServices\<close>, \<open>BrokerWorkers\<close>, \<open>BrokerDb\<close>: the methods of \<open>DatabaseBrokerImpl\<close> and
    \<open>ServiceList\<close> (src/xdb/impl/xdb_impl_db_broker.cpp), each a transaction whose \<open>break\<close> is an
    exception.  \<open>BrokerContract\<close>, \<open>BrokerLetters\<close>, \<open>BrokerLists\<close>: what each does to the tables,
    on success, on failure, and on a reliable engine.
  \<^item> \<open>MdpBroker\<close>: the handlers of src/mdp/mdp_broker.cpp, their dispatch, the purge, the loop.
  \<^item> \<open>BrokerSpec\<close>, \<open>BrokerRefinement\<close>: the protocol as a relation on tables and sent messages
    (\<open>broker_step\<close>), the reasons for which the process ends (\<open>broker_fault\<close>), and the proof
    that the handlers do only such steps.  \<open>BrokerSafety\<close>: runs of the loop and what no step
    does.  \<open>BrokerDelivery\<close>: when a request reaches a worker, a report its client.
  \<^item> \<open>WorkerApi\<close>: class \<open>mdwrk\<close> (src/mdp/mdp_worker_api.cpp) and the echo service; \<open>ClientApi\<close>: class
    \<open>mdcli\<close> (src/mdp/mdp_client_async_api.cpp).  What they hand to sockets is a list of events, ZeroMQ
    and the clock are the records \<open>wnet\<close> and \<open>cnet\<close>.  \<open>Majordomo\<close> puts the three sides together: the way
    of a request, the question for an endpoint, and what follows when a known worker announces itself.
  \<^item> \<open>DbLife\<close>: class \<open>DatabaseImpl\<close> (src/xdb/impl/xdb_impl_database.cpp), the life cycle of a database
    instance, over a runtime and a file system given by the record \<open>runtime\<close>; the error codes of
    src/xdb/impl/xdb_impl_error.cpp.
  \<^item> \<open>RtapStore\<close>: the rows of src/xdb/impl/dat/rtap_db.mco that src/xdb/impl/xdb_impl_db_rtap.cpp works on
    (points, the passports of the 37 classes, subscription groups and their items, dictionaries), and the runtime's interface
    to them, the record \<open>rtap_env\<close> with the locale \<open>rtap_laws\<close>, which extends the laws of a class of rows that
    the broker's engine has.
  \<^item> \<open>RtapEvents\<close>: \<open>on_update_VALIDCHANGE\<close> and \<open>GOFVALTI\<close>, what happens when an event code is written to a
    point.  \<open>RegisterEvents\<close> makes the runtime call the handler at each put of that field to a stored point: \<open>fire\<close>,
    which the attribute's writer uses, is the put with the call.  A point that the same transaction creates is taken
    as not yet watched: its creation stores the field and runs no handler.  The same as five tables (value, validity, acquired validity, inhibition, notification), and
    the proof that the code is those tables.  \<open>RtapEventLaws\<close>: what follows for sequences of events.
  \<^item> \<open>RtapGroups\<close>: subscription groups, \<open>Query\<close> and \<open>Config\<close>.  A name that fills its buffer is not terminated
    there and runs on into the memory behind it, which a request carries (\<open>o_behind\<close>, \<open>from_buffer\<close>).  \<open>RtapGroupLaws\<close>: a rule for walking the index of
    changed points and, nested in it, the index of their groups, in terms of the set of memberships visited; what each
    request does to the tables.  \<open>RtapSubscriptions\<close>: requests seen from outside, and sequences of them.
  \<^item> \<open>CommonTables\<close>: the tables of src/xdb/common/xdb_common.cpp: types, sizes, attributes, classes.
  \<^item> \<open>RtapAttributes\<close>: reading and writing one attribute (\<open>read\<close>, \<open>write\<close> and the functions they dispatch
    to), with the caller's \<open>AttributeInfo_t\<close> as a union of bytes and pointers that may be null, wild or
    released; \<open>LoadPointInfo\<close> and reading a group.  \<open>RtapAttrLaws\<close>: a read shows the row and a write changes one
    field of it, with the round trip of the encodings, the types a read leaves on any engine, and
    what the functions that do nothing report.
  \<^item> \<open>RtapPoints\<close>: \<open>PointInDatabase\<close>, the passports, the 73 functions that create attributes, the creation of a
    point, and the loading of dictionaries.  A description of a point may hold texts longer than the fields they go to,
    which the runtime's put functions treat in a way the code does not rely on: the theorems about descriptions
    say for which texts they hold (\<open>info_fits\<close>).  \<open>RtapPointLaws\<close>: every step of a creation keeps one invariant
    (\<open>made\<close>: one more point, one more passport, typed fields), from which the properties of whole creations follow.
    \<open>RtapDictionaries\<close>: a rule for filling a table with a unique index, and the names of values.
  \<^item> \<open>MemTables\<close>: tables as association lists, for any contents, with the laws of a class of rows, and
    the wrapper that makes any call fail; \<open>MemEngine\<close> and \<open>RtapMem\<close> build the two databases on it.
  \<^item> \<open>MemEngine\<close>: an executable engine of association lists that keeps the laws, and the same
    engine with failures from a script; \<open>BrokerExamples\<close>: small databases on it.  The witnesses
    run on them.

  \<^bold>\<open>Loops and bounds.\<close>  \<open>start_brokering\<close> runs for a given list of rounds, one per pass of the
  loop (what \<open>zmq_poll\<close> delivered and the time of day), so a theorem about it holds for every
  number of passes; before them \<open>Init\<close> opens the database and binds the socket, and whether the two succeed are
  parameters.  \<open>brokering_rounds\<close> is the loop itself.  \<open>ClearWorkersForService\<close> is the only unbounded loop of the database code; it is given the
  number of workers as fuel, which \<open>clear_workers_ends\<close> proves enough.  Ids are unbounded
  integers where the database's \<open>autoid\<close> is 64 bits wide; times are 32-bit words in the rows, as in
  the schema.  A cursor of the real-time database is the list of the handles its search found, so walking it
  ends with that list; the values of points are the 64 bits the code copies, not numbers.

  \<^bold>\<open>What is not modelled.\<close>  ZeroMQ, eXtremeDB, protobuf and the code they generate; log output;
  \<open>MakeSnapshot\<close>; reading command lines; resource statistics.  Of the C library, \<open>atof\<close> and \<open>strptime\<close> are
  parameters.  Of the real-time database, the vectors, lists and histories of the passports, which no code
  here touches, and what a failed getter leaves in a local variable; what a group delivers of a point is a
  parameter of \<open>read_group\<close>, which \<open>LoadPointInfo\<close> fits, and loading a dictionary one of \<open>Config\<close>.  The remaining subsystems (snapshots, the digger,
  application messages) are listed in the manifest with the reason.
\<close>

section \<open>The broker\<close>

text \<open>C1. Whatever message arrives, the broker either makes one of the steps of the protocol,
  keeping the tables well formed, or ends for one of the listed reasons.\<close>

theorem broker_refines_protocol:
  assumes "engine_laws E tabs saved depth True" and "clock_in E C"
    and "stands_for tabs saved depth (T, ms) b" and "tables_ok T" and "message_fits msg"
  shows "wp (process_message E msg)
    (\<lambda>_ b'. \<exists>st'. stands_for tabs saved depth st' b' \<and> broker_step C msg (T, ms) st' \<and> tables_ok (fst st'))
    (\<lambda>f _. broker_fault msg T f) b"
  by (rule engine_laws.wp_process_message [OF assms(1) TrueI assms(2-5)])

theorem broker_refines_protocol_witness:
  "wp (process_message mem_env [''c1'', '''', MDPC_CLIENT, ''SINF'', ''hdr'', ''data''])
    (\<lambda>_ b'. \<exists>st'. stands_for mem_tabs mem_saved mem_depth st' b'
       \<and> broker_step (\<lambda>m. m = mem_clock) [''c1'', '''', MDPC_CLIENT, ''SINF'', ''hdr'', ''data''] (tables_of idle, []) st'
       \<and> tables_ok (fst st'))
    (\<lambda>f _. broker_fault [''c1'', '''', MDPC_CLIENT, ''SINF'', ''hdr'', ''data''] (tables_of idle) f) (broker_with idle)"
  by (rule broker_refines_protocol [OF mem.engine_laws_axioms mem_clock_in broker_with_stands examples_ok(2)])
    (simp_all add: message_fits_def protocol_defs)

text \<open>C2. When the broker can connect to its database and bind its address, the loop ends for every
  finite sequence of rounds and what it did is a run of the protocol from the tables it found, with
  purges between the messages; otherwise it does nothing.  It stops early only at a round whose
  message is, for the tables that a run over the rounds before it has reached, one of the listed
  reasons.\<close>

theorem brokering_is_a_run:
  assumes "engine_laws E tabs saved depth True" and "clock_in E C"
    and "wp connect (\<lambda>c b'. c = up \<and> stands_for tabs saved depth st b') (\<lambda>_ _. False) b"
    and "tables_ok (fst st)" and "\<forall>r\<in>set rounds. wire_fits (fst r)"
  shows "wp (start_brokering E connect bind_ok rounds)
    (\<lambda>_ b'. \<exists>st'. stands_for tabs saved depth st' b' \<and> tables_ok (fst st')
       \<and> (if up \<and> bind_ok (c_str bind_address) then broker_run C (map fst rounds) st st' else st' = st))
    (\<lambda>e _. up \<and> bind_ok (c_str bind_address)
       \<and> (\<exists>k st1 f fs. k < length rounds \<and> broker_run C (map fst (take k rounds)) st st1
            \<and> fst (rounds ! k) = Some (f # fs) \<and> broker_fault (printable_first f # fs) (fst st1) e)) b"
  by (rule wp_mono [OF engine_laws.wp_start_brokering [OF assms(1) TrueI assms(2-5)]])
    (use run_fault_round in blast)+

theorem brokering_is_a_run_witness:
  "wp (start_brokering mem_env (ret True) (\<lambda>a. a = ''tcp://lo:5555'') three_rounds)
    (\<lambda>_ b'. \<exists>st'. stands_for mem_tabs mem_saved mem_depth st' b' \<and> tables_ok (fst st')
       \<and> broker_run (\<lambda>m. m = mem_clock) (map fst three_rounds) (tables_of idle, []) st')
    (\<lambda>e _. \<exists>k st1 f fs. k < length three_rounds
       \<and> broker_run (\<lambda>m. m = mem_clock) (map fst (take k three_rounds)) (tables_of idle, []) st1
       \<and> fst (three_rounds ! k) = Some (f # fs) \<and> broker_fault (printable_first f # fs) (fst st1) e) (broker_with idle)"
proof -
  have up: "wp (ret True) (\<lambda>c b'. c = True \<and> stands_for mem_tabs mem_saved mem_depth (tables_of idle, []) b')
      (\<lambda>_ _. False) (broker_with idle)"
    by (rule wp_ret) simp
  have address: "c_str bind_address = ''tcp://lo:5555''" by code_simp
  show ?thesis
    using brokering_is_a_run [OF mem.engine_laws_axioms mem_clock_in up, where bind_ok = "\<lambda>a. a = ''tcp://lo:5555''"
        and rounds = three_rounds] three_rounds_fit
    by (simp only: address examples_ok fst_conv simp_thms if_True TrueI)
qed

text \<open>C3. When a service has a free worker whose time is not over, and no letter waits for it or is
  in the way, a client's request for the service is sent at once to one of the workers of the service
  that were free, with the client's address and the header and body of the request; the letter is
  stored as assigned to that worker.  Which of the free workers gets it is left to the search of
  the database: the purge before it looks at one worker of each service, so among several free
  workers it may be one whose time is over.\<close>

theorem request_reaches_worker:
  assumes "engine_laws E tabs saved depth True" and "clock_in E C"
    and "stands_for tabs saved depth (T, ms) b" and "tables_ok T"
    and "message_fits (sender # '''' # MDPC_CLIENT # name # args)" and "sender \<noteq> ''''" and "args \<noteq> []" and "\<not> is_mmi name"
    and "found_service name T h row" and "\<forall>h' row'. found_service name T h' row' \<longrightarrow> h' = h"
    and "Letter_of_zmsg (c_str sender # '''' # args) = Inr l"
    and "in_state T h ARMED i r" and "alive C r" and "\<forall>j l. \<not> waiting T h j l" and "refs_clear h T"
  shows "wp (process_message E (sender # '''' # MDPC_CLIENT # name # args))
    (\<lambda>_ b'. \<exists>T' i r j. in_state T h ARMED i r \<and> handed_over i j l T'
       \<and> stands_for tabs saved depth (T', ms @ [wire [strncpy IDENTITY_MAXLEN (w_identity r), '''', MDPW_WORKER,
            MDPW_REQUEST, let_reply_to l, let_header l, let_data l]]) b')
    (\<lambda>_ _. False) b"
  by (rule engine_laws.wp_message [OF assms(1) TrueI assms(2-5)])
    (use request_delivered [OF _ assms(8-15)] request_no_fault [OF _ assms(6-8)] in blast)+

theorem request_reaches_worker_witness:
  "wp (process_message mem_env (''c1'' # '''' # MDPC_CLIENT # ''SINF'' # [''hdr'', ''data'']))
    (\<lambda>_ b'. \<exists>T' i r j. in_state (tables_of idle) 1 ARMED i r \<and> handed_over i j (Letter_make ''c1'' ''hdr'' ''data'') T'
       \<and> stands_for mem_tabs mem_saved mem_depth (T', [] @ [wire [strncpy IDENTITY_MAXLEN (w_identity r), '''', MDPW_WORKER,
            MDPW_REQUEST, let_reply_to (Letter_make ''c1'' ''hdr'' ''data''), let_header (Letter_make ''c1'' ''hdr'' ''data''),
            let_data (Letter_make ''c1'' ''hdr'' ''data'')]]) b')
    (\<lambda>_ _. False) (broker_with idle)"
proof (rule request_reaches_worker [OF mem.engine_laws_axioms mem_clock_in broker_with_stands examples_ok(2)])
  show "Letter_of_zmsg (c_str ''c1'' # '''' # [''hdr'', ''data'']) = Inr (Letter_make ''c1'' ''hdr'' ''data'')"
    using Letter_of_zmsg_frames [of "''c1''" "[[]]" "''hdr''" "''data''"] by (simp add: c_str_def NUL_def)
  show "alive (\<lambda>m. m = mem_clock) idle_worker" by (rule idle_worker_alive)
  show "found_service ''SINF'' (tables_of idle) 1 sinf" by (simp add: find_sinf)
  show "\<forall>h' row'. found_service ''SINF'' (tables_of idle) h' row' \<longrightarrow> h' = 1" by (simp add: find_sinf)
  show "in_state (tables_of idle) 1 ARMED 1 idle_worker" by (simp add: in_state_def example_defs)
qed (simp_all add: message_fits_def protocol_defs is_mmi_def waiting_def refs_clear_def ref_ahead_def idle_def tables_of_def)

text \<open>C4. No message makes the broker forget a service or a worker, and every stored letter keeps
  its addressee, sender and text, and its worker once it has one.  Only a REPORT can take a letter
  away: one that is for the service of the reporting worker and whose worker reference is the id of
  that worker.  (Besides the letter the worker has, this can be one that still waits: until it is
  assigned its worker reference is its own id, which may be the id of a worker.)\<close>

theorem nothing_is_lost:
  assumes "engine_laws E tabs saved depth True" and "clock_in E C"
    and "stands_for tabs saved depth (T, ms) b" and "tables_ok T" and "message_fits msg"
  shows "wp (process_message E msg)
    (\<lambda>_ b'. \<exists>T' ms'. stands_for tabs saved depth (T', ms') b' \<and> registered_kept T T' \<and> letters_kept (reporter msg T) T T')
    (\<lambda>f _. broker_fault msg T f) b"
  by (rule engine_laws.wp_message [OF assms(1) TrueI assms(2-5)])
    (use step_keeps in \<open>unfold keeps_def, blast\<close>)+

theorem nothing_is_lost_witness:
  "wp (process_message mem_env [''w1'', '''', MDPW_WORKER, MDPW_DISCONNECT])
    (\<lambda>_ b'. \<exists>T' ms'. stands_for mem_tabs mem_saved mem_depth (T', ms') b' \<and> registered_kept (tables_of busy) T'
       \<and> letters_kept (reporter [''w1'', '''', MDPW_WORKER, MDPW_DISCONNECT] (tables_of busy)) (tables_of busy) T')
    (\<lambda>f _. broker_fault [''w1'', '''', MDPW_WORKER, MDPW_DISCONNECT] (tables_of busy) f) (broker_with busy)"
  by (rule nothing_is_lost [OF mem.engine_laws_axioms mem_clock_in broker_with_stands examples_ok(3)])
    (simp_all add: message_fits_def protocol_defs)

text \<open>C5. A message makes the broker send at most two, after all that it sent before.\<close>

theorem at_most_two_sent:
  assumes "engine_laws E tabs saved depth True" and "clock_in E C"
    and "stands_for tabs saved depth (T, ms) b" and "tables_ok T" and "message_fits msg"
  shows "wp (process_message E msg) (\<lambda>_ b'. \<exists>out. m_sent b' = ms @ out \<and> length out \<le> 2) (\<lambda>f _. broker_fault msg T f) b"
  by (rule engine_laws.wp_message [OF assms(1) TrueI assms(2-5)])
    (use step_sends in \<open>auto simp: sends_def stands_for_def\<close>)

theorem at_most_two_sent_witness:
  "wp (process_message mem_env [''c1'', '''', MDPC_CLIENT, ''IHM'', ''data''])
    (\<lambda>_ b'. \<exists>out. m_sent b' = [] @ out \<and> length out \<le> 2)
    (\<lambda>f _. broker_fault [''c1'', '''', MDPC_CLIENT, ''IHM'', ''data''] (tables_of idle) f) (broker_with idle)"
  by (rule at_most_two_sent [OF mem.engine_laws_axioms mem_clock_in broker_with_stands examples_ok(2)])
    (simp_all add: message_fits_def protocol_defs)

text \<open>C6. READY of a worker the broker does not know stores the worker under its identity, for the
  service that the message names, and the service has the endpoint of the message.\<close>

theorem ready_registers_worker:
  assumes "engine_laws E tabs saved depth True" and "clock_in E C"
    and "stands_for tabs saved depth (T, ms) b" and "tables_ok T"
    and "message_fits (sender # '''' # MDPW_WORKER # MDPW_READY # name # ep # args)"
    and "no_worker_named (c_str sender) T"
  shows "wp (process_message E (sender # '''' # MDPW_WORKER # MDPW_READY # name # ep # args))
    (\<lambda>_ b'. \<exists>T' ms' h i row r. stands_for tabs saved depth (T', ms') b'
       \<and> services T' h = Some row \<and> x_name row = c_str name \<and> x_endpoint row = c_str ep
       \<and> workers T' i = Some r \<and> w_identity r = strncpy IDENTITY_MAXLEN sender \<and> w_service_ref r = h)
    (\<lambda>f _. broker_fault (sender # '''' # MDPW_WORKER # MDPW_READY # name # ep # args) T f) b"
  by (rule engine_laws.wp_message [OF assms(1) TrueI assms(2-5)])
    (use ready_registers [OF _ assms(6)] in blast)+

theorem ready_registers_worker_witness:
  "wp (process_message mem_env (''w2'' # '''' # MDPW_WORKER # MDPW_READY # ''IHM'' # ''tcp://a'' # []))
    (\<lambda>_ b'. \<exists>T' ms' h i row r. stands_for mem_tabs mem_saved mem_depth (T', ms') b'
       \<and> services T' h = Some row \<and> x_name row = c_str ''IHM'' \<and> x_endpoint row = c_str ''tcp://a''
       \<and> workers T' i = Some r \<and> w_identity r = strncpy IDENTITY_MAXLEN ''w2'' \<and> w_service_ref r = h)
    (\<lambda>f _. broker_fault (''w2'' # '''' # MDPW_WORKER # MDPW_READY # ''IHM'' # ''tcp://a'' # []) (tables_of idle) f)
    (broker_with idle)"
  by (rule ready_registers_worker [OF mem.engine_laws_axioms mem_clock_in broker_with_stands examples_ok(2)])
    (auto simp: message_fits_def protocol_defs c_str_def NUL_def SERVICE_NAME_MAXLEN_def ENDPOINT_MAXLEN_def
      no_worker_named_def worker_named_def example_defs split: if_splits)

text \<open>C7. REPORT of a known worker is relayed to the client it names, with the name of the service,
  before anything else is sent, and the letter of the worker is gone.\<close>

theorem report_goes_to_client:
  assumes "engine_laws E tabs saved depth True" and "clock_in E C"
    and "stands_for tabs saved depth (T, ms) b" and "tables_ok T"
    and "message_fits (sender # '''' # MDPW_WORKER # MDPW_REPORT # args)"
    and "worker_named (c_str sender) T i r" and "services T (w_service_ref r) = Some row"
    and "unwrap args = (Some client, answer)"
  shows "wp (process_message E (sender # '''' # MDPW_WORKER # MDPW_REPORT # args))
    (\<lambda>_ b'. \<exists>T' out. stands_for tabs saved depth (T', ms @ wire (client # '''' # MDPC_CLIENT # MDPC_REPORT
          # strncpy SERVICE_NAME_MAXLEN (x_name row) # answer) # out) b'
       \<and> (\<forall>j l. letters T j = Some l \<and> l_worker_ref l = i \<longrightarrow> letters T' j = None))
    (\<lambda>f _. broker_fault (sender # '''' # MDPW_WORKER # MDPW_REPORT # args) T f) b"
  by (rule engine_laws.wp_message [OF assms(1) TrueI assms(2-5)])
    (use report_relayed [OF _ tables_ok_keys [OF assms(4)] assms(6-8)] in blast)+

theorem report_goes_to_client_witness:
  "wp (process_message mem_env (''w1'' # '''' # MDPW_WORKER # MDPW_REPORT # [''c1'', '''', ''hdr'', ''answer'']))
    (\<lambda>_ b'. \<exists>T' out. stands_for mem_tabs mem_saved mem_depth (T', [] @ wire (''c1'' # '''' # MDPC_CLIENT # MDPC_REPORT
          # strncpy SERVICE_NAME_MAXLEN (x_name sinf) # [''hdr'', ''answer'']) # out) b'
       \<and> (\<forall>j l. letters (tables_of busy) j = Some l \<and> l_worker_ref l = 1 \<longrightarrow> letters T' j = None))
    (\<lambda>f _. broker_fault (''w1'' # '''' # MDPW_WORKER # MDPW_REPORT # [''c1'', '''', ''hdr'', ''answer'']) (tables_of busy) f)
    (broker_with busy)"
proof (rule report_goes_to_client [OF mem.engine_laws_axioms mem_clock_in broker_with_stands examples_ok(3)])
  show "worker_named (c_str ''w1'') (tables_of busy) 1 busy_worker"
    by (simp add: worker_named_def example_defs c_str_def NUL_def)
  show "unwrap [''c1'', '''', ''hdr'', ''answer''] = (Some ''c1'', [''hdr'', ''answer''])"
    by (simp add: unwrap_def address_def c_str_def NUL_def)
qed (auto simp: message_fits_def protocol_defs example_defs)

text \<open>HEARTBEAT of a worker that is working on a letter makes it free (or disarms it) although
  the letter stays assigned to it.\<close>

theorem heartbeat_frees_busy_worker:
  assumes "engine_laws E tabs saved depth True" and "clock_in E C"
    and "stands_for tabs saved depth (T, ms) b" and "tables_ok T"
    and "message_fits (sender # '''' # MDPW_WORKER # MDPW_HEARTBEAT # args)" and "sender \<noteq> ''''"
    and "worker_named (c_str sender) T i r" and "services T (w_service_ref r) \<noteq> None"
    and "letters T j = Some l" and "l_worker_ref l = i" and "l_state l = ASSIGNED"
    and "\<forall>k x. \<not> waiting T (w_service_ref r) k x"
  shows "wp (process_message E (sender # '''' # MDPW_WORKER # MDPW_HEARTBEAT # args))
    (\<lambda>_ b'. \<exists>T' r'. stands_for tabs saved depth (T', ms) b' \<and> letters T' j = Some l
       \<and> workers T' i = Some r' \<and> w_state r' \<in> {ARMED, DISARMED})
    (\<lambda>_ _. False) b"
proof (rule engine_laws.wp_message [OF assms(1) TrueI assms(2-5)], goal_cases)
  case (1 T' ms' b')
  from heartbeat_frees [OF 1(2) assms(4,7-12)] 1(1) show ?case by auto
next
  case (2 f b')
  then show ?case by (cases rule: broker_fault.cases) (use assms(6) in \<open>auto simp: protocol_defs\<close>)
qed

theorem heartbeat_frees_busy_worker_witness:
  "wp (process_message mem_env (''w1'' # '''' # MDPW_WORKER # MDPW_HEARTBEAT # []))
    (\<lambda>_ b'. \<exists>T' r'. stands_for mem_tabs mem_saved mem_depth (T', []) b' \<and> letters T' 1 = Some assigned_letter
       \<and> workers T' 1 = Some r' \<and> w_state r' \<in> {ARMED, DISARMED})
    (\<lambda>_ _. False) (broker_with busy)"
proof (rule heartbeat_frees_busy_worker [OF mem.engine_laws_axioms mem_clock_in broker_with_stands examples_ok(3)])
  show "worker_named (c_str ''w1'') (tables_of busy) 1 busy_worker"
    by (simp add: worker_named_def example_defs c_str_def NUL_def)
qed (auto simp: message_fits_def protocol_defs example_defs waiting_def split: if_splits)

text \<open>C29. A request for a service all of whose free workers are referred to by other letters is
  sent to nobody, although there may be free workers; it is stored, as the one letter more than before,
  waiting for the service with the client's address and its header and body.  (No stored letter may
  refer to an id that is not in use, which would make the storing fail.)\<close>

theorem blocked_request_waits:
  assumes "engine_laws E tabs saved depth True" and "clock_in E C"
    and "stands_for tabs saved depth (T, ms) b" and "tables_ok T"
    and "message_fits (sender # '''' # MDPC_CLIENT # name # args)" and "sender \<noteq> ''''" and "args \<noteq> []" and "\<not> is_mmi name"
    and "found_service name T h row" and "\<forall>h' row'. found_service name T h' row' \<longrightarrow> h' = h"
    and "Letter_of_zmsg (c_str sender # '''' # args) = Inr l" and "blocked h T" and "\<not> ref_ahead T"
  shows "wp (process_message E (sender # '''' # MDPC_CLIENT # name # args))
    (\<lambda>_ b'. \<exists>T' j x. stands_for tabs saved depth (T', ms) b' \<and> letters T j = None \<and> letters T' = (letters T)(j \<mapsto> x)
       \<and> waiting T' h j x \<and> l_origin x = let_reply_to l \<and> l_header x = let_header l \<and> l_body x = let_data l)
    (\<lambda>_ _. False) b"
  by (rule engine_laws.wp_message [OF assms(1) TrueI assms(2-5)])
    (use request_held_back [OF _ assms(8-13)] request_no_fault [OF _ assms(6-8)] in
      \<open>unfold queued_request_def, blast\<close>)+

theorem blocked_request_waits_witness:
  "in_state (tables_of crossed) 1 ARMED 1 idle_worker
   \<and> wp (process_message mem_env (''c2'' # '''' # MDPC_CLIENT # ''SINF'' # [''hdr'', ''data'']))
      (\<lambda>_ b'. \<exists>T' j x. stands_for mem_tabs mem_saved mem_depth (T', []) b' \<and> letters (tables_of crossed) j = None
         \<and> letters T' = (letters (tables_of crossed))(j \<mapsto> x) \<and> waiting T' 1 j x
         \<and> l_origin x = let_reply_to (Letter_make ''c2'' ''hdr'' ''data'')
         \<and> l_header x = let_header (Letter_make ''c2'' ''hdr'' ''data'') \<and> l_body x = let_data (Letter_make ''c2'' ''hdr'' ''data''))
      (\<lambda>_ _. False) (broker_with crossed)"
proof (rule conjI)
  have letter: "Letter_of_zmsg (c_str ''c2'' # '''' # [''hdr'', ''data'']) = Inr (Letter_make ''c2'' ''hdr'' ''data'')"
    using Letter_of_zmsg_frames [of "''c2''" "[[]]" "''hdr''" "''data''"] by (simp add: c_str_def NUL_def)
  show "wp (process_message mem_env (''c2'' # '''' # MDPC_CLIENT # ''SINF'' # [''hdr'', ''data'']))
      (\<lambda>_ b'. \<exists>T' j x. stands_for mem_tabs mem_saved mem_depth (T', []) b' \<and> letters (tables_of crossed) j = None
         \<and> letters T' = (letters (tables_of crossed))(j \<mapsto> x) \<and> waiting T' 1 j x
         \<and> l_origin x = let_reply_to (Letter_make ''c2'' ''hdr'' ''data'')
         \<and> l_header x = let_header (Letter_make ''c2'' ''hdr'' ''data'') \<and> l_body x = let_data (Letter_make ''c2'' ''hdr'' ''data''))
      (\<lambda>_ _. False) (broker_with crossed)"
    by (rule blocked_request_waits [OF mem.engine_laws_axioms mem_clock_in broker_with_stands examples_ok(5) _ _ _ _ _ _ letter,
          where row = sinf])
      (simp_all add: find_sinf message_fits_def protocol_defs is_mmi_def,
       simp_all add: blocked_def in_state_def waiting_def ref_ahead_def crossed_def tables_of_def assigned_letter_def)
qed (simp add: in_state_def example_defs)

section \<open>The broker's database\<close>

text \<open>C30. Giving a letter to a worker either links the two rows, or changes nothing; on a reliable
  engine it fails only when a row is missing or another letter refers to the worker.  An engine
  that fails can leave the transaction open although the method reports success.\<close>

theorem assign_letter:
  assumes "engine_laws E tabs saved depth rel" and "view tabs saved depth T T 0 d" and "keys_ok T"
  shows "wp (AssignLetterToWorker E)
    (\<lambda>b (x, d'). if b then (\<exists>T'. view tabs saved depth T' T' 0 d' \<and> assign_outcome rel w l T x T' \<and> keys_ok T')
          \<or> \<not> rel \<and> (\<exists>T'. view tabs saved depth T' T 1 d')
        else view tabs saved depth T T 0 d'
          \<and> (rel \<longrightarrow> letters T (let_id l) = None \<or> workers T (wrk_id w) = None \<or> taken T w l))
    (\<lambda>_ _. False) ((w, l), d)"
  by (rule engine_laws.wp_AssignLetterToWorker [OF assms])

theorem assign_letter_witness:
  "wp (AssignLetterToWorker mem_env)
    (\<lambda>b (x, d'). if b then (\<exists>T'. view mem_tabs mem_saved mem_depth T' T' 0 d'
              \<and> assign_outcome True (worker_of 1 idle_worker) (letter_of 1 queued_letter) (tables_of queued) x T' \<and> keys_ok T')
          \<or> \<not> True \<and> (\<exists>T'. view mem_tabs mem_saved mem_depth T' (tables_of queued) 1 d')
        else view mem_tabs mem_saved mem_depth (tables_of queued) (tables_of queued) 0 d'
          \<and> (True \<longrightarrow> letters (tables_of queued) (let_id (letter_of 1 queued_letter)) = None
              \<or> workers (tables_of queued) (wrk_id (worker_of 1 idle_worker)) = None
              \<or> taken (tables_of queued) (worker_of 1 idle_worker) (letter_of 1 queued_letter)))
    (\<lambda>_ _. False) ((worker_of 1 idle_worker, letter_of 1 queued_letter), mem_with queued)"
  by (rule assign_letter [OF mem.engine_laws_axioms mem_with_view examples_keys(4)])

text \<open>Queueing a request stores it as one more letter, waiting for the service, under a fresh
  id; on a reliable engine it fails only when a stored letter already refers to that id.\<close>

theorem push_request:
  assumes "engine_laws E tabs saved depth rel" and "view tabs saved depth T T 0 d" and "keys_ok T" and "letter_ok l"
    and "length (let_header l) < 65536" and "length (let_data l) < 65536"
  shows "wp (PushRequestToService E (Some s))
    (\<lambda>b (l', d'). if b then (\<exists>T'. view tabs saved depth T' T' 0 d' \<and> pushed (srv_id s) l T l' T' \<and> keys_ok T')
          \<or> \<not> rel \<and> (\<exists>T'. view tabs saved depth T' T 1 d')
        else view tabs saved depth T T 0 d' \<and> (rel \<longrightarrow> ref_ahead T))
    (\<lambda>_ _. False) (l, d)"
  by (rule engine_laws.wp_PushRequestToService [OF assms])

theorem push_request_witness:
  "wp (PushRequestToService mem_env (Some (service_of 1 sinf)))
    (\<lambda>b (l', d'). if b then (\<exists>T'. view mem_tabs mem_saved mem_depth T' T' 0 d'
              \<and> pushed (srv_id (service_of 1 sinf)) (Letter_make ''c1'' ''hdr'' ''data'') (tables_of idle) l' T' \<and> keys_ok T')
          \<or> \<not> True \<and> (\<exists>T'. view mem_tabs mem_saved mem_depth T' (tables_of idle) 1 d')
        else view mem_tabs mem_saved mem_depth (tables_of idle) (tables_of idle) 0 d' \<and> (True \<longrightarrow> ref_ahead (tables_of idle)))
    (\<lambda>_ _. False) (Letter_make ''c1'' ''hdr'' ''data'', mem_with idle)"
  by (rule push_request [OF mem.engine_laws_axioms mem_with_view examples_keys(2) letter_ok_make])
    (simp_all add: Letter_make_def)

text \<open>C31. Releasing a worker removes the one letter that refers to it and arms the worker again;
  nothing changes when there is none.  A letter that refers to it but is for another service ends the
  process: the method returns only when there is none, and it ends with a failed assertion only when there
  is one.\<close>

theorem release_letter:
  assumes "engine_laws E tabs saved depth True" and "view tabs saved depth T T 0 d" and "keys_ok T"
    and "\<not> no_worker_named (wrk_identity w) T"
  shows "wp (ReleaseLetterFromWorker E)
    (\<lambda>b (w', d'). owns_letters w T \<and>
       (if b then \<exists>T'. view tabs saved depth T' T' 0 d' \<and> released w T w' T' \<and> keys_ok T'
        else view tabs saved depth T T 0 d' \<and> w' = w \<and> (\<forall>i r. letters T i = Some r \<longrightarrow> l_worker_ref r \<noteq> wrk_id w)))
    (\<lambda>f _. f = AssertFailed \<and> \<not> owns_letters w T) (w, d)"
  by (rule wp_mono [OF engine_laws.wp_Release_crash [OF assms(1-3) TrueI assms(4)]])
    (auto simp: owns_letters_def split: if_splits)

theorem release_letter_witness:
  "wp (ReleaseLetterFromWorker mem_env)
    (\<lambda>b (w', d'). owns_letters (worker_of 1 busy_worker) (tables_of busy) \<and>
       (if b then \<exists>T'. view mem_tabs mem_saved mem_depth T' T' 0 d'
            \<and> released (worker_of 1 busy_worker) (tables_of busy) w' T' \<and> keys_ok T'
        else view mem_tabs mem_saved mem_depth (tables_of busy) (tables_of busy) 0 d' \<and> w' = worker_of 1 busy_worker
          \<and> (\<forall>i r. letters (tables_of busy) i = Some r \<longrightarrow> l_worker_ref r \<noteq> wrk_id (worker_of 1 busy_worker))))
    (\<lambda>f _. f = AssertFailed \<and> \<not> owns_letters (worker_of 1 busy_worker) (tables_of busy)) (worker_of 1 busy_worker, mem_with busy)"
  by (rule release_letter [OF mem.engine_laws_axioms mem_with_view examples_keys(3)])
    (simp add: no_worker_named_def worker_named_def worker_of_def example_defs strncpy_def c_str_def NUL_def IDENTITY_MAXLEN_def)

text \<open>Registering a worker arms its row, which is made when its identity is new, with the
  worker's service and a time limit of four more seconds; it fails only for an unknown service.\<close>

theorem push_worker:
  assumes "engine_laws E tabs saved depth rel" and "view tabs saved depth T T 0 d" and "keys_ok T" and "worker_ok w"
  shows "wp (PushWorker E)
    (\<lambda>b (w', d'). if b
        then \<exists>T'. view tabs saved depth T' T' 0 d' \<and> (\<exists>m. armed w T m w' T' \<and> (rel \<longrightarrow> fresh_mark m)) \<and> keys_ok T'
        else view tabs saved depth T T 0 d' \<and> (rel \<longrightarrow> services T (wrk_service_id w) = None \<and> w' = w))
    (\<lambda>_ _. False) (w, d)"
  by (rule engine_laws.wp_PushWorker [OF assms])

theorem push_worker_witness:
  "wp (PushWorker mem_env)
    (\<lambda>b (w', d'). if b
        then \<exists>T'. view mem_tabs mem_saved mem_depth T' T' 0 d'
          \<and> (\<exists>m. armed (worker_of 0 idle_worker) (tables_of no_workers) m w' T' \<and> (True \<longrightarrow> fresh_mark m)) \<and> keys_ok T'
        else view mem_tabs mem_saved mem_depth (tables_of no_workers) (tables_of no_workers) 0 d'
          \<and> (True \<longrightarrow> services (tables_of no_workers) (wrk_service_id (worker_of 0 idle_worker)) = None \<and> w' = worker_of 0 idle_worker))
    (\<lambda>_ _. False) (worker_of 0 idle_worker, mem_with no_workers)"
  by (rule push_worker [OF mem.engine_laws_axioms mem_with_view examples_keys(1)]) simp

text \<open>Removing a worker only disarms its row; it fails, changing nothing, when there is no row
  with its identity.\<close>

theorem remove_worker:
  assumes "engine_laws E tabs saved depth rel" and "view tabs saved depth T T 0 d" and "keys_ok T"
  shows "wp (RemoveWorker E)
    (\<lambda>b (w', d'). if b
        then \<exists>T'. view tabs saved depth T' T' 0 d' \<and> (\<exists>h r. worker_named (wrk_identity w) T h r \<and> w' = w\<lparr>wrk_state := DISARMED\<rparr>
            \<and> T' = set_worker h (r\<lparr>w_state := DISARMED\<rparr>) T) \<and> keys_ok T'
        else view tabs saved depth T T 0 d' \<and> (rel \<longrightarrow> w' = w \<and> no_worker_named (wrk_identity w) T))
    (\<lambda>_ _. False) (w, d)"
  by (rule engine_laws.wp_RemoveWorker [OF assms])

theorem remove_worker_witness:
  "wp (RemoveWorker mem_env)
    (\<lambda>b (w', d'). if b
        then \<exists>T'. view mem_tabs mem_saved mem_depth T' T' 0 d'
          \<and> (\<exists>h r. worker_named (wrk_identity (worker_of 1 idle_worker)) (tables_of idle) h r
            \<and> w' = (worker_of 1 idle_worker)\<lparr>wrk_state := DISARMED\<rparr>
            \<and> T' = set_worker h (r\<lparr>w_state := DISARMED\<rparr>) (tables_of idle)) \<and> keys_ok T'
        else view mem_tabs mem_saved mem_depth (tables_of idle) (tables_of idle) 0 d'
          \<and> (True \<longrightarrow> w' = worker_of 1 idle_worker \<and> no_worker_named (wrk_identity (worker_of 1 idle_worker)) (tables_of idle)))
    (\<lambda>_ _. False) (worker_of 1 idle_worker, mem_with idle)"
  by (rule remove_worker [OF mem.engine_laws_axioms mem_with_view examples_keys(2)])

text \<open>Looking for a worker of a service in a state gives the object of such a row and changes
  nothing; on a reliable engine it gives nothing only when there is no such row.\<close>

theorem pop_worker:
  assumes "engine_laws E tabs saved depth rel" and "view tabs saved depth T T 0 d"
  shows "wp (PopWorker E (Some s) st)
    (\<lambda>r d'. view tabs saved depth T T 0 d' \<and> gives rel worker_of worker_like (in_state T (srv_id s) st) r) (\<lambda>_ _. False) d"
  by (rule engine_laws.wp_PopWorker [OF assms])

theorem pop_worker_witness:
  "wp (PopWorker (flaky mem_env) (Some (service_of 1 sinf)) ARMED)
    (\<lambda>r d'. view (mem_tabs \<circ> fst) (mem_saved \<circ> fst) (mem_depth \<circ> fst) (tables_of idle) (tables_of idle) 0 d'
       \<and> gives False worker_of worker_like (in_state (tables_of idle) (srv_id (service_of 1 sinf)) ARMED) r)
    (\<lambda>_ _. False) (mem_with idle, [False, True])"
  by (rule pop_worker [OF flaky_mem.engine_laws_axioms]) (simp add: view_def mem_with_def mem_view)

text \<open>The next letter to send is a waiting letter of the service, with all that is stored of it;
  on a reliable engine there is none only when the queue of the service is empty.\<close>

theorem get_waiting_letter:
  assumes "engine_laws E tabs saved depth rel" and "view tabs saved depth T T 0 d"
  shows "wp (GetWaitingLetter E (Some s))
    (\<lambda>r d'. view tabs saved depth T T 0 d' \<and> gives rel letter_of letter_like (waiting T (srv_id s)) r) (\<lambda>_ _. False) d"
  by (rule engine_laws.wp_GetWaitingLetter [OF assms])

theorem get_waiting_letter_witness:
  "wp (GetWaitingLetter mem_env (Some (service_of 1 sinf)))
    (\<lambda>r d'. view mem_tabs mem_saved mem_depth (tables_of queued) (tables_of queued) 0 d'
       \<and> gives True letter_of letter_like (waiting (tables_of queued) (srv_id (service_of 1 sinf))) r)
    (\<lambda>_ _. False) (mem_with queued)"
  by (rule get_waiting_letter [OF mem.engine_laws_axioms mem_with_view])

text \<open>A service that is added is stored under a fresh id with the default endpoint of its name,
  and the object carries that id.\<close>

theorem add_service:
  assumes "engine_laws E tabs saved depth rel" and "length (c_str name) \<le> SERVICE_NAME_MAXLEN" and "view tabs saved depth T T 0 d"
  shows "wp (AddService E name)
    (\<lambda>r d'. (\<exists>h>0. services T h = None \<and> keys_ok T
            \<and> view tabs saved depth (T\<lparr>services := (services T)(h \<mapsto> registered_row (c_str name))\<rparr>)
                (T\<lparr>services := (services T)(h \<mapsto> registered_row (c_str name))\<rparr>) 0 d'
            \<and> r = Some \<lparr>srv_id = h, srv_name = Some (c_str name), srv_endpoint = None,
                         srv_state = REGISTERED, srv_modified = True\<rparr>)
        \<or> view tabs saved depth T T 0 d' \<and> (rel \<longrightarrow> \<not> keys_ok T))
    (\<lambda>_ _. False) d"
  by (rule engine_laws.wp_AddService [OF assms])

theorem add_service_witness:
  "wp (AddService mem_env ''EXCH'')
    (\<lambda>r d'. (\<exists>h>0. services (tables_of idle) h = None \<and> keys_ok (tables_of idle)
            \<and> view mem_tabs mem_saved mem_depth
                ((tables_of idle)\<lparr>services := (services (tables_of idle))(h \<mapsto> registered_row (c_str ''EXCH''))\<rparr>)
                ((tables_of idle)\<lparr>services := (services (tables_of idle))(h \<mapsto> registered_row (c_str ''EXCH''))\<rparr>) 0 d'
            \<and> r = Some \<lparr>srv_id = h, srv_name = Some (c_str ''EXCH''), srv_endpoint = None,
                         srv_state = REGISTERED, srv_modified = True\<rparr>)
        \<or> view mem_tabs mem_saved mem_depth (tables_of idle) (tables_of idle) 0 d' \<and> (True \<longrightarrow> \<not> keys_ok (tables_of idle)))
    (\<lambda>_ _. False) (mem_with idle)"
  by (rule add_service [OF mem.engine_laws_axioms _ mem_with_view]) (simp add: c_str_def NUL_def SERVICE_NAME_MAXLEN_def)

text \<open>Clearing the workers of a service ends: one round more than there are occupied workers is
  enough, and then the service has no occupied worker and no letter was added.\<close>

theorem clear_workers_ends:
  assumes "engine_laws E tabs saved depth True" and "view tabs saved depth T T 0 d" and "tables_ok T" and "links_ok T"
    and "card (occupied T (srv_id srv)) < fuel"
  shows "wp (ClearWorkersForService fuel E srv)
    (\<lambda>b d'. b \<and> (\<exists>T'. view tabs saved depth T' T' 0 d' \<and> tables_ok T' \<and> links_ok T' \<and> occupied T' (srv_id srv) = {}
        \<and> services T' = services T \<and> letters T' \<subseteq>\<^sub>m letters T)) (\<lambda>_ _. False) d"
  by (rule engine_laws.wp_ClearWorkersForService [OF assms(1) TrueI assms(2-5)])

theorem clear_workers_ends_witness:
  "wp (ClearWorkersForService 2 mem_env (service_of 1 sinf))
    (\<lambda>b d'. b \<and> (\<exists>T'. view mem_tabs mem_saved mem_depth T' T' 0 d' \<and> tables_ok T' \<and> links_ok T'
        \<and> occupied T' (srv_id (service_of 1 sinf)) = {}
        \<and> services T' = services (tables_of busy) \<and> letters T' \<subseteq>\<^sub>m letters (tables_of busy))) (\<lambda>_ _. False) (mem_with busy)"
proof (rule clear_workers_ends [OF mem.engine_laws_axioms mem_with_view examples_ok(3)])
  have "occupied (tables_of busy) (srv_id (service_of 1 sinf)) = {1}"
    by (auto simp: occupied_def in_state_def example_defs service_of_def split: if_splits)
  then show "card (occupied (tables_of busy) (srv_id (service_of 1 sinf))) < 2" by simp
qed (auto simp: links_ok_def example_defs split: if_splits)

text \<open>The second transaction of a cleanup leaves no row in any table.\<close>

theorem cleanup_empties:
  assumes "engine_laws E tabs saved depth True" and "view tabs saved depth T T 0 d"
  shows "wp (run_steps (Cleanup_delete E)) (\<lambda>_ d'. view tabs saved depth no_rows no_rows 0 d') (\<lambda>_ _. False) d"
  by (rule engine_laws.wp_Cleanup_delete [OF assms(1) TrueI assms(2)])

theorem cleanup_empties_witness:
  "wp (run_steps (Cleanup_delete mem_env)) (\<lambda>_ d'. view mem_tabs mem_saved mem_depth no_rows no_rows 0 d') (\<lambda>_ _. False) (mem_with busy)"
  by (rule cleanup_empties [OF mem.engine_laws_axioms mem_with_view])

text \<open>Reading the list of services gives stored services, all of them when there is room and the
  engine is reliable, and the broker keeps the list that it returns.\<close>

theorem service_list_is_read:
  assumes "engine_laws E tabs saved depth rel" and "view tabs saved depth T T 0 (m_database b)" and "list_ok (m_service_list b)"
  shows "wp (GetServiceList E)
    (\<lambda>l b'. view tabs saved depth T T 0 (m_database b') \<and> refresh_reads rel T l \<and> m_service_list b' = Some l) (\<lambda>_ _. False) b"
  by (rule engine_laws.wp_GetServiceList [OF assms(1,2)]) (use assms(3) in \<open>simp add: list_ok_def\<close>)

theorem service_list_is_read_witness:
  "wp (GetServiceList mem_env)
    (\<lambda>l b'. view mem_tabs mem_saved mem_depth (tables_of idle) (tables_of idle) 0 (m_database b')
       \<and> refresh_reads True (tables_of idle) l \<and> m_service_list b' = Some l)
    (\<lambda>_ _. False) \<lparr>m_database = mem_with idle, m_service_list = None\<rparr>"
  by (rule service_list_is_read [OF mem.engine_laws_axioms]) (simp_all add: list_ok_def)

text \<open>C32. A loop over the list calls its body once for each service in it, in order.\<close>

theorem loop_visits_each_service:
  assumes "sl_ok l"
  shows "(case sl_first l of (srv, l1) \<Rightarrow> service_loop f srv l1)
    = sq (foldr (\<lambda>s k. sq (f s) k) (sl_services l) (ret ())) (ret (l\<lparr>sl_index := sl_size l\<rparr>))"
  using service_loop_each [OF assms] by (simp add: each_def)

theorem loop_visits_each_service_witness:
  "(case sl_first (snd (sl_AddService (service_of 1 sinf) ServiceList_new)) of (srv, l1) \<Rightarrow>
      service_loop (\<lambda>s. upd (\<lambda>n. n + srv_id s)) srv l1)
    = sq (foldr (\<lambda>s k. sq (upd (\<lambda>n. n + srv_id s)) k)
           (sl_services (snd (sl_AddService (service_of 1 sinf) ServiceList_new))) (ret ()))
         (ret ((snd (sl_AddService (service_of 1 sinf) ServiceList_new))
           \<lparr>sl_index := sl_size (snd (sl_AddService (service_of 1 sinf) ServiceList_new))\<rparr>))"
  by (rule loop_visits_each_service) (rule sl_AddService_ok(2) [OF sl_ok_new])

text \<open>Setting a worker's state writes the row with its identity, and arming also drops its letter;
  inside another transaction the effect is undone with that one.\<close>

theorem set_worker_state:
  assumes "engine_laws E tabs saved depth rel" and "view tabs saved depth T S n d" and "n = 0 \<Longrightarrow> S = T" and "keys_ok T"
  shows "wp (SetWorkerState E st)
    (\<lambda>b (w', d'). if b then \<exists>T'. view tabs saved depth T' (if n = 0 then T' else S) n d' \<and> state_set rel st w T w' T'
        else \<exists>T'. view tabs saved depth T' S n d' \<and> (n = 0 \<longrightarrow> T' = T) \<and> (rel \<longrightarrow> no_worker_named (wrk_identity w) T))
    (\<lambda>_ _. False) (w, d)"
  by (rule engine_laws.wp_SetWorkerState [OF assms])

theorem set_worker_state_witness:
  "wp (SetWorkerState mem_env ARMED)
    (\<lambda>b (w', d'). if b then \<exists>T'. view mem_tabs mem_saved mem_depth T' (if (0 :: nat) = 0 then T' else tables_of busy) 0 d'
            \<and> state_set True ARMED (worker_of 1 busy_worker) (tables_of busy) w' T'
        else \<exists>T'. view mem_tabs mem_saved mem_depth T' (tables_of busy) 0 d' \<and> ((0 :: nat) = 0 \<longrightarrow> T' = tables_of busy)
            \<and> (True \<longrightarrow> no_worker_named (wrk_identity (worker_of 1 busy_worker)) (tables_of busy)))
    (\<lambda>_ _. False) (worker_of 1 busy_worker, mem_with busy)"
  by (rule set_worker_state [OF mem.engine_laws_axioms mem_with_view _ examples_keys(3)]) simp

text \<open>A service is found by its name exactly when one is stored, with what is stored of it.\<close>

theorem find_service:
  assumes "engine_laws E tabs saved depth rel" and "view tabs saved depth T T 0 d"
  shows "wp (GetServiceByName E name)
     (\<lambda>r d'. view tabs saved depth T T 0 d'
        \<and> (\<forall>srv. r = Some srv \<longrightarrow> (\<exists>h row. services T h = Some row \<and> x_name row = c_str name \<and> srv = service_of h row))
        \<and> (r = None \<longrightarrow> rel \<longrightarrow> \<not> has_service (c_str name) T))
     (\<lambda>_ _. False) d"
  by (rule engine_laws.wp_GetServiceByName [OF assms])

theorem find_service_witness:
  "wp (GetServiceByName mem_env ''SINF'')
     (\<lambda>r d'. view mem_tabs mem_saved mem_depth (tables_of idle) (tables_of idle) 0 d'
        \<and> (\<forall>srv. r = Some srv \<longrightarrow> (\<exists>h row. services (tables_of idle) h = Some row \<and> x_name row = c_str ''SINF'' \<and> srv = service_of h row))
        \<and> (r = None \<longrightarrow> True \<longrightarrow> \<not> has_service (c_str ''SINF'') (tables_of idle)))
     (\<lambda>_ _. False) (mem_with idle)"
  by (rule find_service [OF mem.engine_laws_axioms mem_with_view])

section \<open>Clients, workers and the broker\<close>

text \<open>C34. The way of a request and of its report through the sockets.  What the client sends is the
  message of a request for the broker; the message the broker has for the worker is read as the
  client's address with the header and the data; what the echo service sends for it the broker
  takes apart into that address and the data; and its report is delivered to the client, which
  reads the name of the service and the data.\<close>

theorem request_round_trip:
  assumes "identity_ok c" and "identity_ok wid" and "wrk_identity worker = printable_first wid" and "watching w"
    and "c_str header = header" and "header \<noteq> ''''" and "c_str data = data" and "data \<noteq> ''''"
    and "Letter_of_zmsg (c_str (printable_first c) # '''' # [header, data]) = Inr l"
  shows "(\<exists>fs cl'. mdcli_send service (Some [header, data]) cl = (Inr 0, cl') \<and> m_cevents cl' = m_cevents cl @ [ToBroker fs]
       \<and> recv (arrives (to_router c fs))
         = Some (Inr (True, printable_first c # '''' # MDPC_CLIENT # c_str service # [header, data], [])))
     \<and> (\<exists>w1 w2. recv_pass N (PollReady (from_router (wire (request_to worker l)))) w
           = (Inr (Some (printable_first c, [header, data])), w1)
         \<and> Echo_handle_request [header, data] (printable_first c) w1 = (Inr (), w2)
         \<and> m_events w2 = m_events w @ [to_broker MDPW_REPORT [printable_first c, '''', data]])
     \<and> unwrap [printable_first c, '''', data] = (Some (printable_first c), [data])
     \<and> fst (hd (wire (printable_first c # '''' # MDPC_CLIENT # MDPC_REPORT # service # [data]))) = c
     \<and> mdcli_recv (ClientPoll (Some (from_router
           (wire (printable_first c # '''' # MDPC_CLIENT # MDPC_REPORT # service # [data])))) s p) cl
         = (Inr (Some [service, data]), cl)"
proof (intro conjI)
  note pc = printable_ok [OF assms(1)]
  have l: "request_to worker l = printable_first wid # ['''', MDPW_WORKER, MDPW_REQUEST, printable_first c, header, data]"
    using assms(3,9) Letter_of_zmsg_frames [of "c_str (printable_first c)" "['''']" header data]
    by (auto simp: request_to_def Letter_make_def pc)
  obtain w1 where w1: "recv_pass N (PollReady (from_router (wire (request_to worker l)))) w
      = (Inr (Some (printable_first c, [header, data])), w1)" "watching w1" "m_events w1 = m_events w"
    unfolding l from_router_wire [OF assms(2)]
    using worker_reads_request [OF assms(4) pc(5), of header N data] assms(5,6) by auto
  show "\<exists>w1 w2. recv_pass N (PollReady (from_router (wire (request_to worker l)))) w
           = (Inr (Some (printable_first c, [header, data])), w1)
         \<and> Echo_handle_request [header, data] (printable_first c) w1 = (Inr (), w2)
         \<and> m_events w2 = m_events w @ [to_broker MDPW_REPORT [printable_first c, '''', data]]"
    using w1 echo_reports [OF w1(2) pc(5), of data header] assms(5-8) by simp
qed (use assms(7,8) in \<open>simp_all add: client_sends recv_to_router client_reads_wire [OF assms(1)] addressee [OF assms(1)]
    unwrap_def address_def printable_ok [OF assms(1)] del: flagged.simps arrives_simps\<close>)

theorem request_round_trip_witness:
  "(\<exists>fs cl'. mdcli_send ''SINF'' (Some [''hdr'', ''data'']) (mdcli_fields ''b'') = (Inr 0, cl')
       \<and> m_cevents cl' = m_cevents (mdcli_fields ''b'') @ [ToBroker fs]
       \<and> recv (arrives (to_router ''c1'' fs))
         = Some (Inr (True, printable_first ''c1'' # '''' # MDPC_CLIENT # c_str ''SINF'' # [''hdr'', ''data''], [])))
     \<and> (\<exists>w1 w2. recv_pass (steady (\<lambda>_. 0)) (PollReady (from_router
             (wire (request_to (worker_of 1 idle_worker) (Letter_make ''c1'' ''hdr'' ''data''))))) (started (\<lambda>_. 0))
           = (Inr (Some (printable_first ''c1'', [''hdr'', ''data''])), w1)
         \<and> Echo_handle_request [''hdr'', ''data''] (printable_first ''c1'') w1 = (Inr (), w2)
         \<and> m_events w2 = m_events (started (\<lambda>_. 0)) @ [to_broker MDPW_REPORT [printable_first ''c1'', '''', ''data'']])
     \<and> unwrap [printable_first ''c1'', '''', ''data''] = (Some (printable_first ''c1''), [''data''])
     \<and> fst (hd (wire (printable_first ''c1'' # '''' # MDPC_CLIENT # MDPC_REPORT # ''SINF'' # [''data'']))) = ''c1''
     \<and> mdcli_recv (ClientPoll (Some (from_router
           (wire (printable_first ''c1'' # '''' # MDPC_CLIENT # MDPC_REPORT # ''SINF'' # [''data''])))) None None) (mdcli_fields ''b'')
         = (Inr (Some [''SINF'', ''data'']), mdcli_fields ''b'')"
proof (rule request_round_trip [where wid = "''w1''"])
  have "printable_first ''c1'' = ''c1''" by (simp add: printable_first_def first_is_identity_def)
  then show "Letter_of_zmsg (c_str (printable_first ''c1'') # '''' # [''hdr'', ''data'']) = Inr (Letter_make ''c1'' ''hdr'' ''data'')"
    using Letter_of_zmsg_frames [of "''c1''" "['''']" "''hdr''" "''data''"] by (simp add: c_str_def NUL_def)
  show "wrk_identity (worker_of 1 idle_worker) = printable_first ''w1''"
    by (simp add: worker_of_def idle_worker_def printable_first_def first_is_identity_def strncpy_def c_str_def NUL_def
        IDENTITY_MAXLEN_def)
qed (simp_all add: identity_ok_def IDENTITY_MAXLEN_def c_str_def NUL_def)

text \<open>Whatever the broker does for a client's question about a service, the client that reads
  its answer gets code 200 and the endpoint of an active service of that name, and remembers the
  endpoint if the service was not known to it, or code 404 and no endpoint.\<close>

theorem endpoint_is_learned:
  assumes "broker_step C (printable_first c # '''' # MDPC_CLIENT # ''mmi.service'' # [c_str name]) (T, ms) (T', ms')"
    and "identity_ok c" and "ENDPOINT_MAXLEN < capacity"
  shows "T' = T \<and> (\<exists>code endpoint cl'. ask_service_info name capacity ENDPOINT_MAXLEN
        (ClientPoll (Some (from_router (last ms'))) None None) cl = (Inr (code, endpoint), cl')
     \<and> ((\<exists>h row. code = 200 \<and> found_service name T h row \<and> service_active (service_of h row)
           \<and> endpoint = strncpy ENDPOINT_MAXLEN (x_endpoint row)
           \<and> m_services_info cl' name = Some (case m_services_info cl name of
               None \<Rightarrow> \<lparr>endpoint_external = endpoint, connected = False\<rparr> | Some i \<Rightarrow> i))
       \<or> code = 404 \<and> endpoint = '''' \<and> m_services_info cl' = m_services_info cl
           \<and> (\<not> has_service (c_str name) T
               \<or> (\<exists>h row. found_service name T h row \<and> \<not> service_active (service_of h row)))))"
proof -
  obtain reply where r: "mmi_reply T ''mmi.service'' [c_str name] reply"
    and st: "T' = T" "ms' = ms @ [wire ([printable_first c, '''', MDPC_CLIENT, MDPC_REPORT, MDPC_CLIENT, ''mmi.service''] @ reply)]"
    by (rule mmi_service_step [OF assms(1)]) (simp add: printable_ok [OF assms(2)])
  let ?poll = "ClientPoll (Some (from_router (last ms'))) None None"
  let ?cl = "cl\<lparr>m_cevents := m_cevents cl @ [ToBroker (flagged ['''', MDPC_CLIENT, ''mmi.service'', c_str name])]\<rparr>"
  have ask: "ask_service_info name capacity ENDPOINT_MAXLEN ?poll cl
      = endpoint_reply capacity ENDPOINT_MAXLEN name ([MDPC_CLIENT, ''mmi.service''] @ reply) ?cl"
    by (rule ask_service_info_eq) (use assms(3) from_router_wire [OF assms(2)] in \<open>simp_all add: st del: arrives_simps\<close>)
  have names: "found_service (c_str name) T h row \<longleftrightarrow> found_service name T h row" for h row
    by (simp add: found_service_def)
  from r consider
      (found) h row where "found_service name T h row" "service_active (service_of h row)"
        "reply = [''200'', strncpy ENDPOINT_MAXLEN (x_endpoint row)]"
    | (missing) "reply = [''404'']" "\<not> has_service (c_str name) T
        \<or> (\<exists>h row. found_service name T h row \<and> \<not> service_active (service_of h row))"
    by (auto simp: mmi_reply_def names)
  then show ?thesis
  proof cases
    case found
    with endpoint_reply_found [OF assms(3), of "strncpy ENDPOINT_MAXLEN (x_endpoint row)" name ?cl] show ?thesis
      by (cases "m_services_info cl name") (auto simp: ask st(1) simp del: flagged.simps, blast+)
  next
    case missing
    then show ?thesis by (auto simp: ask st(1) endpoint_reply_missing)
  qed
qed

theorem endpoint_is_learned_witness:
  "tables_of idle = tables_of idle \<and> (\<exists>code endpoint cl'. ask_service_info ''SINF'' 101 ENDPOINT_MAXLEN
        (ClientPoll (Some (from_router (last ([] @ [wire [''c1'', '''', MDPC_CLIENT, MDPC_REPORT, MDPC_CLIENT, ''mmi.service'',
           ''200'', ''tcp://localhost:5556'']])))) None None) (mdcli_fields ''b'') = (Inr (code, endpoint), cl')
     \<and> ((\<exists>h row. code = 200 \<and> found_service ''SINF'' (tables_of idle) h row \<and> service_active (service_of h row)
           \<and> endpoint = strncpy ENDPOINT_MAXLEN (x_endpoint row)
           \<and> m_services_info cl' ''SINF'' = Some (case m_services_info (mdcli_fields ''b'') ''SINF'' of
               None \<Rightarrow> \<lparr>endpoint_external = endpoint, connected = False\<rparr> | Some i \<Rightarrow> i))
       \<or> code = 404 \<and> endpoint = '''' \<and> m_services_info cl' = m_services_info (mdcli_fields ''b'')
           \<and> (\<not> has_service (c_str ''SINF'') (tables_of idle)
               \<or> (\<exists>h row. found_service ''SINF'' (tables_of idle) h row \<and> \<not> service_active (service_of h row)))))"
proof (rule endpoint_is_learned [where c = "''c1''"])
  have c: "printable_first ''c1'' = ''c1''" "c_str ''SINF'' = ''SINF''" "c_str ''c1'' = ''c1''"
    by (simp_all add: printable_first_def first_is_identity_def c_str_def NUL_def)
  have "mmi_reply (tables_of idle) ''mmi.service'' [''SINF''] [''200'', ''tcp://localhost:5556'']"
    by (auto simp: mmi_reply_def find_sinf sinf_def service_of_def service_active_def strncpy_def c_str_def NUL_def ENDPOINT_MAXLEN_def)
  then show "broker_step (\<lambda>m. m = mem_clock) (printable_first ''c1'' # '''' # MDPC_CLIENT # ''mmi.service'' # [c_str ''SINF''])
      (tables_of idle, []) (tables_of idle, [] @ [wire [''c1'', '''', MDPC_CLIENT, MDPC_REPORT, MDPC_CLIENT, ''mmi.service'',
         ''200'', ''tcp://localhost:5556'']])"
    unfolding c by (intro broker_step.mmi) (auto simp: mmi_frames_def c_str_mmi c is_mmi_def)
qed (simp_all add: identity_ok_def IDENTITY_MAXLEN_def NUL_def ENDPOINT_MAXLEN_def)

text \<open>C35. A message for an earlier request that arrives in the place of the broker's answer ends the
  client: the report of a service fails the assertion on the name of the internal service.\<close>

theorem late_report_ends_client:
  assumes "0 < capacity" and "first \<noteq> ''mmi.service''" and "identity_ok c"
  shows "fst (ask_service_info name capacity buf_size (ClientPoll (Some (from_router
      (wire (printable_first c # '''' # MDPC_CLIENT # MDPC_REPORT # service # first # rest)))) s p) cl) = Inl (CFault AssertFailed)"
  by (rule ask_meets_report [OF assms(1,2)]) (simp add: from_router_wire [OF assms(3)] del: arrives_simps)

theorem late_report_ends_client_witness:
  "fst (ask_service_info ''SINF'' 101 ENDPOINT_MAXLEN (ClientPoll (Some (from_router
      (wire (printable_first ''c1'' # '''' # MDPC_CLIENT # MDPC_REPORT # ''IHM'' # ''data'' # [])))) None None) (mdcli_fields ''b''))
    = Inl (CFault AssertFailed)"
  by (rule late_report_ends_client) (simp_all add: identity_ok_def IDENTITY_MAXLEN_def NUL_def)

text \<open>Direct messages for two services leave through one socket that is connected to the
  endpoints of both, so the second message can reach either service.\<close>

theorem direct_socket_is_shared:
  assumes "m_services_info cl (c_str a) = Some i" and "m_services_info cl (c_str b) = Some j" and "c_str a \<noteq> c_str b"
    and "\<not> connected i" and "\<not> connected j" and "m_peer cl = None" and "cn_socket N (m_csockets cl)"
    and "cn_connect N (endpoint_external i)" and "cn_connect N (endpoint_external j)"
  shows "\<exists>cl'. sq (send_by N a (Some first) DIRECT) (send_by N b (Some second) DIRECT) cl = (Inr 1, cl')
     \<and> m_cevents cl' = m_cevents cl @ [ToPeer [endpoint_external i] (flagged ('''' # first)),
          ToPeer [endpoint_external i, endpoint_external j] (flagged ('''' # second))]"
  using send_direct_first [OF assms(1,4,6,7,8), of first] assms
  by (simp add: send_by_def push_front_c_def sq_def bnd_def ret_def send_direct_new del: flagged.simps)

theorem direct_socket_is_shared_witness:
  "\<exists>cl'. sq (send_by \<lparr>cn_socket = \<lambda>_. True, cn_connect = \<lambda>_. True\<rparr> ''SINF'' (Some [''x'']) DIRECT)
        (send_by \<lparr>cn_socket = \<lambda>_. True, cn_connect = \<lambda>_. True\<rparr> ''IHM'' (Some [''y'']) DIRECT)
        (mdcli_fields ''b''\<lparr>m_services_info := [''SINF'' \<mapsto> \<lparr>endpoint_external = ''s'', connected = False\<rparr>,
           ''IHM'' \<mapsto> \<lparr>endpoint_external = ''i'', connected = False\<rparr>]\<rparr>) = (Inr 1, cl')
     \<and> m_cevents cl' = m_cevents (mdcli_fields ''b''\<lparr>m_services_info := [''SINF'' \<mapsto> \<lparr>endpoint_external = ''s'', connected = False\<rparr>,
           ''IHM'' \<mapsto> \<lparr>endpoint_external = ''i'', connected = False\<rparr>]\<rparr>)
         @ [ToPeer [endpoint_external \<lparr>endpoint_external = ''s'', connected = False\<rparr>] (flagged ('''' # [''x''])),
          ToPeer [endpoint_external \<lparr>endpoint_external = ''s'', connected = False\<rparr>,
            endpoint_external \<lparr>endpoint_external = ''i'', connected = False\<rparr>] (flagged ('''' # [''y'']))]"
  by (rule direct_socket_is_shared) (simp_all add: c_str_def NUL_def mdcli_fields_def)

text \<open>C36. A worker whose identity the broker has a row for is never registered again: the broker
  answers its READY with a DISCONNECT, the worker answers that with a READY on a new connection,
  and so on without end, with the row disarmed.\<close>

theorem known_worker_stays_out:
  assumes "stuck broker service s" and "keys_ok (fst (fst s))" and "\<forall>k. n_socket N k" and "n_connect N service (c_str broker)"
    and "quick_clock N (m_heartbeat_msec (snd s))" and "(exchange C N)\<^sup>*\<^sup>* s s'"
  shows "stuck broker service s' \<and> (\<exists>s''. exchange C N s' s'')
    \<and> Collect (exchange C N s') \<subseteq> {s''. \<exists>i r. worker_named service (fst (fst s'')) i r \<and> w_state r = DISARMED}"
proof -
  obtain T ms w where s': "s' = ((T, ms), w)" by (metis prod.exhaust)
  have h: "stuck broker service ((T, ms), w)" "keys_ok T" "m_heartbeat_msec w = m_heartbeat_msec (snd s)"
    using exchanges_never_end [OF assms(6,1,2,3,4,5)] by (simp_all add: s')
  obtain i r w' where n: "worker_named service T i r" and only: "\<And>s''. exchange C N ((T, ms), w) s'' \<longleftrightarrow>
      s'' = ((set_worker i (r\<lparr>w_state := DISARMED\<rparr>) T, ms @ [wire (disconnect_to service)]), w')"
    by (rule exchange_from_stuck [OF h(1,2) assms(3,4)]) (use assms(5) h(3) in auto)
  have "\<exists>j q. worker_named service (set_worker i (r\<lparr>w_state := DISARMED\<rparr>) T) j q \<and> w_state q = DISARMED"
    using n by (auto simp: worker_named_def set_worker_def)
  then show ?thesis using h(1) by (simp add: s' only subset_iff)
qed

theorem known_worker_stays_out_witness:
  "stuck ''tcp://broker:5555'' ''SINF'' ((tables_of restarted, []), started (\<lambda>_. 0))
    \<and> (\<exists>s''. exchange (\<lambda>_. True) (steady (\<lambda>_. 0)) ((tables_of restarted, []), started (\<lambda>_. 0)) s'')
    \<and> Collect (exchange (\<lambda>_. True) (steady (\<lambda>_. 0)) ((tables_of restarted, []), started (\<lambda>_. 0)))
        \<subseteq> {s''. \<exists>i r. worker_named ''SINF'' (fst (fst s'')) i r \<and> w_state r = DISARMED}"
  by (rule known_worker_stays_out [OF restarted_stuck [where clock = "\<lambda>_. 0"]])
    (simp_all add: steady_def quick_clock_def HeartbeatInterval_def HEARTBEAT_PERIOD_MSEC_def)

text \<open>A worker does not notice that its broker has fallen silent: as long as each poll ends after
  the time of the next heartbeat, any number of silent polls only sends heartbeats, since sending
  one also resets the counter that a reconnection waits for.\<close>

theorem silence_goes_unnoticed:
  assumes "watching w" and "\<not> interrupt_worker w" and "m_liveness w = HEARTBEAT_LIVENESS"
    and "polls_outlast N (m_heartbeat_msec w) (m_heartbeat_at_msec w) (m_clock_reads w) n"
  shows "\<exists>w'. mdwrk_recv N True (replicate n (PollSilent, False)) w = (Inr Waiting, w')
     \<and> m_events w' = m_events w @ replicate n (to_broker MDPW_HEARTBEAT []) \<and> m_sockets w' = m_sockets w"
  using silent_passes [of "w\<lparr>m_expect_reply := True\<rparr>" N n] assms recv_within [of N "replicate n (PollSilent, False)" w]
  by (fastforce simp: watching_def HEARTBEAT_LIVENESS_def)

theorem silence_goes_unnoticed_witness:
  "\<exists>w'. mdwrk_recv (steady (\<lambda>k. 3000 * int k)) True (replicate 3 (PollSilent, False)) (started (\<lambda>k. 3000 * int k)) = (Inr Waiting, w')
     \<and> m_events w' = m_events (started (\<lambda>k. 3000 * int k)) @ replicate 3 (to_broker MDPW_HEARTBEAT [])
     \<and> m_sockets w' = m_sockets (started (\<lambda>k. 3000 * int k))"
  by (rule silence_goes_unnoticed)
    (simp_all add: numeral_3_eq_3 steady_def HeartbeatInterval_def HEARTBEAT_PERIOD_MSEC_def)

text \<open>C37. Receiving keeps the worker's counter between one and its full value and its socket live,
  unless it is interrupted; the process ends only for a message that breaks the asserted form or
  for a caller that gives no place for the address.\<close>

theorem worker_keeps_watching:
  assumes "watching w \<or> interrupt_worker w"
  shows "wp (mdwrk_recv N has_reply ps) (\<lambda>_ w'. watching w' \<or> interrupt_worker w')
     (\<lambda>e _. \<not> caught e \<and> (\<not> has_reply \<or> \<not> (\<forall>p\<in>set ps. acceptable_poll (fst p)))) w"
  by (rule wp_mdwrk_recv [OF assms])

theorem worker_keeps_watching_witness:
  "wp (mdwrk_recv (steady (\<lambda>_. 0)) True [(PollSilent, False), (PollReady (arrives ['''', MDPW_WORKER, MDPW_DISCONNECT]), True)])
     (\<lambda>_ w'. watching w' \<or> interrupt_worker w')
     (\<lambda>e _. \<not> caught e \<and> (\<not> True \<or> \<not> (\<forall>p\<in>set [(PollSilent, False), (PollReady (arrives ['''', MDPW_WORKER, MDPW_DISCONNECT]), True)].
        acceptable_poll (fst p)))) (started (\<lambda>_. 0))"
  by (rule worker_keeps_watching) simp

text \<open>A worker of a listed service starts by announcing the service and its endpoint, with the
  address to bind to derived from that endpoint; for any other name, the broker's \<open>EXCH\<close> among
  them, the constructor ends with an exception.\<close>

theorem worker_announces_itself:
  assumes "n_socket N 0" and "n_connect N service (c_str broker)"
  shows "case worker_endpoint service of
      Some e \<Rightarrow> \<exists>w. mdwrk_new N broker service = (Inr (), w) \<and> watching w \<and> \<not> interrupt_worker w
        \<and> m_welcome_endpoint w = Some (''tcp://*:'' @ drop 16 e)
        \<and> m_events w = [Connected service (c_str broker), to_broker MDPW_READY [service, e]]
    | None \<Rightarrow> fst (mdwrk_new N broker service) = Inl (Fault LogicError)"
  using mdwrk_new_known [OF assms] mdwrk_new_unknown [OF assms] by (auto split: option.split)

theorem worker_announces_itself_witness:
  "case worker_endpoint ''EXCH'' of
      Some e \<Rightarrow> \<exists>w. mdwrk_new (steady (\<lambda>_. 0)) ''b'' ''EXCH'' = (Inr (), w) \<and> watching w \<and> \<not> interrupt_worker w
        \<and> m_welcome_endpoint w = Some (''tcp://*:'' @ drop 16 e)
        \<and> m_events w = [Connected ''EXCH'' (c_str ''b''), to_broker MDPW_READY [''EXCH'', e]]
    | None \<Rightarrow> fst (mdwrk_new (steady (\<lambda>_. 0)) ''b'' ''EXCH'') = Inl (Fault LogicError)"
  by (rule worker_announces_itself) (simp_all add: steady_def)

section \<open>Messages, time marks and options\<close>

text \<open>C33. What \<open>send\<close> hands to a socket, \<open>recv\<close> at the other end turns back into the same frames:
  an identity made up by ZeroMQ, made printable on receipt, is its five bytes again on the wire.\<close>

theorem send_after_recv:
  assumes "\<not> (length f = IDENTITY_MAXLEN \<and> f ! 0 = CHR ''@'')"
  shows "\<exists>msg. recv (arrives (f # fs) @ rest) = Some (Inr (True, msg, rest)) \<and> send msg = (Inr (flagged (f # fs)), [])"
  using send_printable_first [OF assms] recv_arrives by blast

theorem send_after_recv_witness:
  "\<exists>msg. recv (arrives ([CHR 0x00, CHR 0x6B, CHR 0x8B, CHR 0x45, CHR 0x67] # [''x'']) @ [])
      = Some (Inr (True, msg, []))
    \<and> send msg = (Inr (flagged ([CHR 0x00, CHR 0x6B, CHR 0x8B, CHR 0x45, CHR 0x67] # [''x''])), [])"
  by (rule send_after_recv) (simp add: IDENTITY_MAXLEN_def)

text \<open>The printable form of a five-byte identity has eleven characters, the first of them \<open>@\<close>,
  and decodes to the identity.\<close>

theorem uuid_round_trip:
  assumes "length d = 5" and "d ! 0 = NUL"
  shows "\<exists>s. encode_uuid d = Inr s \<and> length s = IDENTITY_MAXLEN \<and> s ! 0 = CHR ''@'' \<and> decode_uuid s = Inr d"
  by (rule encode_uuid_Inr [OF assms])

theorem uuid_round_trip_witness:
  "\<exists>s. encode_uuid [NUL, CHR 0x6B, CHR 0x8B, CHR 0x45, CHR 0x67] = Inr s \<and> length s = IDENTITY_MAXLEN \<and> s ! 0 = CHR ''@''
    \<and> decode_uuid s = Inr [NUL, CHR 0x6B, CHR 0x8B, CHR 0x45, CHR 0x67]"
  by (rule uuid_round_trip) simp_all

text \<open>An envelope with an empty delimiter comes off as it was put on.\<close>

theorem unwrap_wrap:
  "unwrap (wrap a (Some EMPTY_FRAME) fs) = (Some (c_str a), fs)"
  by (simp add: EMPTY_FRAME_def unwrap_wrap_empty)

text \<open>\<open>zmsg::dump\<close> writes inside its buffer whatever the frames hold, and prints the first two
  thousand bytes of a frame at most.\<close>

theorem dump_stays_in_buffer:
  assumes "length buf = BUF_SZ_MAX + 10"
  shows "dump buf fs = Inr (map (\<lambda>f. dump_text (min (length f) 2000) f) fs)"
  by (rule dump_in_bounds [OF assms])

theorem dump_stays_in_buffer_witness:
  "dump (replicate 4010 NUL) [''ab'', [CHR 0x01]]
    = Inr (map (\<lambda>f. dump_text (min (length f) 2000) f) [''ab'', [CHR 0x01]])"
  by (rule dump_stays_in_buffer) (simp add: BUF_SZ_MAX_def)

text \<open>\<open>hex_dump\<close> writes past its buffer for 1997 or more bytes that are not all printable.\<close>

theorem hex_dump_overflow:
  assumes "length buf = HEX_DUMP_BUF" and "1997 \<le> length data" and "\<not> list_all printable data"
  shows "\<exists>n. hex_dump buf data = Inl (Overflow n)"
  by (rule hex_dump_overflows [OF assms])

theorem hex_dump_overflow_witness:
  "\<exists>n. hex_dump (replicate HEX_DUMP_BUF NUL) (replicate 1997 NUL) = Inl (Overflow n)"
proof (rule hex_dump_overflow)
  have "NUL \<in> set (replicate 1997 NUL)" by (simp only: in_set_replicate) simp
  then show "\<not> list_all printable (replicate 1997 NUL)"
    using printable_not_NUL unfolding list_all_iff by blast
qed (simp_all only: length_replicate order_refl)

text \<open>Adding and subtracting marks adds and subtracts their nanoseconds, and of marks that a clock
  can give, the difference added to the first is the second.\<close>

theorem time_arithmetic:
  "nanos (timeAdd a b) = nanos a + nanos b \<and> nanos (timeDiff a b) = nanos b - nanos a"
  by (simp add: nanos_timeAdd nanos_timeDiff)

text \<open>Comparing marks of a clock compares the time they stand for.\<close>

theorem time_order:
  assumes "normalised a" and "normalised b"
  shows "timeCmp a b = sgn (nanos a - nanos b)"
  using nanos_less_iff [OF assms] nanos_less_iff [OF assms(2,1)] nanos_inject [OF assms]
  by (cases a b rule: linorder_cases) (auto simp: timeCmp_order)

theorem time_order_witness:
  "timeCmp (Mark 3 7) (Mark 3 9) = sgn (nanos (Mark 3 7) - nanos (Mark 3 9))"
  by (rule time_order) (simp_all add: normalised_def BILLION_def)

text \<open>After any calls of \<open>setOption\<close> an option has the value it had before, or else the first one
  that was given for it.\<close>

theorem options_keep_first:
  "getOption (setOptions kvs opts) k v
    = (case (opts k, map_of kvs k) of (Some x, _) \<Rightarrow> (True, x) | (None, Some x) \<Rightarrow> (True, x) | (None, None) \<Rightarrow> (False, v))"
  by (simp add: getOption_def setOptions_lookup split: option.splits)

text \<open>A letter made from a message has a return address that fits its field, and the last two
  frames as header and body.\<close>

theorem letter_of_message:
  assumes "Letter_of_zmsg (addr # fs @ [h, b]) = Inr l"
  shows "letter_ok l \<and> let_header l = h \<and> let_data l = b \<and> let_reply_to l = strncpy IDENTITY_MAXLEN addr \<and> let_state l = UNASSIGNED"
  using assms letter_ok_of_zmsg [OF assms] by (auto simp: Letter_of_zmsg_frames Letter_make_def)

theorem letter_of_message_witness:
  "letter_ok (Letter_make ''c1'' ''h'' ''b'') \<and> let_header (Letter_make ''c1'' ''h'' ''b'') = ''h''
    \<and> let_data (Letter_make ''c1'' ''h'' ''b'') = ''b'' \<and> let_reply_to (Letter_make ''c1'' ''h'' ''b'') = strncpy IDENTITY_MAXLEN ''c1''
    \<and> let_state (Letter_make ''c1'' ''h'' ''b'') = UNASSIGNED"
  by (rule letter_of_message [where fs = "['''']"]) (rule Letter_of_zmsg_frames)

end
